(* ===== verification/Prelude.thy ===== *)
theory Prelude
  imports Main "HOL-Library.AList" "HOL-Library.List_Lexorder"
begin

text \<open>
  Shared vocabulary of the development: Python strings as lists of Unicode code points,
  Python dictionaries as insertion-ordered association lists, indexing, slicing and
  division as Python computes them, and the lemmas about them that the component
  theories use.
\<close>

named_theorems py_simps \<open>evaluation rules for the Python primitives\<close>

section \<open>Strings\<close>

text \<open>
  A Python \<open>str\<close> is a sequence of code points; its length counts code points. Texts of the
  source outside ASCII are written as their code points, ASCII texts through \<open>ascii\<close>.
\<close>

type_synonym pystr = "nat list"

definition ascii :: "string \<Rightarrow> pystr" where
  "ascii s = map of_char s"

lemma inj_of_char_nat: "inj (of_char :: char \<Rightarrow> nat)"
  by (rule injI) simp

lemma ascii_inject [simp]: "ascii s = ascii t \<longleftrightarrow> s = t"
  by (simp add: ascii_def inj_map_eq_map inj_of_char_nat)

lemma ascii_Nil [simp]: "ascii [] = []" "ascii s = [] \<longleftrightarrow> s = []"
  by (simp_all add: ascii_def)

lemma length_ascii [simp]: "length (ascii s) = length s"
  by (simp add: ascii_def)

text \<open>\<open>str.isspace\<close>: the white space of Unicode as CPython lists it.\<close>

definition is_space :: "nat \<Rightarrow> bool" where
  "is_space c \<longleftrightarrow> (9 \<le> c \<and> c \<le> 13) \<or> (28 \<le> c \<and> c \<le> 32) \<or> c = 133 \<or> c = 160 \<or> c = 5760
     \<or> (8192 \<le> c \<and> c \<le> 8202) \<or> c = 8232 \<or> c = 8233 \<or> c = 8239 \<or> c = 8287 \<or> c = 12288"

definition py_lstrip :: "pystr \<Rightarrow> pystr" where
  "py_lstrip s = dropWhile is_space s"

text \<open>\<open>s.strip()\<close>: drop white space at both ends.\<close>

definition py_strip :: "pystr \<Rightarrow> pystr" where
  "py_strip s = rev (dropWhile is_space (rev (dropWhile is_space s)))"

lemma py_strip_Nil [simp]: "py_strip [] = []"
  by (simp add: py_strip_def)

lemma set_py_strip: "set (py_strip s) \<subseteq> set s"
  by (auto simp: py_strip_def dest!: set_dropWhileD)

lemma length_dropWhile_le': "length (dropWhile P xs) \<le> length xs"
  by (induction xs) auto

lemma length_py_strip: "length (py_strip s) \<le> length s"
  unfolding py_strip_def
  by (metis length_dropWhile_le' length_rev order_trans)

lemma all_dropWhile: "(\<forall>c \<in> set (dropWhile P s). P c) \<longleftrightarrow> (\<forall>c \<in> set s. P c)"
  by (induction s) auto

lemma py_strip_eq_Nil: "py_strip s = [] \<longleftrightarrow> (\<forall>c \<in> set s. is_space c)"
  by (simp add: py_strip_def dropWhile_eq_Nil_conv all_dropWhile)

lemma dropWhile_snoc: "\<not> P x \<Longrightarrow> \<exists>ys. dropWhile P (zs @ [x]) = ys @ [x]"
  by (induction zs) auto

lemma hd_py_strip:
  assumes "py_strip s \<noteq> []"
  shows "\<not> is_space (hd (py_strip s))"
proof -
  let ?d = "dropWhile is_space s"
  have ne: "?d \<noteq> []"
    using assms by (metis py_strip_def dropWhile.simps(1) rev.simps(1))
  then have hd: "\<not> is_space (hd ?d)" by (rule hd_dropWhile)
  obtain x xs where d: "?d = x # xs" using ne by (cases ?d) auto
  with hd have x: "\<not> is_space x" by simp
  then obtain ys where "dropWhile is_space (rev xs @ [x]) = ys @ [x]"
    using dropWhile_snoc [of is_space x "rev xs"] by blast
  then have "py_strip s = x # rev ys" by (simp add: py_strip_def d)
  with x show ?thesis by simp
qed

lemma last_py_strip:
  assumes "py_strip s \<noteq> []"
  shows "\<not> is_space (last (py_strip s))"
  using assms hd_dropWhile [of is_space "rev (dropWhile is_space s)"]
  by (auto simp: py_strip_def last_rev)

lemma py_strip_id:
  assumes "s = [] \<or> (\<not> is_space (hd s) \<and> \<not> is_space (last s))"
  shows "py_strip s = s"
proof (cases s)
  case Nil
  then show ?thesis by simp
next
  case (Cons x xs)
  with assms have "dropWhile is_space s = s" by simp
  moreover have "dropWhile is_space (rev s) = rev s"
    using assms Cons by (cases "rev s") (auto simp: last_rev simp flip: hd_rev)
  ultimately show ?thesis by (simp add: py_strip_def)
qed

lemma py_strip_idem [simp]: "py_strip (py_strip s) = py_strip s"
  by (rule py_strip_id) (use hd_py_strip last_py_strip in blast)

text \<open>The test \<open>not s or not s.strip()\<close> that the code writes for blank text.\<close>

definition blank :: "pystr \<Rightarrow> bool" where
  "blank s \<longleftrightarrow> py_strip s = []"

lemma blank_Nil [simp]: "blank []"
  by (simp add: blank_def)

lemma not_blank_strip [simp]: "blank (py_strip s) \<longleftrightarrow> blank s"
  by (simp add: blank_def)

text \<open>\<open>value or fallback\<close> on optional strings: \<open>None\<close> and the empty string are falsy.\<close>

definition or_str :: "pystr option \<Rightarrow> pystr \<Rightarrow> pystr" where
  "or_str v d = (case v of None \<Rightarrow> d | Some s \<Rightarrow> if s = [] then d else s)"

definition truthy_str :: "pystr option \<Rightarrow> bool" where
  "truthy_str v = (case v of None \<Rightarrow> False | Some s \<Rightarrow> s \<noteq> [])"

lemma truthy_str_simps [simp]:
  "truthy_str None = False" "truthy_str (Some s) = (s \<noteq> [])"
  by (simp_all add: truthy_str_def)

text \<open>\<open>sep.join(parts)\<close>.\<close>

fun py_join :: "pystr \<Rightarrow> pystr list \<Rightarrow> pystr" where
  "py_join sep [] = []"
| "py_join sep [s] = s"
| "py_join sep (s # t # ts) = s @ sep @ py_join sep (t # ts)"

lemma py_join_Nil_sep: "py_join [] ss = concat ss"
  by (induction "[] :: pystr" ss rule: py_join.induct) auto

text \<open>\<open>text.split()\<close>: the maximal runs of non-space characters.\<close>

fun py_split_aux :: "pystr \<Rightarrow> pystr \<Rightarrow> pystr list" where
  "py_split_aux acc [] = (if acc = [] then [] else [acc])"
| "py_split_aux acc (c # cs) =
     (if is_space c then (if acc = [] then py_split_aux [] cs else acc # py_split_aux [] cs)
      else py_split_aux (acc @ [c]) cs)"

definition py_split :: "pystr \<Rightarrow> pystr list" where
  "py_split s = py_split_aux [] s"

lemma concat_py_split_aux: "concat (py_split_aux acc s) = acc @ filter (\<lambda>c. \<not> is_space c) s"
  by (induction acc s rule: py_split_aux.induct) auto

lemma concat_py_split [simp]: "concat (py_split s) = filter (\<lambda>c. \<not> is_space c) s"
  by (simp add: py_split_def concat_py_split_aux)

text \<open>\<open>pattern in text\<close>.\<close>

fun is_prefix_of :: "pystr \<Rightarrow> pystr \<Rightarrow> bool" where
  "is_prefix_of [] s = True"
| "is_prefix_of (c # cs) [] = False"
| "is_prefix_of (c # cs) (d # ds) = (c = d \<and> is_prefix_of cs ds)"

fun py_contains :: "pystr \<Rightarrow> pystr \<Rightarrow> bool" where
  "py_contains p [] = (p = [])"
| "py_contains p (c # cs) = (is_prefix_of p (c # cs) \<or> py_contains p cs)"

lemma is_prefix_of_iff: "is_prefix_of p s \<longleftrightarrow> (\<exists>t. s = p @ t)"
  by (induction p s rule: is_prefix_of.induct) auto

lemma py_contains_iff: "py_contains p s \<longleftrightarrow> (\<exists>a b. s = a @ p @ b)"
proof (induction s)
  case Nil
  then show ?case by auto
next
  case (Cons c cs)
  show ?case
  proof
    assume "py_contains p (c # cs)"
    then consider "is_prefix_of p (c # cs)" | "py_contains p cs" by auto
    then show "\<exists>a b. c # cs = a @ p @ b"
    proof cases
      case 1
      then obtain b where "c # cs = [] @ p @ b" by (auto simp: is_prefix_of_iff)
      then show ?thesis by blast
    next
      case 2
      with Cons.IH obtain a b where "cs = a @ p @ b" by auto
      then have "c # cs = (c # a) @ p @ b" by simp
      then show ?thesis by blast
    qed
  next
    assume "\<exists>a b. c # cs = a @ p @ b"
    then obtain a b where ab: "c # cs = a @ p @ b" by blast
    show "py_contains p (c # cs)"
    proof (cases a)
      case Nil
      with ab have "is_prefix_of p (c # cs)" by (auto simp: is_prefix_of_iff)
      then show ?thesis by simp
    next
      case (Cons d ds)
      with ab have "cs = ds @ p @ b" by simp
      with Cons.IH show ?thesis by auto
    qed
  qed
qed

text \<open>\<open>str(n)\<close> for an integer.\<close>

fun nat_digits :: "nat \<Rightarrow> pystr" where
  "nat_digits n = (if n < 10 then [48 + n] else nat_digits (n div 10) @ [48 + n mod 10])"

declare nat_digits.simps [simp del]

definition int_str :: "int \<Rightarrow> pystr" where
  "int_str i = (if i < 0 then 45 # nat_digits (nat (- i)) else nat_digits (nat i))"

lemma nat_digits_ne [simp]: "nat_digits n \<noteq> []"
  by (subst nat_digits.simps) simp

lemma nat_digits_range: "\<forall>c \<in> set (nat_digits n). 48 \<le> c \<and> c \<le> 57"
proof (induction n rule: nat_digits.induct)
  case (1 n)
  show ?case
  proof (cases "n < 10")
    case True
    then show ?thesis by (subst nat_digits.simps) simp
  next
    case False
    have "n mod 10 < 10" by simp
    then have "n mod 10 \<le> 9" by linarith
    with False "1.IH" show ?thesis
      by (subst nat_digits.simps) auto
  qed
qed

section \<open>Integers\<close>

text \<open>
  \<open>int(a / b)\<close> for integers: the quotient truncated towards zero. True division goes
  through a double; the truncated result is the exact one as long as \<open>\<bar>a\<bar> < 2^53\<close>, which
  sums of scores stay far below.
\<close>

definition py_trunc_div :: "int \<Rightarrow> int \<Rightarrow> int" where
  "py_trunc_div a b = sgn a * sgn b * (\<bar>a\<bar> div \<bar>b\<bar>)"

lemma py_trunc_div_nonneg: "0 \<le> a \<Longrightarrow> 0 < b \<Longrightarrow> py_trunc_div a b = a div b"
  by (auto simp: py_trunc_div_def sgn_if)

lemma py_trunc_div_bounds:
  assumes "0 < b" "b * lo \<le> a" "a \<le> b * hi" "0 \<le> lo"
  shows "lo \<le> py_trunc_div a b \<and> py_trunc_div a b \<le> hi"
proof -
  have "0 \<le> b * lo" using assms by simp
  then have "0 \<le> a" using assms by linarith
  then have eq: "py_trunc_div a b = a div b" using assms by (simp add: py_trunc_div_nonneg)
  have "lo \<le> a div b"
    using zdiv_mono1 [OF assms(2), of b] assms(1) by simp
  moreover have "a div b \<le> hi"
    using zdiv_mono1 [OF assms(3), of b] assms(1) by simp
  ultimately show ?thesis by (simp add: eq)
qed

section \<open>Lists\<close>

text \<open>\<open>enumerate\<close> from 0, with integer indices as the code uses them.\<close>

definition py_enumerate :: "'a list \<Rightarrow> (nat \<times> 'a) list" where
  "py_enumerate xs = List.enumerate 0 xs"

lemma length_py_enumerate [simp]: "length (py_enumerate xs) = length xs"
  by (simp add: py_enumerate_def)

lemma nth_py_enumerate [simp]: "i < length xs \<Longrightarrow> py_enumerate xs ! i = (i, xs ! i)"
  by (simp add: py_enumerate_def nth_enumerate_eq)

text \<open>\<open>xs[:n]\<close>: a negative bound counts from the end.\<close>

definition py_slice_to :: "int \<Rightarrow> 'a list \<Rightarrow> 'a list" where
  "py_slice_to n xs = (if 0 \<le> n then take (nat n) xs else take (length xs - nat (- n)) xs)"

lemma length_py_slice_to: "0 \<le> n \<Longrightarrow> int (length (py_slice_to n xs)) = min n (int (length xs))"
  by (simp add: py_slice_to_def)

text \<open>Order-preserving removal of duplicates: keep the first occurrence.\<close>

fun nub_acc :: "'a list \<Rightarrow> 'a list \<Rightarrow> 'a list" where
  "nub_acc seen [] = []"
| "nub_acc seen (x # xs) = (if x \<in> set seen then nub_acc seen xs else x # nub_acc (x # seen) xs)"

lemma set_nub_acc: "set (nub_acc seen xs) = set xs - set seen"
  by (induction seen xs rule: nub_acc.induct) auto

lemma distinct_nub_acc: "distinct (nub_acc seen xs)"
  by (induction seen xs rule: nub_acc.induct) (auto simp: set_nub_acc)

section \<open>Dictionaries\<close>

text \<open>
  A Python dictionary keeps its keys in insertion order, and assigning to a present key
  leaves the key where it is: an association list with \<open>AList.update\<close>.
\<close>

type_synonym ('k, 'v) dict = "('k \<times> 'v) list"

abbreviation dict_get :: "('k, 'v) dict \<Rightarrow> 'k \<Rightarrow> 'v option" where
  "dict_get d k \<equiv> map_of d k"

abbreviation dict_set :: "'k \<Rightarrow> 'v \<Rightarrow> ('k, 'v) dict \<Rightarrow> ('k, 'v) dict" where
  "dict_set k v d \<equiv> AList.update k v d"

abbreviation dict_keys :: "('k, 'v) dict \<Rightarrow> 'k list" where
  "dict_keys d \<equiv> map fst d"

abbreviation dict_wf :: "('k, 'v) dict \<Rightarrow> bool" where
  "dict_wf d \<equiv> distinct (map fst d)"

definition dict_get_default :: "('k, 'v) dict \<Rightarrow> 'k \<Rightarrow> 'v \<Rightarrow> 'v" where
  "dict_get_default d k v = (case dict_get d k of None \<Rightarrow> v | Some x \<Rightarrow> x)"

definition dict_setdefault :: "'k \<Rightarrow> 'v \<Rightarrow> ('k, 'v) dict \<Rightarrow> ('k, 'v) dict" where
  "dict_setdefault k v d = (case dict_get d k of None \<Rightarrow> dict_set k v d | Some _ \<Rightarrow> d)"

text \<open>\<open>d.setdefault(k, []).append(x)\<close>.\<close>

definition dict_append :: "'k \<Rightarrow> 'v \<Rightarrow> ('k, 'v list) dict \<Rightarrow> ('k, 'v list) dict" where
  "dict_append k x d = dict_set k (dict_get_default d k [] @ [x]) d"

lemma dict_get_set [simp]: "dict_get (dict_set k v d) k' = (if k' = k then Some v else dict_get d k')"
  by (simp add: update_conv')

lemma dict_wf_set [simp]: "dict_wf d \<Longrightarrow> dict_wf (dict_set k v d)"
  by (rule distinct_update)

lemma dict_wf_setdefault [simp]: "dict_wf d \<Longrightarrow> dict_wf (dict_setdefault k v d)"
  by (simp add: dict_setdefault_def split: option.split)

lemma dict_wf_append [simp]: "dict_wf d \<Longrightarrow> dict_wf (dict_append k v d)"
  by (simp add: dict_append_def)

lemma dict_get_setdefault [simp]:
  "dict_get (dict_setdefault k v d) k' =
     (if k' = k then Some (dict_get_default d k v) else dict_get d k')"
  by (auto simp: dict_setdefault_def dict_get_default_def split: option.split)

lemma dict_get_append [simp]:
  "dict_get (dict_append k x d) k' =
     (if k' = k then Some (dict_get_default d k [] @ [x]) else dict_get d k')"
  by (simp add: dict_append_def)

lemma set_dict_keys_set [simp]: "fst ` set (dict_set k v d) = insert k (fst ` set d)"
  by (simp add: dom_map_of_conv_image_fst [symmetric] update_conv')

lemma sum_dict_set:
  fixes f :: "'v \<Rightarrow> int"
  assumes "dict_wf d"
  shows "sum_list (map (\<lambda>p. f (snd p)) (dict_set k v d)) =
         sum_list (map (\<lambda>p. f (snd p)) d) - (case dict_get d k of None \<Rightarrow> 0 | Some w \<Rightarrow> f w) + f v"
  using assms
proof (induction d)
  case Nil
  then show ?case by simp
next
  case (Cons p d)
  then show ?case by (cases p) auto
qed

text \<open>The definitions to unfold when a closed instance is evaluated by the simplifier.\<close>

lemmas py_eval = ascii_def is_space_def py_strip_def blank_def or_str_def dict_get_default_def
  dict_setdefault_def dict_append_def py_split_def int_str_def nat_digits.simps

lemma find_append: "find P (xs @ ys) = (case find P xs of None \<Rightarrow> find P ys | Some x \<Rightarrow> Some x)"
  by (induction xs) simp_all

lemma find_at: "distinct (map key xs) \<Longrightarrow> i < length xs \<Longrightarrow> find (\<lambda>x. key x = key (xs ! i)) xs = Some (xs ! i)"
  by (auto simp: find_Some_iff nth_eq_iff_index_eq distinct_conv_nth)

end
