(* ===== verification/Errors.thy ===== *)
theory Errors
  imports Prelude
begin

text \<open>
  The error codes of \<open>app/domain/errors.py\<close> and the exceptions the modelled code raises.
  \<open>code\<close> and \<open>message\<close> are the two components of each enum member; the messages are
  Chinese texts, written as code points.
\<close>

datatype (plugins only: code) ErrorCode =
    BAD_REQUEST
  | UNAUTHORIZED
  | FORBIDDEN
  | NOT_FOUND
  | METHOD_NOT_ALLOWED
  | INTERNAL_ERROR
  | RESUME_NOT_FOUND
  | RESUME_PARSE_FAILED
  | RESUME_UPLOAD_FAILED
  | RESUME_DUPLICATE
  | RESUME_FILE_TYPE_NOT_SUPPORTED
  | RESUME_ANALYSIS_FAILED
  | RESUME_ANALYSIS_NOT_FOUND
  | INTERVIEW_SESSION_NOT_FOUND
  | INTERVIEW_SESSION_EXPIRED
  | INTERVIEW_QUESTION_NOT_FOUND
  | INTERVIEW_ALREADY_COMPLETED
  | INTERVIEW_EVALUATION_FAILED
  | INTERVIEW_QUESTION_GENERATION_FAILED
  | INTERVIEW_NOT_COMPLETED
  | INTERVIEW_ANSWER_SAVE_FAILED
  | INTERVIEW_EVALUATION_NOT_FOUND
  | INTERVIEW_QUESTION_INSUFFICIENT
  | SKILL_NOT_FOUND
  | JD_PARSE_FAILED
  | STORAGE_UPLOAD_FAILED
  | STORAGE_DOWNLOAD_FAILED
  | STORAGE_DELETE_FAILED
  | EXPORT_PDF_FAILED
  | KNOWLEDGE_BASE_NOT_FOUND
  | KNOWLEDGE_BASE_PARSE_FAILED
  | KNOWLEDGE_BASE_UPLOAD_FAILED
  | KNOWLEDGE_BASE_QUERY_FAILED
  | KNOWLEDGE_BASE_DELETE_FAILED
  | KNOWLEDGE_BASE_VECTORIZATION_FAILED
  | RAG_SESSION_NOT_FOUND
  | AI_SERVICE_UNAVAILABLE
  | AI_SERVICE_TIMEOUT
  | AI_SERVICE_ERROR
  | AI_API_KEY_INVALID
  | AI_RATE_LIMIT_EXCEEDED
  | RATE_LIMIT_EXCEEDED
  | INTERVIEW_SCHEDULE_NOT_FOUND
  | VOICE_SESSION_NOT_FOUND
  | VOICE_EVALUATION_FAILED
  | PROVIDER_NOT_FOUND
  | PROVIDER_ALREADY_EXISTS
  | PROVIDER_CONFIG_READ_FAILED
  | PROVIDER_CONFIG_WRITE_FAILED
  | PROVIDER_TEST_FAILED
  | PROVIDER_DEFAULT_CANNOT_DELETE
  | MODULE_NOT_FOUND
  | VOICE_CONFIG_READ_FAILED
  | VOICE_CONFIG_WRITE_FAILED
  | VOICE_CONFIG_TEST_FAILED

fun code :: "ErrorCode \<Rightarrow> int" where
  "code BAD_REQUEST = 400"
| "code UNAUTHORIZED = 401"
| "code FORBIDDEN = 403"
| "code NOT_FOUND = 404"
| "code METHOD_NOT_ALLOWED = 405"
| "code INTERNAL_ERROR = 500"
| "code RESUME_NOT_FOUND = 2001"
| "code RESUME_PARSE_FAILED = 2002"
| "code RESUME_UPLOAD_FAILED = 2003"
| "code RESUME_DUPLICATE = 2004"
| "code RESUME_FILE_TYPE_NOT_SUPPORTED = 2006"
| "code RESUME_ANALYSIS_FAILED = 2007"
| "code RESUME_ANALYSIS_NOT_FOUND = 2008"
| "code INTERVIEW_SESSION_NOT_FOUND = 3001"
| "code INTERVIEW_SESSION_EXPIRED = 3002"
| "code INTERVIEW_QUESTION_NOT_FOUND = 3003"
| "code INTERVIEW_ALREADY_COMPLETED = 3004"
| "code INTERVIEW_EVALUATION_FAILED = 3005"
| "code INTERVIEW_QUESTION_GENERATION_FAILED = 3006"
| "code INTERVIEW_NOT_COMPLETED = 3007"
| "code INTERVIEW_ANSWER_SAVE_FAILED = 3008"
| "code INTERVIEW_EVALUATION_NOT_FOUND = 3011"
| "code INTERVIEW_QUESTION_INSUFFICIENT = 3012"
| "code SKILL_NOT_FOUND = 3009"
| "code JD_PARSE_FAILED = 3010"
| "code STORAGE_UPLOAD_FAILED = 4001"
| "code STORAGE_DOWNLOAD_FAILED = 4002"
| "code STORAGE_DELETE_FAILED = 4003"
| "code EXPORT_PDF_FAILED = 5001"
| "code KNOWLEDGE_BASE_NOT_FOUND = 6001"
| "code KNOWLEDGE_BASE_PARSE_FAILED = 6002"
| "code KNOWLEDGE_BASE_UPLOAD_FAILED = 6003"
| "code KNOWLEDGE_BASE_QUERY_FAILED = 6004"
| "code KNOWLEDGE_BASE_DELETE_FAILED = 6005"
| "code KNOWLEDGE_BASE_VECTORIZATION_FAILED = 6006"
| "code RAG_SESSION_NOT_FOUND = 6007"
| "code AI_SERVICE_UNAVAILABLE = 7001"
| "code AI_SERVICE_TIMEOUT = 7002"
| "code AI_SERVICE_ERROR = 7003"
| "code AI_API_KEY_INVALID = 7004"
| "code AI_RATE_LIMIT_EXCEEDED = 7005"
| "code RATE_LIMIT_EXCEEDED = 8001"
| "code INTERVIEW_SCHEDULE_NOT_FOUND = 9001"
| "code VOICE_SESSION_NOT_FOUND = 10001"
| "code VOICE_EVALUATION_FAILED = 10004"
| "code PROVIDER_NOT_FOUND = 11001"
| "code PROVIDER_ALREADY_EXISTS = 11002"
| "code PROVIDER_CONFIG_READ_FAILED = 11004"
| "code PROVIDER_CONFIG_WRITE_FAILED = 11005"
| "code PROVIDER_TEST_FAILED = 11006"
| "code PROVIDER_DEFAULT_CANNOT_DELETE = 11007"
| "code MODULE_NOT_FOUND = 11008"
| "code VOICE_CONFIG_READ_FAILED = 11009"
| "code VOICE_CONFIG_WRITE_FAILED = 11010"
| "code VOICE_CONFIG_TEST_FAILED = 11011"

fun message :: "ErrorCode \<Rightarrow> pystr" where
  "message BAD_REQUEST = [35831, 27714, 21442, 25968, 38169, 35823]"
| "message UNAUTHORIZED = [26410, 25480, 26435]"
| "message FORBIDDEN = [31105, 27490, 35775, 38382]"
| "message NOT_FOUND = [36164, 28304, 19981, 23384, 22312]"
| "message METHOD_NOT_ALLOWED = [35831, 27714, 26041, 27861, 19981, 25903, 25345]"
| "message INTERNAL_ERROR = [26381, 21153, 22120, 20869, 37096, 38169, 35823]"
| "message RESUME_NOT_FOUND = [31616, 21382, 19981, 23384, 22312]"
| "message RESUME_PARSE_FAILED = [31616, 21382, 35299, 26512, 22833, 36133]"
| "message RESUME_UPLOAD_FAILED = [31616, 21382, 19978, 20256, 22833, 36133]"
| "message RESUME_DUPLICATE = [31616, 21382, 24050, 23384, 22312]"
| "message RESUME_FILE_TYPE_NOT_SUPPORTED = [19981, 25903, 25345, 30340, 25991, 20214, 31867, 22411]"
| "message RESUME_ANALYSIS_FAILED = [31616, 21382, 20998, 26512, 22833, 36133]"
| "message RESUME_ANALYSIS_NOT_FOUND = [31616, 21382, 20998, 26512, 32467, 26524, 19981, 23384, 22312]"
| "message INTERVIEW_SESSION_NOT_FOUND = [38754, 35797, 20250, 35805, 19981, 23384, 22312]"
| "message INTERVIEW_SESSION_EXPIRED = [38754, 35797, 20250, 35805, 24050, 36807, 26399]"
| "message INTERVIEW_QUESTION_NOT_FOUND = [38754, 35797, 38382, 39064, 19981, 23384, 22312]"
| "message INTERVIEW_ALREADY_COMPLETED = [38754, 35797, 24050, 23436, 25104]"
| "message INTERVIEW_EVALUATION_FAILED = [38754, 35797, 35780, 20272, 22833, 36133]"
| "message INTERVIEW_QUESTION_GENERATION_FAILED = [38754, 35797, 38382, 39064, 29983, 25104, 22833, 36133]"
| "message INTERVIEW_NOT_COMPLETED = [38754, 35797, 23578, 26410, 23436, 25104]"
| "message INTERVIEW_ANSWER_SAVE_FAILED = [38754, 35797, 31572, 26696, 20445, 23384, 22833, 36133]"
| "message INTERVIEW_EVALUATION_NOT_FOUND = [38754, 35797, 35780, 20272, 32467, 26524, 19981, 23384, 22312]"
| "message INTERVIEW_QUESTION_INSUFFICIENT = [31526, 21512, 26465, 20214, 30340, 38754, 35797, 38382, 39064, 19981, 36275]"
| "message SKILL_NOT_FOUND = [25216, 33021, 19981, 23384, 22312]"
| "message JD_PARSE_FAILED = ascii ''JD '' @ [35299, 26512, 22833, 36133]"
| "message STORAGE_UPLOAD_FAILED = [25991, 20214, 19978, 20256, 22833, 36133]"
| "message STORAGE_DOWNLOAD_FAILED = [25991, 20214, 19979, 36733, 22833, 36133]"
| "message STORAGE_DELETE_FAILED = [25991, 20214, 21024, 38500, 22833, 36133]"
| "message EXPORT_PDF_FAILED = ascii ''PDF'' @ [23548, 20986, 22833, 36133]"
| "message KNOWLEDGE_BASE_NOT_FOUND = [30693, 35782, 24211, 19981, 23384, 22312]"
| "message KNOWLEDGE_BASE_PARSE_FAILED = [30693, 35782, 24211, 25991, 20214, 35299, 26512, 22833, 36133]"
| "message KNOWLEDGE_BASE_UPLOAD_FAILED = [30693, 35782, 24211, 19978, 20256, 22833, 36133]"
| "message KNOWLEDGE_BASE_QUERY_FAILED = [30693, 35782, 24211, 26597, 35810, 22833, 36133]"
| "message KNOWLEDGE_BASE_DELETE_FAILED = [30693, 35782, 24211, 21024, 38500, 22833, 36133]"
| "message KNOWLEDGE_BASE_VECTORIZATION_FAILED = [30693, 35782, 24211, 21521, 37327, 21270, 22833, 36133]"
| "message RAG_SESSION_NOT_FOUND = ascii ''RAG '' @ [20250, 35805, 19981, 23384, 22312]"
| "message AI_SERVICE_UNAVAILABLE = ascii ''AI'' @ [26381, 21153, 26242, 26102, 19981, 21487, 29992, 65292, 35831, 31245, 21518, 37325, 35797]"
| "message AI_SERVICE_TIMEOUT = ascii ''AI'' @ [26381, 21153, 21709, 24212, 36229, 26102]"
| "message AI_SERVICE_ERROR = ascii ''AI'' @ [26381, 21153, 35843, 29992, 22833, 36133]"
| "message AI_API_KEY_INVALID = ascii ''AI'' @ [26381, 21153, 23494, 38053, 26080, 25928]"
| "message AI_RATE_LIMIT_EXCEEDED = ascii ''AI'' @ [26381, 21153, 35843, 29992, 39057, 29575, 36229, 38480]"
| "message RATE_LIMIT_EXCEEDED = [35831, 27714, 36807, 20110, 39057, 32321, 65292, 35831, 31245, 21518, 20877, 35797]"
| "message INTERVIEW_SCHEDULE_NOT_FOUND = [38754, 35797, 26085, 31243, 19981, 23384, 22312]"
| "message VOICE_SESSION_NOT_FOUND = [35821, 38899, 38754, 35797, 20250, 35805, 19981, 23384, 22312]"
| "message VOICE_EVALUATION_FAILED = [35821, 38899, 38754, 35797, 35780, 20272, 22833, 36133]"
| "message PROVIDER_NOT_FOUND = ascii ''LLM Provider '' @ [19981, 23384, 22312]"
| "message PROVIDER_ALREADY_EXISTS = ascii ''LLM Provider '' @ [24050, 23384, 22312]"
| "message PROVIDER_CONFIG_READ_FAILED = [35835, 21462] @ ascii '' Provider '' @ [37197, 32622, 22833, 36133]"
| "message PROVIDER_CONFIG_WRITE_FAILED = [20889, 20837] @ ascii '' Provider '' @ [37197, 32622, 22833, 36133]"
| "message PROVIDER_TEST_FAILED = ascii ''Provider '' @ [36830, 36890, 24615, 27979, 35797, 22833, 36133]"
| "message PROVIDER_DEFAULT_CANNOT_DELETE = [40664, 35748] @ ascii '' Provider '' @ [19981, 21487, 21024, 38500]"
| "message MODULE_NOT_FOUND = [27169, 22359, 19981, 23384, 22312]"
| "message VOICE_CONFIG_READ_FAILED = [35835, 21462, 35821, 38899, 26381, 21153, 37197, 32622, 22833, 36133]"
| "message VOICE_CONFIG_WRITE_FAILED = [20889, 20837, 35821, 38899, 26381, 21153, 37197, 32622, 22833, 36133]"
| "message VOICE_CONFIG_TEST_FAILED = [35821, 38899, 26381, 21153, 36830, 36890, 24615, 27979, 35797, 22833, 36133]"

text \<open>
  \<open>BusinessException(code, message)\<close>: an absent or empty message falls back to the
  message of the code. The other constructors are the Python exceptions the modelled
  code can let escape; \<open>RedisError\<close> and \<open>LlmError\<close> stand for what the Redis client and the
  language-model client raise.
\<close>

datatype exn =
    BusinessException ErrorCode pystr
  | ValueError pystr
  | KeyError pystr
  | TypeError
  | AttributeError
  | ZeroDivisionError
  | TimeoutError
  | StructError
  | OSError pystr
  | JSONDecodeError
  | RuntimeError pystr
  | RedisError
  | LlmError pystr

type_synonym 'a result = "exn + 'a"

definition business_exception :: "ErrorCode \<Rightarrow> pystr option \<Rightarrow> exn" where
  "business_exception c m = BusinessException c (or_str m (message c))"

text \<open>Sequencing of results: the first exception wins.\<close>

fun res_bind :: "'a result \<Rightarrow> ('a \<Rightarrow> 'b result) \<Rightarrow> 'b result" where
  "res_bind (Inl e) f = Inl e"
| "res_bind (Inr x) f = f x"

fun res_map :: "('a \<Rightarrow> 'b) \<Rightarrow> 'a result \<Rightarrow> 'b result" where
  "res_map f (Inl e) = Inl e"
| "res_map f (Inr x) = Inr (f x)"

fun res_traverse :: "('a \<Rightarrow> 'b result) \<Rightarrow> 'a list \<Rightarrow> 'b list result" where
  "res_traverse f [] = Inr []"
| "res_traverse f (x # xs) = res_bind (f x) (\<lambda>y. res_map (Cons y) (res_traverse f xs))"

lemma res_bind_Inr_iff: "res_bind m f = Inr y \<longleftrightarrow> (\<exists>x. m = Inr x \<and> f x = Inr y)"
  by (cases m) auto

lemma res_map_Inr_iff: "res_map f m = Inr y \<longleftrightarrow> (\<exists>x. m = Inr x \<and> y = f x)"
  by (cases m) auto

lemma res_traverse_Inr:
  assumes "\<And>x. x \<in> set xs \<Longrightarrow> f x = Inr (g x)"
  shows "res_traverse f xs = Inr (map g xs)"
  using assms by (induction xs) auto

lemma res_traverse_length: "res_traverse f xs = Inr ys \<Longrightarrow> length ys = length xs"
proof (induction xs arbitrary: ys)
  case Nil
  then show ?case by simp
next
  case (Cons x xs)
  then show ?case by (cases "f x"; cases "res_traverse f xs") auto
qed

end
