(* ===== verification/Effects.thy ===== *)
theory Effects
  imports Errors
begin

text \<open>
  Stateful code: an operation takes the world and returns an exception or a value, and
  the world it leaves behind. An exception does not undo what was done before it; where
  the code relies on a database rollback, the rollback is an explicit step. The rules in
  \<open>op_rules\<close> carry invariants through sequences of operations.
\<close>

named_theorems op_rules \<open>invariant preservation through the combinators of operations\<close>
named_theorems op_simps \<open>evaluation of the combinators of operations\<close>

type_synonym ('w, 'a) op = "'w \<Rightarrow> 'a result \<times> 'w"

definition op_return :: "'a \<Rightarrow> ('w, 'a) op" where
  "op_return x = (\<lambda>w. (Inr x, w))"

definition op_raise :: "exn \<Rightarrow> ('w, 'a) op" where
  "op_raise e = (\<lambda>w. (Inl e, w))"

definition op_bind :: "('w, 'a) op \<Rightarrow> ('a \<Rightarrow> ('w, 'b) op) \<Rightarrow> ('w, 'b) op" where
  "op_bind m f = (\<lambda>w. case m w of (Inl e, w') \<Rightarrow> (Inl e, w') | (Inr x, w') \<Rightarrow> f x w')"

definition op_then :: "('w, 'a) op \<Rightarrow> ('w, 'b) op \<Rightarrow> ('w, 'b) op" where
  "op_then m k = op_bind m (\<lambda>_. k)"

definition op_get :: "('w \<Rightarrow> 'a) \<Rightarrow> ('w, 'a) op" where
  "op_get f = (\<lambda>w. (Inr (f w), w))"

definition op_modify :: "('w \<Rightarrow> 'w) \<Rightarrow> ('w, unit) op" where
  "op_modify f = (\<lambda>w. (Inr (), f w))"

definition op_lift :: "'a result \<Rightarrow> ('w, 'a) op" where
  "op_lift r = (\<lambda>w. (r, w))"

definition op_when :: "bool \<Rightarrow> ('w, unit) op \<Rightarrow> ('w, unit) op" where
  "op_when b m = (if b then m else op_return ())"

text \<open>\<open>try: m except Exception as e: h e\<close>.\<close>

definition op_try :: "('w, 'a) op \<Rightarrow> (exn \<Rightarrow> ('w, 'a) op) \<Rightarrow> ('w, 'a) op" where
  "op_try m h = (\<lambda>w. case m w of (Inl e, w') \<Rightarrow> h e w' | (Inr x, w') \<Rightarrow> (Inr x, w'))"

fun op_for :: "'a list \<Rightarrow> ('a \<Rightarrow> ('w, unit) op) \<Rightarrow> ('w, unit) op" where
  "op_for [] f = op_return ()"
| "op_for (x # xs) f = op_then (f x) (op_for xs f)"

lemma op_apply [op_simps]:
  "op_return x w = (Inr x, w)"
  "op_raise e w = (Inl e, w)"
  "op_get g w = (Inr (g w), w)"
  "op_modify h w = (Inr (), h w)"
  "op_lift r w = (r, w)"
  "op_bind m f w = (case m w of (Inl e, w') \<Rightarrow> (Inl e, w') | (Inr y, w') \<Rightarrow> f y w')"
  "op_then m k w = (case m w of (Inl e, w') \<Rightarrow> (Inl e, w') | (Inr y, w') \<Rightarrow> k w')"
  "op_try m f' w = (case m w of (Inl e, w') \<Rightarrow> f' e w' | (Inr y, w') \<Rightarrow> (Inr y, w'))"
  "op_when b n w = (if b then n w else (Inr (), w))"
  by (simp_all add: op_return_def op_raise_def op_get_def op_modify_def op_lift_def op_bind_def
      op_then_def op_try_def op_when_def)

section \<open>Invariants of operations\<close>

text \<open>
  \<open>op_inv P m\<close>: whatever \<open>m\<close> returns or raises, it keeps \<open>P\<close>.
\<close>

definition op_inv :: "('w \<Rightarrow> bool) \<Rightarrow> ('w, 'a) op \<Rightarrow> bool" where
  "op_inv P m \<longleftrightarrow> (\<forall>w. P w \<longrightarrow> P (snd (m w)))"

lemma op_invI: "(\<And>w. P w \<Longrightarrow> P (snd (m w))) \<Longrightarrow> op_inv P m"
  by (simp add: op_inv_def)

lemma op_invD: "op_inv P m \<Longrightarrow> P w \<Longrightarrow> P (snd (m w))"
  by (simp add: op_inv_def)

lemma op_inv_pure [op_rules]:
  "op_inv P (op_return x)" "op_inv P (op_raise e)" "op_inv P (op_get f)" "op_inv P (op_lift r)"
  by (simp_all add: op_inv_def op_simps)

lemma op_inv_bind [op_rules]:
  assumes "op_inv P m" "\<And>x. op_inv P (f x)"
  shows "op_inv P (op_bind m f)"
proof (rule op_invI)
  fix w assume "P w"
  with assms(1) have "P (snd (m w))" by (rule op_invD)
  then show "P (snd (op_bind m f w))"
    using op_invD [OF assms(2)] by (auto simp: op_simps split: prod.split sum.split)
qed

lemma op_inv_then [op_rules]:
  "op_inv P m \<Longrightarrow> op_inv P k \<Longrightarrow> op_inv P (op_then m k)"
  by (simp add: op_then_def op_inv_bind)

lemma op_inv_try [op_rules]:
  assumes "op_inv P m" "\<And>e. op_inv P (h e)"
  shows "op_inv P (op_try m h)"
proof (rule op_invI)
  fix w assume "P w"
  with assms(1) have "P (snd (m w))" by (rule op_invD)
  then show "P (snd (op_try m h w))"
    using op_invD [OF assms(2)] by (auto simp: op_simps split: prod.split sum.split)
qed

lemma op_inv_when [op_rules]: "op_inv P m \<Longrightarrow> op_inv P (op_when b m)"
  by (simp add: op_when_def op_rules)

lemma op_inv_if [op_rules]: "op_inv P m \<Longrightarrow> op_inv P n \<Longrightarrow> op_inv P (if b then m else n)"
  by simp

lemma op_inv_for [op_rules]: "(\<And>x. op_inv P (f x)) \<Longrightarrow> op_inv P (op_for xs f)"
  by (induction xs) (simp_all add: op_rules)

lemma op_inv_modify: "(\<And>w. P w \<Longrightarrow> P (f w)) \<Longrightarrow> op_inv P (op_modify f)"
  by (simp add: op_inv_def op_simps)

lemma op_inv_case_option [op_rules]:
  "op_inv P m \<Longrightarrow> (\<And>x. op_inv P (f x)) \<Longrightarrow> op_inv P (case v of None \<Rightarrow> m | Some x \<Rightarrow> f x)"
  by (cases v) simp_all

end
