(* ===== verification/Entities.thy ===== *)
theory Entities
  imports Effects
begin

text \<open>
  The dataclasses, enumerations and constants of \<open>app/domain/entities\<close>: interview, skill,
  evaluation, voice interview and task status, with the lifecycle orders of the enumerations.
\<close>

section \<open>Enumerations\<close>

text \<open>
  The enumerations share member names (\<open>COMPLETED\<close>, \<open>IN_PROGRESS\<close>), so each constructor
  carries a prefix: \<open>S_\<close> interview session, \<open>T_\<close> asynchronous task, \<open>V_\<close> voice session,
  \<open>P_\<close> voice phase, \<open>C_\<close> category priority, \<open>I_\<close> schedule.
\<close>

datatype SessionStatus = S_CREATED | S_IN_PROGRESS | S_COMPLETED | S_EVALUATED

fun session_status_value :: "SessionStatus \<Rightarrow> pystr" where
  "session_status_value S_CREATED = ascii ''CREATED''"
| "session_status_value S_IN_PROGRESS = ascii ''IN_PROGRESS''"
| "session_status_value S_COMPLETED = ascii ''COMPLETED''"
| "session_status_value S_EVALUATED = ascii ''EVALUATED''"

datatype AsyncTaskStatus = T_PENDING | T_PROCESSING | T_COMPLETED | T_FAILED

datatype VoiceSessionStatus = V_IN_PROGRESS | V_PAUSED | V_COMPLETED | V_FAILED

fun voice_status_value :: "VoiceSessionStatus \<Rightarrow> pystr" where
  "voice_status_value V_IN_PROGRESS = ascii ''IN_PROGRESS''"
| "voice_status_value V_PAUSED = ascii ''PAUSED''"
| "voice_status_value V_COMPLETED = ascii ''COMPLETED''"
| "voice_status_value V_FAILED = ascii ''FAILED''"

datatype InterviewPhase = P_INTRO | P_TECH | P_PROJECT | P_HR | P_COMPLETED

datatype InterviewStatus = I_PENDING | I_COMPLETED | I_CANCELLED | I_RESCHEDULED

text \<open>The lifecycle order of sessions and the order of the voice phases.\<close>

fun session_rank :: "SessionStatus \<Rightarrow> nat" where
  "session_rank S_CREATED = 0"
| "session_rank S_IN_PROGRESS = 1"
| "session_rank S_COMPLETED = 2"
| "session_rank S_EVALUATED = 3"

lemma session_rank_inject: "session_rank a = session_rank b \<longleftrightarrow> a = b"
  by (cases a; cases b) simp_all

instantiation SessionStatus :: linorder
begin

definition less_eq_SessionStatus :: "SessionStatus \<Rightarrow> SessionStatus \<Rightarrow> bool" where
  "less_eq_SessionStatus a b \<longleftrightarrow> session_rank a \<le> session_rank b"

definition less_SessionStatus :: "SessionStatus \<Rightarrow> SessionStatus \<Rightarrow> bool" where
  "less_SessionStatus a b \<longleftrightarrow> session_rank a < session_rank b"

instance
  by standard (auto simp: less_eq_SessionStatus_def less_SessionStatus_def session_rank_inject)

end

fun phase_rank :: "InterviewPhase \<Rightarrow> nat" where
  "phase_rank P_INTRO = 0"
| "phase_rank P_TECH = 1"
| "phase_rank P_PROJECT = 2"
| "phase_rank P_HR = 3"
| "phase_rank P_COMPLETED = 4"

lemma phase_rank_inject: "phase_rank a = phase_rank b \<longleftrightarrow> a = b"
  by (cases a; cases b) simp_all

instantiation InterviewPhase :: linorder
begin

definition less_eq_InterviewPhase :: "InterviewPhase \<Rightarrow> InterviewPhase \<Rightarrow> bool" where
  "less_eq_InterviewPhase a b \<longleftrightarrow> phase_rank a \<le> phase_rank b"

definition less_InterviewPhase :: "InterviewPhase \<Rightarrow> InterviewPhase \<Rightarrow> bool" where
  "less_InterviewPhase a b \<longleftrightarrow> phase_rank a < phase_rank b"

instance
  by standard (auto simp: less_eq_InterviewPhase_def less_InterviewPhase_def phase_rank_inject)

end

lemmas lifecycle_order_defs =
  less_eq_SessionStatus_def less_SessionStatus_def less_eq_InterviewPhase_def less_InterviewPhase_def

section \<open>Interview questions\<close>

record InterviewQuestion =
  q_question_index :: int
  q_question :: pystr
  q_type :: pystr
  q_category :: pystr
  q_topic_summary :: "pystr option"
  q_user_answer :: "pystr option"
  q_score :: "int option"
  q_feedback :: "pystr option"
  q_is_follow_up :: bool
  q_parent_question_index :: "int option"
  q_reference_answer :: "pystr option"
  q_key_points :: "pystr list"
  q_scoring_rubric :: "pystr option"
  q_source_context :: "pystr option"

text \<open>The constructor with its defaults: only the four required fields given.\<close>

definition mk_question :: "int \<Rightarrow> pystr \<Rightarrow> pystr \<Rightarrow> pystr \<Rightarrow> InterviewQuestion" where
  "mk_question i txt ty cat = \<lparr>q_question_index = i, q_question = txt, q_type = ty, q_category = cat,
     q_topic_summary = None, q_user_answer = None, q_score = None, q_feedback = None,
     q_is_follow_up = False, q_parent_question_index = None, q_reference_answer = None,
     q_key_points = [], q_scoring_rubric = None, q_source_context = None\<rparr>"

definition with_answer :: "pystr \<Rightarrow> InterviewQuestion \<Rightarrow> InterviewQuestion" where
  "with_answer a q = q\<lparr>q_user_answer := Some a\<rparr>"

lemma with_answer_simps [simp]:
  "q_question_index (with_answer a q) = q_question_index q"
  "q_question (with_answer a q) = q_question q"
  "q_type (with_answer a q) = q_type q"
  "q_category (with_answer a q) = q_category q"
  "q_user_answer (with_answer a q) = Some a"
  "q_is_follow_up (with_answer a q) = q_is_follow_up q"
  "q_parent_question_index (with_answer a q) = q_parent_question_index q"
  by (simp_all add: with_answer_def)

record HistoricalQuestion =
  hq_question :: pystr
  hq_type :: "pystr option"
  hq_topic_summary :: "pystr option"

definition MAX_FOLLOW_UP :: nat where "MAX_FOLLOW_UP = 2"
definition DEFAULT_FOLLOW_UP_COUNT :: nat where "DEFAULT_FOLLOW_UP_COUNT = 1"
definition MAX_HISTORICAL_QUESTIONS :: nat where "MAX_HISTORICAL_QUESTIONS = 60"
definition DEFAULT_DIFFICULTY :: pystr where "DEFAULT_DIFFICULTY = ascii ''mid''"
definition VALID_DIFFICULTIES :: "pystr list" where
  "VALID_DIFFICULTIES = [ascii ''junior'', ascii ''mid'', ascii ''senior'']"
definition DEFAULT_SKILL_ID :: pystr where "DEFAULT_SKILL_ID = ascii ''java-backend''"
definition SESSION_TTL_SECONDS :: int where "SESSION_TTL_SECONDS = 24 * 60 * 60"
definition SESSION_ID_LENGTH :: nat where "SESSION_ID_LENGTH = 16"

text \<open>The five general questions used when every generator call failed.\<close>

definition DEFAULT_FALLBACK_QUESTIONS :: "pystr list" where
  "DEFAULT_FALLBACK_QUESTIONS = [
    [35831, 20171, 32461, 20320, 26368, 29087, 24713, 30340, 19968, 20010, 39033, 30446, 65292, 21253, 25324, 20320, 30340, 35282, 33394, 12289, 25216, 26415, 36873, 22411, 19982, 20027, 35201, 36129, 29486, 12290],
    [22312, 26368, 36817, 30340, 24037, 20316, 20013, 65292, 20320, 36935, 21040, 30340, 26368, 26377, 25361, 25112, 24615, 30340, 25216, 26415, 38382, 39064, 26159, 20160, 20040, 65311, 20320, 26159, 22914, 20309, 23450, 20301, 21644, 35299, 20915, 30340, 65311],
    [35831, 35848, 35848, 20320, 23545, 31995, 32479, 35774, 35745, 20013, 21487, 29992, 24615, 19982, 19968, 33268, 24615, 26435, 34913, 30340, 29702, 35299, 65292, 24182, 20030, 19968, 20010, 23454, 38469, 20363, 23376, 12290],
    [22914, 26524, 35753, 20320, 20174, 38646, 35774, 35745, 19968, 20010, 39640, 24182, 21457, 30340, 25509, 21475, 26381, 21153, 65292, 20320, 20250, 20174, 21738, 20123, 32500, 24230, 32771, 34385, 65311, 20851, 38190, 29942, 39048, 22312, 21738, 37324, 65311],
    [35831, 22238, 39038, 36807, 21435, 19968, 24180, 20320, 26368, 26377, 25104, 23601, 24863, 30340, 19968, 27425, 25216, 26415, 20915, 31574, 65292, 20026, 20160, 20040, 23427, 26159, 23545, 30340, 65311, 20107, 21518, 26377, 26080, 25913, 36827, 31354, 38388, 65311]]"

lemma length_DEFAULT_FALLBACK_QUESTIONS [simp]: "length DEFAULT_FALLBACK_QUESTIONS = 5"
  by (simp add: DEFAULT_FALLBACK_QUESTIONS_def)

section \<open>Skills\<close>

text \<open>
  \<open>SkillCategory.priority\<close> is a plain string; the code compares it with the members of
  \<open>CategoryPriority\<close>, whose values are the names.
\<close>

definition C_CORE :: pystr where "C_CORE = ascii ''CORE''"
definition C_NORMAL :: pystr where "C_NORMAL = ascii ''NORMAL''"
definition C_ALWAYS_ONE :: pystr where "C_ALWAYS_ONE = ascii ''ALWAYS_ONE''"

record SkillCategory =
  cat_key :: pystr
  cat_label :: pystr
  cat_priority :: pystr
  cat_ref :: "pystr option"
  cat_shared :: bool

record Skill =
  skill_id :: pystr
  skill_name :: pystr
  skill_description :: "pystr option"
  skill_categories :: "SkillCategory list"
  skill_is_preset :: bool
  skill_persona :: "pystr option"
  skill_source_jd :: "pystr option"
  skill_icon :: "pystr option"
  skill_gradient :: "pystr option"
  skill_icon_bg :: "pystr option"
  skill_icon_color :: "pystr option"

record JdCategory =
  jd_key :: "pystr option"
  jd_label :: "pystr option"
  jd_priority :: pystr
  jd_ref :: "pystr option"
  jd_shared :: "bool option"

record RefMapping =
  rm_ref :: pystr
  rm_shared :: bool
  rm_source_skill_id :: pystr

section \<open>Evaluation\<close>

record QaRecord =
  qa_question_index :: int
  qa_question :: pystr
  qa_category :: pystr
  qa_user_answer :: "pystr option"

record QuestionEvaluationItem =
  ei_question_index :: int
  ei_score :: int
  ei_feedback :: pystr
  ei_reference_answer :: pystr
  ei_key_points :: "pystr list"

record BatchReport =
  br_overall_score :: int
  br_overall_feedback :: pystr
  br_strengths :: "pystr list"
  br_improvements :: "pystr list"
  br_question_evaluations :: "QuestionEvaluationItem list"

record QaBatch =
  qb_start_index :: int
  qb_end_index :: int
  qb_records :: "QaRecord list"

record BatchResult =
  bres_start_index :: int
  bres_end_index :: int
  bres_report :: "BatchReport option"

record Summary =
  sum_overall_feedback :: pystr
  sum_strengths :: "pystr list"
  sum_improvements :: "pystr list"

definition Summary_empty :: Summary where
  "Summary_empty = \<lparr>sum_overall_feedback = [], sum_strengths = [], sum_improvements = []\<rparr>"

record CategoryScore =
  cs_category :: pystr
  cs_score :: int
  cs_question_count :: nat

record QuestionEvaluation =
  qe_question_index :: int
  qe_question :: pystr
  qe_category :: pystr
  qe_user_answer :: "pystr option"
  qe_score :: int
  qe_feedback :: pystr

record ReferenceAnswer =
  ra_question_index :: int
  ra_question :: pystr
  ra_reference_answer :: pystr
  ra_key_points :: "pystr list"

record EvaluationReport =
  er_session_id :: pystr
  er_total_questions :: int
  er_overall_score :: int
  er_category_scores :: "CategoryScore list"
  er_question_details :: "QuestionEvaluation list"
  er_overall_feedback :: pystr
  er_strengths :: "pystr list"
  er_improvements :: "pystr list"
  er_reference_answers :: "ReferenceAnswer list"
  er_degraded_reasons :: "pystr list"

section \<open>Voice interview\<close>

record PhaseConfig =
  pc_min_duration_seconds :: int
  pc_suggested_duration_seconds :: int
  pc_max_duration_seconds :: int
  pc_min_questions :: int
  pc_max_questions :: int

text \<open>\<open>PHASE_CONFIGS.get(phase)\<close>: the four interview phases have a configuration, \<open>COMPLETED\<close> has none.\<close>

fun PHASE_CONFIGS :: "InterviewPhase \<Rightarrow> PhaseConfig option" where
  "PHASE_CONFIGS P_INTRO = Some \<lparr>pc_min_duration_seconds = 3 * 60, pc_suggested_duration_seconds = 5 * 60,
     pc_max_duration_seconds = 8 * 60, pc_min_questions = 2, pc_max_questions = 5\<rparr>"
| "PHASE_CONFIGS P_TECH = Some \<lparr>pc_min_duration_seconds = 8 * 60, pc_suggested_duration_seconds = 10 * 60,
     pc_max_duration_seconds = 15 * 60, pc_min_questions = 3, pc_max_questions = 8\<rparr>"
| "PHASE_CONFIGS P_PROJECT = Some \<lparr>pc_min_duration_seconds = 8 * 60, pc_suggested_duration_seconds = 10 * 60,
     pc_max_duration_seconds = 15 * 60, pc_min_questions = 2, pc_max_questions = 5\<rparr>"
| "PHASE_CONFIGS P_HR = Some \<lparr>pc_min_duration_seconds = 3 * 60, pc_suggested_duration_seconds = 5 * 60,
     pc_max_duration_seconds = 8 * 60, pc_min_questions = 2, pc_max_questions = 5\<rparr>"
| "PHASE_CONFIGS P_COMPLETED = None"

record VoiceMessage =
  vm_sequence_num :: int
  vm_phase :: pystr
  vm_ai_generated_text :: "pystr option"
  vm_user_recognized_text :: "pystr option"

end
