(* ===== verification/Lifecycles.thy ===== *)
theory Lifecycles
  imports Entities Complex_Main
begin

text \<open>
  The state machines of \<open>app/domain/services\<close>: interview sessions (\<open>session_state.py\<close>),
  voice sessions (\<open>voice_session_state.py\<close>), the order of voice phases (\<open>voice_phase.py\<close>)
  and the aggregation of document states (\<open>kb_document.py\<close>). The locale \<open>lifecycle\<close> states
  what a validator of transitions promises; both session machines are instances.
\<close>

section \<open>Validators of transitions\<close>

text \<open>A run of a validator: each state is a permitted successor of the one before it.\<close>

fun lifecycle_run :: "('s \<Rightarrow> 's \<Rightarrow> unit result) \<Rightarrow> 's \<Rightarrow> 's list \<Rightarrow> bool" where
  "lifecycle_run valid s [] = True"
| "lifecycle_run valid s (t # ts) = (valid s t = Inr () \<and> lifecycle_run valid t ts)"

locale lifecycle =
  fixes valid :: "'s \<Rightarrow> 's \<Rightarrow> unit result"
    and unfinished :: "'s \<Rightarrow> bool"
  assumes finished_stuck: "\<not> unfinished s \<Longrightarrow> valid s t \<noteq> Inr ()"
begin

lemma run_from_finished: "\<not> unfinished s \<Longrightarrow> lifecycle_run valid s ts \<longleftrightarrow> ts = []"
  by (cases ts) (auto simp: finished_stuck)

lemma run_interior_unfinished:
  "lifecycle_run valid s ts \<Longrightarrow> i < length ts \<Longrightarrow> unfinished ((s # ts) ! i)"
proof (induction ts arbitrary: s i)
  case Nil
  then show ?case by simp
next
  case (Cons t ts)
  then have "unfinished s" using finished_stuck by auto
  with Cons show ?case by (cases i) auto
qed

end

locale ranked_lifecycle = lifecycle +
  fixes rank :: "'s \<Rightarrow> nat"
    and top_rank :: nat
  assumes valid_rank: "valid s t = Inr () \<Longrightarrow> rank s < rank t \<and> rank t \<le> top_rank"
begin

lemma run_length: "lifecycle_run valid s ts \<Longrightarrow> ts \<noteq> [] \<Longrightarrow> length ts + rank s \<le> top_rank"
proof (induction ts arbitrary: s)
  case Nil
  then show ?case by simp
next
  case (Cons t ts)
  then have "valid s t = Inr ()" by simp
  then have st: "rank s < rank t \<and> rank t \<le> top_rank" by (rule valid_rank)
  show ?case
  proof (cases ts)
    case Nil
    with st show ?thesis by simp
  next
    case (Cons u us)
    with Cons.IH [of t] Cons.prems have "length ts + rank t \<le> top_rank" by simp
    with st show ?thesis by simp
  qed
qed

lemma run_sorted: "lifecycle_run valid s ts \<Longrightarrow> sorted_wrt (<) (map rank (s # ts))"
proof (induction ts arbitrary: s)
  case Nil
  then show ?case by simp
next
  case (Cons t ts)
  then have "valid s t = Inr ()" by simp
  then have "rank s < rank t" using valid_rank by blast
  moreover have "sorted_wrt (<) (map rank (t # ts))" using Cons.IH [of t] Cons.prems by simp
  ultimately show ?case by (auto intro: less_trans)
qed

end

section \<open>Interview sessions\<close>

definition SESSION_VALID_TRANSITIONS :: "(SessionStatus \<times> SessionStatus) list" where
  "SESSION_VALID_TRANSITIONS =
     [(S_CREATED, S_IN_PROGRESS), (S_CREATED, S_COMPLETED), (S_IN_PROGRESS, S_COMPLETED)]"

definition illegal_transition_message :: "pystr \<Rightarrow> pystr \<Rightarrow> pystr" where
  "illegal_transition_message cur tgt = [38750, 27861, 29366, 24577, 36801, 31227, 58, 32] @ cur @ ascii '' -> '' @ tgt"

definition validate_transition :: "SessionStatus \<Rightarrow> SessionStatus \<Rightarrow> unit result" where
  "validate_transition current target =
     (if (current, target) \<in> set SESSION_VALID_TRANSITIONS then Inr ()
      else if current \<in> {S_COMPLETED, S_EVALUATED} \<and> target = S_COMPLETED
        then Inl (business_exception INTERVIEW_ALREADY_COMPLETED None)
      else Inl (business_exception BAD_REQUEST
        (Some (illegal_transition_message (session_status_value current) (session_status_value target)))))"

definition is_unfinished :: "SessionStatus \<Rightarrow> bool" where
  "is_unfinished status \<longleftrightarrow> status = S_CREATED \<or> status = S_IN_PROGRESS"

lemma validate_transition_ok_iff:
  "validate_transition a b = Inr () \<longleftrightarrow> a < b \<and> b \<le> S_COMPLETED"
  by (cases a; cases b)
     (auto simp: validate_transition_def SESSION_VALID_TRANSITIONS_def lifecycle_order_defs)

lemma is_unfinished_less: "is_unfinished s \<longleftrightarrow> s < S_COMPLETED"
  by (cases s) (auto simp: is_unfinished_def lifecycle_order_defs)

interpretation interview_life: ranked_lifecycle validate_transition is_unfinished session_rank 2
proof unfold_locales
  fix s t
  assume "\<not> is_unfinished s"
  then have "S_COMPLETED \<le> s" by (simp add: is_unfinished_less)
  then show "validate_transition s t \<noteq> Inr ()"
    by (auto simp: validate_transition_ok_iff)
next
  fix s t
  assume "validate_transition s t = Inr ()"
  then show "session_rank s < session_rank t \<and> session_rank t \<le> 2"
    by (simp add: validate_transition_ok_iff lifecycle_order_defs)
qed

text \<open>
  C37. A session status only moves forward: the permitted transitions are exactly the
  strictly increasing ones of CREATED < IN_PROGRESS < COMPLETED, so a permitted run has at
  most two steps and never repeats a status; completing a finished session is reported as
  already completed, and that error has no other cause.
\<close>

theorem session_transitions_forward_only:
  "(validate_transition a b = Inr () \<longleftrightarrow> a < b \<and> b \<le> S_COMPLETED)
   \<and> (validate_transition a b = Inl (business_exception INTERVIEW_ALREADY_COMPLETED None)
        \<longleftrightarrow> \<not> is_unfinished a \<and> b = S_COMPLETED)
   \<and> (lifecycle_run validate_transition a ts \<longrightarrow> length ts \<le> 2 \<and> sorted_wrt (<) (a # ts))"
proof (intro conjI impI)
  show "validate_transition a b = Inr () \<longleftrightarrow> a < b \<and> b \<le> S_COMPLETED"
    by (rule validate_transition_ok_iff)
  show "validate_transition a b = Inl (business_exception INTERVIEW_ALREADY_COMPLETED None)
      \<longleftrightarrow> \<not> is_unfinished a \<and> b = S_COMPLETED"
    by (cases a; cases b)
       (auto simp: validate_transition_def SESSION_VALID_TRANSITIONS_def business_exception_def is_unfinished_def)
  assume run: "lifecycle_run validate_transition a ts"
  then show "length ts \<le> 2" using interview_life.run_length [of a ts] by (cases ts) auto
  have less: "(<) = (\<lambda>x y. session_rank x < session_rank y)"
    by (intro ext) (simp add: lifecycle_order_defs)
  show "sorted_wrt (<) (a # ts)"
    using interview_life.run_sorted [OF run] by (simp add: sorted_wrt_map less)
qed

lemma session_transitions_forward_only_witness:
  "lifecycle_run validate_transition S_CREATED [S_IN_PROGRESS, S_COMPLETED]
   \<and> sorted_wrt (<) [S_CREATED, S_IN_PROGRESS, S_COMPLETED]"
  using session_transitions_forward_only [of S_CREATED S_IN_PROGRESS "[S_IN_PROGRESS, S_COMPLETED]"]
  by (simp add: validate_transition_def SESSION_VALID_TRANSITIONS_def)

section \<open>Voice sessions\<close>

definition VOICE_VALID_TRANSITIONS :: "(VoiceSessionStatus \<times> VoiceSessionStatus) list" where
  "VOICE_VALID_TRANSITIONS =
     [(V_IN_PROGRESS, V_PAUSED), (V_PAUSED, V_IN_PROGRESS), (V_IN_PROGRESS, V_COMPLETED),
      (V_PAUSED, V_COMPLETED), (V_IN_PROGRESS, V_FAILED), (V_PAUSED, V_FAILED)]"

definition validate_voice_transition :: "VoiceSessionStatus \<Rightarrow> VoiceSessionStatus \<Rightarrow> unit result" where
  "validate_voice_transition current target =
     (if (current, target) \<in> set VOICE_VALID_TRANSITIONS then Inr ()
      else Inl (business_exception BAD_REQUEST
        (Some (illegal_transition_message (voice_status_value current) (voice_status_value target)))))"

definition is_voice_unfinished :: "VoiceSessionStatus \<Rightarrow> bool" where
  "is_voice_unfinished status \<longleftrightarrow> status = V_IN_PROGRESS \<or> status = V_PAUSED"

lemma validate_voice_transition_ok_iff:
  "validate_voice_transition a b = Inr () \<longleftrightarrow> is_voice_unfinished a \<and> b \<noteq> a"
  by (cases a; cases b)
     (auto simp: validate_voice_transition_def VOICE_VALID_TRANSITIONS_def is_voice_unfinished_def)

interpretation voice_life: lifecycle validate_voice_transition is_voice_unfinished
  by unfold_locales (simp add: validate_voice_transition_ok_iff)

section \<open>Voice phases\<close>

definition PHASE_ORDER :: "InterviewPhase list" where
  "PHASE_ORDER = [P_INTRO, P_TECH, P_PROJECT, P_HR]"

text \<open>\<open>xs.index(x)\<close>, with \<open>None\<close> for the \<open>ValueError\<close>.\<close>

fun py_index :: "'a list \<Rightarrow> 'a \<Rightarrow> nat option" where
  "py_index [] x = None"
| "py_index (y # ys) x = (if y = x then Some 0 else map_option Suc (py_index ys x))"

definition should_transition_to_next_phase :: "InterviewPhase \<Rightarrow> rat \<Rightarrow> int \<Rightarrow> bool" where
  "should_transition_to_next_phase phase elapsed_seconds question_count =
     (case PHASE_CONFIGS phase of
        None \<Rightarrow> False
      | Some config \<Rightarrow>
          if elapsed_seconds \<ge> of_int (pc_max_duration_seconds config) then True
          else if question_count \<ge> pc_max_questions config then True
          else elapsed_seconds \<ge> of_int (pc_suggested_duration_seconds config)
               \<and> question_count \<ge> pc_min_questions config)"

fun first_enabled :: "InterviewPhase list \<Rightarrow> InterviewPhase set \<Rightarrow> InterviewPhase" where
  "first_enabled [] enabled = P_COMPLETED"
| "first_enabled (p # ps) enabled = (if p \<in> enabled then p else first_enabled ps enabled)"

definition next_phase :: "InterviewPhase \<Rightarrow> InterviewPhase set \<Rightarrow> InterviewPhase" where
  "next_phase current enabled =
     (case py_index PHASE_ORDER current of
        None \<Rightarrow> P_COMPLETED
      | Some start \<Rightarrow> first_enabled (drop (start + 1) PHASE_ORDER) enabled)"

lemma next_phase_simps [simp]:
  "next_phase P_INTRO en = (if P_TECH \<in> en then P_TECH else if P_PROJECT \<in> en then P_PROJECT
     else if P_HR \<in> en then P_HR else P_COMPLETED)"
  "next_phase P_TECH en = (if P_PROJECT \<in> en then P_PROJECT else if P_HR \<in> en then P_HR else P_COMPLETED)"
  "next_phase P_PROJECT en = (if P_HR \<in> en then P_HR else P_COMPLETED)"
  "next_phase P_HR en = P_COMPLETED"
  "next_phase P_COMPLETED en = P_COMPLETED"
  by (simp_all add: next_phase_def PHASE_ORDER_def)

text \<open>
  The phase after \<open>p\<close> is the least enabled phase above \<open>p\<close>, or COMPLETED when there is
  none: no enabled phase is skipped, no phase is visited twice, and whatever is enabled four
  switches end the interview.
\<close>

theorem next_phase_least_enabled:
  "(p \<noteq> P_COMPLETED \<longrightarrow> p < next_phase p enabled)
   \<and> (next_phase p enabled \<in> enabled \<or> next_phase p enabled = P_COMPLETED)
   \<and> (\<forall>r. r \<in> enabled \<and> p < r \<longrightarrow> next_phase p enabled \<le> r)
   \<and> ((\<lambda>r. next_phase r enabled) ^^ 4) p = P_COMPLETED"
proof (intro conjI allI impI)
  show "((\<lambda>r. next_phase r enabled) ^^ 4) p = P_COMPLETED"
    by (cases p) (simp_all add: eval_nat_numeral)
  fix r
  assume "r \<in> enabled \<and> p < r"
  then show "next_phase p enabled \<le> r"
    by (cases p; cases r) (auto simp: lifecycle_order_defs)
qed (cases p; auto simp: lifecycle_order_defs)+

lemma next_phase_least_enabled_witness:
  "P_INTRO < next_phase P_INTRO {P_HR} \<and> next_phase P_INTRO {P_HR} \<le> P_HR"
  using next_phase_least_enabled [of P_INTRO "{P_HR}"] by (simp add: lifecycle_order_defs)

text \<open>
  Switching phase is monotone in time and in questions asked: once a phase is due to
  change, neither waiting longer nor asking more questions can make it stay.
\<close>

theorem phase_switch_monotone:
  assumes "should_transition_to_next_phase p e n" and "e \<le> e'" and "n \<le> n'"
  shows "should_transition_to_next_phase p e' n'"
proof -
  obtain c where c: "PHASE_CONFIGS p = Some c"
    using assms(1) by (auto simp: should_transition_to_next_phase_def split: option.splits)
  show ?thesis
    using assms by (auto simp: should_transition_to_next_phase_def c split: if_splits)
qed

lemma phase_switch_monotone_witness:
  "should_transition_to_next_phase P_TECH 600 3 \<and> should_transition_to_next_phase P_TECH 650 4"
proof -
  have h: "should_transition_to_next_phase P_TECH 600 3"
    by (simp add: should_transition_to_next_phase_def)
  show ?thesis using h phase_switch_monotone [OF h, of 650 4] by simp
qed

section \<open>Aggregated document status\<close>

definition aggregate_vector_status :: "pystr list \<Rightarrow> pystr" where
  "aggregate_vector_status statuses =
     (if statuses = [] then ascii ''PENDING''
      else if ascii ''FAILED'' \<in> set statuses then ascii ''FAILED''
      else if \<exists>s \<in> set statuses. s = ascii ''PENDING'' \<or> s = ascii ''PROCESSING''
        then ascii ''PROCESSING''
      else ascii ''COMPLETED'')"

text \<open>
  The status of a knowledge base is a summary of its documents that can be computed in
  parts: for two groups of documents, aggregating the group results gives the aggregate of
  all documents. It is COMPLETED only if no document failed or is pending or processing.
\<close>

theorem aggregate_vector_status_compositional:
  assumes "xs \<noteq> []" and "ys \<noteq> []"
  shows "aggregate_vector_status (xs @ ys)
           = aggregate_vector_status [aggregate_vector_status xs, aggregate_vector_status ys]
     \<and> (aggregate_vector_status (xs @ ys) = ascii ''COMPLETED'' \<longleftrightarrow>
           set (xs @ ys) \<inter> {ascii ''FAILED'', ascii ''PENDING'', ascii ''PROCESSING''} = {})"
  using assms by (auto simp: aggregate_vector_status_def)

lemma aggregate_vector_status_compositional_witness:
  "aggregate_vector_status ([ascii ''COMPLETED''] @ [ascii ''PENDING'']) = ascii ''PROCESSING''"
  using aggregate_vector_status_compositional [of "[ascii ''COMPLETED'']" "[ascii ''PENDING'']"]
  by (simp add: aggregate_vector_status_def)

end
