(* ===== verification/Skill_Allocation.thy ===== *)
theory Skill_Allocation
  imports Entities
begin

text \<open>
  \<open>app/domain/services/skill_service.py\<close>: the three-phase distribution of questions over the
  categories of a skill, the cleaning of category keys and labels, the reference index and
  the custom skill built from a job description.
\<close>

lemma priority_distinct: "C_ALWAYS_ONE \<noteq> C_CORE" "C_NORMAL \<noteq> C_CORE" "C_NORMAL \<noteq> C_ALWAYS_ONE"
  by (simp_all add: C_ALWAYS_ONE_def C_CORE_def C_NORMAL_def)

section \<open>Distribution of questions\<close>

definition CUSTOM_SKILL_ID :: pystr where "CUSTOM_SKILL_ID = ascii ''custom''"
definition MAX_CATEGORY_KEY_LENGTH :: nat where "MAX_CATEGORY_KEY_LENGTH = 50"
definition MAX_CATEGORY_LABEL_LENGTH :: nat where "MAX_CATEGORY_LABEL_LENGTH = 50"

text \<open>The state of the loops: the allocation and the number of questions left.\<close>

type_synonym alloc_state = "(pystr, int) dict \<times> int"

text \<open>\<open>for cat in cats: if remaining > 0: allocation[cat.key] = 1; remaining -= 1\<close>\<close>

fun assign_each :: "SkillCategory list \<Rightarrow> alloc_state \<Rightarrow> alloc_state" where
  "assign_each [] st = st"
| "assign_each (c # cs) (a, r) =
     (if r > 0 then assign_each cs (dict_set (cat_key c) 1 a, r - 1) else assign_each cs (a, r))"

text \<open>\<open>for cat in cats: if remaining <= 0: break; allocation[cat.key] += 1; remaining -= 1\<close>\<close>

fun add_each :: "SkillCategory list \<Rightarrow> alloc_state \<Rightarrow> alloc_state" where
  "add_each [] st = st"
| "add_each (c # cs) (a, r) =
     (if r \<le> 0 then (a, r)
      else add_each cs (dict_set (cat_key c) (dict_get_default a (cat_key c) 0 + 1) a, r - 1))"

lemma add_each_rem: "0 \<le> r \<Longrightarrow> snd (add_each cs (a, r)) = r - min r (int (length cs))"
  by (induction cs "(a, r)" arbitrary: a r rule: add_each.induct) auto

text \<open>\<open>while remaining > 0 and (core_cats or normal_cats): ...\<close>\<close>

function add_rounds :: "SkillCategory list \<Rightarrow> SkillCategory list \<Rightarrow> alloc_state \<Rightarrow> alloc_state" where
  "add_rounds core normal st =
     (if snd st > 0 \<and> (core \<noteq> [] \<or> normal \<noteq> [])
      then add_rounds core normal (add_each normal (add_each core st)) else st)"
  by pat_completeness auto
termination
proof (relation "measure (\<lambda>(core, normal, st). nat (snd st))", goal_cases)
  case 1
  show ?case by simp
next
  case (2 core normal st)
  obtain a r where st: "st = (a, r)" by force
  obtain a' r' where st': "add_each core (a, r) = (a', r')" by force
  from 2 st have r: "r > 0" by simp
  have r': "r' = r - min r (int (length core))"
    using add_each_rem [of r core a] r st' by simp
  then have "0 \<le> r'" by simp
  then have "snd (add_each normal (a', r')) = r' - min r' (int (length normal))"
    by (rule add_each_rem)
  with r r' 2 st st' show ?case by (auto simp: neq_Nil_conv)
qed

declare add_rounds.simps [simp del]

fun setdefault_each :: "SkillCategory list \<Rightarrow> (pystr, int) dict \<Rightarrow> (pystr, int) dict" where
  "setdefault_each [] a = a"
| "setdefault_each (c # cs) a = setdefault_each cs (dict_setdefault (cat_key c) 0 a)"

definition calculate_allocation :: "SkillCategory list \<Rightarrow> int \<Rightarrow> (pystr, int) dict" where
  "calculate_allocation categories total_questions =
     (let always_one_cats = filter (\<lambda>c. cat_priority c = C_ALWAYS_ONE) categories;
          core_cats = filter (\<lambda>c. cat_priority c = C_CORE) categories;
          normal_cats = filter (\<lambda>c. cat_priority c \<noteq> C_ALWAYS_ONE \<and> cat_priority c \<noteq> C_CORE) categories;
          st1 = assign_each always_one_cats ([], total_questions);
          st2 = assign_each core_cats st1;
          st3 = assign_each normal_cats st2;
          st4 = add_rounds core_cats normal_cats st3
      in setdefault_each normal_cats (setdefault_each core_cats (fst st4)))"

section \<open>What the loops compute\<close>

abbreviation alloc_get :: "(pystr, int) dict \<Rightarrow> pystr \<Rightarrow> int" where
  "alloc_get a k \<equiv> dict_get_default a k 0"

abbreviation cat_keys :: "SkillCategory list \<Rightarrow> pystr list" where
  "cat_keys cs \<equiv> map cat_key cs"

definition alloc_total :: "(pystr, int) dict \<Rightarrow> int" where
  "alloc_total a = sum_list (map snd a)"

lemma alloc_get_set [simp]: "alloc_get (dict_set k v a) k' = (if k' = k then v else alloc_get a k')"
  by (simp add: dict_get_default_def)

lemma alloc_total_set:
  assumes "dict_wf a"
  shows "alloc_total (dict_set k v a) = alloc_total a - alloc_get a k + v"
  using sum_dict_set [OF assms, of id k v]
  by (simp add: alloc_total_def dict_get_default_def split: option.splits)

lemma assign_each_Nil_rem: "r \<le> 0 \<Longrightarrow> assign_each cs (a, r) = (a, r)"
  by (induction cs) auto

lemma assign_each_append: "assign_each (xs @ ys) st = assign_each ys (assign_each xs st)"
  by (induction xs st rule: assign_each.induct) auto

lemma add_each_stop: "r \<le> 0 \<Longrightarrow> add_each cs (a, r) = (a, r)"
  by (cases cs) auto

lemma add_each_append: "add_each (xs @ ys) st = add_each ys (add_each xs st)"
  by (induction xs st rule: add_each.induct) (auto simp: add_each_stop)

text \<open>On fresh distinct keys the covering pass is one round of the increment loop.\<close>

lemma assign_each_add_each:
  "distinct (cat_keys cs) \<Longrightarrow> set (cat_keys cs) \<inter> set (dict_keys a) = {}
   \<Longrightarrow> assign_each cs (a, r) = add_each cs (a, r)"
proof (induction cs arbitrary: a r)
  case Nil
  then show ?case by simp
next
  case (Cons c cs)
  show ?case
  proof (cases "r > 0")
    case True
    have "dict_get a (cat_key c) = None" using Cons.prems by (simp add: map_of_eq_None_iff)
    then have z: "alloc_get a (cat_key c) = 0" by (simp add: dict_get_default_def)
    have "set (cat_keys cs) \<inter> set (dict_keys (dict_set (cat_key c) 1 a)) = {}"
      using Cons.prems by auto
    then have "assign_each cs (dict_set (cat_key c) 1 a, r - 1)
        = add_each cs (dict_set (cat_key c) 1 a, r - 1)"
      using Cons.prems by (intro Cons.IH) auto
    with True z show ?thesis by simp
  next
    case False
    then show ?thesis by (simp add: assign_each_Nil_rem)
  qed
qed

lemma add_each_get:
  assumes "distinct (cat_keys cs)" "0 \<le> r"
  shows "alloc_get (fst (add_each cs (a, r))) k
       = alloc_get a k + (if k \<in> set (cat_keys (take (nat r) cs)) then 1 else 0)"
  using assms
proof (induction cs arbitrary: a r)
  case Nil
  then show ?case by simp
next
  case (Cons c cs)
  show ?case
  proof (cases "r > 0")
    case True
    then have n: "nat r = Suc (nat (r - 1))" by simp
    have "cat_key c \<notin> set (cat_keys (take (nat (r - 1)) cs))"
      using Cons.prems by (auto dest: in_set_takeD)
    with True Cons.IH [of "r - 1"] Cons.prems show ?thesis by (simp add: n del: nat_diff_distrib')
  next
    case False
    with Cons.prems show ?thesis by simp
  qed
qed

lemma add_each_wf: "dict_wf a \<Longrightarrow> dict_wf (fst (add_each cs (a, r)))"
  by (induction cs "(a, r)" arbitrary: a r rule: add_each.induct) auto

lemma add_each_keys: "set (dict_keys (fst (add_each cs (a, r)))) \<subseteq> set (dict_keys a) \<union> set (cat_keys cs)"
  by (induction cs "(a, r)" arbitrary: a r rule: add_each.induct) auto

lemma add_each_total:
  "dict_wf a \<Longrightarrow> alloc_total (fst (add_each cs (a, r))) + snd (add_each cs (a, r)) = alloc_total a + r"
  by (induction cs "(a, r)" arbitrary: a r rule: add_each.induct) (auto simp: alloc_total_set)

lemma add_rounds_append:
  "add_rounds core normal st = add_rounds [] (core @ normal) st"
proof (induction core normal st rule: add_rounds.induct)
  case (1 core normal st)
  then show ?case
    by (subst (1 2) add_rounds.simps) (auto simp: add_each_append)
qed

lemma key_in_take:
  assumes "distinct (cat_keys cs)" "i < length cs"
  shows "cat_key (cs ! i) \<in> set (cat_keys (take m cs)) \<longleftrightarrow> i < m"
proof
  assume "cat_key (cs ! i) \<in> set (cat_keys (take m cs))"
  then obtain j where j: "j < m" "j < length cs" "cat_keys cs ! j = cat_keys cs ! i"
    using assms(2) by (auto simp: in_set_conv_nth)
  then have "j = i" using assms by (simp add: nth_eq_iff_index_eq [of "cat_keys cs"] del: nth_map)
  with j show "i < m" by simp
next
  assume "i < m"
  then show "cat_key (cs ! i) \<in> set (cat_keys (take m cs))"
    using assms(2) by (force simp: in_set_conv_nth)
qed

text \<open>
  The rounds have a closed form: with \<open>n\<close> distinct categories and \<open>r\<close> questions, the
  category at position \<open>i\<close> gains \<open>r div n\<close>, and one more if \<open>i < r mod n\<close>.
\<close>

lemma add_rounds_get:
  assumes "distinct (cat_keys cs)" "i < length cs" "0 \<le> r"
  shows "alloc_get (fst (add_rounds [] cs (a, r))) (cat_key (cs ! i))
       = alloc_get a (cat_key (cs ! i)) + r div int (length cs)
         + (if int i < r mod int (length cs) then 1 else 0)"
  using assms(3)
proof (induction "nat r" arbitrary: a r rule: less_induct)
  case less
  let ?n = "int (length cs)"
  have n: "0 < ?n" using assms(2) by linarith
  note mem = key_in_take [OF assms(1,2)]
  show ?case
  proof (cases "r > 0")
    case False
    with less.prems have "r = 0" by simp
    then show ?thesis using n by (simp add: add_rounds.simps)
  next
    case True
    obtain a' r' where e: "add_each cs (a, r) = (a', r')" by force
    have r': "r' = r - min r ?n" using add_each_rem [of r cs a] True e by simp
    have a': "alloc_get a' (cat_key (cs ! i)) = alloc_get a (cat_key (cs ! i)) + (if int i < r then 1 else 0)"
      using add_each_get [OF assms(1), of r a "cat_key (cs ! i)"] True e mem by (simp add: zless_nat_eq_int_zless)
    have "add_rounds [] cs (a, r) = add_rounds [] cs (a', r')"
      using True assms(2) e by (subst add_rounds.simps) auto
    moreover have "alloc_get (fst (add_rounds [] cs (a', r'))) (cat_key (cs ! i))
       = alloc_get a' (cat_key (cs ! i)) + r' div ?n + (if int i < r' mod ?n then 1 else 0)"
      using r' True n by (intro less.hyps) auto
    moreover have "(if int i < r then 1 else 0) + r' div ?n + (if int i < r' mod ?n then 1 else 0)
       = r div ?n + (if int i < r mod ?n then (1::int) else 0)"
    proof (cases "r < ?n")
      case True
      with less.prems r' show ?thesis by simp
    next
      case False
      then have "r' = r - ?n" using r' by simp
      moreover have "int i < r" using False assms(2) by simp
      moreover have "r div ?n = (r - ?n) div ?n + 1" using n False by (intro div_pos_geq) simp_all
      moreover have "r mod ?n = (r - ?n) mod ?n" using n by simp
      ultimately show ?thesis by simp
    qed
    ultimately show ?thesis using a' by simp
  qed
qed

lemma add_rounds_rem:
  assumes "cs \<noteq> []" "0 \<le> r"
  shows "snd (add_rounds [] cs (a, r)) = 0"
  using assms(2)
proof (induction "nat r" arbitrary: a r rule: less_induct)
  case less
  show ?case
  proof (cases "r > 0")
    case False
    with less.prems show ?thesis by (simp add: add_rounds.simps)
  next
    case True
    obtain a' r' where e: "add_each cs (a, r) = (a', r')" by force
    have r': "r' = r - min r (int (length cs))" using add_each_rem [of r cs a] True e by simp
    then have "snd (add_rounds [] cs (a', r')) = 0"
      using True assms(1) by (intro less.hyps) (auto simp: neq_Nil_conv)
    with True assms(1) e show ?thesis by (subst add_rounds.simps) auto
  qed
qed

lemma add_rounds_inv:
  assumes "dict_wf (fst st)"
  shows "dict_wf (fst (add_rounds [] cs st))
       \<and> alloc_total (fst (add_rounds [] cs st)) + snd (add_rounds [] cs st) = alloc_total (fst st) + snd st"
  using assms
proof (induction "[] :: SkillCategory list" cs st rule: add_rounds.induct)
  case (1 cs st)
  show ?case
  proof (cases "snd st > 0 \<and> cs \<noteq> []")
    case True
    obtain a r where st: "st = (a, r)" by force
    from 1 True st have "dict_wf (fst (add_each cs st))" by (simp add: add_each_wf)
    with 1 True st show ?thesis
      by (subst (1 2 3) add_rounds.simps) (simp add: add_each_total)
  next
    case False
    with 1 show ?thesis by (subst (1 2 3) add_rounds.simps) auto
  qed
qed

lemma add_rounds_keys:
  "set (dict_keys (fst (add_rounds [] cs st))) \<subseteq> set (dict_keys (fst st)) \<union> set (cat_keys cs)"
proof (induction "[] :: SkillCategory list" cs st rule: add_rounds.induct)
  case (1 cs st)
  obtain a r where st: "st = (a, r)" by force
  show ?case
    using 1 add_each_keys [of cs a r] st by (subst add_rounds.simps) auto
qed

lemma add_rounds_other:
  assumes "k \<notin> set (cat_keys cs)" "distinct (cat_keys cs)"
  shows "alloc_get (fst (add_rounds [] cs st)) k = alloc_get (fst st) k"
  using assms
proof (induction "[] :: SkillCategory list" cs st rule: add_rounds.induct)
  case (1 cs st)
  obtain a r where st: "st = (a, r)" by force
  show ?case
  proof (cases "r > 0 \<and> cs \<noteq> []")
    case True
    have "k \<notin> set (cat_keys (take (nat r) cs))" using 1(2) by (auto dest: in_set_takeD)
    with True 1(3) have "alloc_get (fst (add_each cs (a, r))) k = alloc_get a k"
      by (simp add: add_each_get)
    with 1 True st show ?thesis by (subst add_rounds.simps) simp
  next
    case False
    then show ?thesis by (subst add_rounds.simps) (auto simp: st)
  qed
qed

lemma setdefault_each_get [simp]: "alloc_get (setdefault_each cs a) k = alloc_get a k"
  by (induction cs a rule: setdefault_each.induct) (simp_all add: dict_get_default_def)

lemma dict_wf_setdefault_each: "dict_wf a \<Longrightarrow> dict_wf (setdefault_each cs a)"
  by (induction cs a rule: setdefault_each.induct) simp_all

lemma setdefault_each_total: "dict_wf a \<Longrightarrow> alloc_total (setdefault_each cs a) = alloc_total a"
  by (induction cs a rule: setdefault_each.induct)
     (auto simp: dict_setdefault_def alloc_total_set dict_get_default_def split: option.split)

definition always_cats :: "SkillCategory list \<Rightarrow> SkillCategory list" where
  "always_cats cs = filter (\<lambda>c. cat_priority c = C_ALWAYS_ONE) cs"

definition spread_cats :: "SkillCategory list \<Rightarrow> SkillCategory list" where
  "spread_cats cs = filter (\<lambda>c. cat_priority c = C_CORE) cs
     @ filter (\<lambda>c. cat_priority c \<noteq> C_ALWAYS_ONE \<and> cat_priority c \<noteq> C_CORE) cs"

lemma always_spread_keys:
  assumes "distinct (cat_keys cs)"
  shows "distinct (cat_keys (always_cats cs))" "distinct (cat_keys (spread_cats cs))"
    "set (cat_keys (always_cats cs)) \<inter> set (cat_keys (spread_cats cs)) = {}"
  using assms
  by (auto simp: always_cats_def spread_cats_def distinct_map inj_on_def) (metis priority_distinct)+

lemma calculate_allocation_two_phases:
  assumes "distinct (cat_keys cs)"
  shows "calculate_allocation cs t
    = (let (a, r) = add_each (always_cats cs) ([], t)
       in setdefault_each (filter (\<lambda>c. cat_priority c \<noteq> C_ALWAYS_ONE \<and> cat_priority c \<noteq> C_CORE) cs)
           (setdefault_each (filter (\<lambda>c. cat_priority c = C_CORE) cs)
             (fst (add_rounds [] (spread_cats cs) (a, r)))))"
proof -
  note keys = always_spread_keys [OF assms]
  obtain a r where e: "add_each (always_cats cs) ([], t) = (a, r)" by force
  have p1: "assign_each (always_cats cs) ([], t) = (a, r)"
    using keys e by (simp add: assign_each_add_each)
  have "set (dict_keys a) \<subseteq> set (cat_keys (always_cats cs))"
    using add_each_keys [of "always_cats cs" "[]" t] e by simp
  then have p2: "assign_each (spread_cats cs) (a, r) = add_each (spread_cats cs) (a, r)"
    using keys by (intro assign_each_add_each) auto
  have p3: "add_rounds [] (spread_cats cs) (add_each (spread_cats cs) (a, r))
      = add_rounds [] (spread_cats cs) (a, r)"
  proof (cases "r > 0 \<and> spread_cats cs \<noteq> []")
    case True
    then show ?thesis by (subst (2) add_rounds.simps) simp
  next
    case False
    then have "add_each (spread_cats cs) (a, r) = (a, r)" by (auto simp: add_each_stop)
    then show ?thesis by simp
  qed
  have "assign_each (filter (\<lambda>c. cat_priority c \<noteq> C_ALWAYS_ONE \<and> cat_priority c \<noteq> C_CORE) cs)
      (assign_each (filter (\<lambda>c. cat_priority c = C_CORE) cs) (assign_each (always_cats cs) ([], t)))
     = add_each (spread_cats cs) (a, r)"
    using p1 p2 by (simp add: spread_cats_def assign_each_append)
  then show ?thesis
    using e p3
    by (simp add: calculate_allocation_def Let_def always_cats_def [symmetric] add_rounds_append [of _ "filter _ _"])
       (simp add: spread_cats_def)
qed

lemma add_rounds_get_base:
  assumes "distinct (cat_keys cs)" "add_each (always_cats cs) ([], t) = (a, r)" "i < length (spread_cats cs)"
  shows "alloc_get a (cat_key (spread_cats cs ! i)) = 0"
proof -
  note keys = always_spread_keys [OF assms(1)]
  have "cat_key (spread_cats cs ! i) \<in> set (cat_keys (spread_cats cs))" using assms(3) by simp
  moreover have "set (dict_keys a) \<subseteq> set (cat_keys (always_cats cs))"
    using add_each_keys [of "always_cats cs" "[]" t] assms(2) by simp
  ultimately have "cat_key (spread_cats cs ! i) \<notin> set (dict_keys a)" using keys(3) by blast
  then have "dict_get a (cat_key (spread_cats cs ! i)) = None" by (simp add: map_of_eq_None_iff)
  then show ?thesis by (simp add: dict_get_default_def)
qed

text \<open>
  The three-phase loop is the fair division it is meant to be. For categories with
  distinct keys, the ALWAYS_ONE categories get one question each while questions last, and
  the remaining \<open>r\<close> questions are dealt over the CORE and then NORMAL categories: the one at
  position \<open>i\<close> of \<open>n\<close> gets \<open>r div n\<close>, and one more if \<open>i < r mod n\<close>.
\<close>

theorem allocation_closed_form:
  assumes "distinct (cat_keys cs)" and "0 \<le> t"
  defines "r \<equiv> t - min t (int (length (always_cats cs)))"
  shows "(\<forall>i < length (always_cats cs).
            alloc_get (calculate_allocation cs t) (cat_key (always_cats cs ! i)) = (if int i < t then 1 else 0))
       \<and> (\<forall>i < length (spread_cats cs).
            alloc_get (calculate_allocation cs t) (cat_key (spread_cats cs ! i))
              = r div int (length (spread_cats cs)) + (if int i < r mod int (length (spread_cats cs)) then 1 else 0))"
proof -
  note keys = always_spread_keys [OF assms(1)]
  obtain a r' where e: "add_each (always_cats cs) ([], t) = (a, r')" by force
  have r': "r' = r" using add_each_rem [OF assms(2), of "always_cats cs" "[]"] e by (simp add: r_def)
  have r0: "0 \<le> r" by (simp add: r_def)
  have a: "alloc_get a k = (if k \<in> set (cat_keys (take (nat t) (always_cats cs))) then 1 else 0)" for k
    using add_each_get [OF keys(1) assms(2), of "[]" k] e by (simp add: dict_get_default_def)
  have calc: "alloc_get (calculate_allocation cs t) k = alloc_get (fst (add_rounds [] (spread_cats cs) (a, r))) k" for k
    using e r' by (simp add: calculate_allocation_two_phases [OF assms(1)])
  show ?thesis
  proof (intro conjI allI impI)
    fix i assume i: "i < length (always_cats cs)"
    then have "cat_key (always_cats cs ! i) \<in> set (cat_keys (always_cats cs))" by simp
    with keys have "cat_key (always_cats cs ! i) \<notin> set (cat_keys (spread_cats cs))" by blast
    then have "alloc_get (calculate_allocation cs t) (cat_key (always_cats cs ! i))
        = alloc_get a (cat_key (always_cats cs ! i))"
      using add_rounds_other keys(2) calc by simp
    then show "alloc_get (calculate_allocation cs t) (cat_key (always_cats cs ! i)) = (if int i < t then 1 else 0)"
      using a key_in_take [OF keys(1) i] by (simp add: zless_nat_eq_int_zless)
  next
    fix i assume i: "i < length (spread_cats cs)"
    then have "cat_key (spread_cats cs ! i) \<in> set (cat_keys (spread_cats cs))" by simp
    with keys have "cat_key (spread_cats cs ! i) \<notin> set (cat_keys (take (nat t) (always_cats cs)))"
      by (auto dest: in_set_takeD)
    then show "alloc_get (calculate_allocation cs t) (cat_key (spread_cats cs ! i))
        = r div int (length (spread_cats cs)) + (if int i < r mod int (length (spread_cats cs)) then 1 else 0)"
      using add_rounds_get [OF keys(2) i r0, of a] a calc by simp
  qed
qed

lemma allocation_closed_form_witness:
  "(let c = (\<lambda>k p. \<lparr>cat_key = [k], cat_label = [], cat_priority = p, cat_ref = None, cat_shared = False\<rparr>);
        cs = [c 65 C_NORMAL, c 66 C_ALWAYS_ONE, c 67 C_CORE]
    in alloc_get (calculate_allocation cs 6) [66] = 1
     \<and> alloc_get (calculate_allocation cs 6) [67] = 3 \<and> alloc_get (calculate_allocation cs 6) [65] = 2)"
proof -
  let ?c = "\<lambda>k p. \<lparr>cat_key = [k :: nat], cat_label = [], cat_priority = p, cat_ref = None, cat_shared = False\<rparr>"
  let ?cs = "[?c 65 C_NORMAL, ?c 66 C_ALWAYS_ONE, ?c 67 C_CORE]"
  have a: "always_cats ?cs = [?c 66 C_ALWAYS_ONE]" and b: "spread_cats ?cs = [?c 67 C_CORE, ?c 65 C_NORMAL]"
    using priority_distinct by (simp_all add: always_cats_def spread_cats_def)
  have "distinct (cat_keys ?cs)" by simp
  note cf = allocation_closed_form [OF this, of 6, simplified]
  show ?thesis
    using cf [THEN conjunct1, rule_format, of 0] cf [THEN conjunct2, rule_format, of 0]
      cf [THEN conjunct2, rule_format, of 1]
    by (simp add: a b Let_def)
qed

text \<open>
  No question is lost and none is invented: when the keys are distinct and some
  category is CORE or NORMAL, the allocation adds up to the number of questions asked for;
  with ALWAYS_ONE categories only, it adds up to at most their number. The division is even
  (two CORE or NORMAL categories differ by at most one) and never favours a later position.
\<close>

theorem allocation_total_and_even:
  assumes "distinct (cat_keys cs)" and "0 \<le> t"
  shows "alloc_total (calculate_allocation cs t)
          = (if spread_cats cs = [] then min t (int (length (always_cats cs))) else t)
       \<and> (\<forall>i j. i \<le> j \<and> j < length (spread_cats cs) \<longrightarrow>
            (let x = alloc_get (calculate_allocation cs t) (cat_key (spread_cats cs ! i));
                 y = alloc_get (calculate_allocation cs t) (cat_key (spread_cats cs ! j))
             in y \<le> x \<and> x \<le> y + 1))"
proof
  note keys = always_spread_keys [OF assms(1)]
  obtain a r where e: "add_each (always_cats cs) ([], t) = (a, r)" by force
  have r: "r = t - min t (int (length (always_cats cs)))"
    using add_each_rem [OF assms(2), of "always_cats cs" "[]"] e by simp
  have wf: "dict_wf a" using add_each_wf [of "[]" "always_cats cs" t] e by simp
  have sum1: "alloc_total a + r = t"
    using add_each_total [of "[]" "always_cats cs" t] e by (simp add: alloc_total_def)
  have inv: "dict_wf (fst (add_rounds [] (spread_cats cs) (a, r)))
      \<and> alloc_total (fst (add_rounds [] (spread_cats cs) (a, r)))
          + snd (add_rounds [] (spread_cats cs) (a, r)) = t"
    using add_rounds_inv [of "(a, r)" "spread_cats cs"] wf sum1 by simp
  have rest: "snd (add_rounds [] (spread_cats cs) (a, r)) = (if spread_cats cs = [] then r else 0)"
    using add_rounds_rem [of "spread_cats cs" r a] r by (auto simp: add_rounds.simps)
  have "alloc_total (calculate_allocation cs t) = alloc_total (fst (add_rounds [] (spread_cats cs) (a, r)))"
    using e inv by (simp add: calculate_allocation_two_phases [OF assms(1)] setdefault_each_total
        dict_wf_setdefault_each)
  then show "alloc_total (calculate_allocation cs t)
      = (if spread_cats cs = [] then min t (int (length (always_cats cs))) else t)"
    using inv rest r by auto
  define n where "n = int (length (spread_cats cs))"
  define d where "d = (\<lambda>i. r div n + (if int i < r mod n then 1 else (0::int)))"
  have get: "alloc_get (calculate_allocation cs t) (cat_key (spread_cats cs ! i)) = d i"
    if "i < length (spread_cats cs)" for i
    using add_rounds_get [OF keys(2) that, of r a] add_rounds_get_base [OF assms(1) e] that e r
    by (simp add: calculate_allocation_two_phases [OF assms(1)] d_def n_def)
  show "\<forall>i j. i \<le> j \<and> j < length (spread_cats cs) \<longrightarrow>
            (let x = alloc_get (calculate_allocation cs t) (cat_key (spread_cats cs ! i));
                 y = alloc_get (calculate_allocation cs t) (cat_key (spread_cats cs ! j))
             in y \<le> x \<and> x \<le> y + 1)"
    by (auto simp: get Let_def d_def)
qed

lemma allocation_total_and_even_witness:
  "(let c = (\<lambda>k p. \<lparr>cat_key = [k], cat_label = [], cat_priority = p, cat_ref = None, cat_shared = False\<rparr>);
        cs = [c 65 C_NORMAL, c 66 C_ALWAYS_ONE, c 67 C_CORE]
    in alloc_total (calculate_allocation cs 7) = 7)"
proof -
  let ?c = "\<lambda>k p. \<lparr>cat_key = [k :: nat], cat_label = [], cat_priority = p, cat_ref = None, cat_shared = False\<rparr>"
  let ?cs = "[?c 65 C_NORMAL, ?c 66 C_ALWAYS_ONE, ?c 67 C_CORE]"
  have b: "spread_cats ?cs = [?c 67 C_CORE, ?c 65 C_NORMAL]"
    using priority_distinct by (simp add: spread_cats_def)
  have "distinct (cat_keys ?cs)" by simp
  from allocation_total_and_even [OF this, of 7] show ?thesis
    by (simp add: b Let_def)
qed

text \<open>
  The distinctness of keys matters. The covering pass assigns 1 instead of adding 1, so a
  key that occurs twice consumes two questions and records one.
\<close>

lemma allocation_duplicate_key_loses:
  "(let c = \<lparr>cat_key = [65], cat_label = [], cat_priority = C_CORE, cat_ref = None, cat_shared = False\<rparr>
    in alloc_total (calculate_allocation [c, c] 2) = 1)"
  by (simp add: calculate_allocation_def Let_def add_rounds.simps priority_distinct
      priority_distinct(1) [symmetric] alloc_total_def dict_setdefault_def)

section \<open>Cleaning of keys and labels\<close>

text \<open>
  \<open>str.upper()\<close> maps each code point on its own. The ASCII part is written out; the full
  mapping of the other code points is the Unicode table, the parameter \<open>up\<close>.
\<close>

definition py_upper :: "(nat \<Rightarrow> pystr) \<Rightarrow> pystr \<Rightarrow> pystr" where
  "py_upper up s = concat (map (\<lambda>c. if c < 128 then (if 97 \<le> c \<and> c \<le> 122 then [c - 32] else [c]) else up c) s)"

definition is_upper_letter :: "nat \<Rightarrow> bool" where
  "is_upper_letter c \<longleftrightarrow> 65 \<le> c \<and> c \<le> 90"

text \<open>The class \<open>[A-Z0-9_]\<close> of the pattern; \<open>isalpha\<close> on it is being a letter.\<close>

definition is_key_char :: "nat \<Rightarrow> bool" where
  "is_key_char c \<longleftrightarrow> is_upper_letter c \<or> (48 \<le> c \<and> c \<le> 57) \<or> c = 95"

definition UNKNOWN_KEY :: pystr where "UNKNOWN_KEY = ascii ''UNKNOWN''"

definition sanitize_category_key :: "(nat \<Rightarrow> pystr) \<Rightarrow> pystr option \<Rightarrow> pystr" where
  "sanitize_category_key up key =
     (case key of
        None \<Rightarrow> UNKNOWN_KEY
      | Some k \<Rightarrow>
          if blank k then UNKNOWN_KEY
          else
            let trimmed = py_strip k;
                trimmed = (if length trimmed > MAX_CATEGORY_KEY_LENGTH
                           then take MAX_CATEGORY_KEY_LENGTH trimmed else trimmed);
                upper = map (\<lambda>c. if is_key_char c then c else 95) (py_upper up trimmed)
            in if upper = [] then UNKNOWN_KEY
               else if \<not> is_upper_letter (hd upper) then ascii ''CAT_'' @ upper else upper)"

text \<open>\<open>re.sub("[\r\n]+", " ", s)\<close>: each maximal run of line breaks becomes one blank.\<close>

fun collapse_newlines :: "pystr \<Rightarrow> pystr" where
  "collapse_newlines [] = []"
| "collapse_newlines (c # cs) =
     (if c = 10 \<or> c = 13
      then (case cs of
              [] \<Rightarrow> [32]
            | d # ds \<Rightarrow> if d = 10 \<or> d = 13 then collapse_newlines cs else 32 # collapse_newlines cs)
      else c # collapse_newlines cs)"

definition UNNAMED_LABEL :: pystr where "UNNAMED_LABEL = [26410, 21629, 21517]"

definition sanitize_category_label :: "pystr option \<Rightarrow> pystr" where
  "sanitize_category_label label =
     (case label of
        None \<Rightarrow> UNNAMED_LABEL
      | Some l \<Rightarrow>
          if blank l then UNNAMED_LABEL
          else
            let trimmed = collapse_newlines (py_strip l)
            in if length trimmed > MAX_CATEGORY_LABEL_LENGTH
               then take MAX_CATEGORY_LABEL_LENGTH trimmed else trimmed)"

lemma is_key_char_not_space: "is_key_char c \<Longrightarrow> \<not> is_space c"
  by (auto simp: is_key_char_def is_upper_letter_def is_space_def)

lemma is_key_char_ascii_upper: "is_key_char c \<Longrightarrow> c < 128 \<and> \<not> (97 \<le> c \<and> c \<le> 122)"
  by (auto simp: is_key_char_def is_upper_letter_def)

lemma py_upper_key: "\<forall>c \<in> set s. is_key_char c \<Longrightarrow> py_upper up s = s"
  by (induction s) (auto simp: py_upper_def dest: is_key_char_ascii_upper)

lemma ascii_key_literals:
  "hd (ascii ''CAT_'') = 67" "\<forall>c \<in> set (ascii ''CAT_''). is_key_char c"
  "hd UNKNOWN_KEY = 85" "\<forall>c \<in> set UNKNOWN_KEY. is_key_char c"
  by (simp_all add: ascii_def UNKNOWN_KEY_def is_key_char_def is_upper_letter_def)

lemma sanitize_category_key_shape:
  "sanitize_category_key up key \<noteq> [] \<and> is_upper_letter (hd (sanitize_category_key up key))
   \<and> (\<forall>c \<in> set (sanitize_category_key up key). is_key_char c)"
proof (cases "key = None \<or> sanitize_category_key up key = UNKNOWN_KEY")
  case True
  then have "sanitize_category_key up key = UNKNOWN_KEY" by (auto simp: sanitize_category_key_def)
  then show ?thesis using ascii_key_literals by (simp add: is_upper_letter_def UNKNOWN_KEY_def)
next
  case False
  then obtain k where k: "key = Some k" "sanitize_category_key up key \<noteq> UNKNOWN_KEY" by auto
  define u where "u = map (\<lambda>c. if is_key_char c then c else 95)
    (py_upper up (if length (py_strip k) > MAX_CATEGORY_KEY_LENGTH
                  then take MAX_CATEGORY_KEY_LENGTH (py_strip k) else py_strip k))"
  have u: "\<forall>c \<in> set u. is_key_char c" by (auto simp: u_def is_key_char_def [of 95])
  have e: "sanitize_category_key up key =
      (if blank k then UNKNOWN_KEY else if u = [] then UNKNOWN_KEY
       else if \<not> is_upper_letter (hd u) then ascii ''CAT_'' @ u else u)"
    by (simp add: k(1) sanitize_category_key_def u_def Let_def)
  with k(2) have "u \<noteq> []" "sanitize_category_key up key =
      (if \<not> is_upper_letter (hd u) then ascii ''CAT_'' @ u else u)" by (auto split: if_splits)
  then show ?thesis using u ascii_key_literals
    by (auto simp: is_upper_letter_def hd_append)
qed

text \<open>
  Whatever text a model or a user supplies, the cleaned category key is a usable
  identifier: it is not empty, starts with a letter A-Z and holds only A-Z, 0-9 and the
  underscore, for any Unicode upper-casing table; and cleaning a clean key of at most 50
  characters changes nothing, so keys can be matched against the reference index.
\<close>

theorem sanitize_category_key_identifier:
  "sanitize_category_key up key \<noteq> [] \<and> is_upper_letter (hd (sanitize_category_key up key))
   \<and> (\<forall>c \<in> set (sanitize_category_key up key). is_key_char c)
   \<and> (length (sanitize_category_key up key) \<le> MAX_CATEGORY_KEY_LENGTH \<longrightarrow>
        sanitize_category_key up' (Some (sanitize_category_key up key)) = sanitize_category_key up key)"
proof -
  let ?s = "sanitize_category_key up key"
  note shape = sanitize_category_key_shape [of up key]
  have "sanitize_category_key up' (Some ?s) = ?s" if len: "length ?s \<le> MAX_CATEGORY_KEY_LENGTH"
  proof -
    have sp: "\<not> is_space (hd ?s)" "\<not> is_space (last ?s)"
      using shape by (simp_all add: is_key_char_not_space)
    then have st: "py_strip ?s = ?s" by (intro py_strip_id) simp
    have "map (\<lambda>c. if is_key_char c then c else 95) ?s = ?s"
      using shape by (intro map_idI) simp
    then show ?thesis
      using st shape len by (simp add: sanitize_category_key_def [of up'] blank_def py_upper_key)
  qed
  with shape show ?thesis by blast
qed

lemma sanitize_category_key_identifier_witness:
  "sanitize_category_key (\<lambda>c. [c]) (Some (ascii ''my sql'')) = ascii ''MY_SQL''
   \<and> sanitize_category_key (\<lambda>c. [c]) (Some (ascii ''MY_SQL'')) = ascii ''MY_SQL''"
proof -
  have e: "sanitize_category_key (\<lambda>c. [c]) (Some (ascii ''my sql'')) = ascii ''MY_SQL''"
    by (simp add: sanitize_category_key_def py_eval py_upper_def is_key_char_def is_upper_letter_def
        MAX_CATEGORY_KEY_LENGTH_def Let_def)
  show ?thesis
    using sanitize_category_key_identifier [of "\<lambda>c. [c]" "Some (ascii ''my sql'')" "\<lambda>c. [c]"]
    by (simp add: e MAX_CATEGORY_KEY_LENGTH_def)
qed

lemma collapse_newlines_no_break: "10 \<notin> set (collapse_newlines s) \<and> 13 \<notin> set (collapse_newlines s)"
  by (induction s rule: collapse_newlines.induct) (auto split: list.splits)

lemma collapse_newlines_ne: "s \<noteq> [] \<Longrightarrow> collapse_newlines s \<noteq> []"
  by (induction s rule: collapse_newlines.induct) (auto split: list.splits)

lemma sanitize_category_label_ok:
  "sanitize_category_label l \<noteq> [] \<and> length (sanitize_category_label l) \<le> MAX_CATEGORY_LABEL_LENGTH
   \<and> 10 \<notin> set (sanitize_category_label l) \<and> 13 \<notin> set (sanitize_category_label l)"
proof (cases "l = None \<or> (\<exists>x. l = Some x \<and> blank x)")
  case True
  then have "sanitize_category_label l = UNNAMED_LABEL" by (auto simp: sanitize_category_label_def)
  then show ?thesis by (simp add: UNNAMED_LABEL_def MAX_CATEGORY_LABEL_LENGTH_def)
next
  case False
  then obtain x where x: "l = Some x" "py_strip x \<noteq> []" by (auto simp: blank_def)
  define t where "t = collapse_newlines (py_strip x)"
  have t: "t \<noteq> []" "10 \<notin> set t" "13 \<notin> set t"
    using x collapse_newlines_ne collapse_newlines_no_break by (simp_all add: t_def)
  have "sanitize_category_label l =
      (if length t > MAX_CATEGORY_LABEL_LENGTH then take MAX_CATEGORY_LABEL_LENGTH t else t)"
    using x by (simp add: sanitize_category_label_def blank_def t_def Let_def)
  with t show ?thesis
    by (auto simp: MAX_CATEGORY_LABEL_LENGTH_def dest: in_set_takeD)
qed

section \<open>Reference files and the custom skill\<close>

text \<open>The table of reference files: one row per file name, from the first category that names it.\<close>

definition ref_row :: "Skill \<Rightarrow> SkillCategory \<Rightarrow> pystr \<Rightarrow> pystr" where
  "ref_row skill c ref =
     ascii ''| '' @ ref @ ascii '' | '' @ (if cat_shared c then ascii ''shared'' else ascii ''skill-local'')
     @ ascii '' | '' @ skill_name skill @ ascii '' | '' @ cat_label c @ ascii '' |'' @ [10]"

definition collect_ref_rows :: "Skill list \<Rightarrow> (pystr, pystr) dict" where
  "collect_ref_rows skills =
     fold (\<lambda>(skill, c) d. case cat_ref c of
             None \<Rightarrow> d
           | Some ref \<Rightarrow> if ref = [] then d else dict_setdefault ref (ref_row skill c ref) d)
       (concat (map (\<lambda>skill. map (Pair skill) (skill_categories skill)) skills)) []"

definition build_reference_file_list :: "Skill list \<Rightarrow> pystr" where
  "build_reference_file_list skills =
     (let rows = collect_ref_rows skills
      in if rows = [] then [65288, 26080, 21487, 29992, 21442, 32771, 25991, 20214, 65289]
         else [124, 32, 25991, 20214, 21517, 32, 124, 32, 33539, 22260, 32, 124, 32, 26469, 28304, 32, 83, 107, 105, 108, 108, 32, 124, 32, 35206, 30422, 20869, 23481, 32, 124, 10, 124, 45, 45, 45, 45, 45, 45, 45, 45, 124, 45, 45, 45, 45, 45, 45, 124, 45, 45, 45, 45, 45, 45, 45, 45, 45, 45, 45, 45, 45, 124, 45, 45, 45, 45, 45, 45, 45, 45, 45, 45, 124, 10]
              @ concat (map snd rows))"

text \<open>The index from category key to reference: the first skill that names a key wins.\<close>

definition index_category :: "Skill \<Rightarrow> SkillCategory \<Rightarrow> (pystr, RefMapping) dict \<Rightarrow> (pystr, RefMapping) dict" where
  "index_category skill c index =
     (if truthy_str (cat_ref c) \<and> cat_key c \<noteq> []
      then (case dict_get index (cat_key c) of
              None \<Rightarrow> dict_set (cat_key c) \<lparr>rm_ref = the (cat_ref c), rm_shared = cat_shared c,
                        rm_source_skill_id = skill_id skill\<rparr> index
            | Some existing \<Rightarrow> index)
      else index)"

definition build_category_ref_index :: "Skill list \<Rightarrow> (pystr, RefMapping) dict" where
  "build_category_ref_index skills =
     fold (\<lambda>(skill, c) index. index_category skill c index)
       (concat (map (\<lambda>skill. map (Pair skill) (skill_categories skill)) skills)) []"

definition custom_category :: "(nat \<Rightarrow> pystr) \<Rightarrow> (pystr, RefMapping) dict \<Rightarrow> JdCategory \<Rightarrow> SkillCategory option" where
  "custom_category up category_ref_index c =
     (if \<not> truthy_str (jd_key c) \<or> \<not> truthy_str (jd_label c) then None
      else
        let safe_key = sanitize_category_key up (jd_key c);
            safe_label = sanitize_category_label (jd_label c)
        in case dict_get category_ref_index safe_key of
             Some m \<Rightarrow> Some \<lparr>cat_key = safe_key, cat_label = safe_label, cat_priority = jd_priority c,
                         cat_ref = Some (rm_ref m), cat_shared = rm_shared m\<rparr>
           | None \<Rightarrow> Some \<lparr>cat_key = safe_key, cat_label = safe_label, cat_priority = jd_priority c,
                         cat_ref = jd_ref c, cat_shared = (jd_shared c = Some True)\<rparr>)"

definition build_custom_skill :: "(nat \<Rightarrow> pystr) \<Rightarrow> JdCategory list \<Rightarrow> (pystr, RefMapping) dict \<Rightarrow> pystr \<Rightarrow> Skill" where
  "build_custom_skill up custom_categories category_ref_index jd_text =
     \<lparr>skill_id = CUSTOM_SKILL_ID, skill_name = [33258, 23450, 20041, 38754, 35797, 65288, 74, 68, 32, 35299, 26512, 65289],
      skill_description = Some [22522, 20110, 32844, 20301, 25551, 36848, 25552, 21462, 30340, 38754, 35797, 26041, 21521],
      skill_categories = List.map_filter (custom_category up category_ref_index) custom_categories,
      skill_is_preset = False, skill_persona = None, skill_source_jd = Some jd_text,
      skill_icon = None, skill_gradient = None, skill_icon_bg = None, skill_icon_color = None\<rparr>"

lemma index_category_first:
  "dict_get index k = Some m \<Longrightarrow> dict_get (index_category skill c index) k = Some m"
  by (auto simp: index_category_def split: option.split)

lemma fold_index_category_first:
  "dict_get index k = Some m \<Longrightarrow>
   dict_get (fold (\<lambda>(skill, c) index. index_category skill c index) ps index) k = Some m"
  by (induction ps arbitrary: index) (auto simp: index_category_first)

lemma fold_index_category_find:
  "dict_get index k = None \<Longrightarrow> k \<noteq> [] \<Longrightarrow>
   dict_get (fold (\<lambda>(skill, c) index. index_category skill c index) ps index) k
     = map_option (\<lambda>(skill, c). \<lparr>rm_ref = the (cat_ref c), rm_shared = cat_shared c, rm_source_skill_id = skill_id skill\<rparr>)
         (find (\<lambda>(skill, c). truthy_str (cat_ref c) \<and> cat_key c = k) ps)"
proof (induction ps arbitrary: index)
  case Nil
  then show ?case by simp
next
  case (Cons p ps)
  obtain sk c where p: "p = (sk, c)" by force
  show ?case
  proof (cases "truthy_str (cat_ref c) \<and> cat_key c = k")
    case True
    then have "dict_get (index_category sk c index) k = Some \<lparr>rm_ref = the (cat_ref c),
        rm_shared = cat_shared c, rm_source_skill_id = skill_id sk\<rparr>"
      using Cons.prems by (simp add: index_category_def)
    with True p show ?thesis by (simp add: fold_index_category_first)
  next
    case False
    then have "dict_get (index_category sk c index) k = None"
      using Cons.prems by (auto simp: index_category_def split: option.split)
    with False p Cons.IH Cons.prems show ?thesis by auto
  qed
qed

text \<open>
  A custom skill never points at a reference file the repository does not vouch for
  under a known key: each of its categories has a clean key and a one-line label, and where
  the local index knows the key, the reference and its scope are those of the first local
  skill category with that key, whatever the parsed job description claimed.
\<close>

theorem custom_skill_references_local:
  assumes "c \<in> set (skill_categories (build_custom_skill up jds (build_category_ref_index skills) jd))"
    and "find (\<lambda>(sk, d). truthy_str (cat_ref d) \<and> cat_key d = cat_key c)
           (concat (map (\<lambda>sk. map (Pair sk) (skill_categories sk)) skills)) = Some (s, d)"
  shows "cat_ref c = cat_ref d \<and> cat_shared c = cat_shared d \<and> is_upper_letter (hd (cat_key c))
       \<and> 10 \<notin> set (cat_label c)"
proof -
  obtain j where j: "custom_category up (build_category_ref_index skills) j = Some c"
    using assms(1) by (auto simp: build_custom_skill_def List.map_filter_def)
  then have k: "cat_key c = sanitize_category_key up (jd_key j)"
    and l: "cat_label c = sanitize_category_label (jd_label j)"
    by (auto simp: custom_category_def Let_def split: if_splits option.splits)
  have ne: "cat_key c \<noteq> []" using k sanitize_category_key_shape by simp
  have "truthy_str (cat_ref d)" using assms(2) by (auto simp: find_Some_iff)
  then obtain r where r: "cat_ref d = Some r" by (cases "cat_ref d") auto
  have "dict_get (build_category_ref_index skills) (cat_key c)
      = Some \<lparr>rm_ref = r, rm_shared = cat_shared d, rm_source_skill_id = skill_id s\<rparr>"
    using fold_index_category_find [of "[]" "cat_key c"] ne assms(2) r
    by (simp add: build_category_ref_index_def)
  with j k r have "cat_ref c = cat_ref d \<and> cat_shared c = cat_shared d"
    by (auto simp: custom_category_def Let_def split: if_splits)
  then show ?thesis using k l sanitize_category_key_shape sanitize_category_label_ok by simp
qed

lemma custom_skill_references_local_witness:
  "(let d = \<lparr>cat_key = [65], cat_label = [66], cat_priority = C_CORE, cat_ref = Some [114], cat_shared = True\<rparr>;
        sk = \<lparr>skill_id = [115], skill_name = [], skill_description = None, skill_categories = [d],
              skill_is_preset = True, skill_persona = None, skill_source_jd = None, skill_icon = None,
              skill_gradient = None, skill_icon_bg = None, skill_icon_color = None\<rparr>;
        j = \<lparr>jd_key = Some [97], jd_label = Some [10, 108], jd_priority = C_NORMAL, jd_ref = Some [120],
             jd_shared = None\<rparr>
    in map cat_ref (skill_categories (build_custom_skill (\<lambda>c. [c]) [j] (build_category_ref_index [sk]) [])) = [Some [114]])"
proof -
  let ?d = "\<lparr>cat_key = [65], cat_label = [66], cat_priority = C_CORE, cat_ref = Some [114], cat_shared = True\<rparr>"
  let ?sk = "\<lparr>skill_id = [115], skill_name = [], skill_description = None, skill_categories = [?d],
              skill_is_preset = True, skill_persona = None, skill_source_jd = None, skill_icon = None,
              skill_gradient = None, skill_icon_bg = None, skill_icon_color = None\<rparr>"
  let ?j = "\<lparr>jd_key = Some [97], jd_label = Some [10, 108], jd_priority = C_NORMAL, jd_ref = Some [120],
             jd_shared = None\<rparr>"
  have key: "sanitize_category_key (\<lambda>c. [c]) (Some [97]) = [65]"
    by (simp add: sanitize_category_key_def py_eval py_upper_def is_key_char_def is_upper_letter_def
        MAX_CATEGORY_KEY_LENGTH_def)
  have idx: "dict_get (build_category_ref_index [?sk]) [65]
      = Some \<lparr>rm_ref = [114], rm_shared = True, rm_source_skill_id = [115]\<rparr>"
    by (simp add: build_category_ref_index_def index_category_def)
  define c where "c = \<lparr>cat_key = [65], cat_label = sanitize_category_label (Some [10, 108]),
      cat_priority = C_NORMAL, cat_ref = Some [114], cat_shared = True\<rparr>"
  have "custom_category (\<lambda>c. [c]) (build_category_ref_index [?sk]) ?j = Some c"
    by (simp add: custom_category_def key idx c_def)
  then have c: "skill_categories (build_custom_skill (\<lambda>c. [c]) [?j] (build_category_ref_index [?sk]) []) = [c]"
      "cat_key c = [65]"
    by (simp_all add: build_custom_skill_def List.map_filter_simps c_def)
  have "cat_ref c = cat_ref ?d"
    using custom_skill_references_local [of c "\<lambda>c. [c]" "[?j]" "[?sk]" "[]" ?sk ?d] c by simp
  then show ?thesis by (simp add: c Let_def)
qed

end
