(* ===== verification/Question_Gen.thy ===== *)
theory Question_Gen
  imports Skill_Allocation Complex_Main
begin

text \<open>
  Question generation without the language model: \<open>app/domain/services/question_gen.py\<close> and the
  merging part of \<open>app/application/interview/question_service.py\<close> (what is done with the
  model's answers, and the fallbacks when a call fails).
\<close>

section \<open>Counts and texts\<close>

text \<open>\<open>round\<close> of Python: to the nearest integer, ties to the even one.\<close>

definition py_round :: "rat \<Rightarrow> int" where
  "py_round x = (let f = \<lfloor>x\<rfloor>; d = x - of_int f
     in if d < 1/2 then f else if d > 1/2 then f + 1 else if even f then f else f + 1)"

definition RESUME_QUESTION_RATIO :: rat where "RESUME_QUESTION_RATIO = 3/5"

definition split_resume_direction_counts :: "int \<Rightarrow> rat \<Rightarrow> int \<times> int" where
  "split_resume_direction_counts total_q ratio =
     (let resume_count = py_round (of_int total_q * ratio);
          direction_count = total_q - resume_count
      in (resume_count, if direction_count < 0 then 0 else direction_count))"

definition build_allocation_table :: "(pystr, int) dict \<Rightarrow> SkillCategory list \<Rightarrow> pystr" where
  "build_allocation_table allocation categories =
     (if allocation = [] then [65288, 26080, 20998, 37197, 65289]
      else
        let label_map = fold (\<lambda>c d. dict_set (cat_key c) (cat_label c) d) categories []
        in py_join [10] ([124, 32, 26041, 21521, 32, 124, 32, 25968, 37327, 32, 124] # [124, 45, 45, 45, 45, 45, 45, 124, 45, 45, 45, 45, 45, 45, 124] #
             map (\<lambda>(key, count). ascii ''| '' @ dict_get_default label_map key key @ ascii '' | ''
                    @ int_str count @ ascii '' |'') allocation))"

definition hq_type_key :: "HistoricalQuestion \<Rightarrow> pystr" where
  "hq_type_key hq = or_str (hq_type hq) (ascii ''GENERAL'')"

definition build_historical_section :: "HistoricalQuestion list \<Rightarrow> pystr" where
  "build_historical_section historical =
     (if historical = [] then [65288, 26080, 21382, 21490, 39064, 30446, 65289]
      else
        let by_type = fold (\<lambda>hq d. dict_append (hq_type_key hq) (hq_question hq) d) historical []
        in py_join [10] (concat (map (\<lambda>(type_key, questions).
             (ascii ''### '' @ type_key) # map (\<lambda>q. ascii ''- '' @ q) questions) by_type)))"

definition DIFFICULTY_DESCRIPTIONS :: "(pystr, pystr) dict" where
  "DIFFICULTY_DESCRIPTIONS =
     [(ascii ''junior'', [21021, 32423, 65288, 20391, 37325, 22522, 30784, 27010, 24565, 19982, 24120, 29992, 32, 65, 80, 73, 65289]),
      (ascii ''mid'', [20013, 32423, 65288, 20391, 37325, 24213, 23618, 23454, 29616, 19982, 24615, 33021, 29942, 39048, 65289]),
      (ascii ''senior'', [39640, 32423, 65288, 20391, 37325, 26550, 26500, 36873, 22411, 19982, 22797, 26434, 25925, 38556, 25490, 26597, 65289])]"

definition build_difficulty_description :: "pystr \<Rightarrow> pystr" where
  "build_difficulty_description difficulty =
     dict_get_default DIFFICULTY_DESCRIPTIONS difficulty
       (the (dict_get DIFFICULTY_DESCRIPTIONS DEFAULT_DIFFICULTY))"

section \<open>Historical questions\<close>

text \<open>
  The loop of \<open>dedupe_historical\<close> over its state: the keys seen and the result so far. The
  length test after each question that is not blank is the early exit of the source.
\<close>

definition hq_key :: "(nat \<Rightarrow> pystr) \<Rightarrow> HistoricalQuestion \<Rightarrow> pystr" where
  "hq_key up hq = py_upper up (py_strip (case hq_topic_summary hq of Some t \<Rightarrow> t | None \<Rightarrow> hq_question hq))"

fun dedupe_loop :: "(nat \<Rightarrow> pystr) \<Rightarrow> HistoricalQuestion list \<Rightarrow> pystr list \<Rightarrow> HistoricalQuestion list
    \<Rightarrow> HistoricalQuestion list" where
  "dedupe_loop up [] seen result = result"
| "dedupe_loop up (hq # hqs) seen result =
     (let key = hq_key up hq
      in if key = [] then dedupe_loop up hqs seen result
         else
           let (seen', result') = (if key \<in> set seen then (seen, result) else (key # seen, result @ [hq]))
           in if length result' \<ge> MAX_HISTORICAL_QUESTIONS then result'
              else dedupe_loop up hqs seen' result')"

definition dedupe_historical :: "(nat \<Rightarrow> pystr) \<Rightarrow> HistoricalQuestion list \<Rightarrow> HistoricalQuestion list" where
  "dedupe_historical up raw_questions = dedupe_loop up raw_questions [] []"

text \<open>The specification: the first question of each non-blank key, the first 60 of them.\<close>

fun first_by_key :: "('a \<Rightarrow> 'k) \<Rightarrow> 'k list \<Rightarrow> 'a list \<Rightarrow> 'a list" where
  "first_by_key f seen [] = []"
| "first_by_key f seen (x # xs) =
     (if f x \<in> set seen then first_by_key f seen xs else x # first_by_key f (f x # seen) xs)"

lemma distinct_first_by_key: "distinct (map f (first_by_key f seen xs)) \<and> f ` set (first_by_key f seen xs) = f ` set xs - set seen"
  by (induction f seen xs rule: first_by_key.induct) auto

lemma dedupe_loop_spec:
  assumes "length result < MAX_HISTORICAL_QUESTIONS"
  shows "dedupe_loop up hqs seen result
       = take MAX_HISTORICAL_QUESTIONS
           (result @ first_by_key (hq_key up) seen (filter (\<lambda>hq. hq_key up hq \<noteq> []) hqs))"
  using assms
proof (induction up hqs seen result rule: dedupe_loop.induct)
  case (1 up seen result)
  then show ?case by simp
next
  case (2 up hq hqs seen result)
  consider "hq_key up hq = []" | "hq_key up hq \<noteq> []" "hq_key up hq \<in> set seen"
    | "hq_key up hq \<noteq> []" "hq_key up hq \<notin> set seen" by blast
  then show ?case
  proof cases
    case 1
    with 2 show ?thesis by simp
  next
    case 2
    with "2.IH"(2) "2.prems" show ?thesis by simp
  next
    case 3
    then show ?thesis
    proof (cases "length result + 1 \<ge> MAX_HISTORICAL_QUESTIONS")
      case True
      with "2.prems" have "MAX_HISTORICAL_QUESTIONS - length result = Suc 0" by simp
      with 3 True show ?thesis by simp
    next
      case False
      with 3 "2.IH"(2) "2.prems" show ?thesis by simp
    qed
  qed
qed

text \<open>
  The history shown to the model has no repeated topic and is bounded: it is the first
  question of every distinct non-blank topic (summary or, without one, the text; compared
  without case and surrounding blanks) in the order given, cut after 60.
\<close>

theorem dedupe_historical_spec:
  "dedupe_historical up qs
     = take MAX_HISTORICAL_QUESTIONS (first_by_key (hq_key up) [] (filter (\<lambda>hq. hq_key up hq \<noteq> []) qs))
   \<and> distinct (map (hq_key up) (dedupe_historical up qs))
   \<and> length (dedupe_historical up qs) \<le> MAX_HISTORICAL_QUESTIONS"
proof -
  have e: "dedupe_historical up qs
     = take MAX_HISTORICAL_QUESTIONS (first_by_key (hq_key up) [] (filter (\<lambda>hq. hq_key up hq \<noteq> []) qs))"
    by (simp add: dedupe_historical_def dedupe_loop_spec MAX_HISTORICAL_QUESTIONS_def)
  have "distinct (map (hq_key up) (first_by_key (hq_key up) [] (filter (\<lambda>hq. hq_key up hq \<noteq> []) qs)))"
    using distinct_first_by_key by blast
  then show ?thesis by (simp add: e take_map [symmetric] distinct_take)
qed

section \<open>Fallback questions\<close>

text \<open>\<open>while len(texts) < count: texts.append(fallbacks[len(texts) % len(fallbacks)])\<close>\<close>

function fill_fallbacks :: "pystr list \<Rightarrow> int \<Rightarrow> pystr list" where
  "fill_fallbacks texts count =
     (if int (length texts) < count
      then fill_fallbacks (texts @ [DEFAULT_FALLBACK_QUESTIONS ! (length texts mod length DEFAULT_FALLBACK_QUESTIONS)]) count
      else texts)"
  by pat_completeness auto
termination
  by (relation "measure (\<lambda>(texts, count). nat (count - int (length texts)))") auto

declare fill_fallbacks.simps [simp del]

definition generate_fallback_questions :: "Skill \<Rightarrow> int \<Rightarrow> InterviewQuestion list" where
  "generate_fallback_questions skill count =
     (if count \<le> 0 then []
      else
        let texts = (if truthy_str (skill_persona skill)
                     then [[35831, 32467, 21512, 32] @ skill_name skill @ [32, 26041, 21521, 65292, 20171, 32461, 20320, 26368, 26377, 25361, 25112, 30340, 19968, 27425, 25216, 26415, 23454, 36341, 12290]] else []);
            texts = take (nat count) (fill_fallbacks texts count)
        in map (\<lambda>(i, text). mk_question (int i) text (ascii ''GENERAL'') [36890, 29992]) (py_enumerate texts))"

lemma fill_fallbacks_length: "int (length (fill_fallbacks texts count)) = max count (int (length texts))"
proof (induction texts count rule: fill_fallbacks.induct)
  case (1 texts count)
  then show ?case by (subst fill_fallbacks.simps) auto
qed

section \<open>Main questions and follow-ups\<close>

fun follow_up_questions :: "InterviewQuestion \<Rightarrow> int \<Rightarrow> int \<Rightarrow> pystr list \<Rightarrow> InterviewQuestion list" where
  "follow_up_questions main_q main_index next_index [] = []"
| "follow_up_questions main_q main_index next_index (fu # fus) =
     (mk_question next_index fu (q_type main_q) (q_category main_q))
        \<lparr>q_is_follow_up := True, q_parent_question_index := Some main_index\<rparr>
     # follow_up_questions main_q main_index (next_index + 1) fus"

fun attach_loop :: "(int, pystr list) dict \<Rightarrow> nat \<Rightarrow> int \<Rightarrow> InterviewQuestion list \<Rightarrow> InterviewQuestion list" where
  "attach_loop follow_up_map max_follow_up next_index [] = []"
| "attach_loop follow_up_map max_follow_up next_index (main_q # main_qs) =
     (let main_index = next_index;
          m = (mk_question main_index (q_question main_q) (q_type main_q) (q_category main_q))
                \<lparr>q_topic_summary := q_topic_summary main_q, q_user_answer := q_user_answer main_q,
                 q_score := q_score main_q, q_feedback := q_feedback main_q\<rparr>;
          fus = take max_follow_up (dict_get_default follow_up_map (q_question_index main_q) [])
      in m # follow_up_questions main_q main_index (next_index + 1) fus
         @ attach_loop follow_up_map max_follow_up (next_index + 1 + int (length fus)) main_qs)"

definition attach_follow_ups :: "InterviewQuestion list \<Rightarrow> (int, pystr list) dict \<Rightarrow> nat \<Rightarrow> InterviewQuestion list" where
  "attach_follow_ups main_qs follow_up_map max_follow_up = attach_loop follow_up_map max_follow_up 0 main_qs"

text \<open>
  A question list is well numbered when every question sits at its own index and every
  follow-up names an earlier main question.
\<close>

definition well_numbered :: "InterviewQuestion list \<Rightarrow> bool" where
  "well_numbered qs \<longleftrightarrow> (\<forall>i < length qs. q_question_index (qs ! i) = int i \<and>
     (if q_is_follow_up (qs ! i)
      then (\<exists>p < i. q_parent_question_index (qs ! i) = Some (int p) \<and> \<not> q_is_follow_up (qs ! p)
              \<and> q_type (qs ! i) = q_type (qs ! p))
      else q_parent_question_index (qs ! i) = None))"

lemma mk_question_simps [simp]:
  "q_question_index (mk_question i t ty c) = i" "q_question (mk_question i t ty c) = t"
  "q_type (mk_question i t ty c) = ty" "q_category (mk_question i t ty c) = c"
  "q_is_follow_up (mk_question i t ty c) = False" "q_parent_question_index (mk_question i t ty c) = None"
  "q_user_answer (mk_question i t ty c) = None"
  by (simp_all add: mk_question_def)

lemma follow_up_questions_length [simp]: "length (follow_up_questions m mi n fus) = length fus"
  by (induction m mi n fus rule: follow_up_questions.induct) auto

lemma follow_up_questions_nth:
  "i < length fus \<Longrightarrow> follow_up_questions m mi n fus ! i
     = (mk_question (n + int i) (fus ! i) (q_type m) (q_category m))
         \<lparr>q_is_follow_up := True, q_parent_question_index := Some mi\<rparr>"
proof (induction m mi n fus arbitrary: i rule: follow_up_questions.induct)
  case (1 m mi n)
  then show ?case by simp
next
  case (2 m mi n fu fus)
  then show ?case by (cases i) (simp_all add: algebra_simps)
qed

lemma well_numbered_Nil [simp]: "well_numbered []"
  by (simp add: well_numbered_def)

text \<open>Appending one main question with its follow-ups keeps the numbering.\<close>

lemma well_numbered_append_block:
  assumes "well_numbered qs"
    and "q_question_index m = int (length qs)" "\<not> q_is_follow_up m" "q_parent_question_index m = None"
    and "q_type m' = q_type m"
  shows "well_numbered (qs @ m # follow_up_questions m' (int (length qs)) (int (length qs) + 1) fus)"
  unfolding well_numbered_def
proof (intro allI impI)
  fix i
  let ?l = "qs @ m # follow_up_questions m' (int (length qs)) (int (length qs) + 1) fus"
  assume "i < length ?l"
  then have lt: "i < length qs + 1 + length fus" by simp
  consider "i < length qs" | "i = length qs" | "length qs < i" by linarith
  then show "q_question_index (?l ! i) = int i \<and>
     (if q_is_follow_up (?l ! i)
      then (\<exists>p < i. q_parent_question_index (?l ! i) = Some (int p) \<and> \<not> q_is_follow_up (?l ! p)
              \<and> q_type (?l ! i) = q_type (?l ! p))
      else q_parent_question_index (?l ! i) = None)"
  proof cases
    case 1
    with assms(1) show ?thesis
      unfolding well_numbered_def by (auto simp: nth_append split: if_splits) (meson less_trans)+
  next
    case 2
    with assms show ?thesis by simp
  next
    case 3
    define j where "j = i - length qs - 1"
    have j: "i = length qs + 1 + j" "j < length fus" using 3 lt by (simp_all add: j_def)
    then have "?l ! i = (mk_question (int i) (fus ! j) (q_type m') (q_category m'))
         \<lparr>q_is_follow_up := True, q_parent_question_index := Some (int (length qs))\<rparr>"
      by (simp add: nth_append follow_up_questions_nth add.commute add.left_commute)
    moreover have "?l ! length qs = m" by simp
    ultimately show ?thesis
      using j assms by (auto intro!: exI [of _ "length qs"])
  qed
qed

lemma attach_loop_numbered:
  "well_numbered qs \<Longrightarrow> well_numbered (qs @ attach_loop fm k (int (length qs)) ms)"
proof (induction ms arbitrary: qs)
  case Nil
  then show ?case by simp
next
  case (Cons m ms)
  define fus where "fus = take k (dict_get_default fm (q_question_index m) [])"
  define m0 where "m0 = (mk_question (int (length qs)) (q_question m) (q_type m) (q_category m))
      \<lparr>q_topic_summary := q_topic_summary m, q_user_answer := q_user_answer m,
       q_score := q_score m, q_feedback := q_feedback m\<rparr>"
  define qs' where "qs' = qs @ m0 # follow_up_questions m (int (length qs)) (int (length qs) + 1) fus"
  have "well_numbered qs'"
    unfolding qs'_def by (rule well_numbered_append_block [OF Cons.prems]) (simp_all add: m0_def)
  then have "well_numbered (qs' @ attach_loop fm k (int (length qs')) ms)" by (rule Cons.IH)
  moreover have "qs' @ attach_loop fm k (int (length qs')) ms = qs @ attach_loop fm k (int (length qs)) (m # ms)"
    by (simp add: qs'_def m0_def fus_def Let_def algebra_simps)
  ultimately show ?case by simp
qed

lemma follow_up_questions_all: "\<forall>q \<in> set (follow_up_questions m mi n fus). q_is_follow_up q"
  by (induction m mi n fus rule: follow_up_questions.induct) auto

definition main_questions :: "InterviewQuestion list \<Rightarrow> InterviewQuestion list" where
  "main_questions qs = filter (\<lambda>q. \<not> q_is_follow_up q) qs"

lemma main_questions_simps [simp]:
  "main_questions [] = []" "main_questions (xs @ ys) = main_questions xs @ main_questions ys"
  "main_questions (x # xs) = (if q_is_follow_up x then main_questions xs else x # main_questions xs)"
  by (simp_all add: main_questions_def)

lemma main_questions_follow_ups [simp]: "main_questions (follow_up_questions m mi n fus) = []"
  using follow_up_questions_all by (auto simp: main_questions_def filter_empty_conv)

lemma attach_loop_mains:
  "map q_question (main_questions (attach_loop fm k n ms)) = map q_question ms
   \<and> length (attach_loop fm k n ms) \<le> length ms * Suc k"
proof (induction fm k n ms rule: attach_loop.induct)
  case (1 fm k n)
  then show ?case by simp
next
  case (2 fm k n m ms)
  let ?fus = "take k (dict_get_default fm (q_question_index m) [])"
  have "length ?fus \<le> k" by simp
  with 2 [OF refl refl refl] show ?case by (auto simp: Let_def simp del: length_take)
qed

text \<open>
  Attaching follow-ups renumbers the interview correctly whatever the model returned:
  every question carries its own position, every follow-up points to an earlier main
  question of its type, the main questions keep their order and text, and no main question
  gets more than the permitted number of follow-ups.
\<close>

theorem attach_follow_ups_numbered:
  "well_numbered (attach_follow_ups ms fm k)
   \<and> map q_question (main_questions (attach_follow_ups ms fm k)) = map q_question ms
   \<and> length (attach_follow_ups ms fm k) \<le> length ms * Suc k"
  using attach_loop_numbered [of "[]" fm k ms] attach_loop_mains [of fm k 0 ms]
  by (simp add: attach_follow_ups_def)

section \<open>From the model's answers to the interview\<close>

record QuestionItem =
  item_question :: pystr
  item_type :: pystr
  item_category :: pystr
  item_topic_summary :: "pystr option"
  item_follow_ups :: "pystr list"

type_synonym MainQuestionWithFollowUps = "InterviewQuestion \<times> pystr list"

definition convert_to_questions :: "QuestionItem list \<Rightarrow> int \<Rightarrow> MainQuestionWithFollowUps list" where
  "convert_to_questions items target_count =
     map (\<lambda>(i, item).
        ((mk_question (int i) (item_question item) (item_type item)
            (if item_category item = [] then [36890, 29992] else item_category item))
              \<lparr>q_topic_summary := item_topic_summary item\<rparr>,
         item_follow_ups item))
       (py_enumerate (py_slice_to target_count items))"

definition attach :: "MainQuestionWithFollowUps list \<Rightarrow> InterviewQuestion list" where
  "attach items =
     (let main_qs = map (\<lambda>(i, (q, _)).
            (mk_question (int i) (q_question q) (q_type q) (q_category q))\<lparr>q_topic_summary := q_topic_summary q\<rparr>)
          (py_enumerate items);
          follow_up_map = map (\<lambda>(i, (_, fus)). (int i, fus))
            (filter (\<lambda>(i, (_, fus)). fus \<noteq> []) (py_enumerate items))
      in attach_follow_ups main_qs follow_up_map MAX_FOLLOW_UP)"

definition cap_and_attach :: "MainQuestionWithFollowUps list \<Rightarrow> int \<Rightarrow> InterviewQuestion list" where
  "cap_and_attach items total_q = attach (py_slice_to total_q items)"

definition merge_with_follow_ups ::
  "MainQuestionWithFollowUps list \<Rightarrow> MainQuestionWithFollowUps list \<Rightarrow> int \<Rightarrow> InterviewQuestion list" where
  "merge_with_follow_ups resume direction total_q =
     (let combined = resume @ direction
      in attach (if int (length combined) > total_q then py_slice_to total_q combined else combined))"

text \<open>
  A call of the model: no call for a count that is not positive; otherwise the items it
  returned, or the exception it raised. The model itself is the parameter \<open>llm\<close>.
\<close>

definition call_llm :: "(int \<Rightarrow> QuestionItem list result) \<Rightarrow> int \<Rightarrow> MainQuestionWithFollowUps list result" where
  "call_llm llm question_count =
     (if question_count \<le> 0 then Inr []
      else res_map (\<lambda>items. convert_to_questions items question_count) (llm question_count))"

definition generate_with_resume ::
  "Skill \<Rightarrow> int \<Rightarrow> (int \<Rightarrow> QuestionItem list result) \<Rightarrow> (int \<Rightarrow> QuestionItem list result) \<Rightarrow> InterviewQuestion list" where
  "generate_with_resume skill question_count resume_llm direction_llm =
     (let (resume_count, direction_count) = split_resume_direction_counts question_count RESUME_QUESTION_RATIO
      in case (call_llm resume_llm resume_count, call_llm direction_llm direction_count) of
           (Inr resume_qs, Inr direction_qs) \<Rightarrow> merge_with_follow_ups resume_qs direction_qs question_count
         | (Inr resume_qs, Inl _) \<Rightarrow> cap_and_attach resume_qs question_count
         | (Inl _, Inr direction_qs) \<Rightarrow> cap_and_attach direction_qs question_count
         | (Inl _, Inl _) \<Rightarrow> generate_fallback_questions skill question_count)"

definition generate_direction_only ::
  "Skill \<Rightarrow> int \<Rightarrow> (int \<Rightarrow> QuestionItem list result) \<Rightarrow> InterviewQuestion list" where
  "generate_direction_only skill question_count direction_llm =
     (case call_llm direction_llm question_count of
        Inr qs \<Rightarrow> cap_and_attach qs question_count
      | Inl _ \<Rightarrow> generate_fallback_questions skill question_count)"

text \<open>\<open>generate\<close> after the skill and the provider are resolved.\<close>

definition generate_questions ::
  "Skill \<Rightarrow> pystr option \<Rightarrow> int \<Rightarrow> (int \<Rightarrow> QuestionItem list result) \<Rightarrow> (int \<Rightarrow> QuestionItem list result)
     \<Rightarrow> InterviewQuestion list" where
  "generate_questions skill resume_text question_count resume_llm direction_llm =
     (if truthy_str resume_text
      then generate_with_resume skill question_count resume_llm direction_llm
      else generate_direction_only skill question_count direction_llm)"

lemma fallback_well_numbered:
  "well_numbered (generate_fallback_questions skill n)
   \<and> int (length (generate_fallback_questions skill n)) = max 0 n
   \<and> main_questions (generate_fallback_questions skill n) = generate_fallback_questions skill n"
proof (cases "n \<le> 0")
  case True
  then show ?thesis by (simp add: generate_fallback_questions_def)
next
  case False
  define ts where "ts = take (nat n) (fill_fallbacks (if truthy_str (skill_persona skill)
      then [[35831, 32467, 21512, 32] @ skill_name skill @ [32, 26041, 21521, 65292, 20171, 32461, 20320, 26368, 26377, 25361, 25112, 30340, 19968, 27425, 25216, 26415, 23454, 36341, 12290]] else []) n)"
  have len: "int (length ts) = n"
    using False fill_fallbacks_length [of _ n] by (simp add: ts_def min_def)
  have e: "generate_fallback_questions skill n
      = map (\<lambda>(i, t). mk_question (int i) t (ascii ''GENERAL'') [36890, 29992]) (py_enumerate ts)"
    using False by (simp add: generate_fallback_questions_def ts_def Let_def)
  show ?thesis using len False
    by (auto simp: e well_numbered_def main_questions_def filter_id_conv)
qed

lemma attach_ok:
  "well_numbered (attach items) \<and> length (main_questions (attach items)) = length items
   \<and> length (attach items) \<le> length items * 3"
proof -
  have "\<exists>ms fm. attach items = attach_follow_ups ms fm 2 \<and> length ms = length items"
    unfolding attach_def Let_def MAX_FOLLOW_UP_def by (intro exI conjI, rule refl) simp
  then obtain ms fm where e: "attach items = attach_follow_ups ms fm 2" "length ms = length items" by blast
  have loop: "well_numbered (attach_loop fm 2 0 ms)"
      "map q_question (main_questions (attach_loop fm 2 0 ms)) = map q_question ms"
      "length (attach_loop fm 2 0 ms) \<le> length ms * Suc 2"
    using attach_loop_numbered [of "[]" fm 2 ms] attach_loop_mains [of fm 2 0 ms] by simp_all
  have "length (main_questions (attach_loop fm 2 0 ms)) = length ms"
    using arg_cong [where f = length, OF loop(2)] by simp
  with loop show ?thesis by (simp add: e attach_follow_ups_def)
qed

lemma call_llm_length: "0 \<le> n \<Longrightarrow> call_llm llm n = Inr qs \<Longrightarrow> int (length qs) \<le> n"
  by (cases "llm n") (auto simp: call_llm_def convert_to_questions_def length_py_slice_to split: if_splits)

lemma py_round_three_fifths: "py_round (of_int t * 3 / 5) = (6 * t + 5) div 10"
proof -
  define f where "f = 3 * t div 5"
  define m where "m = 3 * t mod 5"
  have q: "(of_int t * 3 / 5 :: rat) = of_int (3 * t) / of_int 5" by simp
  have fl: "\<lfloor>of_int t * 3 / 5 :: rat\<rfloor> = f"
    by (simp only: q floor_divide_of_int_eq f_def)
  have t: "3 * t = 5 * f + m" by (simp add: m_def f_def)
  have "(of_int (3 * t) :: rat) = 5 * of_int f + of_int m"
    by (subst t) simp
  then have d: "(of_int t * 3 / 5 - of_int f :: rat) = of_int m / 5" by simp
  have m: "m = 0 \<or> m = 1 \<or> m = 2 \<or> m = 3 \<or> m = 4" unfolding m_def by presburger
  have "py_round (of_int t * 3 / 5) = f + (if m \<ge> 3 then 1 else 0)"
    unfolding py_round_def Let_def fl d using m by auto
  also have "\<dots> = (2 * m + 5) div 10 + f" using m by auto
  also have "\<dots> = ((2 * m + 5) + f * 10) div 10" by simp
  also have "(2 * m + 5) + f * 10 = 6 * t + 5" using t by linarith
  finally show ?thesis .
qed

lemma split_counts:
  assumes "0 \<le> n"
  shows "split_resume_direction_counts n RESUME_QUESTION_RATIO = ((6 * n + 5) div 10, n - (6 * n + 5) div 10)"
    and "0 \<le> (6 * n + 5) div 10" and "(6 * n + 5) div 10 \<le> n"
proof -
  show le: "(6 * n + 5) div 10 \<le> n" using assms by linarith
  show "0 \<le> (6 * n + 5) div 10" using assms by simp
  show "split_resume_direction_counts n RESUME_QUESTION_RATIO = ((6 * n + 5) div 10, n - (6 * n + 5) div 10)"
    using le by (simp add: split_resume_direction_counts_def RESUME_QUESTION_RATIO_def py_round_three_fifths Let_def)
qed

text \<open>
  With a resume, 60 percent of the questions come from it, rounded to nearest: the two
  counts are \<open>(6 n + 5) div 10\<close> and the rest, neither is negative, and together they are the
  number asked for.
\<close>

theorem resume_direction_split:
  assumes "0 \<le> n"
  shows "split_resume_direction_counts n RESUME_QUESTION_RATIO = ((6 * n + 5) div 10, n - (6 * n + 5) div 10)
       \<and> 0 \<le> (6 * n + 5) div 10 \<and> (6 * n + 5) div 10 \<le> n"
  using split_counts [OF assms] by blast

lemma resume_direction_split_witness: "split_resume_direction_counts 8 RESUME_QUESTION_RATIO = (5, 3)"
  using resume_direction_split [of 8] by simp

text \<open>Every generated interview is an attached list of at most \<open>n\<close> items, or the general questions.\<close>

lemma generate_questions_shape:
  assumes "1 < n"
  shows "(\<exists>items. generate_questions skill resume n resume_llm direction_llm = attach items \<and> int (length items) \<le> n)
       \<or> generate_questions skill resume n resume_llm direction_llm = generate_fallback_questions skill n"
proof -
  have cap: "int (length (py_slice_to n xs)) \<le> n" for xs :: "'b list"
    using assms by (simp add: length_py_slice_to)
  have merge: "\<exists>items. merge_with_follow_ups xs ys n = attach items \<and> int (length items) \<le> n" for xs ys
    unfolding merge_with_follow_ups_def Let_def
    by (intro exI conjI, rule refl) (simp add: cap)
  have capped: "\<exists>items. cap_and_attach xs n = attach items \<and> int (length items) \<le> n" for xs
    unfolding cap_and_attach_def using cap by blast
  show ?thesis
    by (auto simp: generate_questions_def generate_with_resume_def generate_direction_only_def merge capped
        split: sum.splits prod.splits)
qed

lemma generate_questions_all_fail:
  assumes "1 < n" and "\<And>k. \<exists>e. resume_llm k = Inl e" and "\<And>k. \<exists>e. direction_llm k = Inl e"
  shows "generate_questions skill resume n resume_llm direction_llm = generate_fallback_questions skill n"
proof -
  let ?r = "(6 * n + 5) div 10" and ?d = "n - (6 * n + 5) div 10"
  have pos: "0 < ?r" "0 < ?d" "0 < n" using assms(1) by linarith+
  obtain e1 e2 e3 where "resume_llm ?r = Inl e1" "direction_llm ?d = Inl e2" "direction_llm n = Inl e3"
    using assms(2,3) by blast
  with pos have "call_llm resume_llm ?r = Inl e1" "call_llm direction_llm ?d = Inl e2"
      "call_llm direction_llm n = Inl e3"
    by (simp_all add: call_llm_def)
  then show ?thesis
    using assms(1) split_counts [of n]
    by (simp add: generate_questions_def generate_with_resume_def generate_direction_only_def)
qed

text \<open>
  C34. Whatever the model calls return or raise, the generator returns an interview that is
  correctly numbered, with at most the number of main questions asked for and at most two
  follow-ups each; if every call it makes fails, it returns exactly that many general questions.
\<close>

theorem generate_questions_total:
  assumes "1 < n"
  shows "well_numbered (generate_questions skill resume n resume_llm direction_llm)
       \<and> int (length (main_questions (generate_questions skill resume n resume_llm direction_llm))) \<le> n
       \<and> int (length (generate_questions skill resume n resume_llm direction_llm)) \<le> 3 * n
       \<and> ((\<forall>k. (\<exists>e. resume_llm k = Inl e) \<and> (\<exists>e. direction_llm k = Inl e)) \<longrightarrow>
            int (length (main_questions (generate_questions skill resume n resume_llm direction_llm))) = n)"
    (is "?A \<and> ?B \<and> ?C \<and> ?D")
proof -
  have "?A \<and> ?B \<and> ?C"
    using generate_questions_shape [OF assms, of skill resume resume_llm direction_llm]
  proof
    assume "\<exists>items. generate_questions skill resume n resume_llm direction_llm = attach items \<and> int (length items) \<le> n"
    then obtain items where
      "generate_questions skill resume n resume_llm direction_llm = attach items" "int (length items) \<le> n" by blast
    with attach_ok [of items] show ?thesis by auto
  next
    assume "generate_questions skill resume n resume_llm direction_llm = generate_fallback_questions skill n"
    with fallback_well_numbered [of skill n] assms show ?thesis by simp
  qed
  moreover have ?D
    using generate_questions_all_fail [of n resume_llm direction_llm skill resume]
      fallback_well_numbered [of skill n] assms by auto
  ultimately show ?thesis by blast
qed

lemma generate_questions_total_witness:
  "well_numbered (generate_questions
      \<lparr>skill_id = [], skill_name = [], skill_description = None, skill_categories = [], skill_is_preset = True,
       skill_persona = None, skill_source_jd = None, skill_icon = None, skill_gradient = None,
       skill_icon_bg = None, skill_icon_color = None\<rparr> (Some [1]) 3 (\<lambda>_. Inl TypeError) (\<lambda>_. Inr []))"
  using generate_questions_total [of 3] by simp

text \<open>
  A model that answers with an empty list is not treated as a failure: the interview then
  has no question at all, where an exception would have produced the general questions.
\<close>

lemma empty_answer_empty_interview:
  "generate_questions skill None n resume_llm (\<lambda>_. Inr []) = []"
  by (simp add: generate_questions_def generate_direction_only_def call_llm_def convert_to_questions_def
      cap_and_attach_def attach_def attach_follow_ups_def py_slice_to_def py_enumerate_def)

end
