(* ===== verification/Json.thy ===== *)
theory Json
  imports Effects
begin

text \<open>
  JSON values and texts as Python's \<open>json\<close> module writes and reads them
  (\<open>json.dumps(..., ensure_ascii=False)\<close> and \<open>json.loads\<close>): the printer, a recursive descent
  parser with fuel, and the theorem that reading a written value gives it back. Numbers
  with a fraction or an exponent and escaped surrogate pairs are not read: nothing in the
  program writes them. The locale \<open>json_text\<close> is what the columns of the database rely on.
\<close>

section \<open>Values and texts\<close>

datatype json =
    JNull
  | JBool bool
  | JInt int
  | JStr pystr
  | JArr "json list"
  | JObj "(pystr \<times> json) list"

definition hex_digit :: "nat \<Rightarrow> nat" where
  "hex_digit d = (if d < 10 then 48 + d else 87 + d)"

definition escape_char :: "nat \<Rightarrow> pystr" where
  "escape_char c =
     (if c = 34 then [92, 34] else if c = 92 then [92, 92]
      else if c = 10 then [92, 110] else if c = 13 then [92, 114] else if c = 9 then [92, 116]
      else if c = 12 then [92, 102] else if c = 8 then [92, 98]
      else if c < 32 then [92, 117, 48, 48, hex_digit (c div 16), hex_digit (c mod 16)]
      else [c])"

definition str_lit :: "pystr \<Rightarrow> pystr" where
  "str_lit s = 34 # concat (map escape_char s) @ [34]"

primrec dumps :: "json \<Rightarrow> pystr" where
  "dumps JNull = ascii ''null''"
| "dumps (JBool b) = (if b then ascii ''true'' else ascii ''false'')"
| "dumps (JInt i) = int_str i"
| "dumps (JStr s) = str_lit s"
| "dumps (JArr js) = 91 # py_join [44, 32] (map dumps js) @ [93]"
| "dumps (JObj kvs) = 123 # py_join [44, 32] (map (\<lambda>(k, d). str_lit k @ [58, 32] @ d) (map (map_prod id dumps) kvs)) @ [125]"

section \<open>Reading\<close>

definition is_json_ws :: "nat \<Rightarrow> bool" where
  "is_json_ws c \<longleftrightarrow> c = 32 \<or> c = 9 \<or> c = 10 \<or> c = 13"

definition skip_ws :: "pystr \<Rightarrow> pystr" where
  "skip_ws s = dropWhile is_json_ws s"

definition is_digit :: "nat \<Rightarrow> bool" where
  "is_digit c \<longleftrightarrow> 48 \<le> c \<and> c \<le> 57"

definition hex_val :: "nat \<Rightarrow> nat option" where
  "hex_val c = (if 48 \<le> c \<and> c \<le> 57 then Some (c - 48) else if 97 \<le> c \<and> c \<le> 102 then Some (c - 87)
     else if 65 \<le> c \<and> c \<le> 70 then Some (c - 55) else None)"

fun hex4 :: "pystr \<Rightarrow> (nat \<times> pystr) option" where
  "hex4 (a # b # c # d # r) =
     (case (hex_val a, hex_val b, hex_val c, hex_val d) of
        (Some a, Some b, Some c, Some d) \<Rightarrow> Some (((a * 16 + b) * 16 + c) * 16 + d, r)
      | _ \<Rightarrow> None)"
| "hex4 _ = None"

lemma hex4_shorter: "hex4 s = Some (c, r) \<Longrightarrow> length r < length s"
  by (induction s rule: hex4.induct) (auto split: option.splits)

definition unescape :: "nat \<Rightarrow> nat option" where
  "unescape e = (if e = 34 then Some 34 else if e = 92 then Some 92 else if e = 47 then Some 47
     else if e = 98 then Some 8 else if e = 102 then Some 12 else if e = 110 then Some 10
     else if e = 114 then Some 13 else if e = 116 then Some 9 else None)"

text \<open>The characters of a string up to its closing quote.\<close>

function parse_chars :: "pystr \<Rightarrow> (pystr \<times> pystr) option" where
  "parse_chars [] = None"
| "parse_chars (c # r) =
     (if c = 34 then Some ([], r)
      else if c = 92 then
        (case r of
           [] \<Rightarrow> None
         | e # r' \<Rightarrow>
             if e = 117 then
               (case hex4 r' of
                  None \<Rightarrow> None
                | Some (d, r'') \<Rightarrow> if length r'' < length r' then map_option (map_prod (Cons d) id) (parse_chars r'') else None)
             else
               (case unescape e of
                  None \<Rightarrow> None
                | Some d \<Rightarrow> map_option (map_prod (Cons d) id) (parse_chars r')))
      else if c < 32 then None
      else map_option (map_prod (Cons c) id) (parse_chars r))"
  by pat_completeness auto
termination
  by (relation "measure length") auto

declare parse_chars.simps(2) [simp del]

definition digits_val :: "pystr \<Rightarrow> nat" where
  "digits_val ds = foldl (\<lambda>n d. n * 10 + (d - 48)) 0 ds"

definition parse_nat :: "pystr \<Rightarrow> (nat \<times> pystr) option" where
  "parse_nat s =
     (let ds = takeWhile is_digit s; r = dropWhile is_digit s
      in if ds = [] \<or> (hd ds = 48 \<and> length ds > 1) \<or> (r \<noteq> [] \<and> hd r \<in> {46, 69, 101}) then None
         else Some (digits_val ds, r))"

definition parse_int :: "pystr \<Rightarrow> (json \<times> pystr) option" where
  "parse_int s =
     (case s of
        [] \<Rightarrow> None
      | c # r \<Rightarrow> if c = 45 then map_option (\<lambda>(n, r'). (JInt (- int n), r')) (parse_nat r)
                 else map_option (\<lambda>(n, r'). (JInt (int n), r')) (parse_nat s))"

text \<open>\<open>json.loads\<close> builds a dictionary from the members: of equal keys the last wins.\<close>

definition dict_of_members :: "(pystr \<times> json) list \<Rightarrow> (pystr, json) dict" where
  "dict_of_members kvs = fold (\<lambda>(k, v) d. dict_set k v d) kvs []"

fun parse_value :: "nat \<Rightarrow> pystr \<Rightarrow> (json \<times> pystr) option"
  and parse_elems :: "nat \<Rightarrow> pystr \<Rightarrow> (json list \<times> pystr) option"
  and parse_members :: "nat \<Rightarrow> pystr \<Rightarrow> ((pystr \<times> json) list \<times> pystr) option" where
  "parse_value 0 s = None"
| "parse_value (Suc n) s =
     (case skip_ws s of
        [] \<Rightarrow> None
      | c # r \<Rightarrow>
          if c = 34 then map_option (map_prod JStr id) (parse_chars r)
          else if c = 91 then
            (case skip_ws r of
               [] \<Rightarrow> None
             | d # t \<Rightarrow> if d = 93 then Some (JArr [], t)
                        else map_option (map_prod JArr id) (parse_elems n (d # t)))
          else if c = 123 then
            (case skip_ws r of
               [] \<Rightarrow> None
             | d # t \<Rightarrow> if d = 125 then Some (JObj [], t)
                        else map_option (map_prod (JObj \<circ> dict_of_members) id) (parse_members n (d # t)))
          else if is_prefix_of (ascii ''null'') (c # r) then Some (JNull, drop 4 (c # r))
          else if is_prefix_of (ascii ''true'') (c # r) then Some (JBool True, drop 4 (c # r))
          else if is_prefix_of (ascii ''false'') (c # r) then Some (JBool False, drop 5 (c # r))
          else parse_int (c # r))"
| "parse_elems 0 s = None"
| "parse_elems (Suc n) s =
     (case parse_value n s of
        None \<Rightarrow> None
      | Some (v, r) \<Rightarrow>
          (case skip_ws r of
             [] \<Rightarrow> None
           | c # t \<Rightarrow> if c = 44 then map_option (map_prod (Cons v) id) (parse_elems n t)
                      else if c = 93 then Some ([v], t) else None))"
| "parse_members 0 s = None"
| "parse_members (Suc n) s =
     (case skip_ws s of
        [] \<Rightarrow> None
      | q # r0 \<Rightarrow>
          if q \<noteq> 34 then None
          else
            (case parse_chars r0 of
               None \<Rightarrow> None
             | Some (k, r1) \<Rightarrow>
                 (case skip_ws r1 of
                    [] \<Rightarrow> None
                  | c # r2 \<Rightarrow>
                      if c \<noteq> 58 then None
                      else
                        (case parse_value n r2 of
                           None \<Rightarrow> None
                         | Some (v, r) \<Rightarrow>
                             (case skip_ws r of
                                [] \<Rightarrow> None
                              | c # t \<Rightarrow>
                                  if c = 44 then map_option (map_prod (Cons (k, v)) id) (parse_members n t)
                                  else if c = 125 then Some ([(k, v)], t) else None)))))"

definition loads :: "pystr \<Rightarrow> json result" where
  "loads s =
     (case parse_value (Suc (length s)) s of
        None \<Rightarrow> Inl JSONDecodeError
      | Some (j, r) \<Rightarrow> if skip_ws r = [] then Inr j else Inl JSONDecodeError)"

section \<open>Reading what was written\<close>

text \<open>A value that Python can hold: the keys of every object are distinct.\<close>

primrec json_wf :: "json \<Rightarrow> bool" where
  "json_wf JNull = True"
| "json_wf (JBool b) = True"
| "json_wf (JInt i) = True"
| "json_wf (JStr s) = True"
| "json_wf (JArr js) = list_all id (map json_wf js)"
| "json_wf (JObj kvs) = (distinct (map fst kvs) \<and> list_all (id \<circ> snd) (map (map_prod id json_wf) kvs))"

text \<open>What may follow a value: nothing, or the comma or bracket of the enclosing value.\<close>

definition ends_value :: "pystr \<Rightarrow> bool" where
  "ends_value r \<longleftrightarrow> (r = [] \<or> hd r = 44 \<or> hd r = 93 \<or> hd r = 125)"

lemma ends_value_simps [simp]:
  "ends_value []" "ends_value (44 # r)" "ends_value (93 # r)" "ends_value (125 # r)"
  by (simp_all add: ends_value_def)

lemma skip_ws_simps [simp]:
  "skip_ws [] = []" "skip_ws (c # r) = (if is_json_ws c then skip_ws r else c # r)"
  by (simp_all add: skip_ws_def)

lemma hex_val_digit [simp]: "d < 16 \<Longrightarrow> hex_val (hex_digit d) = Some d"
  by (auto simp: hex_val_def hex_digit_def)

lemma parse_chars_escape:
  "parse_chars (escape_char c @ r) = map_option (map_prod (Cons c) id) (parse_chars r)"
proof -
  have 0: "hex_val 48 = Some 0" by (simp add: hex_val_def)
  have "c < 32 \<Longrightarrow> c div 16 < 16" by simp
  then show ?thesis
    by (auto simp: escape_char_def parse_chars.simps(2) unescape_def 0)
qed

lemma parse_chars_lit: "parse_chars (concat (map escape_char s) @ 34 # r) = Some (s, r)"
  by (induction s) (simp_all add: parse_chars_escape parse_chars.simps(2))

lemma nat_digits_val: "digits_val (nat_digits n) = n"
proof (induction n rule: nat_digits.induct)
  case (1 n)
  show ?case
  proof (cases "n < 10")
    case True
    then show ?thesis by (subst nat_digits.simps) (simp add: digits_val_def)
  next
    case False
    with 1 have "digits_val (nat_digits n) = (n div 10) * 10 + n mod 10"
      by (subst nat_digits.simps) (simp add: digits_val_def)
    then show ?thesis by simp
  qed
qed

lemma nat_digits_head: "hd (nat_digits n) = 48 \<Longrightarrow> nat_digits n = [48]"
proof (induction n rule: nat_digits.induct)
  case (1 n)
  show ?case
  proof (cases "n < 10")
    case True
    with "1.prems" show ?thesis by (subst (asm) nat_digits.simps) (subst nat_digits.simps, simp)
  next
    case False
    have e: "nat_digits n = nat_digits (n div 10) @ [48 + n mod 10]"
      using False by (subst nat_digits.simps) simp
    with "1.prems" have "hd (nat_digits (n div 10)) = 48" by simp
    with 1 False have "nat_digits (n div 10) = [48]" by simp
    then have "n div 10 = 0" using nat_digits_val [of "n div 10"] by (simp add: digits_val_def)
    with False show ?thesis by simp
  qed
qed

lemma parse_nat_digits:
  assumes "ends_value r"
  shows "parse_nat (nat_digits n @ r) = Some (n, r)"
proof -
  have all: "\<forall>c \<in> set (nat_digits n). is_digit c" using nat_digits_range by (simp add: is_digit_def)
  have r: "r = [] \<or> \<not> is_digit (hd r)" using assms by (auto simp: ends_value_def is_digit_def)
  then have tw: "takeWhile is_digit (nat_digits n @ r) = nat_digits n"
    and dw: "dropWhile is_digit (nat_digits n @ r) = r"
    using all by (cases r; simp)+
  have "\<not> (hd (nat_digits n) = 48 \<and> length (nat_digits n) > 1)" using nat_digits_head [of n] by auto
  moreover have "\<not> (r \<noteq> [] \<and> hd r \<in> {46, 69, 101})" using assms by (auto simp: ends_value_def)
  ultimately show ?thesis by (simp add: parse_nat_def tw dw Let_def nat_digits_val)
qed

lemma hd_nat_digits: "48 \<le> hd (nat_digits n) \<and> hd (nat_digits n) \<le> 57"
  using nat_digits_range [of n] hd_in_set [OF nat_digits_ne] by blast

lemma parse_int_str: "ends_value r \<Longrightarrow> parse_int (int_str i @ r) = Some (JInt i, r)"
proof -
  assume r: "ends_value r"
  show ?thesis
  proof (cases "i < 0")
    case True
    then show ?thesis by (simp add: parse_int_def int_str_def parse_nat_digits [OF r])
  next
    case False
    obtain c cs where d: "nat_digits (nat i) = c # cs" by (cases "nat_digits (nat i)") auto
    with hd_nat_digits [of "nat i"] have "c \<noteq> 45" by simp
    with False d parse_nat_digits [OF r, of "nat i"] show ?thesis
      by (simp add: parse_int_def int_str_def)
  qed
qed

lemma int_str_head:
  obtains c cs where "int_str i = c # cs" "c = 45 \<or> 48 \<le> c \<and> c \<le> 57"
proof (cases "int_str i")
  case Nil
  then show ?thesis by (simp add: int_str_def split: if_splits)
next
  case (Cons c cs)
  moreover have "hd (int_str i) = 45 \<or> 48 \<le> hd (int_str i) \<and> hd (int_str i) \<le> 57"
    using hd_nat_digits by (simp add: int_str_def)
  ultimately show ?thesis using that by simp
qed

text \<open>The first character of a written value is no white space and no closing bracket.\<close>

lemma dumps_head:
  obtains c cs where "dumps j = c # cs" "\<not> is_json_ws c" "c \<noteq> 93" "c \<noteq> 125"
proof -
  have "\<exists>c cs. dumps j = c # cs \<and> \<not> is_json_ws c \<and> c \<noteq> 93 \<and> c \<noteq> 125"
  proof (cases j)
    case (JInt i)
    obtain c cs where "int_str i = c # cs" "c = 45 \<or> 48 \<le> c \<and> c \<le> 57" by (rule int_str_head)
    then show ?thesis using JInt by (auto simp: is_json_ws_def)
  qed (auto simp: is_json_ws_def ascii_def str_lit_def)
  then show ?thesis using that by blast
qed

lemma dumps_ne [simp]: "dumps j \<noteq> []"
  by (rule dumps_head [of j]) simp

lemma parse_value_space [simp]: "parse_value n (32 # s) = parse_value n s"
  by (cases n) (simp_all add: is_json_ws_def)

lemma parse_elems_space [simp]: "parse_elems n (32 # s) = parse_elems n s"
  by (cases n) simp_all

lemma parse_members_space [simp]: "parse_members n (32 # s) = parse_members n s"
  by (cases n) (simp_all add: is_json_ws_def)

text \<open>\<open>reads j\<close>: with fuel for its length, the parser finds \<open>j\<close> at the start of a text.\<close>

definition reads :: "json \<Rightarrow> bool" where
  "reads j \<longleftrightarrow> (\<forall>n r. ends_value r \<longrightarrow> length (dumps j) \<le> n \<longrightarrow> parse_value n (dumps j @ r) = Some (j, r))"

lemma readsD: "reads j \<Longrightarrow> ends_value r \<Longrightarrow> length (dumps j) \<le> n \<Longrightarrow> parse_value n (dumps j @ r) = Some (j, r)"
  by (simp add: reads_def)

lemma parse_elems_dumps:
  assumes "js \<noteq> []" "\<forall>j \<in> set js. reads j" "length (py_join [44, 32] (map dumps js)) < n"
  shows "parse_elems n (py_join [44, 32] (map dumps js) @ 93 # r) = Some (js, r)"
  using assms
proof (induction js arbitrary: n)
  case Nil
  then show ?case by simp
next
  case (Cons j js)
  from Cons.prems obtain m where n: "n = Suc m" by (cases n) auto
  show ?case
  proof (cases js)
    case Nil
    with Cons.prems n show ?thesis by (simp add: readsD is_json_ws_def)
  next
    case (Cons k ks)
    with Cons.prems n have "length (py_join [44, 32] (map dumps js)) < m" by simp
    with Cons.IH Cons.prems Cons have
      "parse_elems m (py_join [44, 32] (map dumps js) @ 93 # r) = Some (js, r)" by simp
    moreover have "parse_value m (dumps j @ (44 # 32 # py_join [44, 32] (map dumps js) @ 93 # r)) =
        Some (j, 44 # 32 # py_join [44, 32] (map dumps js) @ 93 # r)"
      using Cons.prems n Cons by (intro readsD) simp_all
    ultimately show ?thesis using n Cons by (simp add: is_json_ws_def)
  qed
qed

abbreviation member_text :: "pystr \<times> json \<Rightarrow> pystr" where
  "member_text kv \<equiv> str_lit (fst kv) @ [58, 32] @ dumps (snd kv)"

lemma parse_member_head:
  assumes "reads v" "ends_value r" "length (dumps v) \<le> n"
  shows "parse_members (Suc n) (member_text (k, v) @ r) =
    (case skip_ws r of [] \<Rightarrow> None
     | c # t \<Rightarrow> if c = 44 then map_option (map_prod (Cons (k, v)) id) (parse_members n t)
               else if c = 125 then Some ([(k, v)], t) else None)"
  using assms by (simp add: str_lit_def parse_chars_lit is_json_ws_def readsD)

lemma parse_members_dumps:
  assumes "kvs \<noteq> []" "\<forall>kv \<in> set kvs. reads (snd kv)"
    "length (py_join [44, 32] (map member_text kvs)) < n"
  shows "parse_members n (py_join [44, 32] (map member_text kvs) @ 125 # r) = Some (kvs, r)"
  using assms
proof (induction kvs arbitrary: n)
  case Nil
  then show ?case by simp
next
  case (Cons kv kvs)
  obtain k v where kv: "kv = (k, v)" by (cases kv)
  from Cons.prems obtain m where n: "n = Suc m" by (cases n) auto
  show ?case
  proof (cases kvs)
    case Nil
    have "parse_members (Suc m) (member_text (k, v) @ (125 # r)) = Some ([(k, v)], r)"
      using Cons.prems n Nil kv by (subst parse_member_head) (simp_all add: is_json_ws_def)
    with n kv Nil show ?thesis by simp
  next
    case (Cons l ls)
    let ?t = "py_join [44, 32] (map member_text kvs) @ 125 # r"
    from Cons Cons.prems n kv have "length (py_join [44, 32] (map member_text kvs)) < m" by simp
    with Cons.IH Cons.prems Cons have ih: "parse_members m ?t = Some (kvs, r)" by simp
    have "parse_members (Suc m) (member_text (k, v) @ (44 # 32 # ?t)) = Some ((k, v) # kvs, r)"
      using Cons.prems n Cons kv ih by (subst parse_member_head) (simp_all add: is_json_ws_def)
    with n kv Cons show ?thesis by simp
  qed
qed

lemma dict_of_members_acc:
  "distinct (map fst (acc @ kvs)) \<Longrightarrow> fold (\<lambda>(k, v) d. dict_set k v d) kvs acc = acc @ kvs"
proof (induction kvs arbitrary: acc)
  case (Cons kv kvs)
  obtain k v where kv: "kv = (k, v)" by (cases kv)
  with Cons.prems have "k \<notin> fst ` set acc" by auto
  then have "dict_set k v acc = acc @ [(k, v)]" by (induction acc) auto
  with Cons.IH [of "acc @ [(k, v)]"] Cons.prems kv show ?case by simp
qed simp

lemma dict_of_members_distinct: "distinct (map fst kvs) \<Longrightarrow> dict_of_members kvs = kvs"
  using dict_of_members_acc [of "[]" kvs] by (simp add: dict_of_members_def)

lemma dumps_JObj: "dumps (JObj kvs) = 123 # py_join [44, 32] (map member_text kvs) @ [125]"
proof -
  have "map (\<lambda>(k, d). str_lit k @ [58, 32] @ d) (map (map_prod id dumps) kvs) = map member_text kvs"
    by (simp add: case_prod_unfold comp_def)
  then show ?thesis by (simp only: dumps.simps)
qed

lemma reads_JArr:
  assumes "\<forall>j \<in> set js. reads j"
  shows "reads (JArr js)"
  unfolding reads_def
proof (intro allI impI)
  fix n r assume r: "ends_value r" and n: "length (dumps (JArr js)) \<le> n"
  then obtain m where m: "n = Suc m" by (cases n) auto
  show "parse_value n (dumps (JArr js) @ r) = Some (JArr js, r)"
  proof (cases js)
    case Nil
    with m show ?thesis by (simp add: is_json_ws_def)
  next
    case (Cons j' js')
    obtain c cs where c: "dumps j' = c # cs" "\<not> is_json_ws c" "c \<noteq> 93" by (rule dumps_head)
    then obtain t where t: "py_join [44, 32] (map dumps js) = c # t"
      using Cons by (cases js') auto
    have "parse_elems m (py_join [44, 32] (map dumps js) @ 93 # r) = Some (js, r)"
      using assms Cons m n by (intro parse_elems_dumps) simp_all
    with t c m show ?thesis by (simp add: is_json_ws_def)
  qed
qed

lemma reads_JObj:
  assumes "\<forall>kv \<in> set kvs. reads (snd kv)" "distinct (map fst kvs)"
  shows "reads (JObj kvs)"
  unfolding reads_def
proof (intro allI impI)
  fix n r assume r: "ends_value r" and n: "length (dumps (JObj kvs)) \<le> n"
  then obtain m where m: "n = Suc m" by (cases n) (simp_all add: dumps_JObj)
  show "parse_value n (dumps (JObj kvs) @ r) = Some (JObj kvs, r)"
  proof (cases kvs)
    case Nil
    with m show ?thesis by (simp add: is_json_ws_def dict_of_members_def)
  next
    case (Cons kv kvs')
    then obtain t where t: "py_join [44, 32] (map member_text kvs) = 34 # t"
      by (cases kvs') (auto simp: str_lit_def)
    have "parse_members m (py_join [44, 32] (map member_text kvs) @ 125 # r) = Some (kvs, r)"
      using assms Cons m n by (intro parse_members_dumps) (simp_all add: dumps_JObj del: dumps.simps)
    with t m show ?thesis
      by (simp add: is_json_ws_def dumps_JObj dict_of_members_distinct assms(2) del: dumps.simps)
  qed
qed

lemma reads_leaf: "reads JNull" "reads (JBool b)" "reads (JInt i)" "reads (JStr s)"
proof -
  show "reads JNull" "reads (JStr s)"
    unfolding reads_def
    by (intro allI impI, case_tac n; auto simp: ascii_def str_lit_def is_json_ws_def parse_chars_lit)+
  show "reads (JBool b)"
    unfolding reads_def
    by (intro allI impI, case_tac n; cases b; simp add: ascii_def is_json_ws_def)
  show "reads (JInt i)"
    unfolding reads_def
  proof (intro allI impI)
    fix n r assume r: "ends_value r" and n: "length (dumps (JInt i)) \<le> n"
    obtain c cs where c: "int_str i = c # cs" "c = 45 \<or> 48 \<le> c \<and> c \<le> 57" by (rule int_str_head)
    with n obtain m where m: "n = Suc m" by (cases n) auto
    from c parse_int_str [OF r, of i] m
    show "parse_value n (dumps (JInt i) @ r) = Some (JInt i, r)"
      by (auto simp: ascii_def is_json_ws_def)
  qed
qed

lemma json_wf_reads: "json_wf j \<Longrightarrow> reads j"
proof (induction j)
  case (JArr js)
  then show ?case by (intro reads_JArr) (auto simp: list_all_iff)
next
  case (JObj kvs)
  then show ?case by (intro reads_JObj) (auto simp: list_all_iff)
qed (simp_all add: reads_leaf)

lemma loads_dumps: "json_wf j \<Longrightarrow> loads (dumps j) = Inr j"
  using readsD [OF json_wf_reads, of j "[]" "Suc (length (dumps j))"]
  by (simp add: loads_def del: parse_value.simps)

section \<open>What a JSON column relies on\<close>

locale json_text =
  fixes wr :: "'j \<Rightarrow> pystr" and rd :: "pystr \<Rightarrow> 'j result" and ok :: "'j \<Rightarrow> bool"
  assumes rd_wr: "ok j \<Longrightarrow> rd (wr j) = Inr j"
begin

lemma wr_inject: "ok i \<Longrightarrow> ok j \<Longrightarrow> wr i = wr j \<longleftrightarrow> i = j"
  by (metis rd_wr sum.inject(2))

text \<open>A codec that turns domain values to JSON and back is a round trip through the text.\<close>

lemma codec:
  assumes "ok (enc x)" "dec (enc x) = Inr x"
  shows "res_bind (rd (wr (enc x))) dec = Inr x"
  using assms by (simp add: rd_wr)

end

interpretation json: json_text dumps loads json_wf
  by unfold_locales (rule loads_dumps)

end
