(* ===== verification/Retrieval.thy ===== *)
theory Retrieval
  imports Effects Complex_Main "HOL-Library.Multiset"
begin

text \<open>
  \<open>app/domain/services/rag_query.py\<close>: the decisions around vector retrieval. Scores are
  doubles that are only compared and sorted; they are rationals here (no NaN), and the literal
  0.18 is the double it denotes.
\<close>

definition SHORT_QUERY_MAX :: nat where "SHORT_QUERY_MAX = 4"
definition MEDIUM_QUERY_MAX :: nat where "MEDIUM_QUERY_MAX = 12"
definition SHORT_QUERY_MIN_SCORE :: rat where "SHORT_QUERY_MIN_SCORE = 3242591731706757 / 18014398509481984"
definition TOPK_SHORT :: int where "TOPK_SHORT = 20"
definition TOPK_MEDIUM :: int where "TOPK_MEDIUM = 12"
definition TOPK_LONG :: int where "TOPK_LONG = 8"

definition NO_INFO_PATTERNS :: "pystr list" where
  "NO_INFO_PATTERNS = [[27809, 26377, 25214, 21040, 30456, 20851, 20449, 24687], [26410, 26816, 32034, 21040, 30456, 20851, 20449, 24687], [20449, 24687, 19981, 36275], [36229, 20986, 30693, 35782, 24211, 33539, 22260], [26080, 27861, 26681, 25454, 25552, 20379, 20869, 23481, 22238, 31572]]"

record RetrievedChunk =
  ch_content :: pystr
  ch_score :: rat
  ch_kb_id :: int

definition normalize_probe_window :: "pystr \<Rightarrow> nat \<Rightarrow> pystr" where
  "normalize_probe_window text limit =
     (let collapsed = py_join [32] (py_split text)
      in if length collapsed > limit then take limit collapsed else collapsed)"

definition compute_retrieval_params :: "pystr \<Rightarrow> int \<times> rat option" where
  "compute_retrieval_params query =
     (let n = length (concat (py_split query))
      in if n \<le> SHORT_QUERY_MAX then (TOPK_SHORT, Some SHORT_QUERY_MIN_SCORE)
         else if n \<le> MEDIUM_QUERY_MAX then (TOPK_MEDIUM, None) else (TOPK_LONG, None))"

definition is_no_info_answer :: "pystr \<Rightarrow> bool" where
  "is_no_info_answer text \<longleftrightarrow> list_ex (\<lambda>p. py_contains p text) NO_INFO_PATTERNS"

fun keep_best :: "RetrievedChunk list \<Rightarrow> (pystr, RetrievedChunk) dict \<Rightarrow> (pystr, RetrievedChunk) dict" where
  "keep_best [] best = best"
| "keep_best (chunk # chunks) best =
     keep_best chunks
       (case dict_get best (ch_content chunk) of
          None \<Rightarrow> dict_set (ch_content chunk) chunk best
        | Some existing \<Rightarrow> if ch_score chunk > ch_score existing then dict_set (ch_content chunk) chunk best else best)"

definition merge_and_dedup :: "RetrievedChunk list list \<Rightarrow> RetrievedChunk list" where
  "merge_and_dedup candidate_lists =
     sort_key (\<lambda>c. - ch_score c) (map snd (fold keep_best candidate_lists []))"

definition filter_by_min_score :: "RetrievedChunk list \<Rightarrow> rat \<Rightarrow> RetrievedChunk list" where
  "filter_by_min_score chunks min_score = filter (\<lambda>c. ch_score c \<ge> min_score) chunks"

definition detect_no_result :: "RetrievedChunk list \<Rightarrow> bool" where
  "detect_no_result chunks \<longleftrightarrow> length chunks = 0"

definition context_block :: "nat \<Rightarrow> RetrievedChunk \<Rightarrow> pystr" where
  "context_block index chunk = [91, 29255, 27573] @ int_str (int index) @ [93, 32] @ ch_content chunk"

fun context_loop :: "int \<Rightarrow> (nat \<times> RetrievedChunk) list \<Rightarrow> pystr list \<Rightarrow> int \<Rightarrow> pystr list" where
  "context_loop max_chars [] parts tot = parts"
| "context_loop max_chars ((index, chunk) # rest) parts tot =
     (let block = context_block index chunk
      in if parts \<noteq> [] \<and> tot + int (length block) > max_chars then parts
         else context_loop max_chars rest (parts @ [block]) (tot + int (length block)))"

definition context_parts :: "RetrievedChunk list \<Rightarrow> int \<Rightarrow> pystr list" where
  "context_parts chunks max_chars = context_loop max_chars (List.enumerate 1 chunks) [] 0"

definition build_context :: "RetrievedChunk list \<Rightarrow> int \<Rightarrow> pystr" where
  "build_context chunks max_chars = py_join [10, 10] (context_parts chunks max_chars)"

section \<open>Merging keeps the best of each text\<close>

definition best_score :: "RetrievedChunk list \<Rightarrow> pystr \<Rightarrow> rat option" where
  "best_score chunks t = (let scores = map ch_score (filter (\<lambda>c. ch_content c = t) chunks)
     in if scores = [] then None else Some (Max (set scores)))"

definition max_opt :: "rat option \<Rightarrow> rat option \<Rightarrow> rat option" where
  "max_opt a b = (case a of None \<Rightarrow> b | Some x \<Rightarrow> (case b of None \<Rightarrow> Some x | Some y \<Rightarrow> Some (max x y)))"

lemma best_score_simps:
  "best_score [] t = None"
  "best_score (c # cs) t = (if ch_content c = t then max_opt (Some (ch_score c)) (best_score cs t) else best_score cs t)"
proof -
  show "best_score [] t = None" by (simp add: best_score_def)
  show "best_score (c # cs) t = (if ch_content c = t then max_opt (Some (ch_score c)) (best_score cs t) else best_score cs t)"
  proof (cases "ch_content c = t")
    case True
    let ?ss = "map ch_score (filter (\<lambda>c. ch_content c = t) cs)"
    have "best_score (c # cs) t = Some (Max (set (ch_score c # ?ss)))"
      by (simp only: best_score_def filter.simps True refl if_True list.map Let_def list.distinct if_False)
    moreover have "Max (set (ch_score c # ?ss)) = (if ?ss = [] then ch_score c else max (ch_score c) (Max (set ?ss)))"
      by (cases "?ss = []") (simp_all only: list.set Max_insert List.finite_set set_empty if_True if_False Max_singleton not_False_eq_True refl)
    ultimately show ?thesis using True by (simp add: best_score_def max_opt_def Let_def)
  qed (simp add: best_score_def)
qed

lemma max_opt_assoc: "max_opt (max_opt a b) c = max_opt a (max_opt b c)"
  by (cases a; cases b; cases c) (simp_all add: max_opt_def max.assoc)

lemma max_opt_None [simp]: "max_opt None b = b" "max_opt a None = a"
  by (simp_all add: max_opt_def split: option.split)

definition best_inv :: "(pystr, RetrievedChunk) dict \<Rightarrow> bool" where
  "best_inv d \<longleftrightarrow> dict_wf d \<and> list_all (\<lambda>kv. ch_content (snd kv) = fst kv) d"

lemma best_inv_set:
  assumes "best_inv d"
  shows "best_inv (dict_set (ch_content c) c d)"
proof -
  have "list_all (\<lambda>kv. ch_content (snd kv) = fst kv) d \<Longrightarrow>
      list_all (\<lambda>kv. ch_content (snd kv) = fst kv) (dict_set (ch_content c) c d)"
    by (induction d) auto
  with assms show ?thesis by (simp add: best_inv_def)
qed

lemma keep_best_spec:
  assumes "best_inv d"
  shows "best_inv (keep_best cs d) \<and>
    map_option ch_score (dict_get (keep_best cs d) t) = max_opt (map_option ch_score (dict_get d t)) (best_score cs t)"
  using assms
proof (induction cs d rule: keep_best.induct)
  case (1 best)
  then show ?case by (simp add: best_score_simps)
next
  case (2 c cs best)
  let ?d = "case dict_get best (ch_content c) of
          None \<Rightarrow> dict_set (ch_content c) c best
        | Some existing \<Rightarrow> if ch_score c > ch_score existing then dict_set (ch_content c) c best else best"
  have inv: "best_inv ?d" using "2.prems" best_inv_set by (simp split: option.split)
  have "map_option ch_score (dict_get ?d t) =
      (if ch_content c = t then max_opt (map_option ch_score (dict_get best t)) (Some (ch_score c)) else map_option ch_score (dict_get best t))"
    by (auto simp: max_opt_def split: option.split)
  with "2.IH" [OF inv] show ?case by (simp add: best_score_simps max_opt_assoc)
qed

lemma best_score_append: "best_score (xs @ ys) t = max_opt (best_score xs t) (best_score ys t)"
  by (induction xs) (simp_all add: best_score_simps max_opt_assoc)

lemma fold_keep_best_spec:
  assumes "best_inv d"
  shows "best_inv (fold keep_best cands d) \<and>
    map_option ch_score (dict_get (fold keep_best cands d) t) = max_opt (map_option ch_score (dict_get d t)) (best_score (concat cands) t)"
  using assms
proof (induction cands arbitrary: d)
  case Nil
  then show ?case by (simp add: best_score_simps)
next
  case (Cons cs cands)
  from keep_best_spec [OF Cons.prems, of cs t] Cons.IH [of "keep_best cs d"]
  show ?case by (simp add: best_score_append max_opt_assoc)
qed

abbreviation chunk_table :: "RetrievedChunk list \<Rightarrow> (pystr \<times> rat) list" where
  "chunk_table cs \<equiv> map (\<lambda>c. (ch_content c, ch_score c)) cs"

text \<open>
  Merging the candidate lists of several query variants: the result has one chunk per
  distinct text, namely one with the highest score that text had in any list, loses no
  text, and is ordered by falling score.
\<close>
theorem merge_and_dedup_best:
  "dict_wf (chunk_table (merge_and_dedup cands))
   \<and> map_of (chunk_table (merge_and_dedup cands)) = best_score (concat cands)
   \<and> sorted (map (\<lambda>c. - ch_score c) (merge_and_dedup cands))"
proof -
  let ?d = "fold keep_best cands []"
  have e: "best_inv []" by (simp add: best_inv_def)
  have inv: "best_inv ?d" and get: "map_option ch_score (dict_get ?d t) = best_score (concat cands) t" for t
    using fold_keep_best_spec [OF e, of cands t] by simp_all
  have keys: "map ch_content (map snd ?d) = map fst ?d"
    using inv by (auto simp: best_inv_def list_all_iff)
  have tab: "chunk_table (map snd ?d) = map (\<lambda>(k, c). (k, ch_score c)) ?d"
    using inv by (auto simp: best_inv_def list_all_iff)
  have "mset (map ch_content (merge_and_dedup cands)) = mset (map ch_content (map snd ?d))"
    by (simp only: merge_and_dedup_def mset_map mset_sort)
  then have wf: "distinct (map ch_content (merge_and_dedup cands))"
    using inv keys by (metis best_inv_def mset_eq_imp_distinct_iff)
  have "set (chunk_table (merge_and_dedup cands)) = set (chunk_table (map snd ?d))"
    by (simp only: merge_and_dedup_def set_map set_sort)
  moreover have "map fst (chunk_table (map snd ?d)) = map ch_content (map snd ?d)" by simp
  then have "dict_wf (chunk_table (map snd ?d))" using inv by (simp only: keys best_inv_def)
  ultimately have "map_of (chunk_table (merge_and_dedup cands)) = map_of (chunk_table (map snd ?d))"
    using wf by (simp add: map_of_inject_set comp_def)
  also have "\<dots> = best_score (concat cands)"
    by (rule ext) (simp only: tab map_of_map comp_apply get)
  finally show ?thesis using wf by (simp add: merge_and_dedup_def comp_def)
qed

section \<open>The context stays within its budget\<close>

lemma context_loop_spec:
  assumes "parts \<noteq> []" "tot \<le> max_chars \<or> length parts = 1"
  shows "\<exists>k. context_loop max_chars ics parts tot = parts @ take k (map (\<lambda>(i, c). context_block i c) ics)
     \<and> (tot + int (length (concat (take k (map (\<lambda>(i, c). context_block i c) ics)))) \<le> max_chars \<or> k = 0)
     \<and> (length ics \<le> k \<or> max_chars < tot + int (length (concat (take (Suc k) (map (\<lambda>(i, c). context_block i c) ics)))))"
  using assms
proof (induction max_chars ics parts tot rule: context_loop.induct)
  case (1 max_chars parts tot)
  then show ?case by (intro exI [of _ 0]) simp
next
  case (2 max_chars index chunk rest parts tot)
  let ?b = "context_block index chunk"
  show ?case
  proof (cases "tot + int (length ?b) > max_chars")
    case True
    with "2.prems" show ?thesis by (intro exI [of _ 0]) simp
  next
    case False
    with "2.prems" obtain k where k:
      "context_loop max_chars rest (parts @ [?b]) (tot + int (length ?b)) = (parts @ [?b]) @ take k (map (\<lambda>(i, c). context_block i c) rest)"
      "tot + int (length ?b) + int (length (concat (take k (map (\<lambda>(i, c). context_block i c) rest)))) \<le> max_chars \<or> k = 0"
      "length rest \<le> k \<or> max_chars < tot + int (length ?b) + int (length (concat (take (Suc k) (map (\<lambda>(i, c). context_block i c) rest))))"
      using "2.IH" [OF refl] by auto
    with False show ?thesis by (intro exI [of _ "Suc k"]) (auto simp: Let_def)
  qed
qed

text \<open>
  The prompt's context is the longest run of numbered chunks from the front that fits:
  at least one chunk whenever there is one, beyond that only as many as keep the summed
  length of the blocks within the budget, and stopping only where the next block would
  exceed it. (The separators between the blocks are not counted.)
\<close>
theorem context_parts_maximal:
  "\<exists>k. context_parts chunks mx = take k (map (\<lambda>(i, c). context_block i c) (List.enumerate 1 chunks))
     \<and> (chunks = [] \<or> 0 < k)
     \<and> (k \<le> 1 \<or> int (length (concat (context_parts chunks mx))) \<le> mx)
     \<and> (length chunks \<le> k \<or> mx < int (length (concat (take (Suc k) (map (\<lambda>(i, c). context_block i c) (List.enumerate 1 chunks))))))"
proof (cases chunks)
  case Nil
  then show ?thesis by (intro exI [of _ 0]) (simp add: context_parts_def)
next
  case (Cons c cs)
  let ?b = "context_block 1 c" and ?r = "map (\<lambda>(i, c). context_block i c) (List.enumerate 2 cs)"
  have "context_parts chunks mx = context_loop mx (List.enumerate 2 cs) [?b] (int (length ?b))"
    by (simp add: context_parts_def Cons numeral_2_eq_2 Let_def)
  with context_loop_spec [of "[?b]" "int (length ?b)" mx "List.enumerate 2 cs"] obtain k where
    k: "context_parts chunks mx = ?b # take k ?r"
      "int (length ?b) + int (length (concat (take k ?r))) \<le> mx \<or> k = 0"
      "length cs \<le> k \<or> mx < int (length ?b) + int (length (concat (take (Suc k) ?r)))" by auto
  have e: "map (\<lambda>(i, c). context_block i c) (List.enumerate 1 chunks) = ?b # ?r" by (simp add: Cons numeral_2_eq_2)
  show ?thesis unfolding e by (rule exI [of _ "Suc k"]) (use k Cons in auto)
qed

text \<open>The budget that the separators can exceed: two blocks of three characters more than fit.\<close>

lemma context_can_exceed_budget:
  "int (length (build_context [\<lparr>ch_content = [120], ch_score = 1, ch_kb_id = 1\<rparr>, \<lparr>ch_content = [121], ch_score = 1, ch_kb_id = 1\<rparr>] 14)) = 16"
  by (simp add: build_context_def context_parts_def context_block_def Let_def int_str_def nat_digits.simps)

end
