(* ===== verification/Voice_Dialogue.thy ===== *)
theory Voice_Dialogue
  imports Entities Complex_Main
begin

text \<open>
  \<open>app/domain/services/voice_dialogue.py\<close> and \<open>voice_qa_adapter.py\<close>: merging of recognised
  segments, the commit decision, sentence splitting of the streamed reply, echo suppression,
  and the adaptation of voice messages to evaluation records. Millisecond values are
  rationals (doubles that are only compared).
\<close>

definition MIN_COMMIT_CHARS :: nat where "MIN_COMMIT_CHARS = 20"
definition COMMIT_DEBOUNCE_MS :: rat where "COMMIT_DEBOUNCE_MS = 2500"
definition SENTENCE_ENDINGS :: "nat list" where "SENTENCE_ENDINGS = [12290, 65281, 65311, 33, 63, 65307, 59, 10]"

definition merge_segments :: "pystr list \<Rightarrow> pystr" where
  "merge_segments segments = concat (filter (\<lambda>c. c \<noteq> []) (map py_strip segments))"

definition should_commit :: "pystr \<Rightarrow> rat \<Rightarrow> bool" where
  "should_commit merged_text silence_ms =
     (if merged_text = [] then False
      else length merged_text \<ge> MIN_COMMIT_CHARS \<or> silence_ms \<ge> COMMIT_DEBOUNCE_MS)"

text \<open>The loop of \<open>split_sentences\<close>: position, start of the open segment, sentences so far.\<close>

fun split_loop :: "pystr \<Rightarrow> (nat \<times> nat) list \<Rightarrow> nat \<Rightarrow> pystr list \<Rightarrow> pystr list \<times> nat" where
  "split_loop text [] start sentences = (sentences, start)"
| "split_loop text ((i, c) # rest) start sentences =
     (if c \<in> set SENTENCE_ENDINGS then
        let segment = py_strip (drop start (take (i + 1) text))
        in split_loop text rest (i + 1) (if segment \<noteq> [] then sentences @ [segment] else sentences)
      else split_loop text rest start sentences)"

definition split_sentences :: "pystr \<Rightarrow> pystr list \<times> pystr" where
  "split_sentences text =
     (let (sentences, start) = split_loop text (py_enumerate text) 0 [] in (sentences, drop start text))"

definition should_drop_audio :: "rat \<Rightarrow> rat \<Rightarrow> bool" where
  "should_drop_audio now_ms mute_until_ms \<longleftrightarrow> now_ms < mute_until_ms"

definition voice_qa_record :: "VoiceMessage \<Rightarrow> QaRecord option" where
  "voice_qa_record msg =
     (let question = py_strip (or_str (vm_ai_generated_text msg) [])
      in if question = [] then None
         else let answer = (case vm_user_recognized_text msg of None \<Rightarrow> None
                  | Some a \<Rightarrow> let a' = py_strip a in if a' = [] then None else Some a')
              in Some \<lparr>qa_question_index = vm_sequence_num msg, qa_question = question,
                       qa_category = vm_phase msg, qa_user_answer = answer\<rparr>)"

definition build_voice_qa_records :: "VoiceMessage list \<Rightarrow> QaRecord list" where
  "build_voice_qa_records messages = List.map_filter voice_qa_record messages"

section \<open>Sentence splitting is incremental\<close>

text \<open>The same split by structural recursion: \<open>acc\<close> is the open segment.\<close>

fun split_acc :: "pystr \<Rightarrow> pystr \<Rightarrow> pystr list \<times> pystr" where
  "split_acc acc [] = ([], acc)"
| "split_acc acc (c # cs) =
     (if c \<in> set SENTENCE_ENDINGS then
        (let (ss, r) = split_acc [] cs; seg = py_strip (acc @ [c])
         in (if seg \<noteq> [] then seg # ss else ss, r))
      else split_acc (acc @ [c]) cs)"

lemma split_loop_acc:
  assumes "text = pre @ acc @ cs" "start = length pre"
  shows "split_loop text (List.enumerate (length pre + length acc) cs) start sents =
    (let (ss, r) = split_acc acc cs in (sents @ ss, length text - length r))"
    and "drop (length text - length (snd (split_acc acc cs))) text = snd (split_acc acc cs)"
  using assms
proof (induction cs arbitrary: pre acc start sents)
  case Nil
  { case 1 then show ?case by simp }
  { case 2 then show ?case by simp }
next
  case (Cons c cs)
  { case 1
    show ?case
    proof (cases "c \<in> set SENTENCE_ENDINGS")
      case True
      have t: "text = (pre @ acc @ [c]) @ [] @ cs" using 1 by simp
      have seg: "drop start (take (length pre + length acc + 1) text) = acc @ [c]" using 1 by simp
      obtain ss r where sr: "split_acc [] cs = (ss, r)" by fastforce
      show ?thesis
        using True Cons.IH(1) [OF t refl] seg
        by (simp add: sr Let_def)
    next
      case False
      have t: "text = pre @ (acc @ [c]) @ cs" using 1 by simp
      show ?thesis using False Cons.IH(1) [OF t 1(2), of sents] by simp
    qed }
  { case 2
    show ?case
    proof (cases "c \<in> set SENTENCE_ENDINGS")
      case True
      have t: "text = (pre @ acc @ [c]) @ [] @ cs" using 2 by simp
      from Cons.IH(2) [OF t refl] True show ?thesis by (simp add: case_prod_unfold Let_def)
    next
      case False
      have t: "text = pre @ (acc @ [c]) @ cs" using 2 by simp
      from Cons.IH(2) [OF t 2(2)] False show ?thesis by simp
    qed }
qed

lemma split_sentences_acc: "split_sentences text = split_acc [] text"
proof -
  obtain ss r where sr: "split_acc [] text = (ss, r)" by fastforce
  have "split_loop text (List.enumerate 0 text) 0 [] = (ss, length text - length r)"
    using split_loop_acc(1) [of "text" "[]" "[]" "text" 0 "[]"] by (simp add: sr)
  moreover have "drop (length text - length r) text = r"
    using split_loop_acc(2) [of "text" "[]" "[]" "text" 0] by (simp add: sr)
  ultimately show ?thesis by (simp add: split_sentences_def py_enumerate_def sr)
qed

lemma split_acc_append:
  "split_acc acc (xs @ ys) =
     (let (ss, r) = split_acc acc xs; (ss', r') = split_acc r ys in (ss @ ss', r'))"
  by (induction acc xs rule: split_acc.induct) (simp_all add: case_prod_unfold Let_def)

lemma split_acc_rest:
  "set acc \<inter> set SENTENCE_ENDINGS = {} \<Longrightarrow> set (snd (split_acc acc xs)) \<inter> set SENTENCE_ENDINGS = {}"
proof (induction xs arbitrary: acc)
  case (Cons c cs)
  show ?case
  proof (cases "c \<in> set SENTENCE_ENDINGS")
    case True
    with Cons.IH [of "[]"] show ?thesis by (simp add: case_prod_unfold Let_def)
  next
    case False
    then have "set (acc @ [c]) \<inter> set SENTENCE_ENDINGS = {}" using Cons.prems by simp
    from Cons.IH [OF this] False show ?thesis by simp
  qed
qed simp

lemma split_acc_shift:
  "\<forall>c \<in> set xs. c \<notin> set SENTENCE_ENDINGS \<Longrightarrow> split_acc acc (xs @ ys) = split_acc (acc @ xs) ys"
  by (induction xs arbitrary: acc) simp_all

lemma split_sentences_append:
  "split_sentences (text @ later) =
     (fst (split_sentences text) @ fst (split_sentences (snd (split_sentences text) @ later)),
      snd (split_sentences (snd (split_sentences text) @ later)))"
proof -
  obtain ss r where sr: "split_acc [] text = (ss, r)" by fastforce
  have "\<forall>c \<in> set r. c \<notin> set SENTENCE_ENDINGS" using split_acc_rest [of "[]" "text"] by (auto simp: sr)
  then have "split_acc [] (r @ later) = split_acc r later" using split_acc_shift [of r "[]" later] by simp
  then show ?thesis
    by (simp add: split_sentences_acc split_acc_append sr case_prod_unfold Let_def)
qed

text \<open>
  Cutting sentences out of a stream does not depend on how the stream is chunked: feeding
  the remainder together with the next tokens yields the same sentences and the same
  remainder as cutting the whole text at once, and the remainder holds no sentence ending.
\<close>
theorem split_sentences_incremental:
  "split_sentences (text @ later) =
     (fst (split_sentences text) @ fst (split_sentences (snd (split_sentences text) @ later)),
      snd (split_sentences (snd (split_sentences text) @ later)))
   \<and> filter (\<lambda>c. c \<in> set SENTENCE_ENDINGS) (snd (split_sentences text)) = []"
  using split_sentences_append [of "text" later] split_acc_rest [of "[]" "text"]
  by (simp add: split_sentences_acc filter_empty_conv disjoint_iff)

lemma strip_nonspace: "filter (\<lambda>c. \<not> is_space c) (py_strip s) = filter (\<lambda>c. \<not> is_space c) s"
proof -
  have d: "filter (\<lambda>c. \<not> is_space c) (dropWhile is_space s) = filter (\<lambda>c. \<not> is_space c) s" for s
    by (induction s) auto
  show ?thesis by (simp add: py_strip_def d flip: rev_filter)
qed

lemma split_acc_nonspace:
  "(let (ss, r) = split_acc acc xs in filter (\<lambda>c. \<not> is_space c) (concat ss @ r)) = filter (\<lambda>c. \<not> is_space c) (acc @ xs)"
proof (induction acc xs rule: split_acc.induct)
  case (2 acc c cs)
  show ?case
  proof (cases "c \<in> set SENTENCE_ENDINGS")
    case True
    have "py_strip (acc @ [c]) = [] \<Longrightarrow> filter (\<lambda>c. \<not> is_space c) (acc @ [c]) = []"
      using strip_nonspace [of "acc @ [c]"] by simp
    with 2(1) [OF True] True strip_nonspace [of "acc @ [c]"] show ?thesis
      by (auto simp: case_prod_unfold Let_def split: if_splits)
  next
    case False
    with 2(2) show ?thesis by simp
  qed
qed simp

lemma split_sentences_visible:
  "filter (\<lambda>c. \<not> is_space c) (concat (fst (split_sentences text)) @ snd (split_sentences text)) = filter (\<lambda>c. \<not> is_space c) text"
  using split_acc_nonspace [of "[]" "text"] by (simp add: split_sentences_acc case_prod_unfold Let_def)

text \<open>
  Splitting loses no speech: sentences and remainder together hold exactly the visible
  characters of the text in order, and merging recognised segments keeps all of theirs.
\<close>
theorem split_and_merge_keep_text:
  "filter (\<lambda>c. \<not> is_space c) (concat (fst (split_sentences text)) @ snd (split_sentences text)) = filter (\<lambda>c. \<not> is_space c) text
   \<and> filter (\<lambda>c. \<not> is_space c) (merge_segments segs) = filter (\<lambda>c. \<not> is_space c) (concat segs)"
proof -
  have "filter (\<lambda>c. \<not> is_space c) (merge_segments segs) = filter (\<lambda>c. \<not> is_space c) (concat segs)"
  proof (induction segs)
    case (Cons s segs)
    have "py_strip s = [] \<Longrightarrow> filter (\<lambda>c. \<not> is_space c) s = []" using strip_nonspace [of s] by simp
    with Cons strip_nonspace [of s] show ?case by (auto simp: merge_segments_def)
  qed (simp add: merge_segments_def)
  then show ?thesis
    using split_sentences_visible [of "text"] by simp
qed

text \<open>
  The evaluation records of a voice interview: exactly the messages with a non-blank AI
  text, in order, under their sequence numbers and phases; texts are trimmed and a blank
  answer counts as not answered.
\<close>
theorem voice_qa_records_spec:
  "map (\<lambda>r. (qa_question_index r, qa_question r, qa_category r)) (build_voice_qa_records msgs) =
     map (\<lambda>m. (vm_sequence_num m, py_strip (or_str (vm_ai_generated_text m) []), vm_phase m))
       (filter (\<lambda>m. \<not> blank (or_str (vm_ai_generated_text m) [])) msgs)
   \<and> map (\<lambda>r. truthy_str (qa_user_answer r)) (build_voice_qa_records msgs) =
     map (\<lambda>m. \<not> blank (or_str (vm_user_recognized_text m) []))
       (filter (\<lambda>m. \<not> blank (or_str (vm_ai_generated_text m) [])) msgs)"
proof (induction msgs)
  case Nil
  then show ?case by (simp add: build_voice_qa_records_def map_filter_simps)
next
  case (Cons m msgs)
  have "truthy_str (case vm_user_recognized_text m of None \<Rightarrow> None
          | Some a \<Rightarrow> let a' = py_strip a in if a' = [] then None else Some a')
      = (\<not> blank (or_str (vm_user_recognized_text m) []))"
    by (auto simp: blank_def or_str_def Let_def split: option.split)
  with Cons show ?case
    by (auto simp: build_voice_qa_records_def map_filter_simps voice_qa_record_def blank_def Let_def)
qed

end
