(* ===== verification/Adaptive_Strategy.thy ===== *)
theory Adaptive_Strategy
  imports Effects Complex_Main
begin

text \<open>
  \<open>app/domain/services/adaptive_strategy.py\<close>: difficulty and direction of the next question of
  an adaptive interview, and when to stop. Averages are the quotients of integers, taken as
  rationals; they are compared with small integers and with each other, where the rounding
  of the double quotient of small scores makes no difference. The text of an average with one decimal
  (\<open>{:.1f}\<close>) is a parameter.
\<close>

record StrategyUpdate =
  su_suggested_difficulty :: pystr
  su_suggested_category :: pystr
  su_reason :: pystr

definition DIFFICULTY_LEVELS :: "pystr list" where
  "DIFFICULTY_LEVELS = [ascii ''junior'', ascii ''mid'', ascii ''senior'']"
definition HIGH_SCORE_THRESHOLD :: rat where "HIGH_SCORE_THRESHOLD = 7"
definition LOW_SCORE_THRESHOLD :: rat where "LOW_SCORE_THRESHOLD = 4"
definition WEAK_CATEGORY_THRESHOLD :: rat where "WEAK_CATEGORY_THRESHOLD = 5"
definition GENERAL_CATEGORY :: pystr where "GENERAL_CATEGORY = [36890, 29992]"

definition average :: "int list \<Rightarrow> rat" where
  "average scores = of_int (sum_list scores) / of_nat (length scores)"

text \<open>\<open>min(items, key=f)\<close>: the first item with the least key.\<close>

fun min_by :: "('a \<Rightarrow> 'b :: linorder) \<Rightarrow> 'a \<Rightarrow> 'a list \<Rightarrow> 'a" where
  "min_by f best [] = best"
| "min_by f best (x # xs) = min_by f (if f x < f best then x else best) xs"

definition py_min :: "('a \<Rightarrow> 'b :: linorder) \<Rightarrow> 'a list \<Rightarrow> 'a" where
  "py_min f xs = min_by f (hd xs) (tl xs)"

definition pick_next_category :: "(pystr, int list) dict \<Rightarrow> int \<Rightarrow> int \<Rightarrow> pystr" where
  "pick_next_category category_scores turn_count max_turns =
     (if category_scores = [] then GENERAL_CATEGORY
      else let category_avgs = map (\<lambda>(cat, scores). (cat, average scores)) (filter (\<lambda>(cat, scores). scores \<noteq> []) category_scores)
      in if category_avgs = [] then GENERAL_CATEGORY
      else let remaining = max_turns - turn_count
      in if remaining \<le> 2 then fst (py_min (\<lambda>x. length (snd x)) category_scores)
      else let weakest = py_min snd category_avgs
      in if snd weakest < WEAK_CATEGORY_THRESHOLD then fst weakest
         else fst (py_min (\<lambda>x. length (snd x)) category_scores))"

definition level_index :: "pystr \<Rightarrow> nat" where
  "level_index d = (if d = ascii ''junior'' then 0 else if d = ascii ''mid'' then 1 else 2)"

definition compute_strategy_update ::
  "(rat \<Rightarrow> pystr) \<Rightarrow> (pystr, int list) dict \<Rightarrow> pystr \<Rightarrow> int \<Rightarrow> int \<Rightarrow> StrategyUpdate" where
  "compute_strategy_update fmt1 category_scores current_difficulty turn_count max_turns =
     (if category_scores = [] then
        \<lparr>su_suggested_difficulty = current_difficulty, su_suggested_category = GENERAL_CATEGORY,
         su_reason = [23578, 26080, 36275, 22815, 25968, 25454, 21028, 26029, 65292, 20445, 25345, 24403, 21069, 31574, 30053]\<rparr>
      else
        let all_scores = concat (map snd category_scores);
            global_avg = (if all_scores \<noteq> [] then average all_scores else 5);
            safe_difficulty = (if current_difficulty \<in> set DIFFICULTY_LEVELS then current_difficulty else ascii ''mid'');
            idx = int (level_index safe_difficulty);
            (suggested_difficulty, difficulty_reason) =
              (if global_avg \<ge> HIGH_SCORE_THRESHOLD \<and> safe_difficulty \<noteq> ascii ''senior'' then
                 (DIFFICULTY_LEVELS ! nat (min (idx + 1) (int (length DIFFICULTY_LEVELS) - 1)),
                  [20840, 23616, 24179, 22343, 20998, 32] @ fmt1 global_avg @ [32, 62, 61, 32, 55, 65292, 25552, 21319, 38590, 24230])
               else if global_avg \<le> LOW_SCORE_THRESHOLD \<and> safe_difficulty \<noteq> ascii ''junior'' then
                 (DIFFICULTY_LEVELS ! nat (max (idx - 1) 0), [20840, 23616, 24179, 22343, 20998, 32] @ fmt1 global_avg @ [32, 60, 61, 32, 52, 65292, 38477, 20302, 38590, 24230])
               else (safe_difficulty, [20840, 23616, 24179, 22343, 20998, 32] @ fmt1 global_avg @ [65292, 20445, 25345, 24403, 21069, 38590, 24230]));
            suggested_category = pick_next_category category_scores turn_count max_turns
        in \<lparr>su_suggested_difficulty = suggested_difficulty, su_suggested_category = suggested_category,
            su_reason = difficulty_reason @ [65307, 19979, 19968, 39064, 26041, 21521, 65306] @ suggested_category\<rparr>)"

definition should_end_interview :: "int \<Rightarrow> int \<Rightarrow> (pystr, int list) dict \<Rightarrow> bool" where
  "should_end_interview turn_count max_turns category_scores =
     (if turn_count \<ge> max_turns then True
      else turn_count \<ge> max_turns - 1 \<and> list_all (\<lambda>kv. length (snd kv) \<ge> 2) category_scores)"

section \<open>Choosing the least\<close>

lemma min_by_spec:
  "min_by f b xs \<in> set (b # xs) \<and> (\<forall>x \<in> set (b # xs). f (min_by f b xs) \<le> f x)"
proof (induction xs arbitrary: b)
  case (Cons x xs)
  let ?b = "if f x < f b then x else b"
  have "f ?b \<le> f x \<and> f ?b \<le> f b" by auto
  moreover from Cons [of ?b] have "f (min_by f ?b xs) \<le> f ?b"
    and "min_by f ?b xs \<in> set (?b # xs)" and "\<forall>y \<in> set xs. f (min_by f ?b xs) \<le> f y" by auto
  ultimately show ?case by (auto intro: order_trans split: if_splits)
qed simp

lemma py_min_spec:
  assumes "xs \<noteq> []"
  shows "py_min f xs \<in> set xs" "x \<in> set xs \<Longrightarrow> f (py_min f xs) \<le> f x"
  using min_by_spec [of f "hd xs" "tl xs"] assms by (simp_all add: py_min_def)

text \<open>
  The next direction is one the candidate was asked about: with a weak direction and more
  than two turns left it is one with the least average, which is below the threshold;
  otherwise it is one with the fewest questions.
\<close>
theorem next_category_sound:
  assumes "dict_wf cs" "filter (\<lambda>kv. snd kv \<noteq> []) cs \<noteq> []"
  shows "\<exists>scores. dict_get cs (pick_next_category cs turn mx) = Some scores \<and>
    ((mx - turn > 2 \<and> scores \<noteq> [] \<and> average scores < WEAK_CATEGORY_THRESHOLD
        \<and> list_all (\<lambda>kv. snd kv = [] \<or> average scores \<le> average (snd kv)) cs)
     \<or> ((mx - turn \<le> 2 \<or> list_all (\<lambda>kv. snd kv = [] \<or> WEAK_CATEGORY_THRESHOLD \<le> average (snd kv)) cs)
        \<and> list_all (\<lambda>kv. length scores \<le> length (snd kv)) cs))"
proof -
  let ?avgs = "map (\<lambda>(cat, scores). (cat, average scores)) (filter (\<lambda>(cat, scores). scores \<noteq> []) cs)"
  have ne: "cs \<noteq> []" "?avgs \<noteq> []" using assms(2) by (auto simp: filter_empty_conv case_prod_unfold)
  define l where "l = py_min (\<lambda>x. length (snd x)) cs"
  have l: "dict_get cs (fst l) = Some (snd l)" "list_all (\<lambda>kv. length (snd l) \<le> length (snd kv)) cs"
    using py_min_spec [OF ne(1), where f = "\<lambda>x. length (snd x)"] assms(1) by (auto simp: l_def list_all_iff)
  define w where "w = py_min snd ?avgs"
  have "w \<in> set ?avgs" unfolding w_def by (rule py_min_spec(1) [OF ne(2)])
  then obtain scores where sc: "(fst w, scores) \<in> set cs" "scores \<noteq> []" "snd w = average scores" by auto
  have least: "snd w \<le> average (snd kv)" if "kv \<in> set cs" "snd kv \<noteq> []" for kv
  proof -
    have "(fst kv, average (snd kv)) \<in> set ?avgs" using that by force
    from py_min_spec(2) [OF ne(2) this, where f = snd] show ?thesis by (simp add: w_def)
  qed
  have pick: "pick_next_category cs turn mx =
      (if mx - turn \<le> 2 then fst l else if snd w < WEAK_CATEGORY_THRESHOLD then fst w else fst l)"
    using ne by (simp add: pick_next_category_def Let_def l_def w_def)
  consider "mx - turn \<le> 2" | "mx - turn > 2" "snd w < WEAK_CATEGORY_THRESHOLD" | "mx - turn > 2" "WEAK_CATEGORY_THRESHOLD \<le> snd w"
    by linarith
  then show ?thesis
  proof cases
    case 1
    with l show ?thesis by (simp add: pick)
  next
    case 2
    have "dict_get cs (fst w) = Some scores" using sc(1) assms(1) by simp
    with 2 sc least show ?thesis by (auto simp: pick list_all_iff)
  next
    case 3
    have "list_all (\<lambda>kv. snd kv = [] \<or> WEAK_CATEGORY_THRESHOLD \<le> average (snd kv)) cs"
      using least 3(2) by (fastforce simp: list_all_iff intro: order_trans)
    with 3 l show ?thesis by (simp add: pick)
  qed
qed

lemma next_category_sound_witness:
  "pick_next_category [([1], [9]), ([2], [3])] 0 10 = [2]"
  using next_category_sound [of "[([1], [9]), ([2], [3])]" 0 10]
  by (auto simp: WEAK_CATEGORY_THRESHOLD_def average_def split: if_splits)

text \<open>
  The suggested difficulty is always one of the three levels once there is data, differs
  by at most one level from the (repaired) current one, and only rises with an average of at
  least 7 and only falls with one of at most 4.
\<close>
theorem difficulty_moves_one_level:
  assumes "cs \<noteq> []"
  shows "\<exists>safe new. safe = (if cur \<in> set DIFFICULTY_LEVELS then cur else ascii ''mid'')
    \<and> new = su_suggested_difficulty (compute_strategy_update fmt1 cs cur turn mx)
    \<and> new \<in> set DIFFICULTY_LEVELS
    \<and> level_index new \<le> level_index safe + 1 \<and> level_index safe \<le> level_index new + 1
    \<and> (level_index new \<le> level_index safe \<or> 7 \<le> average (concat (map snd cs)))
    \<and> (level_index safe \<le> level_index new \<or> average (concat (map snd cs)) \<le> 4)"
proof -
  have two: "(2 :: nat) = Suc (Suc 0)" by simp
  show ?thesis
    using assms
    by (auto simp: compute_strategy_update_def DIFFICULTY_LEVELS_def level_index_def Let_def
        HIGH_SCORE_THRESHOLD_def LOW_SCORE_THRESHOLD_def two split: if_splits)
qed

lemma difficulty_moves_one_level_witness:
  "su_suggested_difficulty (compute_strategy_update (\<lambda>r. []) [([1], [9])] (ascii ''mid'') 0 10) = ascii ''senior'' \<and>
   level_index (su_suggested_difficulty (compute_strategy_update (\<lambda>r. []) [([1], [9])] (ascii ''mid'') 0 10)) \<le> 2"
  using difficulty_moves_one_level [of "[([1], [9])]" "ascii ''mid''" "\<lambda>r. []" 0 10]
  by (simp add: compute_strategy_update_def DIFFICULTY_LEVELS_def level_index_def Let_def average_def
      HIGH_SCORE_THRESHOLD_def LOW_SCORE_THRESHOLD_def)

end
