(* ===== verification/Question_Codec.thy ===== *)
theory Question_Codec
  imports Json Entities
begin

text \<open>
  \<open>app/domain/services/question_codec.py\<close>: interview questions to JSON text with camelCase
  keys and back. Python does not check field types when it reads, so \<open>deserialize_questions\<close>
  gives records whose fields are JSON values; \<open>read_questions\<close> is the same followed by the
  reading at the annotated types, which is what the callers use.
\<close>

section \<open>Writing\<close>

definition opt_str :: "pystr option \<Rightarrow> json" where
  "opt_str v = (case v of None \<Rightarrow> JNull | Some s \<Rightarrow> JStr s)"

definition opt_int :: "int option \<Rightarrow> json" where
  "opt_int v = (case v of None \<Rightarrow> JNull | Some i \<Rightarrow> JInt i)"

definition question_fields :: "InterviewQuestion \<Rightarrow> (pystr, json) dict" where
  "question_fields q = [
     (ascii ''questionIndex'', JInt (q_question_index q)),
     (ascii ''question'', JStr (q_question q)),
     (ascii ''type'', JStr (q_type q)),
     (ascii ''category'', JStr (q_category q)),
     (ascii ''topicSummary'', opt_str (q_topic_summary q)),
     (ascii ''userAnswer'', opt_str (q_user_answer q)),
     (ascii ''score'', opt_int (q_score q)),
     (ascii ''feedback'', opt_str (q_feedback q)),
     (ascii ''isFollowUp'', JBool (q_is_follow_up q)),
     (ascii ''parentQuestionIndex'', opt_int (q_parent_question_index q)),
     (ascii ''referenceAnswer'', opt_str (q_reference_answer q)),
     (ascii ''keyPoints'', JArr (map JStr (q_key_points q))),
     (ascii ''scoringRubric'', opt_str (q_scoring_rubric q)),
     (ascii ''sourceContext'', opt_str (q_source_context q))]"

definition serialize_questions :: "InterviewQuestion list \<Rightarrow> pystr" where
  "serialize_questions qs = dumps (JArr (map (\<lambda>q. JObj (question_fields q)) qs))"

section \<open>Reading\<close>

text \<open>The question as read: every field holds whatever JSON value was there.\<close>

record JsonQuestion =
  jq_question_index :: json
  jq_question :: json
  jq_type :: json
  jq_category :: json
  jq_topic_summary :: json
  jq_user_answer :: json
  jq_score :: json
  jq_feedback :: json
  jq_is_follow_up :: json
  jq_parent_question_index :: json
  jq_reference_answer :: json
  jq_key_points :: "json list"
  jq_scoring_rubric :: json
  jq_source_context :: json

text \<open>Iterating over a loaded value, its truth value, and subscription by a string key.\<close>

fun json_iter :: "json \<Rightarrow> json list result" where
  "json_iter (JArr js) = Inr js"
| "json_iter (JObj kvs) = Inr (map (JStr \<circ> fst) kvs)"
| "json_iter (JStr s) = Inr (map (\<lambda>c. JStr [c]) s)"
| "json_iter _ = Inl TypeError"

fun json_truthy :: "json \<Rightarrow> bool" where
  "json_truthy JNull = False"
| "json_truthy (JBool b) = b"
| "json_truthy (JInt i) = (i \<noteq> 0)"
| "json_truthy (JStr s) = (s \<noteq> [])"
| "json_truthy (JArr js) = (js \<noteq> [])"
| "json_truthy (JObj kvs) = (kvs \<noteq> [])"

fun item_at :: "json \<Rightarrow> pystr \<Rightarrow> json result" where
  "item_at (JObj d) k = (case dict_get d k of None \<Rightarrow> Inl (KeyError k) | Some v \<Rightarrow> Inr v)"
| "item_at _ k = Inl TypeError"

text \<open>\<open>item.get(key, default)\<close>: only a dictionary has the method.\<close>

fun item_get :: "json \<Rightarrow> pystr \<Rightarrow> json \<Rightarrow> json result" where
  "item_get (JObj d) k v = Inr (dict_get_default d k v)"
| "item_get _ k v = Inl AttributeError"

definition deserialize_item :: "json \<Rightarrow> JsonQuestion result" where
  "deserialize_item item =
     res_bind (item_at item (ascii ''questionIndex'')) (\<lambda>qi.
     res_bind (item_at item (ascii ''question'')) (\<lambda>qu.
     res_bind (item_at item (ascii ''type'')) (\<lambda>ty.
     res_bind (item_at item (ascii ''category'')) (\<lambda>ca.
     res_bind (item_get item (ascii ''topicSummary'') JNull) (\<lambda>ts.
     res_bind (item_get item (ascii ''userAnswer'') JNull) (\<lambda>ua.
     res_bind (item_get item (ascii ''score'') JNull) (\<lambda>sc.
     res_bind (item_get item (ascii ''feedback'') JNull) (\<lambda>fb.
     res_bind (item_get item (ascii ''isFollowUp'') (JBool False)) (\<lambda>fu.
     res_bind (item_get item (ascii ''parentQuestionIndex'') JNull) (\<lambda>pq.
     res_bind (item_get item (ascii ''referenceAnswer'') JNull) (\<lambda>ra.
     res_bind (item_get item (ascii ''keyPoints'') JNull) (\<lambda>kp0.
     res_bind (json_iter (if json_truthy kp0 then kp0 else JArr [])) (\<lambda>kp.
     res_bind (item_get item (ascii ''scoringRubric'') JNull) (\<lambda>sr.
     res_map (\<lambda>sx. \<lparr>jq_question_index = qi, jq_question = qu, jq_type = ty, jq_category = ca,
         jq_topic_summary = ts, jq_user_answer = ua, jq_score = sc, jq_feedback = fb,
         jq_is_follow_up = fu, jq_parent_question_index = pq, jq_reference_answer = ra,
         jq_key_points = kp, jq_scoring_rubric = sr, jq_source_context = sx\<rparr>)
       (item_get item (ascii ''sourceContext'') JNull)))))))))))))))"

definition deserialize_questions :: "pystr \<Rightarrow> JsonQuestion list result" where
  "deserialize_questions s = res_bind (loads s) (\<lambda>items. res_bind (json_iter items) (res_traverse deserialize_item))"

section \<open>Reading at the annotated types\<close>

text \<open>
  The readers take the fields at the types of \<open>InterviewQuestion\<close>. A field of another JSON
  type would travel on in Python until its first use; the typed reading stops there.
\<close>

fun as_str :: "json \<Rightarrow> pystr result" where
  "as_str (JStr s) = Inr s" | "as_str _ = Inl TypeError"

fun as_int :: "json \<Rightarrow> int result" where
  "as_int (JInt i) = Inr i" | "as_int _ = Inl TypeError"

fun as_bool :: "json \<Rightarrow> bool result" where
  "as_bool (JBool b) = Inr b" | "as_bool _ = Inl TypeError"

fun as_opt :: "(json \<Rightarrow> 'a result) \<Rightarrow> json \<Rightarrow> 'a option result" where
  "as_opt f JNull = Inr None"
| "as_opt f j = res_map Some (f j)"

definition typed_question :: "JsonQuestion \<Rightarrow> InterviewQuestion result" where
  "typed_question j =
     res_bind (as_int (jq_question_index j)) (\<lambda>qi.
     res_bind (as_str (jq_question j)) (\<lambda>qu.
     res_bind (as_str (jq_type j)) (\<lambda>ty.
     res_bind (as_str (jq_category j)) (\<lambda>ca.
     res_bind (as_opt as_str (jq_topic_summary j)) (\<lambda>ts.
     res_bind (as_opt as_str (jq_user_answer j)) (\<lambda>ua.
     res_bind (as_opt as_int (jq_score j)) (\<lambda>sc.
     res_bind (as_opt as_str (jq_feedback j)) (\<lambda>fb.
     res_bind (as_bool (jq_is_follow_up j)) (\<lambda>fu.
     res_bind (as_opt as_int (jq_parent_question_index j)) (\<lambda>pq.
     res_bind (as_opt as_str (jq_reference_answer j)) (\<lambda>ra.
     res_bind (res_traverse as_str (jq_key_points j)) (\<lambda>kp.
     res_bind (as_opt as_str (jq_scoring_rubric j)) (\<lambda>sr.
     res_map (\<lambda>sx. \<lparr>q_question_index = qi, q_question = qu, q_type = ty, q_category = ca,
         q_topic_summary = ts, q_user_answer = ua, q_score = sc, q_feedback = fb,
         q_is_follow_up = fu, q_parent_question_index = pq, q_reference_answer = ra,
         q_key_points = kp, q_scoring_rubric = sr, q_source_context = sx\<rparr>)
       (as_opt as_str (jq_source_context j)))))))))))))))"

definition read_questions :: "pystr \<Rightarrow> InterviewQuestion list result" where
  "read_questions s = res_bind (deserialize_questions s) (res_traverse typed_question)"

section \<open>Round trip\<close>

lemma as_opt_simps [simp]:
  "as_opt as_str (opt_str v) = Inr v" "as_opt as_int (opt_int w) = Inr w"
  by (cases v; simp add: opt_str_def) (cases w; simp add: opt_int_def)

lemma json_wf_opt [simp]: "json_wf (opt_str v)" "json_wf (opt_int w)"
  by (cases v; simp add: opt_str_def) (cases w; simp add: opt_int_def)

lemma res_traverse_as_str [simp]: "res_traverse as_str (map JStr ss) = Inr ss"
  by (induction ss) auto

lemma res_traverse_map: "res_traverse f (map g xs) = res_traverse (\<lambda>x. f (g x)) xs"
  by (induction xs) auto

lemma question_fields_wf: "dict_wf (question_fields q)"
  by (simp add: question_fields_def)

lemma question_fields_values_wf: "\<forall>kv \<in> set (question_fields q). json_wf (snd kv)"
  by (simp add: question_fields_def list_all_iff)

text \<open>A field may be left out when the reader's default stands for its value.\<close>

definition droppable :: "pystr \<times> json \<Rightarrow> bool" where
  "droppable kv \<longleftrightarrow> snd kv = JNull \<or> snd kv = JArr [] \<or> snd kv = JBool False"

definition sparse_fields :: "(pystr \<Rightarrow> bool) \<Rightarrow> InterviewQuestion \<Rightarrow> (pystr, json) dict" where
  "sparse_fields keep q = filter (\<lambda>kv. keep (fst kv) \<or> \<not> droppable kv) (question_fields q)"

lemma dict_get_filter:
  "dict_wf d \<Longrightarrow> dict_get (filter P d) k =
     (case dict_get d k of None \<Rightarrow> None | Some v \<Rightarrow> if P (k, v) then Some v else None)"
proof (induction d)
  case (Cons kv d)
  obtain k' v where kv: "kv = (k', v)" by (cases kv)
  from Cons.prems kv have "k' \<notin> fst ` set d" by simp
  then have none: "dict_get d k' = None" by (simp add: map_of_eq_None_iff)
  with Cons kv show ?case by (auto split: option.split)
qed simp

lemma sparse_get:
  "dict_get (sparse_fields keep q) k =
     (case dict_get (question_fields q) k of None \<Rightarrow> None
      | Some v \<Rightarrow> if keep k \<or> \<not> droppable (k, v) then Some v else None)"
  by (simp add: sparse_fields_def dict_get_filter question_fields_wf cong: option.case_cong)

lemma droppable_simps [simp]:
  "\<not> droppable (k, JInt i)" "\<not> droppable (k, JStr s)"
  "droppable (k, JBool b) = (\<not> b)" "droppable (k, JArr js) = (js = [])" "droppable (k, JNull)"
  by (auto simp: droppable_def)

lemma item_at_sparse:
  "dict_get (question_fields q) k = Some v \<Longrightarrow> \<not> droppable (k, v) \<Longrightarrow>
   item_at (JObj (sparse_fields keep q)) k = Inr v"
  by (simp add: sparse_get)

lemma opt_droppable [simp]:
  "droppable (k, opt_str v) = (v = None)" "droppable (k, opt_int w) = (w = None)"
  by (cases v; simp add: opt_str_def) (cases w; simp add: opt_int_def)

lemma item_get_sparse:
  assumes "dict_get (question_fields q) k = Some v" "droppable (k, v) \<longrightarrow> v = dflt"
  shows "item_get (JObj (sparse_fields keep q)) k dflt = Inr v"
  using assms by (simp add: sparse_get dict_get_default_def)

lemma question_fields_get:
  "dict_get (question_fields q) (ascii ''questionIndex'') = Some (JInt (q_question_index q))"
  "dict_get (question_fields q) (ascii ''question'') = Some (JStr (q_question q))"
  "dict_get (question_fields q) (ascii ''type'') = Some (JStr (q_type q))"
  "dict_get (question_fields q) (ascii ''category'') = Some (JStr (q_category q))"
  "dict_get (question_fields q) (ascii ''topicSummary'') = Some (opt_str (q_topic_summary q))"
  "dict_get (question_fields q) (ascii ''userAnswer'') = Some (opt_str (q_user_answer q))"
  "dict_get (question_fields q) (ascii ''score'') = Some (opt_int (q_score q))"
  "dict_get (question_fields q) (ascii ''feedback'') = Some (opt_str (q_feedback q))"
  "dict_get (question_fields q) (ascii ''isFollowUp'') = Some (JBool (q_is_follow_up q))"
  "dict_get (question_fields q) (ascii ''parentQuestionIndex'') = Some (opt_int (q_parent_question_index q))"
  "dict_get (question_fields q) (ascii ''referenceAnswer'') = Some (opt_str (q_reference_answer q))"
  "dict_get (question_fields q) (ascii ''keyPoints'') = Some (JArr (map JStr (q_key_points q)))"
  "dict_get (question_fields q) (ascii ''scoringRubric'') = Some (opt_str (q_scoring_rubric q))"
  "dict_get (question_fields q) (ascii ''sourceContext'') = Some (opt_str (q_source_context q))"
  by (simp_all add: question_fields_def)

lemma key_points_sparse:
  "\<exists>v. item_get (JObj (sparse_fields keep q)) (ascii ''keyPoints'') JNull = Inr v \<and>
       json_iter (if json_truthy v then v else JArr []) = Inr (map JStr (q_key_points q))"
  by (auto simp: sparse_get question_fields_get dict_get_default_def)

lemma deserialize_sparse:
  "res_bind (deserialize_item (JObj (sparse_fields keep q))) typed_question = Inr q"
proof -
  let ?it = "JObj (sparse_fields keep q)"
  note at = question_fields_get(1-4) [THEN item_at_sparse]
  obtain kp where kp: "item_get ?it (ascii ''keyPoints'') JNull = Inr kp"
    "json_iter (if json_truthy kp then kp else JArr []) = Inr (map JStr (q_key_points q))"
    using key_points_sparse by blast
  have fu: "item_get ?it (ascii ''isFollowUp'') (JBool False) = Inr (JBool (q_is_follow_up q))"
    by (rule item_get_sparse) (simp_all add: question_fields_get)
  have os: "item_get ?it k JNull = Inr (opt_str v)" if "dict_get (question_fields q) k = Some (opt_str v)" for k v
    by (rule item_get_sparse [OF that]) (cases v; simp add: opt_str_def)
  have oi: "item_get ?it k JNull = Inr (opt_int v)" if "dict_get (question_fields q) k = Some (opt_int v)" for k v
    by (rule item_get_sparse [OF that]) (cases v; simp add: opt_int_def)
  have "deserialize_item ?it = Inr \<lparr>jq_question_index = JInt (q_question_index q), jq_question = JStr (q_question q),
      jq_type = JStr (q_type q), jq_category = JStr (q_category q),
      jq_topic_summary = opt_str (q_topic_summary q), jq_user_answer = opt_str (q_user_answer q),
      jq_score = opt_int (q_score q), jq_feedback = opt_str (q_feedback q),
      jq_is_follow_up = JBool (q_is_follow_up q), jq_parent_question_index = opt_int (q_parent_question_index q),
      jq_reference_answer = opt_str (q_reference_answer q), jq_key_points = map JStr (q_key_points q),
      jq_scoring_rubric = opt_str (q_scoring_rubric q), jq_source_context = opt_str (q_source_context q)\<rparr>"
    unfolding deserialize_item_def
    by (simp only: at kp fu os [OF question_fields_get(5)] os [OF question_fields_get(6)] oi [OF question_fields_get(7)]
        os [OF question_fields_get(8)] oi [OF question_fields_get(10)] os [OF question_fields_get(11)]
        os [OF question_fields_get(13)] os [OF question_fields_get(14)] droppable_simps not_False_eq_True res_bind.simps res_map.simps)
  then show ?thesis by (simp add: typed_question_def)
qed

lemma sparse_wf: "json_wf (JArr (map (\<lambda>q. JObj (sparse_fields (keep q) q)) qs))"
proof -
  have "json_wf b" if "(a, b) \<in> set (question_fields q)" for a b q
    using question_fields_values_wf [of q] that by (metis snd_conv)
  then show ?thesis
    using question_fields_wf by (auto simp: list_all_iff sparse_fields_def distinct_map_filter)
qed

lemma res_traverse_compose:
  assumes "\<And>x. res_bind (f x) g = Inr (h x)"
  shows "res_bind (res_traverse f xs) (res_traverse g) = Inr (map h xs)"
proof (induction xs)
  case (Cons x xs)
  from assms [of x] obtain y where "f x = Inr y" "g y = Inr (h x)" by (auto simp: res_bind_Inr_iff)
  moreover from Cons obtain ys where "res_traverse f xs = Inr ys" "res_traverse g ys = Inr (map h xs)"
    by (auto simp: res_bind_Inr_iff)
  ultimately show ?case by simp
qed simp

lemma read_sparse: "read_questions (dumps (JArr (map (\<lambda>q. JObj (sparse_fields (keep q) q)) qs))) = Inr qs"
  using res_traverse_compose [of "\<lambda>q. deserialize_item (JObj (sparse_fields (keep q) q))" typed_question "\<lambda>q. q" qs]
  by (simp add: read_questions_def deserialize_questions_def json.rd_wr [OF sparse_wf] deserialize_sparse res_traverse_map del: dumps.simps)

lemma read_serialize [simp]: "read_questions (serialize_questions qs) = Inr qs"
proof -
  have "sparse_fields (\<lambda>_. True) q = question_fields q" for q by (simp add: sparse_fields_def)
  then have "serialize_questions qs = dumps (JArr (map (\<lambda>q. JObj (sparse_fields (\<lambda>_. True) q)) qs))"
    by (simp add: serialize_questions_def del: dumps.simps)
  with read_sparse [of "\<lambda>_ _. True"] show ?thesis by simp
qed

text \<open>
  C30. Stored questions survive the JSON column. Whatever the questions hold (any text, quotes
  and control characters included), reading back what was written gives the same list; and
  it still does when each object lacks any choice of the optional keys whose value is null,
  false or an empty list, as the texts of older releases do.
\<close>
theorem questions_codec_roundtrip:
  "read_questions (dumps (JArr (map (\<lambda>q. JObj (sparse_fields (keep q) q)) qs))) = Inr qs \<and>
   read_questions (serialize_questions qs) = Inr qs"
  using read_sparse read_serialize by (rule conjI)

definition REQUIRED_KEYS :: "pystr list" where
  "REQUIRED_KEYS = [ascii ''questionIndex'', ascii ''question'', ascii ''type'', ascii ''category'']"

lemma json_iter_no_KeyError: "json_iter j \<noteq> Inl (KeyError k)"
  by (cases j) simp_all

lemma res_bind_pass: "(\<And>x. f x \<noteq> Inl e) \<Longrightarrow> res_bind m f = Inl e \<longleftrightarrow> m = Inl e"
  by (cases m) auto

text \<open>
  An object is refused with \<open>KeyError k\<close> exactly when \<open>k\<close> is the first of the four
  required keys that it lacks: no other key is needed, and the order of the reads decides
  which one the error names.
\<close>
theorem deserialize_item_required:
  "deserialize_item (JObj d) = Inl (KeyError k) \<longleftrightarrow>
   List.find (\<lambda>r. dict_get d r = None) REQUIRED_KEYS = Some k"
proof -
  have "deserialize_item (JObj d) = Inl (KeyError k) \<longleftrightarrow>
      res_bind (item_at (JObj d) (ascii ''questionIndex'')) (\<lambda>_.
      res_bind (item_at (JObj d) (ascii ''question'')) (\<lambda>_.
      res_bind (item_at (JObj d) (ascii ''type'')) (\<lambda>_.
      item_at (JObj d) (ascii ''category'')))) = Inl (KeyError k)"
    unfolding deserialize_item_def
    by (cases "item_at (JObj d) (ascii ''questionIndex'')"; cases "item_at (JObj d) (ascii ''question'')";
        cases "item_at (JObj d) (ascii ''type'')"; cases "item_at (JObj d) (ascii ''category'')")
      (simp_all add: res_bind_pass json_iter_no_KeyError del: item_at.simps)
  then show ?thesis
    by (auto simp: REQUIRED_KEYS_def split: option.splits)
qed

end
