(* ===== verification/Interview_Store.thy ===== *)
theory Interview_Store
  imports Question_Codec Question_Gen Lifecycles
begin

text \<open>
  What the interview services store: the rows of \<open>db/models/interview.py\<close> with the queries of
  \<open>interview_repository.py\<close> and \<open>persistence_service.py\<close> on them, the Redis hashes of
  \<open>session_cache.py\<close>, and the task streams with \<open>base_producer.py\<close> and
  \<open>interview_evaluate_producer.py\<close>. A request works on its own transaction, the copy \<open>w_db\<close>
  of the database; \<open>commit\<close> publishes it. Every Redis call may fail: it consumes one entry of
  \<open>w_faults\<close> (an empty list means that Redis answers from now on). \<open>w_degraded\<close> is the memory of
  the evaluation consumer between saving a result and marking the task. Requests run one after
  the other; interleavings inside a request are not modelled.
\<close>

section \<open>Rows\<close>

record SessionRow =
  is_id :: int
  is_session_id :: pystr
  is_skill_id :: pystr
  is_difficulty :: pystr
  is_resume_id :: "int option"
  is_total_questions :: int
  is_current_question_index :: int
  is_status :: pystr
  is_questions_json :: "pystr option"
  is_overall_score :: "int option"
  is_overall_feedback :: "pystr option"
  is_strengths_json :: "pystr option"
  is_improvements_json :: "pystr option"
  is_reference_answers_json :: "pystr option"
  is_evaluate_status :: "pystr option"
  is_evaluate_error :: "pystr option"
  is_llm_provider :: "pystr option"
  is_source_type :: pystr
  is_knowledge_base_id :: "int option"
  is_interview_category :: "pystr option"
  is_created_at :: int
  is_completed_at :: "int option"

record AnswerRow =
  ia_id :: int
  ia_session_id :: int
  ia_question_index :: int
  ia_question :: "pystr option"
  ia_category :: "pystr option"
  ia_user_answer :: "pystr option"
  ia_score :: "int option"
  ia_feedback :: "pystr option"
  ia_reference_answer :: "pystr option"
  ia_key_points_json :: "pystr option"
  ia_answered_at :: int

record Db =
  db_sessions :: "SessionRow list"
  db_answers :: "AnswerRow list"
  db_resumes :: "(int \<times> pystr option) list"
  db_next_id :: int

type_synonym stream_message = "(pystr, pystr) dict"

record World =
  w_db :: Db
  w_committed :: Db
  w_hashes :: "pystr \<Rightarrow> (pystr, pystr) dict"
  w_strings :: "pystr \<Rightarrow> pystr option"
  w_streams :: "pystr \<Rightarrow> stream_message list"
  w_degraded :: "(pystr, pystr) dict"
  w_faults :: "bool list"
  w_now :: int

type_synonym 'a world_op = "(World, 'a) op"

section \<open>Transactions\<close>

definition commit :: "unit world_op" where
  "commit = op_modify (\<lambda>w. w\<lparr>w_committed := w_db w\<rparr>)"

text \<open>
  A request: its database session starts from the committed state, and closing the session
  rolls back what was not committed, whether the handler returned or raised.
\<close>

definition run_request :: "'a world_op \<Rightarrow> 'a world_op" where
  "run_request m = (\<lambda>w. case m (w\<lparr>w_db := w_committed w\<rparr>) of (r, w') \<Rightarrow> (r, w'\<lparr>w_db := w_committed w'\<rparr>))"

text \<open>\<open>async with session_factory() as session\<close>: a database session of its own inside a request.\<close>

definition in_new_session :: "'a world_op \<Rightarrow> 'a world_op" where
  "in_new_session m = (\<lambda>w. case m (w\<lparr>w_db := w_committed w\<rparr>) of (r, w') \<Rightarrow> (r, w'\<lparr>w_db := w_db w\<rparr>))"

section \<open>The repository\<close>

definition UNFINISHED_STATUSES :: "pystr list" where
  "UNFINISHED_STATUSES = [session_status_value S_CREATED, session_status_value S_IN_PROGRESS]"
definition COMPLETED_STATUSES :: "pystr list" where
  "COMPLETED_STATUSES = [session_status_value S_COMPLETED, session_status_value S_EVALUATED]"
definition HISTORICAL_SESSION_LIMIT :: nat where "HISTORICAL_SESSION_LIMIT = 10"

definition find_row :: "pystr \<Rightarrow> Db \<Rightarrow> SessionRow option" where
  "find_row sid db = find (\<lambda>r. is_session_id r = sid) (db_sessions db)"

definition find_by_session_id_optional :: "pystr \<Rightarrow> SessionRow option world_op" where
  "find_by_session_id_optional sid = op_get (\<lambda>w. find_row sid (w_db w))"

text \<open>Assigning attributes of a loaded row: the row with this session id changes.\<close>

definition update_row :: "pystr \<Rightarrow> (SessionRow \<Rightarrow> SessionRow) \<Rightarrow> Db \<Rightarrow> Db" where
  "update_row sid f db = db\<lparr>db_sessions := map (\<lambda>r. if is_session_id r = sid then f r else r) (db_sessions db)\<rparr>"

definition modify_db :: "(Db \<Rightarrow> Db) \<Rightarrow> unit world_op" where
  "modify_db f = op_modify (\<lambda>w. w\<lparr>w_db := f (w_db w)\<rparr>)"

definition repo_save_session :: "SessionRow \<Rightarrow> SessionRow world_op" where
  "repo_save_session row = (\<lambda>w.
     if find_row (is_session_id row) (w_db w) \<noteq> None then (Inl (RuntimeError (ascii ''IntegrityError'')), w)
     else let row' = row\<lparr>is_id := db_next_id (w_db w), is_created_at := w_now w\<rparr>
          in (Inr row', w\<lparr>w_db := (w_db w)\<lparr>db_sessions := db_sessions (w_db w) @ [row'],
                 db_next_id := db_next_id (w_db w) + 1\<rparr>\<rparr>))"

definition repo_update_session_status :: "SessionRow \<Rightarrow> pystr \<Rightarrow> unit world_op" where
  "repo_update_session_status row status = op_bind (op_get w_now) (\<lambda>now.
     modify_db (update_row (is_session_id row) (\<lambda>r.
       let r' = r\<lparr>is_status := status\<rparr>
       in if status \<in> set COMPLETED_STATUSES then r'\<lparr>is_completed_at := Some now\<rparr> else r')))"

definition repo_update_current_question_index :: "SessionRow \<Rightarrow> int \<Rightarrow> unit world_op" where
  "repo_update_current_question_index row index =
     modify_db (update_row (is_session_id row) (\<lambda>r. r\<lparr>is_current_question_index := index\<rparr>))"

definition repo_update_evaluate_status :: "SessionRow \<Rightarrow> pystr \<Rightarrow> pystr option \<Rightarrow> unit world_op" where
  "repo_update_evaluate_status row status err =
     modify_db (update_row (is_session_id row) (\<lambda>r. r\<lparr>is_evaluate_status := Some status, is_evaluate_error := err\<rparr>))"

definition reference_answers_json :: "ReferenceAnswer list \<Rightarrow> pystr" where
  "reference_answers_json refs = dumps (JArr (map (\<lambda>r. JObj [
      (ascii ''questionIndex'', JInt (ra_question_index r)), (ascii ''question'', JStr (ra_question r)),
      (ascii ''referenceAnswer'', JStr (ra_reference_answer r)),
      (ascii ''keyPoints'', JArr (map JStr (ra_key_points r)))]) refs))"

definition str_list_json :: "pystr list \<Rightarrow> pystr" where
  "str_list_json ss = dumps (JArr (map JStr ss))"

definition repo_save_evaluation_result :: "SessionRow \<Rightarrow> EvaluationReport \<Rightarrow> unit world_op" where
  "repo_save_evaluation_result row report =
     modify_db (update_row (is_session_id row) (\<lambda>r. r\<lparr>
       is_overall_score := Some (er_overall_score report),
       is_overall_feedback := Some (er_overall_feedback report),
       is_strengths_json := Some (str_list_json (er_strengths report)),
       is_improvements_json := Some (str_list_json (er_improvements report)),
       is_reference_answers_json := Some (reference_answers_json (er_reference_answers report)),
       is_status := session_status_value S_EVALUATED\<rparr>))"

definition repo_update_answer_evaluation ::
  "AnswerRow \<Rightarrow> int \<Rightarrow> pystr \<Rightarrow> pystr \<Rightarrow> pystr \<Rightarrow> unit world_op" where
  "repo_update_answer_evaluation answer score feedback reference_answer key_points_json =
     modify_db (\<lambda>db. db\<lparr>db_answers := map (\<lambda>a. if ia_id a = ia_id answer
        then a\<lparr>ia_score := Some score, ia_feedback := Some feedback,
               ia_reference_answer := Some reference_answer, ia_key_points_json := Some key_points_json\<rparr>
        else a) (db_answers db)\<rparr>)"

text \<open>\<open>order_by(created_at.desc())\<close>; rows of the same instant stay in insertion order here.\<close>

definition newest_first :: "SessionRow list \<Rightarrow> SessionRow list" where
  "newest_first rows = sort_key (\<lambda>r. - is_created_at r) rows"

definition find_unfinished_by_resume_id :: "int \<Rightarrow> SessionRow option world_op" where
  "find_unfinished_by_resume_id resume_id = op_get (\<lambda>w.
     case newest_first (filter (\<lambda>r. is_resume_id r = Some resume_id \<and> is_status r \<in> set UNFINISHED_STATUSES)
            (db_sessions (w_db w))) of
       [] \<Rightarrow> None | r # _ \<Rightarrow> Some r)"

definition find_all :: "SessionRow list world_op" where
  "find_all = op_get (\<lambda>w. newest_first (db_sessions (w_db w)))"

text \<open>Deleting a session deletes its answers (\<open>ON DELETE CASCADE\<close>).\<close>

definition repo_delete :: "SessionRow \<Rightarrow> unit world_op" where
  "repo_delete row = modify_db (\<lambda>db. db\<lparr>
     db_sessions := filter (\<lambda>r. is_id r \<noteq> is_id row) (db_sessions db),
     db_answers := filter (\<lambda>a. ia_session_id a \<noteq> is_id row) (db_answers db)\<rparr>)"

definition repo_save_answer :: "AnswerRow \<Rightarrow> unit world_op" where
  "repo_save_answer answer = op_modify (\<lambda>w. w\<lparr>w_db := (w_db w)\<lparr>
     db_answers := db_answers (w_db w) @ [answer\<lparr>ia_id := db_next_id (w_db w), ia_answered_at := w_now w\<rparr>],
     db_next_id := db_next_id (w_db w) + 1\<rparr>\<rparr>)"

definition is_answer :: "int \<Rightarrow> int \<Rightarrow> AnswerRow \<Rightarrow> bool" where
  "is_answer session_pk index a \<longleftrightarrow> ia_session_id a = session_pk \<and> ia_question_index a = index"

definition find_answer_by_session_and_index :: "int \<Rightarrow> int \<Rightarrow> AnswerRow option world_op" where
  "find_answer_by_session_and_index session_pk index =
     op_get (\<lambda>w. find (is_answer session_pk index) (db_answers (w_db w)))"

definition answers_of :: "int \<Rightarrow> Db \<Rightarrow> AnswerRow list" where
  "answers_of session_pk db = sort_key ia_question_index (filter (\<lambda>a. ia_session_id a = session_pk) (db_answers db))"

definition repo_find_answers_by_session_id :: "int \<Rightarrow> AnswerRow list world_op" where
  "repo_find_answers_by_session_id session_pk = op_get (\<lambda>w. answers_of session_pk (w_db w))"

definition find_recent_sessions_for_history :: "pystr \<Rightarrow> int option \<Rightarrow> SessionRow list world_op" where
  "find_recent_sessions_for_history sk_id resume_id = op_get (\<lambda>w.
     take HISTORICAL_SESSION_LIMIT (newest_first (filter
       (\<lambda>r. is_skill_id r = sk_id \<and> (resume_id = None \<or> is_resume_id r = resume_id)) (db_sessions (w_db w)))))"

definition get_resume_text :: "int \<Rightarrow> pystr option option world_op" where
  "get_resume_text resume_id = op_get (\<lambda>w. map_of (db_resumes (w_db w)) resume_id)"

section \<open>The persistence service\<close>

definition find_by_session_id :: "pystr \<Rightarrow> SessionRow world_op" where
  "find_by_session_id sid = op_bind (find_by_session_id_optional sid) (\<lambda>orm.
     case orm of None \<Rightarrow> op_raise (business_exception INTERVIEW_SESSION_NOT_FOUND None) | Some r \<Rightarrow> op_return r)"

definition save_session ::
  "pystr \<Rightarrow> int option \<Rightarrow> int \<Rightarrow> InterviewQuestion list \<Rightarrow> pystr option \<Rightarrow> pystr \<Rightarrow> pystr \<Rightarrow> pystr
     \<Rightarrow> int option \<Rightarrow> pystr option \<Rightarrow> SessionRow world_op" where
  "save_session session_id resume_id total_questions questions llm_provider sk_id difficulty source_type
       knowledge_base_id interview_category =
     repo_save_session \<lparr>is_id = 0, is_session_id = session_id, is_skill_id = sk_id, is_difficulty = difficulty,
       is_resume_id = resume_id, is_total_questions = total_questions, is_current_question_index = 0,
       is_status = session_status_value S_CREATED, is_questions_json = Some (serialize_questions questions),
       is_overall_score = None, is_overall_feedback = None, is_strengths_json = None, is_improvements_json = None,
       is_reference_answers_json = None, is_evaluate_status = None, is_evaluate_error = None,
       is_llm_provider = llm_provider, is_source_type = source_type, is_knowledge_base_id = knowledge_base_id,
       is_interview_category = interview_category, is_created_at = 0, is_completed_at = None\<rparr>"

definition update_session_status :: "pystr \<Rightarrow> pystr \<Rightarrow> unit world_op" where
  "update_session_status sid status = op_bind (find_by_session_id sid) (\<lambda>orm. repo_update_session_status orm status)"

definition update_current_question_index :: "pystr \<Rightarrow> int \<Rightarrow> unit world_op" where
  "update_current_question_index sid index =
     op_bind (find_by_session_id sid) (\<lambda>orm. repo_update_current_question_index orm index)"

definition update_evaluate_status :: "pystr \<Rightarrow> pystr \<Rightarrow> pystr option \<Rightarrow> unit world_op" where
  "update_evaluate_status sid status err =
     op_bind (find_by_session_id sid) (\<lambda>orm. repo_update_evaluate_status orm status err)"

definition save_answer_row :: "pystr \<Rightarrow> int \<Rightarrow> pystr \<Rightarrow> pystr \<Rightarrow> pystr \<Rightarrow> unit world_op" where
  "save_answer_row sid index question category user_answer =
     op_bind (find_by_session_id sid) (\<lambda>orm.
     op_bind (find_answer_by_session_and_index (is_id orm) index) (\<lambda>existing.
       case existing of
         Some e \<Rightarrow> modify_db (\<lambda>db. db\<lparr>db_answers := map (\<lambda>a. if ia_id a = ia_id e
             then a\<lparr>ia_question := Some question, ia_category := Some category, ia_user_answer := Some user_answer\<rparr>
             else a) (db_answers db)\<rparr>)
       | None \<Rightarrow> repo_save_answer \<lparr>ia_id = 0, ia_session_id = is_id orm, ia_question_index = index,
             ia_question = Some question, ia_category = Some category, ia_user_answer = Some user_answer,
             ia_score = None, ia_feedback = None, ia_reference_answer = None, ia_key_points_json = None,
             ia_answered_at = 0\<rparr>))"

definition find_answers_by_session_id :: "pystr \<Rightarrow> AnswerRow list world_op" where
  "find_answers_by_session_id sid =
     op_bind (find_by_session_id sid) (\<lambda>orm. repo_find_answers_by_session_id (is_id orm))"

definition persistence_delete_session :: "pystr \<Rightarrow> unit world_op" where
  "persistence_delete_session sid = op_bind (find_by_session_id sid) repo_delete"

text \<open>
  The main questions of one historical session. \<open>item.get\<close> of an item that is no object, and
  iterating over a number, raise; only a JSON syntax error is caught. \<open>None\<close> stands for
  \<open>continue\<close>.
\<close>

definition historical_item :: "json \<Rightarrow> HistoricalQuestion option result" where
  "historical_item item =
     res_bind (item_get item (ascii ''isFollowUp'') JNull) (\<lambda>fu.
     if json_truthy fu then Inr None
     else res_bind (item_get item (ascii ''question'') (JStr [])) (\<lambda>q0. res_bind (as_str q0) (\<lambda>q.
          res_bind (item_get item (ascii ''type'') JNull) (\<lambda>t0. res_bind (as_opt as_str t0) (\<lambda>ty.
          res_bind (item_get item (ascii ''topicSummary'') JNull) (\<lambda>s0. res_map (\<lambda>ts.
            Some \<lparr>hq_question = q, hq_type = ty, hq_topic_summary = ts\<rparr>) (as_opt as_str s0)))))))"

definition historical_of_row :: "SessionRow \<Rightarrow> HistoricalQuestion list result" where
  "historical_of_row s =
     (let text = or_str (is_questions_json s) [] in
      if text = [] then Inr []
      else case loads text of
             Inl e \<Rightarrow> Inr []
           | Inr items \<Rightarrow> res_bind (json_iter items) (\<lambda>js. res_map (List.map_filter id) (res_traverse historical_item js)))"

definition get_historical_questions :: "(nat \<Rightarrow> pystr) \<Rightarrow> pystr \<Rightarrow> int option \<Rightarrow> HistoricalQuestion list world_op" where
  "get_historical_questions lower sk_id resume_id =
     op_bind (find_recent_sessions_for_history sk_id resume_id) (\<lambda>rows.
     op_bind (op_lift (res_traverse historical_of_row rows)) (\<lambda>raw. op_return (dedupe_historical lower (concat raw))))"

section \<open>Redis\<close>

text \<open>A Redis call: it fails when the next fault says so, and otherwise takes effect.\<close>

definition redis :: "'a world_op \<Rightarrow> 'a world_op" where
  "redis m = (\<lambda>w. case w_faults w of
     [] \<Rightarrow> m w
   | True # fs \<Rightarrow> (Inl RedisError, w\<lparr>w_faults := fs\<rparr>)
   | False # fs \<Rightarrow> m (w\<lparr>w_faults := fs\<rparr>))"

definition redis_hset :: "pystr \<Rightarrow> (pystr, pystr) dict \<Rightarrow> unit world_op" where
  "redis_hset key mapping = redis (op_modify (\<lambda>w. w\<lparr>w_hashes :=
     (w_hashes w)(key := fold (\<lambda>(f, v) h. dict_set f v h) mapping (w_hashes w key))\<rparr>))"

definition redis_hgetall :: "pystr \<Rightarrow> (pystr, pystr) dict world_op" where
  "redis_hgetall key = redis (op_get (\<lambda>w. w_hashes w key))"

text \<open>The deadline that \<open>expire\<close> sets is not modelled: a key may vanish between requests.\<close>

definition redis_expire :: "pystr \<Rightarrow> int \<Rightarrow> unit world_op" where
  "redis_expire key seconds = redis (op_return ())"

definition redis_get :: "pystr \<Rightarrow> pystr option world_op" where
  "redis_get key = redis (op_get (\<lambda>w. w_strings w key))"

definition redis_set :: "pystr \<Rightarrow> pystr \<Rightarrow> unit world_op" where
  "redis_set key v = redis (op_modify (\<lambda>w. w\<lparr>w_strings := (w_strings w)(key := Some v)\<rparr>))"

definition redis_delete :: "pystr \<Rightarrow> unit world_op" where
  "redis_delete key = redis (op_modify (\<lambda>w. w\<lparr>w_hashes := (w_hashes w)(key := []), w_strings := (w_strings w)(key := None)\<rparr>))"

definition redis_xadd :: "pystr \<Rightarrow> stream_message \<Rightarrow> unit world_op" where
  "redis_xadd stream msg = redis (op_modify (\<lambda>w. w\<lparr>w_streams := (w_streams w)(stream := w_streams w stream @ [msg])\<rparr>))"

section \<open>The session cache\<close>

definition session_key :: "pystr \<Rightarrow> pystr" where
  "session_key sid = ascii ''interview:session:'' @ sid"

definition unfinished_key :: "int \<Rightarrow> pystr" where
  "unfinished_key resume_id = ascii ''interview:resume:'' @ int_str resume_id @ ascii '':unfinished''"

definition FIELD_RESUME_TEXT :: pystr where "FIELD_RESUME_TEXT = ascii ''resumeText''"
definition FIELD_RESUME_ID :: pystr where "FIELD_RESUME_ID = ascii ''resumeId''"
definition FIELD_KNOWLEDGE_BASE_ID :: pystr where "FIELD_KNOWLEDGE_BASE_ID = ascii ''knowledgeBaseId''"
definition FIELD_INTERVIEW_CATEGORY :: pystr where "FIELD_INTERVIEW_CATEGORY = ascii ''interviewCategory''"
definition FIELD_QUESTIONS_JSON :: pystr where "FIELD_QUESTIONS_JSON = ascii ''questionsJson''"
definition FIELD_CURRENT_INDEX :: pystr where "FIELD_CURRENT_INDEX = ascii ''currentIndex''"
definition FIELD_STATUS :: pystr where "FIELD_STATUS = ascii ''status''"

lemmas field_defs = FIELD_RESUME_TEXT_def FIELD_RESUME_ID_def FIELD_KNOWLEDGE_BASE_ID_def
  FIELD_INTERVIEW_CATEGORY_def FIELD_QUESTIONS_JSON_def FIELD_CURRENT_INDEX_def FIELD_STATUS_def

record CachedSession =
  ca_session_id :: pystr
  ca_resume_text :: pystr
  ca_resume_id :: "int option"
  ca_questions_json :: pystr
  ca_current_index :: int
  ca_status :: pystr
  ca_knowledge_base_id :: "int option"
  ca_interview_category :: "pystr option"

text \<open>\<open>str(n) if n is not None else ""\<close> and \<open>int(s) if s else None\<close>; \<open>int\<close> reads what \<open>str\<close> wrote.\<close>

definition opt_int_text :: "int option \<Rightarrow> pystr" where
  "opt_int_text v = (case v of None \<Rightarrow> [] | Some i \<Rightarrow> int_str i)"

definition py_int :: "pystr \<Rightarrow> int result" where
  "py_int s =
     (let (neg, ds) = (case s of c # r \<Rightarrow> if c = 45 then (True, r) else (False, s) | [] \<Rightarrow> (False, []))
      in if ds = [] \<or> \<not> list_all is_digit ds then Inl (ValueError (ascii ''invalid literal for int() with base 10''))
         else Inr (if neg then - int (digits_val ds) else int (digits_val ds)))"

lemma py_int_str [simp]: "py_int (int_str i) = Inr i"
proof (cases "i < 0")
  case True
  then show ?thesis
    using nat_digits_range [of "nat (- i)"]
    by (simp add: py_int_def int_str_def nat_digits_val is_digit_def list_all_iff)
next
  case False
  obtain c cs where d: "nat_digits (nat i) = c # cs" by (cases "nat_digits (nat i)") auto
  with hd_nat_digits [of "nat i"] have "c \<noteq> 45" by simp
  with False d show ?thesis
    using nat_digits_range [of "nat i"] nat_digits_val [of "nat i"]
    by (simp add: py_int_def int_str_def is_digit_def list_all_iff)
qed

definition read_opt_int :: "pystr \<Rightarrow> int option result" where
  "read_opt_int s = (if s = [] then Inr None else res_map Some (py_int s))"

definition cache_mapping :: "CachedSession \<Rightarrow> (pystr, pystr) dict" where
  "cache_mapping c = [
     (FIELD_RESUME_TEXT, ca_resume_text c),
     (FIELD_RESUME_ID, opt_int_text (ca_resume_id c)),
     (FIELD_KNOWLEDGE_BASE_ID, opt_int_text (ca_knowledge_base_id c)),
     (FIELD_INTERVIEW_CATEGORY, or_str (ca_interview_category c) []),
     (FIELD_QUESTIONS_JSON, ca_questions_json c),
     (FIELD_CURRENT_INDEX, int_str (ca_current_index c)),
     (FIELD_STATUS, ca_status c)]"

definition parse_cached_session :: "pystr \<Rightarrow> (pystr, pystr) dict \<Rightarrow> CachedSession result" where
  "parse_cached_session sid raw =
     res_bind (read_opt_int (dict_get_default raw FIELD_RESUME_ID [])) (\<lambda>resume_id.
     res_bind (py_int (dict_get_default raw FIELD_CURRENT_INDEX (ascii ''0''))) (\<lambda>current_index.
     res_map (\<lambda>kb_id. \<lparr>ca_session_id = sid, ca_resume_text = dict_get_default raw FIELD_RESUME_TEXT [],
         ca_resume_id = resume_id, ca_questions_json = dict_get_default raw FIELD_QUESTIONS_JSON (ascii ''[]''),
         ca_current_index = current_index, ca_status = dict_get_default raw FIELD_STATUS (ascii ''CREATED''),
         ca_knowledge_base_id = kb_id,
         ca_interview_category = (case dict_get raw FIELD_INTERVIEW_CATEGORY of
            None \<Rightarrow> None | Some c \<Rightarrow> if c = [] then None else Some c)\<rparr>)
       (read_opt_int (dict_get_default raw FIELD_KNOWLEDGE_BASE_ID []))))"

definition cache_save_session :: "CachedSession \<Rightarrow> unit world_op" where
  "cache_save_session c =
     op_then (redis_hset (session_key (ca_session_id c)) (cache_mapping c))
     (op_then (redis_expire (session_key (ca_session_id c)) SESSION_TTL_SECONDS)
       (case ca_resume_id c of
          None \<Rightarrow> op_return ()
        | Some resume_id \<Rightarrow> op_when (ca_status c \<in> set UNFINISHED_STATUSES)
             (redis_set (unfinished_key resume_id) (ca_session_id c))))"

definition cache_get_session :: "pystr \<Rightarrow> CachedSession option world_op" where
  "cache_get_session sid = op_bind (redis_hgetall (session_key sid)) (\<lambda>raw.
     if raw = [] then op_return None else op_lift (res_map Some (parse_cached_session sid raw)))"

definition cache_update :: "pystr \<Rightarrow> pystr \<Rightarrow> pystr \<Rightarrow> unit world_op" where
  "cache_update sid field v =
     op_then (redis_hset (session_key sid) [(field, v)]) (redis_expire (session_key sid) SESSION_TTL_SECONDS)"

definition cache_update_questions :: "pystr \<Rightarrow> pystr \<Rightarrow> unit world_op" where
  "cache_update_questions sid questions_json = cache_update sid FIELD_QUESTIONS_JSON questions_json"

definition cache_update_current_index :: "pystr \<Rightarrow> int \<Rightarrow> unit world_op" where
  "cache_update_current_index sid index = cache_update sid FIELD_CURRENT_INDEX (int_str index)"

definition cache_update_status :: "pystr \<Rightarrow> pystr \<Rightarrow> unit world_op" where
  "cache_update_status sid status = cache_update sid FIELD_STATUS status"

definition cache_refresh_ttl :: "pystr \<Rightarrow> unit world_op" where
  "cache_refresh_ttl sid = redis_expire (session_key sid) SESSION_TTL_SECONDS"

definition cache_find_unfinished :: "int \<Rightarrow> pystr option world_op" where
  "cache_find_unfinished resume_id = redis_get (unfinished_key resume_id)"

definition cache_delete_session :: "pystr \<Rightarrow> unit world_op" where
  "cache_delete_session sid = redis_delete (session_key sid)"

definition cache_delete_unfinished :: "int \<Rightarrow> unit world_op" where
  "cache_delete_unfinished resume_id = redis_delete (unfinished_key resume_id)"

section \<open>The evaluation producer\<close>

definition ERROR_MAX_LENGTH :: nat where "ERROR_MAX_LENGTH = 500"

definition truncate_error :: "pystr \<Rightarrow> pystr" where
  "truncate_error err = (if length err > ERROR_MAX_LENGTH then take ERROR_MAX_LENGTH err else err)"

definition FIELD_RETRY_COUNT :: pystr where "FIELD_RETRY_COUNT = ascii ''retryCount''"
definition INTERVIEW_EVALUATE_STREAM :: pystr where "INTERVIEW_EVALUATE_STREAM = ascii ''interview:evaluate:stream''"
definition SESSION_ID_FIELD :: pystr where "SESSION_ID_FIELD = ascii ''sessionId''"

fun task_status_value :: "AsyncTaskStatus \<Rightarrow> pystr" where
  "task_status_value T_PENDING = ascii ''PENDING''"
| "task_status_value T_PROCESSING = ascii ''PROCESSING''"
| "task_status_value T_COMPLETED = ascii ''COMPLETED''"
| "task_status_value T_FAILED = ascii ''FAILED''"

definition evaluate_message :: "pystr \<Rightarrow> int \<Rightarrow> stream_message" where
  "evaluate_message sid retry_count = [(SESSION_ID_FIELD, sid), (FIELD_RETRY_COUNT, int_str retry_count)]"

text \<open>\<open>on_send_failed\<close>: mark the session, in a database session of its own; errors are only logged.\<close>

definition on_send_failed :: "pystr \<Rightarrow> pystr \<Rightarrow> unit world_op" where
  "on_send_failed sid err =
     op_try (in_new_session (op_bind (find_by_session_id_optional sid) (\<lambda>orm.
       case orm of
         None \<Rightarrow> op_return ()
       | Some r \<Rightarrow> op_then (repo_update_evaluate_status r (task_status_value T_FAILED) (Some (truncate_error err))) commit)))
     (\<lambda>e. op_return ())"

definition send_task :: "(exn \<Rightarrow> pystr) \<Rightarrow> pystr \<Rightarrow> unit world_op" where
  "send_task exc_str sid =
     op_try (redis_xadd INTERVIEW_EVALUATE_STREAM (evaluate_message sid 0))
       (\<lambda>e. on_send_failed sid ([20219, 21153, 20837, 38431, 22833, 36133, 58, 32] @ truncate_error (exc_str e)))"

end
