(* ===== verification/Evaluation.thy ===== *)
theory Evaluation
  imports Entities "HOL-Library.Product_Lexorder"
begin

text \<open>
  \<open>app/domain/services/evaluation.py\<close>: truncation of the prompt's inputs, batches, merging of
  the batch reports, the summaries for the second prompt, category scores and the final
  report. Averages are \<open>py_trunc_div\<close> of the sum by the count, as \<open>int(sum / len)\<close>.
\<close>

section \<open>Constants and truncation\<close>

definition MAX_RESUME_CHARS :: nat where "MAX_RESUME_CHARS = 3000"
definition MAX_REFERENCE_CONTEXT_CHARS :: nat where "MAX_REFERENCE_CONTEXT_CHARS = 6000"
definition EVALUATION_BATCH_SIZE :: int where "EVALUATION_BATCH_SIZE = 8"
definition MAX_MERGED_LIST_ITEMS :: nat where "MAX_MERGED_LIST_ITEMS = 8"
definition MAX_QUESTION_HIGHLIGHTS :: nat where "MAX_QUESTION_HIGHLIGHTS = 20"
definition QUESTION_TRUNCATE :: nat where "QUESTION_TRUNCATE = 50"
definition FEEDBACK_TRUNCATE :: nat where "FEEDBACK_TRUNCATE = 80"
definition NO_EVAL_FEEDBACK :: pystr where "NO_EVAL_FEEDBACK = [35813, 39064, 26410, 25104, 21151, 29983, 25104, 35780, 20272, 32467, 26524, 65292, 31995, 32479, 25353, 32, 48, 32, 20998, 22788, 29702, 12290]"
definition NO_FEEDBACK :: pystr where "NO_FEEDBACK = [35813, 39064, 26410, 25104, 21151, 29983, 25104, 35780, 20272, 21453, 39304, 12290]"
definition DEFAULT_OVERALL_FEEDBACK :: pystr where
  "DEFAULT_OVERALL_FEEDBACK = [26412, 27425, 38754, 35797, 24050, 23436, 25104, 20998, 25209, 35780, 20272, 65292, 20294, 26410, 29983, 25104, 26377, 25928, 32508, 21512, 35780, 35821, 12290]"
definition UNKNOWN_CATEGORY :: pystr where "UNKNOWN_CATEGORY = [26410, 30693]"

definition truncate_resume :: "pystr option \<Rightarrow> nat \<Rightarrow> pystr" where
  "truncate_resume text limit =
     (let t = or_str text [] in if t = [] then [] else if length t \<le> limit then t
      else take limit t @ [10, 46, 46, 46, 40, 31616, 21382, 20869, 23481, 36807, 38271, 65292, 24050, 25130, 26029, 41])"

definition truncate_reference :: "pystr option \<Rightarrow> nat \<Rightarrow> pystr" where
  "truncate_reference text limit =
     (let t0 = or_str text [] in if t0 = [] then []
      else let t = py_strip t0 in if length t \<le> limit then t
      else take limit t @ [10, 46, 46, 46, 40, 21442, 32771, 22522, 32447, 36807, 38271, 65292, 24050, 25130, 26029, 41])"

definition build_qa_records_text :: "QaRecord list \<Rightarrow> pystr" where
  "build_qa_records_text batch = py_join [10]
     (map (\<lambda>q. [38382, 39064] @ int_str (qa_question_index q + 1) @ [32, 91] @ qa_category q @ [93, 58, 32] @ qa_question q
         @ [10, 22238, 31572, 58, 32] @ or_str (qa_user_answer q) [40, 26410, 22238, 31572, 41] @ [10]) batch)"

section \<open>Questions, answers and batches\<close>

fun overlay_answers :: "InterviewQuestion list \<Rightarrow> (int \<times> pystr) list \<Rightarrow> InterviewQuestion list" where
  "overlay_answers result [] = result"
| "overlay_answers result ((idx, answer) # rest) =
     overlay_answers
       (if 0 \<le> idx \<and> idx < int (length result)
        then result[nat idx := with_answer answer (result ! nat idx)] else result) rest"

definition build_qa_records :: "InterviewQuestion list \<Rightarrow> QaRecord list" where
  "build_qa_records questions = map (\<lambda>q. \<lparr>qa_question_index = q_question_index q, qa_question = q_question q,
     qa_category = q_category q, qa_user_answer = q_user_answer q\<rparr>) questions"

text \<open>\<open>for start in range(0, len(qa_records), sz)\<close>.\<close>

function batches_from :: "nat \<Rightarrow> nat \<Rightarrow> QaRecord list \<Rightarrow> QaBatch list" where
  "batches_from start sz qa_records =
     (if length qa_records \<le> start \<or> sz = 0 then []
      else let stop = min (start + sz) (length qa_records)
           in \<lparr>qb_start_index = int start, qb_end_index = int stop,
               qb_records = take (stop - start) (drop start qa_records)\<rparr>
              # batches_from (start + sz) sz qa_records)"
  by pat_completeness auto
termination
  by (relation "measure (\<lambda>(start, sz, qs). length qs - start)") auto

declare batches_from.simps [simp del]

definition split_batches :: "QaRecord list \<Rightarrow> int \<Rightarrow> QaBatch list" where
  "split_batches qa_records batch_size =
     (if qa_records = [] then [] else batches_from 0 (nat (max 1 batch_size)) qa_records)"

section \<open>Merging the batch reports\<close>

definition zero_item :: "int \<Rightarrow> QuestionEvaluationItem" where
  "zero_item idx = \<lparr>ei_question_index = idx, ei_score = 0, ei_feedback = NO_EVAL_FEEDBACK,
     ei_reference_answer = [], ei_key_points = []\<rparr>"

definition report_items :: "BatchResult \<Rightarrow> QuestionEvaluationItem list" where
  "report_items result = (case bres_report result of None \<Rightarrow> [] | Some rep \<Rightarrow> br_question_evaluations rep)"

text \<open>\<open>for i in range(expected)\<close>: a negative \<open>expected\<close> gives no round.\<close>

definition merge_one :: "BatchResult \<Rightarrow> QuestionEvaluationItem list" where
  "merge_one result =
     (let expected = nat (bres_end_index result - bres_start_index result); current = report_items result
      in map (\<lambda>i. if i < length current then current ! i else zero_item (bres_start_index result + int i)) [0..<expected])"

definition merge_question_evaluations :: "BatchResult list \<Rightarrow> QuestionEvaluationItem list" where
  "merge_question_evaluations batch_results = concat (map merge_one batch_results)"

definition merge_overall_feedback :: "BatchResult list \<Rightarrow> pystr" where
  "merge_overall_feedback batch_results =
     (let feedback = py_join [10, 10]
        (filter (\<lambda>f. f \<noteq> [] \<and> \<not> blank f) (map br_overall_feedback (List.map_filter bres_report batch_results)))
      in if feedback = [] then DEFAULT_OVERALL_FEEDBACK else feedback)"

text \<open>
  The two nested loops of \<open>merge_list_items\<close>; \<open>Inl\<close> is the early return when the limit is
  reached, \<open>Inr\<close> the state the loop goes on with.
\<close>

fun merge_items :: "pystr list \<Rightarrow> pystr list \<times> pystr list \<Rightarrow> pystr list + (pystr list \<times> pystr list)" where
  "merge_items [] st = Inr st"
| "merge_items (item # items) (seen, merged) =
     (if item = [] \<or> blank item then merge_items items (seen, merged)
      else let cleaned = py_strip item
           in if cleaned \<in> set seen then merge_items items (seen, merged)
              else let merged' = merged @ [cleaned]
                   in if length merged' \<ge> MAX_MERGED_LIST_ITEMS then Inl merged'
                      else merge_items items (cleaned # seen, merged'))"

fun merge_reports :: "bool \<Rightarrow> BatchResult list \<Rightarrow> pystr list \<times> pystr list \<Rightarrow> pystr list" where
  "merge_reports strengths_mode [] st = snd st"
| "merge_reports strengths_mode (result # results) st =
     (case bres_report result of
        None \<Rightarrow> merge_reports strengths_mode results st
      | Some report \<Rightarrow>
          (case merge_items (if strengths_mode then br_strengths report else br_improvements report) st of
             Inl merged \<Rightarrow> merged
           | Inr st' \<Rightarrow> merge_reports strengths_mode results st'))"

definition merge_list_items :: "BatchResult list \<Rightarrow> bool \<Rightarrow> pystr list" where
  "merge_list_items batch_results strengths_mode = merge_reports strengths_mode batch_results ([], [])"

section \<open>Texts of the second prompt\<close>

fun summary_scores :: "QaRecord list \<Rightarrow> nat \<Rightarrow> QuestionEvaluationItem list \<Rightarrow> (pystr, int list) dict \<Rightarrow> (pystr, int list) dict" where
  "summary_scores [] i evaluations d = d"
| "summary_scores (q # qs) i evaluations d =
     summary_scores qs (Suc i) evaluations
       (if \<not> truthy_str (qa_user_answer q) then d
        else dict_append (qa_category q) (if i < length evaluations then ei_score (evaluations ! i) else 0) d)"

definition build_category_summary :: "QaRecord list \<Rightarrow> QuestionEvaluationItem list \<Rightarrow> pystr" where
  "build_category_summary qa_records evaluations = py_join [10]
     (map (\<lambda>(cat, scores). [45, 32] @ cat @ [58, 32, 24179, 22343, 20998, 32] @ int_str (py_trunc_div (sum_list scores) (int (length scores)))
          @ [44, 32, 39064, 25968, 32] @ int_str (int (length scores)))
        (sort_key fst (summary_scores qa_records 0 evaluations [])))"

definition shorten :: "nat \<Rightarrow> pystr \<Rightarrow> pystr" where
  "shorten n s = (if length s > n then take n s @ ascii ''...'' else s)"

definition highlight :: "QuestionEvaluationItem list \<Rightarrow> nat \<Rightarrow> QaRecord \<Rightarrow> pystr" where
  "highlight evaluations i q =
     (let eval_item = (if i < length evaluations then Some (evaluations ! i) else None);
          score = (case eval_item of Some e \<Rightarrow> ei_score e | None \<Rightarrow> 0);
          feedback = (case eval_item of Some e \<Rightarrow> ei_feedback e | None \<Rightarrow> [])
      in [45, 32, 81] @ int_str (qa_question_index q + 1) @ [32, 124, 32] @ shorten QUESTION_TRUNCATE (qa_question q)
         @ [32, 124, 32, 20998, 25968, 58] @ int_str score @ [32, 124, 32, 21453, 39304, 58] @ shorten FEEDBACK_TRUNCATE feedback)"

fun highlights_loop :: "QuestionEvaluationItem list \<Rightarrow> (nat \<times> QaRecord) list \<Rightarrow> pystr list \<Rightarrow> pystr list" where
  "highlights_loop evaluations [] highlights = highlights"
| "highlights_loop evaluations ((i, q) # rest) highlights =
     (if length highlights \<ge> MAX_QUESTION_HIGHLIGHTS then highlights
      else highlights_loop evaluations rest (highlights @ [highlight evaluations i q]))"

definition build_question_highlights :: "QaRecord list \<Rightarrow> QuestionEvaluationItem list \<Rightarrow> pystr" where
  "build_question_highlights qa_records evaluations =
     py_join [10] (highlights_loop evaluations (py_enumerate qa_records) [])"

section \<open>Scores and the report\<close>

fun scores_by_category :: "QuestionEvaluation list \<Rightarrow> (pystr, int list) dict \<Rightarrow> (pystr, int list) dict" where
  "scores_by_category [] d = d"
| "scores_by_category (x # xs) d =
     scores_by_category xs
       (if \<not> truthy_str (qe_user_answer x) then d
        else dict_append (if qe_category x = [] then UNKNOWN_CATEGORY else qe_category x) (qe_score x) d)"

definition compute_category_scores :: "QuestionEvaluation list \<Rightarrow> CategoryScore list" where
  "compute_category_scores details =
     map (\<lambda>(cat, scores). \<lparr>cs_category = cat, cs_score = py_trunc_div (sum_list scores) (int (length scores)),
            cs_question_count = length scores\<rparr>)
       (scores_by_category details [])"

definition question_detail :: "QaRecord \<Rightarrow> QuestionEvaluationItem option \<Rightarrow> QuestionEvaluation" where
  "question_detail q eval_item =
     \<lparr>qe_question_index = qa_question_index q, qe_question = qa_question q, qe_category = qa_category q,
      qe_user_answer = qa_user_answer q,
      qe_score = (case eval_item of Some e \<Rightarrow> if truthy_str (qa_user_answer q) then ei_score e else 0 | None \<Rightarrow> 0),
      qe_feedback = (case eval_item of Some e \<Rightarrow> if ei_feedback e \<noteq> [] then ei_feedback e else NO_FEEDBACK | None \<Rightarrow> NO_FEEDBACK)\<rparr>"

definition reference_detail :: "QaRecord \<Rightarrow> QuestionEvaluationItem option \<Rightarrow> ReferenceAnswer" where
  "reference_detail q eval_item =
     \<lparr>ra_question_index = qa_question_index q, ra_question = qa_question q,
      ra_reference_answer = (case eval_item of Some e \<Rightarrow> ei_reference_answer e | None \<Rightarrow> []),
      ra_key_points = (case eval_item of Some e \<Rightarrow> ei_key_points e | None \<Rightarrow> [])\<rparr>"

definition eval_at :: "QuestionEvaluationItem list \<Rightarrow> nat \<Rightarrow> QuestionEvaluationItem option" where
  "eval_at evaluations i = (if i < length evaluations then Some (evaluations ! i) else None)"

definition answered :: "QaRecord list \<Rightarrow> QaRecord list" where
  "answered qa_records = filter (\<lambda>q. truthy_str (qa_user_answer q)) qa_records"

definition build_report ::
  "pystr \<Rightarrow> QaRecord list \<Rightarrow> QuestionEvaluationItem list \<Rightarrow> Summary \<Rightarrow> pystr list \<Rightarrow> EvaluationReport" where
  "build_report session_id qa_records evaluations summary degraded_reasons =
     (let question_details = map (\<lambda>(i, q). question_detail q (eval_at evaluations i)) (py_enumerate qa_records);
          reference_answers = map (\<lambda>(i, q). reference_detail q (eval_at evaluations i)) (py_enumerate qa_records);
          answered_count = int (length (answered qa_records))
      in \<lparr>er_session_id = session_id, er_total_questions = int (length qa_records),
          er_overall_score = (if answered_count \<noteq> 0
            then py_trunc_div (sum_list (map qe_score question_details)) answered_count else 0),
          er_category_scores = compute_category_scores question_details,
          er_question_details = question_details,
          er_overall_feedback = sum_overall_feedback summary,
          er_strengths = sum_strengths summary, er_improvements = sum_improvements summary,
          er_reference_answers = reference_answers, er_degraded_reasons = degraded_reasons\<rparr>)"

section \<open>Answers reach their questions\<close>

lemma overlay_length [simp]: "length (overlay_answers qs d) = length qs"
  by (induction qs d rule: overlay_answers.induct) auto

lemma overlay_nth:
  "dict_wf d \<Longrightarrow> i < length qs \<Longrightarrow> overlay_answers qs d ! i =
     (case dict_get d (int i) of Some a \<Rightarrow> with_answer a (qs ! i) | None \<Rightarrow> qs ! i)"
proof (induction qs d rule: overlay_answers.induct)
  case (2 result idx answer rest)
  from "2.prems" have "idx \<notin> fst ` set rest" by simp
  then have none: "dict_get rest idx = None" by (simp add: map_of_eq_None_iff)
  show ?case
  proof (cases "idx = int i")
    case True
    with 2 none show ?thesis by simp
  next
    case False
    then have "nat idx \<noteq> i \<or> idx < 0" by (metis nat_0_le not_less)
    with 2 False show ?thesis by (auto simp: nth_list_update split: option.split)
  qed
qed simp

text \<open>
  Overlaying the stored answers: a question gets the answer stored under its position,
  keeps everything else, and questions without a stored answer are untouched; entries
  outside the list are ignored.
\<close>
theorem overlay_answers_exact:
  assumes "dict_wf answers"
  shows "overlay_answers qs answers = map (\<lambda>(i, q). case dict_get answers (int i) of
      Some a \<Rightarrow> with_answer a q | None \<Rightarrow> q) (py_enumerate qs)"
  by (rule nth_equalityI) (simp_all add: overlay_nth [OF assms])

lemma overlay_answers_exact_witness:
  "map q_user_answer (overlay_answers [mk_question 0 [1] [] [], mk_question 1 [2] [] []] [(7, [9]), (1, [5])]) = [None, Some [5]]"
  using overlay_answers_exact [of "[(7, [9]), (1, [5])]" "[mk_question 0 [1] [] [], mk_question 1 [2] [] []]"]
  by (simp add: py_enumerate_def mk_question_def with_answer_def)

section \<open>Batches\<close>

definition batch_ok :: "nat \<Rightarrow> QaRecord list \<Rightarrow> QaBatch \<Rightarrow> bool" where
  "batch_ok sz qs b \<longleftrightarrow> 0 \<le> qb_start_index b \<and> qb_start_index b < qb_end_index b
     \<and> qb_end_index b \<le> int (length qs) \<and> qb_end_index b - qb_start_index b \<le> int sz
     \<and> qb_records b = take (nat (qb_end_index b - qb_start_index b)) (drop (nat (qb_start_index b)) qs)"

lemma batches_from_ok: "list_all (batch_ok sz qs) (batches_from start sz qs)"
proof (induction start sz qs rule: batches_from.induct)
  case (1 start sz qs)
  show ?case
  proof (cases "length qs \<le> start \<or> sz = 0")
    case True
    then show ?thesis by (subst batches_from.simps) simp
  next
    case False
    define stop where "stop = min (start + sz) (length qs)"
    have "batch_ok sz qs \<lparr>qb_start_index = int start, qb_end_index = int stop,
        qb_records = take (stop - start) (drop start qs)\<rparr>"
      using False by (auto simp: batch_ok_def stop_def nat_diff_distrib)
    with 1 [OF False refl] False show ?thesis
      by (subst batches_from.simps) (simp add: Let_def stop_def)
  qed
qed

lemma batches_from_concat:
  "0 < sz \<Longrightarrow> concat (map qb_records (batches_from start sz qs)) = drop start qs"
proof (induction start sz qs rule: batches_from.induct)
  case (1 start sz qs)
  show ?case
  proof (cases "length qs \<le> start")
    case True
    then show ?thesis by (subst batches_from.simps) simp
  next
    case False
    have "take (min (start + sz) (length qs) - start) (drop start qs) = take sz (drop start qs)"
      using False by (auto simp: min_def)
    moreover have "take sz (drop start qs) @ drop (start + sz) qs = drop start qs"
      using append_take_drop_id [of sz "drop start qs"] by (simp add: add.commute)
    ultimately show ?thesis using 1 False
      by (subst batches_from.simps) (simp add: Let_def)
  qed
qed

text \<open>
  The batches are a partition of the records in order: their records concatenated are all
  the records, every batch is a non-empty slice of at most the batch sz (at least 1), and
  its two indices are the bounds of that slice.
\<close>
theorem split_batches_partition:
  "concat (map qb_records (split_batches qs sz)) = qs
   \<and> list_all (batch_ok (nat (max 1 sz)) qs) (split_batches qs sz)"
  by (simp add: split_batches_def batches_from_concat batches_from_ok)

section \<open>Merged evaluations line up with the records\<close>

lemma merge_one_length [simp]: "length (merge_one r) = nat (bres_end_index r - bres_start_index r)"
  by (simp add: merge_one_def Let_def)

definition batch_result :: "(QaBatch \<Rightarrow> BatchReport option) \<Rightarrow> QaBatch \<Rightarrow> BatchResult" where
  "batch_result reports b = \<lparr>bres_start_index = qb_start_index b, bres_end_index = qb_end_index b, bres_report = reports b\<rparr>"

lemma merge_batches_length:
  "0 < sz \<Longrightarrow> length (concat (map (\<lambda>b. merge_one (batch_result reports b)) (batches_from start sz qs))) = length qs - start"
proof (induction start sz qs rule: batches_from.induct)
  case (1 start sz qs)
  show ?case
  proof (cases "length qs \<le> start")
    case True
    then show ?thesis by (subst batches_from.simps) simp
  next
    case False
    with 1 show ?thesis
      by (subst batches_from.simps) (auto simp: Let_def batch_result_def min_def)
  qed
qed

lemma split_batches_from: "split_batches qs n = batches_from 0 (nat (max 1 n)) qs"
  by (auto simp: split_batches_def batches_from.simps)

lemma merged_batches:
  "merge_question_evaluations (map (batch_result reports) (split_batches qs n)) =
   concat (map (\<lambda>b. merge_one (batch_result reports b)) (batches_from 0 (nat (max 1 n)) qs))"
  by (simp add: merge_question_evaluations_def split_batches_from comp_def)

lemma merged_length:
  "length (merge_question_evaluations (map (batch_result reports) (split_batches qs n))) = length qs"
  using merge_batches_length [of "nat (max 1 n)" reports 0 qs] by (simp add: merged_batches)

text \<open>The evaluation a report has for the record at position \<open>i\<close>, given the batch around it.\<close>

definition item_for :: "BatchReport option \<Rightarrow> QaBatch \<Rightarrow> nat \<Rightarrow> QuestionEvaluationItem" where
  "item_for report b i =
     (let items = (case report of None \<Rightarrow> [] | Some rep \<Rightarrow> br_question_evaluations rep); k = i - nat (qb_start_index b)
      in if k < length items then items ! k else zero_item (int i))"

definition batch_around :: "int \<Rightarrow> QaRecord list \<Rightarrow> nat \<Rightarrow> QaBatch option" where
  "batch_around n qs i = find (\<lambda>b. qb_start_index b \<le> int i \<and> int i < qb_end_index b) (split_batches qs n)"

lemma batches_from_find:
  assumes "0 < sz" "start \<le> i" "i < length qs"
  shows "\<exists>b. find (\<lambda>b. qb_start_index b \<le> int i \<and> int i < qb_end_index b) (batches_from start sz qs) = Some b
     \<and> concat (map (\<lambda>b. merge_one (batch_result reports b)) (batches_from start sz qs)) ! (i - start)
       = merge_one (batch_result reports b) ! (i - nat (qb_start_index b))"
  using assms
proof (induction start sz qs rule: batches_from.induct)
  case (1 start sz qs)
  define stop where "stop = min (start + sz) (length qs)"
  define b where "b = \<lparr>qb_start_index = int start, qb_end_index = int stop,
      qb_records = take (stop - start) (drop start qs)\<rparr>"
  have unf: "batches_from start sz qs = b # batches_from (start + sz) sz qs"
    using "1.prems" by (subst batches_from.simps) (simp add: Let_def b_def stop_def)
  have len: "length (merge_one (batch_result reports b)) = stop - start"
    by (simp add: batch_result_def b_def nat_diff_distrib)
  show ?case
  proof (cases "i < start + sz")
    case True
    then have "i < stop" "start \<le> i" using "1.prems" by (simp_all add: stop_def)
    with len unf show ?thesis by (intro exI [of _ b]) (simp add: nth_append b_def del: merge_one_length)
  next
    case False
    then have st: "stop = start + sz" "\<not> i < stop" using "1.prems" by (simp_all add: stop_def)
    have "\<not> (length qs \<le> start \<or> sz = 0)" using "1.prems" by simp
    from "1.IH" [OF this refl] False "1.prems" obtain c where
      c: "find (\<lambda>b. qb_start_index b \<le> int i \<and> int i < qb_end_index b) (batches_from (start + sz) sz qs) = Some c"
        "concat (map (\<lambda>b. merge_one (batch_result reports b)) (batches_from (start + sz) sz qs)) ! (i - (start + sz))
          = merge_one (batch_result reports c) ! (i - nat (qb_start_index c))" by auto
    have "concat (map (\<lambda>b. merge_one (batch_result reports b)) (batches_from start sz qs)) ! (i - start)
        = concat (map (\<lambda>b. merge_one (batch_result reports b)) (batches_from (start + sz) sz qs)) ! (i - (start + sz))"
      using False by (simp add: unf nth_append len st del: merge_one_length)
    moreover have "find (\<lambda>b. qb_start_index b \<le> int i \<and> int i < qb_end_index b) (batches_from start sz qs) = Some c"
      using c(1) st(2) by (simp add: unf b_def)
    ultimately show ?thesis using c(2) by simp
  qed
qed

lemma batch_around_ok:
  assumes "batch_around n qs i = Some b"
  shows "0 \<le> qb_start_index b" "qb_start_index b \<le> int i" "int i < qb_end_index b" "batch_ok (nat (max 1 n)) qs b"
proof -
  from assms obtain j where j: "j < length (split_batches qs n)" "b = split_batches qs n ! j"
    and i: "qb_start_index b \<le> int i" "int i < qb_end_index b"
    by (auto simp: batch_around_def find_Some_iff)
  then have "b \<in> set (split_batches qs n)" by auto
  then show ok: "batch_ok (nat (max 1 n)) qs b"
    using batches_from_ok [of "nat (max 1 n)" qs 0] by (auto simp: split_batches_from list_all_iff)
  then show "0 \<le> qb_start_index b" by (simp add: batch_ok_def)
  show "qb_start_index b \<le> int i" "int i < qb_end_index b" by (rule i)+
qed

lemma merged_at:
  assumes "i < length qs"
  shows "\<exists>b. batch_around n qs i = Some b
     \<and> merge_question_evaluations (map (batch_result reports) (split_batches qs n)) ! i = item_for (reports b) b i"
proof -
  have "0 < nat (max 1 n)" by simp
  from batches_from_find [OF this _ assms, of 0 reports] obtain b where b: "batch_around n qs i = Some b"
    "merge_question_evaluations (map (batch_result reports) (split_batches qs n)) ! i
      = merge_one (batch_result reports b) ! (i - nat (qb_start_index b))"
    by (auto simp: batch_around_def merged_batches [unfolded split_batches_from] split_batches_from)
  note ok = batch_around_ok [OF b(1)]
  have "i - nat (qb_start_index b) < nat (qb_end_index b - qb_start_index b)" using ok by linarith
  moreover have "qb_start_index b + int (i - nat (qb_start_index b)) = int i" using ok by simp
  ultimately have "merge_one (batch_result reports b) ! (i - nat (qb_start_index b)) = item_for (reports b) b i"
    by (simp add: merge_one_def Let_def batch_result_def report_items_def item_for_def)
  with b show ?thesis by auto
qed

text \<open>
  Merging keeps evaluations and questions aligned, however many items each batch's report
  brought: there is exactly one evaluation per record, and the one at position \<open>i\<close> is the item
  the report of the batch around \<open>i\<close> has for it, or a zero score item for index \<open>i\<close> when that
  batch failed or returned too few.
\<close>
theorem merge_question_evaluations_aligned:
  "merge_question_evaluations (map (batch_result reports) (split_batches qs n)) =
   map (\<lambda>i. case batch_around n qs i of None \<Rightarrow> zero_item (int i) | Some b \<Rightarrow> item_for (reports b) b i) [0..<length qs]"
proof (rule nth_equalityI)
  fix i assume "i < length (merge_question_evaluations (map (batch_result reports) (split_batches qs n)))"
  then have "i < length qs" by (simp add: merged_length)
  with merged_at [OF this, of n reports]
  show "merge_question_evaluations (map (batch_result reports) (split_batches qs n)) ! i =
    map (\<lambda>i. case batch_around n qs i of None \<Rightarrow> zero_item (int i) | Some b \<Rightarrow> item_for (reports b) b i) [0..<length qs] ! i"
    by auto
qed (simp add: merged_length)

section \<open>Merged lists\<close>

definition cleaned_items :: "pystr list \<Rightarrow> pystr list" where
  "cleaned_items items = map py_strip (filter (\<lambda>item. item \<noteq> [] \<and> \<not> blank item) items)"

definition mode_items :: "bool \<Rightarrow> BatchResult \<Rightarrow> pystr list" where
  "mode_items strengths_mode r = (case bres_report r of None \<Rightarrow> []
     | Some rep \<Rightarrow> if strengths_mode then br_strengths rep else br_improvements rep)"

text \<open>One list of items from a state below the limit: stop at the limit or go on with all of them.\<close>

lemma merge_items_spec:
  assumes "length merged < MAX_MERGED_LIST_ITEMS"
  shows "(case merge_items items (seen, merged) of
       Inl out \<Rightarrow> length (merged @ nub_acc seen (cleaned_items items)) \<ge> MAX_MERGED_LIST_ITEMS
         \<and> out = take MAX_MERGED_LIST_ITEMS (merged @ nub_acc seen (cleaned_items items))
     | Inr (seen', merged') \<Rightarrow> set seen' = set seen \<union> set (cleaned_items items)
         \<and> merged' = merged @ nub_acc seen (cleaned_items items) \<and> length merged' < MAX_MERGED_LIST_ITEMS)"
  using assms
proof (induction items arbitrary: seen merged)
  case Nil
  then show ?case by (simp add: cleaned_items_def)
next
  case (Cons item items)
  show ?case
  proof (cases "item = [] \<or> blank item")
    case True
    then have c: "cleaned_items (item # items) = cleaned_items items" by (auto simp: cleaned_items_def)
    from True have m: "merge_items (item # items) (seen, merged) = merge_items items (seen, merged)" by simp
    show ?thesis unfolding c m by (rule Cons.IH [OF Cons.prems])
  next
    case False
    then have c: "cleaned_items (item # items) = py_strip item # cleaned_items items" by (simp add: cleaned_items_def)
    show ?thesis
    proof (cases "py_strip item \<in> set seen")
      case True
      then show ?thesis using False Cons.IH [OF Cons.prems, of seen] by (auto simp: c insert_absorb split: sum.splits)
    next
      case new: False
      show ?thesis
      proof (cases "length (merged @ [py_strip item]) \<ge> MAX_MERGED_LIST_ITEMS")
        case True
        then have "length merged = MAX_MERGED_LIST_ITEMS - 1" using Cons.prems by simp
        with True show ?thesis using False new by (simp add: c Let_def MAX_MERGED_LIST_ITEMS_def)
      next
        case lt: False
        then have "length (merged @ [py_strip item]) < MAX_MERGED_LIST_ITEMS" by simp
        from Cons.IH [OF this, of "py_strip item # seen"] lt show ?thesis
          using False new by (auto simp: c Let_def split: sum.splits prod.splits)
      qed
    qed
  qed
qed

lemma nub_acc_cong: "set seen = set seen' \<Longrightarrow> nub_acc seen xs = nub_acc seen' xs"
proof (induction xs arbitrary: seen seen')
  case (Cons x xs)
  have m: "x \<in> set seen \<longleftrightarrow> x \<in> set seen'" by (simp only: Cons.prems)
  have "set (x # seen) = set (x # seen')" by (simp only: Cons.prems list.set)
  then have "nub_acc (x # seen) xs = nub_acc (x # seen') xs" by (rule Cons.IH)
  with m Cons.IH [OF Cons.prems] show ?case by (simp only: nub_acc.simps if_True if_False cong: if_cong)
qed simp

lemma nub_acc_append:
  "set seen' = set seen \<union> set xs \<Longrightarrow> nub_acc seen (xs @ ys) = nub_acc seen xs @ nub_acc seen' ys"
proof (induction xs arbitrary: seen)
  case Nil
  have "nub_acc seen ys = nub_acc seen' ys" by (rule nub_acc_cong) (simp add: Nil)
  then show ?case by simp
next
  case (Cons x xs)
  show ?case
  proof (cases "x \<in> set seen")
    case True
    then have "set seen' = set seen \<union> set xs" using Cons.prems by auto
    from Cons.IH [OF this] True show ?thesis by simp
  next
    case False
    have "set seen' = set (x # seen) \<union> set xs" using Cons.prems by simp
    from Cons.IH [OF this] False show ?thesis by simp
  qed
qed

lemma merge_reports_spec:
  assumes "length merged < MAX_MERGED_LIST_ITEMS"
  shows "merge_reports sm rs (seen, merged) =
     take MAX_MERGED_LIST_ITEMS (merged @ nub_acc seen (cleaned_items (concat (map (mode_items sm) rs))))"
  using assms
proof (induction rs arbitrary: seen merged)
  case Nil
  then show ?case by (simp add: cleaned_items_def)
next
  case (Cons r rs)
  show ?case
  proof (cases "bres_report r")
    case None
    with Cons show ?thesis by (simp add: mode_items_def)
  next
    case (Some rep)
    let ?rest = "cleaned_items (concat (map (mode_items sm) rs))"
    have c: "cleaned_items (concat (map (mode_items sm) (r # rs))) = cleaned_items (mode_items sm r) @ ?rest"
      by (simp add: cleaned_items_def)
    have m: "merge_reports sm (r # rs) (seen, merged) =
        (case merge_items (mode_items sm r) (seen, merged) of Inl out \<Rightarrow> out | Inr st' \<Rightarrow> merge_reports sm rs st')"
      using Some by (simp add: mode_items_def)
    note spec = merge_items_spec [OF Cons.prems, where items = "mode_items sm r" and seen = seen]
    show ?thesis
    proof (cases "merge_items (mode_items sm r) (seen, merged)")
      case (Inl out)
      have nub: "nub_acc seen (cleaned_items (mode_items sm r) @ ?rest) =
          nub_acc seen (cleaned_items (mode_items sm r)) @ nub_acc (cleaned_items (mode_items sm r) @ seen) ?rest"
        by (rule nub_acc_append) auto
      have out: "out = take MAX_MERGED_LIST_ITEMS (merged @ nub_acc seen (cleaned_items (mode_items sm r)))"
        and "MAX_MERGED_LIST_ITEMS \<le> length (merged @ nub_acc seen (cleaned_items (mode_items sm r)))"
        using spec Inl by simp_all
      then have "take MAX_MERGED_LIST_ITEMS ((merged @ nub_acc seen (cleaned_items (mode_items sm r)))
          @ nub_acc (cleaned_items (mode_items sm r) @ seen) ?rest) = out"
        by (simp only: take_append) simp
      then show ?thesis unfolding m c nub Inl by simp
    next
      case (Inr st')
      obtain seen' merged' where st': "st' = (seen', merged')" by (cases st')
      have "set seen' = set seen \<union> set (cleaned_items (mode_items sm r))
          \<and> merged' = merged @ nub_acc seen (cleaned_items (mode_items sm r)) \<and> length merged' < MAX_MERGED_LIST_ITEMS"
        using spec unfolding Inr st' sum.case prod.case .
      then have sp: "set seen' = set seen \<union> set (cleaned_items (mode_items sm r))"
        "merged' = merged @ nub_acc seen (cleaned_items (mode_items sm r))" "length merged' < MAX_MERGED_LIST_ITEMS"
        by (blast+)
      have "merge_reports sm rs (seen', merged') = take MAX_MERGED_LIST_ITEMS (merged' @ nub_acc seen' ?rest)"
        by (rule Cons.IH [OF sp(3)])
      then show ?thesis unfolding m c Inr st' nub_acc_append [OF sp(1)] sum.case sp(2) append_assoc .
    qed
  qed
qed

lemma merge_list_items_eq:
  "merge_list_items rs sm =
     take MAX_MERGED_LIST_ITEMS (nub_acc [] (cleaned_items (concat (map (mode_items sm) rs))))"
  using merge_reports_spec [of "[]" sm rs "[]"] by (simp add: merge_list_items_def MAX_MERGED_LIST_ITEMS_def)

text \<open>
  Strengths and improvements of the batches are merged as meant: trimmed, blank ones
  dropped, repetitions removed keeping the first, in batch order, cut at eight.
\<close>
theorem merge_list_items_spec:
  "merge_list_items rs sm =
     take MAX_MERGED_LIST_ITEMS (nub_acc [] (cleaned_items (concat (map (mode_items sm) rs))))"
  by (rule merge_list_items_eq)

section \<open>Scores\<close>

definition category_of :: "QuestionEvaluation \<Rightarrow> pystr" where
  "category_of d = (if qe_category d = [] then UNKNOWN_CATEGORY else qe_category d)"

definition category_details :: "pystr \<Rightarrow> QuestionEvaluation list \<Rightarrow> int list" where
  "category_details cat details =
     map qe_score (filter (\<lambda>d. truthy_str (qe_user_answer d) \<and> category_of d = cat) details)"

lemma scores_by_category_get:
  "dict_get (scores_by_category details d) cat =
     (if category_details cat details = [] then dict_get d cat
      else Some (dict_get_default d cat [] @ category_details cat details))"
proof (induction details d rule: scores_by_category.induct)
  case (1 d)
  then show ?case by (simp add: category_details_def)
next
  case (2 x xs d)
  show ?case
    by (cases "category_of x = cat")
      (auto simp: 2 category_details_def category_of_def dict_get_default_def split: option.splits)
qed

lemma scores_by_category_wf: "dict_wf d \<Longrightarrow> dict_wf (scores_by_category details d)"
  by (induction details d rule: scores_by_category.induct) simp_all

abbreviation score_table :: "CategoryScore list \<Rightarrow> (pystr \<times> int \<times> nat) list" where
  "score_table scs \<equiv> map (\<lambda>c. (cs_category c, cs_score c, cs_question_count c)) scs"

text \<open>
  Category scores: each category with an answered question appears once (blank category
  names as the "unknown" one), with the number of its answered questions and their average
  cut towards zero; a category without answered questions does not appear.
\<close>
theorem compute_category_scores_exact:
  "dict_wf (score_table (compute_category_scores details))
   \<and> map_of (score_table (compute_category_scores details)) =
       (\<lambda>cat. let scores = category_details cat details
              in if scores = [] then None
                 else Some (py_trunc_div (sum_list scores) (int (length scores)), length scores))"
proof -
  let ?d = "scores_by_category details []" and ?f = "\<lambda>scores. (py_trunc_div (sum_list scores) (int (length scores)), length scores)"
  have tab: "score_table (compute_category_scores details) = map (\<lambda>(k, v). (k, ?f v)) ?d"
    by (simp add: compute_category_scores_def case_prod_unfold comp_def)
  have "map fst (map (\<lambda>(k, v). (k, ?f v)) ?d) = map fst ?d" by (simp add: case_prod_unfold comp_def)
  then have "dict_wf (map (\<lambda>(k, v). (k, ?f v)) ?d)" using scores_by_category_wf [of "[]" details] by (simp only:) simp
  moreover have "map_of (map (\<lambda>(k, v). (k, ?f v)) ?d) cat = map_option ?f (dict_get ?d cat)" for cat
    by (simp add: map_of_map)
  ultimately show ?thesis
    unfolding tab by (simp add: scores_by_category_get dict_get_default_def Let_def fun_eq_iff)
qed

section \<open>The report\<close>

lemma sum_list_bounds:
  fixes xs :: "int list"
  shows "(\<And>x. x \<in> set xs \<Longrightarrow> lo \<le> x \<and> x \<le> hi) \<Longrightarrow> int (length xs) * lo \<le> sum_list xs \<and> sum_list xs \<le> int (length xs) * hi"
proof (induction xs)
  case (Cons x xs)
  then have "int (length xs) * lo \<le> sum_list xs \<and> sum_list xs \<le> int (length xs) * hi" by simp
  moreover have "lo \<le> x \<and> x \<le> hi" using Cons.prems by simp
  ultimately show ?case by (simp add: distrib_right)
qed simp

definition answered_scores :: "QaRecord list \<Rightarrow> QuestionEvaluationItem list \<Rightarrow> int list" where
  "answered_scores qs evs = map (\<lambda>(i, q). if i < length evs then ei_score (evs ! i) else 0)
     (filter (\<lambda>(i, q). truthy_str (qa_user_answer q)) (py_enumerate qs))"

lemma enumerate_filter_length:
  "length (filter (\<lambda>(i, q). P q) (List.enumerate n qs)) = length (filter P qs)"
  by (induction qs arbitrary: n) auto

lemma answered_scores_length: "length (answered_scores qs evs) = length (answered qs)"
  by (simp add: answered_scores_def answered_def py_enumerate_def enumerate_filter_length)

lemma question_detail_score:
  "qe_score (question_detail q (eval_at evs i)) =
     (if truthy_str (qa_user_answer q) then (if i < length evs then ei_score (evs ! i) else 0) else 0)"
  by (simp add: question_detail_def eval_at_def)

lemma answered_scores_sum:
  "sum_list (map qe_score (map (\<lambda>(i, q). question_detail q (eval_at evs i)) (py_enumerate qs))) = sum_list (answered_scores qs evs)"
proof -
  have "sum_list (map qe_score (map (\<lambda>(i, q). question_detail q (eval_at evs i)) (List.enumerate n qs))) =
     sum_list (map (\<lambda>(i, q). if i < length evs then ei_score (evs ! i) else 0)
       (filter (\<lambda>(i, q). truthy_str (qa_user_answer q)) (List.enumerate n qs)))" for n
    by (induction qs arbitrary: n) (simp_all add: question_detail_score)
  then show ?thesis by (simp add: answered_scores_def py_enumerate_def)
qed

text \<open>
  C38. The overall score is the average of the scores of the answered questions, cut towards
  zero, and 0 when nothing was answered. So unanswered questions do not pull it down, and
  when all item scores lie between two bounds, the overall score does as well.
\<close>
theorem build_report_overall_score:
  assumes "0 \<le> lo" "list_all (\<lambda>e. lo \<le> ei_score e \<and> ei_score e \<le> hi) evs" "length qs \<le> length evs" "answered qs \<noteq> []"
  shows "er_overall_score (build_report sid qs evs summary reasons) =
      py_trunc_div (sum_list (answered_scores qs evs)) (int (length (answered qs)))
    \<and> lo \<le> er_overall_score (build_report sid qs evs summary reasons)
    \<and> er_overall_score (build_report sid qs evs summary reasons) \<le> hi"
proof -
  have e: "er_overall_score (build_report sid qs evs summary reasons) =
      py_trunc_div (sum_list (answered_scores qs evs)) (int (length (answered qs)))"
    using assms(4) by (simp add: build_report_def Let_def answered_scores_sum del: map_map)
  have "lo \<le> x \<and> x \<le> hi" if "x \<in> set (answered_scores qs evs)" for x
  proof -
    from that obtain i q where iq: "(i, q) \<in> set (py_enumerate qs)" "x = (if i < length evs then ei_score (evs ! i) else 0)"
      by (auto simp: answered_scores_def)
    then have "i < length qs" by (auto simp: py_enumerate_def in_set_enumerate_eq)
    with assms(2,3) iq(2) show ?thesis by (simp add: list_all_length)
  qed
  then have b: "int (length (answered qs)) * lo \<le> sum_list (answered_scores qs evs)
      \<and> sum_list (answered_scores qs evs) \<le> int (length (answered qs)) * hi"
    using sum_list_bounds [of "answered_scores qs evs" lo hi] by (simp add: answered_scores_length)
  have "lo \<le> py_trunc_div (sum_list (answered_scores qs evs)) (int (length (answered qs)))
      \<and> py_trunc_div (sum_list (answered_scores qs evs)) (int (length (answered qs))) \<le> hi"
    using assms(1,4) b by (intro py_trunc_div_bounds) auto
  with e show ?thesis by simp
qed

lemma build_report_overall_score_witness:
  "er_overall_score (build_report [] [\<lparr>qa_question_index = 0, qa_question = [1], qa_category = [2], qa_user_answer = Some [3]\<rparr>,
       \<lparr>qa_question_index = 1, qa_question = [1], qa_category = [2], qa_user_answer = None\<rparr>]
      [(zero_item 0)\<lparr>ei_score := 7\<rparr>, zero_item 1] Summary_empty []) = 7"
  using build_report_overall_score [of 0 7 "[(zero_item 0)\<lparr>ei_score := 7\<rparr>, zero_item 1]"
     "[\<lparr>qa_question_index = 0, qa_question = [1], qa_category = [2], qa_user_answer = Some [3]\<rparr>,
       \<lparr>qa_question_index = 1, qa_question = [1], qa_category = [2], qa_user_answer = None\<rparr>]" "[]" Summary_empty "[]"]
  by (simp add: answered_def answered_scores_def py_enumerate_def zero_item_def py_trunc_div_def)

end
