(* ===== verification/Session_Service.thy ===== *)
theory Session_Service
  imports Interview_Store Evaluation
begin

text \<open>
  \<open>app/application/interview/session_service.py\<close>: the life of a text interview, every request
  handler with its database work, its commit and its Redis calls in the order of the code.
  The question service is the parameter \<open>generate\<close> of the creation; identifiers come from
  outside (\<open>uuid4().hex\<close>).
\<close>

section \<open>Views and answers\<close>

record SessionView =
  sv_session_id :: pystr
  sv_resume_id :: "int option"
  sv_resume_text :: pystr
  sv_current_question_index :: int
  sv_status :: pystr
  sv_questions_json :: pystr
  sv_knowledge_base_id :: "int option"
  sv_interview_category :: "pystr option"

record InterviewSessionDTO =
  sd_session_id :: pystr
  sd_resume_text :: pystr
  sd_total_questions :: nat
  sd_current_question_index :: int
  sd_questions :: "InterviewQuestion list"
  sd_status :: pystr
  sd_knowledge_base_id :: "int option"
  sd_interview_category :: "pystr option"

record CurrentQuestionResponse =
  cq_completed :: bool
  cq_message :: "pystr option"
  cq_question :: "InterviewQuestion option"

record SubmitAnswerRequest =
  sa_question_index :: int
  sa_answer :: pystr

record SubmitAnswerResponse =
  sr_has_next_question :: bool
  sr_next_question :: "InterviewQuestion option"
  sr_current_index :: int
  sr_total_questions :: nat

record CreateSessionRequest =
  cr_question_count :: int
  cr_skill_id :: pystr
  cr_difficulty :: pystr
  cr_resume_id :: "int option"
  cr_resume_text :: "pystr option"
  cr_force_create :: bool
  cr_llm_provider :: "pystr option"

text \<open>\<open>SessionStatus(value)\<close>.\<close>

definition parse_session_status :: "pystr \<Rightarrow> SessionStatus result" where
  "parse_session_status v =
     (case List.find (\<lambda>s. session_status_value s = v) [S_CREATED, S_IN_PROGRESS, S_COMPLETED, S_EVALUATED] of
        None \<Rightarrow> Inl (ValueError (v @ ascii '' is not a valid SessionStatus''))
      | Some s \<Rightarrow> Inr s)"

definition load_questions :: "pystr option \<Rightarrow> InterviewQuestion list world_op" where
  "load_questions questions_json = op_lift (read_questions (or_str questions_json (ascii ''[]'')))"

section \<open>Cache and restore\<close>

text \<open>A failed cache write is logged and swallowed; only here, not in the updates below.\<close>

definition write_cache_str :: "CachedSession \<Rightarrow> unit world_op" where
  "write_cache_str c = op_try (cache_save_session c) (\<lambda>e. op_return ())"

definition write_cache ::
  "pystr \<Rightarrow> pystr \<Rightarrow> int option \<Rightarrow> InterviewQuestion list \<Rightarrow> int \<Rightarrow> SessionStatus \<Rightarrow> int option \<Rightarrow> pystr option \<Rightarrow> unit world_op" where
  "write_cache sid resume_text resume_id questions current_index status kb_id category =
     write_cache_str \<lparr>ca_session_id = sid, ca_resume_text = resume_text, ca_resume_id = resume_id,
       ca_questions_json = serialize_questions questions, ca_current_index = current_index,
       ca_status = session_status_value status, ca_knowledge_base_id = kb_id, ca_interview_category = category\<rparr>"

definition load_resume_text :: "int option \<Rightarrow> pystr option world_op" where
  "load_resume_text resume_id = (case resume_id of
     None \<Rightarrow> op_return None
   | Some i \<Rightarrow> op_bind (get_resume_text i) (\<lambda>r. op_return (case r of None \<Rightarrow> None | Some t \<Rightarrow> t)))"

text \<open>The loop that overlays the stored answers on the stored questions.\<close>

fun overlay_rows :: "InterviewQuestion list \<Rightarrow> AnswerRow list \<Rightarrow> InterviewQuestion list" where
  "overlay_rows questions [] = questions"
| "overlay_rows questions (ans # rest) =
     overlay_rows
       (if 0 \<le> ia_question_index ans \<and> ia_question_index ans < int (length questions)
        then questions[nat (ia_question_index ans) :=
           with_answer (or_str (ia_user_answer ans) []) (questions ! nat (ia_question_index ans))]
        else questions) rest"

definition build_session_dto ::
  "pystr \<Rightarrow> pystr \<Rightarrow> int \<Rightarrow> InterviewQuestion list \<Rightarrow> SessionStatus \<Rightarrow> int option \<Rightarrow> pystr option \<Rightarrow> InterviewSessionDTO" where
  "build_session_dto sid resume_text current_index questions status kb_id category =
     \<lparr>sd_session_id = sid, sd_resume_text = resume_text, sd_total_questions = length questions,
      sd_current_question_index = current_index, sd_questions = questions, sd_status = session_status_value status,
      sd_knowledge_base_id = kb_id, sd_interview_category = category\<rparr>"

definition restore_view :: "SessionRow \<Rightarrow> SessionView world_op" where
  "restore_view orm =
     op_bind (find_answers_by_session_id (is_session_id orm)) (\<lambda>answers.
     op_bind (load_questions (is_questions_json orm)) (\<lambda>qs0.
     let questions_json = serialize_questions (overlay_rows qs0 answers) in
     op_bind (load_resume_text (is_resume_id orm)) (\<lambda>text.
     op_then (write_cache_str \<lparr>ca_session_id = is_session_id orm, ca_resume_text = or_str text [],
         ca_resume_id = is_resume_id orm, ca_questions_json = questions_json,
         ca_current_index = is_current_question_index orm, ca_status = is_status orm,
         ca_knowledge_base_id = is_knowledge_base_id orm, ca_interview_category = is_interview_category orm\<rparr>)
       (op_return \<lparr>sv_session_id = is_session_id orm, sv_resume_id = is_resume_id orm, sv_resume_text = [],
         sv_current_question_index = is_current_question_index orm, sv_status = is_status orm,
         sv_questions_json = questions_json, sv_knowledge_base_id = is_knowledge_base_id orm,
         sv_interview_category = is_interview_category orm\<rparr>))))"

definition get_or_restore_session :: "pystr \<Rightarrow> SessionView world_op" where
  "get_or_restore_session sid =
     op_bind (cache_get_session sid) (\<lambda>cached.
     case cached of
       Some c \<Rightarrow> op_then (cache_refresh_ttl sid)
         (op_return \<lparr>sv_session_id = ca_session_id c, sv_resume_id = ca_resume_id c, sv_resume_text = ca_resume_text c,
            sv_current_question_index = ca_current_index c, sv_status = ca_status c,
            sv_questions_json = ca_questions_json c, sv_knowledge_base_id = ca_knowledge_base_id c,
            sv_interview_category = ca_interview_category c\<rparr>)
     | None \<Rightarrow> op_bind (find_by_session_id_optional sid) (\<lambda>orm.
         case orm of
           None \<Rightarrow> op_raise (business_exception INTERVIEW_SESSION_NOT_FOUND None)
         | Some r \<Rightarrow> restore_view r))"

definition restore_from_orm :: "SessionRow \<Rightarrow> InterviewSessionDTO world_op" where
  "restore_from_orm orm =
     op_bind (find_answers_by_session_id (is_session_id orm)) (\<lambda>answers.
     op_bind (load_questions (is_questions_json orm)) (\<lambda>qs0.
     let questions = overlay_rows qs0 answers in
     op_bind (load_resume_text (is_resume_id orm)) (\<lambda>text.
     op_bind (op_lift (parse_session_status (is_status orm))) (\<lambda>status.
     op_then (write_cache (is_session_id orm) (or_str text []) (is_resume_id orm) questions
         (is_current_question_index orm) status (is_knowledge_base_id orm) (is_interview_category orm))
       (op_return (build_session_dto (is_session_id orm) (or_str text []) (is_current_question_index orm)
         questions status (is_knowledge_base_id orm) (is_interview_category orm)))))))"

text \<open>The unfinished session of a resume: first by the cached mapping, then by the database.\<close>

definition find_unfinished_in_db :: "int \<Rightarrow> InterviewSessionDTO option world_op" where
  "find_unfinished_in_db resume_id =
     op_bind (find_unfinished_by_resume_id resume_id) (\<lambda>orm.
     case orm of None \<Rightarrow> op_return None | Some r \<Rightarrow> op_bind (restore_from_orm r) (\<lambda>dto. op_return (Some dto)))"

definition find_unfinished :: "int \<Rightarrow> InterviewSessionDTO option world_op" where
  "find_unfinished resume_id =
     op_bind (cache_find_unfinished resume_id) (\<lambda>cached_id.
     case cached_id of
       None \<Rightarrow> find_unfinished_in_db resume_id
     | Some sid \<Rightarrow> op_bind (cache_get_session sid) (\<lambda>cached.
         case cached of
           None \<Rightarrow> find_unfinished_in_db resume_id
         | Some c \<Rightarrow> op_bind (op_lift (parse_session_status (ca_status c))) (\<lambda>status.
             if \<not> is_unfinished status then op_then (cache_delete_unfinished resume_id) (find_unfinished_in_db resume_id)
             else op_bind (op_lift (read_questions (ca_questions_json c))) (\<lambda>questions.
               op_return (Some (build_session_dto (ca_session_id c) (ca_resume_text c) (ca_current_index c)
                 questions status None None))))))"

section \<open>Requests\<close>

definition create_new_session ::
  "(CreateSessionRequest \<Rightarrow> pystr option \<Rightarrow> HistoricalQuestion list \<Rightarrow> InterviewQuestion list result) \<Rightarrow> (nat \<Rightarrow> pystr)
     \<Rightarrow> pystr \<Rightarrow> CreateSessionRequest \<Rightarrow> InterviewSessionDTO world_op" where
  "create_new_session generate lower uuid_hex request =
     op_bind (load_resume_text (cr_resume_id request)) (\<lambda>loaded.
     let resume_text = (if truthy_str loaded then loaded else cr_resume_text request);
         sk = (if cr_skill_id request \<noteq> [] then cr_skill_id request else DEFAULT_SKILL_ID);
         diff = (if cr_difficulty request \<noteq> [] then cr_difficulty request else DEFAULT_DIFFICULTY) in
     op_bind (get_historical_questions lower sk (cr_resume_id request)) (\<lambda>historical.
     op_bind (op_lift (generate (request\<lparr>cr_skill_id := sk, cr_difficulty := diff\<rparr>) resume_text historical)) (\<lambda>questions.
     let sid = take SESSION_ID_LENGTH uuid_hex in
     op_then (op_bind (save_session sid (cr_resume_id request) (int (length questions)) questions
         (cr_llm_provider request) sk diff (ascii ''NORMAL'') None None) (\<lambda>_. commit))
     (op_then (write_cache sid (or_str resume_text []) (cr_resume_id request) questions 0 S_CREATED None None)
       (op_return (build_session_dto sid (or_str resume_text []) 0 questions S_CREATED None None))))))"

definition create_session ::
  "(CreateSessionRequest \<Rightarrow> pystr option \<Rightarrow> HistoricalQuestion list \<Rightarrow> InterviewQuestion list result) \<Rightarrow> (nat \<Rightarrow> pystr)
     \<Rightarrow> pystr \<Rightarrow> CreateSessionRequest \<Rightarrow> InterviewSessionDTO world_op" where
  "create_session generate lower uuid_hex request =
     (case cr_resume_id request of
        Some resume_id \<Rightarrow>
          if resume_id \<noteq> 0 \<and> \<not> cr_force_create request then
            op_bind (find_unfinished resume_id) (\<lambda>unfinished.
              case unfinished of Some dto \<Rightarrow> op_return dto | None \<Rightarrow> create_new_session generate lower uuid_hex request)
          else create_new_session generate lower uuid_hex request
      | None \<Rightarrow> create_new_session generate lower uuid_hex request)"

definition create_session_from_questions ::
  "pystr \<Rightarrow> InterviewQuestion list \<Rightarrow> pystr option \<Rightarrow> pystr \<Rightarrow> pystr \<Rightarrow> int option \<Rightarrow> pystr option \<Rightarrow> InterviewSessionDTO world_op" where
  "create_session_from_questions uuid_hex questions llm_provider sk diff kb_id category =
     (if questions = [] then op_raise (BusinessException INTERVIEW_QUESTION_NOT_FOUND [38754, 35797, 39064, 30446, 19981, 33021, 20026, 31354])
      else let sid = take SESSION_ID_LENGTH uuid_hex in
        op_then (op_bind (save_session sid None (int (length questions)) questions llm_provider sk diff
            (ascii ''KNOWLEDGE_BASE'') kb_id category) (\<lambda>_. commit))
        (op_then (write_cache sid [] None questions 0 S_CREATED kb_id category)
          (op_return (build_session_dto sid [] 0 questions S_CREATED kb_id category))))"

definition get_session :: "pystr \<Rightarrow> InterviewSessionDTO world_op" where
  "get_session sid = op_bind (get_or_restore_session sid) (\<lambda>view.
     op_bind (load_questions (Some (sv_questions_json view))) (\<lambda>questions.
     op_bind (op_lift (parse_session_status (sv_status view))) (\<lambda>status.
     op_return (build_session_dto (sv_session_id view) (sv_resume_text view) (sv_current_question_index view)
       questions status (sv_knowledge_base_id view) (sv_interview_category view)))))"

text \<open>
  \<open>questions[i]\<close> with the index of the view: a negative index would count from the end; the
  column never holds one, and the model refuses it.
\<close>

definition get_current_question :: "pystr \<Rightarrow> CurrentQuestionResponse world_op" where
  "get_current_question sid = op_bind (get_or_restore_session sid) (\<lambda>view.
     op_bind (load_questions (Some (sv_questions_json view))) (\<lambda>questions.
     if sv_current_question_index view \<ge> int (length questions) then
       op_return \<lparr>cq_completed = True, cq_message = Some [25152, 26377, 38382, 39064, 24050, 22238, 31572, 23436, 27605], cq_question = None\<rparr>
     else
       op_then (op_when (sv_status view = session_status_value S_CREATED)
         (op_then (update_session_status sid (session_status_value S_IN_PROGRESS))
           (op_then commit (cache_update_status sid (session_status_value S_IN_PROGRESS)))))
       (if sv_current_question_index view < 0 then op_raise (ValueError (ascii ''negative index''))
        else op_return \<lparr>cq_completed = False, cq_message = None,
               cq_question = Some (questions ! nat (sv_current_question_index view))\<rparr>)))"

definition invalid_index_message :: "int \<Rightarrow> pystr" where
  "invalid_index_message index = [26080, 25928, 30340, 38382, 39064, 32034, 24341, 58, 32] @ int_str index"

text \<open>The checks that submitting and saving an answer share, and the questions they work on.\<close>

definition answer_checks :: "SessionView \<Rightarrow> int \<Rightarrow> InterviewQuestion list world_op" where
  "answer_checks view index =
     op_bind (op_lift (parse_session_status (sv_status view))) (\<lambda>status.
     if \<not> is_unfinished status then op_raise (business_exception INTERVIEW_ALREADY_COMPLETED None)
     else op_bind (load_questions (Some (sv_questions_json view))) (\<lambda>questions.
       if index < 0 \<or> index \<ge> int (length questions)
       then op_raise (BusinessException INTERVIEW_QUESTION_NOT_FOUND (invalid_index_message index))
       else op_return questions))"

definition drop_unfinished_mapping :: "SessionView \<Rightarrow> unit world_op" where
  "drop_unfinished_mapping view = (case sv_resume_id view of
     None \<Rightarrow> op_return () | Some resume_id \<Rightarrow> cache_delete_unfinished resume_id)"

definition submit_answer :: "(exn \<Rightarrow> pystr) \<Rightarrow> pystr \<Rightarrow> SubmitAnswerRequest \<Rightarrow> SubmitAnswerResponse world_op" where
  "submit_answer exc_str sid request =
     op_bind (get_or_restore_session sid) (\<lambda>view.
     op_bind (answer_checks view (sa_question_index request)) (\<lambda>questions0.
     let index = sa_question_index request;
         question = questions0 ! nat index;
         questions = questions0[nat index := with_answer (sa_answer request) question];
         new_index = index + 1;
         has_next = new_index < int (length questions);
         next_question = (if has_next then Some (questions ! nat new_index) else None) in
     op_then (save_answer_row sid index (q_question question) (q_category question) (sa_answer request))
     (op_then
       (if has_next then
          op_then (update_current_question_index sid new_index)
          (op_then commit
          (op_then (cache_update_questions sid (serialize_questions questions))
            (cache_update_current_index sid new_index)))
        else
          op_then (update_session_status sid (session_status_value S_COMPLETED))
          (op_then (update_evaluate_status sid (task_status_value T_PENDING) None)
          (op_then commit
          (op_then (cache_update_questions sid (serialize_questions questions))
          (op_then (cache_update_status sid (session_status_value S_COMPLETED))
          (op_then (send_task exc_str sid)
            (drop_unfinished_mapping view)))))))
       (op_return \<lparr>sr_has_next_question = has_next, sr_next_question = next_question,
          sr_current_index = new_index, sr_total_questions = length questions\<rparr>))))"

definition save_answer :: "pystr \<Rightarrow> SubmitAnswerRequest \<Rightarrow> unit world_op" where
  "save_answer sid request =
     op_bind (get_or_restore_session sid) (\<lambda>view.
     op_bind (answer_checks view (sa_question_index request)) (\<lambda>questions0.
     let index = sa_question_index request; question = questions0 ! nat index in
     op_then (save_answer_row sid index (q_question question) (q_category question) (sa_answer request))
     (op_then (op_when (sv_status view = session_status_value S_CREATED)
         (update_session_status sid (session_status_value S_IN_PROGRESS)))
     (op_then commit
       (cache_update_questions sid
         (serialize_questions (questions0[nat index := with_answer (sa_answer request) question])))))))"

definition complete_interview :: "(exn \<Rightarrow> pystr) \<Rightarrow> pystr \<Rightarrow> unit world_op" where
  "complete_interview exc_str sid =
     op_bind (get_or_restore_session sid) (\<lambda>view.
     op_bind (op_lift (parse_session_status (sv_status view))) (\<lambda>current.
     op_then (op_lift (validate_transition current S_COMPLETED))
     (op_then (update_session_status sid (session_status_value S_COMPLETED))
     (op_then (update_evaluate_status sid (task_status_value T_PENDING) None)
     (op_then commit
     (op_then (cache_update_status sid (session_status_value S_COMPLETED))
     (op_then (send_task exc_str sid)
       (drop_unfinished_mapping view))))))))"

definition find_unfinished_session :: "int \<Rightarrow> InterviewSessionDTO world_op" where
  "find_unfinished_session resume_id = op_bind (find_unfinished resume_id) (\<lambda>dto.
     case dto of
       None \<Rightarrow> op_raise (BusinessException INTERVIEW_SESSION_NOT_FOUND [26410, 25214, 21040, 26410, 23436, 25104, 30340, 38754, 35797, 20250, 35805])
     | Some d \<Rightarrow> op_return d)"

definition delete_session :: "pystr \<Rightarrow> unit world_op" where
  "delete_session sid =
     op_bind (find_by_session_id_optional sid) (\<lambda>orm.
     case orm of
       None \<Rightarrow> op_return ()
     | Some r \<Rightarrow>
         op_then (persistence_delete_session sid)
         (op_then commit
         (op_then (cache_delete_session sid)
           (case is_resume_id r of
              None \<Rightarrow> op_return ()
            | Some resume_id \<Rightarrow> op_bind (cache_find_unfinished resume_id) (\<lambda>unfinished_id.
                op_when (unfinished_id = Some sid) (cache_delete_unfinished resume_id))))))"

definition list_sessions :: "int \<Rightarrow> int \<Rightarrow> SessionRow list world_op" where
  "list_sessions limit offset = op_bind find_all (\<lambda>rows.
     op_return (take (nat (offset + limit) - nat offset) (drop (nat offset) rows)))"

end
