(* ===== verification/Stream_Consumer.thy ===== *)
theory Stream_Consumer
  imports Effects
begin

text \<open>
  \<open>app/infrastructure/tasks/base_consumer.py\<close>: what a stream consumer does with one message.
  The abstract methods are the fields of a record of handlers; \<open>data\<close> is the message's field
  map. The loop that fetches messages (blocking reads, claiming of idle ones) is outside.
\<close>

definition MAX_RETRY_COUNT :: int where "MAX_RETRY_COUNT = 3"

record ('w, 'p) StreamHandlers =
  h_parse_payload :: "(pystr, pystr) dict \<Rightarrow> 'p option result"
  h_should_skip :: "'p \<Rightarrow> bool"
  h_try_mark_processing :: "'p \<Rightarrow> ('w, bool) op"
  h_process_business :: "'p \<Rightarrow> ('w, unit) op"
  h_mark_completed :: "'p \<Rightarrow> ('w, unit) op"
  h_mark_failed :: "'p \<Rightarrow> pystr \<Rightarrow> ('w, unit) op"
  h_retry_message :: "'p \<Rightarrow> int \<Rightarrow> ('w, unit) op"
  h_xack :: "('w, unit) op"

text \<open>\<open>_ack\<close>: an error of the acknowledgement is only logged.\<close>

definition ack :: "('w, 'p) StreamHandlers \<Rightarrow> ('w, unit) op" where
  "ack h = op_try (h_xack h) (\<lambda>e. op_return ())"

definition handle_payload ::
  "('w, 'p) StreamHandlers \<Rightarrow> (exn \<Rightarrow> pystr) \<Rightarrow> int \<Rightarrow> 'p \<Rightarrow> ('w, unit) op" where
  "handle_payload h exc_str retry_count payload =
     op_try
       (if h_should_skip h payload then ack h
        else op_bind (h_try_mark_processing h payload) (\<lambda>claimed.
          if \<not> claimed then ack h
          else op_then (h_process_business h payload) (op_then (h_mark_completed h payload) (ack h))))
       (\<lambda>e. op_then
          (if retry_count < MAX_RETRY_COUNT then h_retry_message h payload (retry_count + 1)
           else h_mark_failed h payload (exc_str e))
          (ack h))"

text \<open>\<open>exc_str\<close> is \<open>truncate_error(str(e))\<close>; \<open>parse_retry\<close> is \<open>int\<close> of the retry field, 0 on failure.\<close>

definition process_message ::
  "('w, 'p) StreamHandlers \<Rightarrow> (exn \<Rightarrow> pystr) \<Rightarrow> ((pystr, pystr) dict \<Rightarrow> int) \<Rightarrow> (pystr, pystr) dict \<Rightarrow> ('w, unit) op" where
  "process_message h exc_str parse_retry data =
     (case h_parse_payload h data of
        Inl e \<Rightarrow> ack h
      | Inr None \<Rightarrow> ack h
      | Inr (Some payload) \<Rightarrow> handle_payload h exc_str (parse_retry data) payload)"

lemma ack_never_raises: "\<exists>w'. ack h w = (Inr (), w')"
  by (cases "h_xack h w") (auto simp: ack_def op_simps split: sum.split)

lemma op_then_at: "P (snd (m w)) \<Longrightarrow> op_inv P k \<Longrightarrow> P (snd (op_then m k w))"
  by (cases "m w") (auto simp: op_simps op_inv_def split: sum.split)

lemma op_bind_Inr: "m w = (Inr x, w') \<Longrightarrow> op_bind m f w = f x w'"
  by (simp add: op_bind_def)

text \<open>
  What a provider of handlers promises: a successful claim establishes \<open>claimed\<close>, on which the
  business step may rely, and every handler keeps an invariant of the state. Then processing
  any message keeps it, whatever fails on the way.
\<close>

locale stream_handlers =
  fixes h :: "('w, 'p) StreamHandlers" and P :: "'w \<Rightarrow> bool" and claimed :: "'p \<Rightarrow> 'w \<Rightarrow> bool"
  assumes try_mark: "op_inv P (h_try_mark_processing h p)"
    and claims: "P w \<Longrightarrow> h_try_mark_processing h p w = (Inr True, w') \<Longrightarrow> claimed p w'"
    and business: "P w \<Longrightarrow> claimed p w \<Longrightarrow> P (snd (h_process_business h p w))"
    and completed: "op_inv P (h_mark_completed h p)"
    and failed: "op_inv P (h_mark_failed h p e)"
    and retry: "op_inv P (h_retry_message h p n)"
    and xack: "op_inv P (h_xack h)"
begin

lemma ack_inv: "op_inv P (ack h)"
  by (simp add: ack_def op_rules xack)

lemma claimed_run_inv:
  "op_inv P (op_bind (h_try_mark_processing h p) (\<lambda>claimed.
      if \<not> claimed then ack h
      else op_then (h_process_business h p) (op_then (h_mark_completed h p) (ack h))))"
proof (rule op_invI)
  fix w assume P: "P w"
  obtain r w1 where m: "h_try_mark_processing h p w = (r, w1)" by fastforce
  with P have P1: "P w1" using op_invD [OF try_mark, of w p] by simp
  have rest: "op_inv P (op_then (h_mark_completed h p) (ack h))" by (intro op_rules completed ack_inv)
  show "P (snd (op_bind (h_try_mark_processing h p) (\<lambda>claimed. if \<not> claimed then ack h
      else op_then (h_process_business h p) (op_then (h_mark_completed h p) (ack h))) w))"
  proof (cases "r = Inr True")
    case True
    then have "claimed p w1" using claims P m by simp
    then have "P (snd (h_process_business h p w1))" by (rule business [OF P1])
    then show ?thesis using op_then_at [of P _ w1, OF _ rest] by (simp add: op_bind_Inr m True)
  next
    case False
    then show ?thesis using P1 op_invD [OF ack_inv P1] by (cases r) (auto simp: op_simps m)
  qed
qed

lemma handle_payload_inv: "op_inv P (handle_payload h exc_str n p)"
  unfolding handle_payload_def
  by (intro op_rules ack_inv claimed_run_inv failed retry)

lemma process_message_inv: "op_inv P (process_message h exc_str parse_retry data)"
  by (auto simp: process_message_def ack_inv handle_payload_inv split: sum.split option.split)

end

end
