(* ===== verification/Evaluation_Graph.thy ===== *)
theory Evaluation_Graph
  imports Evaluation
begin

text \<open>
  The evaluation sub-graph of \<open>app/graphs/evaluation.py\<close>, node by node on its state: prepare,
  the fan-out of the batches, merge, summarize and build_report, with both degradations.
  The language model is a parameter: \<open>llm_batch n prompt\<close> is what the \<open>n\<close>-th invocation (0, or
  1 for the retry) returns or raises, \<open>llm_summary\<close> the same for the summary. \<open>collect\<close> is the
  reducer of LangGraph that gathers the results of the parallel batches, and \<open>exc_str\<close> is
  \<open>str\<close> of an exception.
\<close>

section \<open>What the language model returns\<close>

record QuestionEvaluationOutput =
  qo_question_index :: int
  qo_score :: int
  qo_feedback :: pystr
  qo_reference_answer :: pystr
  qo_key_points :: "pystr list"

record BatchEvaluationOutput =
  bo_overall_score :: int
  bo_overall_feedback :: pystr
  bo_strengths :: "pystr list"
  bo_improvements :: "pystr list"
  bo_question_evaluations :: "QuestionEvaluationOutput list"

record SummaryEvaluationOutput =
  so_overall_feedback :: pystr
  so_strengths :: "pystr list"
  so_improvements :: "pystr list"

text \<open>The placeholders of the two user prompts.\<close>

record BatchPrompt =
  bp_resume_text :: pystr
  bp_qa_records :: pystr
  bp_reference_context :: pystr

record SummaryPrompt =
  sp_resume_text :: pystr
  sp_reference_context :: pystr
  sp_category_summary :: pystr
  sp_question_highlights :: pystr
  sp_fallback_overall_feedback :: pystr
  sp_fallback_strengths :: pystr
  sp_fallback_improvements :: pystr

record EvaluationState =
  es_session_id :: pystr
  es_qa_records :: "QaRecord list"
  es_resume_text :: pystr
  es_reference_context :: pystr
  es_batches :: "QaBatch list"
  es_batch_results :: "BatchResult list"
  es_batch_errors :: "pystr list"
  es_merged_evaluations :: "QuestionEvaluationItem list"
  es_fallback_summary :: Summary
  es_summary :: Summary
  es_report :: "EvaluationReport option"

type_synonym batch_llm = "nat \<Rightarrow> BatchPrompt \<Rightarrow> BatchEvaluationOutput result"
type_synonym summary_llm = "SummaryPrompt \<Rightarrow> SummaryEvaluationOutput result"

section \<open>Nodes\<close>

definition initial_state :: "pystr \<Rightarrow> QaRecord list \<Rightarrow> pystr option \<Rightarrow> pystr option \<Rightarrow> EvaluationState" where
  "initial_state session_id qa_records resume_text reference_context =
     \<lparr>es_session_id = session_id, es_qa_records = qa_records, es_resume_text = or_str resume_text [],
      es_reference_context = or_str reference_context [], es_batches = [], es_batch_results = [],
      es_batch_errors = [], es_merged_evaluations = [], es_fallback_summary = Summary_empty,
      es_summary = Summary_empty, es_report = None\<rparr>"

definition prepare :: "int \<Rightarrow> EvaluationState \<Rightarrow> EvaluationState" where
  "prepare batch_size st = st\<lparr>
     es_resume_text := truncate_resume (Some (es_resume_text st)) MAX_RESUME_CHARS,
     es_reference_context := truncate_reference (Some (es_reference_context st)) MAX_REFERENCE_CONTEXT_CHARS,
     es_batches := split_batches (es_qa_records st) batch_size\<rparr>"

definition to_batch_report :: "BatchEvaluationOutput \<Rightarrow> int \<Rightarrow> BatchReport" where
  "to_batch_report output start_index =
     \<lparr>br_overall_score = bo_overall_score output, br_overall_feedback = bo_overall_feedback output,
      br_strengths = bo_strengths output, br_improvements = bo_improvements output,
      br_question_evaluations = map (\<lambda>(i, e). \<lparr>ei_question_index = start_index + int i, ei_score = qo_score e,
          ei_feedback = qo_feedback e, ei_reference_answer = qo_reference_answer e, ei_key_points = qo_key_points e\<rparr>)
        (py_enumerate (bo_question_evaluations output))\<rparr>"

definition batch_prompt :: "pystr \<Rightarrow> pystr \<Rightarrow> QaBatch \<Rightarrow> BatchPrompt" where
  "batch_prompt resume_text reference_context batch =
     \<lparr>bp_resume_text = resume_text, bp_qa_records = build_qa_records_text (qb_records batch),
      bp_reference_context = (if reference_context \<noteq> [] then reference_context else [26080])\<rparr>"

text \<open>The \<open>try\<close> block of the batch node: one call, and one retry when it evaluated nothing.\<close>

definition try_batch :: "batch_llm \<Rightarrow> pystr \<Rightarrow> pystr \<Rightarrow> QaBatch \<Rightarrow> BatchReport result" where
  "try_batch llm_batch resume_text reference_context batch =
     (let prompt = batch_prompt resume_text reference_context batch
      in res_bind (llm_batch 0 prompt) (\<lambda>output.
           if bo_question_evaluations output = [] then
             res_bind (llm_batch 1 prompt) (\<lambda>output'.
               if bo_question_evaluations output' = [] then
                 Inl (ValueError ([76, 76, 77, 32, 37325, 35797, 21518, 20173, 36820, 22238, 31354, 32, 113, 117, 101, 115, 116, 105, 111, 110, 69, 118, 97, 108, 117, 97, 116, 105, 111, 110, 115, 32, 40, 98, 97, 116, 99, 104, 32, 91] @ int_str (qb_start_index batch)
                   @ [44, 32] @ int_str (qb_end_index batch) @ [41, 41]))
               else Inr (to_batch_report output' (qb_start_index batch)))
           else Inr (to_batch_report output (qb_start_index batch))))"

definition evaluate_batch ::
  "batch_llm \<Rightarrow> (exn \<Rightarrow> pystr) \<Rightarrow> pystr \<Rightarrow> pystr \<Rightarrow> QaBatch \<Rightarrow> BatchResult \<times> pystr list" where
  "evaluate_batch llm_batch exc_str resume_text reference_context batch =
     (case try_batch llm_batch resume_text reference_context batch of
        Inl e \<Rightarrow> (\<lparr>bres_start_index = qb_start_index batch, bres_end_index = qb_end_index batch, bres_report = None\<rparr>,
                  [[25209, 27425, 91] @ int_str (qb_start_index batch) @ [44] @ int_str (qb_end_index batch) @ [41, 58, 32] @ exc_str e])
      | Inr report \<Rightarrow> (\<lparr>bres_start_index = qb_start_index batch, bres_end_index = qb_end_index batch,
                        bres_report = Some report\<rparr>, []))"

text \<open>
  The fan-out: without batches the graph goes straight to merge; otherwise every batch runs,
  and the reducers append the results and the errors to the state.
\<close>

definition run_batches ::
  "((BatchResult \<times> pystr list) list \<Rightarrow> (BatchResult \<times> pystr list) list) \<Rightarrow> batch_llm \<Rightarrow> (exn \<Rightarrow> pystr)
     \<Rightarrow> EvaluationState \<Rightarrow> EvaluationState" where
  "run_batches collect llm_batch exc_str st =
     (if es_batches st = [] then st
      else let outs = collect (map (evaluate_batch llm_batch exc_str (es_resume_text st) (es_reference_context st)) (es_batches st))
           in st\<lparr>es_batch_results := es_batch_results st @ map fst outs,
                 es_batch_errors := es_batch_errors st @ concat (map snd outs)\<rparr>)"

definition merge_node :: "EvaluationState \<Rightarrow> EvaluationState" where
  "merge_node st = st\<lparr>
     es_merged_evaluations := merge_question_evaluations (es_batch_results st),
     es_fallback_summary := \<lparr>sum_overall_feedback = merge_overall_feedback (es_batch_results st),
       sum_strengths = merge_list_items (es_batch_results st) True,
       sum_improvements = merge_list_items (es_batch_results st) False\<rparr>\<rparr>"

fun sanitize_loop :: "pystr list \<Rightarrow> pystr list \<Rightarrow> pystr list \<Rightarrow> pystr list" where
  "sanitize_loop [] seen out = out"
| "sanitize_loop (item # items) seen out =
     (if item = [] \<or> blank item then sanitize_loop items seen out
      else let cleaned = py_strip item
           in if cleaned \<in> set seen then sanitize_loop items seen out
              else sanitize_loop items (cleaned # seen) (out @ [cleaned]))"

definition sanitize_items :: "pystr list \<Rightarrow> pystr list \<Rightarrow> pystr list" where
  "sanitize_items primary fallback =
     take MAX_MERGED_LIST_ITEMS (sanitize_loop (if primary \<noteq> [] then primary else fallback) [] [])"

definition to_summary :: "SummaryEvaluationOutput \<Rightarrow> Summary \<Rightarrow> Summary" where
  "to_summary output fallback =
     \<lparr>sum_overall_feedback = (if so_overall_feedback output \<noteq> [] \<and> \<not> blank (so_overall_feedback output)
        then so_overall_feedback output else sum_overall_feedback fallback),
      sum_strengths = sanitize_items (so_strengths output) (sum_strengths fallback),
      sum_improvements = sanitize_items (so_improvements output) (sum_improvements fallback)\<rparr>"

definition summary_prompt :: "EvaluationState \<Rightarrow> SummaryPrompt" where
  "summary_prompt st =
     (let fallback = es_fallback_summary st
      in \<lparr>sp_resume_text = es_resume_text st,
          sp_reference_context = or_str (Some (es_reference_context st)) [26080],
          sp_category_summary = build_category_summary (es_qa_records st) (es_merged_evaluations st),
          sp_question_highlights = build_question_highlights (es_qa_records st) (es_merged_evaluations st),
          sp_fallback_overall_feedback = sum_overall_feedback fallback,
          sp_fallback_strengths = py_join [10] (sum_strengths fallback),
          sp_fallback_improvements = py_join [10] (sum_improvements fallback)\<rparr>)"

definition summarize :: "summary_llm \<Rightarrow> EvaluationState \<Rightarrow> EvaluationState" where
  "summarize llm_summary st =
     (let fallback = es_fallback_summary st
      in if es_qa_records st = [] then st\<lparr>es_summary := fallback\<rparr>
         else st\<lparr>es_summary := (case llm_summary (summary_prompt st) of
                Inl e \<Rightarrow> fallback | Inr output \<Rightarrow> to_summary output fallback)\<rparr>)"

definition build_report_node :: "EvaluationState \<Rightarrow> EvaluationState" where
  "build_report_node st = st\<lparr>es_report := Some (build_report (es_session_id st) (es_qa_records st)
     (es_merged_evaluations st) (es_summary st) (es_batch_errors st))\<rparr>"

definition evaluate ::
  "((BatchResult \<times> pystr list) list \<Rightarrow> (BatchResult \<times> pystr list) list) \<Rightarrow> batch_llm \<Rightarrow> summary_llm
     \<Rightarrow> (exn \<Rightarrow> pystr) \<Rightarrow> int \<Rightarrow> pystr \<Rightarrow> QaRecord list \<Rightarrow> pystr option \<Rightarrow> pystr option \<Rightarrow> EvaluationReport result" where
  "evaluate collect llm_batch llm_summary exc_str batch_size session_id qa_records resume_text reference_context =
     (let st = build_report_node (summarize llm_summary (merge_node (run_batches collect llm_batch exc_str
          (prepare batch_size (initial_state session_id qa_records resume_text reference_context)))))
      in case es_report st of
           None \<Rightarrow> Inl (RuntimeError ([35780, 20272, 23376, 22270, 26410, 20135, 20986, 25253, 21578, 58, 32, 115, 101, 115, 115, 105, 111, 110, 73, 100, 61] @ session_id))
         | Some report \<Rightarrow> Inr report)"

section \<open>The graph as one expression\<close>

definition batch_outcomes where
  "batch_outcomes collect llm_batch exc_str batch_size qa_records resume_text reference_context =
     (let rt = truncate_resume (Some (or_str resume_text [])) MAX_RESUME_CHARS;
          rc = truncate_reference (Some (or_str reference_context [])) MAX_REFERENCE_CONTEXT_CHARS;
          bs = split_batches qa_records batch_size
      in if bs = [] then [] else collect (map (evaluate_batch llm_batch exc_str rt rc) bs))"

definition fallback_of :: "BatchResult list \<Rightarrow> Summary" where
  "fallback_of rs = \<lparr>sum_overall_feedback = merge_overall_feedback rs,
       sum_strengths = merge_list_items rs True, sum_improvements = merge_list_items rs False\<rparr>"

lemma evaluate_unfold:
  "\<exists>summary. evaluate collect llm_batch llm_summary exc_str n sid qa rt rc =
     Inr (build_report sid qa
       (merge_question_evaluations (map fst (batch_outcomes collect llm_batch exc_str n qa rt rc)))
       summary (concat (map snd (batch_outcomes collect llm_batch exc_str n qa rt rc))))
   \<and> (let fb = fallback_of (map fst (batch_outcomes collect llm_batch exc_str n qa rt rc))
      in summary = fb \<or> (\<exists>output. summary = to_summary output fb))"
proof -
  define fb where "fb = fallback_of (map fst (batch_outcomes collect llm_batch exc_str n qa rt rc))"
  define st where "st = merge_node (run_batches collect llm_batch exc_str (prepare n (initial_state sid qa rt rc)))"
  have f: "es_fallback_summary st = fb" "es_session_id st = sid" "es_qa_records st = qa"
    "es_merged_evaluations st = merge_question_evaluations (map fst (batch_outcomes collect llm_batch exc_str n qa rt rc))"
    "es_batch_errors st = concat (map snd (batch_outcomes collect llm_batch exc_str n qa rt rc))"
    by (simp_all add: st_def fb_def fallback_of_def batch_outcomes_def merge_node_def run_batches_def prepare_def
        initial_state_def Let_def)
  define summary where "summary = es_summary (summarize llm_summary st)"
  have "summary = fb \<or> (\<exists>output. summary = to_summary output fb)"
    by (auto simp: summary_def summarize_def f Let_def split: sum.split)
  moreover have "evaluate collect llm_batch llm_summary exc_str n sid qa rt rc =
     Inr (build_report sid qa (es_merged_evaluations st) summary (es_batch_errors st))"
    by (simp add: evaluate_def build_report_node_def summarize_def summary_def f Let_def flip: st_def)
  ultimately show ?thesis unfolding fb_def f by (auto simp: Let_def)
qed

lemma sanitize_loop_spec: "sanitize_loop items seen out = out @ nub_acc seen (cleaned_items items)"
proof (induction items seen out rule: sanitize_loop.induct)
  case (1 seen out)
  then show ?case by (simp add: cleaned_items_def)
next
  case (2 item items seen out)
  then show ?case
    by (cases "item = [] \<or> blank item") (auto simp: cleaned_items_def Let_def)
qed

definition clean_list :: "pystr list \<Rightarrow> bool" where
  "clean_list ss \<longleftrightarrow> length ss \<le> MAX_MERGED_LIST_ITEMS \<and> distinct ss \<and> list_all (\<lambda>s. s \<noteq> [] \<and> py_strip s = s) ss"

lemma clean_list_nub: "clean_list (take MAX_MERGED_LIST_ITEMS (nub_acc [] (cleaned_items items)))"
proof -
  have "s \<noteq> [] \<and> py_strip s = s" if "s \<in> set (nub_acc [] (cleaned_items items))" for s
    using that by (auto simp: set_nub_acc cleaned_items_def blank_def)
  then show ?thesis
    by (auto simp: clean_list_def distinct_nub_acc distinct_take list_all_iff dest!: in_set_takeD)
qed

lemma clean_summary:
  "clean_list (sum_strengths (fallback_of rs)) \<and> clean_list (sum_improvements (fallback_of rs))"
  "clean_list (sum_strengths (to_summary output fb)) \<and> clean_list (sum_improvements (to_summary output fb))"
  by (simp_all add: fallback_of_def merge_list_items_eq to_summary_def sanitize_items_def sanitize_loop_spec clean_list_nub)

text \<open>
  C23. An evaluation always ends in a complete report, whatever the language model returns or
  raises in any call and in whatever order the parallel batches are gathered: one detail
  and one reference answer per question, in order, and strengths and improvements that are
  at most eight trimmed, non-blank, different texts.
\<close>
theorem evaluation_always_reports:
  "\<exists>r. evaluate collect llm_batch llm_summary exc_str n sid qa rt rc = Inr r
     \<and> er_session_id r = sid \<and> er_total_questions r = int (length qa)
     \<and> map qe_question_index (er_question_details r) = map qa_question_index qa
     \<and> map ra_question_index (er_reference_answers r) = map qa_question_index qa
     \<and> clean_list (er_strengths r) \<and> clean_list (er_improvements r)"
proof -
  obtain summary where e: "evaluate collect llm_batch llm_summary exc_str n sid qa rt rc =
     Inr (build_report sid qa
       (merge_question_evaluations (map fst (batch_outcomes collect llm_batch exc_str n qa rt rc)))
       summary (concat (map snd (batch_outcomes collect llm_batch exc_str n qa rt rc))))"
    and s: "clean_list (sum_strengths summary) \<and> clean_list (sum_improvements summary)"
    using evaluate_unfold [of collect llm_batch llm_summary exc_str n sid qa rt rc] clean_summary
    by (auto simp: Let_def)
  have "map (qa_question_index \<circ> snd) (py_enumerate qa) = map qa_question_index qa"
    by (simp add: py_enumerate_def flip: map_map)
  then show ?thesis using s
    by (simp add: e build_report_def Let_def question_detail_def reference_detail_def comp_def case_prod_unfold)
qed

text \<open>Gathering in the order of the sends, as LangGraph documents for one step.\<close>

definition gathers_in_order :: "('a list \<Rightarrow> 'a list) \<Rightarrow> bool" where
  "gathers_in_order collect \<longleftrightarrow> (\<forall>xs. collect xs = xs)"

definition prepared_resume :: "pystr option \<Rightarrow> pystr" where
  "prepared_resume rt = truncate_resume (Some (or_str rt [])) MAX_RESUME_CHARS"

definition prepared_reference :: "pystr option \<Rightarrow> pystr" where
  "prepared_reference rc = truncate_reference (Some (or_str rc [])) MAX_REFERENCE_CONTEXT_CHARS"

definition attempt :: "batch_llm \<Rightarrow> pystr option \<Rightarrow> pystr option \<Rightarrow> QaBatch \<Rightarrow> BatchReport result" where
  "attempt llm_batch rt rc b = try_batch llm_batch (prepared_resume rt) (prepared_reference rc) b"

definition success :: "'a result \<Rightarrow> 'a option" where
  "success r = (case r of Inl e \<Rightarrow> None | Inr x \<Rightarrow> Some x)"

lemma outcomes_in_order:
  assumes "gathers_in_order collect"
  shows "map fst (batch_outcomes collect llm_batch exc_str n qa rt rc) =
      map (batch_result (\<lambda>b. success (attempt llm_batch rt rc b))) (split_batches qa n)"
    "concat (map snd (batch_outcomes collect llm_batch exc_str n qa rt rc)) =
      concat (map (\<lambda>b. snd (evaluate_batch llm_batch exc_str (prepared_resume rt) (prepared_reference rc) b)) (split_batches qa n))"
proof -
  have fst: "fst (evaluate_batch llm_batch exc_str (prepared_resume rt) (prepared_reference rc) b) =
      batch_result (\<lambda>b. success (attempt llm_batch rt rc b)) b" for b
    by (simp add: batch_result_def evaluate_batch_def success_def attempt_def split: sum.split)
  have outs: "batch_outcomes collect llm_batch exc_str n qa rt rc =
      map (evaluate_batch llm_batch exc_str (prepared_resume rt) (prepared_reference rc)) (split_batches qa n)"
    using assms by (simp add: gathers_in_order_def batch_outcomes_def prepared_resume_def prepared_reference_def Let_def)
  show "map fst (batch_outcomes collect llm_batch exc_str n qa rt rc) =
      map (batch_result (\<lambda>b. success (attempt llm_batch rt rc b))) (split_batches qa n)"
    by (simp add: outs fst)
  show "concat (map snd (batch_outcomes collect llm_batch exc_str n qa rt rc)) =
      concat (map (\<lambda>b. snd (evaluate_batch llm_batch exc_str (prepared_resume rt) (prepared_reference rc) b)) (split_batches qa n))"
    by (simp add: outs comp_def)
qed



definition batch_fails :: "batch_llm \<Rightarrow> BatchPrompt \<Rightarrow> bool" where
  "batch_fails llm_batch p = (case llm_batch 0 p of
     Inl e \<Rightarrow> True
   | Inr out \<Rightarrow> bo_question_evaluations out = [] \<and>
       (case llm_batch 1 p of Inl e \<Rightarrow> True | Inr out' \<Rightarrow> bo_question_evaluations out' = []))"

lemma batch_error_count:
  "length (snd (evaluate_batch llm_batch exc_str rt rc b)) = (if batch_fails llm_batch (batch_prompt rt rc b) then 1 else 0)"
  by (cases "llm_batch 0 (batch_prompt rt rc b)"; cases "llm_batch (Suc 0) (batch_prompt rt rc b)")
    (simp_all add: evaluate_batch_def try_batch_def batch_fails_def Let_def)



end
