(* ===== verification/Question_Bank.thy ===== *)
theory Question_Bank
  imports Question_Gen "HOL-Library.Multiset" "HOL-Library.Product_Lexorder"
begin

text \<open>
  \<open>app/domain/services/question_bank.py\<close>: assembling an interview from the question bank with
  an injected random source, the capacity preview, the reference context of the evaluation
  and the override of reference answers. \<open>Random._randbelow\<close> is a parameter \<open>draw\<close> on the
  generator's state; \<open>shuffle\<close> and \<open>randrange\<close> are written as the standard library does.
  NFC normalisation, lower case and \<open>isalnum\<close> (Unicode data) are parameters too.
\<close>

section \<open>Texts\<close>

definition MAX_FOLLOW_UP_COUNT :: int where "MAX_FOLLOW_UP_COUNT = 5"
definition FALLBACK_TYPE :: pystr where "FALLBACK_TYPE = ascii ''KNOWLEDGE_BASE''"
definition FALLBACK_CATEGORY :: pystr where "FALLBACK_CATEGORY = [30693, 35782, 24211]"
definition FALLBACK_FOLLOW_UP_CATEGORY :: pystr where "FALLBACK_FOLLOW_UP_CATEGORY = [30693, 35782, 24211, 36861, 38382]"

definition normalize_question_key :: "(pystr \<Rightarrow> pystr) \<Rightarrow> (pystr \<Rightarrow> pystr) \<Rightarrow> (nat \<Rightarrow> bool) \<Rightarrow> pystr option \<Rightarrow> pystr" where
  "normalize_question_key nfc lower isalnum question =
     (case question of None \<Rightarrow> [] | Some q \<Rightarrow> filter isalnum (lower (nfc q)))"

definition trim_to_none :: "pystr option \<Rightarrow> pystr option" where
  "trim_to_none value = (case value of None \<Rightarrow> None | Some v \<Rightarrow> if blank v then None else Some (py_strip v))"

definition default_string :: "pystr option \<Rightarrow> pystr \<Rightarrow> pystr" where
  "default_string value fallback = (case value of None \<Rightarrow> fallback | Some v \<Rightarrow> if blank v then fallback else v)"

lemma trim_to_none_Some: "trim_to_none v = Some t \<Longrightarrow> py_strip t = t \<and> t \<noteq> []"
  by (auto simp: trim_to_none_def blank_def split: option.splits if_splits)

section \<open>Candidates\<close>

record QuestionBankFollowUp =
  bf_question :: pystr
  bf_reference_answer :: "pystr option"
  bf_key_points :: "pystr list"
  bf_scoring_rubric :: "pystr option"

record QuestionCandidate =
  qc_question :: pystr
  qc_type :: "pystr option"
  qc_category :: "pystr option"
  qc_topic_summary :: "pystr option"
  qc_reference_answer :: "pystr option"
  qc_key_points :: "pystr list"
  qc_scoring_rubric :: "pystr option"
  qc_source_context :: "pystr option"
  qc_follow_ups :: "QuestionBankFollowUp list"

record CategoryOption =
  co_category :: pystr
  co_available_question_count :: int

record FollowUpOption =
  fo_follow_up_count :: int
  fo_available_question_count :: int
  fo_selectable :: bool

section \<open>Random choice\<close>

text \<open>What the standard library promises of \<open>_randbelow(n)\<close>: a value below \<open>n\<close>.\<close>

definition random_ok :: "('s \<Rightarrow> nat \<Rightarrow> nat \<times> 's) \<Rightarrow> bool" where
  "random_ok draw \<longleftrightarrow> (\<forall>s n. 0 < n \<longrightarrow> fst (draw s n) < n)"

definition swap_at :: "nat \<Rightarrow> nat \<Rightarrow> 'a list \<Rightarrow> 'a list" where
  "swap_at i j xs = xs[i := xs ! j, j := xs ! i]"

text \<open>\<open>for i in reversed(range(1, len(x))): j = randbelow(i + 1); x[i], x[j] = x[j], x[i]\<close>.\<close>

fun shuffle_from :: "('s \<Rightarrow> nat \<Rightarrow> nat \<times> 's) \<Rightarrow> nat \<Rightarrow> 'a list \<Rightarrow> ('s, 'a list) op" where
  "shuffle_from draw 0 xs = op_return xs"
| "shuffle_from draw (Suc i) xs =
     op_bind (\<lambda>s. let (j, s') = draw s (Suc (Suc i)) in (Inr j, s'))
       (\<lambda>j. shuffle_from draw i (swap_at (Suc i) j xs))"

definition py_shuffle :: "('s \<Rightarrow> nat \<Rightarrow> nat \<times> 's) \<Rightarrow> 'a list \<Rightarrow> ('s, 'a list) op" where
  "py_shuffle draw xs = shuffle_from draw (length xs - 1) xs"

text \<open>\<open>randrange(i, n)\<close>, used with \<open>i < n\<close> only.\<close>

definition randrange :: "('s \<Rightarrow> nat \<Rightarrow> nat \<times> 's) \<Rightarrow> nat \<Rightarrow> nat \<Rightarrow> ('s, nat) op" where
  "randrange draw i n = (\<lambda>s. let (j, s') = draw s (n - i) in (Inr (i + j), s'))"

text \<open>The loop \<open>for i in range(count)\<close> of the follow-up draw, from \<open>i\<close> with \<open>k\<close> rounds left.\<close>

fun pick_loop :: "('s \<Rightarrow> nat \<Rightarrow> nat \<times> 's) \<Rightarrow> nat \<Rightarrow> nat \<Rightarrow> 'a list \<Rightarrow> ('s, 'a list) op" where
  "pick_loop draw i 0 xs = op_return xs"
| "pick_loop draw i (Suc k) xs =
     op_bind (randrange draw i (length xs)) (\<lambda>j. pick_loop draw (Suc i) k (swap_at i j xs))"

definition pick_follow_ups ::
  "('s \<Rightarrow> nat \<Rightarrow> nat \<times> 's) \<Rightarrow> QuestionBankFollowUp list \<Rightarrow> int \<Rightarrow> ('s, QuestionBankFollowUp list) op" where
  "pick_follow_ups draw pool fu_count =
     (if fu_count \<le> 0 then op_return []
      else if int (length pool) < fu_count then
        op_raise (BusinessException INTERVIEW_QUESTION_INSUFFICIENT
          ([36861, 38382, 27744, 22312, 32452, 35013, 38754, 35797, 26102, 21457, 29983, 21464, 21270, 65292, 26080, 27861, 20005, 26684, 25277, 21462, 32] @ int_str fu_count @ [32, 20010, 36861, 38382]))
      else if int (length pool) = fu_count then op_return pool
      else op_bind (pick_loop draw 0 (nat fu_count) pool) (\<lambda>copy. op_return (take (nat fu_count) copy)))"

definition build_insufficient_message :: "int \<Rightarrow> int \<Rightarrow> pystr option \<Rightarrow> pystr \<Rightarrow> int \<Rightarrow> pystr" where
  "build_insufficient_message required_count available_count category difficulty follow_up_count =
     (let direction = (case category of Some c \<Rightarrow> c | None \<Rightarrow> [20840, 37096, 26041, 21521])
      in [38656, 35201, 32] @ int_str required_count @ [32, 36947, 20027, 38382, 39064, 65292, 20294, 21482, 26377, 32] @ int_str available_count
         @ [32, 36947, 21516, 26102, 28385, 36275, 65306, 26041, 21521, 61] @ direction @ [12289, 38590, 24230, 61] @ difficulty @ [12289, 27599, 39064, 33267, 23569, 32]
         @ int_str follow_up_count @ [32, 20010, 36861, 38382])"

section \<open>Assembly\<close>

definition main_entry :: "nat \<Rightarrow> QuestionCandidate \<Rightarrow> InterviewQuestion" where
  "main_entry n c =
     (mk_question (int n) (qc_question c) (default_string (qc_type c) FALLBACK_TYPE)
        (default_string (qc_category c) FALLBACK_CATEGORY))
       \<lparr>q_topic_summary := qc_topic_summary c, q_reference_answer := qc_reference_answer c,
        q_key_points := qc_key_points c, q_scoring_rubric := qc_scoring_rubric c,
        q_source_context := qc_source_context c\<rparr>"

definition follow_up_entry :: "nat \<Rightarrow> nat \<Rightarrow> QuestionCandidate \<Rightarrow> QuestionBankFollowUp \<Rightarrow> InterviewQuestion" where
  "follow_up_entry main_index n c f =
     (mk_question (int n) (bf_question f) (default_string (qc_type c) FALLBACK_TYPE)
        (default_string (qc_category c) FALLBACK_FOLLOW_UP_CATEGORY))
       \<lparr>q_topic_summary := qc_topic_summary c, q_is_follow_up := True,
        q_parent_question_index := Some (int main_index), q_reference_answer := bf_reference_answer f,
        q_key_points := bf_key_points f, q_scoring_rubric := bf_scoring_rubric f,
        q_source_context := qc_source_context c\<rparr>"

fun append_follow_ups :: "nat \<Rightarrow> QuestionCandidate \<Rightarrow> QuestionBankFollowUp list \<Rightarrow> InterviewQuestion list \<Rightarrow> InterviewQuestion list" where
  "append_follow_ups main_index c [] questions = questions"
| "append_follow_ups main_index c (f # fs) questions =
     append_follow_ups main_index c fs (questions @ [follow_up_entry main_index (length questions) c f])"

fun assemble_loop :: "('s \<Rightarrow> nat \<Rightarrow> nat \<times> 's) \<Rightarrow> int \<Rightarrow> QuestionCandidate list \<Rightarrow> InterviewQuestion list
    \<Rightarrow> ('s, InterviewQuestion list) op" where
  "assemble_loop draw follow_up_count [] questions = op_return questions"
| "assemble_loop draw follow_up_count (c # cs) questions =
     (let main_index = length questions
      in op_bind (pick_follow_ups draw (qc_follow_ups c) follow_up_count)
           (\<lambda>fs. assemble_loop draw follow_up_count cs
              (append_follow_ups main_index c fs (questions @ [main_entry main_index c]))))"

definition eligible :: "int \<Rightarrow> QuestionCandidate list \<Rightarrow> QuestionCandidate list" where
  "eligible follow_up_count candidates = filter (\<lambda>c. follow_up_count \<le> int (length (qc_follow_ups c))) candidates"

definition assemble_interview_questions ::
  "('s \<Rightarrow> nat \<Rightarrow> nat \<times> 's) \<Rightarrow> QuestionCandidate list \<Rightarrow> int \<Rightarrow> int \<Rightarrow> pystr \<Rightarrow> pystr option
     \<Rightarrow> ('s, InterviewQuestion list) op" where
  "assemble_interview_questions draw candidates main_count follow_up_count difficulty category =
     (let el = eligible follow_up_count candidates
      in if int (length el) < main_count then
           op_raise (BusinessException INTERVIEW_QUESTION_INSUFFICIENT
             (build_insufficient_message main_count (int (length el)) category difficulty follow_up_count))
         else op_bind (py_shuffle draw el)
           (\<lambda>shuffled. assemble_loop draw follow_up_count (py_slice_to main_count shuffled) []))"

section \<open>Capacity preview\<close>

fun category_counts :: "QuestionCandidate list \<Rightarrow> (pystr, int) dict \<Rightarrow> (pystr, int) dict" where
  "category_counts [] counts = counts"
| "category_counts (c # cs) counts =
     category_counts cs (case trim_to_none (qc_category c) of
        None \<Rightarrow> counts
      | Some name \<Rightarrow> dict_set name (dict_get_default counts name 0 + 1) counts)"

definition scoped :: "pystr option \<Rightarrow> QuestionCandidate list \<Rightarrow> QuestionCandidate list" where
  "scoped category cs = filter (\<lambda>c. category = None \<or> qc_category c = category) cs"

definition calculate_interview_capacity ::
  "QuestionCandidate list \<Rightarrow> pystr option \<Rightarrow> int \<Rightarrow> int \<Rightarrow> CategoryOption list \<times> FollowUpOption list" where
  "calculate_interview_capacity all_candidates category main_count max_follow_up =
     (map (\<lambda>(name, n). \<lparr>co_category = name, co_available_question_count = n\<rparr>)
        (sort_key (\<lambda>item. (- snd item, fst item)) (category_counts all_candidates [])),
      map (\<lambda>n. let available = int (length (filter (\<lambda>c. n \<le> int (length (qc_follow_ups c))) (scoped category all_candidates)))
               in \<lparr>fo_follow_up_count = n, fo_available_question_count = available,
                   fo_selectable = (main_count > 0 \<and> available \<ge> main_count)\<rparr>)
        [0 .. max_follow_up])"

section \<open>Reference answers of the bank\<close>

definition has_question_reference :: "InterviewQuestion \<Rightarrow> bool" where
  "has_question_reference q \<longleftrightarrow> trim_to_none (q_reference_answer q) \<noteq> None \<or> q_key_points q \<noteq> []
     \<or> trim_to_none (q_scoring_rubric q) \<noteq> None"

definition reference_section :: "InterviewQuestion \<Rightarrow> pystr" where
  "reference_section q = py_join [10]
     ([[38382, 39064] @ int_str (q_question_index q + 1) @ [58, 32] @ q_question q]
      @ (case trim_to_none (q_reference_answer q) of None \<Rightarrow> [] | Some a \<Rightarrow> [[21442, 32771, 31572, 26696, 58, 32] @ a])
      @ (if q_key_points q = [] then [] else [[35780, 20998, 35201, 28857, 58, 32] @ py_join [12289] (q_key_points q)])
      @ (case trim_to_none (q_scoring_rubric q) of None \<Rightarrow> [] | Some r \<Rightarrow> [[35780, 20998, 35268, 21017, 58, 32] @ r]))"

definition build_question_reference_context :: "InterviewQuestion list \<Rightarrow> pystr" where
  "build_question_reference_context questions =
     (let sections = map reference_section (filter has_question_reference questions)
      in if sections = [] then [] else py_join [10, 10] sections @ [10])"

definition question_map :: "InterviewQuestion list \<Rightarrow> (int, InterviewQuestion) dict" where
  "question_map questions = fold (\<lambda>q d. dict_set (q_question_index q) q d) questions []"

text \<open>One reference answer: the entry to append, and whether it was replaced.\<close>

definition override_reference :: "(int, InterviewQuestion) dict \<Rightarrow> ReferenceAnswer \<Rightarrow> ReferenceAnswer \<times> bool" where
  "override_reference qm reference =
     (case dict_get qm (ra_question_index reference) of
        None \<Rightarrow> (reference, False)
      | Some q \<Rightarrow>
          (case q_reference_answer q of
             None \<Rightarrow> (reference, False)
           | Some bank_answer \<Rightarrow>
               if blank bank_answer then (reference, False)
               else (\<lparr>ra_question_index = ra_question_index reference, ra_question = ra_question reference,
                      ra_reference_answer = bank_answer, ra_key_points = q_key_points q\<rparr>, True)))"

definition apply_question_references :: "EvaluationReport \<Rightarrow> InterviewQuestion list \<Rightarrow> EvaluationReport" where
  "apply_question_references report questions =
     (let outs = map (override_reference (question_map questions)) (er_reference_answers report)
      in if \<not> list_ex snd outs then report
         else report\<lparr>er_reference_answers := map fst outs\<rparr>)"

section \<open>Correctness of the assembly\<close>

lemma length_swap_at [simp]: "length (swap_at i j xs) = length xs"
  by (simp add: swap_at_def)

lemma mset_swap_at [simp]: "i < length xs \<Longrightarrow> j < length xs \<Longrightarrow> mset (swap_at i j xs) = mset xs"
  using mset_swap [of j xs i] by (simp add: swap_at_def)

lemma random_ok_draw: "random_ok draw \<Longrightarrow> draw s (Suc n) = (j, s') \<Longrightarrow> j \<le> n"
  unfolding random_ok_def by (metis fst_conv less_Suc_eq_le zero_less_Suc)

lemma shuffle_from_mset:
  assumes "random_ok draw" "i < length xs \<or> i = 0"
  shows "\<exists>ys s'. shuffle_from draw i xs s = (Inr ys, s') \<and> mset ys = mset xs"
  using assms(2)
proof (induction i arbitrary: xs s)
  case 0
  then show ?case by (simp add: op_simps)
next
  case (Suc i)
  obtain j s1 where j: "draw s (Suc (Suc i)) = (j, s1)" by fastforce
  with assms(1) have "j \<le> Suc i" by (rule random_ok_draw)
  with Suc.prems have m: "mset (swap_at (Suc i) j xs) = mset xs" by simp
  from Suc.IH [of "swap_at (Suc i) j xs" s1] Suc.prems
  show ?case by (auto simp: op_simps j m)
qed

lemma py_shuffle_mset:
  "random_ok draw \<Longrightarrow> \<exists>ys s'. py_shuffle draw xs s = (Inr ys, s') \<and> mset ys = mset xs"
  unfolding py_shuffle_def by (rule shuffle_from_mset) auto

lemma pick_loop_mset:
  assumes "random_ok draw" "i + k \<le> length xs"
  shows "\<exists>ys s'. pick_loop draw i k xs s = (Inr ys, s') \<and> mset ys = mset xs"
  using assms(2)
proof (induction k arbitrary: i xs s)
  case 0
  then show ?case by (simp add: op_simps)
next
  case (Suc k)
  obtain j s1 where j: "draw s (length xs - i) = (j, s1)" by fastforce
  obtain m where m: "length xs - i = Suc m" using Suc.prems by (cases "length xs - i") auto
  with assms(1) j have "j \<le> m" by (metis random_ok_draw)
  with m have "i + j < length xs" by linarith
  with Suc.prems have ms: "mset (swap_at i (i + j) xs) = mset xs" by simp
  from Suc.IH [of "Suc i" "swap_at i (i + j) xs" s1] Suc.prems
  show ?case by (auto simp: op_simps randrange_def j ms)
qed

lemma mset_take_subset: "mset ys = mset xs \<Longrightarrow> mset (take n ys) \<subseteq># mset xs"
  by (metis append_take_drop_id mset_append mset_subset_eq_add_left)

lemma pick_follow_ups_spec:
  assumes "random_ok draw" "n \<le> int (length pool)"
  shows "\<exists>fs s'. pick_follow_ups draw pool n s = (Inr fs, s') \<and> length fs = nat n \<and> mset fs \<subseteq># mset pool"
proof (cases "n \<le> 0 \<or> int (length pool) = n")
  case True
  with assms show ?thesis by (auto simp: pick_follow_ups_def op_simps)
next
  case False
  then have "0 + nat n \<le> length pool" using assms(2) by linarith
  from pick_loop_mset [OF assms(1) this] obtain ys s' where
    ys: "pick_loop draw 0 (nat n) pool s = (Inr ys, s')" "mset ys = mset pool" by blast
  then have "length ys = length pool" by (metis size_mset)
  with ys False assms(2) show ?thesis
    by (auto simp: pick_follow_ups_def op_simps intro: mset_take_subset)
qed

text \<open>The paper as a function of the choices alone.\<close>

fun bank_layout :: "(QuestionCandidate \<times> QuestionBankFollowUp list) list \<Rightarrow> nat \<Rightarrow> InterviewQuestion list" where
  "bank_layout [] n = []"
| "bank_layout ((c, fs) # ch) n =
     main_entry n c # map (\<lambda>(i, f). follow_up_entry n i c f) (List.enumerate (Suc n) fs)
     @ bank_layout ch (n + 1 + length fs)"

definition valid_choice :: "int \<Rightarrow> QuestionCandidate \<times> QuestionBankFollowUp list \<Rightarrow> bool" where
  "valid_choice n = (\<lambda>(c, fs). length fs = nat n \<and> mset fs \<subseteq># mset (qc_follow_ups c))"

lemma append_follow_ups_eq:
  "append_follow_ups m c fs qs = qs @ map (\<lambda>(i, f). follow_up_entry m i c f) (List.enumerate (length qs) fs)"
  by (induction m c fs qs rule: append_follow_ups.induct) simp_all

lemma assemble_loop_spec:
  assumes "random_ok draw" "\<forall>c \<in> set cs. n \<le> int (length (qc_follow_ups c))"
  shows "\<exists>ch s'. assemble_loop draw n cs qs s = (Inr (qs @ bank_layout ch (length qs)), s')
    \<and> map fst ch = cs \<and> list_all (valid_choice n) ch"
  using assms(2)
proof (induction cs arbitrary: qs s)
  case Nil
  then show ?case by (simp add: op_simps)
next
  case (Cons c cs)
  obtain fs s1 where fs: "pick_follow_ups draw (qc_follow_ups c) n s = (Inr fs, s1)"
    "length fs = nat n" "mset fs \<subseteq># mset (qc_follow_ups c)"
    using pick_follow_ups_spec [OF assms(1)] Cons.prems by fastforce
  define qs' where "qs' = append_follow_ups (length qs) c fs (qs @ [main_entry (length qs) c])"
  from Cons obtain ch s' where ch: "assemble_loop draw n cs qs' s1 = (Inr (qs' @ bank_layout ch (length qs')), s')"
    "map fst ch = cs" "list_all (valid_choice n) ch" by fastforce
  have "qs' @ bank_layout ch (length qs') = qs @ bank_layout ((c, fs) # ch) (length qs)"
    by (simp add: qs'_def append_follow_ups_eq)
  with ch(1) have A: "assemble_loop draw n cs qs' s1 = (Inr (qs @ bank_layout ((c, fs) # ch) (length qs)), s')"
    by (simp only:)
  have "assemble_loop draw n (c # cs) qs s = (Inr (qs @ bank_layout ((c, fs) # ch) (length qs)), s')"
    by (simp add: Let_def op_simps fs(1) A [unfolded qs'_def] del: bank_layout.simps)
  moreover have "list_all (valid_choice n) ((c, fs) # ch)" using fs ch by (simp add: valid_choice_def)
  ultimately show ?case using ch(2) by (intro exI [of _ "(c, fs) # ch"] exI [of _ s']) simp
qed

lemma entry_simps [simp]:
  "q_question_index (main_entry n c) = int n" "\<not> q_is_follow_up (main_entry n c)"
  "q_parent_question_index (main_entry n c) = None"
  "q_type (main_entry n c) = default_string (qc_type c) FALLBACK_TYPE"
  "q_question_index (follow_up_entry m n c f) = int n" "q_is_follow_up (follow_up_entry m n c f)"
  "q_parent_question_index (follow_up_entry m n c f) = Some (int m)"
  "q_type (follow_up_entry m n c f) = default_string (qc_type c) FALLBACK_TYPE"
  by (simp_all add: main_entry_def follow_up_entry_def)

lemma well_numbered_block:
  assumes "well_numbered qs"
  shows "well_numbered (qs @ main_entry (length qs) c
    # map (\<lambda>(i, f). follow_up_entry (length qs) i c f) (List.enumerate (Suc (length qs)) fs))"
  (is "well_numbered ?l")
  unfolding well_numbered_def
proof (intro allI impI)
  fix i assume "i < length ?l"
  then consider "i < length qs" | "i = length qs" | "length qs < i" "i < length qs + 1 + length fs"
    by fastforce
  then show "q_question_index (?l ! i) = int i \<and>
     (if q_is_follow_up (?l ! i)
      then (\<exists>p < i. q_parent_question_index (?l ! i) = Some (int p) \<and> \<not> q_is_follow_up (?l ! p)
              \<and> q_type (?l ! i) = q_type (?l ! p))
      else q_parent_question_index (?l ! i) = None)"
  proof cases
    case 1
    with assms show ?thesis
      unfolding well_numbered_def by (auto simp: nth_append split: if_splits) (meson less_trans)+
  next
    case 2
    then show ?thesis by simp
  next
    case 3
    define j where "j = i - length qs - 1"
    have j: "i = length qs + 1 + j" "j < length fs" using 3 by (simp_all add: j_def)
    have "?l ! i = follow_up_entry (length qs) i c (fs ! j)"
      using j by (simp add: nth_append nth_enumerate_eq)
    moreover have "?l ! length qs = main_entry (length qs) c" by simp
    ultimately show ?thesis
      using j by simp
  qed
qed

lemma well_numbered_layout: "well_numbered qs \<Longrightarrow> well_numbered (qs @ bank_layout ch (length qs))"
proof (induction ch arbitrary: qs)
  case (Cons cf ch)
  obtain c fs where cf: "cf = (c, fs)" by (cases cf)
  define qs' where "qs' = qs @ main_entry (length qs) c
    # map (\<lambda>(i, f). follow_up_entry (length qs) i c f) (List.enumerate (Suc (length qs)) fs)"
  have "well_numbered qs'" unfolding qs'_def by (rule well_numbered_block [OF Cons.prems])
  then have "well_numbered (qs' @ bank_layout ch (length qs'))" by (rule Cons.IH)
  moreover have "qs' @ bank_layout ch (length qs') = qs @ bank_layout (cf # ch) (length qs)"
    by (simp add: qs'_def cf)
  ultimately show ?case by simp
qed simp

lemma bank_layout_length:
  "list_all (valid_choice n) ch \<Longrightarrow> length (bank_layout ch k) = length ch * Suc (nat n)"
  by (induction ch k rule: bank_layout.induct) (simp_all add: valid_choice_def)

lemma assemble_cases:
  assumes "random_ok draw"
  shows "case fst (assemble_interview_questions draw cands main_count fu_count difficulty category s) of
      Inl e \<Rightarrow> int (length (eligible fu_count cands)) < main_count
        \<and> e = BusinessException INTERVIEW_QUESTION_INSUFFICIENT
            (build_insufficient_message main_count (int (length (eligible fu_count cands))) category difficulty fu_count)
    | Inr qs \<Rightarrow> main_count \<le> int (length (eligible fu_count cands))
        \<and> well_numbered qs
        \<and> (\<exists>ch. qs = bank_layout ch 0 \<and> mset (map fst ch) \<subseteq># mset (eligible fu_count cands)
             \<and> list_all (valid_choice fu_count) ch
             \<and> (if 0 \<le> main_count then length ch = nat main_count \<and> length qs = nat main_count * Suc (nat fu_count) else True))"
proof (cases "int (length (eligible fu_count cands)) < main_count")
  case True
  then show ?thesis by (simp add: assemble_interview_questions_def op_simps)
next
  case False
  let ?el = "eligible fu_count cands"
  obtain sh s1 where sh: "py_shuffle draw ?el s = (Inr sh, s1)" "mset sh = mset ?el"
    using py_shuffle_mset [OF assms] by blast
  have sl: "\<exists>m. py_slice_to main_count sh = take m sh" by (auto simp: py_slice_to_def)
  then have sub: "mset (py_slice_to main_count sh) \<subseteq># mset ?el" using mset_take_subset [OF sh(2)] by auto
  then have "\<forall>c \<in> set (py_slice_to main_count sh). fu_count \<le> int (length (qc_follow_ups c))"
    by (auto simp: eligible_def dest!: mset_subset_eqD)
  from assemble_loop_spec [OF assms this, of "[]" s1] obtain ch s' where
    ch: "assemble_loop draw fu_count (py_slice_to main_count sh) [] s1 = (Inr (bank_layout ch 0), s')"
      "map fst ch = py_slice_to main_count sh" "list_all (valid_choice fu_count) ch" by auto
  have "length sh = length ?el" using sh(2) by (metis size_mset)
  then have len: "0 \<le> main_count \<Longrightarrow> length ch = nat main_count"
    using ch(2) False length_py_slice_to [of main_count sh] by (metis length_map min.absorb1 nat_int not_le)
  have "assemble_interview_questions draw cands main_count fu_count difficulty category s = (Inr (bank_layout ch 0), s')"
    using False sh ch by (simp add: assemble_interview_questions_def op_simps Let_def)
  moreover have "well_numbered (bank_layout ch 0)" using well_numbered_layout [of "[]" ch] by simp
  moreover have "\<exists>ch'. bank_layout ch 0 = bank_layout ch' 0 \<and> mset (map fst ch') \<subseteq># mset ?el
      \<and> list_all (valid_choice fu_count) ch'
      \<and> (if 0 \<le> main_count then length ch' = nat main_count \<and> length (bank_layout ch 0) = nat main_count * Suc (nat fu_count) else True)"
    using ch(2,3) sub len bank_layout_length [OF ch(3), of 0] by (intro exI [of _ ch]) (simp del: mset_map)
  ultimately show ?thesis
    using False by (simp del: mset_map)
qed

text \<open>
  C33. Assembling a paper from the bank, for every random source: it fails with the
  "insufficient questions" error exactly when fewer candidates than requested have enough
  follow-ups. Otherwise the paper is the layout of a choice of \<open>main_count\<close> different bank
  questions, each with exactly \<open>follow_up_count\<close> different follow-ups from its own pool; it has
  \<open>main_count * (1 + follow_up_count)\<close> questions and is numbered and linked correctly.
\<close>
theorem assemble_interview_questions_spec:
  assumes "random_ok draw"
  shows "case fst (assemble_interview_questions draw cands main_count fu_count difficulty category s) of
      Inl e \<Rightarrow> int (length (eligible fu_count cands)) < main_count
        \<and> e = BusinessException INTERVIEW_QUESTION_INSUFFICIENT
            (build_insufficient_message main_count (int (length (eligible fu_count cands))) category difficulty fu_count)
    | Inr qs \<Rightarrow> main_count \<le> int (length (eligible fu_count cands))
        \<and> well_numbered qs
        \<and> (\<exists>ch. qs = bank_layout ch 0 \<and> mset (map fst ch) \<subseteq># mset (eligible fu_count cands)
             \<and> list_all (valid_choice fu_count) ch
             \<and> (if 0 \<le> main_count then length ch = nat main_count \<and> length qs = nat main_count * Suc (nat fu_count) else True))"
  by (rule assemble_cases [OF assms])

lemma random_ok_mod: "random_ok (\<lambda>s n. (s mod n, s div n))"
  by (simp add: random_ok_def)

definition sample_candidate :: QuestionCandidate where
  "sample_candidate = \<lparr>qc_question = ascii ''Q'', qc_type = None, qc_category = Some (ascii ''Redis''),
     qc_topic_summary = None, qc_reference_answer = None, qc_key_points = [], qc_scoring_rubric = None,
     qc_source_context = None,
     qc_follow_ups = [\<lparr>bf_question = ascii ''F'', bf_reference_answer = None, bf_key_points = [], bf_scoring_rubric = None\<rparr>]\<rparr>"

lemma assemble_interview_questions_spec_witness:
  "random_ok (\<lambda>s n. (s mod n, s div n)) \<and>
   (\<exists>qs. fst (assemble_interview_questions (\<lambda>s n. (s mod n, s div n)) [sample_candidate, sample_candidate] 2 1
        (ascii ''mid'') None (7 :: nat)) = Inr qs \<and> well_numbered qs \<and> length qs = 4)"
  using assemble_interview_questions_spec [OF random_ok_mod, where cands = "[sample_candidate, sample_candidate]"
      and main_count = 2 and fu_count = 1 and difficulty = "ascii ''mid''" and category = None and s = 7]
  by (auto simp: random_ok_mod eligible_def sample_candidate_def split: sum.splits)

section \<open>Correctness of the preview\<close>

definition in_category :: "pystr \<Rightarrow> QuestionCandidate list \<Rightarrow> int" where
  "in_category name cs = int (length (filter (\<lambda>c. trim_to_none (qc_category c) = Some name) cs))"

lemma category_counts_wf: "dict_wf d \<Longrightarrow> dict_wf (category_counts cs d)"
  by (induction cs d rule: category_counts.induct) (simp split: option.splits)+

lemma category_counts_get:
  "dict_get (category_counts cs d) name =
     (if in_category name cs = 0 then dict_get d name else Some (dict_get_default d name 0 + in_category name cs))"
proof (induction cs d rule: category_counts.induct)
  case (1 counts)
  then show ?case by (simp add: in_category_def)
next
  case (2 c cs counts)
  then show ?case
    by (cases "trim_to_none (qc_category c)")
      (auto simp: in_category_def dict_get_default_def split: option.splits)
qed

lemma map_of_sort_key:
  assumes "dict_wf d"
  shows "map_of (sort_key f d) = map_of d"
proof -
  have "mset (map fst (sort_key f d)) = mset (map fst d)" by simp
  then have "dict_wf (sort_key f d)" using assms by (metis mset_eq_imp_distinct_iff)
  then show ?thesis using assms by (simp add: map_of_inject_set)
qed

abbreviation category_table :: "CategoryOption list \<Rightarrow> (pystr \<times> int) list" where
  "category_table cats \<equiv> map (\<lambda>c. (co_category c, co_available_question_count c)) cats"

text \<open>
  The directions offered to the user: each trimmed, non-blank category appears once, with
  the number of bank questions that carry it and never with none, and the list is ordered by
  falling count, equal counts by the text of the category.
\<close>
theorem capacity_categories_exact:
  "(\<lambda>cats. dict_wf (category_table cats)
      \<and> map_of (category_table cats) = (\<lambda>name. if in_category name cs = 0 then None else Some (in_category name cs))
      \<and> sorted (map (\<lambda>c. (- co_available_question_count c, co_category c)) cats))
   (fst (calculate_interview_capacity cs category main_count mx))"
proof -
  let ?d = "category_counts cs []" and ?k = "\<lambda>item. (- snd item, fst item) :: int \<times> pystr"
  let ?cats = "fst (calculate_interview_capacity cs category main_count mx)"
  have wf: "dict_wf ?d" by (simp add: category_counts_wf)
  have tab: "category_table ?cats = sort_key ?k ?d"
    by (simp add: calculate_interview_capacity_def case_prod_unfold comp_def)
  have "mset (map fst (sort_key ?k ?d)) = mset (map fst ?d)" by simp
  then have "dict_wf (sort_key ?k ?d)" using wf by (metis mset_eq_imp_distinct_iff)
  moreover have "map_of (sort_key ?k ?d) = (\<lambda>name. if in_category name cs = 0 then None else Some (in_category name cs))"
    by (rule ext) (simp add: map_of_sort_key [OF wf] category_counts_get dict_get_default_def)
  moreover have "map (\<lambda>c. (- co_available_question_count c, co_category c)) ?cats = map ?k (sort_key ?k ?d)"
    by (simp add: calculate_interview_capacity_def case_prod_unfold comp_def)
  ultimately show ?thesis by (simp only: tab) simp
qed

lemma selectable_iff_assembles:
  assumes "random_ok draw" "0 < main_count" "0 \<le> n" "n \<le> mx"
  shows "fo_selectable (snd (calculate_interview_capacity cs category main_count mx) ! nat n) \<longleftrightarrow>
    (\<exists>qs. fst (assemble_interview_questions draw (scoped category cs) main_count n difficulty direction s) = Inr qs)"
proof -
  have "[0..mx] ! nat n = n" using assms by (simp add: nth_upto)
  then have "fo_selectable (snd (calculate_interview_capacity cs category main_count mx) ! nat n)
      \<longleftrightarrow> main_count \<le> int (length (eligible n (scoped category cs)))"
    using assms by (simp add: calculate_interview_capacity_def Let_def eligible_def)
  with assemble_cases [OF assms(1), where cands = "scoped category cs" and main_count = main_count
      and fu_count = n and difficulty = difficulty and category = direction and s = s]
  show ?thesis by (auto split: sum.splits)
qed

text \<open>
  The preview tells the truth: a follow-up level is offered as selectable exactly when
  assembling that paper from the same candidates succeeds, whatever the random source does.
\<close>
theorem capacity_predicts_assembly:
  assumes "random_ok draw" "0 < main_count" "0 \<le> n" "n \<le> mx"
  shows "fo_selectable (snd (calculate_interview_capacity cs category main_count mx) ! nat n) \<longleftrightarrow>
    (\<exists>qs. fst (assemble_interview_questions draw (scoped category cs) main_count n difficulty direction s) = Inr qs)"
  by (rule selectable_iff_assembles [OF assms])

lemma capacity_predicts_assembly_witness:
  "\<exists>qs. fst (assemble_interview_questions (\<lambda>s n. (s mod n, s div n)) (scoped None [sample_candidate]) 1 1
      (ascii ''mid'') None (3 :: nat)) = Inr qs"
  using capacity_predicts_assembly [OF random_ok_mod, where main_count = 1 and n = 1 and mx = 5
      and cs = "[sample_candidate]" and category = None and difficulty = "ascii ''mid''" and direction = None and s = 3]
  by (simp add: calculate_interview_capacity_def scoped_def sample_candidate_def upto.simps)

section \<open>Correctness of the reference override\<close>

text \<open>The bank's answer for an index: of the last question with that index, when it has one.\<close>

definition bank_answer :: "InterviewQuestion list \<Rightarrow> int \<Rightarrow> (pystr \<times> pystr list) option" where
  "bank_answer qs i =
     (case find (\<lambda>q. q_question_index q = i) (rev qs) of
        None \<Rightarrow> None
      | Some q \<Rightarrow> (case q_reference_answer q of
          None \<Rightarrow> None | Some a \<Rightarrow> if blank a then None else Some (a, q_key_points q)))"

lemma question_map_get: "dict_get (question_map qs) i = find (\<lambda>q. q_question_index q = i) (rev qs)"
  by (induction qs rule: rev_induct) (auto simp: question_map_def)

lemma override_reference_eq:
  "fst (override_reference (question_map qs) r) =
     (case bank_answer qs (ra_question_index r) of
        None \<Rightarrow> r | Some (a, kp) \<Rightarrow> r\<lparr>ra_reference_answer := a, ra_key_points := kp\<rparr>)"
  "snd (override_reference (question_map qs) r) \<longleftrightarrow> bank_answer qs (ra_question_index r) \<noteq> None"
  by (auto simp: override_reference_def question_map_get bank_answer_def split: option.split)

text \<open>
  Overriding with the bank's answers: every reference answer of the report whose index
  has a non-blank bank answer gets that answer and its key points, every other one is kept,
  no entry is added or dropped and nothing else in the report changes; doing it twice is
  doing it once.
\<close>
theorem apply_question_references_spec:
  "apply_question_references r qs = r\<lparr>er_reference_answers :=
       map (\<lambda>ra. case bank_answer qs (ra_question_index ra) of
          None \<Rightarrow> ra | Some (a, kp) \<Rightarrow> ra\<lparr>ra_reference_answer := a, ra_key_points := kp\<rparr>) (er_reference_answers r)\<rparr>
   \<and> apply_question_references (apply_question_references r qs) qs = apply_question_references r qs"
proof -
  define f where "f = (\<lambda>ra :: ReferenceAnswer. case bank_answer qs (ra_question_index ra) of
          None \<Rightarrow> ra | Some (a, kp) \<Rightarrow> ra\<lparr>ra_reference_answer := a, ra_key_points := kp\<rparr>)"
  have eq: "apply_question_references r qs = r\<lparr>er_reference_answers := map f (er_reference_answers r)\<rparr>" for r
  proof (cases "list_ex snd (map (override_reference (question_map qs)) (er_reference_answers r))")
    case True
    then show ?thesis by (simp add: apply_question_references_def Let_def override_reference_eq comp_def f_def)
  next
    case False
    then have "map f (er_reference_answers r) = er_reference_answers r"
      by (intro map_idI) (auto simp: list_ex_iff override_reference_eq f_def split: option.split)
    with False show ?thesis by (simp add: apply_question_references_def)
  qed
  have "f (f ra) = f ra" for ra by (cases "bank_answer qs (ra_question_index ra)") (auto simp: f_def)
  then have "apply_question_references (apply_question_references r qs) qs = apply_question_references r qs"
    by (simp add: eq comp_def)
  then show ?thesis by (simp add: eq f_def)
qed

lemma py_contains_join: "s \<in> set ss \<Longrightarrow> \<exists>a b. py_join sep ss = a @ s @ b"
proof (induction sep ss rule: py_join.induct)
  case (2 sep t)
  then show ?case by (intro exI [of _ "[]"] exI [of _ "[]"]) simp
next
  case (3 sep s' t ts)
  show ?case
  proof (cases "s = s'")
    case True
    then show ?thesis by (intro exI [of _ "[]"] exI [of _ "sep @ py_join sep (t # ts)"]) simp
  next
    case False
    with 3 obtain a b where "py_join sep (t # ts) = a @ s @ b" by auto
    then show ?thesis by (intro exI [of _ "s' @ sep @ a"] exI [of _ b]) simp
  qed
qed auto

text \<open>
  The reference context is empty exactly when no question carries a reference, and
  otherwise it contains the section of every question that does.
\<close>
theorem reference_context_complete:
  "(build_question_reference_context qs = [] \<longleftrightarrow> filter has_question_reference qs = [])
   \<and> filter (\<lambda>q. has_question_reference q \<and> \<not> py_contains (reference_section q) (build_question_reference_context qs)) qs = []"
proof -
  have "py_contains (reference_section q) (build_question_reference_context qs)"
    if "q \<in> set qs" "has_question_reference q" for q
  proof -
    let ?ss = "map reference_section (filter has_question_reference qs)"
    have "reference_section q \<in> set ?ss" using that by simp
    moreover from this have "?ss \<noteq> []" by (metis empty_iff list.set(1))
    moreover obtain a b where "py_join [10, 10] ?ss = a @ reference_section q @ b"
      using py_contains_join calculation(1) by blast
    ultimately have "build_question_reference_context qs = a @ reference_section q @ (b @ [10])"
      by (simp only: build_question_reference_context_def Let_def if_False append_assoc)
    then show ?thesis unfolding py_contains_iff by blast
  qed
  then show ?thesis by (auto simp: filter_empty_conv build_question_reference_context_def Let_def)
qed

end
