(* ===== verification/Evaluate_Consumer.thy ===== *)
theory Evaluate_Consumer
  imports Interview_Store Stream_Consumer Evaluation_Graph Question_Bank
begin

text \<open>
  \<open>base_evaluate_consumer.py\<close> with the hooks of \<open>interview_evaluate_consumer.py\<close>: the handlers
  of the interview evaluation stream on the interview world. The chat client of a provider
  (\<open>chat_client\<close>, raising when none can be built) and the two compiled evaluation graphs
  (\<open>graph\<close>, by the flag "knowledge base graph") are parameters.
\<close>

definition evaluate_done :: "SessionRow \<Rightarrow> bool" where
  "evaluate_done r \<longleftrightarrow> is_evaluate_status r = Some (task_status_value T_COMPLETED)"

definition parse_payload :: "stream_message \<Rightarrow> pystr option result" where
  "parse_payload data = Inr (dict_get data SESSION_ID_FIELD)"

definition parse_retry_count :: "stream_message \<Rightarrow> int" where
  "parse_retry_count data =
     (case py_int (dict_get_default data FIELD_RETRY_COUNT (ascii ''0'')) of Inl e \<Rightarrow> 0 | Inr n \<Rightarrow> n)"

definition mark_processing :: "pystr \<Rightarrow> unit world_op" where
  "mark_processing sid = in_new_session (op_bind (find_by_session_id_optional sid) (\<lambda>orm.
     case orm of
       None \<Rightarrow> op_return ()
     | Some r \<Rightarrow> if evaluate_done r then op_return ()
         else op_then (repo_update_evaluate_status r (task_status_value T_PROCESSING) None) commit))"

definition build_session_qa_records :: "SessionRow \<Rightarrow> QaRecord list world_op" where
  "build_session_qa_records r =
     op_bind (op_lift (read_questions (or_str (is_questions_json r) (ascii ''[]'')))) (\<lambda>questions.
     op_bind (repo_find_answers_by_session_id (is_id r)) (\<lambda>answers.
     let answer_map = fold (\<lambda>a d. dict_set (ia_question_index a) (or_str (ia_user_answer a) []) d) answers []
     in op_return (build_qa_records (overlay_answers questions answer_map))))"

definition consumer_resume_text :: "int option \<Rightarrow> pystr option world_op" where
  "consumer_resume_text resume_id = (case resume_id of
     None \<Rightarrow> op_return None
   | Some i \<Rightarrow> op_bind (get_resume_text i) (\<lambda>t. op_return (case t of None \<Rightarrow> None | Some x \<Rightarrow> x)))"

definition build_reference_context :: "SessionRow \<Rightarrow> pystr option world_op" where
  "build_reference_context r =
     op_bind (op_lift (read_questions (or_str (is_questions_json r) (ascii ''[]'')))) (\<lambda>questions.
     let context = build_question_reference_context questions
     in op_return (if context = [] then None else Some context))"

definition is_kb_session :: "SessionRow \<Rightarrow> bool" where
  "is_kb_session r \<longleftrightarrow> or_str (Some (is_source_type r)) (ascii ''NORMAL'') = ascii ''KNOWLEDGE_BASE''"

definition detail_map :: "EvaluationReport \<Rightarrow> (int, QuestionEvaluation) dict" where
  "detail_map report = fold (\<lambda>d m. dict_set (qe_question_index d) d m) (er_question_details report) []"

definition ref_map :: "EvaluationReport \<Rightarrow> (int, ReferenceAnswer) dict" where
  "ref_map report = fold (\<lambda>r m. dict_set (ra_question_index r) r m) (er_reference_answers report) []"

definition persist_answer :: "EvaluationReport \<Rightarrow> AnswerRow \<Rightarrow> unit world_op" where
  "persist_answer report answer =
     (case dict_get (detail_map report) (ia_question_index answer) of
        None \<Rightarrow> op_return ()
      | Some detail \<Rightarrow>
          let ref = dict_get (ref_map report) (ia_question_index answer)
          in repo_update_answer_evaluation answer (qe_score detail) (qe_feedback detail)
               (case ref of Some r \<Rightarrow> ra_reference_answer r | None \<Rightarrow> [])
               (str_list_json (case ref of Some r \<Rightarrow> ra_key_points r | None \<Rightarrow> [])))"

definition persist_result :: "SessionRow \<Rightarrow> EvaluationReport \<Rightarrow> unit world_op" where
  "persist_result r report0 =
     op_bind (op_lift (read_questions (or_str (is_questions_json r) (ascii ''[]'')))) (\<lambda>questions.
     let report = apply_question_references report0 questions in
     op_bind (repo_find_answers_by_session_id (is_id r)) (\<lambda>answers.
     op_then (op_for answers (persist_answer report)) (repo_save_evaluation_result r report)))"

definition remember_degraded :: "pystr \<Rightarrow> EvaluationReport \<Rightarrow> unit world_op" where
  "remember_degraded sid report = op_modify (\<lambda>w. w\<lparr>w_degraded :=
     (if er_degraded_reasons report \<noteq> []
      then dict_set sid (truncate_error (py_join (ascii ''; '') (er_degraded_reasons report))) (w_degraded w)
      else AList.delete sid (w_degraded w))\<rparr>)"

definition pop_degraded :: "pystr \<Rightarrow> pystr option world_op" where
  "pop_degraded sid = (\<lambda>w. (Inr (dict_get (w_degraded w) sid), w\<lparr>w_degraded := AList.delete sid (w_degraded w)\<rparr>))"

type_synonym graph_fun = "bool \<Rightarrow> pystr \<Rightarrow> QaRecord list \<Rightarrow> pystr option \<Rightarrow> pystr option \<Rightarrow> EvaluationReport result"

definition process_business :: "(pystr option \<Rightarrow> unit result) \<Rightarrow> graph_fun \<Rightarrow> pystr \<Rightarrow> unit world_op" where
  "process_business chat_client graph sid = in_new_session (op_bind (find_by_session_id_optional sid) (\<lambda>orm.
     case orm of
       None \<Rightarrow> op_return ()
     | Some r \<Rightarrow>
         if evaluate_done r then op_return ()
         else
           op_bind (build_session_qa_records r) (\<lambda>qa_records.
           op_bind (consumer_resume_text (is_resume_id r)) (\<lambda>resume_text.
           op_then (op_lift (chat_client (is_llm_provider r)))
           (op_bind (build_reference_context r) (\<lambda>context.
           op_bind (op_lift (graph (is_kb_session r) sid qa_records resume_text context)) (\<lambda>report.
           op_then (persist_result r report) (op_then commit (remember_degraded sid report)))))))))"

definition mark_completed :: "pystr \<Rightarrow> unit world_op" where
  "mark_completed sid = in_new_session (op_bind (find_by_session_id_optional sid) (\<lambda>orm.
     op_bind (pop_degraded sid) (\<lambda>degraded.
     case orm of
       None \<Rightarrow> op_return ()
     | Some r \<Rightarrow> op_then (repo_update_evaluate_status r (task_status_value T_COMPLETED) degraded) commit)))"

definition mark_failed :: "pystr \<Rightarrow> pystr \<Rightarrow> unit world_op" where
  "mark_failed sid err = in_new_session (op_bind (pop_degraded sid) (\<lambda>_.
     op_bind (find_by_session_id_optional sid) (\<lambda>orm.
     case orm of
       None \<Rightarrow> op_return ()
     | Some r \<Rightarrow> op_then (repo_update_evaluate_status r (task_status_value T_FAILED) (Some err)) commit)))"

definition retry_message :: "pystr \<Rightarrow> int \<Rightarrow> unit world_op" where
  "retry_message sid retry_count = redis_xadd INTERVIEW_EVALUATE_STREAM (evaluate_message sid retry_count)"

definition evaluate_handlers :: "(pystr option \<Rightarrow> unit result) \<Rightarrow> graph_fun \<Rightarrow> (World, pystr) StreamHandlers" where
  "evaluate_handlers chat_client graph =
     \<lparr>h_parse_payload = parse_payload, h_should_skip = (\<lambda>p. False),
      h_try_mark_processing = (\<lambda>p. op_then (mark_processing p) (op_return True)),
      h_process_business = process_business chat_client graph,
      h_mark_completed = mark_completed, h_mark_failed = mark_failed, h_retry_message = retry_message,
      h_xack = redis (op_return ())\<rparr>"

definition consume :: "(pystr option \<Rightarrow> unit result) \<Rightarrow> graph_fun \<Rightarrow> (exn \<Rightarrow> pystr) \<Rightarrow> stream_message \<Rightarrow> unit world_op" where
  "consume chat_client graph exc_str data =
     process_message (evaluate_handlers chat_client graph) (\<lambda>e. truncate_error (exc_str e)) parse_retry_count data"

end
