(* ===== verification/Interview_Integrity.thy ===== *)
theory Interview_Integrity
  imports Session_Service Evaluate_Consumer
begin

text \<open>
  The integrity of the interview database: unique identifiers, one answer per question, answers
  only of existing sessions, and every finished session under evaluation. Every request and
  every consumed message keeps it, whichever Redis calls fail and whatever the language model
  does. The state machine of the whole system puts these steps together.
\<close>

section \<open>The invariant\<close>

definition finished :: "SessionRow \<Rightarrow> bool" where
  "finished r \<longleftrightarrow> is_status r \<in> set COMPLETED_STATUSES"

definition tracked :: "SessionRow \<Rightarrow> bool" where
  "tracked r \<longleftrightarrow> (finished r \<longrightarrow> is_evaluate_status r \<noteq> None)"

definition sessions_ok :: "int \<Rightarrow> SessionRow list \<Rightarrow> bool" where
  "sessions_ok next rows \<longleftrightarrow> distinct (map is_session_id rows) \<and> distinct (map is_id rows)
     \<and> (\<forall>r \<in> set rows. is_id r < next)"

definition answers_ok :: "int \<Rightarrow> int set \<Rightarrow> AnswerRow list \<Rightarrow> bool" where
  "answers_ok next ids answers \<longleftrightarrow> distinct (map ia_id answers)
     \<and> distinct (map (\<lambda>a. (ia_session_id a, ia_question_index a)) answers)
     \<and> (\<forall>a \<in> set answers. ia_id a < next \<and> ia_session_id a \<in> ids)"

definition db_keys_ok :: "Db \<Rightarrow> bool" where
  "db_keys_ok db \<longleftrightarrow> sessions_ok (db_next_id db) (db_sessions db)
     \<and> answers_ok (db_next_id db) (is_id ` set (db_sessions db)) (db_answers db)"

definition db_ok :: "Db \<Rightarrow> bool" where
  "db_ok db \<longleftrightarrow> db_keys_ok db \<and> (\<forall>r \<in> set (db_sessions db). tracked r)"

definition world_ok :: "World \<Rightarrow> bool" where
  "world_ok w \<longleftrightarrow> db_ok (w_db w) \<and> db_ok (w_committed w)"

lemma status_values [simp]:
  "session_status_value S_CREATED \<notin> set COMPLETED_STATUSES"
  "session_status_value S_IN_PROGRESS \<notin> set COMPLETED_STATUSES"
  "session_status_value S_COMPLETED \<in> set COMPLETED_STATUSES"
  "session_status_value S_EVALUATED \<in> set COMPLETED_STATUSES"
  by (simp_all add: COMPLETED_STATUSES_def)

section \<open>Database steps\<close>

text \<open>Updates of rows that keep the keys.\<close>

definition keeps_keys :: "(SessionRow \<Rightarrow> SessionRow) \<Rightarrow> bool" where
  "keeps_keys f \<longleftrightarrow> (\<forall>r. is_session_id (f r) = is_session_id r \<and> is_id (f r) = is_id r)"

lemma update_row_keys:
  assumes "keeps_keys f"
  shows "map is_session_id (db_sessions (update_row sid f db)) = map is_session_id (db_sessions db)"
    "map is_id (db_sessions (update_row sid f db)) = map is_id (db_sessions db)"
    "db_answers (update_row sid f db) = db_answers db"
    "db_next_id (update_row sid f db) = db_next_id db"
  using assms by (auto simp: update_row_def keeps_keys_def)

lemma update_row_keys_ok:
  assumes "keeps_keys f" "db_keys_ok db"
  shows "db_keys_ok (update_row sid f db)"
proof -
  note k = update_row_keys [OF assms(1), of sid db]
  have ids: "is_id ` set (db_sessions (update_row sid f db)) = is_id ` set (db_sessions db)"
    by (metis k(2) set_map)
  have "\<forall>r \<in> set (db_sessions (update_row sid f db)). is_id r < db_next_id db"
    using assms(2) ids unfolding db_keys_ok_def sessions_ok_def by (metis (no_types, lifting) image_iff)
  with assms(2) show ?thesis
    unfolding db_keys_ok_def sessions_ok_def by (simp only: k ids)
qed

lemma update_row_ok:
  assumes "keeps_keys f" "db_ok db"
    "\<And>r. r \<in> set (db_sessions db) \<Longrightarrow> is_session_id r = sid \<Longrightarrow> tracked r \<Longrightarrow> tracked (f r)"
  shows "db_ok (update_row sid f db)"
proof -
  have "db_keys_ok (update_row sid f db)" using assms update_row_keys_ok by (simp add: db_ok_def)
  moreover have "\<forall>r \<in> set (db_sessions (update_row sid f db)). tracked r"
    using assms(2,3) by (auto simp: update_row_def db_ok_def)
  ultimately show ?thesis by (simp add: db_ok_def)
qed

lemma find_row_Some: "find_row sid db = Some r \<Longrightarrow> r \<in> set (db_sessions db) \<and> is_session_id r = sid"
  by (auto simp: find_row_def find_Some_iff)

lemma find_row_None: "find_row sid db = None \<longleftrightarrow> sid \<notin> is_session_id ` set (db_sessions db)"
  by (auto simp: find_row_def find_None_iff)

lemma find_row_update:
  assumes "keeps_keys f"
  shows "find_row sid' (update_row sid f db) =
    (if sid' = sid then map_option f (find_row sid db) else find_row sid' db)"
proof -
  have k: "is_session_id (f r) = is_session_id r" for r using assms by (simp add: keeps_keys_def)
  have "find (\<lambda>r. is_session_id r = sid') (map (\<lambda>r. if is_session_id r = sid then f r else r) rows) =
      (if sid' = sid then map_option f (find (\<lambda>r. is_session_id r = sid) rows) else find (\<lambda>r. is_session_id r = sid') rows)" for rows
    by (induction rows) (auto simp: k)
  then show ?thesis by (simp add: find_row_def update_row_def)
qed

text \<open>What only touches rows leaves the rest of the world.\<close>

lemma op_inv_modify_db: "(\<And>db. db_ok db \<Longrightarrow> db_ok (f db)) \<Longrightarrow> op_inv world_ok (modify_db f)"
  unfolding modify_db_def by (rule op_inv_modify) (simp add: world_ok_def)

lemma commit_inv [op_rules]: "op_inv world_ok commit"
  unfolding commit_def by (rule op_inv_modify) (simp add: world_ok_def)

lemma run_request_inv: "op_inv world_ok m \<Longrightarrow> op_inv world_ok (run_request m)"
proof (rule op_invI)
  fix w assume m: "op_inv world_ok m" and "world_ok w"
  then have "world_ok (w\<lparr>w_db := w_committed w\<rparr>)" by (simp add: world_ok_def)
  from op_invD [OF m this] show "world_ok (snd (run_request m w))"
    by (auto simp: run_request_def world_ok_def split: prod.split)
qed

lemma in_new_session_inv: "op_inv world_ok m \<Longrightarrow> op_inv world_ok (in_new_session m)"
proof (rule op_invI)
  fix w assume m: "op_inv world_ok m" and w: "world_ok w"
  then have "world_ok (w\<lparr>w_db := w_committed w\<rparr>)" by (simp add: world_ok_def)
  from op_invD [OF m this] w show "world_ok (snd (in_new_session m w))"
    by (auto simp: in_new_session_def world_ok_def split: prod.split)
qed

section \<open>Repository and persistence steps\<close>

lemma op_inv_find [op_rules]:
  "op_inv P (find_by_session_id_optional sid)" "op_inv P (find_by_session_id sid)"
  "op_inv P (find_unfinished_by_resume_id i)" "op_inv P find_all" "op_inv P (find_answer_by_session_and_index pk i)"
  "op_inv P (repo_find_answers_by_session_id pk)" "op_inv P (find_answers_by_session_id sid)"
  "op_inv P (find_recent_sessions_for_history sk ri)" "op_inv P (get_resume_text i)"
  "op_inv P (get_historical_questions lower sk ri)"
  unfolding find_by_session_id_optional_def find_by_session_id_def find_unfinished_by_resume_id_def find_all_def
    find_answer_by_session_and_index_def repo_find_answers_by_session_id_def find_answers_by_session_id_def
    find_recent_sessions_for_history_def get_resume_text_def get_historical_questions_def
  by (intro op_rules)+

lemma repo_update_current_question_index_inv [op_rules]:
  "op_inv world_ok (repo_update_current_question_index r i)"
  unfolding repo_update_current_question_index_def
  by (rule op_inv_modify_db, rule update_row_ok) (simp_all add: keeps_keys_def tracked_def finished_def)

lemma repo_update_evaluate_status_inv [op_rules]:
  "op_inv world_ok (repo_update_evaluate_status r st e)"
  unfolding repo_update_evaluate_status_def
  by (rule op_inv_modify_db, rule update_row_ok) (simp_all add: keeps_keys_def tracked_def)

lemma keeps_keys_status:
  "keeps_keys (\<lambda>r. let r' = r\<lparr>is_status := status\<rparr> in if c then r'\<lparr>is_completed_at := now\<rparr> else r')"
  by (simp add: keeps_keys_def Let_def)

lemma repo_update_session_status_inv:
  assumes "status \<notin> set COMPLETED_STATUSES"
  shows "op_inv world_ok (repo_update_session_status r status)"
  unfolding repo_update_session_status_def
  by (intro op_rules op_inv_modify_db update_row_ok keeps_keys_status)
    (simp_all add: tracked_def finished_def assms)

lemma update_steps_inv [op_rules]:
  "op_inv world_ok (update_current_question_index sid i)" "op_inv world_ok (update_evaluate_status sid st e)"
  unfolding update_current_question_index_def update_evaluate_status_def by (intro op_rules)+

lemma update_session_status_inv:
  "status \<notin> set COMPLETED_STATUSES \<Longrightarrow> op_inv world_ok (update_session_status sid status)"
  unfolding update_session_status_def by (intro op_rules repo_update_session_status_inv)

text \<open>Marking a session completed and pending in one go: only together do they keep the invariant.\<close>

lemma complete_and_track_inv:
  assumes "op_inv world_ok k"
  shows "op_inv world_ok (op_then (update_session_status sid st) (op_then (update_evaluate_status sid ev e) k))"
proof (rule op_invI)
  fix w assume w: "world_ok w"
  show "world_ok (snd (op_then (update_session_status sid st) (op_then (update_evaluate_status sid ev e) k) w))"
  proof (cases "find_row sid (w_db w)")
    case None
    then show ?thesis using w
      by (simp add: op_simps update_session_status_def find_by_session_id_def find_by_session_id_optional_def)
  next
    case (Some r)
    let ?f = "\<lambda>r. let r' = r\<lparr>is_status := st\<rparr> in if st \<in> set COMPLETED_STATUSES then r'\<lparr>is_completed_at := Some (w_now w)\<rparr> else r'"
    let ?g = "\<lambda>r. r\<lparr>is_evaluate_status := Some ev, is_evaluate_error := e\<rparr>"
    have sid: "is_session_id r = sid" "is_session_id (?f r) = sid" using find_row_Some [OF Some] by (simp_all add: Let_def)
    let ?db = "update_row sid ?g (update_row sid ?f (w_db w))"
    have fr: "find_row sid (update_row sid ?f (w_db w)) = Some (?f r)"
      by (simp add: find_row_update [OF keeps_keys_status] Some)
    have "?db = update_row sid (\<lambda>r. ?g (?f r)) (w_db w)"
      by (simp add: update_row_def Let_def comp_def)
    moreover have "db_ok (update_row sid (\<lambda>r. ?g (?f r)) (w_db w))"
      using w by (intro update_row_ok) (simp_all add: keeps_keys_def tracked_def world_ok_def Let_def)
    ultimately have ok: "world_ok (w\<lparr>w_db := ?db\<rparr>)" using w by (simp add: world_ok_def)
    have "op_then (update_session_status sid st) (op_then (update_evaluate_status sid ev e) k) w = k (w\<lparr>w_db := ?db\<rparr>)"
      by (simp add: op_simps update_session_status_def update_evaluate_status_def find_by_session_id_def
          find_by_session_id_optional_def repo_update_session_status_def repo_update_evaluate_status_def
          modify_db_def Some fr sid del: Let_def)
    with op_invD [OF assms ok] show ?thesis by simp
  qed
qed

lemma save_session_inv [op_rules]:
  "op_inv world_ok (save_session sid ri n qs lp sk df src kb cat)"
  unfolding save_session_def
proof (rule op_invI)
  fix w and row :: SessionRow
  show "world_ok w \<Longrightarrow> world_ok (snd (repo_save_session \<lparr>is_id = 0, is_session_id = sid, is_skill_id = sk, is_difficulty = df,
       is_resume_id = ri, is_total_questions = n, is_current_question_index = 0,
       is_status = session_status_value S_CREATED, is_questions_json = Some (serialize_questions qs),
       is_overall_score = None, is_overall_feedback = None, is_strengths_json = None, is_improvements_json = None,
       is_reference_answers_json = None, is_evaluate_status = None, is_evaluate_error = None,
       is_llm_provider = lp, is_source_type = src, is_knowledge_base_id = kb,
       is_interview_category = cat, is_created_at = 0, is_completed_at = None\<rparr> w))"
    by (auto simp: repo_save_session_def world_ok_def db_ok_def db_keys_ok_def sessions_ok_def answers_ok_def
        find_row_None tracked_def finished_def COMPLETED_STATUSES_def Let_def)
qed

lemma repo_delete_inv [op_rules]: "op_inv world_ok (repo_delete r)"
  unfolding repo_delete_def
  by (rule op_inv_modify_db)
    (auto simp: db_ok_def db_keys_ok_def sessions_ok_def answers_ok_def distinct_map_filter)

lemma persistence_delete_inv [op_rules]: "op_inv world_ok (persistence_delete_session sid)"
  unfolding persistence_delete_session_def by (intro op_rules)

lemma op_inv_map_answers:
  assumes "\<And>a. ia_id (f a) = ia_id a \<and> ia_session_id (f a) = ia_session_id a \<and> ia_question_index (f a) = ia_question_index a"
  shows "op_inv world_ok (modify_db (\<lambda>db. db\<lparr>db_answers := map (\<lambda>a. if c a then f a else a) (db_answers db)\<rparr>))"
proof (rule op_inv_modify_db)
  fix db assume ok: "db_ok db"
  let ?g = "\<lambda>a. if c a then f a else a"
  have "map ia_id (map ?g as) = map ia_id as"
    "map (\<lambda>a. (ia_session_id a, ia_question_index a)) (map ?g as) = map (\<lambda>a. (ia_session_id a, ia_question_index a)) as" for as
    using assms by (induction as) auto
  with ok show "db_ok (db\<lparr>db_answers := map ?g (db_answers db)\<rparr>)"
    using assms by (auto simp: db_ok_def db_keys_ok_def answers_ok_def simp del: map_map)
qed

lemma repo_update_answer_evaluation_inv [op_rules]: "op_inv world_ok (repo_update_answer_evaluation a s f r k)"
  unfolding repo_update_answer_evaluation_def by (rule op_inv_map_answers) simp

lemma save_answer_row_inv [op_rules]: "op_inv world_ok (save_answer_row sid i q c a)"
proof (rule op_invI)
  fix w assume w: "world_ok w"
  show "world_ok (snd (save_answer_row sid i q c a w))"
  proof (cases "find_row sid (w_db w)")
    case None
    then show ?thesis using w
      by (simp add: op_simps save_answer_row_def find_by_session_id_def find_by_session_id_optional_def)
  next
    case (Some r)
    then have rid: "is_id r \<in> is_id ` set (db_sessions (w_db w))" using find_row_Some by blast
    show ?thesis
    proof (cases "find (is_answer (is_id r) i) (db_answers (w_db w))")
      case None
      then have new: "(is_id r, i) \<notin> (\<lambda>a. (ia_session_id a, ia_question_index a)) ` set (db_answers (w_db w))"
        by (auto simp: find_None_iff is_answer_def)
      show ?thesis using w rid new
        by (auto simp: op_simps save_answer_row_def find_by_session_id_def find_by_session_id_optional_def Some None
            find_answer_by_session_and_index_def repo_save_answer_def world_ok_def db_ok_def db_keys_ok_def
            sessions_ok_def answers_ok_def)
    next
      case (Some e)
      have "op_inv world_ok (modify_db (\<lambda>db. db\<lparr>db_answers := map (\<lambda>b. if ia_id b = ia_id e
             then b\<lparr>ia_question := Some q, ia_category := Some c, ia_user_answer := Some a\<rparr>
             else b) (db_answers db)\<rparr>))"
        by (rule op_inv_map_answers) simp
      from op_invD [OF this w] show ?thesis
        by (simp add: op_simps save_answer_row_def find_by_session_id_def find_by_session_id_optional_def
            \<open>find_row sid (w_db w) = Some r\<close> Some find_answer_by_session_and_index_def)
    qed
  qed
qed

section \<open>Redis steps\<close>

lemma redis_inv: "op_inv world_ok m \<Longrightarrow> op_inv world_ok (redis m)"
proof (rule op_invI)
  fix w assume m: "op_inv world_ok m" and w: "world_ok w"
  then have "world_ok (w\<lparr>w_faults := fs\<rparr>)" for fs by (simp add: world_ok_def)
  with w op_invD [OF m] show "world_ok (snd (redis m w))"
    by (auto simp: redis_def split: list.split bool.split)
qed

lemma redis_calls_inv [op_rules]:
  "op_inv world_ok (redis_hset k mp)" "op_inv world_ok (redis_hgetall k)" "op_inv world_ok (redis_expire k n)"
  "op_inv world_ok (redis_get k)" "op_inv world_ok (redis_set k v)" "op_inv world_ok (redis_delete k)"
  "op_inv world_ok (redis_xadd k msg)"
  unfolding redis_hset_def redis_hgetall_def redis_expire_def redis_get_def redis_set_def redis_delete_def redis_xadd_def
  by (rule redis_inv, (rule op_inv_pure | (rule op_inv_modify, simp add: world_ok_def)))+

lemma op_inv_case_list_option [op_rules]:
  "(\<And>x. op_inv P (f x)) \<Longrightarrow> op_inv P m \<Longrightarrow> op_inv P (case v of Some x \<Rightarrow> f x | None \<Rightarrow> m)"
  by (cases v) simp_all

lemma cache_inv [op_rules]:
  "op_inv world_ok (cache_save_session c)" "op_inv world_ok (cache_get_session sid)"
  "op_inv world_ok (cache_update sid f v)" "op_inv world_ok (cache_update_questions sid q)"
  "op_inv world_ok (cache_update_current_index sid i)" "op_inv world_ok (cache_update_status sid st)"
  "op_inv world_ok (cache_refresh_ttl sid)" "op_inv world_ok (cache_find_unfinished i)"
  "op_inv world_ok (cache_delete_session sid)" "op_inv world_ok (cache_delete_unfinished i)"
  unfolding cache_save_session_def cache_get_session_def cache_update_def cache_update_questions_def
    cache_update_current_index_def cache_update_status_def cache_refresh_ttl_def cache_find_unfinished_def
    cache_delete_session_def cache_delete_unfinished_def
  by (intro op_rules)+

lemma send_task_inv [op_rules]: "op_inv world_ok (send_task exc_str sid)"
  unfolding send_task_def on_send_failed_def by (intro op_rules in_new_session_inv)

section \<open>Requests\<close>

lemma helpers_inv [op_rules]:
  "op_inv world_ok (load_questions j)" "op_inv world_ok (write_cache_str c)"
  "op_inv world_ok (write_cache sid t ri qs i st kb cat)" "op_inv world_ok (load_resume_text ri)"
  "op_inv world_ok (drop_unfinished_mapping view)" "op_inv world_ok (answer_checks view idx)"
  unfolding load_questions_def write_cache_str_def write_cache_def load_resume_text_def drop_unfinished_mapping_def
    answer_checks_def
  by (intro op_rules)+

lemma restore_inv [op_rules]:
  "op_inv world_ok (restore_view r)" "op_inv world_ok (get_or_restore_session sid)" "op_inv world_ok (restore_from_orm r)"
  "op_inv world_ok (find_unfinished_in_db ri)" "op_inv world_ok (find_unfinished ri)"
proof -
  show 1: "op_inv world_ok (restore_view r)" for r unfolding restore_view_def Let_def by (intro op_rules)
  show "op_inv world_ok (get_or_restore_session sid)"
    unfolding get_or_restore_session_def by (intro op_rules 1)
  show 2: "op_inv world_ok (restore_from_orm r)" for r unfolding restore_from_orm_def Let_def by (intro op_rules)
  show 3: "op_inv world_ok (find_unfinished_in_db ri)" unfolding find_unfinished_in_db_def by (intro op_rules 2)
  show "op_inv world_ok (find_unfinished ri)" unfolding find_unfinished_def by (intro op_rules 3)
qed

lemma create_new_session_inv [op_rules]: "op_inv world_ok (create_new_session generate lower uuid req)"
  unfolding create_new_session_def Let_def by (intro op_rules)

lemma create_session_inv [op_rules]: "op_inv world_ok (create_session generate lower uuid req)"
  unfolding create_session_def by (intro op_rules)

lemma create_from_questions_inv [op_rules]:
  "op_inv world_ok (create_session_from_questions uuid qs lp sk df kb cat)"
  unfolding create_session_from_questions_def Let_def by (intro op_rules)

lemma get_session_inv [op_rules]: "op_inv world_ok (get_session sid)"
  unfolding get_session_def by (intro op_rules)

lemma get_current_question_inv [op_rules]: "op_inv world_ok (get_current_question sid)"
  unfolding get_current_question_def by (intro op_rules update_session_status_inv status_values)

lemma submit_answer_inv [op_rules]: "op_inv world_ok (submit_answer exc_str sid req)"
  unfolding submit_answer_def Let_def by (intro op_rules complete_and_track_inv)

lemma save_answer_inv [op_rules]: "op_inv world_ok (save_answer sid req)"
  unfolding save_answer_def Let_def by (intro op_rules update_session_status_inv status_values)

lemma complete_interview_inv [op_rules]: "op_inv world_ok (complete_interview exc_str sid)"
  unfolding complete_interview_def by (intro op_rules complete_and_track_inv)

lemma find_unfinished_session_inv [op_rules]: "op_inv world_ok (find_unfinished_session ri)"
  unfolding find_unfinished_session_def by (intro op_rules)

lemma delete_session_inv [op_rules]: "op_inv world_ok (delete_session sid)"
  unfolding delete_session_def by (intro op_rules)

lemma list_sessions_inv [op_rules]: "op_inv world_ok (list_sessions l n)"
  unfolding list_sessions_def by (intro op_rules)

section \<open>The evaluation consumer\<close>

definition eval_claimed :: "pystr \<Rightarrow> World \<Rightarrow> bool" where
  "eval_claimed sid w \<longleftrightarrow> (case find_row sid (w_committed w) of None \<Rightarrow> True | Some r \<Rightarrow> is_evaluate_status r \<noteq> None)"

lemma mark_processing_inv: "op_inv world_ok (mark_processing sid)"
  unfolding mark_processing_def by (intro in_new_session_inv op_rules)

lemma mark_processing_claims:
  assumes "mark_processing sid w = (r, w')"
  shows "eval_claimed sid w'"
proof (cases "find_row sid (w_committed w)")
  case None
  then show ?thesis using assms
    by (auto simp: mark_processing_def in_new_session_def find_by_session_id_optional_def op_simps eval_claimed_def)
next
  case (Some row)
  then have sid: "is_session_id row = sid" using find_row_Some by blast
  have k: "keeps_keys (\<lambda>r. r\<lparr>is_evaluate_status := Some v, is_evaluate_error := e\<rparr>)" for v e by (simp add: keeps_keys_def)
  show ?thesis
  proof (cases "evaluate_done row")
    case True
    then show ?thesis using assms Some
      by (auto simp: mark_processing_def in_new_session_def find_by_session_id_optional_def op_simps eval_claimed_def evaluate_done_def)
  next
    case False
    then show ?thesis using assms Some sid
      by (auto simp: mark_processing_def in_new_session_def find_by_session_id_optional_def op_simps eval_claimed_def
          repo_update_evaluate_status_def modify_db_def commit_def find_row_update [OF k])
  qed
qed

text \<open>Inside the business step: the invariant, and the row of the session is under evaluation.\<close>

definition under_evaluation :: "pystr \<Rightarrow> World \<Rightarrow> bool" where
  "under_evaluation sid w \<longleftrightarrow> world_ok w \<and>
     (\<forall>r \<in> set (db_sessions (w_db w)). is_session_id r = sid \<longrightarrow> is_evaluate_status r \<noteq> None)"

lemma op_inv_under_evaluation:
  assumes "op_inv world_ok m" "\<And>w. db_sessions (w_db (snd (m w))) = db_sessions (w_db w)"
  shows "op_inv (under_evaluation sid) m"
  using assms by (auto simp: op_inv_def under_evaluation_def)

lemma persist_answer_under: "op_inv (under_evaluation sid) (persist_answer report a)"
  unfolding persist_answer_def Let_def
  by (intro op_rules op_inv_under_evaluation)
    (simp add: repo_update_answer_evaluation_def modify_db_def op_simps)

lemma under_evaluation_update:
  assumes u: "under_evaluation sid w" and k: "keeps_keys f" and e: "\<And>r. is_evaluate_status (f r) = is_evaluate_status r"
  shows "under_evaluation sid (w\<lparr>w_db := update_row sid f (w_db w)\<rparr>)"
proof -
  have rows: "\<forall>r \<in> set (db_sessions (w_db w)). is_session_id r = sid \<longrightarrow> is_evaluate_status r \<noteq> None"
    and ok: "db_ok (w_db w)" "db_ok (w_committed w)" using u by (simp_all add: under_evaluation_def world_ok_def)
  have "tracked (f r)" if "r \<in> set (db_sessions (w_db w))" "is_session_id r = sid" for r
    using rows that by (simp add: tracked_def e)
  with k ok(1) have "db_ok (update_row sid f (w_db w))" by (rule update_row_ok)
  moreover have "is_evaluate_status r' \<noteq> None"
    if r': "r' \<in> set (db_sessions (update_row sid f (w_db w)))" "is_session_id r' = sid" for r'
  proof -
    from r'(1) obtain r where r: "r \<in> set (db_sessions (w_db w))" "r' = (if is_session_id r = sid then f r else r)"
      by (auto simp: update_row_def)
    then show ?thesis using rows r'(2) e by (cases "is_session_id r = sid") auto
  qed
  ultimately show ?thesis using ok(2) by (simp add: under_evaluation_def world_ok_def)
qed

lemma save_evaluation_result_under:
  assumes "is_session_id r = sid"
  shows "op_inv (under_evaluation sid) (repo_save_evaluation_result r report)"
  unfolding repo_save_evaluation_result_def modify_db_def assms
  by (rule op_inv_modify, rule under_evaluation_update) (simp_all add: keeps_keys_def)

lemma persist_result_under: "is_session_id r = sid \<Longrightarrow> op_inv (under_evaluation sid) (persist_result r report)"
  unfolding persist_result_def Let_def
  by (intro op_rules persist_answer_under save_evaluation_result_under)

lemma commit_under: "op_inv (under_evaluation sid) commit"
  by (rule op_inv_under_evaluation [OF commit_inv]) (simp add: commit_def op_simps)

lemma remember_degraded_under: "op_inv (under_evaluation sid) (remember_degraded sid' report)"
  unfolding remember_degraded_def
  by (rule op_inv_modify) (simp add: under_evaluation_def world_ok_def)

lemma build_steps_pure [op_rules]:
  "op_inv P (build_session_qa_records r)" "op_inv P (consumer_resume_text ri)" "op_inv P (build_reference_context r)"
  unfolding build_session_qa_records_def consumer_resume_text_def build_reference_context_def Let_def
  by (intro op_rules)+

lemma op_bind_get: "op_bind (op_get g) f w = f (g w) w"
  by (simp add: op_bind_def op_get_def)

lemma process_business_ok:
  assumes w: "world_ok w" and c: "eval_claimed sid w"
  shows "world_ok (snd (process_business chat_client graph sid w))"
proof -
  let ?w = "w\<lparr>w_db := w_committed w\<rparr>"
  let ?body = "\<lambda>r. op_bind (build_session_qa_records r) (\<lambda>qa_records.
           op_bind (consumer_resume_text (is_resume_id r)) (\<lambda>resume_text.
           op_then (op_lift (chat_client (is_llm_provider r)))
           (op_bind (build_reference_context r) (\<lambda>context.
           op_bind (op_lift (graph (is_kb_session r) sid qa_records resume_text context)) (\<lambda>report.
           op_then (persist_result r report) (op_then commit (remember_degraded sid report)))))))"
  have wo: "world_ok ?w" using w by (simp add: world_ok_def)
  have close: "world_ok w' \<Longrightarrow> world_ok (w'\<lparr>w_db := w_db w\<rparr>)" for w' using w by (simp add: world_ok_def)
  show ?thesis
  proof (cases "find_row sid (w_committed w)")
    case None
    then show ?thesis using close [OF wo]
      by (simp add: process_business_def in_new_session_def find_by_session_id_optional_def op_simps)
  next
    case (Some r)
    then have sid: "is_session_id r = sid" using find_row_Some by blast
    have "distinct (map is_session_id (db_sessions (w_committed w)))"
      using w by (simp add: world_ok_def db_ok_def db_keys_ok_def sessions_ok_def)
    then have "under_evaluation sid ?w"
      using c Some wo find_row_Some [OF Some] by (auto simp: under_evaluation_def eval_claimed_def dest: inj_onD [OF distinct_map [THEN iffD1, THEN conjunct2]])
    moreover have "op_inv (under_evaluation sid) (?body r)"
      by (intro op_rules persist_result_under [OF sid] commit_under remember_degraded_under)
    ultimately have "under_evaluation sid (snd (?body r ?w))" by (rule op_invD [rotated])
    then have b: "world_ok (snd (?body r ?w))" by (simp add: under_evaluation_def)
    have "process_business chat_client graph sid w =
        (case (if evaluate_done r then op_return () else ?body r) ?w of (res, w') \<Rightarrow> (res, w'\<lparr>w_db := w_db w\<rparr>))"
      unfolding process_business_def in_new_session_def find_by_session_id_optional_def op_bind_get
      by (simp add: Some)
    then show ?thesis using close [OF b] close [OF wo]
      by (cases "evaluate_done r") (simp_all add: op_return_def case_prod_unfold)
  qed
qed

lemma mark_completed_inv: "op_inv world_ok (mark_completed sid)" "op_inv world_ok (mark_failed sid err)"
proof -
  have p: "op_inv world_ok (pop_degraded sid)" by (simp add: op_inv_def pop_degraded_def world_ok_def)
  show "op_inv world_ok (mark_completed sid)" "op_inv world_ok (mark_failed sid err)"
    unfolding mark_completed_def mark_failed_def by (intro in_new_session_inv op_rules p)+
qed

interpretation eval_stream: stream_handlers "evaluate_handlers chat_client graph" world_ok eval_claimed
proof unfold_locales
  show "op_inv world_ok (h_try_mark_processing (evaluate_handlers chat_client graph) p)" for p
    by (simp add: evaluate_handlers_def op_rules mark_processing_inv)
  show "eval_claimed p w'" if "h_try_mark_processing (evaluate_handlers chat_client graph) p w = (Inr True, w')" for p w w'
    using that mark_processing_claims by (auto simp: evaluate_handlers_def op_simps split: prod.splits sum.splits)
  show "op_inv world_ok (h_xack (evaluate_handlers chat_client graph))"
    by (simp add: evaluate_handlers_def redis_inv op_rules)
qed (simp_all add: evaluate_handlers_def process_business_ok mark_completed_inv retry_message_def op_rules)

lemma consume_inv [op_rules]: "op_inv world_ok (consume chat_client graph exc_str data)"
  unfolding consume_def by (rule eval_stream.process_message_inv)

end
