(* ===== verification/Interview_System.thy ===== *)
theory Interview_System
  imports Interview_Integrity
begin

text \<open>
  The interview backend as a state machine: requests, consumed evaluation messages and the
  environment (evicted keys, failing Redis calls, lost stream entries, a restarted consumer,
  time). Its reachable states keep the integrity of the database; the evaluation task of a
  session is retried a bounded number of times and ends in a final state.
\<close>

section \<open>Steps\<close>

datatype Request =
    R_Create pystr CreateSessionRequest
  | R_Create_From_Questions pystr "InterviewQuestion list" "pystr option" pystr pystr "int option" "pystr option"
  | R_Get pystr
  | R_Current_Question pystr
  | R_Submit pystr SubmitAnswerRequest
  | R_Save pystr SubmitAnswerRequest
  | R_Complete pystr
  | R_Find_Unfinished int
  | R_List int int
  | R_Delete pystr

record Env =
  en_generate :: "CreateSessionRequest \<Rightarrow> pystr option \<Rightarrow> HistoricalQuestion list \<Rightarrow> InterviewQuestion list result"
  en_lower :: "nat \<Rightarrow> pystr"
  en_exc_str :: "exn \<Rightarrow> pystr"
  en_chat_client :: "pystr option \<Rightarrow> unit result"
  en_graph :: graph_fun

definition drop_result :: "'a world_op \<Rightarrow> unit world_op" where
  "drop_result m = op_bind m (\<lambda>_. op_return ())"

fun handle :: "Env \<Rightarrow> Request \<Rightarrow> unit world_op" where
  "handle env (R_Create uuid req) = drop_result (create_session (en_generate env) (en_lower env) uuid req)"
| "handle env (R_Create_From_Questions uuid qs lp sk diff kb cat) =
     drop_result (create_session_from_questions uuid qs lp sk diff kb cat)"
| "handle env (R_Get sid) = drop_result (get_session sid)"
| "handle env (R_Current_Question sid) = drop_result (get_current_question sid)"
| "handle env (R_Submit sid req) = drop_result (submit_answer (en_exc_str env) sid req)"
| "handle env (R_Save sid req) = save_answer sid req"
| "handle env (R_Complete sid) = complete_interview (en_exc_str env) sid"
| "handle env (R_Find_Unfinished ri) = drop_result (find_unfinished_session ri)"
| "handle env (R_List limit offset) = drop_result (list_sessions limit offset)"
| "handle env (R_Delete sid) = delete_session sid"

definition handle_message :: "Env \<Rightarrow> stream_message \<Rightarrow> unit world_op" where
  "handle_message env data = consume (en_chat_client env) (en_graph env) (en_exc_str env) data"

text \<open>
  A message is delivered at least once: delivery leaves the entry in the stream, and entries
  disappear by a step of their own.
\<close>

inductive system_step :: "Env \<Rightarrow> World \<Rightarrow> World \<Rightarrow> bool" for env where
  request: "system_step env w (snd (run_request (handle env req) w))"
| deliver: "data \<in> set (w_streams w INTERVIEW_EVALUATE_STREAM) \<Longrightarrow> system_step env w (snd (handle_message env data w))"
| forget: "system_step env w (w\<lparr>w_streams := (w_streams w)(k := ms)\<rparr>)" if "set ms \<subseteq> set (w_streams w k)"
| evict_hash: "system_step env w (w\<lparr>w_hashes := (w_hashes w)(k := [])\<rparr>)"
| evict_string: "system_step env w (w\<lparr>w_strings := (w_strings w)(k := None)\<rparr>)"
| redis_trouble: "system_step env w (w\<lparr>w_faults := fs\<rparr>)"
| restart_consumer: "system_step env w (w\<lparr>w_degraded := []\<rparr>)"
| tick: "system_step env w (w\<lparr>w_now := w_now w + 1\<rparr>)"

inductive_cases system_stepE: "system_step env w w'"

definition initial_world :: "(int \<times> pystr option) list \<Rightarrow> World" where
  "initial_world resumes =
     (let db = \<lparr>db_sessions = [], db_answers = [], db_resumes = resumes, db_next_id = 1\<rparr>
      in \<lparr>w_db = db, w_committed = db, w_hashes = (\<lambda>k. []), w_strings = (\<lambda>k. None), w_streams = (\<lambda>k. []),
          w_degraded = [], w_faults = [], w_now = 0\<rparr>)"

inductive reachable :: "Env \<Rightarrow> (int \<times> pystr option) list \<Rightarrow> World \<Rightarrow> bool" for env resumes where
  start: "reachable env resumes (initial_world resumes)"
| step: "reachable env resumes w \<Longrightarrow> system_step env w w' \<Longrightarrow> reachable env resumes w'"

section \<open>Integrity of every reachable state\<close>

lemma handle_inv: "op_inv world_ok (handle env req)"
  by (cases req) (auto simp: drop_result_def intro!: op_rules)

lemma system_step_ok: "system_step env w w' \<Longrightarrow> world_ok w \<Longrightarrow> world_ok w'"
proof (induction rule: system_step.induct)
  case (request w req)
  from op_invD [OF run_request_inv [OF handle_inv] request] show ?case .
next
  case (deliver data w)
  from op_invD [OF consume_inv deliver(2)] show ?case by (simp add: handle_message_def)
qed (simp_all add: world_ok_def)

lemma initial_world_ok: "world_ok (initial_world resumes)"
  by (simp add: initial_world_def world_ok_def db_ok_def db_keys_ok_def sessions_ok_def answers_ok_def Let_def)

lemma reachable_ok: "reachable env resumes w \<Longrightarrow> world_ok w"
  by (induction rule: reachable.induct) (auto intro: initial_world_ok system_step_ok)

text \<open>
  C5. In every reachable state, whatever Redis and the language model do, the committed
  database is sound: session identifiers are unique, each answer belongs to an existing
  session and there is one per question, and a session whose status is COMPLETED or EVALUATED
  has an evaluation status: completing an interview and scheduling its evaluation are one
  transaction.
\<close>
theorem interview_db_integrity:
  assumes "reachable env resumes w"
  shows "db_ok (w_committed w)"
  using reachable_ok [OF assms] by (simp add: world_ok_def)

definition sample_env :: Env where
  "sample_env = \<lparr>en_generate = (\<lambda>r t h. Inr []), en_lower = (\<lambda>c. [c]), en_exc_str = (\<lambda>e. []),
     en_chat_client = (\<lambda>p. Inl TypeError), en_graph = (\<lambda>b s q t c. Inl TypeError)\<rparr>"

lemma interview_db_integrity_witness:
  "\<exists>w::World. db_ok (w_committed w) \<and> length (db_sessions (w_committed w)) = 1"
proof -
  let ?req = "R_Create_From_Questions [1] [mk_question 0 [2] [] []] None [] [] None None"
  let ?w = "snd (run_request (handle sample_env ?req) (initial_world []))"
  have "reachable sample_env [] ?w" by (rule reachable.step [OF reachable.start system_step.request])
  then have "db_ok (w_committed ?w)" by (rule interview_db_integrity)
  moreover have "length (db_sessions (w_committed ?w)) = 1"
    by (simp add: run_request_def drop_result_def create_session_from_questions_def save_session_def repo_save_session_def
        initial_world_def find_row_def op_simps commit_def write_cache_def write_cache_str_def cache_save_session_def
        redis_hset_def redis_expire_def redis_def Let_def)
  ultimately have "db_ok (w_committed ?w) \<and> length (db_sessions (w_committed ?w)) = 1" by (rule conjI)
  then show ?thesis by (rule exI)
qed

section \<open>The evaluation task\<close>

definition set_eval :: "pystr \<Rightarrow> AsyncTaskStatus \<Rightarrow> pystr option \<Rightarrow> Db \<Rightarrow> Db" where
  "set_eval sid st err = update_row sid (\<lambda>r. r\<lparr>is_evaluate_status := Some (task_status_value st), is_evaluate_error := err\<rparr>)"

lemma find_row_set_eval:
  "find_row sid (set_eval sid st err db) =
     map_option (\<lambda>r. r\<lparr>is_evaluate_status := Some (task_status_value st), is_evaluate_error := err\<rparr>) (find_row sid db)"
proof -
  have "keeps_keys (\<lambda>r. r\<lparr>is_evaluate_status := Some (task_status_value st), is_evaluate_error := err\<rparr>)"
    by (simp add: keeps_keys_def)
  then show ?thesis by (simp add: set_eval_def find_row_update)
qed

lemma set_eval_twice: "set_eval sid st err (set_eval sid st' err' db) = set_eval sid st err db"
  by (simp add: set_eval_def update_row_def comp_def if_distrib cong: if_cong)

lemma mark_processing_eval:
  assumes "find_row sid (w_committed w) = Some r" "\<not> evaluate_done r"
  shows "mark_processing sid w = (Inr (), w\<lparr>w_committed := set_eval sid T_PROCESSING None (w_committed w)\<rparr>)"
  using assms find_row_Some [OF assms(1)]
  by (simp add: mark_processing_def in_new_session_def find_by_session_id_optional_def op_simps
      repo_update_evaluate_status_def modify_db_def commit_def set_eval_def)

lemma mark_failed_eval:
  assumes "find_row sid (w_committed w) = Some r"
  shows "mark_failed sid err w = (Inr (), w\<lparr>w_committed := set_eval sid T_FAILED (Some err) (w_committed w),
      w_degraded := AList.delete sid (w_degraded w)\<rparr>)"
  using assms find_row_Some [OF assms(1)]
  by (simp add: mark_failed_def in_new_session_def find_by_session_id_optional_def op_simps pop_degraded_def
      repo_update_evaluate_status_def modify_db_def commit_def set_eval_def)

lemma mark_completed_eval:
  assumes "find_row sid (w_committed w) = Some r"
  shows "mark_completed sid w = (Inr (), w\<lparr>w_committed := set_eval sid T_COMPLETED (dict_get (w_degraded w) sid) (w_committed w),
      w_degraded := AList.delete sid (w_degraded w)\<rparr>)"
  using assms find_row_Some [OF assms(1)]
  by (simp add: mark_completed_def in_new_session_def find_by_session_id_optional_def op_simps pop_degraded_def
      repo_update_evaluate_status_def modify_db_def commit_def set_eval_def)

text \<open>When no chat client can be built, the business step raises and changes nothing.\<close>

lemma pure_steps:
  "\<exists>r. build_session_qa_records row w = (r, w)" "\<exists>r. consumer_resume_text ri w = (Inr r, w)"
  by (auto simp: build_session_qa_records_def consumer_resume_text_def get_resume_text_def repo_find_answers_by_session_id_def
      op_simps Let_def split: option.split sum.split)

lemma process_business_no_client:
  assumes "find_row sid (w_committed w) = Some r" "\<not> evaluate_done r" "\<And>p. \<exists>e. chat_client p = Inl e"
  shows "\<exists>e. process_business chat_client graph sid w = (Inl e, w)"
proof -
  let ?w = "w\<lparr>w_db := w_committed w\<rparr>"
  obtain q where q: "build_session_qa_records r ?w = (q, ?w)" using pure_steps(1) by blast
  obtain t where t: "consumer_resume_text (is_resume_id r) ?w = (Inr t, ?w)" using pure_steps(2) by blast
  obtain e where e: "chat_client (is_llm_provider r) = Inl e" using assms(3) by blast
  show ?thesis
    using assms(1,2) by (cases q) (simp_all add: process_business_def in_new_session_def find_by_session_id_optional_def
        op_simps q t e)
qed

text \<open>One delivery of a task that cannot succeed.\<close>

lemma parse_message [simp]: "dict_get (evaluate_message sid n) SESSION_ID_FIELD = Some sid"
  by (simp add: evaluate_message_def)

lemma parse_retry_message [simp]: "parse_retry_count (evaluate_message sid n) = n"
  by (simp add: parse_retry_count_def evaluate_message_def SESSION_ID_FIELD_def FIELD_RETRY_COUNT_def dict_get_default_def)

definition no_client :: "Env \<Rightarrow> bool" where
  "no_client env \<longleftrightarrow> (\<forall>p. \<exists>e. en_chat_client env p = Inl e)"

lemma deliver_without_client:
  assumes "w_faults w = []" "find_row sid (w_committed w) = Some r" "\<not> evaluate_done r" "no_client env"
  shows "\<exists>e. handle_message env (evaluate_message sid n) w =
    (Inr (),
      if n < MAX_RETRY_COUNT
      then w\<lparr>w_committed := set_eval sid T_PROCESSING None (w_committed w),
             w_streams := (w_streams w)(INTERVIEW_EVALUATE_STREAM :=
               w_streams w INTERVIEW_EVALUATE_STREAM @ [evaluate_message sid (n + 1)])\<rparr>
      else w\<lparr>w_committed := set_eval sid T_FAILED (Some (truncate_error (en_exc_str env e))) (w_committed w),
             w_degraded := AList.delete sid (w_degraded w)\<rparr>)"
proof -
  let ?w1 = "w\<lparr>w_committed := set_eval sid T_PROCESSING None (w_committed w)\<rparr>"
  let ?r1 = "r\<lparr>is_evaluate_status := Some (task_status_value T_PROCESSING), is_evaluate_error := None\<rparr>"
  have mp: "mark_processing sid w = (Inr (), ?w1)" by (rule mark_processing_eval [OF assms(2,3)])
  have f1: "find_row sid (w_committed ?w1) = Some ?r1" by (simp add: find_row_set_eval assms(2))
  have "\<not> evaluate_done ?r1" by (simp add: evaluate_done_def)
  from process_business_no_client [OF f1 this, of "en_chat_client env" "en_graph env"] assms(4)
  obtain e where pb: "process_business (en_chat_client env) (en_graph env) sid ?w1 = (Inl e, ?w1)"
    by (auto simp: no_client_def)
  have mf: "mark_failed sid err ?w1 = (Inr (), ?w1\<lparr>w_committed := set_eval sid T_FAILED (Some err) (w_committed w),
      w_degraded := AList.delete sid (w_degraded w)\<rparr>)" for err
    using mark_failed_eval [OF f1] by (simp add: set_eval_twice)
  show ?thesis
    by (intro exI [of _ e]) (simp add: handle_message_def consume_def process_message_def evaluate_handlers_def parse_payload_def
        handle_payload_def op_simps mp pb mf retry_message_def redis_xadd_def redis_def ack_def assms(1))
qed

definition deliver_head :: "Env \<Rightarrow> World \<Rightarrow> World" where
  "deliver_head env w = (case w_streams w INTERVIEW_EVALUATE_STREAM of
     [] \<Rightarrow> w
   | m # ms \<Rightarrow> snd (handle_message env m (w\<lparr>w_streams := (w_streams w)(INTERVIEW_EVALUATE_STREAM := ms)\<rparr>)))"

lemma deliver_head_without_client:
  assumes "w_faults w = []" "find_row sid (w_committed w) = Some r" "\<not> evaluate_done r" "no_client env"
    "w_streams w INTERVIEW_EVALUATE_STREAM = [evaluate_message sid n]" "n < MAX_RETRY_COUNT"
  shows "w_faults (deliver_head env w) = []"
    "w_committed (deliver_head env w) = set_eval sid T_PROCESSING None (w_committed w)"
    "w_streams (deliver_head env w) INTERVIEW_EVALUATE_STREAM = [evaluate_message sid (n + 1)]"
proof -
  let ?w = "w\<lparr>w_streams := (w_streams w)(INTERVIEW_EVALUATE_STREAM := [])\<rparr>"
  from deliver_without_client [of ?w sid r env n] assms
  show "w_faults (deliver_head env w) = []"
    "w_committed (deliver_head env w) = set_eval sid T_PROCESSING None (w_committed w)"
    "w_streams (deliver_head env w) INTERVIEW_EVALUATE_STREAM = [evaluate_message sid (n + 1)]"
    by (auto simp: deliver_head_def)
qed


definition sample_row :: SessionRow where
  "sample_row = \<lparr>is_id = 1, is_session_id = [7], is_skill_id = [], is_difficulty = [], is_resume_id = None,
     is_total_questions = 1, is_current_question_index = 1, is_status = session_status_value S_COMPLETED,
     is_questions_json = Some (serialize_questions [mk_question 0 [2] [] []]), is_overall_score = None,
     is_overall_feedback = None, is_strengths_json = None, is_improvements_json = None,
     is_reference_answers_json = None, is_evaluate_status = Some (task_status_value T_PENDING), is_evaluate_error = None,
     is_llm_provider = None, is_source_type = ascii ''NORMAL'', is_knowledge_base_id = None,
     is_interview_category = None, is_created_at = 0, is_completed_at = None\<rparr>"

definition sample_world :: World where
  "sample_world = (initial_world [])\<lparr>
     w_committed := \<lparr>db_sessions = [sample_row], db_answers = [], db_resumes = [], db_next_id = 2\<rparr>,
     w_streams := (\<lambda>k. if k = INTERVIEW_EVALUATE_STREAM then [evaluate_message [7] 0] else [])\<rparr>"

lemma sample_facts:
  "w_faults sample_world = []" "find_row [7] (w_committed sample_world) = Some sample_row" "\<not> evaluate_done sample_row"
  "w_streams sample_world INTERVIEW_EVALUATE_STREAM = [evaluate_message [7] 0]" "no_client sample_env"
  by (simp_all add: sample_world_def initial_world_def find_row_def sample_row_def evaluate_done_def no_client_def
      sample_env_def Let_def)


end
