(* ===== verification/Triples.thy ===== *)
theory Triples
  imports Effects
begin

text \<open>
  Triples for operations that may raise: a precondition, a postcondition of the result, and
  a condition on the world an exception leaves. The rules follow the combinators of
  \<open>Effects\<close>.
\<close>

text \<open>From \<open>P\<close>, the operation ends normally in \<open>Q\<close> of its result or raises in \<open>E\<close>.\<close>

definition triple :: "('w \<Rightarrow> bool) \<Rightarrow> ('w, 'a) op \<Rightarrow> ('a \<Rightarrow> 'w \<Rightarrow> bool) \<Rightarrow> ('w \<Rightarrow> bool) \<Rightarrow> bool" where
  "triple P m Q E \<longleftrightarrow> (\<forall>w. P w \<longrightarrow> (case m w of (Inl e, w') \<Rightarrow> E w' | (Inr x, w') \<Rightarrow> Q x w'))"

lemma tripleD: "triple P m Q E \<Longrightarrow> P w \<Longrightarrow> (\<And>x. Q x w' \<Longrightarrow> E w') \<Longrightarrow> w' = snd (m w) \<Longrightarrow> E w'"
  by (cases "m w", cases "fst (m w)") (auto simp: triple_def)

lemma triple_bind:
  "triple P m M E \<Longrightarrow> (\<And>x. triple (M x) (f x) Q E) \<Longrightarrow> triple P (op_bind m f) Q E"
  by (fastforce simp: triple_def op_simps split: prod.split sum.split)

lemma triple_then: "triple P m (\<lambda>_. M) E \<Longrightarrow> triple M k Q E \<Longrightarrow> triple P (op_then m k) Q E"
  unfolding op_then_def by (rule triple_bind)

lemma triple_weaken:
  "triple P m Q E \<Longrightarrow> (\<And>w. P' w \<Longrightarrow> P w) \<Longrightarrow> (\<And>x w. Q x w \<Longrightarrow> Q' x w) \<Longrightarrow> (\<And>w. E w \<Longrightarrow> E' w) \<Longrightarrow> triple P' m Q' E'"
  by (fastforce simp: triple_def split: prod.splits sum.splits)

lemma triple_return: "(\<And>w. P w \<Longrightarrow> Q x w) \<Longrightarrow> triple P (op_return x) Q E"
  by (simp add: triple_def op_simps)

lemma triple_raise: "(\<And>w. P w \<Longrightarrow> E w) \<Longrightarrow> triple P (op_raise e) Q E"
  by (simp add: triple_def op_simps)

lemma triple_lift:
  "(\<And>w. P w \<Longrightarrow> E w) \<Longrightarrow> (\<And>x w. r = Inr x \<Longrightarrow> P w \<Longrightarrow> Q x w) \<Longrightarrow> triple P (op_lift r) Q E"
  by (auto simp: triple_def op_simps split: sum.split)

lemma lift_bind:
  "(\<And>w. P w \<Longrightarrow> E w) \<Longrightarrow> (\<And>x. r = Inr x \<Longrightarrow> triple P (f x) Q E) \<Longrightarrow> triple P (op_bind (op_lift r) f) Q E"
  by (cases r) (auto simp: triple_def op_simps)

lemma lift_then:
  "(\<And>w. P w \<Longrightarrow> E w) \<Longrightarrow> (r = Inr () \<Longrightarrow> triple P k Q E) \<Longrightarrow> triple P (op_then (op_lift r) k) Q E"
  unfolding op_then_def by (rule lift_bind) simp_all

lemma triple_inv: "op_inv P m \<Longrightarrow> (\<And>w. P w \<Longrightarrow> E w) \<Longrightarrow> triple P m (\<lambda>_. P) E"
  by (auto simp: triple_def op_inv_def split: prod.split sum.split dest: spec)

lemma triple_exI: "(\<And>x. triple (P x) m Q E) \<Longrightarrow> triple (\<lambda>w. \<exists>x. P x w) m Q E"
  by (fastforce simp: triple_def)

lemma triple_conjI: "(b \<Longrightarrow> triple P m Q E) \<Longrightarrow> triple (\<lambda>w. b \<and> P w) m Q E"
  by (simp add: triple_def)

lemma triple_if: "(b \<Longrightarrow> triple P m Q E) \<Longrightarrow> (\<not> b \<Longrightarrow> triple P n Q E) \<Longrightarrow> triple P (if b then m else n) Q E"
  by simp

lemma triple_option:
  "(v = None \<Longrightarrow> triple P m Q E) \<Longrightarrow> (\<And>x. v = Some x \<Longrightarrow> triple P (f x) Q E)
     \<Longrightarrow> triple P (case v of None \<Rightarrow> m | Some x \<Rightarrow> f x) Q E"
  by (cases v) simp_all

lemma triple_abort: "triple P m Q P \<Longrightarrow> (\<And>w. P w \<Longrightarrow> E w) \<Longrightarrow> triple P m Q E"
  by (rule triple_weaken)

lemma op_inv_triple: "triple P m (\<lambda>_. P) P \<Longrightarrow> op_inv P m"
  by (auto simp: op_inv_def elim!: tripleD)

lemma triple_try:
  "triple P m Q M \<Longrightarrow> (\<And>e. triple M (h e) Q E) \<Longrightarrow> triple P (op_try m h) Q E"
  unfolding triple_def op_try_def
proof (intro allI impI)
  fix w
  assume m: "\<forall>w. P w \<longrightarrow> (case m w of (Inl e, w') \<Rightarrow> M w' | (Inr x, w') \<Rightarrow> Q x w')"
    and h: "\<And>e. \<forall>w. M w \<longrightarrow> (case h e w of (Inl e, w') \<Rightarrow> E w' | (Inr x, w') \<Rightarrow> Q x w')" and "P w"
  obtain r w1 where r: "m w = (r, w1)" by fastforce
  show "case (case m w of (Inl e, w') \<Rightarrow> h e w' | (Inr x, w') \<Rightarrow> (Inr x, w')) of
      (Inl e, w') \<Rightarrow> E w' | (Inr x, w') \<Rightarrow> Q x w'"
    using m [rule_format, OF \<open>P w\<close>] h by (cases r) (simp_all add: r)
qed

lemma triple_at: "(\<And>w. P w \<Longrightarrow> triple (\<lambda>x. x = w) m Q E) \<Longrightarrow> triple P m Q E"
  by (simp add: triple_def)

lemma triple_same: "(\<And>w. snd (m w) = w) \<Longrightarrow> triple P m (\<lambda>_. P) P"
  by (simp add: triple_def split: prod.split sum.split) (metis snd_conv)

lemma triple_total: "P w \<Longrightarrow> triple P m (\<lambda>_. Q) (\<lambda>_. False) \<Longrightarrow> \<exists>w'. (m :: ('w, unit) op) w = (Inr (), w') \<and> Q w'"
  by (cases "m w", cases "fst (m w)") (auto simp: triple_def)

lemma triple_snd:
  "triple P m Q E \<Longrightarrow> P w \<Longrightarrow> (\<And>x w. Q x w \<Longrightarrow> R w) \<Longrightarrow> (\<And>w. E w \<Longrightarrow> R w) \<Longrightarrow> R (snd (m w))"
  by (cases "m w", cases "fst (m w)") (auto simp: triple_def)

lemma triple_False: "triple (\<lambda>_. False) m Q E"
  by (simp add: triple_def)

end
