(* ===== verification/Interview_Coherence.thy ===== *)
theory Interview_Coherence
  imports Interview_Integrity Triples
begin

text \<open>
  An abstraction of the interview world for its lifecycle: the status of every session in the
  running transaction, the committed database and the cache, and the sessions with a queued
  evaluation. Every repository, cache and producer step has a triple over it, and so has
  loading the view of a session.
\<close>

section \<open>What the lifecycle depends on\<close>

type_synonym statuses = "pystr \<Rightarrow> pystr option"

definition statuses_of :: "Db \<Rightarrow> statuses" where
  "statuses_of db = (\<lambda>sid. map_option is_status (find_row sid db))"

text \<open>The cached status of a session; \<open>Some None\<close> is a hash that lacks the field.\<close>

definition cached_status :: "World \<Rightarrow> pystr \<Rightarrow> pystr option option" where
  "cached_status w = (\<lambda>sid. if w_hashes w (session_key sid) = [] then None
     else Some (dict_get (w_hashes w (session_key sid)) FIELD_STATUS))"

definition queued :: "World \<Rightarrow> pystr set" where
  "queued w = {sid. \<exists>m \<in> set (w_streams w INTERVIEW_EVALUATE_STREAM). dict_get m SESSION_ID_FIELD = Some sid}"

definition follows :: "pystr \<Rightarrow> pystr \<Rightarrow> bool" where
  "follows c d \<longleftrightarrow> c = d \<or> c = session_status_value S_CREATED \<and> d = session_status_value S_IN_PROGRESS
     \<or> c = session_status_value S_COMPLETED \<and> d = session_status_value S_EVALUATED"

definition coherent :: "statuses \<Rightarrow> (pystr \<Rightarrow> pystr option option) \<Rightarrow> pystr set \<Rightarrow> bool" where
  "coherent C K M \<longleftrightarrow>
     (\<forall>sid oc. K sid = Some oc \<longrightarrow> (\<exists>c d. oc = Some c \<and> C sid = Some d \<and> follows c d))
     \<and> (\<forall>sid \<in> M. \<forall>d. C sid = Some d \<longrightarrow> d \<in> set COMPLETED_STATUSES)"

text \<open>
  A Redis that answers, with the statuses \<open>S\<close> of the running transaction, \<open>C\<close> of the committed
  database, \<open>K\<close> of the cache, and the set \<open>M\<close> of sessions with a queued evaluation.
\<close>

definition rows_ok :: "Db \<Rightarrow> bool" where
  "rows_ok db \<longleftrightarrow> sessions_ok (db_next_id db) (db_sessions db)"

definition stands :: "statuses \<Rightarrow> statuses \<Rightarrow> (pystr \<Rightarrow> pystr option option) \<Rightarrow> pystr set \<Rightarrow> World \<Rightarrow> bool" where
  "stands S C K M w \<longleftrightarrow> w_faults w = [] \<and> rows_ok (w_db w) \<and> rows_ok (w_committed w)
     \<and> statuses_of (w_db w) = S \<and> statuses_of (w_committed w) = C \<and> cached_status w = K \<and> queued w = M"

definition stage :: "pystr \<Rightarrow> nat" where
  "stage v = length (takeWhile (\<lambda>s. session_status_value s \<noteq> v) [S_CREATED, S_IN_PROGRESS, S_COMPLETED, S_EVALUATED])"

definition forward :: "statuses \<Rightarrow> statuses \<Rightarrow> bool" where
  "forward C C' \<longleftrightarrow> (\<forall>sid d d'. C sid = Some d \<longrightarrow> C' sid = Some d' \<longrightarrow> stage d \<le> stage d')"

definition calm :: "statuses \<Rightarrow> statuses \<Rightarrow> pystr set \<Rightarrow> World \<Rightarrow> bool" where
  "calm S C M w \<longleftrightarrow> (\<exists>K. stands S C K M w \<and> coherent C K M)"

text \<open>What a request may leave behind, started on the statuses \<open>C0\<close>.\<close>

definition settled :: "statuses \<Rightarrow> World \<Rightarrow> bool" where
  "settled C0 w \<longleftrightarrow> (\<exists>S C M. calm S C M w \<and> forward C0 C)"

lemma forward_refl [simp]: "forward C C" by (simp add: forward_def)

lemma calm_settled: "calm S C M w \<Longrightarrow> settled C w"
  unfolding settled_def using forward_refl by blast

lemma stage_simps [simp]:
  "stage (session_status_value S_CREATED) = 0" "stage (session_status_value S_IN_PROGRESS) = 1"
  "stage (session_status_value S_COMPLETED) = 2" "stage (session_status_value S_EVALUATED) = 3"
  by (simp_all add: stage_def)

section \<open>Effects of the steps\<close>

lemma session_key_inj [simp]: "session_key a = session_key b \<longleftrightarrow> a = b"
  by (simp add: session_key_def)

lemma unfinished_key_other [simp]: "session_key sid \<noteq> unfinished_key i" "unfinished_key i \<noteq> session_key sid"
  by (simp_all add: session_key_def unfinished_key_def ascii_def)

lemma cached_status_other [simp]:
  "cached_status (w\<lparr>w_db := db\<rparr>) = cached_status w" "cached_status (w\<lparr>w_committed := db\<rparr>) = cached_status w"
  "cached_status (w\<lparr>w_strings := f\<rparr>) = cached_status w" "cached_status (w\<lparr>w_streams := g\<rparr>) = cached_status w"
  "cached_status (w\<lparr>w_degraded := d\<rparr>) = cached_status w" "cached_status (w\<lparr>w_now := n\<rparr>) = cached_status w"
  by (simp_all add: cached_status_def cong: if_cong)

lemma queued_other [simp]:
  "queued (w\<lparr>w_db := db\<rparr>) = queued w" "queued (w\<lparr>w_committed := db\<rparr>) = queued w"
  "queued (w\<lparr>w_strings := f\<rparr>) = queued w" "queued (w\<lparr>w_hashes := h\<rparr>) = queued w"
  "queued (w\<lparr>w_degraded := d\<rparr>) = queued w" "queued (w\<lparr>w_now := n\<rparr>) = queued w"
  by (simp_all add: queued_def)

lemma find_row_member:
  assumes "rows_ok db" "r \<in> set (db_sessions db)"
  shows "find_row (is_session_id r) db = Some r"
proof (cases "find_row (is_session_id r) db")
  case None
  then show ?thesis using assms(2) by (simp add: find_row_None)
next
  case (Some r')
  with find_row_Some [OF Some] assms show ?thesis
    by (auto simp: rows_ok_def sessions_ok_def distinct_map dest: inj_onD)
qed

lemma stands_modify_db:
  assumes "\<And>db. rows_ok db \<Longrightarrow> rows_ok (f db) \<and> statuses_of (f db) = g (statuses_of db)"
  shows "triple (stands S C K M) (modify_db f) (\<lambda>_. stands (g S) C K M) E"
  using assms by (simp add: triple_def modify_db_def op_simps stands_def)

lemma update_row_rows_ok:
  assumes "keeps_keys f" "rows_ok db"
  shows "rows_ok (update_row sid f db)"
proof -
  note k = update_row_keys [OF assms(1), of sid db]
  have "is_id ` set (db_sessions (update_row sid f db)) = is_id ` set (db_sessions db)"
    by (metis k(2) set_map)
  then have "\<forall>r \<in> set (db_sessions (update_row sid f db)). is_id r < db_next_id db"
    using assms(2) unfolding rows_ok_def sessions_ok_def by (metis (no_types, lifting) image_iff)
  with assms(2) show ?thesis by (simp add: rows_ok_def sessions_ok_def k)
qed

lemma statuses_update_row:
  assumes "keeps_keys f" "\<And>r. is_status (f r) = h (is_status r)"
  shows "statuses_of (update_row sid f db) = (statuses_of db)(sid := map_option h (statuses_of db sid))"
  using assms by (auto simp: statuses_of_def find_row_update fun_eq_iff option.map_comp comp_def)

lemma modify_row_stands:
  assumes "keeps_keys f" "\<And>r. is_status (f r) = h (is_status r)"
  shows "triple (stands S C K M) (modify_db (update_row sid f)) (\<lambda>_. stands (S(sid := map_option h (S sid))) C K M) E"
  using stands_modify_db [where g = "\<lambda>S. S(sid := map_option h (S sid))"] update_row_rows_ok [OF assms(1)]
    statuses_update_row [of f h, OF assms] by simp

text \<open>Reads leave everything as it is.\<close>

lemma redis_stands [op_rules]: "op_inv (stands S C K M) m \<Longrightarrow> op_inv (stands S C K M) (redis m)"
  by (auto simp: op_inv_def redis_def stands_def split: list.split)

lemma redis_reads [op_rules]:
  "op_inv (stands S C K M) (redis_hgetall k)" "op_inv (stands S C K M) (redis_expire k n)" "op_inv (stands S C K M) (redis_get k)"
  unfolding redis_hgetall_def redis_expire_def redis_get_def by (intro op_rules)+

lemma cache_reads [op_rules]:
  "op_inv (stands S C K M) (cache_refresh_ttl sid)" "op_inv (stands S C K M) (cache_find_unfinished i)"
  unfolding cache_refresh_ttl_def cache_find_unfinished_def by (intro op_rules)+

lemma pure_reads [op_rules]:
  "op_inv P (load_questions q)" "op_inv P (load_resume_text i)" "op_inv P (answer_checks v n)"
  unfolding load_questions_def load_resume_text_def answer_checks_def by (intro op_rules)+

lemma find_optional_stands:
  "triple (stands S C K M) (find_by_session_id_optional sid)
     (\<lambda>o' w. (map_option is_status o' = S sid \<and> (\<forall>r. o' = Some r \<longrightarrow> is_session_id r = sid)) \<and> stands S C K M w) E"
  using find_row_Some by (auto simp: triple_def find_by_session_id_optional_def op_simps stands_def statuses_of_def)

lemma find_stands:
  "triple (stands S C K M) (find_by_session_id sid)
     (\<lambda>r w. (S sid = Some (is_status r) \<and> is_session_id r = sid) \<and> stands S C K M w) (stands S C K M)"
  unfolding find_by_session_id_def
  by (rule triple_bind [OF find_optional_stands], rule triple_conjI, rule triple_option)
    (auto intro!: triple_raise triple_return)

text \<open>Database steps.\<close>

lemma commit_stands: "triple (stands S C K M) commit (\<lambda>_. stands S S K M) E"
  by (simp add: triple_def commit_def op_simps stands_def)

lemma modify_answers_stands:
  "triple (stands S C K M) (modify_db (\<lambda>db. db\<lparr>db_answers := f db\<rparr>)) (\<lambda>_. stands S C K M) E"
  using stands_modify_db [where g = "\<lambda>S. S"] by (simp add: statuses_of_def find_row_def rows_ok_def)

lemma save_answer_row_stands:
  "triple (stands S C K M) (save_answer_row sid i q c a) (\<lambda>_ w. S sid \<noteq> None \<and> stands S C K M w) (stands S C K M)"
  unfolding save_answer_row_def
proof (rule triple_bind [OF find_stands], rule triple_conjI)
  fix orm assume S: "S sid = Some (is_status orm) \<and> is_session_id orm = sid"
  show "triple (stands S C K M) (op_bind (find_answer_by_session_and_index (is_id orm) i) (\<lambda>existing.
       case existing of
         Some e \<Rightarrow> modify_db (\<lambda>db. db\<lparr>db_answers := map (\<lambda>b. if ia_id b = ia_id e
             then b\<lparr>ia_question := Some q, ia_category := Some c, ia_user_answer := Some a\<rparr>
             else b) (db_answers db)\<rparr>)
       | None \<Rightarrow> repo_save_answer \<lparr>ia_id = 0, ia_session_id = is_id orm, ia_question_index = i,
             ia_question = Some q, ia_category = Some c, ia_user_answer = Some a,
             ia_score = None, ia_feedback = None, ia_reference_answer = None, ia_key_points_json = None,
             ia_answered_at = 0\<rparr>)) (\<lambda>_ w. S sid \<noteq> None \<and> stands S C K M w) (stands S C K M)"
    by (rule triple_bind, rule triple_inv [where P = "stands S C K M"])
      (auto simp: op_rules S repo_save_answer_def triple_def op_simps stands_def statuses_of_def find_row_def
        modify_db_def rows_ok_def sessions_ok_def split: option.split)
qed

lemma update_session_status_stands:
  "triple (stands S C K M) (update_session_status sid st)
     (\<lambda>_ w. S sid \<noteq> None \<and> stands (S(sid := Some st)) C K M w) (stands S C K M)"
  unfolding update_session_status_def repo_update_session_status_def
proof (rule triple_bind [OF find_stands], rule triple_conjI, rule triple_bind, rule triple_inv)
  fix orm now assume S: "S sid = Some (is_status orm) \<and> is_session_id orm = sid"
  have "triple (stands S C K M) (modify_db (update_row sid (\<lambda>r.
       let r' = r\<lparr>is_status := st\<rparr> in if st \<in> set COMPLETED_STATUSES then r'\<lparr>is_completed_at := Some now\<rparr> else r')))
     (\<lambda>_. stands (S(sid := map_option (\<lambda>_. st) (S sid))) C K M) (stands S C K M)"
    by (rule modify_row_stands) (simp_all add: keeps_keys_def Let_def)
  then show "triple (stands S C K M) (modify_db (update_row (is_session_id orm) (\<lambda>r.
       let r' = r\<lparr>is_status := st\<rparr> in if st \<in> set COMPLETED_STATUSES then r'\<lparr>is_completed_at := Some now\<rparr> else r')))
     (\<lambda>_ w. S sid \<noteq> None \<and> stands (S(sid := Some st)) C K M w) (stands S C K M)"
    using S by simp
qed (simp_all add: op_rules)

lemma update_index_stands:
  "triple (stands S C K M) (update_current_question_index sid i) (\<lambda>_. stands S C K M) (stands S C K M)"
  unfolding update_current_question_index_def repo_update_current_question_index_def
  by (rule triple_bind [OF find_stands], rule triple_conjI,
      rule triple_weaken [OF modify_row_stands [where h = "\<lambda>v. v"]])
    (auto simp: keeps_keys_def fun_upd_idem option.map_ident)

lemma repo_update_evaluate_stands:
  "triple (stands S C K M) (repo_update_evaluate_status r v err) (\<lambda>_. stands S C K M) E"
  unfolding repo_update_evaluate_status_def
  by (rule triple_weaken [OF modify_row_stands [where h = "\<lambda>v. v"]])
    (auto simp: keeps_keys_def fun_upd_idem option.map_ident)

lemma update_evaluate_stands:
  "triple (stands S C K M) (update_evaluate_status sid v err) (\<lambda>_. stands S C K M) (stands S C K M)"
  unfolding update_evaluate_status_def
  by (rule triple_bind [OF find_stands], rule triple_conjI, rule repo_update_evaluate_stands)

text \<open>Cache steps.\<close>

lemma cached_status_hash:
  "cached_status (w\<lparr>w_hashes := (w_hashes w)(session_key sid := h)\<rparr>) =
     (cached_status w)(sid := if h = [] then None else Some (dict_get h FIELD_STATUS))"
  by (auto simp: cached_status_def fun_eq_iff)

lemma cached_status_at: "cached_status w sid = Some oc \<Longrightarrow> dict_get (w_hashes w (session_key sid)) FIELD_STATUS = oc"
  by (simp add: cached_status_def split: if_splits)

lemma cache_update_status_stands:
  "triple (stands S C K M) (cache_update_status sid v) (\<lambda>_. stands S C (K(sid := Some (Some v))) M) E"
  by (simp add: triple_def cache_update_status_def cache_update_def redis_hset_def redis_expire_def redis_def op_simps
      stands_def cached_status_hash AList.update_nonempty)

lemma cache_update_field_stands:
  assumes "K sid = Some oc"
  shows "triple (stands S C K M) (cache_update_questions sid q) (\<lambda>_. stands S C K M) E"
    "triple (stands S C K M) (cache_update_current_index sid i) (\<lambda>_. stands S C K M) E"
proof -
  have "triple (stands S C K M) (cache_update sid f v) (\<lambda>_. stands S C K M) E" if "f \<noteq> FIELD_STATUS" for f v
    using assms that
    by (auto simp: triple_def cache_update_def redis_hset_def redis_expire_def redis_def op_simps
      stands_def cached_status_hash AList.update_nonempty cached_status_at fun_upd_idem)
  then show "triple (stands S C K M) (cache_update_questions sid q) (\<lambda>_. stands S C K M) E"
    "triple (stands S C K M) (cache_update_current_index sid i) (\<lambda>_. stands S C K M) E"
    by (simp_all add: cache_update_questions_def cache_update_current_index_def field_defs)
qed

lemma cache_mapping_status:
  "dict_get (fold (\<lambda>(f, v) h. dict_set f v h) (cache_mapping c) h) FIELD_STATUS = Some (ca_status c)"
  "fold (\<lambda>(f, v) h. dict_set f v h) (cache_mapping c) h \<noteq> []"
  by (simp_all add: cache_mapping_def AList.update_nonempty)

lemma redis_set_stands: "triple (stands S C K M) (redis_set k v) (\<lambda>_. stands S C K M) E"
  by (simp add: triple_def redis_set_def redis_def op_simps stands_def)

lemma write_cache_str_stands:
  "triple (stands S C K M) (write_cache_str c) (\<lambda>_. stands S C (K(ca_session_id c := Some (Some (ca_status c)))) M) E"
proof -
  have a: "triple (stands S C K M) (redis_hset (session_key (ca_session_id c)) (cache_mapping c))
      (\<lambda>_. stands S C (K(ca_session_id c := Some (Some (ca_status c)))) M) (\<lambda>_. False)"
    by (simp add: triple_def redis_hset_def redis_def op_simps stands_def cached_status_hash cache_mapping_status)
  have b: "triple (stands S C K' M) (redis_expire k n) (\<lambda>_. stands S C K' M) (\<lambda>_. False)" for K' k n
    by (simp add: triple_def redis_expire_def redis_def op_simps stands_def)
  have "triple (stands S C K M) (cache_save_session c)
      (\<lambda>_. stands S C (K(ca_session_id c := Some (Some (ca_status c)))) M) (\<lambda>_. False)"
    unfolding cache_save_session_def op_when_def
    by (rule triple_then [OF a], rule triple_then [OF b])
      (auto intro!: triple_option triple_if triple_return redis_set_stands)
  then show ?thesis by (auto simp: triple_def write_cache_str_def op_simps split: prod.splits sum.splits)
qed

lemma send_task_stands:
  "triple (stands S C K M) (send_task exc_str sid) (\<lambda>_. stands S C K (insert sid M)) E"
  by (auto simp: triple_def send_task_def redis_xadd_def redis_def op_simps stands_def queued_def evaluate_message_def)

lemma redis_delete_stands:
  "triple (stands S C K M) (redis_delete (session_key sid)) (\<lambda>_. stands S C (K(sid := None)) M) E"
  "triple (stands S C K M) (redis_delete (unfinished_key i)) (\<lambda>_. stands S C K M) E"
  by (auto simp: triple_def redis_delete_def redis_def op_simps stands_def cached_status_def queued_def fun_eq_iff)

section \<open>Coherence\<close>

lemma stands_settled: "stands S C K M w \<Longrightarrow> coherent C K M \<Longrightarrow> forward C0 C \<Longrightarrow> settled C0 w"
  by (auto simp: settled_def calm_def)

lemma coherent_cache:
  "coherent C K M \<Longrightarrow> C sid = Some d \<Longrightarrow> follows c d \<Longrightarrow> coherent C (K(sid := Some (Some c))) M"
  "coherent C K M \<Longrightarrow> coherent C (K(sid := None)) M"
  by (auto simp: coherent_def)

lemma coherent_both:
  assumes "coherent C K M" "follows c d" "sid \<in> M \<Longrightarrow> d \<in> set COMPLETED_STATUSES"
  shows "coherent (C(sid := Some d)) (K(sid := Some (Some c))) M"
  using assms by (auto simp: coherent_def)

lemma coherent_queue:
  assumes "coherent C K M" "\<And>d. C sid = Some d \<Longrightarrow> d \<in> set COMPLETED_STATUSES"
  shows "coherent C K (insert sid M)"
  using assms by (auto simp: coherent_def)

lemma coherent_drop_row:
  "coherent C K M \<Longrightarrow> coherent (C(sid := None)) (K(sid := None)) M"
  by (auto simp: coherent_def)

lemma coherent_follows: "coherent C K M \<Longrightarrow> K sid = Some (Some c) \<Longrightarrow> \<exists>d. C sid = Some d \<and> follows c d"
  by (fastforce simp: coherent_def)

lemma unfinished_cached:
  assumes "coherent C K M" "K sid = Some (Some c)" "c \<in> set UNFINISHED_STATUSES"
  shows "sid \<notin> M" "\<exists>d. C sid = Some d \<and> d \<in> set UNFINISHED_STATUSES \<and> follows c d"
proof -
  obtain d where d: "C sid = Some d" "follows c d" using coherent_follows [OF assms(1,2)] by blast
  with assms(3) have u: "d \<in> set UNFINISHED_STATUSES" by (auto simp: follows_def UNFINISHED_STATUSES_def)
  then have "d \<notin> set COMPLETED_STATUSES" by (auto simp: UNFINISHED_STATUSES_def COMPLETED_STATUSES_def)
  with d(1) assms(1) show "sid \<notin> M" by (auto simp: coherent_def)
  from d u show "\<exists>d. C sid = Some d \<and> d \<in> set UNFINISHED_STATUSES \<and> follows c d" by blast
qed

lemma forward_upd: "(\<And>d. C sid = Some d \<Longrightarrow> stage d \<le> stage st) \<Longrightarrow> forward C (C(sid := Some st))"
  by (auto simp: forward_def)

lemma parse_session_status_value: "parse_session_status v = Inr st \<Longrightarrow> session_status_value st = v"
  by (auto simp: parse_session_status_def split: if_splits)

lemma unfinished_status: "is_unfinished st \<longleftrightarrow> session_status_value st \<in> set UNFINISHED_STATUSES"
  by (cases st) (simp_all add: is_unfinished_def UNFINISHED_STATUSES_def)

section \<open>The view of a session\<close>

lemma parse_cached_status:
  "parse_cached_session sid raw = Inr c \<Longrightarrow> ca_status c = dict_get_default raw FIELD_STATUS (ascii ''CREATED'')"
  by (cases "py_int (dict_get_default raw FIELD_CURRENT_INDEX (ascii ''0''))"; cases "read_opt_int (dict_get_default raw FIELD_KNOWLEDGE_BASE_ID [])")
    (auto simp: parse_cached_session_def res_bind_Inr_iff)

lemma cache_get_stands:
  assumes "coherent C K M"
  shows "triple (stands S C K M) (cache_get_session sid)
     (\<lambda>o' w. (\<forall>c. o' = Some c \<longrightarrow> K sid = Some (Some (ca_status c))) \<and> stands S C K M w) (stands S C K M)"
proof -
  have "K sid = Some (Some (ca_status c))"
    if "cached_status w = K" "w_hashes w (session_key sid) \<noteq> []"
      "parse_cached_session sid (w_hashes w (session_key sid)) = Inr c" for w c
  proof -
    from that(1,2) have "K sid = Some (dict_get (w_hashes w (session_key sid)) FIELD_STATUS)"
      by (auto simp: cached_status_def)
    moreover with assms obtain x where "dict_get (w_hashes w (session_key sid)) FIELD_STATUS = Some x"
      by (fastforce simp: coherent_def)
    ultimately show ?thesis using parse_cached_status [OF that(3)] by (simp add: dict_get_default_def)
  qed
  then show ?thesis
    by (auto simp: triple_def cache_get_session_def redis_hgetall_def redis_def op_simps stands_def res_map_Inr_iff split: sum.split)
qed

lemma restore_view_stands:
  "triple (stands C C K M) (restore_view orm)
     (\<lambda>v w. sv_status v = is_status orm \<and> stands C C (K(is_session_id orm := Some (Some (is_status orm)))) M w) (stands C C K M)"
  unfolding restore_view_def Let_def
  by (rule triple_bind, rule triple_inv, (intro op_rules)[1], assumption)+
    (rule triple_then, rule write_cache_str_stands, rule triple_return, simp)

lemma view_stands:
  assumes "coherent C K M"
  shows "triple (stands C C K M) (get_or_restore_session sid)
     (\<lambda>v w. \<exists>K'. (coherent C K' M \<and> K' sid = Some (Some (sv_status v))) \<and> stands C C K' M w) (settled C)"
  unfolding get_or_restore_session_def
proof (rule triple_bind)
  show "triple (stands C C K M) (cache_get_session sid)
     (\<lambda>o' w. (\<forall>c. o' = Some c \<longrightarrow> K sid = Some (Some (ca_status c))) \<and> stands C C K M w) (settled C)"
    by (rule triple_weaken [OF cache_get_stands [OF assms]]) (auto intro: stands_settled [OF _ assms])
  fix cached
  show "triple (\<lambda>w. (\<forall>c. cached = Some c \<longrightarrow> K sid = Some (Some (ca_status c))) \<and> stands C C K M w)
     (case cached of
       Some c \<Rightarrow> op_then (cache_refresh_ttl sid)
         (op_return \<lparr>sv_session_id = ca_session_id c, sv_resume_id = ca_resume_id c, sv_resume_text = ca_resume_text c,
            sv_current_question_index = ca_current_index c, sv_status = ca_status c,
            sv_questions_json = ca_questions_json c, sv_knowledge_base_id = ca_knowledge_base_id c,
            sv_interview_category = ca_interview_category c\<rparr>)
     | None \<Rightarrow> op_bind (find_by_session_id_optional sid) (\<lambda>orm.
         case orm of
           None \<Rightarrow> op_raise (business_exception INTERVIEW_SESSION_NOT_FOUND None)
         | Some r \<Rightarrow> restore_view r))
     (\<lambda>v w. \<exists>K'. (coherent C K' M \<and> K' sid = Some (Some (sv_status v))) \<and> stands C C K' M w) (settled C)"
  proof (rule triple_conjI, rule triple_option)
    assume "cached = None"
    show "triple (stands C C K M) (op_bind (find_by_session_id_optional sid) (\<lambda>orm.
         case orm of
           None \<Rightarrow> op_raise (business_exception INTERVIEW_SESSION_NOT_FOUND None)
         | Some r \<Rightarrow> restore_view r))
       (\<lambda>v w. \<exists>K'. (coherent C K' M \<and> K' sid = Some (Some (sv_status v))) \<and> stands C C K' M w) (settled C)"
    proof (rule triple_bind [OF find_optional_stands], rule triple_conjI, rule triple_option)
      fix orm :: "SessionRow option" and r
      assume "map_option is_status orm = C sid \<and> (\<forall>r. orm = Some r \<longrightarrow> is_session_id r = sid)" "orm = Some r"
      then have r: "C sid = Some (is_status r)" "is_session_id r = sid" by auto
      have "coherent C (K(sid := Some (Some (is_status r)))) M"
        by (rule coherent_cache(1) [OF assms r(1)]) (simp add: follows_def)
      with r(2) show "triple (stands C C K M) (restore_view r)
         (\<lambda>v w. \<exists>K'. (coherent C K' M \<and> K' sid = Some (Some (sv_status v))) \<and> stands C C K' M w) (settled C)"
        using stands_settled [OF _ assms]
        by (intro triple_weaken [OF restore_view_stands]) (auto intro!: exI [of _ "K(sid := Some (Some (is_status r)))"])
    qed (rule triple_raise, rule stands_settled [OF _ assms forward_refl])
  next
    fix c assume "\<forall>c. cached = Some c \<longrightarrow> K sid = Some (Some (ca_status c))" "cached = Some c"
    then show "triple (stands C C K M) (op_then (cache_refresh_ttl sid)
         (op_return \<lparr>sv_session_id = ca_session_id c, sv_resume_id = ca_resume_id c, sv_resume_text = ca_resume_text c,
            sv_current_question_index = ca_current_index c, sv_status = ca_status c,
            sv_questions_json = ca_questions_json c, sv_knowledge_base_id = ca_knowledge_base_id c,
            sv_interview_category = ca_interview_category c\<rparr>))
       (\<lambda>v w. \<exists>K'. (coherent C K' M \<and> K' sid = Some (Some (sv_status v))) \<and> stands C C K' M w) (settled C)"
      using assms stands_settled [OF _ assms forward_refl]
      by (intro triple_then [OF triple_inv [OF cache_reads(1)]] triple_return) auto
  qed
qed

end
