(* ===== verification/Interview_Lifecycle.thy ===== *)
theory Interview_Lifecycle
  imports Interview_System Interview_Coherence
begin

text \<open>
  The lifecycle of an interview across the database and the cache. As long as no Redis call
  fails (keys may still be evicted), every cached status is the one of the database or its
  predecessor, every queued evaluation belongs to a finished interview, and no step moves the
  status of an interview backwards. One failing Redis call after a commit is enough to lose
  this, which the last section shows on a run.
\<close>

section \<open>Requests\<close>

text \<open>Steps of a request that may raise, with what a rolled back request leaves behind.\<close>

lemma raising_steps:
  assumes "coherent C K M"
  shows "triple (stands S C K M) (update_session_status sid st)
       (\<lambda>_ w. S sid \<noteq> None \<and> stands (S(sid := Some st)) C K M w) (settled C)"
    "triple (stands S C K M) (update_evaluate_status sid v err) (\<lambda>_. stands S C K M) (settled C)"
    "triple (stands S C K M) (update_current_question_index sid i) (\<lambda>_. stands S C K M) (settled C)"
    "triple (stands S C K M) (save_answer_row sid i q c a) (\<lambda>_ w. S sid \<noteq> None \<and> stands S C K M w) (settled C)"
  by (rule triple_abort [OF update_session_status_stands] triple_abort [OF update_evaluate_stands]
      triple_abort [OF update_index_stands] triple_abort [OF save_answer_row_stands],
      erule stands_settled [OF _ assms forward_refl])+

lemma settled_return:
  "coherent C' K M \<Longrightarrow> forward C C' \<Longrightarrow> triple (stands S C' K M) (op_return x) (\<lambda>_. settled C) E"
  by (rule triple_return) (rule stands_settled)

lemma settled_pure:
  assumes "op_inv (stands S C K M) m" "coherent C K M"
  shows "triple (stands S C K M) m (\<lambda>_. settled C) (settled C)"
  using stands_settled [OF _ assms(2) forward_refl]
  by (intro triple_weaken [OF triple_inv [OF assms(1)]]) auto

lemma pure_then:
  assumes "op_inv (stands S C K M) m" "coherent C K M" "\<And>x. triple (stands S C K M) (f x) Q (settled C)"
  shows "triple (stands S C K M) (op_bind m f) Q (settled C)"
  by (rule triple_bind [OF triple_inv [OF assms(1)]]) (auto intro: assms(3) stands_settled [OF _ assms(2)])

lemma view_then:
  assumes "coherent C K M"
    "\<And>v K'. coherent C K' M \<Longrightarrow> K' sid = Some (Some (sv_status v)) \<Longrightarrow> triple (stands C C K' M) (f v) Q (settled C)"
  shows "triple (stands C C K M) (op_bind (get_or_restore_session sid) f) Q (settled C)"
  by (rule triple_bind [OF view_stands [OF assms(1)]], rule triple_exI, rule triple_conjI) (auto intro: assms(2))

lemma answer_checks_stands:
  assumes "coherent C K M"
  shows "triple (stands S C K M) (answer_checks view i)
    (\<lambda>_ w. sv_status view \<in> set UNFINISHED_STATUSES \<and> stands S C K M w) (settled C)"
  unfolding answer_checks_def
  using stands_settled [OF _ assms forward_refl] unfinished_status parse_session_status_value
  by (auto simp: triple_def op_simps load_questions_def split: sum.split)

lemma drop_unfinished_stands: "triple (stands S C K M) (drop_unfinished_mapping view) (\<lambda>_. stands S C K M) E"
  unfolding drop_unfinished_mapping_def cache_delete_unfinished_def
  by (rule triple_option) (auto intro: triple_return redis_delete_stands)

lemma stage_unfinished: "d \<in> set UNFINISHED_STATUSES \<Longrightarrow> stage d \<le> 1"
  by (auto simp: UNFINISHED_STATUSES_def simp del: session_status_value.simps)

lemma get_session_settled:
  assumes "coherent C K M"
  shows "triple (stands C C K M) (get_session sid) (\<lambda>_. settled C) (settled C)"
  unfolding get_session_def
  by (rule view_then [OF assms]) (intro settled_pure op_rules; assumption)

lemma get_current_question_settled:
  assumes "coherent C K M"
  shows "triple (stands C C K M) (get_current_question sid) (\<lambda>_. settled C) (settled C)"
  unfolding get_current_question_def
proof (rule view_then [OF assms], rule pure_then, rule op_rules, assumption, rule triple_if)
  fix v K' and questions :: "InterviewQuestion list"
  assume v: "coherent C K' M" "K' sid = Some (Some (sv_status v))"
  show "triple (stands C C K' M) (op_return x) (\<lambda>_. settled C) (settled C)" for x
    by (rule settled_return [OF v(1) forward_refl])
  let ?next = "if sv_current_question_index v < 0 then op_raise (ValueError (ascii ''negative index''))
        else op_return \<lparr>cq_completed = False, cq_message = None,
               cq_question = Some (questions ! nat (sv_current_question_index v))\<rparr>"
  show "triple (stands C C K' M) (op_then (op_when (sv_status v = session_status_value S_CREATED)
         (op_then (update_session_status sid (session_status_value S_IN_PROGRESS))
           (op_then commit (cache_update_status sid (session_status_value S_IN_PROGRESS))))) ?next)
     (\<lambda>_. settled C) (settled C)"
    unfolding op_when_def
  proof (cases "sv_status v = session_status_value S_CREATED")
    case True
    let ?st = "session_status_value S_IN_PROGRESS"
    have u: "sv_status v \<in> set UNFINISHED_STATUSES" by (simp add: True UNFINISHED_STATUSES_def)
    obtain d where d: "C sid = Some d" "d \<in> set UNFINISHED_STATUSES"
      using unfinished_cached(2) [OF v u] by blast
    have coh: "coherent (C(sid := Some ?st)) (K'(sid := Some (Some ?st))) M"
      using unfinished_cached(1) [OF v u] by (intro coherent_both [OF v(1)]) (simp_all add: follows_def)
    have fwd: "forward C (C(sid := Some ?st))"
      using stage_unfinished [OF d(2)] d(1) by (intro forward_upd) (simp del: session_status_value.simps)
    have "triple (stands C C K' M) (op_then (update_session_status sid ?st) (op_then commit (cache_update_status sid ?st)))
       (\<lambda>_. stands (C(sid := Some ?st)) (C(sid := Some ?st)) (K'(sid := Some (Some ?st))) M) (settled C)"
      by (rule triple_then [OF raising_steps(1) [OF v(1)]], rule triple_conjI, rule triple_then [OF commit_stands],
          rule cache_update_status_stands)
    then show "triple (stands C C K' M) (op_then (if sv_status v = session_status_value S_CREATED
         then op_then (update_session_status sid ?st) (op_then commit (cache_update_status sid ?st)) else op_return ()) ?next)
       (\<lambda>_. settled C) (settled C)"
      unfolding if_P [OF True]
      by (rule triple_then) (intro triple_if triple_raise settled_return coh fwd, rule stands_settled [OF _ coh fwd])
  next
    case False
    then show "triple (stands C C K' M) (op_then (if sv_status v = session_status_value S_CREATED
         then op_then (update_session_status sid (session_status_value S_IN_PROGRESS))
           (op_then commit (cache_update_status sid (session_status_value S_IN_PROGRESS))) else op_return ()) ?next)
       (\<lambda>_. settled C) (settled C)"
      unfolding if_not_P [OF False] by (intro settled_pure v(1) op_rules)
  qed
qed

lemma end_settled:
  assumes "triple P m (\<lambda>_. stands S C' K M) (\<lambda>_. False)" "coherent C' K M" "forward C C'"
  shows "triple P m (\<lambda>_. settled C) E"
  using assms(1) by (rule triple_weaken) (auto intro: stands_settled [OF _ assms(2,3)])

lemma submit_answer_settled:
  assumes "coherent C K M"
  shows "triple (stands C C K M) (submit_answer exc_str sid req) (\<lambda>_. settled C) (settled C)"
  unfolding submit_answer_def Let_def
proof (rule view_then [OF assms], rule triple_bind, erule answer_checks_stands, rule triple_conjI,
    rule triple_then, erule raising_steps(4), rule triple_conjI, rule triple_then, rule triple_if)
  fix v :: SessionView and K' and questions :: "InterviewQuestion list"
  assume v: "coherent C K' M" "K' sid = Some (Some (sv_status v))" "sv_status v \<in> set UNFINISHED_STATUSES"
  let ?st = "session_status_value S_COMPLETED"
  obtain d where d: "C sid = Some d" "d \<in> set UNFINISHED_STATUSES" using unfinished_cached(2) [OF v] by blast
  have coh: "coherent (C(sid := Some ?st)) (K'(sid := Some (Some ?st))) (insert sid M)"
    by (intro coherent_queue coherent_both [OF v(1)]) (auto simp: follows_def simp del: session_status_value.simps)
  have fwd: "forward C (C(sid := Some ?st))"
    using stage_unfinished [OF d(2)] d(1) by (intro forward_upd) (simp del: session_status_value.simps)
  show "triple (stands C C K' M) (op_then (update_current_question_index sid i) (op_then commit
      (op_then (cache_update_questions sid q) (cache_update_current_index sid i)))) (\<lambda>_. settled C) (settled C)" for i q
    by (rule triple_then [OF raising_steps(3) [OF v(1)]], rule triple_then [OF commit_stands],
        rule triple_then [OF cache_update_field_stands(1) [where K = K' and sid = sid, OF v(2)]],
        rule end_settled [OF cache_update_field_stands(2) [where K = K' and sid = sid, OF v(2)] v(1) forward_refl])
  show "triple (stands C C K' M) (op_then (update_session_status sid ?st)
      (op_then (update_evaluate_status sid (task_status_value T_PENDING) None) (op_then commit
      (op_then (cache_update_questions sid q) (op_then (cache_update_status sid ?st)
      (op_then (send_task exc_str sid) (drop_unfinished_mapping v))))))) (\<lambda>_. settled C) (settled C)" for q
    by (rule triple_then [OF raising_steps(1) [OF v(1)]], rule triple_conjI,
        rule triple_then [OF raising_steps(2) [OF v(1)]], rule triple_then [OF commit_stands],
        rule triple_then [OF cache_update_field_stands(1) [where K = K' and sid = sid, OF v(2)]],
        rule triple_then [OF cache_update_status_stands], rule triple_then [OF send_task_stands],
        rule end_settled [OF drop_unfinished_stands coh fwd])
next
  show "triple (settled C) (op_return x) (\<lambda>_. settled C) (settled C)" for x
    by (rule triple_return)
qed

lemma save_answer_settled:
  assumes "coherent C K M"
  shows "triple (stands C C K M) (save_answer sid req) (\<lambda>_. settled C) (settled C)"
  unfolding save_answer_def Let_def op_when_def
proof (rule view_then [OF assms], rule triple_bind, erule answer_checks_stands, rule triple_conjI,
    rule triple_then, erule raising_steps(4), rule triple_conjI)
  fix v :: SessionView and K' and questions :: "InterviewQuestion list"
  assume v: "coherent C K' M" "K' sid = Some (Some (sv_status v))" "sv_status v \<in> set UNFINISHED_STATUSES"
  let ?st = "session_status_value S_IN_PROGRESS"
  obtain d where d: "C sid = Some d" "d \<in> set UNFINISHED_STATUSES" "follows (sv_status v) d"
    using unfinished_cached(2) [OF v] by blast
  have fwd: "forward C (C(sid := Some ?st))"
    using stage_unfinished [OF d(2)] d(1) by (intro forward_upd) (simp del: session_status_value.simps)
  show "triple (stands C C K' M) (op_then (if sv_status v = session_status_value S_CREATED
      then update_session_status sid ?st else op_return ()) (op_then commit (cache_update_questions sid q)))
    (\<lambda>_. settled C) (settled C)" for q
  proof (cases "sv_status v = session_status_value S_CREATED")
    case True
    have coh: "coherent (C(sid := Some ?st)) (K'(sid := Some (Some (sv_status v)))) M"
      using unfinished_cached(1) [OF v] True by (intro coherent_both [OF v(1)]) (simp_all add: follows_def)
    then have coh: "coherent (C(sid := Some ?st)) K' M" using v(2) by (simp add: fun_upd_idem)
    show ?thesis unfolding if_P [OF True]
      by (rule triple_then [OF raising_steps(1) [OF v(1)]], rule triple_conjI, rule triple_then [OF commit_stands],
          rule end_settled [OF cache_update_field_stands(1) [where K = K' and sid = sid, OF v(2)] coh fwd])
  next
    case False
    show ?thesis unfolding if_not_P [OF False]
      by (rule triple_then [where M = "stands C C K' M"], rule triple_return, assumption,
          rule triple_then [OF commit_stands],
          rule end_settled [OF cache_update_field_stands(1) [where K = K' and sid = sid, OF v(2)] v(1) forward_refl])
  qed
qed

lemma complete_interview_settled:
  assumes "coherent C K M"
  shows "triple (stands C C K M) (complete_interview exc_str sid) (\<lambda>_. settled C) (settled C)"
  unfolding complete_interview_def
proof (rule view_then [OF assms], rule lift_bind, erule stands_settled [OF _ _ forward_refl], assumption, rule lift_then,
    erule stands_settled [OF _ _ forward_refl], assumption)
  fix v :: SessionView and K' current
  assume v: "coherent C K' M" "K' sid = Some (Some (sv_status v))" and
    current: "parse_session_status (sv_status v) = Inr current" "validate_transition current S_COMPLETED = Inr ()"
  let ?st = "session_status_value S_COMPLETED"
  have "current \<in> {S_CREATED, S_IN_PROGRESS}"
    using current(2) by (cases current) (auto simp: validate_transition_def SESSION_VALID_TRANSITIONS_def)
  then have u: "sv_status v \<in> set UNFINISHED_STATUSES"
    using parse_session_status_value [OF current(1)] by (auto simp: UNFINISHED_STATUSES_def)
  obtain d where d: "C sid = Some d" "d \<in> set UNFINISHED_STATUSES" using unfinished_cached(2) [OF v u] by blast
  have coh: "coherent (C(sid := Some ?st)) (K'(sid := Some (Some ?st))) (insert sid M)"
    by (intro coherent_queue coherent_both [OF v(1)]) (auto simp: follows_def simp del: session_status_value.simps)
  have fwd: "forward C (C(sid := Some ?st))"
    using stage_unfinished [OF d(2)] d(1) by (intro forward_upd) (simp del: session_status_value.simps)
  show "triple (stands C C K' M) (op_then (update_session_status sid ?st)
      (op_then (update_evaluate_status sid (task_status_value T_PENDING) None) (op_then commit
      (op_then (cache_update_status sid ?st) (op_then (send_task exc_str sid) (drop_unfinished_mapping v))))))
      (\<lambda>_. settled C) (settled C)"
    by (rule triple_then [OF raising_steps(1) [OF v(1)]], rule triple_conjI,
        rule triple_then [OF raising_steps(2) [OF v(1)]], rule triple_then [OF commit_stands],
        rule triple_then [OF cache_update_status_stands], rule triple_then [OF send_task_stands],
        rule end_settled [OF drop_unfinished_stands coh fwd])
qed

text \<open>Looking up the unfinished interview of a resume may refill the cache.\<close>

lemma find_unfinished_row_stands:
  "triple (stands S C K M) (find_unfinished_by_resume_id i)
     (\<lambda>o' w. (\<forall>r. o' = Some r \<longrightarrow> S (is_session_id r) = Some (is_status r)) \<and> stands S C K M w) E"
proof -
  have "S (is_session_id r) = Some (is_status r)"
    if "newest_first (filter P (db_sessions db)) = r # rs" "rows_ok db" "statuses_of db = S" for P db r rs
  proof -
    have "r \<in> set (newest_first (filter P (db_sessions db)))" by (simp add: that(1))
    then have "r \<in> set (db_sessions db)" by (simp add: newest_first_def)
    with find_row_member [OF that(2)] that(3) show ?thesis by (auto simp: statuses_of_def)
  qed
  then show ?thesis
    by (fastforce simp: triple_def find_unfinished_by_resume_id_def op_simps stands_def split: list.split)
qed

lemma restore_from_orm_calm:
  assumes "coherent C K M" "C (is_session_id orm) = Some (is_status orm)"
  shows "triple (stands C C K M) (restore_from_orm orm) (\<lambda>_. calm C C M) (settled C)"
  unfolding restore_from_orm_def Let_def write_cache_def
proof (rule pure_then, (intro op_rules)[1], rule assms, rule pure_then, (intro op_rules)[1], rule assms,
    rule pure_then, (intro op_rules)[1], rule assms, rule lift_bind)
  fix w show "stands C C K M w \<Longrightarrow> settled C w" by (rule stands_settled [OF _ assms(1) forward_refl])
next
  fix t qs and answers :: "AnswerRow list" and status
  assume st: "parse_session_status (is_status orm) = Inr status"
  let ?c = "\<lparr>ca_session_id = is_session_id orm, ca_resume_text = or_str t [], ca_resume_id = is_resume_id orm,
     ca_questions_json = serialize_questions (overlay_rows qs answers), ca_current_index = is_current_question_index orm,
     ca_status = session_status_value status, ca_knowledge_base_id = is_knowledge_base_id orm,
     ca_interview_category = is_interview_category orm\<rparr>"
  have "coherent C (K(is_session_id orm := Some (Some (is_status orm)))) M"
    by (rule coherent_cache(1) [OF assms]) (simp add: follows_def)
  then show "triple (stands C C K M) (op_then (write_cache_str ?c) (op_return x)) (\<lambda>_. calm C C M) (settled C)" for x
    using parse_session_status_value [OF st]
    by (intro triple_then [OF write_cache_str_stands] triple_return) (auto simp: calm_def)
qed

lemma find_unfinished_in_db_calm:
  assumes "coherent C K M"
  shows "triple (stands C C K M) (find_unfinished_in_db i) (\<lambda>_. calm C C M) (settled C)"
  unfolding find_unfinished_in_db_def
proof (rule triple_bind [OF find_unfinished_row_stands], rule triple_conjI, rule triple_option)
  show "triple (stands C C K M) (op_return None) (\<lambda>_. calm C C M) (settled C)"
    using assms by (intro triple_return) (auto simp: calm_def)
  fix o' :: "SessionRow option" and r
  assume "\<forall>r. o' = Some r \<longrightarrow> C (is_session_id r) = Some (is_status r)" "o' = Some r"
  then have "C (is_session_id r) = Some (is_status r)" by simp
  from restore_from_orm_calm [OF assms this]
  show "triple (stands C C K M) (op_bind (restore_from_orm r) (\<lambda>dto. op_return (Some dto))) (\<lambda>_. calm C C M) (settled C)"
    by (rule triple_bind) (auto intro: triple_return)
qed

lemma find_unfinished_calm:
  assumes "coherent C K M"
  shows "triple (stands C C K M) (find_unfinished i) (\<lambda>_. calm C C M) (settled C)"
  unfolding find_unfinished_def
proof (rule pure_then, (intro op_rules)[1], rule assms, rule triple_option, rule find_unfinished_in_db_calm [OF assms],
    rule triple_bind [OF triple_abort [OF cache_get_stands [OF assms]]], erule stands_settled [OF _ assms forward_refl],
    rule triple_conjI, rule triple_option, rule find_unfinished_in_db_calm [OF assms], rule lift_bind,
    erule stands_settled [OF _ assms forward_refl], rule triple_if)
  show "triple (stands C C K M) (op_then (cache_delete_unfinished i) (find_unfinished_in_db i)) (\<lambda>_. calm C C M) (settled C)"
    unfolding cache_delete_unfinished_def
    by (rule triple_then [OF redis_delete_stands(2) find_unfinished_in_db_calm [OF assms]])
  show "triple (stands C C K M) (op_bind (op_lift q) (\<lambda>questions. op_return (f questions))) (\<lambda>_. calm C C M) (settled C)"
    for q :: "'b result" and f :: "'b \<Rightarrow> 'c"
    using assms by (intro lift_bind triple_return) (auto simp: calm_def intro: stands_settled [OF _ assms forward_refl])
qed

lemma statuses_append:
  assumes "rows_ok db" "statuses_of db (is_session_id row) = None" "is_id row = db_next_id db"
  shows "rows_ok (db\<lparr>db_sessions := db_sessions db @ [row], db_next_id := db_next_id db + 1\<rparr>)"
    "statuses_of (db\<lparr>db_sessions := db_sessions db @ [row], db_next_id := n\<rparr>) =
       (statuses_of db)(is_session_id row := Some (is_status row))"
proof -
  have none: "find_row (is_session_id row) db = None" using assms(2) by (simp add: statuses_of_def)
  then show "rows_ok (db\<lparr>db_sessions := db_sessions db @ [row], db_next_id := db_next_id db + 1\<rparr>)"
    using assms(1,3) by (auto simp: rows_ok_def sessions_ok_def find_row_None)
  have "find P (xs @ [y]) = (case find P xs of Some z \<Rightarrow> Some z | None \<Rightarrow> if P y then Some y else None)" for P xs and y :: SessionRow
    by (induction xs) auto
  with none show "statuses_of (db\<lparr>db_sessions := db_sessions db @ [row], db_next_id := n\<rparr>) =
       (statuses_of db)(is_session_id row := Some (is_status row))"
    by (auto simp: statuses_of_def find_row_def fun_eq_iff split: option.split)
qed

lemma save_session_stands:
  "triple (stands S C K M) (save_session sid ri n qs lp sk df src kb cat)
     (\<lambda>_ w. S sid = None \<and> stands (S(sid := Some (session_status_value S_CREATED))) C K M w) (stands S C K M)"
proof -
  have "find_row sid db = None \<longleftrightarrow> statuses_of db sid = None" for db by (simp add: statuses_of_def)
  then show ?thesis
    by (auto simp: triple_def save_session_def repo_save_session_def stands_def Let_def statuses_append
        simp del: not_None_eq session_status_value.simps)
qed

lemma new_row:
  assumes "coherent C K M" "C sid = None" "sid \<notin> M"
  shows "coherent (C(sid := Some st)) (K(sid := Some (Some st))) M" "forward C (C(sid := Some st))"
  using coherent_both [OF assms(1), of st st sid] assms(2,3) by (auto simp: follows_def forward_def)

lemma create_steps:
  assumes "coherent C K M" "sid \<notin> M"
  shows "triple (stands C C K M)
    (op_then (op_bind (save_session sid ri n qs lp sk df src kb cat) (\<lambda>_. commit))
      (op_then (write_cache sid t ri' qs 0 S_CREATED kb cat) (op_return x))) (\<lambda>_. settled C) (settled C)"
proof (cases "C sid")
  case None
  show ?thesis
    unfolding write_cache_def
    by (rule triple_then [OF triple_bind [OF triple_abort [OF save_session_stands]]],
        erule stands_settled [OF _ assms(1) forward_refl], rule triple_conjI, rule commit_stands,
        rule triple_then [OF write_cache_str_stands], rule end_settled [OF triple_return])
      (use new_row [OF assms(1) None assms(2)] in simp_all)
next
  case (Some d)
  have "triple (stands C C K M) (save_session sid ri n qs lp sk df src kb cat) (\<lambda>_ _. False) (settled C)"
    using Some stands_settled [OF _ assms(1) forward_refl] by (intro triple_weaken [OF save_session_stands]) auto
  then have "triple (stands C C K M) (op_bind (save_session sid ri n qs lp sk df src kb cat) (\<lambda>_. commit)) (\<lambda>_ _. False) (settled C)"
    by (rule triple_bind) (simp add: triple_def)
  then show ?thesis by (rule triple_then) (simp add: triple_def)
qed

lemma create_from_questions_settled:
  assumes "coherent C K M" "take SESSION_ID_LENGTH uuid \<notin> M"
  shows "triple (stands C C K M) (create_session_from_questions uuid qs lp sk df kb cat) (\<lambda>_. settled C) (settled C)"
  unfolding create_session_from_questions_def Let_def
  by (rule triple_if, rule triple_raise, erule stands_settled [OF _ assms(1) forward_refl], rule create_steps [OF assms])

lemma create_new_session_settled:
  assumes "coherent C K M" "take SESSION_ID_LENGTH uuid \<notin> M"
  shows "triple (stands C C K M) (create_new_session gen lower uuid req) (\<lambda>_. settled C) (settled C)"
  unfolding create_new_session_def Let_def
  by (rule pure_then, (intro op_rules)[1], rule assms(1))+ (rule create_steps [OF assms])

lemma create_session_settled:
  assumes "coherent C K M" "take SESSION_ID_LENGTH uuid \<notin> M"
  shows "triple (stands C C K M) (create_session gen lower uuid req) (\<lambda>_. settled C) (settled C)"
proof -
  have "triple (stands C C K M) (op_bind (find_unfinished i) (\<lambda>unfinished.
      case unfinished of Some dto \<Rightarrow> op_return dto | None \<Rightarrow> create_new_session gen lower uuid req)) (\<lambda>_. settled C) (settled C)" for i
  proof (rule triple_bind [OF find_unfinished_calm [OF assms(1)]])
    fix u show "triple (calm C C M) (case u of Some dto \<Rightarrow> op_return dto | None \<Rightarrow> create_new_session gen lower uuid req)
        (\<lambda>_. settled C) (settled C)"
    proof (cases u)
      case None
      have "triple (\<lambda>w. \<exists>K. coherent C K M \<and> stands C C K M w) (create_new_session gen lower uuid req) (\<lambda>_. settled C) (settled C)"
        by (intro triple_exI triple_conjI create_new_session_settled assms(2))
      then show ?thesis unfolding None option.case by (rule triple_weaken) (auto simp: calm_def)
    qed (auto intro!: triple_return calm_settled)
  qed
  then show ?thesis
    using create_new_session_settled [OF assms] by (simp add: create_session_def split: option.split)
qed

lemma find_unfinished_session_settled:
  assumes "coherent C K M"
  shows "triple (stands C C K M) (find_unfinished_session i) (\<lambda>_. settled C) (settled C)"
  unfolding find_unfinished_session_def
  by (rule triple_bind [OF find_unfinished_calm [OF assms]], rule triple_option)
    (auto intro!: triple_return triple_raise calm_settled)

text \<open>Deleting a session removes its row and its hash.\<close>

lemma statuses_delete:
  assumes "rows_ok db" "find_row sid db = Some r"
  shows "rows_ok (db\<lparr>db_sessions := filter (\<lambda>x. is_id x \<noteq> is_id r) (db_sessions db), db_answers := as\<rparr>)"
    "statuses_of (db\<lparr>db_sessions := filter (\<lambda>x. is_id x \<noteq> is_id r) (db_sessions db), db_answers := as\<rparr>) = (statuses_of db)(sid := None)"
proof -
  show "rows_ok (db\<lparr>db_sessions := filter (\<lambda>x. is_id x \<noteq> is_id r) (db_sessions db), db_answers := as\<rparr>)"
    using assms(1) by (auto simp: rows_ok_def sessions_ok_def distinct_map_filter)
  have "is_id x = is_id r \<longleftrightarrow> is_session_id x = sid" if "x \<in> set (db_sessions db)" for x
    using that assms(1) find_row_Some [OF assms(2)] by (auto simp: rows_ok_def sessions_ok_def distinct_map inj_on_def)
  then have "filter (\<lambda>x. is_id x \<noteq> is_id r) (db_sessions db) = filter (\<lambda>x. is_session_id x \<noteq> sid) (db_sessions db)"
    by (intro filter_cong) auto
  moreover have "find (\<lambda>x. is_session_id x = sid') (filter (\<lambda>x. is_session_id x \<noteq> sid) xs) =
      (if sid' = sid then None else find (\<lambda>x. is_session_id x = sid') xs)" for sid' and xs :: "SessionRow list"
    by (induction xs) auto
  ultimately show "statuses_of (db\<lparr>db_sessions := filter (\<lambda>x. is_id x \<noteq> is_id r) (db_sessions db), db_answers := as\<rparr>) = (statuses_of db)(sid := None)"
    by (auto simp: statuses_of_def find_row_def fun_eq_iff)
qed

lemma persistence_delete_stands:
  "triple (stands S C K M) (persistence_delete_session sid) (\<lambda>_. stands (S(sid := None)) C K M) (stands S C K M)"
  by (auto simp: triple_def persistence_delete_session_def find_by_session_id_def find_by_session_id_optional_def op_simps
      repo_delete_def modify_db_def stands_def statuses_delete split: option.split)

lemma delete_session_settled:
  assumes "coherent C K M"
  shows "triple (stands C C K M) (delete_session sid) (\<lambda>_. settled C) (settled C)"
  unfolding delete_session_def
proof (rule triple_bind [OF find_optional_stands], rule triple_conjI, rule triple_option)
  show "triple (stands C C K M) (op_return ()) (\<lambda>_. settled C) (settled C)"
    by (rule settled_return [OF assms forward_refl])
  fix r :: SessionRow
  let ?C = "C(sid := None)" let ?K = "K(sid := None)"
  have coh: "coherent ?C ?K M" by (rule coherent_drop_row [OF assms])
  have fwd: "forward C ?C" by (simp add: forward_def)
  have ret: "triple (stands ?C ?C ?K M) (op_return ()) (\<lambda>_. settled C) (settled C)" by (rule settled_return [OF coh fwd])
  show "triple (stands C C K M) (op_then (persistence_delete_session sid) (op_then commit (op_then (cache_delete_session sid)
      (case is_resume_id r of None \<Rightarrow> op_return ()
       | Some resume_id \<Rightarrow> op_bind (cache_find_unfinished resume_id) (\<lambda>unfinished_id.
                op_when (unfinished_id = Some sid) (cache_delete_unfinished resume_id)))))) (\<lambda>_. settled C) (settled C)"
    unfolding cache_delete_session_def cache_delete_unfinished_def op_when_def
    by (rule triple_then [OF triple_abort [OF persistence_delete_stands]], erule stands_settled [OF _ assms forward_refl],
        rule triple_then [OF commit_stands], rule triple_then [OF redis_delete_stands(1)],
        rule triple_option, rule ret, rule triple_bind [OF triple_inv [OF cache_reads(2)]],
        erule stands_settled [OF _ coh fwd], rule triple_if, rule end_settled [OF redis_delete_stands(2) coh fwd], rule ret)
qed

section \<open>Evaluation messages\<close>

definition advances :: "statuses \<Rightarrow> statuses \<Rightarrow> bool" where
  "advances C C' \<longleftrightarrow> (\<forall>sid. rel_option (\<lambda>d d'. stage d \<le> stage d') (C sid) (C' sid))"

lemma advances_refl [simp]: "advances C C"
  by (simp add: advances_def option.rel_refl)

lemma advances_trans:
  assumes "advances A B" "advances B C"
  shows "advances A C"
  unfolding advances_def
proof
  fix sid
  from assms have "rel_option (\<lambda>d d'. stage d \<le> stage d') (A sid) (B sid)" "rel_option (\<lambda>d d'. stage d \<le> stage d') (B sid) (C sid)"
    by (simp_all add: advances_def)
  then show "rel_option (\<lambda>d d'. stage d \<le> stage d') (A sid) (C sid)"
    by (cases "A sid"; cases "B sid"; cases "C sid") auto
qed

lemma advances_forward: "advances C C' \<Longrightarrow> forward C C'"
  by (force simp: advances_def forward_def rel_option_iff split: option.splits)

text \<open>What the steps of the consumer keep, begun at \<open>C\<close>.\<close>

definition consuming :: "statuses \<Rightarrow> pystr set \<Rightarrow> World \<Rightarrow> bool" where
  "consuming C M w \<longleftrightarrow> (\<exists>S C' K. stands S C' K M w \<and> coherent C' K M \<and> advances C C')"

lemma consuming_at: "stands S C K M w \<Longrightarrow> coherent C K M \<Longrightarrow> consuming C M w"
  unfolding consuming_def using advances_refl by blast

lemma consuming_trans: "consuming C' M w \<Longrightarrow> advances C C' \<Longrightarrow> consuming C M w"
  unfolding consuming_def using advances_trans by blast

lemma new_session_consuming:
  assumes "\<And>C K. coherent C K M \<Longrightarrow> triple (stands C C K M) m (\<lambda>_. consuming C M) (consuming C M)"
  shows "op_inv (consuming C0 M) (in_new_session m)"
proof (rule op_invI)
  fix w assume "consuming C0 M w"
  then obtain S C K where st: "stands S C K M w" and coh: "coherent C K M" and adv: "advances C0 C"
    by (auto simp: consuming_def)
  from st have "stands C C K M (w\<lparr>w_db := w_committed w\<rparr>)" by (simp add: stands_def)
  with assms [OF coh] have "consuming C M (snd (m (w\<lparr>w_db := w_committed w\<rparr>)))"
    by (rule tripleD) auto
  moreover have "rows_ok (w_db w)" using st by (simp add: stands_def)
  ultimately have "consuming C M (snd (in_new_session m w))"
    by (auto simp: in_new_session_def consuming_def stands_def split: prod.split)
  then show "consuming C0 M (snd (in_new_session m w))" using adv by (rule consuming_trans)
qed

lemma persist_answer_stands [op_rules]: "op_inv (stands S C K M) (persist_answer report a)"
  unfolding persist_answer_def Let_def repo_update_answer_evaluation_def
  by (intro op_rules op_inv_triple [OF modify_answers_stands])

lemma degraded_stands [op_rules]:
  "op_inv (stands S C K M) (remember_degraded sid report)" "op_inv (stands S C K M) (pop_degraded sid)"
  by (auto simp: op_inv_def remember_degraded_def pop_degraded_def op_simps stands_def)

lemma business_reads [op_rules]:
  "op_inv P (build_session_qa_records r)" "op_inv P (consumer_resume_text i)" "op_inv P (build_reference_context r)"
  unfolding build_session_qa_records_def consumer_resume_text_def build_reference_context_def Let_def
  by (intro op_rules)+

text \<open>Setting the evaluation status: the status of the interview stays.\<close>

lemma evaluate_commit_consuming:
  assumes "coherent C K M"
  shows "triple (stands C C K M) (op_then (repo_update_evaluate_status r v err) commit) (\<lambda>_. consuming C M) E"
  by (rule triple_then [OF repo_update_evaluate_stands], rule triple_weaken [OF commit_stands])
    (auto intro: consuming_at [OF _ assms])

lemma mark_processing_consuming: "op_inv (consuming C0 M) (mark_processing sid)"
  unfolding mark_processing_def
  by (rule new_session_consuming, rule triple_bind [OF find_optional_stands], rule triple_conjI, rule triple_option)
    (auto intro!: triple_return evaluate_commit_consuming intro: consuming_at)

lemma marks_consuming:
  "op_inv (consuming C0 M) (mark_completed sid)" "op_inv (consuming C0 M) (mark_failed sid err)"
proof -
  have pop: "coherent C K M \<Longrightarrow> triple (stands C C K M) (pop_degraded sid) (\<lambda>_. stands C C K M) (consuming C M)" for C K
    by (rule triple_inv) (auto intro: op_rules consuming_at)
  show "op_inv (consuming C0 M) (mark_completed sid)"
    unfolding mark_completed_def
    by (rule new_session_consuming, rule triple_bind [OF find_optional_stands], rule triple_conjI,
        rule triple_bind [OF pop], assumption, rule triple_option)
      (auto intro!: triple_return evaluate_commit_consuming intro: consuming_at)
  show "op_inv (consuming C0 M) (mark_failed sid err)"
    unfolding mark_failed_def
    by (rule new_session_consuming, rule triple_bind [OF pop], assumption, rule triple_bind [OF find_optional_stands],
        rule triple_conjI, rule triple_option)
      (auto intro!: triple_return evaluate_commit_consuming intro: consuming_at)
qed

lemma evaluated_advances:
  assumes "coherent C K M" "sid \<in> M" "C sid = Some d"
  shows "coherent (C(sid := Some (session_status_value S_EVALUATED))) K M"
    "advances C (C(sid := Some (session_status_value S_EVALUATED)))"
proof -
  have d: "d \<in> set COMPLETED_STATUSES" using assms by (auto simp: coherent_def)
  then have f: "follows c d \<Longrightarrow> follows c (session_status_value S_EVALUATED)" for c
    by (auto simp: follows_def COMPLETED_STATUSES_def)
  have "\<exists>c d'. oc = Some c \<and> (C(sid := Some (session_status_value S_EVALUATED))) sid' = Some d' \<and> follows c d'"
    if "K sid' = Some oc" for sid' oc
  proof -
    from assms(1) that have "\<exists>c d'. oc = Some c \<and> C sid' = Some d' \<and> follows c d'" by (simp add: coherent_def)
    then obtain c d' where "oc = Some c" "C sid' = Some d'" "follows c d'" by blast
    then show ?thesis using f assms(3) by (cases "sid' = sid") (auto simp del: session_status_value.simps)
  qed
  moreover have "\<forall>sid' \<in> M. \<forall>d'. (C(sid := Some (session_status_value S_EVALUATED))) sid' = Some d' \<longrightarrow> d' \<in> set COMPLETED_STATUSES"
    using assms(1) by (simp add: coherent_def del: session_status_value.simps)
  ultimately show "coherent (C(sid := Some (session_status_value S_EVALUATED))) K M"
    unfolding coherent_def by blast
  have "stage d \<le> 3" using d by (auto simp: COMPLETED_STATUSES_def simp del: session_status_value.simps)
  with assms(3) show "advances C (C(sid := Some (session_status_value S_EVALUATED)))"
    by (simp add: advances_def option.rel_refl del: session_status_value.simps)
qed

lemma persist_result_stands:
  assumes "is_session_id r = sid" "C sid = Some d"
  shows "triple (stands C C K M) (persist_result r report)
    (\<lambda>_. stands (C(sid := Some (session_status_value S_EVALUATED))) C K M) (stands C C K M)"
  unfolding persist_result_def Let_def repo_save_evaluation_result_def assms(1)
proof (rule lift_bind, assumption, rule triple_bind, rule triple_inv, (intro op_rules)[1], assumption, rule triple_then,
    rule triple_inv, (intro op_rules)[1], assumption)
  fix f
  show "triple (stands C C K M) (modify_db (update_row sid (\<lambda>r. r\<lparr>
       is_overall_score := a, is_overall_feedback := b, is_strengths_json := c, is_improvements_json := e,
       is_reference_answers_json := g, is_status := session_status_value S_EVALUATED\<rparr>)))
    (\<lambda>_. stands (C(sid := Some (session_status_value S_EVALUATED))) C K M) (stands C C K M)" for a b c e g
  proof -
    have "map_option (\<lambda>_. session_status_value S_EVALUATED) (C sid) = Some (session_status_value S_EVALUATED)"
      by (simp add: assms(2))
    moreover have "triple (stands C C K M) (modify_db (update_row sid (\<lambda>r. r\<lparr>
       is_overall_score := a, is_overall_feedback := b, is_strengths_json := c, is_improvements_json := e,
       is_reference_answers_json := g, is_status := session_status_value S_EVALUATED\<rparr>)))
      (\<lambda>_. stands (C(sid := map_option (\<lambda>_. session_status_value S_EVALUATED) (C sid))) C K M) (stands C C K M)"
      by (rule modify_row_stands) (simp_all add: keeps_keys_def)
    ultimately show ?thesis by (simp only:)
  qed
qed

lemma process_business_consuming:
  assumes "sid \<in> M"
  shows "op_inv (consuming C0 M) (process_business chat graph sid)"
  unfolding process_business_def
proof (rule new_session_consuming, rule triple_bind [OF find_optional_stands], rule triple_conjI, rule triple_option)
  fix C K assume coh: "coherent C K M"
  note here = consuming_at [OF _ coh]
  show "triple (stands C C K M) (op_return ()) (\<lambda>_. consuming C M) (consuming C M)"
    by (rule triple_return) (rule here)
  fix o' :: "SessionRow option" and r
  assume "map_option is_status o' = C sid \<and> (\<forall>r. o' = Some r \<longrightarrow> is_session_id r = sid)" "o' = Some r"
  then have r: "is_session_id r = sid" "C sid = Some (is_status r)" by auto
  let ?C = "C(sid := Some (session_status_value S_EVALUATED))"
  note ev = evaluated_advances [OF coh assms r(2)]
  have fin: "consuming C M w" if "stands S ?C K M w" for S w
    using consuming_trans [OF consuming_at [OF that ev(1)] ev(2)] .
  have "triple (stands C C K M)
     (op_then (persist_result r report) (op_then commit (remember_degraded sid report))) (\<lambda>_. consuming C M) (consuming C M)" for report
    by (rule triple_then [OF triple_abort [OF persist_result_stands [where C = C and sid = sid, OF r]]], erule here, rule triple_then [OF commit_stands],
        rule triple_weaken [OF triple_inv [OF degraded_stands(1)]]) (auto intro: fin)
  then show "triple (stands C C K M) (if evaluate_done r then op_return ()
         else
           op_bind (build_session_qa_records r) (\<lambda>qa_records.
           op_bind (consumer_resume_text (is_resume_id r)) (\<lambda>resume_text.
           op_then (op_lift (chat (is_llm_provider r)))
           (op_bind (build_reference_context r) (\<lambda>context.
           op_bind (op_lift (graph (is_kb_session r) sid qa_records resume_text context)) (\<lambda>report.
           op_then (persist_result r report) (op_then commit (remember_degraded sid report))))))))
      (\<lambda>_. consuming C M) (consuming C M)"
    by (intro triple_if triple_return here lift_bind lift_then
        triple_bind [OF triple_inv [OF business_reads(1)]] triple_bind [OF triple_inv [OF business_reads(2)]]
        triple_bind [OF triple_inv [OF business_reads(3)]])
qed

lemma consume_consuming:
  assumes "\<And>sid. dict_get data SESSION_ID_FIELD = Some sid \<Longrightarrow> sid \<in> M"
  shows "op_inv (consuming C0 M) (consume chat graph exc_str data)"
proof -
  let ?h = "evaluate_handlers chat graph"
  have ack: "op_inv (consuming C0 M) (ack ?h)"
    by (auto simp: op_inv_def ack_def evaluate_handlers_def redis_def op_simps consuming_def stands_def
        split: list.split bool.split sum.split prod.split)
  have retry: "op_inv (consuming C0 M) (retry_message sid n)" if "sid \<in> M" for sid n
  proof -
    have "queued (w\<lparr>w_streams := (w_streams w)(INTERVIEW_EVALUATE_STREAM :=
        w_streams w INTERVIEW_EVALUATE_STREAM @ [evaluate_message sid n])\<rparr>) = insert sid (queued w)" for w
      by (auto simp: queued_def evaluate_message_def)
    then show ?thesis using that
      by (auto simp: op_inv_def retry_message_def redis_xadd_def redis_def op_simps consuming_def stands_def insert_absorb)
  qed
  have "op_inv (consuming C0 M) (handle_payload ?h err n sid)" if "sid \<in> M" for err n sid
    unfolding handle_payload_def
    by (intro op_rules ack) (simp_all add: evaluate_handlers_def op_rules mark_processing_consuming marks_consuming
        process_business_consuming retry that)
  then show ?thesis using assms ack
    by (auto simp: consume_def process_message_def evaluate_handlers_def parse_payload_def split: option.split)
qed

section \<open>Runs without Redis failures\<close>

text \<open>
  New session identifiers come from \<open>uuid4\<close>: they are not those of a deleted session whose
  evaluation is still queued.
\<close>

definition fresh_request :: "Request \<Rightarrow> World \<Rightarrow> bool" where
  "fresh_request req w = (case req of
     R_Create uuid _ \<Rightarrow> take SESSION_ID_LENGTH uuid \<notin> queued w
   | R_Create_From_Questions uuid _ _ _ _ _ _ \<Rightarrow> take SESSION_ID_LENGTH uuid \<notin> queued w
   | _ \<Rightarrow> True)"

inductive calm_step :: "Env \<Rightarrow> World \<Rightarrow> World \<Rightarrow> bool" for env where
  calm_request: "fresh_request req w \<Longrightarrow> calm_step env w (snd (run_request (handle env req) w))"
| calm_deliver: "data \<in> set (w_streams w INTERVIEW_EVALUATE_STREAM) \<Longrightarrow> calm_step env w (snd (handle_message env data w))"
| calm_forget: "set ms \<subseteq> set (w_streams w k) \<Longrightarrow> calm_step env w (w\<lparr>w_streams := (w_streams w)(k := ms)\<rparr>)"
| calm_evict_hash: "calm_step env w (w\<lparr>w_hashes := (w_hashes w)(k := [])\<rparr>)"
| calm_evict_string: "calm_step env w (w\<lparr>w_strings := (w_strings w)(k := None)\<rparr>)"
| calm_restart: "calm_step env w (w\<lparr>w_degraded := []\<rparr>)"
| calm_tick: "calm_step env w (w\<lparr>w_now := w_now w + 1\<rparr>)"

inductive_cases calm_stepE: "calm_step env w w'"

lemma calm_step_system: "calm_step env w w' \<Longrightarrow> system_step env w w'"
  by (induction rule: calm_step.induct) (auto intro: system_step.intros)

inductive calm_reachable :: "Env \<Rightarrow> (int \<times> pystr option) list \<Rightarrow> World \<Rightarrow> bool" for env resumes where
  calm_start: "calm_reachable env resumes (initial_world resumes)"
| calm_next: "calm_reachable env resumes w \<Longrightarrow> calm_step env w w' \<Longrightarrow> calm_reachable env resumes w'"

definition calm_world :: "World \<Rightarrow> bool" where
  "calm_world w \<longleftrightarrow> calm (statuses_of (w_db w)) (statuses_of (w_committed w)) (queued w) w"

lemma calm_world_iff:
  "calm_world w \<longleftrightarrow> w_faults w = [] \<and> rows_ok (w_db w) \<and> rows_ok (w_committed w)
     \<and> coherent (statuses_of (w_committed w)) (cached_status w) (queued w)"
  by (auto simp: calm_world_def calm_def stands_def)

lemma coherent_subset: "coherent C K M \<Longrightarrow> M' \<subseteq> M \<Longrightarrow> coherent C K M'"
  by (auto simp: coherent_def)

lemma handle_settled:
  assumes "coherent C K M" "fresh_request req w" "queued w = M"
  shows "triple (stands C C K M) (handle env req) (\<lambda>_. settled C) (settled C)"
proof -
  note rules = get_session_settled get_current_question_settled submit_answer_settled save_answer_settled
    complete_interview_settled create_from_questions_settled create_session_settled find_unfinished_session_settled
    delete_session_settled
  have list: "triple (stands C C K M) (list_sessions limit off) (\<lambda>_. settled C) (settled C)" for limit off
    unfolding list_sessions_def by (intro settled_pure op_rules assms(1))
  have drop: "triple P (drop_result m) (\<lambda>_. settled C) (settled C)" if "triple P m (\<lambda>_. settled C) (settled C)"
    for P and m :: "'x world_op"
    unfolding drop_result_def using that by (rule triple_bind) (auto intro: triple_return)
  show ?thesis
    using assms(2) unfolding fresh_request_def assms(3) by (cases req) (auto intro!: rules drop list assms(1))
qed

lemma run_request_calm:
  assumes "calm_world w" "fresh_request req w" "w' = snd (run_request (handle env req) w)"
  shows "calm_world w' \<and> forward (statuses_of (w_committed w)) (statuses_of (w_committed w'))"
proof -
  let ?C = "statuses_of (w_committed w)" and ?w = "w\<lparr>w_db := w_committed w\<rparr>"
  have st: "stands ?C ?C (cached_status w) (queued w) ?w" and coh: "coherent ?C (cached_status w) (queued w)"
    using assms(1) by (simp_all add: calm_world_iff stands_def)
  have "settled ?C (snd (handle env req ?w))"
    using handle_settled [OF coh assms(2) refl] st by (rule tripleD) auto
  then show ?thesis
    by (auto simp: assms(3) run_request_def settled_def calm_def calm_world_iff stands_def split: prod.split)
qed

lemma calm_step_world:
  assumes "calm_step env w w'" "calm_world w"
  shows "calm_world w' \<and> forward (statuses_of (w_committed w)) (statuses_of (w_committed w'))"
  using assms
proof (induction rule: calm_step.induct)
  case (calm_request req w)
  then show ?case by (intro run_request_calm) auto
next
  case (calm_deliver data w)
  let ?C = "statuses_of (w_committed w)"
  have "consuming ?C (queued w) w"
    using calm_deliver(2) by (intro consuming_at) (auto simp: calm_world_iff stands_def)
  moreover have "op_inv (consuming ?C (queued w)) (handle_message env data)"
    unfolding handle_message_def by (rule consume_consuming) (use calm_deliver(1) in \<open>auto simp: queued_def\<close>)
  ultimately have "consuming ?C (queued w) (snd (handle_message env data w))" by (rule op_invD [rotated])
  then show ?case by (auto simp: consuming_def calm_world_iff stands_def advances_forward)
next
  case (calm_forget ms w k)
  have "queued (w\<lparr>w_streams := (w_streams w)(k := ms)\<rparr>) \<subseteq> queued w"
    using calm_forget(1) by (auto simp: queued_def)
  with calm_forget(2) show ?case by (auto simp: calm_world_iff intro: coherent_subset)
next
  case (calm_evict_hash w k)
  then show ?case by (auto simp: calm_world_iff coherent_def cached_status_def)
qed (simp_all add: calm_world_iff)

lemma initial_calm: "calm_world (initial_world resumes)"
  by (simp add: calm_world_iff initial_world_def rows_ok_def sessions_ok_def coherent_def cached_status_def queued_def Let_def)

lemma calm_reachable_world: "calm_reachable env resumes w \<Longrightarrow> calm_world w"
  by (induction rule: calm_reachable.induct) (auto intro: initial_calm simp: calm_step_world)

text \<open>
  C1. The status of an interview only moves forward. Along any run of requests, deliveries of
  evaluation messages (repeated ones too), evictions from the cache, lost stream entries and
  consumer restarts in which Redis answers, no step takes the stored status of a session
  back: a completed interview is not reopened, an evaluated one stays evaluated.
\<close>
theorem interview_status_forward:
  assumes "calm_reachable env resumes w" "calm_step env w w'"
    "find_row sid (w_committed w) = Some r" "find_row sid (w_committed w') = Some r'"
  shows "stage (is_status r) \<le> stage (is_status r')"
  using calm_step_world [OF assms(2) calm_reachable_world [OF assms(1)]] assms(3,4)
  by (auto simp: forward_def statuses_of_def)

definition created_world :: World where
  "created_world = snd (run_request (handle sample_env
     (R_Create_From_Questions [1] [mk_question 0 [2] [] []] None [] [] None None)) (initial_world []))"

definition created_row :: SessionRow where
  "created_row = \<lparr>is_id = 1, is_session_id = [1], is_skill_id = [], is_difficulty = [], is_resume_id = None,
     is_total_questions = 1, is_current_question_index = 0, is_status = ascii ''CREATED'',
     is_questions_json = Some (serialize_questions [mk_question 0 [2] [] []]), is_overall_score = None,
     is_overall_feedback = None, is_strengths_json = None, is_improvements_json = None,
     is_reference_answers_json = None, is_evaluate_status = None, is_evaluate_error = None,
     is_llm_provider = None, is_source_type = ascii ''KNOWLEDGE_BASE'', is_knowledge_base_id = None,
     is_interview_category = None, is_created_at = 0, is_completed_at = None\<rparr>"

definition created_hash :: "(pystr, pystr) dict" where
  "created_hash = [(FIELD_RESUME_TEXT, []), (FIELD_RESUME_ID, []), (FIELD_KNOWLEDGE_BASE_ID, []),
     (FIELD_INTERVIEW_CATEGORY, []), (FIELD_QUESTIONS_JSON, serialize_questions [mk_question 0 [2] [] []]),
     (FIELD_CURRENT_INDEX, int_str 0), (FIELD_STATUS, ascii ''CREATED'')]"

lemma created_world_eq:
  "created_world = (let db = \<lparr>db_sessions = [created_row], db_answers = [], db_resumes = [], db_next_id = 2\<rparr>
     in (initial_world [])\<lparr>w_db := db, w_committed := db, w_hashes := (\<lambda>k. [])(session_key [1] := created_hash)\<rparr>)"
  by (simp add: created_world_def run_request_def drop_result_def create_session_from_questions_def save_session_def
      repo_save_session_def initial_world_def find_row_def op_simps commit_def write_cache_def write_cache_str_def
      cache_save_session_def redis_hset_def redis_expire_def redis_def Let_def SESSION_ID_LENGTH_def cache_mapping_def
      created_row_def created_hash_def opt_int_text_def or_str_def field_defs)

lemma created_cached:
  "parse_cached_session [1] created_hash = Inr \<lparr>ca_session_id = [1], ca_resume_text = [], ca_resume_id = None,
     ca_questions_json = serialize_questions [mk_question 0 [2] [] []], ca_current_index = 0, ca_status = ascii ''CREATED'',
     ca_knowledge_base_id = None, ca_interview_category = None\<rparr>"
  by (simp add: parse_cached_session_def created_hash_def dict_get_default_def read_opt_int_def field_defs)

lemma created_hash_present [simp]: "created_hash \<noteq> []"
  by (simp add: created_hash_def)

lemma complete_valid [simp]: "validate_transition S_CREATED S_COMPLETED = Inr ()"
  by (simp add: validate_transition_def SESSION_VALID_TRANSITIONS_def)

lemmas created_evals = get_or_restore_session_def cache_get_session_def redis_hgetall_def redis_def created_cached
  cache_refresh_ttl_def redis_expire_def parse_session_status_def
  update_session_status_def find_by_session_id_def find_by_session_id_optional_def find_row_def created_row_def
  repo_update_session_status_def modify_db_def update_row_def update_evaluate_status_def repo_update_evaluate_status_def
  commit_def cache_update_status_def cache_update_def redis_hset_def drop_unfinished_mapping_def

lemma created_reachable: "calm_reachable sample_env [] created_world"
  unfolding created_world_def
  by (rule calm_next [OF calm_start calm_request]) (simp add: fresh_request_def queued_def initial_world_def Let_def)

lemma interview_status_forward_witness:
  "\<exists>w'. calm_step sample_env created_world w' \<and> find_row [1] (w_committed created_world) = Some created_row \<and>
     (\<exists>r'. find_row [1] (w_committed w') = Some r' \<and> is_status r' = ascii ''COMPLETED'' \<and>
        stage (is_status created_row) \<le> stage (is_status r'))"
proof -
  let ?w' = "snd (run_request (handle sample_env (R_Complete [1])) created_world)"
  have step: "calm_step sample_env created_world ?w'" by (rule calm_request) (simp add: fresh_request_def)
  have old: "find_row [1] (w_committed created_world) = Some created_row"
    by (simp add: created_world_eq find_row_def created_row_def Let_def)
  have "map_option is_status (find_row [1] (w_committed ?w')) = Some (ascii ''COMPLETED'')"
    by (simp add: created_world_eq Let_def run_request_def initial_world_def complete_interview_def op_simps created_evals
        send_task_def redis_xadd_def del: One_nat_def)
  then obtain r' where r': "find_row [1] (w_committed ?w') = Some r'" "is_status r' = ascii ''COMPLETED''" by auto
  from interview_status_forward [OF created_reachable step old r'(1)] step old r' show ?thesis by blast
qed

text \<open>
  C21. The cache and the queue are never ahead of the database. In every state such a run
  reaches, a cached session exists in the database, its cached status is the stored one or
  the one before it (the first answer may be saved, and an evaluation stored, without
  touching the cache), and every queued evaluation is one of a finished interview, unless
  its session is deleted.
\<close>
theorem interview_cache_behind_database:
  assumes "calm_reachable env resumes w"
  shows "(w_hashes w (session_key sid) \<noteq> [] \<longrightarrow>
      (\<exists>c r. dict_get (w_hashes w (session_key sid)) FIELD_STATUS = Some c \<and> find_row sid (w_committed w) = Some r
        \<and> follows c (is_status r)))
    \<and> (\<forall>m \<in> set (w_streams w INTERVIEW_EVALUATE_STREAM). \<forall>r. dict_get m SESSION_ID_FIELD = Some sid \<longrightarrow>
        find_row sid (w_committed w) = Some r \<longrightarrow> finished r)"
proof -
  have coh: "coherent (statuses_of (w_committed w)) (cached_status w) (queued w)"
    using calm_reachable_world [OF assms] by (simp add: calm_world_iff)
  then have "w_hashes w (session_key sid) \<noteq> [] \<longrightarrow> (\<exists>c d. dict_get (w_hashes w (session_key sid)) FIELD_STATUS = Some c
      \<and> statuses_of (w_committed w) sid = Some d \<and> follows c d)"
    by (fastforce simp: coherent_def cached_status_def)
  moreover from coh have "sid \<in> queued w \<Longrightarrow> statuses_of (w_committed w) sid = Some d \<Longrightarrow> d \<in> set COMPLETED_STATUSES" for d
    by (simp add: coherent_def)
  ultimately show ?thesis by (auto simp: statuses_of_def queued_def finished_def)
qed

lemma interview_cache_behind_database_witness:
  "w_hashes created_world (session_key [1]) \<noteq> [] \<and>
    (\<exists>c r. dict_get (w_hashes created_world (session_key [1])) FIELD_STATUS = Some c
       \<and> find_row [1] (w_committed created_world) = Some r \<and> follows c (is_status r))"
proof -
  have "w_hashes created_world (session_key [1]) \<noteq> []" by (simp add: created_world_eq Let_def)
  with interview_cache_behind_database [OF created_reachable, of "[1]"] show ?thesis by blast
qed

section \<open>One failing call\<close>

text \<open>
  Completing an interview when Redis fails at the first call after the commit: the request
  raises, the session is COMPLETED and its evaluation PENDING, but no message was queued.
  Asking for the current question afterwards trusts the cached status and reopens it.
\<close>

definition failing_world :: World where
  "failing_world = created_world\<lparr>w_faults := [False, False, True]\<rparr>"

definition stranded_world :: World where
  "stranded_world = snd (run_request (handle sample_env (R_Complete [1])) failing_world)"

lemma completion_can_be_stranded:
  "map_option (\<lambda>r. (is_status r, is_evaluate_status r)) (find_row [1] (w_committed stranded_world))
     = Some (ascii ''COMPLETED'', Some (ascii ''PENDING''))
   \<and> w_streams stranded_world INTERVIEW_EVALUATE_STREAM = []"
  by (simp add: stranded_world_def failing_world_def created_world_eq Let_def run_request_def initial_world_def
      complete_interview_def op_simps created_evals del: One_nat_def)

lemma serialize_questions_nonempty [simp]: "serialize_questions qs \<noteq> []"
  by (simp add: serialize_questions_def)

lemma stranded_completion_reopened:
  "map_option is_status (find_row [1] (w_committed
     (snd (run_request (handle sample_env (R_Current_Question [1])) stranded_world)))) = Some (ascii ''IN_PROGRESS'')"
  by (simp add: stranded_world_def failing_world_def created_world_eq Let_def run_request_def initial_world_def
      complete_interview_def drop_result_def get_current_question_def load_questions_def or_str_def
      op_simps created_evals del: One_nat_def)

end
