(* ===== verification/Kb_Store.thy ===== *)
theory Kb_Store
  imports Question_Bank Question_Codec Interview_Store
begin

text \<open>
  What the knowledge base services store: the rows of \<open>db/models/knowledge_base.py\<close>, the chunks
  of \<open>vector_store\<close>, and the queries of \<open>knowledge_base_repository.py\<close>,
  \<open>knowledge_base_document_repository.py\<close>, \<open>knowledge_base_question_repository.py\<close> and
  \<open>vector/repository.py\<close> on them. Each service method works in sessions of its own that commit
  once, at their end: a session is an operation on the database that takes effect when it
  returns and is rolled back when it raises. Redis calls fail as in \<open>Interview_Store\<close>.
\<close>

section \<open>Rows\<close>

record KbRow =
  kb_id :: int
  kb_name :: "pystr option"
  kb_category :: "pystr option"
  kb_chunk_count :: int
  kb_access_count :: int
  kb_question_count :: int
  kb_vector_status :: pystr
  kb_vector_error :: "pystr option"
  kb_gen_status :: pystr
  kb_gen_error :: "pystr option"
  kb_gen_task_id :: "pystr option"
  kb_gen_config :: "pystr option"
  kb_gen_message :: "pystr option"
  kb_gen_saved_count :: int
  kb_gen_skipped_count :: int
  kb_gen_updated_at :: "int option"
  kb_uploaded_at :: int
  kb_last_accessed_at :: "int option"

record DocRow =
  kd_id :: int
  kd_kb_id :: int
  kd_file_hash :: pystr
  kd_original_filename :: pystr
  kd_file_size :: "int option"
  kd_content_type :: "pystr option"
  kd_storage_key :: "pystr option"
  kd_storage_url :: "pystr option"
  kd_content_text :: "pystr option"
  kd_chunk_count :: int
  kd_vector_status :: pystr
  kd_vector_error :: "pystr option"
  kd_vector_job_id :: "pystr option"
  kd_uploaded_at :: int
  kd_vectorized_at :: "int option"

record BankRow =
  kq_id :: int
  kq_kb_id :: int
  kq_skill_id :: pystr
  kq_difficulty :: "pystr option"
  kq_type :: "pystr option"
  kq_category :: "pystr option"
  kq_question :: pystr
  kq_topic_summary :: "pystr option"
  kq_reference_answer :: "pystr option"
  kq_key_points_json :: "pystr option"
  kq_scoring_rubric :: "pystr option"
  kq_follow_ups_json :: "pystr option"
  kq_source_context :: "pystr option"
  kq_content_hash :: "pystr option"
  kq_status :: pystr
  kq_created_at :: int
  kq_updated_at :: int

text \<open>
  A row of \<open>vector_store\<close>; \<open>vr_job\<close> is the key \<open>kb_vector_job_id\<close> of its metadata, present
  while the row is pending. Embeddings are lists of rationals: floats are.
\<close>

record VectorRow =
  vr_content :: pystr
  vr_embedding :: "rat list"
  vr_kb_id :: "int option"
  vr_document_id :: "int option"
  vr_job :: "pystr option"
  vr_chunk_index :: int

record KbDb =
  db_kbs :: "KbRow list"
  db_docs :: "DocRow list"
  db_bank :: "BankRow list"
  db_vectors :: "VectorRow list"
  db_fresh :: int

record KbWorld =
  kw_db :: KbDb
  kw_streams :: "pystr \<Rightarrow> stream_message list"
  kw_faults :: "bool list"
  kw_storage :: "pystr list"
  kw_now :: int

type_synonym 'a kb_op = "(KbWorld, 'a) op"
type_synonym 'a db_op = "(KbDb, 'a) op"

section \<open>Sessions and Redis\<close>

text \<open>\<open>async with session_factory() as session: ...; await session.commit()\<close>.\<close>

definition in_session :: "(int \<Rightarrow> 'a db_op) \<Rightarrow> 'a kb_op" where
  "in_session m = (\<lambda>w. case m (kw_now w) (kw_db w) of
     (Inl e, _) \<Rightarrow> (Inl e, w) | (Inr x, db) \<Rightarrow> (Inr x, w\<lparr>kw_db := db\<rparr>))"

definition kb_xadd :: "pystr \<Rightarrow> stream_message \<Rightarrow> unit kb_op" where
  "kb_xadd stream msg = (\<lambda>w. case kw_faults w of
     True # fs \<Rightarrow> (Inl RedisError, w\<lparr>kw_faults := fs\<rparr>)
   | fs \<Rightarrow> (Inr (), w\<lparr>kw_faults := tl fs, kw_streams := (kw_streams w)(stream := kw_streams w stream @ [msg])\<rparr>))"

definition kb_xack :: "unit kb_op" where
  "kb_xack = (\<lambda>w. case kw_faults w of
     True # fs \<Rightarrow> (Inl RedisError, w\<lparr>kw_faults := fs\<rparr>)
   | fs \<Rightarrow> (Inr (), w\<lparr>kw_faults := tl fs\<rparr>))"

text \<open>\<open>send_task\<close> returns the message id, empty after a failure: here whether it was sent.\<close>

definition kb_send_task :: "(exn \<Rightarrow> pystr) \<Rightarrow> pystr \<Rightarrow> stream_message \<Rightarrow> (pystr \<Rightarrow> unit kb_op) \<Rightarrow> bool kb_op" where
  "kb_send_task exc_str stream msg failed =
     op_try (op_then (kb_xadd stream msg) (op_return True))
       (\<lambda>e. op_then (failed ([20219, 21153, 20837, 38431, 22833, 36133, 58, 32] @ truncate_error (exc_str e))) (op_return False))"

section \<open>Repositories\<close>

definition find_kb :: "int \<Rightarrow> KbDb \<Rightarrow> KbRow option" where
  "find_kb i db = find (\<lambda>r. kb_id r = i) (db_kbs db)"

definition get_kb :: "int \<Rightarrow> KbRow option db_op" where
  "get_kb i = op_get (find_kb i)"

definition update_kb :: "int \<Rightarrow> (KbRow \<Rightarrow> KbRow) \<Rightarrow> KbDb \<Rightarrow> KbDb" where
  "update_kb i f db = db\<lparr>db_kbs := map (\<lambda>r. if kb_id r = i then f r else r) (db_kbs db)\<rparr>"

definition find_doc :: "int \<Rightarrow> KbDb \<Rightarrow> DocRow option" where
  "find_doc i db = find (\<lambda>r. kd_id r = i) (db_docs db)"

definition update_doc :: "int \<Rightarrow> (DocRow \<Rightarrow> DocRow) \<Rightarrow> KbDb \<Rightarrow> KbDb" where
  "update_doc i f db = db\<lparr>db_docs := map (\<lambda>r. if kd_id r = i then f r else r) (db_docs db)\<rparr>"

text \<open>\<open>order_by(uploaded_at.asc(), id.asc())\<close>: a stable sort by id, then by time.\<close>

definition docs_of :: "int \<Rightarrow> KbDb \<Rightarrow> DocRow list" where
  "docs_of i db = sort_key kd_uploaded_at (sort_key kd_id (filter (\<lambda>d. kd_kb_id d = i) (db_docs db)))"

definition find_first_hash_by_kb :: "int \<Rightarrow> KbDb \<Rightarrow> pystr option" where
  "find_first_hash_by_kb i db = (case docs_of i db of [] \<Rightarrow> None | d # _ \<Rightarrow> Some (kd_file_hash d))"

definition find_by_kb_and_hash :: "int \<Rightarrow> pystr \<Rightarrow> KbDb \<Rightarrow> DocRow option" where
  "find_by_kb_and_hash i h db = find (\<lambda>d. kd_kb_id d = i \<and> kd_file_hash d = h) (db_docs db)"

definition list_statuses_by_kb :: "int \<Rightarrow> KbDb \<Rightarrow> pystr list" where
  "list_statuses_by_kb i db = map kd_vector_status (filter (\<lambda>d. kd_kb_id d = i) (db_docs db))"

definition sum_chunk_count_by_kb :: "int \<Rightarrow> KbDb \<Rightarrow> int" where
  "sum_chunk_count_by_kb i db = sum_list (map kd_chunk_count (filter (\<lambda>d. kd_kb_id d = i) (db_docs db)))"

definition is_stale :: "int option \<Rightarrow> int \<Rightarrow> bool" where
  "is_stale updated_at threshold = (case updated_at of None \<Rightarrow> True | Some t \<Rightarrow> t < threshold)"

definition find_stale_question_gen_tasks :: "pystr \<Rightarrow> int \<Rightarrow> KbDb \<Rightarrow> KbRow list" where
  "find_stale_question_gen_tasks status threshold db =
     filter (\<lambda>r. kb_gen_status r = status \<and> is_stale (kb_gen_updated_at r) threshold) (db_kbs db)"

text \<open>\<open>order_by(updated_at.desc())\<close>.\<close>

definition bank_of :: "int \<Rightarrow> (BankRow \<Rightarrow> bool) \<Rightarrow> KbDb \<Rightarrow> BankRow list" where
  "bank_of i P db = sort_key (\<lambda>q. - kq_updated_at q) (filter (\<lambda>q. kq_kb_id q = i \<and> P q) (db_bank db))"

definition find_recent_questions :: "int \<Rightarrow> pystr \<Rightarrow> nat \<Rightarrow> KbDb \<Rightarrow> BankRow list" where
  "find_recent_questions i difficulty limit db = take limit (bank_of i (\<lambda>q. kq_difficulty q = Some difficulty) db)"

definition find_active_questions :: "int \<Rightarrow> pystr \<Rightarrow> pystr option \<Rightarrow> KbDb \<Rightarrow> BankRow list" where
  "find_active_questions i difficulty category db = bank_of i (\<lambda>q. kq_difficulty q = Some difficulty
     \<and> kq_status q = ascii ''ACTIVE'' \<and> (category = None \<or> kq_category q = category)) db"

definition list_by_knowledge_base :: "int \<Rightarrow> pystr option \<Rightarrow> KbDb \<Rightarrow> BankRow list" where
  "list_by_knowledge_base i status db = bank_of i (\<lambda>q. status = None \<or> Some (kq_status q) = status) db"

text \<open>Counts by category, most questions first; the order of texts is the database's, by code points here.\<close>

fun lex_le :: "pystr \<Rightarrow> pystr \<Rightarrow> bool" where
  "lex_le [] t = True"
| "lex_le (c # cs) [] = False"
| "lex_le (c # cs) (d # ds) = (c < d \<or> c = d \<and> lex_le cs ds)"

definition count_before :: "pystr \<times> int \<Rightarrow> pystr \<times> int \<Rightarrow> bool" where
  "count_before a b \<longleftrightarrow> snd b < snd a \<or> snd a = snd b \<and> lex_le (fst a) (fst b)"

fun insert_count :: "pystr \<times> int \<Rightarrow> (pystr \<times> int) list \<Rightarrow> (pystr \<times> int) list" where
  "insert_count a [] = [a]"
| "insert_count a (b # bs) = (if count_before a b then a # b # bs else b # insert_count a bs)"

definition bank_category_counts :: "int \<Rightarrow> KbDb \<Rightarrow> (pystr \<times> int) list" where
  "bank_category_counts i db =
     (let cats = List.map_filter (\<lambda>q. case kq_category q of None \<Rightarrow> None | Some c \<Rightarrow> if kq_kb_id q = i \<and> c \<noteq> [] then Some c else None)
            (db_bank db)
      in foldr insert_count (map (\<lambda>c. (c, int (count_list cats c))) (remdups cats)) [])"

section \<open>Vectors\<close>

definition insert_pending :: "pystr \<Rightarrow> int \<Rightarrow> (pystr \<times> rat list \<times> int) list \<Rightarrow> int \<Rightarrow> KbDb \<Rightarrow> KbDb" where
  "insert_pending job kid items document_id db = db\<lparr>db_vectors := db_vectors db @ map (\<lambda>(c, e, n).
     \<lparr>vr_content = c, vr_embedding = e, vr_kb_id = Some kid, vr_document_id = Some document_id, vr_job = Some job,
      vr_chunk_index = n\<rparr>) items\<rparr>"

definition promote_vector_job :: "int \<Rightarrow> pystr \<Rightarrow> KbDb \<Rightarrow> KbDb" where
  "promote_vector_job kid job db = db\<lparr>db_vectors := map (\<lambda>v. if vr_job v = Some job
     then v\<lparr>vr_job := None, vr_kb_id := Some kid\<rparr> else v) (db_vectors db)\<rparr>"

definition delete_by_document_id :: "int \<Rightarrow> KbDb \<Rightarrow> KbDb" where
  "delete_by_document_id d db = db\<lparr>db_vectors := filter (\<lambda>v. \<not> (vr_document_id v = Some d \<and> vr_job v = None)) (db_vectors db)\<rparr>"

definition delete_by_knowledge_base_id :: "int \<Rightarrow> KbDb \<Rightarrow> KbDb" where
  "delete_by_knowledge_base_id i db = db\<lparr>db_vectors := filter (\<lambda>v. \<not> (vr_kb_id v = Some i \<and> vr_job v = None)) (db_vectors db)\<rparr>"

definition delete_by_vector_job_id :: "pystr \<Rightarrow> KbDb \<Rightarrow> KbDb" where
  "delete_by_vector_job_id job db = db\<lparr>db_vectors := filter (\<lambda>v. vr_job v \<noteq> Some job) (db_vectors db)\<rparr>"

record SearchResult =
  sr_content :: pystr
  sr_score :: rat
  sr_kb_id :: int

text \<open>
  The rows a search ranges over; \<open>rank\<close> is pgvector's ordering by cosine distance with its
  scores.
\<close>

definition searchable :: "int list \<Rightarrow> KbDb \<Rightarrow> VectorRow list" where
  "searchable ids db = filter (\<lambda>v. (\<exists>i \<in> set ids. vr_kb_id v = Some i) \<and> vr_job v = None) (db_vectors db)"

definition vector_search ::
  "(rat list \<Rightarrow> VectorRow list \<Rightarrow> (VectorRow \<times> rat) list) \<Rightarrow> KbDb \<Rightarrow> rat list \<Rightarrow> int list \<Rightarrow> int \<Rightarrow> SearchResult list" where
  "vector_search rank db q ids top_k = (if ids = [] \<or> top_k \<le> 0 then []
     else map (\<lambda>(v, s). \<lparr>sr_content = vr_content v, sr_score = s, sr_kb_id = (case vr_kb_id v of Some i \<Rightarrow> i | None \<Rightarrow> 0)\<rparr>)
       (take (nat top_k) (rank q (searchable ids db))))"

end
