(* ===== verification/Kb_Generation.thy ===== *)
theory Kb_Generation
  imports Kb_Store Stream_Consumer
begin

text \<open>
  The generation of a question bank as a task: \<open>generation_state_service.py\<close> (the state machine
  on the knowledge base row), \<open>generation_service.py\<close> (what a worker does),
  \<open>question_gen_producer.py\<close>, \<open>question_gen_consumer.py\<close> and the recovery job of
  \<open>scheduler/jobs.py\<close>. Embeddings with the vector search, the language model and pydantic's
  reading and writing of the configuration are parameters, the fields of \<open>GenEnv\<close>.
\<close>

section \<open>Configuration and responses\<close>

record GenerationConfig =
  gc_difficulty :: pystr
  gc_question_count :: int
  gc_follow_up_count :: int
  gc_category_limit :: int
  gc_llm_provider :: "pystr option"

record GenStatusResponse =
  gs_kb_id :: int
  gs_status :: pystr
  gs_task_id :: "pystr option"
  gs_config :: "GenerationConfig option"
  gs_saved_count :: int
  gs_skipped_count :: int
  gs_message :: "pystr option"
  gs_error :: "pystr option"
  gs_updated_at :: "int option"

record GeneratedFollowUp =
  gf_question :: pystr
  gf_reference_answer :: "pystr option"
  gf_key_points :: "pystr list"
  gf_scoring_rubric :: "pystr option"

record GeneratedQuestion =
  gq_category :: "pystr option"
  gq_type :: "pystr option"
  gq_question :: "pystr option"
  gq_topic_summary :: "pystr option"
  gq_reference_answer :: "pystr option"
  gq_key_points :: "pystr list"
  gq_scoring_rubric :: "pystr option"
  gq_follow_ups :: "GeneratedFollowUp list"

record GenerationPrompt =
  gp_kb_name :: "pystr option"
  gp_config :: GenerationConfig
  gp_context :: pystr
  gp_categories :: pystr
  gp_questions :: pystr

text \<open>
  \<open>ge_hits\<close> is the text of the chunks found for a query in a knowledge base;
  \<open>ge_resolve\<close> finds the provider of a name or raises.
\<close>

record GenEnv =
  ge_dump_config :: "GenerationConfig \<Rightarrow> pystr"
  ge_validate_config :: "json \<Rightarrow> GenerationConfig option"
  ge_hits :: "int \<Rightarrow> pystr \<Rightarrow> pystr list result"
  ge_resolve :: "pystr \<Rightarrow> unit result"
  ge_llm :: "GenerationPrompt \<Rightarrow> GeneratedQuestion list result"
  ge_exc_str :: "exn \<Rightarrow> pystr"
  ge_nfc :: "pystr \<Rightarrow> pystr"
  ge_lower :: "pystr \<Rightarrow> pystr"
  ge_isalnum :: "nat \<Rightarrow> bool"

definition SAFE_FAILURE_MESSAGE :: pystr where "SAFE_FAILURE_MESSAGE = [39064, 30446, 29983, 25104, 22833, 36133, 65292, 35831, 31245, 21518, 37325, 35797]"
definition ST_QUEUED :: pystr where "ST_QUEUED = ascii ''QUEUED''"
definition ST_PROCESSING :: pystr where "ST_PROCESSING = ascii ''PROCESSING''"
definition ST_COMPLETED :: pystr where "ST_COMPLETED = ascii ''COMPLETED''"
definition ST_FAILED :: pystr where "ST_FAILED = ascii ''FAILED''"
definition ST_NONE :: pystr where "ST_NONE = ascii ''NONE''"
definition ACTIVE_STATUSES :: "pystr list" where "ACTIVE_STATUSES = [ST_QUEUED, ST_PROCESSING]"

lemmas status_defs = ST_QUEUED_def ST_PROCESSING_def ST_COMPLETED_def ST_FAILED_def ST_NONE_def

lemma gen_status_distinct [simp]:
  "ST_QUEUED \<noteq> ST_PROCESSING" "ST_QUEUED \<noteq> ST_COMPLETED" "ST_QUEUED \<noteq> ST_FAILED" "ST_QUEUED \<noteq> ST_NONE"
  "ST_PROCESSING \<noteq> ST_QUEUED" "ST_PROCESSING \<noteq> ST_COMPLETED" "ST_PROCESSING \<noteq> ST_FAILED" "ST_PROCESSING \<noteq> ST_NONE"
  "ST_COMPLETED \<noteq> ST_QUEUED" "ST_COMPLETED \<noteq> ST_PROCESSING" "ST_COMPLETED \<noteq> ST_FAILED" "ST_COMPLETED \<noteq> ST_NONE"
  "ST_FAILED \<noteq> ST_QUEUED" "ST_FAILED \<noteq> ST_PROCESSING" "ST_FAILED \<noteq> ST_COMPLETED" "ST_FAILED \<noteq> ST_NONE"
  "ST_NONE \<noteq> ST_QUEUED" "ST_NONE \<noteq> ST_PROCESSING" "ST_NONE \<noteq> ST_COMPLETED" "ST_NONE \<noteq> ST_FAILED"
  by (simp_all add: status_defs ascii_def)

definition read_config_or_none :: "GenEnv \<Rightarrow> pystr option \<Rightarrow> GenerationConfig option" where
  "read_config_or_none env raw = (case raw of
     None \<Rightarrow> None
   | Some s \<Rightarrow> if blank s then None
       else (case loads s of Inl e \<Rightarrow> None | Inr j \<Rightarrow> ge_validate_config env j))"

definition gen_response :: "KbRow \<Rightarrow> GenerationConfig option \<Rightarrow> GenStatusResponse" where
  "gen_response kb config = \<lparr>gs_kb_id = kb_id kb,
     gs_status = (if kb_gen_status kb = [] then ST_NONE else kb_gen_status kb), gs_task_id = kb_gen_task_id kb,
     gs_config = config, gs_saved_count = kb_gen_saved_count kb, gs_skipped_count = kb_gen_skipped_count kb,
     gs_message = kb_gen_message kb, gs_error = kb_gen_error kb, gs_updated_at = kb_gen_updated_at kb\<rparr>"

section \<open>The state machine\<close>

text \<open>Each is one session that locks the row; \<open>False\<close> means that the task is no longer valid.\<close>

definition kb_matches :: "KbRow option \<Rightarrow> pystr \<Rightarrow> pystr \<Rightarrow> bool" where
  "kb_matches kb task expected = (case kb of
     None \<Rightarrow> False | Some r \<Rightarrow> kb_gen_task_id r = Some task \<and> kb_gen_status r = expected)"

definition create_task :: "GenEnv \<Rightarrow> pystr \<Rightarrow> int \<Rightarrow> GenerationConfig \<Rightarrow> int \<Rightarrow> GenStatusResponse db_op" where
  "create_task env uuid kid config now = op_bind (get_kb kid) (\<lambda>kb.
     case kb of
       None \<Rightarrow> op_raise (business_exception KNOWLEDGE_BASE_NOT_FOUND None)
     | Some r \<Rightarrow>
         if kb_vector_status r \<noteq> ST_COMPLETED then op_raise (BusinessException BAD_REQUEST [30693, 35782, 24211, 23578, 26410, 23436, 25104, 21521, 37327, 21270])
         else if kb_gen_status r \<in> set ACTIVE_STATUSES then
           op_raise (BusinessException BAD_REQUEST [30693, 35782, 24211, 38382, 39064, 27491, 22312, 29983, 25104, 20013, 65292, 35831, 21247, 37325, 22797, 25552, 20132])
         else
           let r' = r\<lparr>kb_gen_task_id := Some uuid, kb_gen_status := ST_QUEUED,
                 kb_gen_config := Some (ge_dump_config env config), kb_gen_error := None, kb_gen_message := None,
                 kb_gen_saved_count := 0, kb_gen_skipped_count := 0, kb_gen_updated_at := Some now\<rparr>
           in op_then (op_modify (update_kb kid (\<lambda>_. r'))) (op_return (gen_response r' (Some config))))"

definition get_gen_status :: "GenEnv \<Rightarrow> int \<Rightarrow> int \<Rightarrow> GenStatusResponse db_op" where
  "get_gen_status env kid now = op_bind (get_kb kid) (\<lambda>kb.
     case kb of
       None \<Rightarrow> op_raise (business_exception KNOWLEDGE_BASE_NOT_FOUND None)
     | Some r \<Rightarrow> op_return (gen_response r (read_config_or_none env (kb_gen_config r))))"

definition get_config :: "GenEnv \<Rightarrow> int \<Rightarrow> pystr \<Rightarrow> int \<Rightarrow> GenerationConfig db_op" where
  "get_config env kid task now = op_bind (get_kb kid) (\<lambda>kb.
     case kb of
       None \<Rightarrow> op_raise (business_exception KNOWLEDGE_BASE_NOT_FOUND None)
     | Some r \<Rightarrow>
         if kb_gen_task_id r \<noteq> Some task then op_raise (BusinessException BAD_REQUEST [39064, 30446, 29983, 25104, 20219, 21153, 24050, 22833, 25928])
         else (case read_config_or_none env (kb_gen_config r) of
             None \<Rightarrow> op_raise (BusinessException INTERNAL_ERROR [39064, 30446, 29983, 25104, 37197, 32622, 19981, 23384, 22312])
           | Some config \<Rightarrow> op_return config))"

text \<open>Transitions guarded by task and status share their shape.\<close>

definition gen_transition :: "int \<Rightarrow> (KbRow option \<Rightarrow> bool) \<Rightarrow> (KbRow \<Rightarrow> KbRow) \<Rightarrow> bool db_op" where
  "gen_transition kid guard f = op_bind (get_kb kid) (\<lambda>kb.
     if \<not> guard kb then op_return False
     else op_then (op_modify (update_kb kid f)) (op_return True))"

definition try_mark_processing :: "int \<Rightarrow> pystr \<Rightarrow> int \<Rightarrow> bool db_op" where
  "try_mark_processing kid task now = gen_transition kid (\<lambda>kb. kb_matches kb task ST_QUEUED)
     (\<lambda>r. r\<lparr>kb_gen_status := ST_PROCESSING, kb_gen_error := None, kb_gen_updated_at := Some now\<rparr>)"

definition reset_for_retry :: "int \<Rightarrow> pystr \<Rightarrow> int \<Rightarrow> bool db_op" where
  "reset_for_retry kid task now = gen_transition kid (\<lambda>kb. kb_matches kb task ST_PROCESSING)
     (\<lambda>r. r\<lparr>kb_gen_status := ST_QUEUED, kb_gen_updated_at := Some now\<rparr>)"

definition mark_gen_failed :: "int \<Rightarrow> pystr \<Rightarrow> int \<Rightarrow> bool db_op" where
  "mark_gen_failed kid task now = gen_transition kid
     (\<lambda>kb. case kb of None \<Rightarrow> False | Some r \<Rightarrow> kb_gen_task_id r = Some task \<and> kb_gen_status r \<noteq> ST_COMPLETED)
     (\<lambda>r. r\<lparr>kb_gen_status := ST_FAILED, kb_gen_error := Some SAFE_FAILURE_MESSAGE, kb_gen_updated_at := Some now\<rparr>)"

definition touch_queued_for_recovery :: "int \<Rightarrow> pystr \<Rightarrow> int \<Rightarrow> int \<Rightarrow> bool db_op" where
  "touch_queued_for_recovery kid task threshold now = gen_transition kid
     (\<lambda>kb. kb_matches kb task ST_QUEUED \<and> (case kb of None \<Rightarrow> False | Some r \<Rightarrow> is_stale (kb_gen_updated_at r) threshold))
     (\<lambda>r. r\<lparr>kb_gen_updated_at := Some now\<rparr>)"

definition reset_stale_processing :: "int \<Rightarrow> pystr \<Rightarrow> int \<Rightarrow> int \<Rightarrow> bool db_op" where
  "reset_stale_processing kid task threshold now = gen_transition kid
     (\<lambda>kb. kb_matches kb task ST_PROCESSING \<and> (case kb of None \<Rightarrow> False | Some r \<Rightarrow> is_stale (kb_gen_updated_at r) threshold))
     (\<lambda>r. r\<lparr>kb_gen_status := ST_QUEUED, kb_gen_updated_at := Some now\<rparr>)"

text \<open>\<open>save_all\<close>: the new rows get consecutive ids and the time of the session.\<close>

fun save_all :: "int \<Rightarrow> BankRow list \<Rightarrow> KbDb \<Rightarrow> KbDb" where
  "save_all now [] db = db"
| "save_all now (q # qs) db = save_all now qs (db\<lparr>
     db_bank := db_bank db @ [q\<lparr>kq_id := db_fresh db, kq_created_at := now, kq_updated_at := now\<rparr>],
     db_fresh := db_fresh db + 1\<rparr>)"

definition saved_message :: "int \<Rightarrow> int \<Rightarrow> pystr" where
  "saved_message saved skipped =
     (if skipped > 0 then [24050, 29983, 25104, 32] @ int_str saved @ [32, 36947, 39064, 65292, 36339, 36807, 32] @ int_str skipped @ [32, 36947, 37325, 22797, 39064]
      else [24050, 29983, 25104, 32] @ int_str saved @ [32, 36947, 39064])"

definition replace_questions_and_complete :: "int \<Rightarrow> pystr \<Rightarrow> BankRow list \<Rightarrow> int \<Rightarrow> int \<Rightarrow> bool db_op" where
  "replace_questions_and_complete kid task questions skipped now = op_bind (get_kb kid) (\<lambda>kb.
     if \<not> kb_matches kb task ST_PROCESSING then op_return False
     else
       op_then (op_modify (\<lambda>db. db\<lparr>db_bank := filter (\<lambda>q. kq_kb_id q \<noteq> kid) (db_bank db)\<rparr>))
       (op_then (op_modify (save_all now questions))
       (op_then (op_modify (update_kb kid (\<lambda>r. r\<lparr>kb_gen_status := ST_COMPLETED, kb_gen_error := None,
            kb_gen_message := Some (saved_message (int (length questions)) skipped),
            kb_gen_saved_count := int (length questions), kb_gen_skipped_count := skipped,
            kb_gen_updated_at := Some now\<rparr>)))
         (op_return True))))"

section \<open>What a worker does\<close>

definition RETRIEVAL_TOP_K :: nat where "RETRIEVAL_TOP_K = 12"
definition MAX_CONTEXT_CHARS :: nat where "MAX_CONTEXT_CHARS = 5000"
definition EXISTING_CATEGORY_LIMIT :: nat where "EXISTING_CATEGORY_LIMIT = 10"
definition RECENT_QUESTION_LIMIT :: nat where "RECENT_QUESTION_LIMIT = 20"
definition KB_SKILL_ID :: pystr where "KB_SKILL_ID = ascii ''knowledge-base''"
definition GENERATION_QUERIES :: "pystr list" where
  "GENERATION_QUERIES = [[26680, 24515, 27010, 24565, 32, 23450, 20041, 32, 32972, 26223, 32, 21407, 29702], [20851, 38190, 27969, 31243, 32, 27493, 39588, 32, 26041, 27861, 32, 24037, 20316, 26426, 21046], [35268, 21017, 32422, 26463, 32, 26465, 20214, 32, 36793, 30028, 32, 20363, 22806, 32, 38480, 21046],
     [20856, 22411, 26696, 20363, 32, 24120, 35265, 38382, 39064, 32, 24212, 29992, 22330, 26223, 32, 26368, 20339, 23454, 36341]]"

text \<open>The loops over the hits of a query and over the queries; the second stops when enough is found.\<close>

fun collect_hits :: "pystr list \<Rightarrow> pystr list \<Rightarrow> pystr list" where
  "collect_hits chunks [] = chunks"
| "collect_hits chunks (h # hs) =
     (let t = py_strip h in
      if t = [] \<or> t \<in> set chunks then collect_hits chunks hs
      else if length (chunks @ [t]) \<ge> RETRIEVAL_TOP_K then chunks @ [t]
      else collect_hits (chunks @ [t]) hs)"

fun collect_queries :: "(pystr \<Rightarrow> pystr list result) \<Rightarrow> pystr list \<Rightarrow> pystr list \<Rightarrow> pystr list result" where
  "collect_queries hits chunks [] = Inr chunks"
| "collect_queries hits chunks (q # qs) = res_bind (hits q) (\<lambda>hs.
     let chunks' = collect_hits chunks hs in
     if length chunks' \<ge> RETRIEVAL_TOP_K then Inr chunks' else collect_queries hits chunks' qs)"

definition build_generation_context :: "(pystr \<Rightarrow> pystr list result) \<Rightarrow> pystr result" where
  "build_generation_context hits = res_bind (collect_queries hits [] GENERATION_QUERIES) (\<lambda>chunks.
     if chunks = [] then Inl (BusinessException KNOWLEDGE_BASE_QUERY_FAILED [30693, 35782, 24211, 26410, 26816, 32034, 21040, 21487, 29992, 20110, 29983, 25104, 39064, 30446, 30340, 20869, 23481])
     else
       let context = py_join [10, 10, 45, 45, 45, 10, 10] chunks in
       Inr (if length context > MAX_CONTEXT_CHARS
            then take MAX_CONTEXT_CHARS context @ [10, 46, 46, 46, 40, 30693, 35782, 24211, 29255, 27573, 36807, 38271, 65292, 24050, 25130, 26029, 41] else context))"

definition build_existing_category_section :: "int \<Rightarrow> KbDb \<Rightarrow> pystr" where
  "build_existing_category_section kid db =
     (let counts = bank_category_counts kid db in
      if counts = [] then [26242, 26080, 24050, 26377, 26041, 21521]
      else py_join [10] (map (\<lambda>(c, n). ascii ''- '' @ c @ [65288] @ int_str n @ [32, 39064, 65289]) (take EXISTING_CATEGORY_LIMIT counts)))"

definition build_existing_question_section :: "int \<Rightarrow> pystr \<Rightarrow> KbDb \<Rightarrow> pystr" where
  "build_existing_question_section kid difficulty db =
     (let rows = find_recent_questions kid difficulty RECENT_QUESTION_LIMIT db;
          entries = map (\<lambda>q. ascii ''- '' @ py_strip (kq_question q)) (filter (\<lambda>q. \<not> blank (kq_question q)) rows)
      in if entries = [] then [26242, 26080, 24050, 26377, 39064, 30446] else py_join [10] entries)"

definition normalize_config :: "GenerationConfig \<Rightarrow> GenerationConfig" where
  "normalize_config c = \<lparr>gc_difficulty = (if blank (gc_difficulty c) then ascii ''mid'' else py_strip (gc_difficulty c)),
     gc_question_count = max 1 (gc_question_count c), gc_follow_up_count = max 0 (min (gc_follow_up_count c) 5),
     gc_category_limit = max 1 (min (gc_category_limit c) 5), gc_llm_provider = gc_llm_provider c\<rparr>"

definition write_string_list :: "pystr list \<Rightarrow> pystr" where
  "write_string_list values = str_list_json (map py_strip (filter (\<lambda>v. \<not> blank v) values))"

definition clean_follow_up :: "GeneratedFollowUp \<Rightarrow> GeneratedFollowUp" where
  "clean_follow_up f = \<lparr>gf_question = py_strip (gf_question f), gf_reference_answer = trim_to_none (gf_reference_answer f),
     gf_key_points = map py_strip (filter (\<lambda>v. \<not> blank v) (gf_key_points f)),
     gf_scoring_rubric = trim_to_none (gf_scoring_rubric f)\<rparr>"

definition follow_up_json :: "GeneratedFollowUp \<Rightarrow> json" where
  "follow_up_json f = JObj [(ascii ''question'', JStr (gf_question f)),
     (ascii ''referenceAnswer'', opt_str (gf_reference_answer f)),
     (ascii ''keyPoints'', JArr (map JStr (gf_key_points f))),
     (ascii ''scoringRubric'', opt_str (gf_scoring_rubric f))]"

definition clean_follow_ups :: "GeneratedFollowUp list \<Rightarrow> GeneratedFollowUp list" where
  "clean_follow_ups values = map clean_follow_up (filter (\<lambda>f. \<not> blank (gf_question f)) values)"

text \<open>\<open>follow_up_count\<close> is at least 0 here: the configuration was normalised.\<close>

definition write_follow_ups :: "GeneratedFollowUp list \<Rightarrow> int \<Rightarrow> pystr" where
  "write_follow_ups values follow_up_count =
     dumps (JArr (map follow_up_json (take (nat follow_up_count) (clean_follow_ups values))))"

fun build_entities ::
  "(pystr \<Rightarrow> pystr) \<Rightarrow> KbRow \<Rightarrow> pystr \<Rightarrow> pystr \<Rightarrow> int \<Rightarrow> pystr option \<Rightarrow> pystr list \<Rightarrow> GeneratedQuestion list \<Rightarrow> BankRow list \<times> int" where
  "build_entities key_of kb difficulty context follow_up_count content_hash keys [] = ([], 0)"
| "build_entities key_of kb difficulty context follow_up_count content_hash keys (dto # rest) =
     (let raw = py_strip (or_str (gq_question dto) []); key = key_of raw in
      if raw = [] \<or> key \<in> set keys then
        (let (es, skipped) = build_entities key_of kb difficulty context follow_up_count content_hash keys rest in (es, skipped + 1))
      else
        (let (es, skipped) = build_entities key_of kb difficulty context follow_up_count content_hash (key # keys) rest;
             category = (case trim_to_none (gq_category dto) of
                Some c \<Rightarrow> c
              | None \<Rightarrow> (case kb_name kb of
                    Some n \<Rightarrow> if blank n then [26410, 20998, 31867] else py_strip n
                  | None \<Rightarrow> [26410, 20998, 31867]))
         in (\<lparr>kq_id = 0, kq_kb_id = kb_id kb, kq_skill_id = KB_SKILL_ID, kq_difficulty = Some difficulty,
               kq_type = trim_to_none (gq_type dto), kq_category = Some category, kq_question = raw,
               kq_topic_summary = trim_to_none (gq_topic_summary dto),
               kq_reference_answer = trim_to_none (gq_reference_answer dto),
               kq_key_points_json = Some (write_string_list (gq_key_points dto)),
               kq_scoring_rubric = trim_to_none (gq_scoring_rubric dto),
               kq_follow_ups_json = Some (write_follow_ups (gq_follow_ups dto) follow_up_count),
               kq_source_context = Some context, kq_content_hash = content_hash, kq_status = ascii ''DRAFT'',
               kq_created_at = 0, kq_updated_at = 0\<rparr> # es, skipped)))"

definition question_key :: "GenEnv \<Rightarrow> pystr \<Rightarrow> pystr" where
  "question_key env q = normalize_question_key (ge_nfc env) (ge_lower env) (ge_isalnum env) (Some q)"

definition db_read :: "(KbDb \<Rightarrow> 'a) \<Rightarrow> 'a kb_op" where
  "db_read f = in_session (\<lambda>now. op_get f)"

definition execute_generation :: "GenEnv \<Rightarrow> int \<Rightarrow> pystr \<Rightarrow> GenerationConfig \<Rightarrow> unit kb_op" where
  "execute_generation env kid task config =
     op_bind (db_read (find_kb kid)) (\<lambda>kb0.
     case kb0 of
       None \<Rightarrow> op_raise (business_exception KNOWLEDGE_BASE_NOT_FOUND None)
     | Some kb \<Rightarrow>
         if kb_gen_task_id kb \<noteq> Some task then op_return ()
         else
           op_bind (db_read (build_existing_category_section kid)) (\<lambda>categories.
           let normalized = normalize_config config; difficulty = gc_difficulty normalized in
           op_bind (op_lift (build_generation_context (ge_hits env kid))) (\<lambda>context.
           op_bind (db_read (build_existing_question_section kid difficulty)) (\<lambda>existing.
           op_then (case gc_llm_provider config of
               None \<Rightarrow> op_return () | Some p \<Rightarrow> op_when (p \<noteq> []) (op_lift (ge_resolve env p)))
           (op_bind (op_lift (ge_llm env \<lparr>gp_kb_name = kb_name kb, gp_config = normalized, gp_context = context,
                gp_categories = categories, gp_questions = existing\<rparr>)) (\<lambda>generated.
           if generated = [] then
             op_raise (BusinessException INTERVIEW_QUESTION_GENERATION_FAILED [30693, 35782, 24211, 39064, 24211, 29983, 25104, 32467, 26524, 20026, 31354])
           else
             op_bind (db_read (find_first_hash_by_kb kid)) (\<lambda>content_hash.
             let (entities, skipped) =
               build_entities (question_key env) kb difficulty context (gc_follow_up_count normalized) content_hash [] generated in
             if entities = [] then
               op_raise (BusinessException INTERVIEW_QUESTION_GENERATION_FAILED [30693, 35782, 24211, 39064, 24211, 29983, 25104, 32467, 26524, 26080, 26377, 25928, 39064, 24178])
             else
               op_bind (in_session (replace_questions_and_complete kid task entities skipped)) (\<lambda>_. op_return ()))))))))"

section \<open>Producer, consumer and recovery\<close>

definition KB_QUESTION_GEN_STREAM :: pystr where "KB_QUESTION_GEN_STREAM = ascii ''knowledgebase:question-gen:stream''"
definition KB_ID_FIELD :: pystr where "KB_ID_FIELD = ascii ''knowledgeBaseId''"
definition FIELD_TASK_ID :: pystr where "FIELD_TASK_ID = ascii ''taskId''"

record QuestionGenPayload =
  qp_kb_id :: int
  qp_task_id :: pystr
  qp_retry_count :: int

definition question_gen_message :: "QuestionGenPayload \<Rightarrow> stream_message" where
  "question_gen_message p = [(KB_ID_FIELD, int_str (qp_kb_id p)), (FIELD_TASK_ID, qp_task_id p),
     (FIELD_RETRY_COUNT, int_str (qp_retry_count p))]"

definition gen_send_failed :: "int \<Rightarrow> pystr \<Rightarrow> pystr \<Rightarrow> unit kb_op" where
  "gen_send_failed kid task err =
     op_try (op_bind (in_session (mark_gen_failed kid task)) (\<lambda>_. op_return ())) (\<lambda>e. op_return ())"

definition send_question_gen :: "GenEnv \<Rightarrow> QuestionGenPayload \<Rightarrow> bool kb_op" where
  "send_question_gen env p = kb_send_task (ge_exc_str env) KB_QUESTION_GEN_STREAM (question_gen_message p)
     (gen_send_failed (qp_kb_id p) (qp_task_id p))"

definition parse_gen_payload :: "stream_message \<Rightarrow> QuestionGenPayload option result" where
  "parse_gen_payload data = Inr (case (dict_get data KB_ID_FIELD, dict_get data FIELD_TASK_ID) of
     (Some k, Some t) \<Rightarrow> (case py_int k of
        Inl e \<Rightarrow> None | Inr i \<Rightarrow> Some \<lparr>qp_kb_id = i, qp_task_id = t, qp_retry_count = 0\<rparr>)
   | _ \<Rightarrow> None)"

definition gen_process_business :: "GenEnv \<Rightarrow> QuestionGenPayload \<Rightarrow> unit kb_op" where
  "gen_process_business env p = op_bind (in_session (get_config env (qp_kb_id p) (qp_task_id p)))
     (execute_generation env (qp_kb_id p) (qp_task_id p))"

definition gen_retry_message :: "GenEnv \<Rightarrow> QuestionGenPayload \<Rightarrow> int \<Rightarrow> unit kb_op" where
  "gen_retry_message env p n = op_bind (in_session (reset_for_retry (qp_kb_id p) (qp_task_id p))) (\<lambda>valid.
     if \<not> valid then op_return ()
     else op_bind (send_question_gen env \<lparr>qp_kb_id = qp_kb_id p, qp_task_id = qp_task_id p, qp_retry_count = n\<rparr>)
       (\<lambda>_. op_return ()))"

definition gen_handlers :: "GenEnv \<Rightarrow> (KbWorld, QuestionGenPayload) StreamHandlers" where
  "gen_handlers env = \<lparr>h_parse_payload = parse_gen_payload, h_should_skip = (\<lambda>p. False),
     h_try_mark_processing = (\<lambda>p. in_session (try_mark_processing (qp_kb_id p) (qp_task_id p))),
     h_process_business = gen_process_business env, h_mark_completed = (\<lambda>p. op_return ()),
     h_mark_failed = (\<lambda>p err. op_bind (in_session (mark_gen_failed (qp_kb_id p) (qp_task_id p))) (\<lambda>_. op_return ())),
     h_retry_message = gen_retry_message env, h_xack = kb_xack\<rparr>"

definition gen_parse_retry :: "stream_message \<Rightarrow> int" where
  "gen_parse_retry data =
     (case py_int (dict_get_default data FIELD_RETRY_COUNT (ascii ''0'')) of Inl e \<Rightarrow> 0 | Inr n \<Rightarrow> n)"

definition consume_question_gen :: "GenEnv \<Rightarrow> stream_message \<Rightarrow> unit kb_op" where
  "consume_question_gen env data =
     process_message (gen_handlers env) (\<lambda>e. truncate_error (ge_exc_str env e)) gen_parse_retry data"

definition QUEUED_STALE_SECONDS :: int where "QUEUED_STALE_SECONDS = 120"
definition PROCESSING_STALE_SECONDS :: int where "PROCESSING_STALE_SECONDS = 1200"

definition recover_one :: "GenEnv \<Rightarrow> (int \<Rightarrow> pystr \<Rightarrow> int \<Rightarrow> bool db_op) \<Rightarrow> KbRow \<Rightarrow> unit kb_op" where
  "recover_one env step task = (case kb_gen_task_id task of
     None \<Rightarrow> op_return ()
   | Some t \<Rightarrow> if t = [] then op_return ()
       else op_bind (in_session (step (kb_id task) t)) (\<lambda>ok.
         if ok then op_bind (send_question_gen env \<lparr>qp_kb_id = kb_id task, qp_task_id = t, qp_retry_count = 0\<rparr>)
           (\<lambda>_. op_return ())
         else op_return ()))"

definition recover_stale_question_gen_tasks :: "GenEnv \<Rightarrow> unit kb_op" where
  "recover_stale_question_gen_tasks env = op_bind (op_get kw_now) (\<lambda>now.
     let queued_threshold = now - QUEUED_STALE_SECONDS; processing_threshold = now - PROCESSING_STALE_SECONDS in
     op_bind (db_read (find_stale_question_gen_tasks ST_QUEUED queued_threshold)) (\<lambda>stale_queued.
     op_then (op_for stale_queued (recover_one env (\<lambda>k t. touch_queued_for_recovery k t queued_threshold)))
     (op_bind (db_read (find_stale_question_gen_tasks ST_PROCESSING processing_threshold)) (\<lambda>stale_processing.
       op_for stale_processing (recover_one env (\<lambda>k t. reset_stale_processing k t processing_threshold))))))"

end
