(* ===== verification/Kb_Documents.thy ===== *)
theory Kb_Documents
  imports Kb_Generation
begin

text \<open>
  \<open>application/knowledgebase/service.py\<close> and \<open>infrastructure/tasks/kb_vectorize_producer.py\<close>:
  uploading, listing, deleting and revectorising the documents of a knowledge base. Type
  detection, hashing, parsing and the object store are parameters; the keys in the store are
  part of the world.
\<close>

section \<open>Files\<close>

record UploadFile =
  uf_filename :: pystr
  uf_content_type :: pystr
  uf_data :: "nat list"

record KbDocEnv =
  de_detect :: "UploadFile \<Rightarrow> pystr"
  de_allowed_types :: "pystr list"
  de_max_file_size :: int
  de_hash :: "nat list \<Rightarrow> pystr"
  de_parse :: "UploadFile \<Rightarrow> pystr result"
  de_upload :: "UploadFile \<Rightarrow> pystr result"
  de_file_url :: "pystr \<Rightarrow> pystr"
  de_delete_file :: "pystr \<Rightarrow> unit result"
  de_exc_str :: "exn \<Rightarrow> pystr"
  de_lower :: "pystr \<Rightarrow> pystr"
  de_ilike :: "pystr \<Rightarrow> pystr \<Rightarrow> bool"

definition ST_PENDING :: pystr where "ST_PENDING = ascii ''PENDING''"

definition validate_size :: "KbDocEnv \<Rightarrow> nat list \<Rightarrow> unit result" where
  "validate_size env data =
     (if int (length data) > de_max_file_size env
      then Inl (BusinessException KNOWLEDGE_BASE_UPLOAD_FAILED
        ([25991, 20214, 22823, 23567, 36229, 36807, 38480, 21046, 58, 32] @ int_str (int (length data)) @ ascii '' > '' @ int_str (de_max_file_size env)))
      else Inr ())"

text \<open>\<open>_validate_size\<close>, \<open>detect\<close> and \<open>_is_allowed\<close>: the detected type.\<close>

definition check_file :: "KbDocEnv \<Rightarrow> UploadFile \<Rightarrow> pystr result" where
  "check_file env f = res_bind (validate_size env (uf_data f)) (\<lambda>_.
     let detected = de_detect env f in
     if detected \<in> set (de_allowed_types env) then Inr detected
     else Inl (BusinessException KNOWLEDGE_BASE_UPLOAD_FAILED ([19981, 25903, 25345, 30340, 25991, 20214, 31867, 22411, 58, 32] @ detected)))"

definition parse_file :: "KbDocEnv \<Rightarrow> UploadFile \<Rightarrow> pystr result" where
  "parse_file env f = res_bind (de_parse env f) (\<lambda>content.
     if py_strip content = []
     then Inl (BusinessException KNOWLEDGE_BASE_PARSE_FAILED [26080, 27861, 20174, 25991, 20214, 20013, 25552, 21462, 25991, 26412, 20869, 23481, 65292, 35831, 30830, 20445, 25991, 20214, 19981, 26159, 25195, 25551, 29256, 80, 68, 70])
     else Inr content)"

definition store_file :: "KbDocEnv \<Rightarrow> UploadFile \<Rightarrow> pystr kb_op" where
  "store_file env f = op_bind (op_lift (de_upload env f)) (\<lambda>key.
     op_then (op_modify (\<lambda>w. w\<lparr>kw_storage := kw_storage w @ [key]\<rparr>)) (op_return key))"

text \<open>The deletion of a stored file; its errors are only logged.\<close>

definition drop_file :: "KbDocEnv \<Rightarrow> DocRow \<Rightarrow> unit kb_op" where
  "drop_file env d = (case kd_storage_key d of
     None \<Rightarrow> op_return ()
   | Some key \<Rightarrow> if key = [] then op_return ()
       else op_try (op_then (op_lift (de_delete_file env key))
           (op_modify (\<lambda>w. w\<lparr>kw_storage := removeAll key (kw_storage w)\<rparr>)))
         (\<lambda>e. op_return ()))"

section \<open>The aggregate view of a knowledge base\<close>

definition refresh_kb_aggregate :: "int \<Rightarrow> KbDb \<Rightarrow> KbDb" where
  "refresh_kb_aggregate kid db =
     (let aggregated = aggregate_vector_status (list_statuses_by_kb kid db) in
      update_kb kid (\<lambda>r. r\<lparr>kb_vector_status := aggregated,
        kb_vector_error := (if aggregated = ST_FAILED then Some [23384, 22312, 21521, 37327, 21270, 22833, 36133, 30340, 25991, 26723] else None),
        kb_chunk_count := sum_chunk_count_by_kb kid db\<rparr>) db)"

section \<open>The producer of vectorisation tasks\<close>

definition KB_VECTORIZE_STREAM :: pystr where "KB_VECTORIZE_STREAM = ascii ''knowledgebase:vectorize:stream''"
definition FIELD_DOCUMENT_ID :: pystr where "FIELD_DOCUMENT_ID = ascii ''documentId''"

record KbVectorizePayload =
  vp_kb_id :: int
  vp_document_id :: int

definition vectorize_message :: "KbVectorizePayload \<Rightarrow> int \<Rightarrow> stream_message" where
  "vectorize_message p retry = [(KB_ID_FIELD, int_str (vp_kb_id p)), (FIELD_RETRY_COUNT, int_str retry),
     (FIELD_DOCUMENT_ID, int_str (vp_document_id p))]"

definition kb_update_vector_status :: "int \<Rightarrow> pystr \<Rightarrow> pystr option \<Rightarrow> KbDb \<Rightarrow> KbDb" where
  "kb_update_vector_status kid status err = update_kb kid (\<lambda>r. r\<lparr>kb_vector_status := status, kb_vector_error := err\<rparr>)"

definition vectorize_send_failed :: "int \<Rightarrow> pystr \<Rightarrow> unit kb_op" where
  "vectorize_send_failed kid err = op_try
     (in_session (\<lambda>now. op_bind (get_kb kid) (\<lambda>kb. case kb of
        None \<Rightarrow> op_return ()
      | Some r \<Rightarrow> op_modify (kb_update_vector_status kid ST_FAILED (Some (truncate_error err))))))
     (\<lambda>e. op_return ())"

definition enqueue_vectorize :: "KbDocEnv \<Rightarrow> int \<Rightarrow> int \<Rightarrow> unit kb_op" where
  "enqueue_vectorize env kid did = op_bind
     (kb_send_task (de_exc_str env) KB_VECTORIZE_STREAM
        (vectorize_message \<lparr>vp_kb_id = kid, vp_document_id = did\<rparr> 0) (vectorize_send_failed kid))
     (\<lambda>_. op_return ())"

section \<open>Uploading\<close>

definition new_kb :: "int \<Rightarrow> pystr option \<Rightarrow> pystr option \<Rightarrow> int \<Rightarrow> KbRow" where
  "new_kb i name category now = \<lparr>kb_id = i, kb_name = name, kb_category = category, kb_chunk_count = 0,
     kb_access_count = 0, kb_question_count = 0, kb_vector_status = ST_PENDING, kb_vector_error = None,
     kb_gen_status = ST_NONE, kb_gen_error = None, kb_gen_task_id = None, kb_gen_config = None,
     kb_gen_message = None, kb_gen_saved_count = 0, kb_gen_skipped_count = 0, kb_gen_updated_at = None,
     kb_uploaded_at = now, kb_last_accessed_at = None\<rparr>"

definition new_doc :: "KbDocEnv \<Rightarrow> UploadFile \<Rightarrow> int \<Rightarrow> int \<Rightarrow> pystr \<Rightarrow> pystr \<Rightarrow> pystr \<Rightarrow> int \<Rightarrow> DocRow" where
  "new_doc env f i kid detected content key now = \<lparr>kd_id = i, kd_kb_id = kid, kd_file_hash = de_hash env (uf_data f),
     kd_original_filename = uf_filename f, kd_file_size = Some (int (length (uf_data f))),
     kd_content_type = Some (if uf_content_type f = [] then detected else uf_content_type f),
     kd_storage_key = Some key, kd_storage_url = Some (de_file_url env key), kd_content_text = Some content,
     kd_chunk_count = 0, kd_vector_status = ST_PENDING, kd_vector_error = None, kd_vector_job_id = None,
     kd_uploaded_at = now, kd_vectorized_at = None\<rparr>"

definition save_kb :: "(int \<Rightarrow> KbRow) \<Rightarrow> KbRow db_op" where
  "save_kb row = op_bind (op_get db_fresh) (\<lambda>i. op_then
     (op_modify (\<lambda>db. db\<lparr>db_kbs := db_kbs db @ [row i], db_fresh := i + 1\<rparr>)) (op_return (row i)))"

definition save_doc :: "(int \<Rightarrow> DocRow) \<Rightarrow> DocRow db_op" where
  "save_doc row = op_bind (op_get db_fresh) (\<lambda>i. op_then
     (op_modify (\<lambda>db. db\<lparr>db_docs := db_docs db @ [row i], db_fresh := i + 1\<rparr>)) (op_return (row i)))"

record UploadResponse =
  ur_kb_id :: int
  ur_filename :: pystr
  ur_vector_status :: pystr
  ur_file_key :: pystr
  ur_file_url :: pystr
  ur_duplicate :: bool

definition upload :: "KbDocEnv \<Rightarrow> UploadFile \<Rightarrow> pystr option \<Rightarrow> pystr option \<Rightarrow> UploadResponse kb_op" where
  "upload env f name category =
     op_bind (op_lift (check_file env f)) (\<lambda>detected.
     op_bind (op_lift (parse_file env f)) (\<lambda>content.
     op_bind (store_file env f) (\<lambda>key.
     op_bind (in_session (\<lambda>now.
       op_bind (save_kb (\<lambda>i. new_kb i (Some (or_str name (uf_filename f)))
         (case category of Some c \<Rightarrow> if c = [] then None else Some c | None \<Rightarrow> None) now)) (\<lambda>kb.
       op_bind (save_doc (\<lambda>i. new_doc env f i (kb_id kb) detected content key now)) (\<lambda>doc.
       op_return (kb, doc))))) (\<lambda>(kb, doc).
     op_then (enqueue_vectorize env (kb_id kb) (kd_id doc))
       (op_return \<lparr>ur_kb_id = kb_id kb,
          ur_filename = (if uf_filename f \<noteq> [] then uf_filename f else or_str (kb_name kb) []),
          ur_vector_status = kb_vector_status kb, ur_file_key = key, ur_file_url = de_file_url env key,
          ur_duplicate = False\<rparr>)))))"

record DocumentDTO =
  dd_id :: int
  dd_kb_id :: int
  dd_original_filename :: pystr
  dd_file_size :: "int option"
  dd_content_type :: "pystr option"
  dd_vector_status :: pystr
  dd_vector_error :: "pystr option"
  dd_chunk_count :: int
  dd_uploaded_at :: int

definition to_document_dto :: "DocRow \<Rightarrow> DocumentDTO" where
  "to_document_dto d = \<lparr>dd_id = kd_id d, dd_kb_id = kd_kb_id d, dd_original_filename = kd_original_filename d,
     dd_file_size = kd_file_size d, dd_content_type = kd_content_type d, dd_vector_status = kd_vector_status d,
     dd_vector_error = kd_vector_error d, dd_chunk_count = kd_chunk_count d, dd_uploaded_at = kd_uploaded_at d\<rparr>"

definition require_kb :: "int \<Rightarrow> KbRow kb_op" where
  "require_kb kid = op_bind (db_read (find_kb kid)) (\<lambda>kb. case kb of
     None \<Rightarrow> op_raise (business_exception KNOWLEDGE_BASE_NOT_FOUND None) | Some r \<Rightarrow> op_return r)"

definition add_document :: "KbDocEnv \<Rightarrow> int \<Rightarrow> UploadFile \<Rightarrow> DocumentDTO kb_op" where
  "add_document env kid f =
     op_then (op_bind (require_kb kid) (\<lambda>_. op_return ()))
     (op_bind (op_lift (check_file env f)) (\<lambda>detected.
     op_bind (db_read (find_by_kb_and_hash kid (de_hash env (uf_data f)))) (\<lambda>existing.
     if existing \<noteq> None then
       op_raise (BusinessException KNOWLEDGE_BASE_UPLOAD_FAILED [35813, 25991, 20214, 24050, 23384, 22312, 20110, 24403, 21069, 30693, 35782, 24211, 65292, 26080, 38656, 37325, 22797, 19978, 20256])
     else
       op_bind (op_lift (parse_file env f)) (\<lambda>content.
       op_bind (store_file env f) (\<lambda>key.
       op_bind (in_session (\<lambda>now.
         op_bind (save_doc (\<lambda>i. new_doc env f i kid detected content key now)) (\<lambda>doc.
         op_then (op_modify (refresh_kb_aggregate kid)) (op_return doc)))) (\<lambda>doc.
       op_then (enqueue_vectorize env kid (kd_id doc)) (op_return (to_document_dto doc))))))))"

section \<open>Deleting and revectorising\<close>

definition delete_doc_row :: "int \<Rightarrow> KbDb \<Rightarrow> KbDb" where
  "delete_doc_row did db = db\<lparr>db_docs := filter (\<lambda>d. kd_id d \<noteq> did) (db_docs db)\<rparr>"

definition delete_document :: "KbDocEnv \<Rightarrow> int \<Rightarrow> int \<Rightarrow> unit kb_op" where
  "delete_document env kid did =
     op_then (op_bind (require_kb kid) (\<lambda>_. op_return ()))
     (op_bind (db_read (find_doc did)) (\<lambda>doc.
     case doc of
       None \<Rightarrow> op_raise (BusinessException KNOWLEDGE_BASE_NOT_FOUND [25991, 26723, 19981, 23384, 22312, 25110, 19981, 23646, 20110, 35813, 30693, 35782, 24211])
     | Some d \<Rightarrow>
         if kd_kb_id d \<noteq> kid then op_raise (BusinessException KNOWLEDGE_BASE_NOT_FOUND [25991, 26723, 19981, 23384, 22312, 25110, 19981, 23646, 20110, 35813, 30693, 35782, 24211])
         else op_then (drop_file env d)
           (in_session (\<lambda>now. op_then (op_modify (delete_by_document_id did))
             (op_then (op_modify (delete_doc_row did)) (op_modify (refresh_kb_aggregate kid)))))))"

text \<open>Deleting a row of \<open>knowledge_bases\<close> deletes its documents and questions (\<open>ON DELETE CASCADE\<close>).\<close>

definition delete_kb_row :: "int \<Rightarrow> KbDb \<Rightarrow> KbDb" where
  "delete_kb_row kid db = db\<lparr>db_kbs := filter (\<lambda>r. kb_id r \<noteq> kid) (db_kbs db),
     db_docs := filter (\<lambda>d. kd_kb_id d \<noteq> kid) (db_docs db),
     db_bank := filter (\<lambda>q. kq_kb_id q \<noteq> kid) (db_bank db)\<rparr>"

definition delete_kb :: "KbDocEnv \<Rightarrow> int \<Rightarrow> unit kb_op" where
  "delete_kb env kid =
     op_then (op_bind (require_kb kid) (\<lambda>_. op_return ()))
     (op_bind (db_read (docs_of kid)) (\<lambda>docs.
     op_then (op_for docs (drop_file env))
       (in_session (\<lambda>now. op_then (op_modify (delete_by_knowledge_base_id kid)) (op_modify (delete_kb_row kid))))))"

definition doc_update_vector_status :: "int \<Rightarrow> pystr \<Rightarrow> pystr option \<Rightarrow> KbDb \<Rightarrow> KbDb" where
  "doc_update_vector_status did status err = update_doc did (\<lambda>d. d\<lparr>kd_vector_status := status, kd_vector_error := err\<rparr>)"

definition revectorize :: "KbDocEnv \<Rightarrow> int \<Rightarrow> unit kb_op" where
  "revectorize env kid =
     op_then (op_bind (require_kb kid) (\<lambda>_. op_return ()))
     (op_bind (db_read (docs_of kid)) (\<lambda>docs.
     op_then (in_session (\<lambda>now. op_then
         (op_for docs (\<lambda>d. op_modify (doc_update_vector_status (kd_id d) ST_PENDING None)))
         (op_modify (kb_update_vector_status kid ST_PENDING None))))
       (op_for docs (\<lambda>d. enqueue_vectorize env kid (kd_id d)))))"

definition normalize_category :: "pystr option \<Rightarrow> pystr option" where
  "normalize_category category = (case category of None \<Rightarrow> None | Some c \<Rightarrow> if blank c then None else Some c)"

definition update_category :: "int \<Rightarrow> pystr option \<Rightarrow> unit kb_op" where
  "update_category kid category =
     op_then (op_bind (require_kb kid) (\<lambda>_. op_return ()))
       (in_session (\<lambda>now. op_modify (update_kb kid (\<lambda>r. r\<lparr>kb_category := normalize_category category\<rparr>))))"

section \<open>Listing\<close>

record DocAggregate =
  da_file_size_sum :: int
  da_first_original_filename :: pystr
  da_first_content_type :: "pystr option"

text \<open>The rows of the two grouped queries for one knowledge base; none without documents.\<close>

definition aggregate_of :: "int \<Rightarrow> KbDb \<Rightarrow> DocAggregate option" where
  "aggregate_of kid db = (case docs_of kid db of
     [] \<Rightarrow> None
   | d # ds \<Rightarrow> Some \<lparr>da_file_size_sum = sum_list (map (\<lambda>x. case kd_file_size x of None \<Rightarrow> 0 | Some n \<Rightarrow> n) (d # ds)),
       da_first_original_filename = kd_original_filename d, da_first_content_type = kd_content_type d\<rparr>)"

record KbListItem =
  li_id :: int
  li_name :: pystr
  li_category :: "pystr option"
  li_original_filename :: "pystr option"
  li_file_size :: "int option"
  li_content_type :: "pystr option"
  li_uploaded_at :: int
  li_last_accessed_at :: int
  li_access_count :: int
  li_question_count :: int
  li_vector_status :: pystr
  li_vector_error :: "pystr option"
  li_chunk_count :: int
  li_question_gen_status :: pystr
  li_question_gen_error :: "pystr option"

definition to_kb_list_item :: "KbRow \<Rightarrow> int option \<Rightarrow> pystr option \<Rightarrow> pystr option \<Rightarrow> KbListItem" where
  "to_kb_list_item kb doc_size doc_type doc_filename = \<lparr>li_id = kb_id kb,
     li_name = (let n = or_str (kb_name kb) [] in if n \<noteq> [] then n else or_str doc_filename []),
     li_category = kb_category kb, li_original_filename = doc_filename, li_file_size = doc_size,
     li_content_type = doc_type, li_uploaded_at = kb_uploaded_at kb,
     li_last_accessed_at = (case kb_last_accessed_at kb of None \<Rightarrow> kb_uploaded_at kb | Some t \<Rightarrow> t),
     li_access_count = kb_access_count kb, li_question_count = kb_question_count kb,
     li_vector_status = kb_vector_status kb, li_vector_error = kb_vector_error kb, li_chunk_count = kb_chunk_count kb,
     li_question_gen_status = (if kb_gen_status kb = [] then ST_NONE else kb_gen_status kb),
     li_question_gen_error = kb_gen_error kb\<rparr>"

definition to_list_item_with_agg :: "KbDb \<Rightarrow> KbRow \<Rightarrow> KbListItem" where
  "to_list_item_with_agg db kb = (case aggregate_of (kb_id kb) db of
     None \<Rightarrow> to_kb_list_item kb None None None
   | Some a \<Rightarrow> to_kb_list_item kb (Some (da_file_size_sum a)) (da_first_content_type a) (Some (da_first_original_filename a)))"

text \<open>\<open>order_by(uploaded_at.desc())\<close>; \<open>sorted(..., reverse=True)\<close> keeps the order of equal keys.\<close>

definition newest_first :: "KbRow list \<Rightarrow> KbRow list" where
  "newest_first = sort_key (\<lambda>r. - kb_uploaded_at r)"

definition list_all_kbs :: "pystr option \<Rightarrow> KbDb \<Rightarrow> KbRow list" where
  "list_all_kbs status db = newest_first (filter (\<lambda>r. status = None \<or> Some (kb_vector_status r) = status) (db_kbs db))"

definition kbs_by_category :: "pystr option \<Rightarrow> KbDb \<Rightarrow> KbRow list" where
  "kbs_by_category category db = newest_first (filter (\<lambda>r. kb_category r = category) (db_kbs db))"

definition sort_with_aggregate :: "KbDocEnv \<Rightarrow> KbDb \<Rightarrow> pystr option \<Rightarrow> KbRow list \<Rightarrow> KbRow list" where
  "sort_with_aggregate env db sort_by kbs =
     (let key = de_lower env (or_str sort_by []) in
      if or_str sort_by [] = [] \<or> key = ascii ''time'' then kbs
      else if key = ascii ''size'' then
        sort_key (\<lambda>r. - (case aggregate_of (kb_id r) db of None \<Rightarrow> 0 | Some a \<Rightarrow> da_file_size_sum a)) kbs
      else if key = ascii ''access'' then sort_key (\<lambda>r. - kb_access_count r) kbs
      else if key = ascii ''question'' then sort_key (\<lambda>r. - kb_question_count r) kbs
      else kbs)"

definition py_window :: "nat \<Rightarrow> nat \<Rightarrow> 'a list \<Rightarrow> 'a list" where
  "py_window offset limit xs = take limit (drop offset xs)"

definition list_knowledge_bases :: "KbDocEnv \<Rightarrow> pystr option \<Rightarrow> pystr option \<Rightarrow> nat \<Rightarrow> nat \<Rightarrow> KbDb \<Rightarrow> KbListItem list" where
  "list_knowledge_bases env sort_by status limit offset db =
     py_window offset limit (map (to_list_item_with_agg db) (sort_with_aggregate env db sort_by (list_all_kbs status db)))"

definition list_by_category :: "pystr option \<Rightarrow> nat \<Rightarrow> nat \<Rightarrow> KbDb \<Rightarrow> KbListItem list" where
  "list_by_category category limit offset db =
     py_window offset limit (map (to_list_item_with_agg db) (kbs_by_category (normalize_category category) db))"

definition search_kbs :: "KbDocEnv \<Rightarrow> pystr \<Rightarrow> nat \<Rightarrow> nat \<Rightarrow> KbDb \<Rightarrow> KbListItem list" where
  "search_kbs env keyword limit offset db =
     (if blank keyword then list_knowledge_bases env None None limit offset db
      else py_window offset limit (map (to_list_item_with_agg db) (newest_first
        (filter (\<lambda>r. case kb_name r of None \<Rightarrow> False | Some n \<Rightarrow> de_ilike env n (py_strip keyword)) (db_kbs db)))))"

definition get_detail :: "int \<Rightarrow> KbDb \<Rightarrow> KbListItem result" where
  "get_detail kid db = (case find_kb kid db of
     None \<Rightarrow> Inl (business_exception KNOWLEDGE_BASE_NOT_FOUND None) | Some kb \<Rightarrow> Inr (to_list_item_with_agg db kb))"

definition list_documents :: "int \<Rightarrow> nat \<Rightarrow> nat \<Rightarrow> KbDb \<Rightarrow> DocumentDTO list result" where
  "list_documents kid limit offset db = (case find_kb kid db of
     None \<Rightarrow> Inl (business_exception KNOWLEDGE_BASE_NOT_FOUND None)
   | Some kb \<Rightarrow> Inr (py_window offset limit (map to_document_dto (docs_of kid db))))"

text \<open>\<open>get\<close> is the download of a stored object.\<close>

definition download :: "(pystr \<Rightarrow> nat list result) \<Rightarrow> int \<Rightarrow> KbDb \<Rightarrow> (nat list \<times> pystr \<times> pystr option) result" where
  "download get kid db = (case find_kb kid db of
     None \<Rightarrow> Inl (business_exception KNOWLEDGE_BASE_NOT_FOUND None)
   | Some kb \<Rightarrow> (case docs_of kid db of
       [] \<Rightarrow> Inl (BusinessException STORAGE_DOWNLOAD_FAILED [25991, 20214, 23384, 20648, 20449, 24687, 19981, 23384, 22312])
     | d # ds \<Rightarrow> if or_str (kd_storage_key d) [] = [] then Inl (BusinessException STORAGE_DOWNLOAD_FAILED [25991, 20214, 23384, 20648, 20449, 24687, 19981, 23384, 22312])
         else res_map (\<lambda>x. (x, kd_original_filename d, kd_content_type d)) (get (or_str (kd_storage_key d) []))))"

end
