(* ===== verification/Chunking.thy ===== *)
theory Chunking
  imports Errors
begin

text \<open>
  \<open>infrastructure/parsing/chunker.py\<close>: the windows a text is cut into before it is embedded.
  The encoder is a parameter.
\<close>

record TokenEncoder =
  encode :: "pystr \<Rightarrow> nat list"
  decode :: "nat list \<Rightarrow> pystr"

record TokenChunker =
  chunk_size :: int
  chunk_overlap :: int
  chunk_encoder :: TokenEncoder

definition DEFAULT_CHUNK_SIZE :: int where "DEFAULT_CHUNK_SIZE = 800"
definition DEFAULT_CHUNK_OVERLAP :: int where "DEFAULT_CHUNK_OVERLAP = 100"

text \<open>The constructor refuses sizes that would not advance.\<close>

definition make_chunker :: "int \<Rightarrow> int \<Rightarrow> TokenEncoder \<Rightarrow> TokenChunker result" where
  "make_chunker csize overlap enc =
     (if csize \<le> 0 then Inl (ValueError [99, 104, 117, 110, 107, 95, 115, 105, 122, 101, 32, 24517, 39035, 20026, 27491, 25972, 25968])
      else if overlap < 0 then Inl (ValueError [99, 104, 117, 110, 107, 95, 111, 118, 101, 114, 108, 97, 112, 32, 19981, 33021, 20026, 36127, 25968])
      else if overlap \<ge> csize then Inl (ValueError [99, 104, 117, 110, 107, 95, 111, 118, 101, 114, 108, 97, 112, 32, 24517, 39035, 23567, 20110, 32, 99, 104, 117, 110, 107, 95, 115, 105, 122, 101])
      else Inr \<lparr>chunk_size = csize, chunk_overlap = overlap, chunk_encoder = enc\<rparr>)"

text \<open>
  The loop of \<open>split\<close> over the windows that begin at \<open>start\<close>, \<open>start + step\<close> and so on. The
  constructor makes \<open>step\<close> positive.
\<close>

function windows_from :: "nat \<Rightarrow> nat \<Rightarrow> nat list \<Rightarrow> nat \<Rightarrow> nat list list" where
  "windows_from csize step tokens start =
     (if start < length tokens \<and> 0 < step then
        take csize (drop start tokens) #
          (if start + csize \<ge> length tokens then [] else windows_from csize step tokens (start + step))
      else [])"
  by pat_completeness auto
termination by (relation "measure (\<lambda>(csize, step, tokens, start). length tokens - start)") auto

declare windows_from.simps [simp del]

definition windows :: "TokenChunker \<Rightarrow> nat list \<Rightarrow> nat list list" where
  "windows c tokens = windows_from (nat (chunk_size c)) (nat (chunk_size c - chunk_overlap c)) tokens 0"

definition split_text :: "TokenChunker \<Rightarrow> pystr \<Rightarrow> pystr list" where
  "split_text c s = (if blank s then []
     else filter (\<lambda>w. \<not> blank w) (map (decode (chunk_encoder c)) (windows c (encode (chunk_encoder c) s))))"

section \<open>What the windows cover\<close>

lemma windows_from_cover:
  assumes "start < length tokens" "0 < step" "step \<le> csize"
  shows "windows_from csize step tokens start \<noteq> []
     \<and> concat (hd (windows_from csize step tokens start) # map (drop (csize - step)) (tl (windows_from csize step tokens start)))
         = drop start tokens
     \<and> (\<forall>w \<in> set (windows_from csize step tokens start). w \<noteq> [] \<and> length w \<le> csize)
     \<and> (\<forall>w \<in> set (butlast (windows_from csize step tokens start)). length w = csize)"
  using assms
proof (induction csize step tokens start rule: windows_from.induct)
  case (1 csize step tokens start)
  show ?case
  proof (cases "start + csize \<ge> length tokens")
    case True
    with 1(2,3,4) show ?thesis by (subst (1 2 3 4 5) windows_from.simps) auto
  next
    case False
    let ?ws = "windows_from csize step tokens (start + step)"
    from False 1(3,4) have "start + step < length tokens" by simp
    with 1(1) False 1(2-4) have IH: "?ws \<noteq> []" "concat (hd ?ws # map (drop (csize - step)) (tl ?ws)) = drop (start + step) tokens"
      "\<forall>w \<in> set ?ws. w \<noteq> [] \<and> length w \<le> csize" "\<forall>w \<in> set (butlast ?ws). length w = csize" by auto
    have eq: "windows_from csize step tokens start = take csize (drop start tokens) # ?ws"
      using False 1(2,3) by (subst windows_from.simps) simp
    have hd_ws: "hd ?ws = take csize (drop (start + step) tokens)"
      using \<open>start + step < length tokens\<close> 1(3) by (subst windows_from.simps) simp
    have "concat (map (drop (csize - step)) ?ws) = drop (csize - step) (concat (hd ?ws # map (drop (csize - step)) (tl ?ws)))"
    proof (cases ?ws)
      case (Cons w ws)
      have "csize - step \<le> length w \<or> ws = []"
      proof (cases ws)
        case (Cons v vs)
        then have "w \<in> set (butlast ?ws)" by (simp add: \<open>?ws = w # ws\<close>)
        with IH(4) show ?thesis by simp
      qed simp
      with Cons show ?thesis by auto
    qed (simp add: IH(1))
    also have "\<dots> = drop (csize - step + (start + step)) tokens" by (simp only: IH(2) drop_drop)
    also have "csize - step + (start + step) = start + csize" using 1(4) by simp
    finally have "concat (take csize (drop start tokens) # map (drop (csize - step)) ?ws) = drop start tokens"
      by (simp add: add.commute flip: drop_drop)
    moreover have "length (take csize (drop start tokens)) = csize" using False by simp
    ultimately show ?thesis using IH 1(2-4) by (auto simp: eq)
  qed
qed



end
