(* ===== verification/Kb_Vectorize.thy ===== *)
theory Kb_Vectorize
  imports Kb_Documents Chunking
begin

text \<open>
  \<open>infrastructure/tasks/kb_vectorize_consumer.py\<close>: the vectorisation of a document. A worker runs
  its database sessions one by one, between them other workers and requests run theirs; so
  the handlers of the consumer are the states of a machine, one step per session. Chunking,
  embeddings and the failure of a session are parameters of a step.
\<close>

section \<open>Sessions of a worker\<close>

text \<open>\<open>_sync_kb_aggregate\<close>.\<close>

definition sync_kb_aggregate :: "int \<Rightarrow> KbDb \<Rightarrow> KbDb" where
  "sync_kb_aggregate kid db = (case find_kb kid db of None \<Rightarrow> db | Some r \<Rightarrow> refresh_kb_aggregate kid db)"

definition vec_mark_processing :: "KbVectorizePayload \<Rightarrow> KbDb \<Rightarrow> KbDb" where
  "vec_mark_processing p db = (case find_doc (vp_document_id p) db of
     None \<Rightarrow> db
   | Some d \<Rightarrow> if kd_vector_status d = ST_COMPLETED then db
       else sync_kb_aggregate (vp_kb_id p) (doc_update_vector_status (vp_document_id p) ST_PROCESSING None db))"

text \<open>\<open>mark_vectorized\<close> of the document repository.\<close>

definition mark_vectorized :: "int \<Rightarrow> pystr \<Rightarrow> int \<Rightarrow> int \<Rightarrow> KbDb \<Rightarrow> KbDb" where
  "mark_vectorized did job n now = update_doc did (\<lambda>d. d\<lparr>kd_vector_job_id := Some job, kd_chunk_count := n,
     kd_vectorized_at := Some now\<rparr>)"

text \<open>The session of a document without text, and the two sessions of one with text.\<close>

definition vec_clear :: "KbVectorizePayload \<Rightarrow> pystr \<Rightarrow> int \<Rightarrow> KbDb \<Rightarrow> KbDb" where
  "vec_clear p job now db = (case find_doc (vp_document_id p) db of
     None \<Rightarrow> db
   | Some d \<Rightarrow> sync_kb_aggregate (vp_kb_id p)
       (mark_vectorized (vp_document_id p) job 0 now (delete_by_document_id (vp_document_id p) db)))"

definition vec_promote :: "KbVectorizePayload \<Rightarrow> pystr \<Rightarrow> int \<Rightarrow> int \<Rightarrow> KbDb \<Rightarrow> KbDb" where
  "vec_promote p job n now db = (case find_doc (vp_document_id p) db of
     None \<Rightarrow> delete_by_vector_job_id job db
   | Some d \<Rightarrow> sync_kb_aggregate (vp_kb_id p)
       (mark_vectorized (vp_document_id p) job n now
         (promote_vector_job (vp_kb_id p) job (delete_by_document_id (vp_document_id p) db))))"

definition vec_mark_completed :: "KbVectorizePayload \<Rightarrow> KbDb \<Rightarrow> KbDb" where
  "vec_mark_completed p db = (case find_doc (vp_document_id p) db of
     None \<Rightarrow> db
   | Some d \<Rightarrow> sync_kb_aggregate (vp_kb_id p) (doc_update_vector_status (vp_document_id p) ST_COMPLETED None db))"

definition vec_mark_failed :: "KbVectorizePayload \<Rightarrow> pystr \<Rightarrow> KbDb \<Rightarrow> KbDb" where
  "vec_mark_failed p err db = (case find_doc (vp_document_id p) db of
     None \<Rightarrow> db
   | Some d \<Rightarrow> sync_kb_aggregate (vp_kb_id p) (doc_update_vector_status (vp_document_id p) ST_FAILED (Some err) db))"

section \<open>Embedding\<close>

definition EMBEDDING_BATCH_SIZE :: nat where "EMBEDDING_BATCH_SIZE = 10"

type_synonym VectorItem = "pystr \<times> rat list \<times> int"

record VecEnv =
  ve_chunker :: TokenChunker
  ve_default_embeddings :: "unit result"
  ve_embed :: "pystr list \<Rightarrow> rat list list result"
  ve_exc_str :: "exn \<Rightarrow> pystr"

function embed_in_batches :: "(pystr list \<Rightarrow> rat list list result) \<Rightarrow> pystr list \<Rightarrow> rat list list result" where
  "embed_in_batches aembed chunks = (if chunks = [] then Inr []
     else res_bind (aembed (take EMBEDDING_BATCH_SIZE chunks)) (\<lambda>batch.
       res_map ((@) batch) (embed_in_batches aembed (drop EMBEDDING_BATCH_SIZE chunks))))"
  by pat_completeness auto
termination by (relation "measure (\<lambda>(aembed, chunks). length chunks)") (auto simp: EMBEDDING_BATCH_SIZE_def)

declare embed_in_batches.simps [simp del]

text \<open>\<open>zip(chunks, vectors, strict=True)\<close> with the chunk numbers.\<close>

definition vector_items :: "pystr list \<Rightarrow> rat list list \<Rightarrow> VectorItem list result" where
  "vector_items chunks vectors =
     (if length chunks = length vectors then Inr (zip chunks (zip vectors (map int [0..<length chunks])))
      else Inl (ValueError (ascii ''zip() arguments have different lengths'')))"

definition embed_chunks :: "VecEnv \<Rightarrow> pystr list \<Rightarrow> VectorItem list result" where
  "embed_chunks env chunks = res_bind (ve_default_embeddings env) (\<lambda>_.
     res_bind (embed_in_batches (ve_embed env) chunks) (vector_items chunks))"

section \<open>The worker\<close>

datatype Worker =
    W_Start KbVectorizePayload int
  | W_Process KbVectorizePayload int
  | W_Embed KbVectorizePayload int pystr
  | W_Clear KbVectorizePayload int pystr
  | W_Insert KbVectorizePayload int pystr "VectorItem list"
  | W_Promote KbVectorizePayload int pystr "VectorItem list"
  | W_Cleanup KbVectorizePayload int pystr exn
  | W_Finish KbVectorizePayload int
  | W_Failed KbVectorizePayload int exn
  | W_Ended

text \<open>A session fails with the given exception, if any, and is rolled back.\<close>

definition session :: "exn option \<Rightarrow> (int \<Rightarrow> 'a db_op) \<Rightarrow> 'a kb_op" where
  "session fault m = (case fault of Some e \<Rightarrow> op_raise e | None \<Rightarrow> in_session m)"

definition step_to :: "'a kb_op \<Rightarrow> ('a \<Rightarrow> Worker) \<Rightarrow> (exn \<Rightarrow> Worker) \<Rightarrow> Worker kb_op" where
  "step_to m next_state failed = op_try (op_bind m (\<lambda>x. op_return (next_state x))) (\<lambda>e. op_return (failed e))"

text \<open>
  The consumer's handlers in the order \<open>process_message\<close> calls them; \<open>job\<close> is the fresh
  \<open>uuid4\<close> of \<open>_process_document\<close>. The numbers count the retries made so far.
\<close>

fun worker_step :: "VecEnv \<Rightarrow> exn option \<Rightarrow> pystr \<Rightarrow> Worker \<Rightarrow> Worker kb_op" where
  "worker_step env fault job (W_Start p n) =
     step_to (session fault (\<lambda>now. op_modify (vec_mark_processing p))) (\<lambda>_. W_Process p n) (W_Failed p n)"
| "worker_step env fault job (W_Process p n) =
     step_to (session fault (\<lambda>now. op_get (find_doc (vp_document_id p))))
       (\<lambda>doc. case doc of None \<Rightarrow> W_Finish p n
          | Some d \<Rightarrow> if kd_vector_status d = ST_COMPLETED then W_Finish p n
              else W_Embed p n (case kd_content_text d of None \<Rightarrow> [] | Some c \<Rightarrow> c))
       (W_Failed p n)"
| "worker_step env fault job (W_Embed p n content) =
     (let chunks = split_text (ve_chunker env) content in
      if chunks = [] then op_return (W_Clear p n job)
      else step_to (op_lift (embed_chunks env chunks)) (W_Insert p n job) (W_Failed p n))"
| "worker_step env fault job (W_Clear p n j) =
     step_to (session fault (\<lambda>now. op_modify (vec_clear p j now))) (\<lambda>_. W_Finish p n) (W_Failed p n)"
| "worker_step env fault job (W_Insert p n j items) =
     step_to (session fault (\<lambda>now. op_modify (insert_pending j (vp_kb_id p) items (vp_document_id p))))
       (\<lambda>_. W_Promote p n j items) (W_Cleanup p n j)"
| "worker_step env fault job (W_Promote p n j items) =
     step_to (session fault (\<lambda>now. op_modify (vec_promote p j (int (length items)) now)))
       (\<lambda>_. W_Finish p n) (W_Cleanup p n j)"
| "worker_step env fault job (W_Cleanup p n j e) =
     step_to (session fault (\<lambda>now. op_modify (delete_by_vector_job_id j))) (\<lambda>_. W_Failed p n e) (\<lambda>_. W_Failed p n e)"
| "worker_step env fault job (W_Finish p n) =
     step_to (session fault (\<lambda>now. op_modify (vec_mark_completed p))) (\<lambda>_. W_Ended) (W_Failed p n)"
| "worker_step env fault job (W_Failed p n e) =
     step_to (if n < MAX_RETRY_COUNT then kb_xadd KB_VECTORIZE_STREAM (vectorize_message p (n + 1))
        else session fault (\<lambda>now. op_modify (vec_mark_failed p (truncate_error (ve_exc_str env e)))))
       (\<lambda>_. W_Ended) (\<lambda>_. W_Ended)"
| "worker_step env fault job W_Ended = op_return W_Ended"

definition parse_vectorize_payload :: "stream_message \<Rightarrow> KbVectorizePayload option" where
  "parse_vectorize_payload data = (case dict_get data KB_ID_FIELD of
     None \<Rightarrow> None
   | Some raw \<Rightarrow> (case py_int raw of
       Inl e \<Rightarrow> None
     | Inr kid \<Rightarrow> (case dict_get data FIELD_DOCUMENT_ID of
         None \<Rightarrow> None
       | Some raw_doc \<Rightarrow> (case py_int raw_doc of
           Inl e \<Rightarrow> None | Inr did \<Rightarrow> Some \<lparr>vp_kb_id = kid, vp_document_id = did\<rparr>))))"

section \<open>Workers, requests and the environment\<close>

datatype KbRequest =
    KR_Upload UploadFile "pystr option" "pystr option"
  | KR_Add_Document int UploadFile
  | KR_Delete_Document int int
  | KR_Delete int
  | KR_Revectorize int
  | KR_Update_Category int "pystr option"

definition forget_result :: "'a kb_op \<Rightarrow> unit kb_op" where
  "forget_result m = op_bind m (\<lambda>_. op_return ())"

fun kb_handle :: "KbDocEnv \<Rightarrow> KbRequest \<Rightarrow> unit kb_op" where
  "kb_handle env (KR_Upload f name category) = forget_result (upload env f name category)"
| "kb_handle env (KR_Add_Document kid f) = forget_result (add_document env kid f)"
| "kb_handle env (KR_Delete_Document kid did) = delete_document env kid did"
| "kb_handle env (KR_Delete kid) = delete_kb env kid"
| "kb_handle env (KR_Revectorize kid) = revectorize env kid"
| "kb_handle env (KR_Update_Category kid category) = update_category kid category"

record VecSystem =
  vs_world :: KbWorld
  vs_workers :: "Worker list"

fun job_of :: "Worker \<Rightarrow> pystr option" where
  "job_of (W_Clear p n j) = Some j"
| "job_of (W_Insert p n j items) = Some j"
| "job_of (W_Promote p n j items) = Some j"
| "job_of (W_Cleanup p n j e) = Some j"
| "job_of _ = None"

definition fresh_job :: "pystr \<Rightarrow> VecSystem \<Rightarrow> bool" where
  "fresh_job job s \<longleftrightarrow> (\<forall>v \<in> set (db_vectors (kw_db (vs_world s))). vr_job v \<noteq> Some job)
     \<and> (\<forall>x \<in> set (vs_workers s). job_of x \<noteq> Some job)"

text \<open>What the rest of the program never touches: documents, vectors and the indexing state.\<close>

definition vector_view :: "KbWorld \<Rightarrow> (int \<times> int \<times> pystr) list \<times> DocRow list \<times> VectorRow list \<times> stream_message list" where
  "vector_view w = (map (\<lambda>r. (kb_id r, kb_chunk_count r, kb_vector_status r)) (db_kbs (kw_db w)),
     db_docs (kw_db w), db_vectors (kw_db w), kw_streams w KB_VECTORIZE_STREAM)"

inductive vec_step :: "KbDocEnv \<Rightarrow> VecEnv \<Rightarrow> VecSystem \<Rightarrow> VecSystem \<Rightarrow> bool" for denv env where
  request: "vec_step denv env s (s\<lparr>vs_world := snd (kb_handle denv req (vs_world s))\<rparr>)"
| deliver: "data \<in> set (kw_streams (vs_world s) KB_VECTORIZE_STREAM) \<Longrightarrow> parse_vectorize_payload data = Some p
    \<Longrightarrow> vec_step denv env s (s\<lparr>vs_workers := vs_workers s @ [W_Start p (gen_parse_retry data)]\<rparr>)"
| work: "i < length (vs_workers s) \<Longrightarrow> fresh_job job s
    \<Longrightarrow> worker_step env fault job (vs_workers s ! i) (vs_world s) = (Inr x, w')
    \<Longrightarrow> vec_step denv env s \<lparr>vs_world = w', vs_workers = (vs_workers s)[i := x]\<rparr>"
| crash: "vec_step denv env s (s\<lparr>vs_workers := take i (vs_workers s) @ drop (Suc i) (vs_workers s)\<rparr>)"
| elsewhere: "vector_view w' = vector_view (vs_world s) \<Longrightarrow> db_fresh (kw_db (vs_world s)) \<le> db_fresh (kw_db w')
    \<Longrightarrow> vec_step denv env s (s\<lparr>vs_world := w'\<rparr>)"

definition empty_kb_world :: KbWorld where
  "empty_kb_world = \<lparr>kw_db = \<lparr>db_kbs = [], db_docs = [], db_bank = [], db_vectors = [], db_fresh = 1\<rparr>,
     kw_streams = (\<lambda>s. []), kw_faults = [], kw_storage = [], kw_now = 0\<rparr>"

inductive vec_reachable :: "KbDocEnv \<Rightarrow> VecEnv \<Rightarrow> VecSystem \<Rightarrow> bool" for denv env where
  start: "vec_reachable denv env \<lparr>vs_world = empty_kb_world, vs_workers = []\<rparr>"
| step: "vec_reachable denv env s \<Longrightarrow> vec_step denv env s s' \<Longrightarrow> vec_reachable denv env s'"

end
