(* ===== verification/Kb_Tasks.thy ===== *)
theory Kb_Tasks
  imports Kb_Generation Triples
begin

text \<open>
  The generation task of a knowledge base: its abstract lifecycle, that the sessions of the
  state service refine it, that a task stores its result at most once in any interleaving of
  workers and recovery runs, and what the consumer keeps and does with failing tasks.
\<close>

section \<open>The invariant of the rows\<close>

definition gen_row_ok :: "KbRow \<Rightarrow> bool" where
  "gen_row_ok r \<longleftrightarrow> (kb_gen_status r = ST_NONE \<and> kb_gen_task_id r = None)
     \<or> (kb_gen_status r \<in> {ST_QUEUED, ST_PROCESSING, ST_COMPLETED, ST_FAILED} \<and> kb_gen_task_id r \<noteq> None)"

definition gen_db_ok :: "KbDb \<Rightarrow> bool" where
  "gen_db_ok db \<longleftrightarrow> distinct (map kb_id (db_kbs db)) \<and> (\<forall>r \<in> set (db_kbs db). gen_row_ok r)
     \<and> distinct (map kq_id (db_bank db)) \<and> (\<forall>q \<in> set (db_bank db). kq_id q < db_fresh db)"

lemma find_kb_Some: "find_kb i db = Some r \<Longrightarrow> r \<in> set (db_kbs db) \<and> kb_id r = i"
  by (auto simp: find_kb_def find_Some_iff)

lemma find_kb_update:
  assumes "\<And>r. kb_id (f r) = kb_id r"
  shows "find_kb j (update_kb i f db) = (if j = i then map_option f (find_kb i db) else find_kb j db)"
proof -
  have "find (\<lambda>r. kb_id r = j) (map (\<lambda>r. if kb_id r = i then f r else r) rows) =
      (if j = i then map_option f (find (\<lambda>r. kb_id r = i) rows) else find (\<lambda>r. kb_id r = j) rows)" for rows
    by (induction rows) (auto simp: assms)
  then show ?thesis by (simp add: find_kb_def update_kb_def)
qed

lemma update_kb_other [simp]:
  "db_bank (update_kb i f db) = db_bank db" "db_docs (update_kb i f db) = db_docs db"
  "db_vectors (update_kb i f db) = db_vectors db" "db_fresh (update_kb i f db) = db_fresh db"
  by (simp_all add: update_kb_def)

lemma update_kb_ids: "(\<And>r. kb_id (f r) = kb_id r) \<Longrightarrow> map kb_id (db_kbs (update_kb i f db)) = map kb_id (db_kbs db)"
  by (simp add: update_kb_def)

lemma update_kb_ok:
  assumes "gen_db_ok db" "\<And>r. kb_id (f r) = kb_id r" "\<And>r. r \<in> set (db_kbs db) \<Longrightarrow> kb_id r = i \<Longrightarrow> gen_row_ok (f r)"
  shows "gen_db_ok (update_kb i f db)"
proof -
  have "distinct (map kb_id (db_kbs (update_kb i f db)))"
    using assms(1) update_kb_ids [OF assms(2), of i db] by (simp add: gen_db_ok_def)
  moreover have "\<forall>r \<in> set (db_kbs (update_kb i f db)). gen_row_ok r"
    using assms(1,3) by (auto simp: update_kb_def gen_db_ok_def)
  ultimately show ?thesis using assms(1) by (simp add: gen_db_ok_def)
qed

text \<open>The row with an id is the only one.\<close>

lemma kb_row_unique: "gen_db_ok db \<Longrightarrow> find_kb i db = Some r \<Longrightarrow> r' \<in> set (db_kbs db) \<Longrightarrow> kb_id r' = i \<Longrightarrow> r' = r"
  using find_kb_Some [of i db r] by (auto simp: gen_db_ok_def distinct_map inj_on_def)

text \<open>Storing new questions.\<close>

lemma save_all_other [simp]: "db_kbs (save_all now qs db) = db_kbs db" "db_docs (save_all now qs db) = db_docs db"
  by (induction now qs db rule: save_all.induct) simp_all

definition stored :: "BankRow \<Rightarrow> BankRow" where
  "stored q = q\<lparr>kq_id := 0, kq_created_at := 0, kq_updated_at := 0\<rparr>"

lemma save_all_bank:
  "map stored (db_bank (save_all now qs db)) = map stored (db_bank db) @ map stored qs"
  by (induction now qs db rule: save_all.induct) (simp_all add: stored_def)

lemma save_all_ok: "gen_db_ok db \<Longrightarrow> gen_db_ok (save_all now qs db)"
  by (induction now qs db rule: save_all.induct) (force simp: gen_db_ok_def)+

section \<open>The abstract lifecycle\<close>

datatype GenPhase = Idle | Queued pystr | Processing pystr | Completed pystr | Failed pystr

definition phase_of :: "KbRow \<Rightarrow> GenPhase" where
  "phase_of r = (case kb_gen_task_id r of
     None \<Rightarrow> Idle
   | Some t \<Rightarrow> if kb_gen_status r = ST_QUEUED then Queued t else if kb_gen_status r = ST_PROCESSING then Processing t
       else if kb_gen_status r = ST_COMPLETED then Completed t else Failed t)"

datatype GenCall =
    G_Create pystr GenerationConfig
  | G_Claim pystr
  | G_Release pystr
  | G_Fail pystr
  | G_Touch pystr int
  | G_Recover pystr int
  | G_Replace pystr "BankRow list" int

text \<open>Where an accepted call leads; \<open>None\<close> is a refusal.\<close>

fun life_next :: "GenCall \<Rightarrow> GenPhase \<Rightarrow> GenPhase option" where
  "life_next (G_Create u c) p = (case p of Queued _ \<Rightarrow> None | Processing _ \<Rightarrow> None | _ \<Rightarrow> Some (Queued u))"
| "life_next (G_Claim t) p = (if p = Queued t then Some (Processing t) else None)"
| "life_next (G_Release t) p = (if p = Processing t then Some (Queued t) else None)"
| "life_next (G_Fail t) p = (if p \<in> {Queued t, Processing t, Failed t} then Some (Failed t) else None)"
| "life_next (G_Touch t n) p = (if p = Queued t then Some (Queued t) else None)"
| "life_next (G_Recover t n) p = (if p = Processing t then Some (Queued t) else None)"
| "life_next (G_Replace t qs n) p = (if p = Processing t then Some (Completed t) else None)"

text \<open>The session behind each call.\<close>

fun run_call :: "GenEnv \<Rightarrow> int \<Rightarrow> GenCall \<Rightarrow> int \<Rightarrow> bool db_op" where
  "run_call env kid (G_Create u c) now = op_then (create_task env u kid c now) (op_return True)"
| "run_call env kid (G_Claim t) now = try_mark_processing kid t now"
| "run_call env kid (G_Release t) now = reset_for_retry kid t now"
| "run_call env kid (G_Fail t) now = mark_gen_failed kid t now"
| "run_call env kid (G_Touch t n) now = touch_queued_for_recovery kid t n now"
| "run_call env kid (G_Recover t n) now = reset_stale_processing kid t n now"
| "run_call env kid (G_Replace t qs n) now = replace_questions_and_complete kid t qs n now"

text \<open>The bank of a knowledge base, up to ids and time stamps.\<close>

definition bank_rows :: "int \<Rightarrow> KbDb \<Rightarrow> BankRow list" where
  "bank_rows kid db = map stored (filter (\<lambda>q. kq_kb_id q = kid) (db_bank db))"

fun bank_after :: "GenCall \<Rightarrow> BankRow list \<Rightarrow> BankRow list" where
  "bank_after (G_Replace t qs n) bank = map stored qs"
| "bank_after _ bank = bank"

text \<open>What holds of a call that went through, and of one that was refused.\<close>

definition accepted_as :: "int \<Rightarrow> GenCall \<Rightarrow> KbDb \<Rightarrow> KbDb \<Rightarrow> bool" where
  "accepted_as kid c db db' \<longleftrightarrow> (\<exists>r r'. find_kb kid db = Some r \<and> find_kb kid db' = Some r'
     \<and> life_next c (phase_of r) = Some (phase_of r') \<and> bank_rows kid db' = bank_after c (bank_rows kid db)
     \<and> (\<forall>j. j \<noteq> kid \<longrightarrow> find_kb j db' = find_kb j db \<and> bank_rows j db' = bank_rows j db))"

definition valid_call :: "int \<Rightarrow> GenCall \<Rightarrow> bool" where
  "valid_call kid c = (case c of G_Replace t qs n \<Rightarrow> (\<forall>q \<in> set qs. kq_kb_id q = kid) | _ \<Rightarrow> True)"

lemma kb_matches_phase:
  assumes "gen_row_ok r"
  shows "kb_matches (Some r) t ST_QUEUED \<longleftrightarrow> phase_of r = Queued t"
    "kb_matches (Some r) t ST_PROCESSING \<longleftrightarrow> phase_of r = Processing t"
    "kb_gen_task_id r = Some t \<and> kb_gen_status r \<noteq> ST_COMPLETED \<longleftrightarrow> phase_of r \<in> {Queued t, Processing t, Failed t}"
  using assms by (auto simp: kb_matches_def phase_of_def gen_row_ok_def split: option.splits)

lemma update_kb_accepted:
  assumes "find_kb kid db = Some r" "\<And>r. kb_id (f r) = kb_id r" "life_next c (phase_of r) = Some (phase_of (f r))"
    "bank_after c (bank_rows kid db) = bank_rows kid db"
  shows "accepted_as kid c db (update_kb kid f db)"
  using assms by (auto simp: accepted_as_def find_kb_update bank_rows_def)

lemma gen_transition_run:
  assumes "gen_transition kid guard f db = (res, db')"
  shows "(res = Inr True \<and> guard (find_kb kid db) \<and> db' = update_kb kid f db) \<or> (res = Inr False \<and> \<not> guard (find_kb kid db) \<and> db' = db)"
  using assms by (auto simp: gen_transition_def get_kb_def op_simps split: if_splits)

section \<open>The state service refines the lifecycle\<close>

fun ready :: "GenCall \<Rightarrow> KbRow \<Rightarrow> bool" where
  "ready (G_Create u c) r = (kb_vector_status r = ST_COMPLETED)"
| "ready (G_Touch t n) r = is_stale (kb_gen_updated_at r) n"
| "ready (G_Recover t n) r = is_stale (kb_gen_updated_at r) n"
| "ready _ r = True"

definition refines_at :: "int \<Rightarrow> GenCall \<Rightarrow> KbDb \<Rightarrow> bool result \<Rightarrow> KbDb \<Rightarrow> bool" where
  "refines_at kid c db res db' \<longleftrightarrow> gen_db_ok db' \<and>
     (if res = Inr True then accepted_as kid c db db' else db' = db) \<and>
     (res = Inr True \<longleftrightarrow> (\<exists>r. find_kb kid db = Some r \<and> life_next c (phase_of r) \<noteq> None \<and> ready c r))"

lemma transition_refines:
  assumes "gen_db_ok db" "gen_transition kid guard f db = (res, db')" "\<not> guard None"
    "\<And>r. gen_row_ok r \<Longrightarrow> guard (Some r) \<longleftrightarrow> life_next c (phase_of r) \<noteq> None \<and> ready c r"
    "\<And>r. kb_id (f r) = kb_id r"
    "\<And>r. gen_row_ok r \<Longrightarrow> guard (Some r) \<Longrightarrow> life_next c (phase_of r) = Some (phase_of (f r)) \<and> gen_row_ok (f r)"
    "\<And>b. bank_after c b = b"
  shows "refines_at kid c db res db'"
proof (cases "find_kb kid db")
  case None
  with gen_transition_run [OF assms(2)] assms(1,3) show ?thesis by (auto simp: refines_at_def)
next
  case (Some r)
  then have ok: "gen_row_ok r" using find_kb_Some [OF Some] assms(1) by (auto simp: gen_db_ok_def)
  show ?thesis
  proof (cases "guard (Some r)")
    case True
    with gen_transition_run [OF assms(2)] Some have run: "res = Inr True" "db' = update_kb kid f db" by auto
    have "gen_db_ok db'"
      unfolding run(2) using assms(6) [OF ok True] kb_row_unique [OF assms(1) Some]
      by (intro update_kb_ok [OF assms(1,5)]) auto
    moreover have "accepted_as kid c db db'"
      unfolding run(2) using assms(6) [OF ok True] by (intro update_kb_accepted [OF Some assms(5)] assms(7)) auto
    ultimately show ?thesis using run(1) True Some assms(4) [OF ok] by (auto simp: refines_at_def)
  next
    case False
    with gen_transition_run [OF assms(2)] Some have "res = Inr False" "db' = db" by auto
    then show ?thesis using False Some assms(1) assms(4) [OF ok] by (auto simp: refines_at_def)
  qed
qed

lemma create_refines:
  assumes "gen_db_ok db" "op_then (create_task env u kid cf now) (op_return True) db = (res, db')"
  shows "refines_at kid (G_Create u cf) db res db'"
proof (cases "find_kb kid db")
  case None
  with assms show ?thesis by (auto simp: refines_at_def create_task_def get_kb_def op_simps)
next
  case (Some r)
  then have ok: "gen_row_ok r" using find_kb_Some [OF Some] assms(1) by (auto simp: gen_db_ok_def)
  have active: "kb_gen_status r \<in> set ACTIVE_STATUSES \<longleftrightarrow> life_next (G_Create u cf) (phase_of r) = None"
    using ok by (auto simp: gen_row_ok_def phase_of_def ACTIVE_STATUSES_def)
  let ?r = "r\<lparr>kb_gen_task_id := Some u, kb_gen_status := ST_QUEUED,
                 kb_gen_config := Some (ge_dump_config env cf), kb_gen_error := None, kb_gen_message := None,
                 kb_gen_saved_count := 0, kb_gen_skipped_count := 0, kb_gen_updated_at := Some now\<rparr>"
  show ?thesis
  proof (cases "kb_vector_status r = ST_COMPLETED \<and> kb_gen_status r \<notin> set ACTIVE_STATUSES")
    case True
    with assms(2) Some have run: "res = Inr True" "db' = update_kb kid (\<lambda>_. ?r) db"
      by (auto simp: create_task_def get_kb_def op_simps Let_def)
    have id: "kb_id ?r = kid" using find_kb_Some [OF Some] by simp
    have same: "update_kb kid (\<lambda>_. ?r) db = update_kb kid (\<lambda>x. ?r\<lparr>kb_id := kb_id x\<rparr>) db"
      using id by (auto simp: update_kb_def intro!: map_cong)
    have ph: "phase_of ?r = Queued u" "gen_row_ok ?r" by (simp_all add: phase_of_def gen_row_ok_def)
    have row: "gen_row_ok (?r\<lparr>kb_id := i\<rparr>)" "phase_of (?r\<lparr>kb_id := i\<rparr>) = Queued u" for i
      by (simp_all add: phase_of_def gen_row_ok_def)
    have "gen_db_ok db'" unfolding run(2) same by (rule update_kb_ok [OF assms(1)]) (simp_all add: row)
    moreover have "accepted_as kid (G_Create u cf) db db'"
      unfolding run(2) same
      by (rule update_kb_accepted [OF Some]) (use True active row ph(1) in \<open>auto split: GenPhase.splits\<close>)
    ultimately show ?thesis using run(1) True active Some by (auto simp: refines_at_def)
  next
    case False
    with assms(2) Some have "res \<noteq> Inr True \<and> db' = db"
      by (auto simp: create_task_def get_kb_def op_simps split: if_splits)
    then show ?thesis using False active Some assms(1) by (auto simp: refines_at_def)
  qed
qed

lemma replace_refines:
  assumes "gen_db_ok db" "\<forall>q \<in> set qs. kq_kb_id q = kid"
    "replace_questions_and_complete kid t qs n now db = (res, db')"
  shows "refines_at kid (G_Replace t qs n) db res db'"
proof (cases "find_kb kid db")
  case None
  with assms show ?thesis
    by (auto simp: refines_at_def replace_questions_and_complete_def get_kb_def op_simps kb_matches_def)
next
  case (Some r)
  then have ok: "gen_row_ok r" using find_kb_Some [OF Some] assms(1) by (auto simp: gen_db_ok_def)
  show ?thesis
  proof (cases "phase_of r = Processing t")
    case False
    then have "\<not> kb_matches (Some r) t ST_PROCESSING" using kb_matches_phase(2) [OF ok] by simp
    with assms(3) Some have "res = Inr False" "db' = db"
      by (auto simp: replace_questions_and_complete_def get_kb_def op_simps)
    then show ?thesis using False Some assms(1) by (auto simp: refines_at_def)
  next
    case True
    then have m: "kb_matches (Some r) t ST_PROCESSING" using kb_matches_phase(2) [OF ok] by simp
    let ?f = "\<lambda>r. r\<lparr>kb_gen_status := ST_COMPLETED, kb_gen_error := None,
            kb_gen_message := Some (saved_message (int (length qs)) n),
            kb_gen_saved_count := int (length qs), kb_gen_skipped_count := n, kb_gen_updated_at := Some now\<rparr>"
    let ?c = "db\<lparr>db_bank := filter (\<lambda>q. kq_kb_id q \<noteq> kid) (db_bank db)\<rparr>"
    from assms(3) Some m have run: "res = Inr True" "db' = update_kb kid ?f (save_all now qs ?c)"
      by (auto simp: replace_questions_and_complete_def get_kb_def op_simps)
    have c: "gen_db_ok ?c" using assms(1) by (auto simp: gen_db_ok_def distinct_map_filter)
    have tid: "kb_gen_task_id r = Some t" using m by (simp add: kb_matches_def)
    have kbs: "find_kb j (save_all now qs ?c) = find_kb j db" for j by (simp add: find_kb_def)
    have fok: "gen_row_ok (?f r)" "phase_of (?f r) = Completed t" using tid by (simp_all add: gen_row_ok_def phase_of_def)
    have ok': "gen_db_ok db'"
      unfolding run(2) using kb_row_unique [OF assms(1) Some] fok(1)
      by (intro update_kb_ok [OF save_all_ok [OF c]]) auto
    have st: "kq_kb_id (stored q) = kq_kb_id q" for q by (simp add: stored_def)
    have bank: "bank_rows j db' = map stored (filter (\<lambda>q. kq_kb_id q = j) (filter (\<lambda>q. kq_kb_id q \<noteq> kid) (db_bank db) @ qs))" for j
    proof -
      have fm: "map stored (filter (\<lambda>q. kq_kb_id q = j) xs) = filter (\<lambda>q. kq_kb_id q = j) (map stored xs)" for xs
        by (induction xs) (simp_all add: st)
      have "bank_rows j db' = filter (\<lambda>q. kq_kb_id q = j) (map stored (db_bank (save_all now qs ?c)))"
        by (simp add: bank_rows_def run(2) fm)
      also have "\<dots> = filter (\<lambda>q. kq_kb_id q = j) (map stored (filter (\<lambda>q. kq_kb_id q \<noteq> kid) (db_bank db) @ qs))"
        by (simp add: save_all_bank)
      finally show ?thesis by (simp only: fm)
    qed
    have "bank_rows kid db' = map stored qs"
      using assms(2) by (simp add: bank filter_False)
    moreover have "bank_rows j db' = bank_rows j db" if "j \<noteq> kid" for j
    proof -
      have "filter (\<lambda>q. kq_kb_id q = j) qs = []" using assms(2) that by (auto simp: filter_empty_conv)
      moreover have "filter (\<lambda>q. kq_kb_id q = j) (filter (\<lambda>q. kq_kb_id q \<noteq> kid) (db_bank db)) = filter (\<lambda>q. kq_kb_id q = j) (db_bank db)"
        using that by (auto simp: filter_filter intro!: filter_cong)
      ultimately show ?thesis unfolding bank [of j] by (simp add: bank_rows_def)
    qed
    ultimately have "accepted_as kid (G_Replace t qs n) db db'"
      using Some True fok(2) by (auto simp: accepted_as_def run(2) find_kb_update kbs)
    then show ?thesis using run(1) ok' Some True by (auto simp: refines_at_def)
  qed
qed

lemma run_call_refines:
  assumes "gen_db_ok db" "valid_call kid c" "run_call env kid c now db = (res, db')"
  shows "refines_at kid c db res db'"
proof (cases c)
  case (G_Create u cf)
  with assms create_refines show ?thesis by auto
next
  case (G_Replace t qs n)
  with assms replace_refines show ?thesis by (auto simp: valid_call_def)
next
  case (G_Claim t)
  show ?thesis unfolding G_Claim
    by (rule transition_refines [OF assms(1)], use assms(3) G_Claim in \<open>simp add: try_mark_processing_def\<close>)
      (auto simp: kb_matches_phase(1) kb_matches_def phase_of_def gen_row_ok_def)
next
  case (G_Release t)
  show ?thesis unfolding G_Release
    by (rule transition_refines [OF assms(1)], use assms(3) G_Release in \<open>simp add: reset_for_retry_def\<close>)
      (auto simp: kb_matches_phase(2) kb_matches_def phase_of_def gen_row_ok_def)
next
  case (G_Fail t)
  show ?thesis unfolding G_Fail
    by (rule transition_refines [OF assms(1)], use assms(3) G_Fail in \<open>simp add: mark_gen_failed_def\<close>)
      (auto simp: kb_matches_phase(3) phase_of_def gen_row_ok_def)
next
  case (G_Touch t n)
  show ?thesis unfolding G_Touch
    by (rule transition_refines [OF assms(1)], use assms(3) G_Touch in \<open>simp add: touch_queued_for_recovery_def\<close>)
      (auto simp: kb_matches_phase(1) kb_matches_def phase_of_def gen_row_ok_def)
next
  case (G_Recover t n)
  show ?thesis unfolding G_Recover
    by (rule transition_refines [OF assms(1)], use assms(3) G_Recover in \<open>simp add: reset_stale_processing_def\<close>)
      (auto simp: kb_matches_phase(2) kb_matches_def phase_of_def gen_row_ok_def)
qed

text \<open>
  C4. The sessions of the generation state service refine the task lifecycle. Each of them is
  either refused and then changes nothing, or it takes the one transition of the lifecycle
  for its task, and it is accepted exactly when the lifecycle allows it (and the documents
  are vectorised, or the task is stale, where the call asks for that). Only storing a result
  touches the question bank, which it replaces as a whole; other knowledge bases never change.
\<close>
theorem generation_refines_lifecycle:
  assumes "gen_db_ok db" "valid_call kid c" "run_call env kid c now db = (res, db')"
  shows "(if res = Inr True then accepted_as kid c db db' else db' = db)
    \<and> (res = Inr True \<longleftrightarrow> (\<exists>r. find_kb kid db = Some r \<and> life_next c (phase_of r) \<noteq> None \<and> ready c r))
    \<and> gen_db_ok db'"
  using run_call_refines [OF assms] by (simp add: refines_at_def)

section \<open>Results are stored at most once\<close>

text \<open>
  Any interleaving of workers, retries, recovery runs and submissions on one knowledge base
  is a sequence of these sessions, each at its time.
\<close>

fun accepted_calls :: "GenEnv \<Rightarrow> int \<Rightarrow> (int \<times> GenCall) list \<Rightarrow> KbDb \<Rightarrow> GenCall list \<times> KbDb" where
  "accepted_calls env kid [] db = ([], db)"
| "accepted_calls env kid ((now, c) # cs) db =
     (case run_call env kid c now db of (res, db') \<Rightarrow>
        (case accepted_calls env kid cs db' of (took, db'') \<Rightarrow> (if res = Inr True then c # took else took, db'')))"

fun life_run :: "GenCall list \<Rightarrow> GenPhase \<Rightarrow> GenPhase option" where
  "life_run [] p = Some p"
| "life_run (c # cs) p = (case life_next c p of None \<Rightarrow> None | Some p' \<Rightarrow> life_run cs p')"

fun created_task :: "GenCall \<Rightarrow> pystr list" where
  "created_task (G_Create u c) = [u]"
| "created_task _ = []"

fun stored_task :: "GenCall \<Rightarrow> pystr list" where
  "stored_task (G_Replace t qs n) = [t]"
| "stored_task _ = []"

fun task_of :: "GenPhase \<Rightarrow> pystr option" where
  "task_of Idle = None"
| "task_of (Queued t) = Some t"
| "task_of (Processing t) = Some t"
| "task_of (Completed t) = Some t"
| "task_of (Failed t) = Some t"

fun created_tasks :: "GenCall list \<Rightarrow> pystr list" where
  "created_tasks [] = []"
| "created_tasks (c # cs) = created_task c @ created_tasks cs"

fun stored_tasks :: "GenCall list \<Rightarrow> pystr list" where
  "stored_tasks [] = []"
| "stored_tasks (c # cs) = stored_task c @ stored_tasks cs"

lemma life_next_task:
  "life_next c p = Some p' \<Longrightarrow> task_of p' = (case created_task c of [] \<Rightarrow> task_of p | u # _ \<Rightarrow> Some u)"
  by (cases c; cases p) (auto split: if_splits)

lemma never_current:
  "life_run cs p \<noteq> None \<Longrightarrow> task_of p \<noteq> Some t \<Longrightarrow> t \<notin> set (created_tasks cs) \<Longrightarrow> t \<notin> set (stored_tasks cs)"
proof (induction cs arbitrary: p)
  case (Cons c cs)
  then obtain p' where p': "life_next c p = Some p'" "life_run cs p' \<noteq> None" by (auto split: option.splits)
  have "task_of p' \<noteq> Some t"
    using life_next_task [OF p'(1)] Cons.prems(2,3) by (cases c) auto
  with Cons.IH [OF p'(2)] Cons.prems(3) have "t \<notin> set (stored_tasks cs)" by simp
  moreover have "t \<notin> set (stored_task c)" using p'(1) Cons.prems(2) by (cases c) (auto split: if_splits)
  ultimately show ?case by simp
qed simp

lemma after_completion:
  assumes "life_run cs (Completed t) \<noteq> None" "t \<notin> set (created_tasks cs)"
  shows "t \<notin> set (stored_tasks cs)"
proof (cases cs)
  case (Cons c cs')
  with assms obtain p' where p': "life_next c (Completed t) = Some p'" "life_run cs' p' \<noteq> None" by (auto split: option.splits)
  then obtain u cf where c: "c = G_Create u cf" "p' = Queued u" by (cases c) (auto split: if_splits)
  with never_current [OF p'(2)] assms(2) Cons show ?thesis by auto
qed simp

lemma stored_once:
  "life_run cs p \<noteq> None \<Longrightarrow> distinct (created_tasks cs) \<Longrightarrow> (\<forall>t. task_of p = Some t \<longrightarrow> t \<notin> set (created_tasks cs))
     \<Longrightarrow> distinct (stored_tasks cs)"
proof (induction cs arbitrary: p)
  case (Cons c cs)
  then obtain p' where p': "life_next c p = Some p'" "life_run cs p' \<noteq> None" by (auto split: option.splits)
  have "\<forall>t. task_of p' = Some t \<longrightarrow> t \<notin> set (created_tasks cs)"
    using life_next_task [OF p'(1)] Cons.prems(2,3) by (cases c) auto
  then have d: "distinct (stored_tasks cs)" using Cons.IH [OF p'(2)] Cons.prems(2) by simp
  show ?case
  proof (cases c)
    case (G_Replace t qs n)
    then have "p = Processing t" "p' = Completed t" using p'(1) by (auto split: if_splits)
    with after_completion [of cs t] p'(2) Cons.prems(3) G_Replace d show ?thesis by auto
  qed (use d in auto)
qed simp

lemma accepted_calls_run:
  assumes "gen_db_ok db" "\<forall>(now, c) \<in> set cs. valid_call kid c" "find_kb kid db = Some r"
    "accepted_calls env kid cs db = (took, db')"
  shows "\<exists>r'. find_kb kid db' = Some r' \<and> life_run took (phase_of r) = Some (phase_of r')
    \<and> bank_rows kid db' = fold bank_after took (bank_rows kid db) \<and> set (created_tasks took) \<subseteq> set (created_tasks (map snd cs))
    \<and> (distinct (created_tasks (map snd cs)) \<longrightarrow> distinct (created_tasks took)) \<and> gen_db_ok db'"
  using assms
proof (induction cs arbitrary: db r took)
  case (Cons x cs)
  obtain now c where x: "x = (now, c)" by fastforce
  obtain res db1 where run: "run_call env kid c now db = (res, db1)" by fastforce
  obtain took1 where rest: "accepted_calls env kid cs db1 = (took1, db')" "took = (if res = Inr True then c # took1 else took1)"
    using Cons.prems(4) by (auto simp: x run split: prod.splits)
  have ref: "refines_at kid c db res db1" using run_call_refines [OF Cons.prems(1) _ run] Cons.prems(2) by (simp add: x)
  show ?case
  proof (cases "res = Inr True")
    case True
    then obtain r1 where r1: "find_kb kid db1 = Some r1" "life_next c (phase_of r) = Some (phase_of r1)"
      "bank_rows kid db1 = bank_after c (bank_rows kid db)"
      using ref Cons.prems(3) by (auto simp: refines_at_def accepted_as_def)
    from Cons.IH [OF _ _ r1(1) rest(1)] ref Cons.prems(2) r1 rest(2) True show ?thesis
      by (auto simp: x refines_at_def)
  next
    case False
    then have "db1 = db" using ref by (simp add: refines_at_def)
    with Cons.IH [OF Cons.prems(1) _ Cons.prems(3)] rest Cons.prems(2) False show ?thesis by (fastforce simp: x)
  qed
qed simp

text \<open>
  C3. However submissions, duplicate deliveries, retries, recovery runs and late workers
  interleave, the result of a generation task is stored at most once, and the question bank
  is always the result stored last: a late worker of a replaced or completed task changes
  nothing (task identifiers are fresh, as \<open>uuid4\<close> makes them).
\<close>
theorem generation_result_stored_once:
  assumes "gen_db_ok db" "\<forall>(now, c) \<in> set cs. valid_call kid c" "find_kb kid db = Some r"
    "distinct (created_tasks (map snd cs))" "\<forall>t. kb_gen_task_id r = Some t \<longrightarrow> t \<notin> set (created_tasks (map snd cs))"
    "accepted_calls env kid cs db = (took, db')"
  shows "distinct (stored_tasks took) \<and> bank_rows kid db' = fold bank_after took (bank_rows kid db)"
proof -
  obtain r' where r': "life_run took (phase_of r) = Some (phase_of r')" "bank_rows kid db' = fold bank_after took (bank_rows kid db)"
    "set (created_tasks took) \<subseteq> set (created_tasks (map snd cs))" "distinct (created_tasks took)"
    using accepted_calls_run [OF assms(1-3,6)] assms(4) by blast
  have "task_of (phase_of r) = kb_gen_task_id r" by (simp add: phase_of_def split: option.split)
  then have "distinct (stored_tasks took)"
    using assms(5) r' by (intro stored_once [of took "phase_of r"]) (auto dest: subsetD)
  with r'(2) show ?thesis by simp
qed

definition sample_kb :: KbRow where
  "sample_kb = \<lparr>kb_id = 1, kb_name = None, kb_category = None, kb_chunk_count = 0, kb_access_count = 0,
     kb_question_count = 0, kb_vector_status = ST_COMPLETED, kb_vector_error = None, kb_gen_status = ST_QUEUED,
     kb_gen_error = None, kb_gen_task_id = Some [7], kb_gen_config = None, kb_gen_message = None,
     kb_gen_saved_count = 0, kb_gen_skipped_count = 0, kb_gen_updated_at = None, kb_uploaded_at = 0,
     kb_last_accessed_at = None\<rparr>"

definition sample_db :: KbDb where
  "sample_db = \<lparr>db_kbs = [sample_kb], db_docs = [], db_bank = [], db_vectors = [], db_fresh = 2\<rparr>"

definition sample_gen_env :: GenEnv where
  "sample_gen_env = \<lparr>ge_dump_config = (\<lambda>c. []), ge_validate_config = (\<lambda>j. None), ge_hits = (\<lambda>k q. Inr []),
     ge_resolve = (\<lambda>p. Inr ()), ge_llm = (\<lambda>p. Inr []), ge_exc_str = (\<lambda>e. []), ge_nfc = (\<lambda>s. s), ge_lower = (\<lambda>s. s),
     ge_isalnum = (\<lambda>c. True)\<rparr>"

lemma sample_db_facts:
  "gen_db_ok sample_db" "find_kb 1 sample_db = Some sample_kb" "kb_gen_task_id sample_kb = Some [7]"
  by (simp_all add: sample_db_def sample_kb_def gen_db_ok_def gen_row_ok_def find_kb_def)

lemmas call_evals = try_mark_processing_def replace_questions_and_complete_def gen_transition_def get_kb_def op_simps
  kb_matches_def find_kb_def update_kb_def sample_db_def sample_kb_def

lemma generation_refines_lifecycle_witness:
  "\<exists>db'. run_call sample_gen_env 1 (G_Claim [7]) 5 sample_db = (Inr True, db') \<and> accepted_as 1 (G_Claim [7]) sample_db db'"
proof -
  obtain db' where run: "run_call sample_gen_env 1 (G_Claim [7]) 5 sample_db = (Inr True, db')"
    by (simp add: call_evals)
  have "valid_call 1 (G_Claim [7])" by (simp add: valid_call_def)
  from generation_refines_lifecycle [OF sample_db_facts(1) this run] run show ?thesis by simp
qed

lemma generation_result_stored_once_witness:
  "\<exists>db'. accepted_calls sample_gen_env 1 [(5, G_Claim [7]), (6, G_Replace [7] [] 0), (7, G_Replace [7] [] 0)] sample_db
       = ([G_Claim [7], G_Replace [7] [] 0], db')
     \<and> distinct (stored_tasks [G_Claim [7], G_Replace [7] [] 0])"
proof -
  let ?cs = "[(5, G_Claim [7]), (6, G_Replace [7] [] 0), (7, G_Replace [7] [] 0)]"
  obtain db' where run: "accepted_calls sample_gen_env 1 ?cs sample_db = ([G_Claim [7], G_Replace [7] [] 0], db')"
    by (simp add: call_evals)
  have "\<forall>(now, c) \<in> set ?cs. valid_call 1 c" by (simp add: valid_call_def)
  from generation_result_stored_once [OF sample_db_facts(1) this sample_db_facts(2) _ _ run] run show ?thesis by simp
qed

section \<open>A delivered task is never stuck\<close>

lemma in_session_run:
  "in_session m w = (case m (kw_now w) (kw_db w) of (Inl e, _) \<Rightarrow> (Inl e, w) | (Inr x, db) \<Rightarrow> (Inr x, w\<lparr>kw_db := db\<rparr>))"
  by (simp add: in_session_def)

lemma db_read_run [simp]: "db_read f w = (Inr (f (kw_db w)), w)"
  by (simp add: db_read_def in_session_def op_simps)

lemma entities_kb: "fst (build_entities key_of kb d ctx n h keys qs) = es \<Longrightarrow> q \<in> set es \<Longrightarrow> kq_kb_id q = kb_id kb"
  by (induction key_of kb d ctx n h keys qs arbitrary: es rule: build_entities.induct)
    (auto simp: Let_def split: prod.splits if_splits)

text \<open>A worker of the current task raises and changes nothing, or completes the task.\<close>

lemma db_read_bind: "triple (\<lambda>x. x = w) (f (g (kw_db w))) Q E \<Longrightarrow> triple (\<lambda>x. x = w) (op_bind (db_read g) f) Q E"
  by (simp add: triple_def op_simps)

definition completes :: "int \<Rightarrow> pystr \<Rightarrow> KbWorld \<Rightarrow> KbWorld \<Rightarrow> bool" where
  "completes kid t w w' \<longleftrightarrow> (\<exists>db' r'. w' = w\<lparr>kw_db := db'\<rparr> \<and> gen_db_ok db' \<and> find_kb kid db' = Some r' \<and> phase_of r' = Completed t)"

lemma replace_completes:
  assumes "gen_db_ok (kw_db w)" "find_kb kid (kw_db w) = Some r" "phase_of r = Processing t" "\<forall>q \<in> set qs. kq_kb_id q = kid"
  shows "triple (\<lambda>x. x = w) (op_bind (in_session (replace_questions_and_complete kid t qs n)) (\<lambda>_. op_return ()))
    (\<lambda>_. completes kid t w) (\<lambda>x. x = w)"
proof -
  obtain res db' where run: "replace_questions_and_complete kid t qs n (kw_now w) (kw_db w) = (res, db')" by fastforce
  from replace_refines [OF assms(1,4) run] assms(2,3)
  have "res = Inr True" "gen_db_ok db'" "\<exists>r'. find_kb kid db' = Some r' \<and> phase_of r' = Completed t"
    by (auto simp: refines_at_def accepted_as_def)
  then show ?thesis by (auto simp: triple_def op_simps in_session_run run completes_def)
qed

lemma execute_generation_outcome:
  assumes "gen_db_ok (kw_db w)" "find_kb kid (kw_db w) = Some r" "phase_of r = Processing t"
  shows "triple (\<lambda>x. x = w) (execute_generation env kid t config) (\<lambda>_. completes kid t w) (\<lambda>x. x = w)"
proof -
  have task: "kb_gen_task_id r = Some t" using assms(3) by (auto simp: phase_of_def split: option.splits if_splits)
  have kid: "kb_id r = kid" using find_kb_Some [OF assms(2)] by simp
  have store: "triple (\<lambda>x. x = w) (case build_entities key_of r d ctx m h [] qs of (entities, skipped) \<Rightarrow>
      if entities = [] then op_raise e else op_bind (in_session (replace_questions_and_complete kid t entities skipped)) (\<lambda>_. op_return ()))
      (\<lambda>_. completes kid t w) (\<lambda>x. x = w)" for key_of d ctx m h qs e
  proof -
    obtain es k where b: "build_entities key_of r d ctx m h [] qs = (es, k)" by fastforce
    have "\<forall>q \<in> set es. kq_kb_id q = kid" using entities_kb [of key_of r d ctx m h "[]" qs es] b kid by simp
    from replace_completes [OF assms this] show ?thesis by (auto simp: b intro: triple_raise)
  qed
  show ?thesis
    unfolding execute_generation_def Let_def
    by (rule db_read_bind, simp only: assms(2) option.case task not_True_eq_False if_False simp_thms,
        rule db_read_bind, rule lift_bind, assumption, rule db_read_bind, rule triple_then [where M = "\<lambda>x. x = w"],
        intro triple_option triple_return, assumption, unfold op_when_def,
        intro triple_if triple_return triple_lift, assumption+, rule lift_bind, assumption,
        rule triple_if, rule triple_raise, assumption, rule db_read_bind, rule store)
qed

definition in_phase :: "int \<Rightarrow> GenPhase \<Rightarrow> KbWorld \<Rightarrow> bool" where
  "in_phase kid p w \<longleftrightarrow> gen_db_ok (kw_db w) \<and> (\<exists>r. find_kb kid (kw_db w) = Some r \<and> phase_of r = p)"

lemma in_phase_db: "kw_db w' = kw_db w \<Longrightarrow> in_phase kid p w' = in_phase kid p w"
  by (simp add: in_phase_def)

lemma call_phase:
  assumes "life_next c p = Some p'" "\<And>r. ready c r" "valid_call kid c" "\<And>now. run_call env kid c now = m now"
  shows "triple (in_phase kid p) (in_session m) (\<lambda>ok w. ok \<and> in_phase kid p' w) E"
proof (rule triple_at)
  fix w assume w: "in_phase kid p w"
  obtain res db' where run: "run_call env kid c (kw_now w) (kw_db w) = (res, db')" by fastforce
  with w run_call_refines [OF _ assms(3) run] assms(1,2) have out: "res = Inr True \<and> in_phase kid p' (w\<lparr>kw_db := db'\<rparr>)"
    by (auto simp: refines_at_def accepted_as_def in_phase_def)
  from run have "m (kw_now w) (kw_db w) = (res, db')" by (simp add: assms(4))
  with out show "triple (\<lambda>x. x = w) (in_session m) (\<lambda>ok w. ok \<and> in_phase kid p' w) E"
    by (simp add: triple_def in_session_run)
qed

lemma kb_xadd_outcome:
  "triple (\<lambda>x. x = w) (kb_xadd stream msg)
     (\<lambda>_ x. kw_db x = kw_db w \<and> msg \<in> set (kw_streams x stream)) (\<lambda>x. kw_db x = kw_db w)"
  by (auto simp: triple_def kb_xadd_def split: list.split bool.split)

lemma get_config_same: "snd (in_session (get_config env kid t) w) = w"
  by (auto simp: in_session_run get_config_def get_kb_def op_simps split: option.split)

lemma execute_generation_phase:
  "triple (in_phase kid (Processing t)) (execute_generation env kid t config)
     (\<lambda>_. in_phase kid (Completed t)) (in_phase kid (Processing t))"
proof (rule triple_at)
  fix w assume w: "in_phase kid (Processing t) w"
  then obtain r where r: "gen_db_ok (kw_db w)" "find_kb kid (kw_db w) = Some r" "phase_of r = Processing t"
    by (auto simp: in_phase_def)
  show "triple (\<lambda>x. x = w) (execute_generation env kid t config)
      (\<lambda>_. in_phase kid (Completed t)) (in_phase kid (Processing t))"
    by (rule triple_weaken [OF execute_generation_outcome [OF r]]) (use w in \<open>auto simp: completes_def in_phase_def\<close>)
qed

lemma business_phase:
  "triple (in_phase (qp_kb_id p) (Processing (qp_task_id p))) (gen_process_business env p)
     (\<lambda>_. in_phase (qp_kb_id p) (Completed (qp_task_id p))) (in_phase (qp_kb_id p) (Processing (qp_task_id p)))"
  unfolding gen_process_business_def
  by (rule triple_bind [OF triple_same execute_generation_phase]) (rule get_config_same)

text \<open>Where a delivery leaves its task.\<close>

definition delivered :: "int \<Rightarrow> pystr \<Rightarrow> int \<Rightarrow> KbWorld \<Rightarrow> bool" where
  "delivered kid t n w \<longleftrightarrow> in_phase kid (Completed t) w \<or> in_phase kid (Failed t) w
     \<or> (in_phase kid (Queued t) w \<and> n < MAX_RETRY_COUNT \<and>
        question_gen_message \<lparr>qp_kb_id = kid, qp_task_id = t, qp_retry_count = n + 1\<rparr> \<in> set (kw_streams w KB_QUESTION_GEN_STREAM))"

lemma fail_in_session:
  assumes "p \<in> {Queued t, Processing t, Failed t}"
  shows "triple (in_phase kid p) (in_session (mark_gen_failed kid t)) (\<lambda>ok w. ok \<and> in_phase kid (Failed t) w) E"
  by (rule call_phase [where c = "G_Fail t" and env = undefined]) (use assms in \<open>auto simp: valid_call_def\<close>)

lemma send_failed_phase:
  "triple (in_phase kid (Queued t)) (gen_send_failed kid t err) (\<lambda>_. in_phase kid (Failed t)) E"
  unfolding gen_send_failed_def
  by (rule triple_try [where M = "\<lambda>_. False"], rule triple_bind [OF fail_in_session])
    (auto intro: triple_return triple_False)

lemma send_phase:
  "triple (in_phase kid (Queued t)) (send_question_gen env \<lparr>qp_kb_id = kid, qp_task_id = t, qp_retry_count = n\<rparr>)
     (\<lambda>_ w. in_phase kid (Failed t) w \<or> in_phase kid (Queued t) w \<and>
        question_gen_message \<lparr>qp_kb_id = kid, qp_task_id = t, qp_retry_count = n\<rparr> \<in> set (kw_streams w KB_QUESTION_GEN_STREAM)) E"
  (is "triple ?P (send_question_gen env ?p) ?Q E")
proof -
  have "triple ?P (kb_xadd KB_QUESTION_GEN_STREAM (question_gen_message ?p)) (\<lambda>_. ?Q True) ?P"
  proof (rule triple_at)
    fix w assume "?P w"
    then show "triple (\<lambda>x. x = w) (kb_xadd KB_QUESTION_GEN_STREAM (question_gen_message ?p)) (\<lambda>_. ?Q True) ?P"
      by (intro triple_weaken [OF kb_xadd_outcome [of w]]) (auto simp: in_phase_def)
  qed
  then show ?thesis
    unfolding send_question_gen_def kb_send_task_def QuestionGenPayload.select_convs
    by (intro triple_try [where M = ?P] triple_then [OF _ triple_return] triple_then [OF send_failed_phase triple_return]) auto
qed

lemma retry_phase:
  assumes "n < MAX_RETRY_COUNT"
  shows "triple (in_phase (qp_kb_id p) (Processing (qp_task_id p))) (gen_retry_message env p (n + 1))
    (\<lambda>_. delivered (qp_kb_id p) (qp_task_id p) n) E"
proof -
  have "triple (in_phase (qp_kb_id p) (Processing (qp_task_id p))) (in_session (reset_for_retry (qp_kb_id p) (qp_task_id p)))
      (\<lambda>ok w. ok \<and> in_phase (qp_kb_id p) (Queued (qp_task_id p)) w) E"
    by (rule call_phase [where c = "G_Release (qp_task_id p)" and env = undefined]) (simp_all add: valid_call_def)
  then show ?thesis
    unfolding gen_retry_message_def
    by (rule triple_bind)
      (auto intro!: triple_conjI triple_bind [OF send_phase] triple_return simp: delivered_def assms)
qed

text \<open>Acknowledging changes neither the database nor the streams.\<close>

definition keeps_data :: "(KbWorld \<Rightarrow> bool) \<Rightarrow> bool" where
  "keeps_data P \<longleftrightarrow> (\<forall>w fs. P w \<longrightarrow> P (w\<lparr>kw_faults := fs\<rparr>))"

lemma kept_phases [simp]: "keeps_data (in_phase kid p)" "keeps_data (delivered kid t n)"
  by (auto simp: keeps_data_def delivered_def in_phase_def)

lemma gen_ack_triple: "keeps_data P \<Longrightarrow> triple P (ack (gen_handlers env)) (\<lambda>_. P) E"
  by (auto simp: triple_def keeps_data_def ack_def gen_handlers_def kb_xack_def op_simps split: list.split bool.split)

lemma gen_handle_payload:
  assumes "kid = qp_kb_id p" "t = qp_task_id p"
  shows "triple (in_phase kid (Queued t)) (handle_payload (gen_handlers env) exc_str n p) (\<lambda>_. delivered kid t n) (\<lambda>_. False)"
proof -
  let ?h = "gen_handlers env"
  have claim: "triple (in_phase kid (Queued t)) (h_try_mark_processing ?h p) (\<lambda>ok w. ok \<and> in_phase kid (Processing t) w) E" for E
    unfolding gen_handlers_def assms StreamHandlers.select_convs
    by (rule call_phase [where c = "G_Claim (qp_task_id p)" and env = undefined]) (simp_all add: valid_call_def)
  have business: "triple (in_phase kid (Processing t)) (op_then (h_process_business ?h p) (op_then (h_mark_completed ?h p) (ack ?h)))
      (\<lambda>_. delivered kid t n) (in_phase kid (Processing t))"
    by (rule triple_then [where M = "in_phase kid (Completed t)"],
        use business_phase [of p env] in \<open>simp add: assms gen_handlers_def\<close>,
        rule triple_then [where M = "in_phase kid (Completed t)"],
        simp add: gen_handlers_def, rule triple_return, assumption,
        rule triple_weaken [OF gen_ack_triple [OF kept_phases(1) [of kid "Completed t"]]]) (auto simp: delivered_def)
  have give_up: "triple (in_phase kid (Processing t)) (h_mark_failed ?h p err) (\<lambda>_. delivered kid t n) E" for err E
    unfolding gen_handlers_def assms StreamHandlers.select_convs
    by (rule triple_bind [OF fail_in_session]) (auto intro: triple_return simp: delivered_def)
  have again: "triple (in_phase kid (Processing t)) (h_retry_message ?h p (n + 1)) (\<lambda>_. delivered kid t n) E"
    if "n < MAX_RETRY_COUNT" for E
    using retry_phase [OF that, of p env E] by (simp add: gen_handlers_def assms)
  show ?thesis
    unfolding handle_payload_def
  proof (rule triple_try [where M = "in_phase kid (Processing t)"])
    show "triple (in_phase kid (Queued t)) (if h_should_skip ?h p then ack ?h
        else op_bind (h_try_mark_processing ?h p) (\<lambda>claimed. if \<not> claimed then ack ?h
          else op_then (h_process_business ?h p) (op_then (h_mark_completed ?h p) (ack ?h))))
        (\<lambda>_. delivered kid t n) (in_phase kid (Processing t))"
      by (rule triple_if, simp add: gen_handlers_def, rule triple_bind [OF claim], rule triple_conjI, simp add: business)
    show "triple (in_phase kid (Processing t)) (op_then (if n < MAX_RETRY_COUNT then h_retry_message ?h p (n + 1)
        else h_mark_failed ?h p (exc_str e)) (ack ?h)) (\<lambda>_. delivered kid t n) (\<lambda>_. False)" for e
      by (rule triple_then [where M = "delivered kid t n"], rule triple_if) (auto intro: again give_up gen_ack_triple)
  qed
qed

lemma gen_message_parse [simp]:
  "parse_gen_payload (question_gen_message p) = Inr (Some (p\<lparr>qp_retry_count := 0\<rparr>))"
  "gen_parse_retry (question_gen_message p) = qp_retry_count p"
  by (simp_all add: parse_gen_payload_def gen_parse_retry_def question_gen_message_def KB_ID_FIELD_def FIELD_TASK_ID_def
      FIELD_RETRY_COUNT_def dict_get_default_def)


definition sample_kb_world :: KbWorld where
  "sample_kb_world = \<lparr>kw_db = sample_db, kw_streams = (\<lambda>s. []), kw_faults = [True], kw_storage = [], kw_now = 0\<rparr>"


section \<open>Every delivery keeps the invariant\<close>

definition kb_world_ok :: "KbWorld \<Rightarrow> bool" where
  "kb_world_ok w \<longleftrightarrow> gen_db_ok (kw_db w)"

lemma call_inv:
  assumes "valid_call kid c" "\<And>now. run_call env kid c now = m now"
  shows "op_inv kb_world_ok (in_session m)"
proof (rule op_invI)
  fix w assume w: "kb_world_ok w"
  obtain res db' where run: "run_call env kid c (kw_now w) (kw_db w) = (res, db')" by fastforce
  from run_call_refines [OF _ assms(1) run] w have "gen_db_ok db'" by (simp add: kb_world_ok_def refines_at_def)
  with run w show "kb_world_ok (snd (in_session m w))"
    by (simp add: in_session_run assms(2) kb_world_ok_def split: sum.split)
qed

lemma claim_inv: "op_inv kb_world_ok (in_session (try_mark_processing kid t))"
  and release_inv: "op_inv kb_world_ok (in_session (reset_for_retry kid t))"
  and fail_inv: "op_inv kb_world_ok (in_session (mark_gen_failed kid t))"
  and touch_inv: "op_inv kb_world_ok (in_session (\<lambda>now. touch_queued_for_recovery kid t n now))"
  and recover_inv: "op_inv kb_world_ok (in_session (\<lambda>now. reset_stale_processing kid t n now))"
  by (rule call_inv [where c = "G_Claim t" and env = undefined] call_inv [where c = "G_Release t" and env = undefined]
      call_inv [where c = "G_Fail t" and env = undefined] call_inv [where c = "G_Touch t n" and env = undefined]
      call_inv [where c = "G_Recover t n" and env = undefined]; simp add: valid_call_def)+

lemma kb_xadd_inv: "op_inv kb_world_ok (kb_xadd s m)"
  by (auto simp: op_inv_def kb_xadd_def kb_world_ok_def split: list.split bool.split)

lemma kb_xack_inv: "op_inv kb_world_ok kb_xack"
  by (auto simp: op_inv_def kb_xack_def kb_world_ok_def split: list.split bool.split)

lemma send_question_gen_inv: "op_inv kb_world_ok (send_question_gen env p)"
  unfolding send_question_gen_def kb_send_task_def gen_send_failed_def
  by (intro op_rules kb_xadd_inv fail_inv)

interpretation gen: stream_handlers "gen_handlers env" kb_world_ok "\<lambda>p. in_phase (qp_kb_id p) (Processing (qp_task_id p))"
proof
  fix p e n
  show "op_inv kb_world_ok (h_try_mark_processing (gen_handlers env) p)" by (simp add: gen_handlers_def claim_inv)
  show "op_inv kb_world_ok (h_mark_completed (gen_handlers env) p)" by (simp add: gen_handlers_def op_rules)
  show "op_inv kb_world_ok (h_mark_failed (gen_handlers env) p e)" by (simp add: gen_handlers_def) (intro op_rules fail_inv)
  show "op_inv kb_world_ok (h_xack (gen_handlers env))" by (simp add: gen_handlers_def kb_xack_inv)
  show "op_inv kb_world_ok (h_retry_message (gen_handlers env) p n)"
    unfolding gen_handlers_def StreamHandlers.select_convs gen_retry_message_def
    by (intro op_rules release_inv send_question_gen_inv)
next
  fix p :: QuestionGenPayload and w w'
  assume w: "kb_world_ok w" "h_try_mark_processing (gen_handlers env) p w = (Inr True, w')"
  obtain res db' where run: "run_call env (qp_kb_id p) (G_Claim (qp_task_id p)) (kw_now w) (kw_db w) = (res, db')" by fastforce
  with w(2) have out: "res = Inr True" "w' = w\<lparr>kw_db := db'\<rparr>"
    by (auto simp: gen_handlers_def in_session_run split: sum.splits)
  from run_call_refines [OF _ _ run] w(1) have "refines_at (qp_kb_id p) (G_Claim (qp_task_id p)) (kw_db w) res db'"
    by (simp add: kb_world_ok_def valid_call_def)
  then show "in_phase (qp_kb_id p) (Processing (qp_task_id p)) w'"
    by (auto simp: out refines_at_def accepted_as_def in_phase_def split: if_splits)
next
  fix p :: QuestionGenPayload and w
  assume "in_phase (qp_kb_id p) (Processing (qp_task_id p)) w"
  with triple_snd [OF business_phase, of p w kb_world_ok env]
  show "kb_world_ok (snd (h_process_business (gen_handlers env) p w))"
    by (simp add: gen_handlers_def in_phase_def kb_world_ok_def)
qed

lemma consume_question_gen_inv: "op_inv kb_world_ok (consume_question_gen env data)"
  unfolding consume_question_gen_def by (rule gen.process_message_inv)

lemma db_read_inv: "op_inv kb_world_ok (db_read f)"
  by (simp add: op_inv_def)

lemma recover_inv_all: "op_inv kb_world_ok (recover_stale_question_gen_tasks env)"
  unfolding recover_stale_question_gen_tasks_def recover_one_def Let_def
  by (intro op_rules db_read_inv touch_inv recover_inv send_question_gen_inv)

end
