(* ===== verification/Kb_Index.thy ===== *)
theory Kb_Index
  imports Kb_Vectorize Kb_Tasks
begin

text \<open>
  The vector index stays consistent with the documents and the knowledge bases, however the
  sessions of workers, requests, retries and crashes interleave.
\<close>

section \<open>The invariant\<close>

definition visible :: "int \<Rightarrow> KbDb \<Rightarrow> VectorRow list" where
  "visible did db = filter (\<lambda>v. vr_document_id v = Some did \<and> vr_job v = None) (db_vectors db)"

definition pending :: "pystr \<Rightarrow> KbDb \<Rightarrow> VectorRow list" where
  "pending job db = filter (\<lambda>v. vr_job v = Some job) (db_vectors db)"

definition kb_docs :: "int \<Rightarrow> KbDb \<Rightarrow> DocRow list" where
  "kb_docs kid db = filter (\<lambda>d. kd_kb_id d = kid) (db_docs db)"

text \<open>The aggregate fields of a knowledge base.\<close>

definition kb_row_ok :: "KbDb \<Rightarrow> KbRow \<Rightarrow> bool" where
  "kb_row_ok db r \<longleftrightarrow> kb_chunk_count r = sum_list (map kd_chunk_count (kb_docs (kb_id r) db))
     \<and> (kb_vector_status r = ST_COMPLETED \<longrightarrow>
          kb_docs (kb_id r) db \<noteq> [] \<and> (\<forall>d \<in> set (kb_docs (kb_id r) db). kd_vector_status d = ST_COMPLETED))"

definition doc_row_ok :: "KbDb \<Rightarrow> DocRow \<Rightarrow> bool" where
  "doc_row_ok db d \<longleftrightarrow> kd_id d < db_fresh db \<and> kd_kb_id d \<in> kb_id ` set (db_kbs db)
     \<and> kd_chunk_count d = int (length (visible (kd_id d) db))
     \<and> kd_vector_status d \<in> {ST_PENDING, ST_PROCESSING, ST_COMPLETED, ST_FAILED}
     \<and> (kd_vector_status d = ST_COMPLETED \<longrightarrow> kd_vector_job_id d \<noteq> None)"

definition vectors_ok :: "KbDb \<Rightarrow> bool" where
  "vectors_ok db \<longleftrightarrow> (\<forall>v \<in> set (db_vectors db). vr_job v = None \<longrightarrow>
     (\<exists>d \<in> set (db_docs db). vr_document_id v = Some (kd_id d) \<and> vr_kb_id v = Some (kd_kb_id d)))"

definition base_ok :: "KbDb \<Rightarrow> bool" where
  "base_ok db \<longleftrightarrow> distinct (map kb_id (db_kbs db)) \<and> distinct (map kd_id (db_docs db))
     \<and> (\<forall>r \<in> set (db_kbs db). kb_id r < db_fresh db) \<and> (\<forall>d \<in> set (db_docs db). doc_row_ok db d) \<and> vectors_ok db"

definition index_ok :: "KbDb \<Rightarrow> bool" where
  "index_ok db \<longleftrightarrow> base_ok db \<and> (\<forall>r \<in> set (db_kbs db). kb_row_ok db r)"

text \<open>All but the aggregate of one knowledge base, which a refresh then restores.\<close>

definition index_ok_except :: "int \<Rightarrow> KbDb \<Rightarrow> bool" where
  "index_ok_except kid db \<longleftrightarrow> base_ok db \<and> (\<forall>r \<in> set (db_kbs db). kb_id r \<noteq> kid \<longrightarrow> kb_row_ok db r)"

text \<open>A task names a document by an id already given out, with the knowledge base it belongs to.\<close>

definition payload_ok :: "KbDb \<Rightarrow> KbVectorizePayload \<Rightarrow> bool" where
  "payload_ok db p \<longleftrightarrow> vp_document_id p < db_fresh db
     \<and> (\<forall>d \<in> set (db_docs db). kd_id d = vp_document_id p \<longrightarrow> kd_kb_id d = vp_kb_id p)"

fun payload_of :: "Worker \<Rightarrow> KbVectorizePayload option" where
  "payload_of (W_Start p n) = Some p"
| "payload_of (W_Process p n) = Some p"
| "payload_of (W_Embed p n c) = Some p"
| "payload_of (W_Clear p n j) = Some p"
| "payload_of (W_Insert p n j items) = Some p"
| "payload_of (W_Promote p n j items) = Some p"
| "payload_of (W_Cleanup p n j e) = Some p"
| "payload_of (W_Finish p n) = Some p"
| "payload_of (W_Failed p n e) = Some p"
| "payload_of W_Ended = None"

text \<open>What a worker may rely on in its next session.\<close>

fun local_ok :: "KbDb \<Rightarrow> Worker \<Rightarrow> bool" where
  "local_ok db (W_Insert p n j items) = (pending j db = [])"
| "local_ok db (W_Promote p n j items) = (length (pending j db) = length items
     \<and> (\<forall>v \<in> set (pending j db). vr_document_id v = Some (vp_document_id p)))"
| "local_ok db (W_Finish p n) = (\<forall>d \<in> set (db_docs db). kd_id d = vp_document_id p \<longrightarrow> kd_vector_job_id d \<noteq> None)"
| "local_ok db x = True"

definition worker_ok :: "KbDb \<Rightarrow> Worker \<Rightarrow> bool" where
  "worker_ok db x \<longleftrightarrow> (\<forall>p. payload_of x = Some p \<longrightarrow> payload_ok db p) \<and> local_ok db x"

definition stream_ok :: "KbDb \<Rightarrow> stream_message list \<Rightarrow> bool" where
  "stream_ok db ms \<longleftrightarrow> (\<forall>data \<in> set ms. \<forall>p. parse_vectorize_payload data = Some p \<longrightarrow> payload_ok db p)"

definition vec_world_ok :: "KbWorld \<Rightarrow> bool" where
  "vec_world_ok w \<longleftrightarrow> index_ok (kw_db w) \<and> stream_ok (kw_db w) (kw_streams w KB_VECTORIZE_STREAM)"

definition jobs_distinct :: "Worker list \<Rightarrow> bool" where
  "jobs_distinct ws \<longleftrightarrow> (\<forall>i k j. i < length ws \<longrightarrow> k < length ws \<longrightarrow> job_of (ws ! i) = Some j \<longrightarrow> job_of (ws ! k) = Some j \<longrightarrow> i = k)"

definition vec_ok :: "VecSystem \<Rightarrow> bool" where
  "vec_ok s \<longleftrightarrow> vec_world_ok (vs_world s) \<and> (\<forall>x \<in> set (vs_workers s). worker_ok (kw_db (vs_world s)) x)
     \<and> jobs_distinct (vs_workers s)"

section \<open>What a session may change for the others\<close>

text \<open>
  \<open>evolves j db db'\<close>: a session that owns the job \<open>j\<close> (none if \<open>None\<close>) leaves the pending rows of
  other jobs alone, gives new documents new ids and never forgets that one was vectorised.
\<close>

definition evolves :: "pystr option \<Rightarrow> KbDb \<Rightarrow> KbDb \<Rightarrow> bool" where
  "evolves j db db' \<longleftrightarrow> db_fresh db \<le> db_fresh db' \<and> (\<forall>k. j \<noteq> Some k \<longrightarrow> pending k db' = pending k db)
     \<and> (\<forall>d' \<in> set (db_docs db'). kd_id d' < db_fresh db \<longrightarrow> (\<exists>d \<in> set (db_docs db). kd_id d = kd_id d'
          \<and> kd_kb_id d = kd_kb_id d' \<and> (kd_vector_job_id d \<noteq> None \<longrightarrow> kd_vector_job_id d' \<noteq> None)))"

lemma evolves_refl: "evolves j db db"
  by (auto simp: evolves_def)

lemma evolvesD:
  assumes "evolves j db db'"
  shows "db_fresh db \<le> db_fresh db'" "j \<noteq> Some k \<Longrightarrow> pending k db' = pending k db"
    "d' \<in> set (db_docs db') \<Longrightarrow> kd_id d' < db_fresh db \<Longrightarrow> \<exists>d \<in> set (db_docs db). kd_id d = kd_id d'
      \<and> kd_kb_id d = kd_kb_id d' \<and> (kd_vector_job_id d \<noteq> None \<longrightarrow> kd_vector_job_id d' \<noteq> None)"
  using assms by (auto simp: evolves_def)

lemma evolvesI:
  assumes "db_fresh db \<le> db_fresh db'" "\<And>k. j \<noteq> Some k \<Longrightarrow> pending k db' = pending k db"
    "\<And>d'. d' \<in> set (db_docs db') \<Longrightarrow> kd_id d' < db_fresh db \<Longrightarrow> \<exists>d \<in> set (db_docs db). kd_id d = kd_id d'
      \<and> kd_kb_id d = kd_kb_id d' \<and> (kd_vector_job_id d \<noteq> None \<longrightarrow> kd_vector_job_id d' \<noteq> None)"
  shows "evolves j db db'"
  unfolding evolves_def using assms by blast

lemma evolves_trans:
  assumes a: "evolves j db db'" and b: "evolves j db' db''"
  shows "evolves j db db''"
proof (rule evolvesI)
  show "db_fresh db \<le> db_fresh db''" using evolvesD(1) [OF a] evolvesD(1) [OF b] by simp
  show "pending k db'' = pending k db" if "j \<noteq> Some k" for k
    using evolvesD(2) [OF a that] evolvesD(2) [OF b that] by simp
  fix d'' assume d'': "d'' \<in> set (db_docs db'')" "kd_id d'' < db_fresh db"
  then have "kd_id d'' < db_fresh db'" using evolvesD(1) [OF a] by simp
  from evolvesD(3) [OF b d''(1) this] obtain d' where d': "d' \<in> set (db_docs db')" "kd_id d' = kd_id d''"
    "kd_kb_id d' = kd_kb_id d''" "kd_vector_job_id d' \<noteq> None \<longrightarrow> kd_vector_job_id d'' \<noteq> None" by blast
  from evolvesD(3) [OF a d'(1)] d'(2) d''(2) obtain d where "d \<in> set (db_docs db)" "kd_id d = kd_id d'"
    "kd_kb_id d = kd_kb_id d'" "kd_vector_job_id d \<noteq> None \<longrightarrow> kd_vector_job_id d' \<noteq> None" by auto
  with d' show "\<exists>d \<in> set (db_docs db). kd_id d = kd_id d'' \<and> kd_kb_id d = kd_kb_id d''
      \<and> (kd_vector_job_id d \<noteq> None \<longrightarrow> kd_vector_job_id d'' \<noteq> None)" by (intro bexI [of _ d]) auto
qed

lemma evolves_payload:
  assumes "evolves j db db'" "payload_ok db p"
  shows "payload_ok db' p"
  unfolding payload_ok_def
proof (intro conjI ballI impI)
  show "vp_document_id p < db_fresh db'" using assms(2) evolvesD(1) [OF assms(1)] by (simp add: payload_ok_def)
  fix d' assume "d' \<in> set (db_docs db')" "kd_id d' = vp_document_id p"
  with evolvesD(3) [OF assms(1), of d'] assms(2) show "kd_kb_id d' = vp_kb_id p" by (auto simp: payload_ok_def)
qed

lemma evolves_worker:
  assumes "evolves j db db'" "worker_ok db x" "\<And>k. j = Some k \<Longrightarrow> job_of x \<noteq> Some k"
  shows "worker_ok db' x"
proof -
  have same: "pending k db' = pending k db" if "job_of x = Some k" for k
    using evolvesD(2) [OF assms(1), of k] assms(3) that by auto
  have "\<forall>p. payload_of x = Some p \<longrightarrow> payload_ok db' p"
    using assms(1,2) evolves_payload by (auto simp: worker_ok_def)
  moreover have "local_ok db' x"
  proof (cases x)
    case (W_Finish p n)
    then have p: "payload_ok db p" "local_ok db x" using assms(2) by (simp_all add: worker_ok_def)
    have "kd_vector_job_id d' \<noteq> None" if d': "d' \<in> set (db_docs db')" "kd_id d' = vp_document_id p" for d'
    proof -
      have "kd_id d' < db_fresh db" using p(1) d'(2) by (simp add: payload_ok_def)
      from evolvesD(3) [OF assms(1) d'(1) this] obtain d where "d \<in> set (db_docs db)" "kd_id d = vp_document_id p"
        "kd_vector_job_id d \<noteq> None \<longrightarrow> kd_vector_job_id d' \<noteq> None" using d'(2) by auto
      then show ?thesis using p(2) by (simp add: W_Finish)
    qed
    then show ?thesis by (simp add: W_Finish)
  qed (use assms(2) same in \<open>simp_all add: worker_ok_def\<close>)
  ultimately show ?thesis by (simp add: worker_ok_def)
qed

lemma evolves_stream: "evolves j db db' \<Longrightarrow> stream_ok db ms \<Longrightarrow> stream_ok db' ms"
  by (auto simp: stream_ok_def intro: evolves_payload)

section \<open>Elementary changes\<close>

lemma visible_cong: "db_vectors db' = db_vectors db \<Longrightarrow> visible d db' = visible d db"
  and pending_cong: "db_vectors db' = db_vectors db \<Longrightarrow> pending j db' = pending j db"
  by (simp_all add: visible_def pending_def)

lemma base_ok_kbs_cong:
  assumes "base_ok db" "map kb_id (db_kbs db') = map kb_id (db_kbs db)" "db_docs db' = db_docs db"
    "db_vectors db' = db_vectors db" "db_fresh db \<le> db_fresh db'"
  shows "base_ok db'"
proof -
  have ids: "kb_id ` set (db_kbs db') = kb_id ` set (db_kbs db)" using assms(2) by (metis set_map)
  have "doc_row_ok db' d" if "doc_row_ok db d" for d
    using that assms(5) by (auto simp: doc_row_ok_def visible_cong [OF assms(4)] ids)
  moreover have "\<forall>r \<in> set (db_kbs db'). kb_id r < db_fresh db'"
  proof
    fix r assume "r \<in> set (db_kbs db')"
    then have "kb_id r \<in> kb_id ` set (db_kbs db)" using ids by auto
    then obtain r' where "r' \<in> set (db_kbs db)" "kb_id r = kb_id r'" by auto
    then show "kb_id r < db_fresh db'" using assms(1,5) by (auto simp: base_ok_def)
  qed
  moreover have "vectors_ok db'" using assms(1,3,4) by (simp add: base_ok_def vectors_ok_def)
  ultimately show ?thesis using assms(1,2,3) by (simp add: base_ok_def)
qed

lemma base_ok_update_kb: "base_ok db \<Longrightarrow> (\<And>r. kb_id (f r) = kb_id r) \<Longrightarrow> base_ok (update_kb kid f db)"
  by (rule base_ok_kbs_cong [OF _ update_kb_ids]) simp_all

lemma kb_docs_cong: "db_docs db' = db_docs db \<Longrightarrow> kb_docs kid db' = kb_docs kid db"
  by (simp add: kb_docs_def)

lemma kb_row_ok_cong: "kb_docs (kb_id r) db' = kb_docs (kb_id r) db \<Longrightarrow> kb_row_ok db' r = kb_row_ok db r"
  by (simp add: kb_row_ok_def)

text \<open>Refreshing the aggregate of a knowledge base restores the invariant.\<close>

lemma aggregate_completed:
  assumes "\<forall>s \<in> set ss. s \<in> {ST_PENDING, ST_PROCESSING, ST_COMPLETED, ST_FAILED}" "aggregate_vector_status ss = ST_COMPLETED"
  shows "ss \<noteq> [] \<and> (\<forall>s \<in> set ss. s = ST_COMPLETED)"
  using assms by (auto simp: aggregate_vector_status_def ST_PENDING_def ST_PROCESSING_def ST_COMPLETED_def ST_FAILED_def
      split: if_splits)

lemma refresh_restores:
  assumes "index_ok_except kid db"
  shows "index_ok (refresh_kb_aggregate kid db)" "evolves j db (refresh_kb_aggregate kid db)"
proof -
  let ?f = "\<lambda>r. r\<lparr>kb_vector_status := aggregate_vector_status (list_statuses_by_kb kid db),
      kb_vector_error := (if aggregate_vector_status (list_statuses_by_kb kid db) = ST_FAILED
        then Some [23384, 22312, 21521, 37327, 21270, 22833, 36133, 30340, 25991, 26723] else None),
      kb_chunk_count := sum_chunk_count_by_kb kid db\<rparr>"
  have eq: "refresh_kb_aggregate kid db = update_kb kid ?f db" by (simp add: refresh_kb_aggregate_def Let_def)
  have base: "base_ok db" using assms by (simp add: index_ok_except_def)
  have b: "base_ok (update_kb kid ?f db)" by (rule base_ok_update_kb [OF base]) simp
  have "kb_row_ok db (?f r)" if "kb_id r = kid" for r
  proof -
    have docs: "list_statuses_by_kb kid db = map kd_vector_status (kb_docs kid db)"
      "sum_chunk_count_by_kb kid db = sum_list (map kd_chunk_count (kb_docs kid db))"
      by (simp_all add: list_statuses_by_kb_def sum_chunk_count_by_kb_def kb_docs_def)
    have "\<forall>s \<in> set (map kd_vector_status (kb_docs kid db)). s \<in> {ST_PENDING, ST_PROCESSING, ST_COMPLETED, ST_FAILED}"
      using base by (auto simp: base_ok_def doc_row_ok_def kb_docs_def)
    from aggregate_completed [OF this] that show ?thesis by (auto simp: kb_row_ok_def docs)
  qed
  then have "\<forall>r \<in> set (db_kbs (update_kb kid ?f db)). kb_row_ok db r"
    using assms by (auto simp: update_kb_def index_ok_except_def)
  then have "\<forall>r \<in> set (db_kbs (update_kb kid ?f db)). kb_row_ok (update_kb kid ?f db) r"
    using kb_row_ok_cong [OF kb_docs_cong [of "update_kb kid ?f db" db]] by simp
  with b show "index_ok (refresh_kb_aggregate kid db)" by (simp add: eq index_ok_def)
  show "evolves j db (refresh_kb_aggregate kid db)"
    by (auto simp: eq evolves_def pending_def)
qed

section \<open>Sessions of a worker\<close>

lemma find_doc_Some: "find_doc i db = Some d \<Longrightarrow> d \<in> set (db_docs db) \<and> kd_id d = i"
  by (auto simp: find_doc_def find_Some_iff)

lemma find_kb_exists: "kid \<in> kb_id ` set (db_kbs db) \<Longrightarrow> find_kb kid db \<noteq> None"
  by (auto simp: find_kb_def find_None_iff)

lemma index_okD:
  assumes "index_ok db"
  shows "base_ok db" "r \<in> set (db_kbs db) \<Longrightarrow> kb_row_ok db r" "d \<in> set (db_docs db) \<Longrightarrow> doc_row_ok db d"
    "d \<in> set (db_docs db) \<Longrightarrow> kd_kb_id d \<in> kb_id ` set (db_kbs db)" "vectors_ok db"
  using assms by (auto simp: index_ok_def base_ok_def doc_row_ok_def)

lemma index_ok_except_docs:
  assumes "index_ok db" "db_kbs db1 = db_kbs db" "db_fresh db1 = db_fresh db"
    "db_docs db1 = map (\<lambda>d. if kd_id d = did then f d else d) (db_docs db)"
    "\<And>d. kd_id (f d) = kd_id d" "\<And>d. kd_kb_id (f d) = kd_kb_id d"
    "\<And>e. e \<noteq> did \<Longrightarrow> visible e db1 = visible e db" "vectors_ok db1"
    "\<And>d. d \<in> set (db_docs db) \<Longrightarrow> kd_id d = did \<Longrightarrow> kd_kb_id d = kid \<and> doc_row_ok db1 (f d)"
  shows "index_ok_except kid db1"
proof -
  let ?g = "\<lambda>d. if kd_id d = did then f d else d"
  have ids: "map kd_id (db_docs db1) = map kd_id (db_docs db)" by (auto simp: assms(4,5))
  have rows: "doc_row_ok db1 d1" if d1: "d1 \<in> set (db_docs db1)" for d1
  proof -
    from d1 obtain d where d: "d \<in> set (db_docs db)" "d1 = ?g d" by (auto simp: assms(4))
    show ?thesis
    proof (cases "kd_id d = did")
      case False
      have "doc_row_ok db d" by (rule index_okD(3) [OF assms(1) d(1)])
      with False d(2) show ?thesis by (simp add: doc_row_ok_def assms(2,3,7))
    qed (use assms(9) d in auto)
  qed
  have "base_ok db1"
    using assms(1,2,3,8) rows ids by (simp add: index_ok_def base_ok_def)
  moreover have "kb_row_ok db1 r" if r: "r \<in> set (db_kbs db1)" "kb_id r \<noteq> kid" for r
  proof -
    have "filter (\<lambda>d. kd_kb_id (?g d) = kb_id r) (db_docs db) = filter (\<lambda>d. kd_kb_id d = kb_id r) (db_docs db)"
      by (rule filter_cong [OF refl]) (simp add: assms(6))
    moreover have "map ?g (filter (\<lambda>d. kd_kb_id d = kb_id r) (db_docs db)) = filter (\<lambda>d. kd_kb_id d = kb_id r) (db_docs db)"
      by (rule map_idI) (use assms(9) r(2) in auto)
    ultimately have "kb_docs (kb_id r) db1 = kb_docs (kb_id r) db"
      by (simp add: kb_docs_def assms(4) filter_map comp_def)
    from kb_row_ok_cong [OF this] index_okD(2) [OF assms(1), of r] r(1) assms(2) show ?thesis by simp
  qed
  ultimately show ?thesis by (simp add: index_ok_except_def)
qed

lemma sync_restores:
  assumes "index_ok_except kid db" "kid \<in> kb_id ` set (db_kbs db)"
  shows "index_ok (sync_kb_aggregate kid db)" "evolves j db (sync_kb_aggregate kid db)"
  using refresh_restores [OF assms(1)] find_kb_exists [OF assms(2)] by (auto simp: sync_kb_aggregate_def)

lemma vectors_ok_docs:
  assumes "vectors_ok db" "\<And>v. v \<in> set (db_vectors db') \<Longrightarrow> vr_job v = None \<Longrightarrow> v \<in> set (db_vectors db)"
    "\<And>d. d \<in> set (db_docs db) \<Longrightarrow> \<exists>d' \<in> set (db_docs db'). kd_id d' = kd_id d \<and> kd_kb_id d' = kd_kb_id d"
  shows "vectors_ok db'"
  unfolding vectors_ok_def
proof (intro ballI impI)
  fix v assume "v \<in> set (db_vectors db')" "vr_job v = None"
  with assms(1,2) obtain d where "d \<in> set (db_docs db)" "vr_document_id v = Some (kd_id d)" "vr_kb_id v = Some (kd_kb_id d)"
    unfolding vectors_ok_def by blast
  moreover obtain d' where "d' \<in> set (db_docs db')" "kd_id d' = kd_id d" "kd_kb_id d' = kd_kb_id d"
    using assms(3) [OF \<open>d \<in> set (db_docs db)\<close>] by blast
  ultimately show "\<exists>d' \<in> set (db_docs db'). vr_document_id v = Some (kd_id d') \<and> vr_kb_id v = Some (kd_kb_id d')"
    by (intro bexI [of _ d']) auto
qed

text \<open>A session that changes one document and the vectors, and then the aggregate.\<close>

lemma doc_session:
  assumes "index_ok db" "payload_ok db p" "find_doc (vp_document_id p) db = Some d0"
    "db_kbs db1 = db_kbs db" "db_fresh db1 = db_fresh db"
    "db_docs db1 = map (\<lambda>d. if kd_id d = vp_document_id p then f d else d) (db_docs db)"
    "\<And>d. kd_id (f d) = kd_id d" "\<And>d. kd_kb_id (f d) = kd_kb_id d"
    "\<And>d. kd_vector_job_id d \<noteq> None \<Longrightarrow> kd_vector_job_id (f d) \<noteq> None"
    "\<And>e. e \<noteq> vp_document_id p \<Longrightarrow> visible e db1 = visible e db" "vectors_ok db1"
    "\<And>d. d \<in> set (db_docs db) \<Longrightarrow> kd_id d = vp_document_id p \<Longrightarrow> doc_row_ok db1 (f d)"
    "\<And>k. j \<noteq> Some k \<Longrightarrow> pending k db1 = pending k db"
  shows "index_ok (sync_kb_aggregate (vp_kb_id p) db1)" "evolves j db (sync_kb_aggregate (vp_kb_id p) db1)"
proof -
  have doc: "kd_kb_id d = vp_kb_id p" if "d \<in> set (db_docs db)" "kd_id d = vp_document_id p" for d
    using assms(2) that by (simp add: payload_ok_def)
  have d0: "d0 \<in> set (db_docs db)" "kd_id d0 = vp_document_id p" using find_doc_Some [OF assms(3)] by auto
  have "index_ok_except (vp_kb_id p) db1"
    by (rule index_ok_except_docs [OF assms(1,4,5,6,7,8,10,11)]) (use doc assms(12) in auto)
  moreover have "vp_kb_id p \<in> kb_id ` set (db_kbs db1)"
    using index_okD(4) [OF assms(1) d0(1)] doc [OF d0] assms(4) by simp
  ultimately have s: "index_ok (sync_kb_aggregate (vp_kb_id p) db1)" "evolves j db1 (sync_kb_aggregate (vp_kb_id p) db1)"
    by (rule sync_restores)+
  have "evolves j db db1"
  proof (rule evolvesI)
    fix d' assume "d' \<in> set (db_docs db1)"
    then obtain d where "d \<in> set (db_docs db)" "d' = (if kd_id d = vp_document_id p then f d else d)" by (auto simp: assms(6))
    then show "\<exists>d \<in> set (db_docs db). kd_id d = kd_id d' \<and> kd_kb_id d = kd_kb_id d'
        \<and> (kd_vector_job_id d \<noteq> None \<longrightarrow> kd_vector_job_id d' \<noteq> None)"
      using assms(7,8,9) by (intro bexI [of _ d]) auto
  qed (use assms(5,13) in auto)
  then show "index_ok (sync_kb_aggregate (vp_kb_id p) db1)" "evolves j db (sync_kb_aggregate (vp_kb_id p) db1)"
    using s evolves_trans by auto
qed

lemma update_doc_fields [simp]:
  "db_kbs (update_doc i f db) = db_kbs db" "db_vectors (update_doc i f db) = db_vectors db"
  "db_fresh (update_doc i f db) = db_fresh db" "visible e (update_doc i f db) = visible e db"
  "pending k (update_doc i f db) = pending k db"
  "db_docs (update_doc i f db) = map (\<lambda>d. if kd_id d = i then f d else d) (db_docs db)"
  by (simp_all add: update_doc_def visible_def pending_def)

lemma update_doc_member:
  assumes "d \<in> set (db_docs db)" "\<And>d. kd_id (f d) = kd_id d" "\<And>d. kd_kb_id (f d) = kd_kb_id d"
  shows "\<exists>d' \<in> set (db_docs (update_doc i f db)). kd_id d' = kd_id d \<and> kd_kb_id d' = kd_kb_id d"
  using assms by (intro bexI [of _ "if kd_id d = i then f d else d"]) (auto simp del: if_split)

lemma status_session:
  assumes "index_ok db" "payload_ok db p" "find_doc (vp_document_id p) db = Some d0"
    "st \<in> {ST_PENDING, ST_PROCESSING, ST_COMPLETED, ST_FAILED}" "st = ST_COMPLETED \<Longrightarrow> kd_vector_job_id d0 \<noteq> None"
  shows "index_ok (sync_kb_aggregate (vp_kb_id p) (doc_update_vector_status (vp_document_id p) st err db))"
    "evolves j db (sync_kb_aggregate (vp_kb_id p) (doc_update_vector_status (vp_document_id p) st err db))"
proof -
  let ?f = "\<lambda>d::DocRow. d\<lparr>kd_vector_status := st, kd_vector_error := err\<rparr>"
  let ?db1 = "update_doc (vp_document_id p) ?f db"
  have uniq: "d = d0" if "d \<in> set (db_docs db)" "kd_id d = vp_document_id p" for d
    using assms(1) find_doc_Some [OF assms(3)] that by (auto simp: index_ok_def base_ok_def distinct_map inj_on_def)
  have v: "vectors_ok ?db1"
    by (rule vectors_ok_docs [OF index_okD(5) [OF assms(1)] _ update_doc_member]) simp_all
  have r: "doc_row_ok ?db1 (?f d)" if "d \<in> set (db_docs db)" "kd_id d = vp_document_id p" for d
    using index_okD(3) [OF assms(1) that(1)] assms(4,5) uniq [OF that] by (auto simp: doc_row_ok_def)
  note * = doc_session [where f = ?f and ?db1.0 = ?db1 and j = j, OF assms(1,2,3) _ _ _ _ _ _ _ v r]
  show "index_ok (sync_kb_aggregate (vp_kb_id p) (doc_update_vector_status (vp_document_id p) st err db))"
    unfolding doc_update_vector_status_def by (rule * (1)) simp_all
  show "evolves j db (sync_kb_aggregate (vp_kb_id p) (doc_update_vector_status (vp_document_id p) st err db))"
    unfolding doc_update_vector_status_def by (rule * (2)) simp_all
qed

text \<open>The changes of the vector table.\<close>

lemma delete_by_document_facts [simp]:
  "db_kbs (delete_by_document_id i db) = db_kbs db" "db_docs (delete_by_document_id i db) = db_docs db"
  "db_fresh (delete_by_document_id i db) = db_fresh db" "visible i (delete_by_document_id i db) = []"
  "e \<noteq> i \<Longrightarrow> visible e (delete_by_document_id i db) = visible e db"
  "pending k (delete_by_document_id i db) = pending k db"
  "set (db_vectors (delete_by_document_id i db)) = {v \<in> set (db_vectors db). \<not> (vr_document_id v = Some i \<and> vr_job v = None)}"
  by (auto simp: delete_by_document_id_def visible_def pending_def filter_empty_conv intro!: filter_cong)

lemma delete_by_job_facts [simp]:
  "db_kbs (delete_by_vector_job_id j db) = db_kbs db" "db_docs (delete_by_vector_job_id j db) = db_docs db"
  "db_fresh (delete_by_vector_job_id j db) = db_fresh db" "visible e (delete_by_vector_job_id j db) = visible e db"
  "k \<noteq> j \<Longrightarrow> pending k (delete_by_vector_job_id j db) = pending k db"
  "set (db_vectors (delete_by_vector_job_id j db)) = {v \<in> set (db_vectors db). vr_job v \<noteq> Some j}"
  by (auto simp: delete_by_vector_job_id_def visible_def pending_def intro!: filter_cong)

lemma promote_fields [simp]:
  "db_kbs (promote_vector_job kid j db) = db_kbs db" "db_docs (promote_vector_job kid j db) = db_docs db"
  "db_fresh (promote_vector_job kid j db) = db_fresh db"
  "set (db_vectors (promote_vector_job kid j db)) =
     (\<lambda>v. if vr_job v = Some j then v\<lparr>vr_job := None, vr_kb_id := Some kid\<rparr> else v) ` set (db_vectors db)"
  by (simp_all add: promote_vector_job_def)

lemma promote_pending: "k \<noteq> j \<Longrightarrow> pending k (promote_vector_job kid j db) = pending k db"
proof -
  assume "k \<noteq> j"
  then have "filter (\<lambda>v. vr_job v = Some k) (map (\<lambda>v. if vr_job v = Some j then v\<lparr>vr_job := None, vr_kb_id := Some kid\<rparr> else v) vs)
      = filter (\<lambda>v. vr_job v = Some k) vs" for vs :: "VectorRow list"
    by (induction vs) auto
  then show ?thesis by (simp add: pending_def promote_vector_job_def)
qed

lemma promote_visible:
  assumes "\<forall>v \<in> set (pending j db). vr_document_id v = Some i"
  shows "e \<noteq> i \<Longrightarrow> visible e (promote_vector_job kid j db) = visible e db"
    "length (visible i (promote_vector_job kid j db)) = length (visible i db) + length (pending j db)"
proof -
  let ?g = "\<lambda>v. if vr_job v = Some j then v\<lparr>vr_job := None, vr_kb_id := Some kid\<rparr> else v"
  have a: "\<forall>v \<in> set (db_vectors db). vr_job v = Some j \<longrightarrow> vr_document_id v = Some i"
    using assms by (auto simp: pending_def)
  have "filter (\<lambda>v. vr_document_id v = Some e \<and> vr_job v = None) (map ?g vs)
      = filter (\<lambda>v. vr_document_id v = Some e \<and> vr_job v = None) vs"
    if "e \<noteq> i" "\<forall>v \<in> set vs. vr_job v = Some j \<longrightarrow> vr_document_id v = Some i" for vs
    using that by (induction vs) auto
  with a show "visible e (promote_vector_job kid j db) = visible e db" if "e \<noteq> i"
    using that by (simp add: visible_def promote_vector_job_def)
  have "length (filter (\<lambda>v. vr_document_id v = Some i \<and> vr_job v = None) (map ?g vs))
      = length (filter (\<lambda>v. vr_document_id v = Some i \<and> vr_job v = None) vs) + length (filter (\<lambda>v. vr_job v = Some j) vs)"
    if "\<forall>v \<in> set vs. vr_job v = Some j \<longrightarrow> vr_document_id v = Some i" for vs
    using that by (induction vs) auto
  with a show "length (visible i (promote_vector_job kid j db)) = length (visible i db) + length (pending j db)"
    by (simp add: visible_def pending_def promote_vector_job_def)
qed

lemma insert_pending_facts [simp]:
  "db_kbs (insert_pending j kid items i db) = db_kbs db" "db_docs (insert_pending j kid items i db) = db_docs db"
  "db_fresh (insert_pending j kid items i db) = db_fresh db" "visible e (insert_pending j kid items i db) = visible e db"
  "k \<noteq> j \<Longrightarrow> pending k (insert_pending j kid items i db) = pending k db"
  "v \<in> set (db_vectors (insert_pending j kid items i db)) \<Longrightarrow> vr_job v = None \<Longrightarrow> v \<in> set (db_vectors db)"
  by (auto simp: insert_pending_def visible_def pending_def filter_empty_conv)

lemma insert_pending_new:
  assumes "pending j db = []"
  shows "length (pending j (insert_pending j kid items i db)) = length items
    \<and> (\<forall>v \<in> set (pending j (insert_pending j kid items i db)). vr_document_id v = Some i)"
proof -
  let ?rows = "map (\<lambda>(c, e, n). \<lparr>vr_content = c, vr_embedding = e, vr_kb_id = Some kid, vr_document_id = Some i,
      vr_job = Some j, vr_chunk_index = n\<rparr>) items"
  have "filter (\<lambda>v. vr_job v = Some j) ?rows = ?rows" by (rule filter_True) auto
  then have "pending j (insert_pending j kid items i db) = ?rows"
    using assms by (simp add: insert_pending_def pending_def)
  then show ?thesis by auto
qed

text \<open>The sessions of a worker keep the invariant and change only what is theirs.\<close>

definition good_session :: "pystr option \<Rightarrow> KbDb \<Rightarrow> KbDb \<Rightarrow> bool" where
  "good_session j db db' \<longleftrightarrow> index_ok db' \<and> evolves j db db'"

lemma good_session_refl: "index_ok db \<Longrightarrow> good_session j db db"
  by (simp add: good_session_def evolves_refl)

lemma mark_processing_good:
  assumes "index_ok db" "payload_ok db p"
  shows "good_session None db (vec_mark_processing p db)"
  using status_session [OF assms, where st = ST_PROCESSING and err = None] good_session_refl [OF assms(1)]
  by (auto simp: vec_mark_processing_def good_session_def split: option.split)

lemma mark_failed_good:
  assumes "index_ok db" "payload_ok db p"
  shows "good_session None db (vec_mark_failed p err db)"
  using status_session [OF assms, where st = ST_FAILED and err = "Some err"] good_session_refl [OF assms(1)]
  by (auto simp: vec_mark_failed_def good_session_def split: option.split)

lemma mark_completed_good:
  assumes "index_ok db" "payload_ok db p" "local_ok db (W_Finish p n)"
  shows "good_session None db (vec_mark_completed p db)"
proof (cases "find_doc (vp_document_id p) db")
  case (Some d)
  then have "kd_vector_job_id d \<noteq> None" using assms(3) find_doc_Some [OF Some] by simp
  with status_session [OF assms(1,2) Some, where st = ST_COMPLETED and err = None] show ?thesis
    by (simp add: vec_mark_completed_def good_session_def Some)
qed (simp add: vec_mark_completed_def good_session_refl assms(1))

text \<open>Storing the result of a worker: \<open>mark_vectorized\<close> after a change of the vectors.\<close>

lemma vectorized_session:
  assumes "index_ok db" "payload_ok db p" "find_doc (vp_document_id p) db = Some d0"
    "db_kbs vdb = db_kbs db" "db_fresh vdb = db_fresh db" "db_docs vdb = db_docs db"
    "\<And>e. e \<noteq> vp_document_id p \<Longrightarrow> visible e vdb = visible e db" "vectors_ok vdb"
    "int (length (visible (vp_document_id p) vdb)) = m" "\<And>k. k \<noteq> job \<Longrightarrow> pending k vdb = pending k db"
  shows "good_session (Some job) db (sync_kb_aggregate (vp_kb_id p) (mark_vectorized (vp_document_id p) job m now vdb))"
    "local_ok (sync_kb_aggregate (vp_kb_id p) (mark_vectorized (vp_document_id p) job m now vdb)) (W_Finish p n)"
proof -
  let ?f = "\<lambda>d::DocRow. d\<lparr>kd_vector_job_id := Some job, kd_chunk_count := m, kd_vectorized_at := Some now\<rparr>"
  let ?db1 = "update_doc (vp_document_id p) ?f vdb"
  have v: "vectors_ok ?db1" by (rule vectors_ok_docs [OF assms(8) _ update_doc_member]) simp_all
  have r: "doc_row_ok ?db1 (?f d)" if "d \<in> set (db_docs db)" "kd_id d = vp_document_id p" for d
    using index_okD(3) [OF assms(1) that(1)] assms(4,5,9) that(2) by (auto simp: doc_row_ok_def)
  note * = doc_session [where f = ?f and ?db1.0 = ?db1 and j = "Some job", OF assms(1,2,3) _ _ _ _ _ _ _ v r]
  show "good_session (Some job) db (sync_kb_aggregate (vp_kb_id p) (mark_vectorized (vp_document_id p) job m now vdb))"
    unfolding good_session_def mark_vectorized_def
    by (intro conjI; rule *) (simp_all add: assms(4-7,10))
  have "db_docs (sync_kb_aggregate kid ?db1) = db_docs ?db1" for kid
    by (simp add: sync_kb_aggregate_def refresh_kb_aggregate_def Let_def split: option.split)
  then show "local_ok (sync_kb_aggregate (vp_kb_id p) (mark_vectorized (vp_document_id p) job m now vdb)) (W_Finish p n)"
    unfolding mark_vectorized_def by (auto simp: assms(6))
qed

lemma clear_good:
  assumes "index_ok db" "payload_ok db p"
  shows "good_session (Some job) db (vec_clear p job now db)" "local_ok (vec_clear p job now db) (W_Finish p n)"
proof -
  let ?vdb = "delete_by_document_id (vp_document_id p) db"
  have v: "vectors_ok ?vdb" by (rule vectors_ok_docs [OF index_okD(5) [OF assms(1)]]) auto
  have "good_session (Some job) db (vec_clear p job now db) \<and> local_ok (vec_clear p job now db) (W_Finish p n)"
  proof (cases "find_doc (vp_document_id p) db")
    case None
    then have "\<forall>d \<in> set (db_docs db). kd_id d \<noteq> vp_document_id p" by (auto simp: find_doc_def find_None_iff)
    with None show ?thesis using good_session_refl [OF assms(1)] by (simp add: vec_clear_def)
  next
    case (Some d)
    from vectorized_session [where vdb = ?vdb and m = 0 and job = job and now = now, OF assms Some] v show ?thesis by (simp add: vec_clear_def Some)
  qed
  then show "good_session (Some job) db (vec_clear p job now db)" "local_ok (vec_clear p job now db) (W_Finish p n)"
    by blast+
qed

text \<open>Changes that touch pending rows only.\<close>

lemma index_ok_pending_change:
  assumes "index_ok db" "db_kbs db' = db_kbs db" "db_docs db' = db_docs db" "db_fresh db' = db_fresh db"
    "\<And>e. visible e db' = visible e db" "\<And>v. v \<in> set (db_vectors db') \<Longrightarrow> vr_job v = None \<Longrightarrow> v \<in> set (db_vectors db)"
  shows "index_ok db'"
proof -
  have "vectors_ok db'" by (rule vectors_ok_docs [OF index_okD(5) [OF assms(1)] assms(6)]) (auto simp: assms(3))
  moreover have "kb_row_ok db' r = kb_row_ok db r" for r by (rule kb_row_ok_cong [OF kb_docs_cong [OF assms(3)]])
  moreover have "doc_row_ok db' d = doc_row_ok db d" for d by (simp add: doc_row_ok_def assms(2,4,5))
  ultimately show ?thesis using assms(1) by (simp add: index_ok_def base_ok_def assms(2,3,4))
qed

lemma delete_job_ok: "index_ok db \<Longrightarrow> index_ok (delete_by_vector_job_id job db)"
  by (erule index_ok_pending_change) auto

lemma delete_job_good: "index_ok db \<Longrightarrow> good_session (Some job) db (delete_by_vector_job_id job db)"
  unfolding good_session_def by (intro conjI delete_job_ok, assumption, rule evolvesI) auto

lemma insert_good:
  "index_ok db \<Longrightarrow> good_session (Some job) db (insert_pending job kid items i db)"
  unfolding good_session_def
  by (intro conjI; (rule evolvesI | erule index_ok_pending_change)) (auto dest: insert_pending_facts(6))

lemma promote_good:
  assumes "index_ok db" "payload_ok db p" "local_ok db (W_Promote p n job items)"
  shows "good_session (Some job) db (vec_promote p job (int (length items)) now db)
    \<and> local_ok (vec_promote p job (int (length items)) now db) (W_Finish p n)"
proof (cases "find_doc (vp_document_id p) db")
  case None
  then have "\<forall>d \<in> set (db_docs db). kd_id d \<noteq> vp_document_id p" by (auto simp: find_doc_def find_None_iff)
  moreover have "index_ok (delete_by_vector_job_id job db)" by (rule delete_job_ok [OF assms(1)])
  moreover have "evolves (Some job) db (delete_by_vector_job_id job db)" by (rule evolvesI) auto
  ultimately show ?thesis by (simp add: vec_promote_def None good_session_def)
next
  case (Some d)
  let ?i = "vp_document_id p" and ?del = "delete_by_document_id (vp_document_id p) db"
  let ?vdb = "promote_vector_job (vp_kb_id p) job ?del"
  have pend: "\<forall>v \<in> set (pending job ?del). vr_document_id v = Some ?i" "length (pending job ?del) = length items"
    using assms(3) by auto
  have doc: "d \<in> set (db_docs db)" "kd_id d = ?i" "kd_kb_id d = vp_kb_id p"
    using find_doc_Some [OF Some] assms(2) by (auto simp: payload_ok_def)
  have "vectors_ok ?vdb"
    unfolding vectors_ok_def
  proof (intro ballI impI)
    fix v assume v: "v \<in> set (db_vectors ?vdb)" "vr_job v = None"
    from v(1) obtain u where u: "u \<in> set (db_vectors ?del)"
      "v = (if vr_job u = Some job then u\<lparr>vr_job := None, vr_kb_id := Some (vp_kb_id p)\<rparr> else u)"
      unfolding promote_fields(4) by blast
    show "\<exists>d \<in> set (db_docs ?vdb). vr_document_id v = Some (kd_id d) \<and> vr_kb_id v = Some (kd_kb_id d)"
    proof (cases "vr_job u = Some job")
      case True
      then have "vr_document_id u = Some ?i" using pend(1) u(1) by (auto simp: pending_def)
      with True u(2) doc show ?thesis by (intro bexI [of _ d]) auto
    next
      case False
      then have "v = u" "v \<in> set (db_vectors db)" using u by auto
      with v(2) index_okD(5) [OF assms(1)] show ?thesis by (auto simp: vectors_ok_def)
    qed
  qed
  moreover have "visible e ?vdb = visible e db" if "e \<noteq> ?i" for e using promote_visible(1) [OF pend(1) that] that by simp
  moreover have "int (length (visible ?i ?vdb)) = int (length items)" using promote_visible(2) [OF pend(1)] pend(2) by simp
  moreover have "pending k ?vdb = pending k db" if "k \<noteq> job" for k using promote_pending [OF that] by simp
  ultimately show ?thesis
    using vectorized_session [where vdb = ?vdb and m = "int (length items)" and job = job and now = now, OF assms(1,2) Some]
    by (simp add: vec_promote_def Some)
qed

section \<open>A step of a worker\<close>

lemma session_modify:
  "session fault (\<lambda>now. op_modify (f now)) w =
     (case fault of Some e \<Rightarrow> (Inl e, w) | None \<Rightarrow> (Inr (), w\<lparr>kw_db := f (kw_now w) (kw_db w)\<rparr>))"
  by (simp add: session_def in_session_run op_simps split: option.split)

lemma session_get:
  "session fault (\<lambda>now. op_get f) w = (case fault of Some e \<Rightarrow> (Inl e, w) | None \<Rightarrow> (Inr (f (kw_db w)), w))"
  by (simp add: session_def in_session_run op_simps split: option.split)

lemma step_to_run:
  "step_to m f g w = (case m w of (Inl e, w') \<Rightarrow> (Inr (g e), w') | (Inr y, w') \<Rightarrow> (Inr (f y), w'))"
  by (simp add: step_to_def op_simps split: prod.split sum.split)

lemma good_any: "good_session None db db' \<Longrightarrow> good_session j db db'"
  by (auto simp: good_session_def evolves_def)

definition step_good :: "pystr \<Rightarrow> Worker \<Rightarrow> KbWorld \<Rightarrow> Worker \<Rightarrow> KbWorld \<Rightarrow> bool" where
  "step_good job x w x' w' \<longleftrightarrow> good_session (job_of x) (kw_db w) (kw_db w') \<and> worker_ok (kw_db w') x'
     \<and> stream_ok (kw_db w') (kw_streams w' KB_VECTORIZE_STREAM) \<and> job_of x' \<in> {None, job_of x, Some job}"

text \<open>A session with a good effect, and one that failed.\<close>

lemma step_good_session:
  assumes "vec_world_ok w" "worker_ok (kw_db w) x" "good_session (job_of x) (kw_db w) db'" "local_ok db' x'"
    "payload_of x' = None \<or> payload_of x' = payload_of x" "job_of x' \<in> {None, job_of x, Some job}"
  shows "step_good job x w x' (w\<lparr>kw_db := db'\<rparr>)"
proof -
  have ev: "evolves (job_of x) (kw_db w) db'" using assms(3) by (simp add: good_session_def)
  have "worker_ok db' x'" using assms(2,4,5) evolves_payload [OF ev] by (auto simp: worker_ok_def)
  moreover have "stream_ok db' (kw_streams w KB_VECTORIZE_STREAM)"
    using evolves_stream [OF ev] assms(1) by (simp add: vec_world_ok_def)
  ultimately show ?thesis using assms(3,6) by (simp add: step_good_def)
qed

lemma step_good_same:
  assumes "vec_world_ok w" "worker_ok (kw_db w) x" "local_ok (kw_db w) x'"
    "payload_of x' = None \<or> payload_of x' = payload_of x" "job_of x' \<in> {None, job_of x, Some job}"
  shows "step_good job x w x' w"
  using step_good_session [of w x "kw_db w" x' job] assms good_session_refl by (simp add: vec_world_ok_def)

lemma parse_vectorize_message [simp]: "parse_vectorize_payload (vectorize_message p n) = Some p"
  by (simp add: parse_vectorize_payload_def vectorize_message_def KB_ID_FIELD_def FIELD_RETRY_COUNT_def FIELD_DOCUMENT_ID_def)

lemma stream_ok_append: "stream_ok db ms \<Longrightarrow> payload_ok db p \<Longrightarrow> stream_ok db (ms @ [vectorize_message p n])"
  by (auto simp: stream_ok_def)

lemma kb_xadd_vectorize:
  assumes "vec_world_ok w" "payload_ok (kw_db w) p" "kb_xadd KB_VECTORIZE_STREAM (vectorize_message p n) w = (r, w')"
  shows "kw_db w' = kw_db w \<and> stream_ok (kw_db w) (kw_streams w' KB_VECTORIZE_STREAM)"
  using assms by (auto simp: kb_xadd_def vec_world_ok_def stream_ok_append split: list.splits bool.splits)

lemma process_finish:
  assumes "index_ok db" "\<And>d. find_doc (vp_document_id p) db = Some d \<Longrightarrow> kd_vector_status d = ST_COMPLETED"
  shows "local_ok db (W_Finish p n)"
proof -
  have "kd_vector_job_id d \<noteq> None" if d: "d \<in> set (db_docs db)" "kd_id d = vp_document_id p" for d
  proof -
    obtain d0 where d0: "find_doc (vp_document_id p) db = Some d0"
      using d by (cases "find_doc (vp_document_id p) db") (auto simp: find_doc_def find_None_iff)
    then have "d = d0"
      using assms(1) find_doc_Some [OF d0] d by (auto simp: index_ok_def base_ok_def distinct_map inj_on_def)
    with assms(2) [OF d0] index_okD(3) [OF assms(1) d(1)] show ?thesis by (auto simp: doc_row_ok_def)
  qed
  then show ?thesis by simp
qed

lemma worker_step_good:
  assumes w: "vec_world_ok w" and x: "worker_ok (kw_db w) x" and job: "pending job (kw_db w) = []"
    and run: "worker_step env fault job x w = (Inr x', w')"
  shows "step_good job x w x' w'"
proof -
  have ok: "index_ok (kw_db w)" using w by (simp add: vec_world_ok_def)
  note run = run [symmetric]
  note same = step_good_same [OF w x] and sess = step_good_session [OF w x]
  show ?thesis
  proof (cases x)
    case (W_Start p n)
    have "good_session (job_of x) (kw_db w) (vec_mark_processing p (kw_db w))"
      using mark_processing_good [OF ok] x by (simp add: W_Start worker_ok_def)
    with run same sess show ?thesis
      by (auto simp: W_Start step_to_run session_modify split: option.splits)
  next
    case (W_Process p n)
    with run have "w' = w \<and> (x' = W_Finish p n \<and> (\<forall>d. find_doc (vp_document_id p) (kw_db w) = Some d \<longrightarrow> kd_vector_status d = ST_COMPLETED)
        \<or> (\<exists>c. x' = W_Embed p n c) \<or> (\<exists>e. x' = W_Failed p n e))"
      by (auto simp: step_to_run session_get split: option.splits if_splits)
    then show ?thesis
      by (auto simp: W_Process intro!: same [unfolded W_Process] process_finish [OF ok] simp del: local_ok.simps(3))
  next
    case (W_Embed p n c)
    with run job show ?thesis
      by (auto simp: step_to_run op_simps Let_def split: sum.splits if_splits intro!: same [unfolded W_Embed])
  next
    case (W_Clear p n j)
    then have "payload_ok (kw_db w) p" using x by (simp add: worker_ok_def)
    note * = clear_good [OF ok this, of j]
    from run show ?thesis
      by (auto simp: W_Clear step_to_run session_modify split: option.splits
          intro!: same [unfolded W_Clear] sess [unfolded W_Clear] * simp del: local_ok.simps(3))
  next
    case (W_Insert p n j items)
    then have p: "payload_ok (kw_db w) p" "pending j (kw_db w) = []" using x by (simp_all add: worker_ok_def)
    from run insert_good [OF ok, of j] insert_pending_new [OF p(2)] show ?thesis
      by (auto simp: W_Insert step_to_run session_modify split: option.splits
          intro!: same [unfolded W_Insert] sess [unfolded W_Insert])
  next
    case (W_Promote p n j items)
    then have "payload_ok (kw_db w) p" "local_ok (kw_db w) (W_Promote p n j items)" using x by (simp_all add: worker_ok_def)
    note * = promote_good [OF ok this, THEN conjunct1] promote_good [OF ok this, THEN conjunct2]
    from run show ?thesis
      by (auto simp: W_Promote step_to_run session_modify split: option.splits
          intro!: same [unfolded W_Promote] sess [unfolded W_Promote] * simp del: local_ok.simps(3))
  next
    case (W_Cleanup p n j e)
    from run delete_job_good [OF ok, of j] show ?thesis
      by (auto simp: W_Cleanup step_to_run session_modify split: option.splits
          intro!: same [unfolded W_Cleanup] sess [unfolded W_Cleanup])
  next
    case (W_Finish p n)
    then have "payload_ok (kw_db w) p" "local_ok (kw_db w) (W_Finish p n)" using x by (simp_all add: worker_ok_def)
    note * = mark_completed_good [OF ok this]
    from run show ?thesis
      by (auto simp: W_Finish step_to_run session_modify split: option.splits
          intro!: same [unfolded W_Finish] sess [unfolded W_Finish] *)
  next
    case (W_Failed p n e)
    then have p: "payload_ok (kw_db w) p" using x by (simp add: worker_ok_def)
    show ?thesis
    proof (cases "n < MAX_RETRY_COUNT")
      case True
      obtain r w1 where add: "kb_xadd KB_VECTORIZE_STREAM (vectorize_message p (n + 1)) w = (r, w1)" by fastforce
      with run True have "x' = W_Ended" "w' = w1" by (auto simp: W_Failed step_to_run split: sum.splits)
      with kb_xadd_vectorize [OF w p add] good_session_refl [OF ok] show ?thesis
        by (auto simp: step_good_def worker_ok_def)
    next
      case False
      with run mark_failed_good [OF ok p] show ?thesis
        by (auto simp: W_Failed step_to_run session_modify split: option.splits
            intro!: same [unfolded W_Failed] sess [unfolded W_Failed])
    qed
  next
    case W_Ended
    with run same show ?thesis by (auto simp: op_simps)
  qed
qed

end
