(* ===== verification/Kb_Index_System.thy ===== *)
theory Kb_Index_System
  imports Kb_Index
begin

text \<open>
  Requests keep the invariant of the vector index whatever the workers are doing, hence every
  reachable state of requests, workers, retries and crashes has it; with a run from the upload
  of a file to its searchable vectors.
\<close>

section \<open>Requests\<close>

definition inv_with :: "Worker list \<Rightarrow> (KbDb \<Rightarrow> bool) \<Rightarrow> KbWorld \<Rightarrow> bool" where
  "inv_with ws R w \<longleftrightarrow> vec_ok \<lparr>vs_world = w, vs_workers = ws\<rparr> \<and> R (kw_db w)"

lemma inv_with_db_ok: "inv_with ws R w \<Longrightarrow> index_ok (kw_db w)"
  by (simp add: inv_with_def vec_ok_def vec_world_ok_def)

lemma inv_with_same:
  "inv_with ws R w \<Longrightarrow> kw_db w' = kw_db w \<Longrightarrow> stream_ok (kw_db w) (kw_streams w' KB_VECTORIZE_STREAM) \<Longrightarrow> inv_with ws R w'"
  by (simp add: inv_with_def vec_ok_def vec_world_ok_def)

lemma inv_with_stream: "inv_with ws R w \<Longrightarrow> stream_ok (kw_db w) (kw_streams w KB_VECTORIZE_STREAM)"
  by (simp add: inv_with_def vec_ok_def vec_world_ok_def)

lemma inv_with_session:
  assumes "inv_with ws R w" "good_session None (kw_db w) db'" "R' db'"
  shows "inv_with ws R' (w\<lparr>kw_db := db'\<rparr>)"
proof -
  have ev: "evolves None (kw_db w) db'" using assms(2) by (simp add: good_session_def)
  show ?thesis
    using assms evolves_stream [OF ev] evolves_worker [OF ev]
    by (auto simp: inv_with_def vec_ok_def vec_world_ok_def good_session_def)
qed

lemma db_read_triple: "triple (inv_with ws R) (db_read f) (\<lambda>x. inv_with ws (\<lambda>db. R db \<and> x = f db)) E"
  by (simp add: triple_def inv_with_def)

lemma require_kb_triple:
  "triple (inv_with ws R) (require_kb kid) (\<lambda>r. inv_with ws (\<lambda>db. R db \<and> find_kb kid db = Some r)) (inv_with ws R)"
  by (auto simp: triple_def require_kb_def op_simps inv_with_def split: option.split)

lemma in_session_triple:
  assumes "\<And>now db x db'. index_ok db \<Longrightarrow> R db \<Longrightarrow> m now db = (Inr x, db') \<Longrightarrow> good_session None db db' \<and> R' x db'"
  shows "triple (inv_with ws R) (in_session m) (\<lambda>x. inv_with ws (R' x)) (inv_with ws R)"
  unfolding triple_def
proof (intro allI impI)
  fix w assume w: "inv_with ws R w"
  obtain r db' where run: "m (kw_now w) (kw_db w) = (r, db')" by fastforce
  show "case in_session m w of (Inl e, w') \<Rightarrow> inv_with ws R w' | (Inr x, w') \<Rightarrow> inv_with ws (R' x) w'"
  proof (cases r)
    case (Inr x)
    with assms [OF inv_with_db_ok [OF w] _ run [unfolded Inr]] w have "good_session None (kw_db w) db' \<and> R' x db'"
      by (simp add: inv_with_def)
    then show ?thesis using inv_with_session [OF w] by (simp add: in_session_run run Inr)
  qed (simp add: in_session_run run w)
qed

lemma inv_with_weaken: "triple P m (\<lambda>x. inv_with ws (R x)) (inv_with ws R') \<Longrightarrow> triple P m (\<lambda>_. inv_with ws (\<lambda>_. True)) (inv_with ws (\<lambda>_. True))"
  by (erule triple_weaken) (auto simp: inv_with_def)

lemma storage_inv: "op_inv (inv_with ws R) (op_modify (\<lambda>w. w\<lparr>kw_storage := f w\<rparr>))"
  by (auto simp: op_inv_def op_simps inv_with_def vec_ok_def vec_world_ok_def)

lemma store_file_inv: "op_inv (inv_with ws R) (store_file env f)"
  unfolding store_file_def by (intro op_rules storage_inv)

lemma drop_file_inv: "op_inv (inv_with ws R) (drop_file env d)"
  unfolding drop_file_def by (intro op_rules storage_inv)

text \<open>Sending the task of a known document.\<close>

lemma kb_row_ok_status: "kb_row_ok db r \<Longrightarrow> st \<noteq> ST_COMPLETED \<Longrightarrow> kb_row_ok db (r\<lparr>kb_vector_status := st, kb_vector_error := e\<rparr>)"
  by (simp add: kb_row_ok_def)

lemma update_kb_good:
  assumes "index_ok db" "\<And>r. kb_id (f r) = kb_id r" "\<And>r. kb_row_ok db r \<Longrightarrow> kb_row_ok db (f r)"
  shows "good_session None db (update_kb kid f db)"
proof -
  have "kb_row_ok (update_kb kid f db) r = kb_row_ok db r" for r by (rule kb_row_ok_cong [OF kb_docs_cong]) simp
  moreover have "base_ok (update_kb kid f db)" using assms(1,2) by (intro base_ok_update_kb) (auto simp: index_ok_def)
  ultimately have "index_ok (update_kb kid f db)"
    using assms(1,3) by (auto simp: index_ok_def update_kb_def)
  moreover have "evolves None db (update_kb kid f db)" by (rule evolvesI) (auto simp: pending_def)
  ultimately show ?thesis by (simp add: good_session_def)
qed

lemma kb_status_good:
  assumes "index_ok db" "st \<noteq> ST_COMPLETED"
  shows "good_session None db (kb_update_vector_status kid st e db)"
  unfolding kb_update_vector_status_def by (rule update_kb_good [OF assms(1)]) (simp_all add: kb_row_ok_status assms(2))

lemma send_failed_inv:
  assumes "\<And>db kid f. R db \<Longrightarrow> R (update_kb kid f db)"
  shows "op_inv (inv_with ws R) (vectorize_send_failed kid err)"
proof -
  have keep: "R (kb_update_vector_status kid st e db)" if "R db" for st e db
    unfolding kb_update_vector_status_def by (rule assms [OF that])
  have "triple (inv_with ws R) (in_session (\<lambda>now. op_bind (get_kb kid) (\<lambda>kb. case kb of
      None \<Rightarrow> op_return () | Some r \<Rightarrow> op_modify (kb_update_vector_status kid ST_FAILED (Some (truncate_error err))))))
      (\<lambda>_. inv_with ws R) (inv_with ws R)"
    by (rule in_session_triple) (auto simp: op_simps get_kb_def good_session_refl keep split: option.splits
        intro!: kb_status_good)
  then show ?thesis unfolding vectorize_send_failed_def by (intro op_rules op_inv_triple)
qed

definition knows :: "int \<Rightarrow> int \<Rightarrow> KbDb \<Rightarrow> bool" where
  "knows kid did db \<longleftrightarrow> payload_ok db \<lparr>vp_kb_id = kid, vp_document_id = did\<rparr>"

lemma knows_update_kb: "knows kid did db \<Longrightarrow> knows kid did (update_kb k f db)"
  by (simp add: knows_def payload_ok_def)

lemma enqueue_inv:
  assumes "\<And>db. R db \<Longrightarrow> knows kid did db" "\<And>db k f. R db \<Longrightarrow> R (update_kb k f db)"
  shows "op_inv (inv_with ws R) (enqueue_vectorize env kid did)"
proof -
  have "op_inv (inv_with ws R) (kb_xadd KB_VECTORIZE_STREAM (vectorize_message \<lparr>vp_kb_id = kid, vp_document_id = did\<rparr> 0))"
  proof (rule op_invI)
    fix w assume w: "inv_with ws R w"
    then have p: "payload_ok (kw_db w) \<lparr>vp_kb_id = kid, vp_document_id = did\<rparr>"
      using assms(1) by (simp add: inv_with_def knows_def)
    obtain r w' where add: "kb_xadd KB_VECTORIZE_STREAM (vectorize_message \<lparr>vp_kb_id = kid, vp_document_id = did\<rparr> 0) w = (r, w')"
      by fastforce
    have "vec_world_ok w" using w by (simp add: inv_with_def vec_ok_def)
    from kb_xadd_vectorize [OF this p add] w show
      "inv_with ws R (snd (kb_xadd KB_VECTORIZE_STREAM (vectorize_message \<lparr>vp_kb_id = kid, vp_document_id = did\<rparr> 0) w))"
      by (auto simp: add intro: inv_with_same)
  qed
  then show ?thesis
    unfolding enqueue_vectorize_def kb_send_task_def by (intro op_rules send_failed_inv assms(2))
qed

lemma new_doc_visible: "index_ok db \<Longrightarrow> db_fresh db \<le> i \<Longrightarrow> visible i db = []"
  by (auto simp: index_ok_def base_ok_def vectors_ok_def doc_row_ok_def visible_def filter_empty_conv) fastforce

text \<open>New rows.\<close>

lemma index_ok_exceptI:
  "index_ok_except kid db \<Longrightarrow> (\<And>r. r \<in> set (db_kbs db) \<Longrightarrow> kb_id r = kid \<Longrightarrow> kb_row_ok db r) \<Longrightarrow> index_ok db"
  by (auto simp: index_ok_def index_ok_except_def)

lemma index_ok_ids:
  assumes "index_ok db"
  shows "d \<in> set (db_docs db) \<Longrightarrow> kd_id d < db_fresh db" "r \<in> set (db_kbs db) \<Longrightarrow> kb_id r < db_fresh db"
  using assms by (auto simp: index_ok_def base_ok_def doc_row_ok_def)

lemma append_doc:
  fixes d :: DocRow
  assumes "index_ok db" "kd_id d = db_fresh db" "kd_kb_id d \<in> kb_id ` set (db_kbs db)" "kd_chunk_count d = 0"
    "kd_vector_status d = ST_PENDING"
  defines "db1 \<equiv> db\<lparr>db_docs := db_docs db @ [d], db_fresh := db_fresh db + 1\<rparr>"
  shows "index_ok_except (kd_kb_id d) db1" "evolves None db db1" "knows (kd_kb_id d) (kd_id d) db1"
    "kb_docs (kd_kb_id d) db1 = kb_docs (kd_kb_id d) db @ [d]"
proof -
  have f: "db_kbs db1 = db_kbs db" "db_docs db1 = db_docs db @ [d]" "db_vectors db1 = db_vectors db" "db_fresh db1 = db_fresh db + 1"
    by (simp_all add: db1_def)
  note vis = visible_cong [OF f(3)]
  have rows: "doc_row_ok db1 x" if "x \<in> set (db_docs db)" for x
    using index_okD(3) [OF assms(1) that] by (auto simp: doc_row_ok_def f vis)
  have "visible (kd_id d) db = []" by (rule new_doc_visible [OF assms(1)]) (simp add: assms(2))
  then have new: "doc_row_ok db1 d" using assms(2-5) by (simp add: doc_row_ok_def f vis ST_PENDING_def ST_COMPLETED_def)
  have "vectors_ok db1" by (rule vectors_ok_docs [OF index_okD(5) [OF assms(1)]]) (auto simp: f)
  moreover have "distinct (map kd_id (db_docs db1))"
    using assms(1,2) index_ok_ids(1) [OF assms(1)] by (fastforce simp: f index_ok_def base_ok_def)
  moreover have "\<forall>r \<in> set (db_kbs db). kb_id r < db_fresh db + 1"
    using index_ok_ids(2) [OF assms(1)] by fastforce
  ultimately have "base_ok db1" using assms(1) rows new by (simp add: index_ok_def base_ok_def f)
  moreover have "kb_row_ok db1 r" if r: "r \<in> set (db_kbs db1)" "kb_id r \<noteq> kd_kb_id d" for r
  proof -
    have "kb_docs (kb_id r) db1 = kb_docs (kb_id r) db" using r(2) by (simp add: kb_docs_def f)
    from kb_row_ok_cong [OF this] r(1) index_okD(2) [OF assms(1)] show ?thesis by (simp add: f)
  qed
  ultimately show "index_ok_except (kd_kb_id d) db1" by (simp add: index_ok_except_def)
  show "evolves None db db1" by (rule evolvesI) (use assms(2) in \<open>auto simp: f pending_cong [OF f(3)]\<close>)
  show "knows (kd_kb_id d) (kd_id d) db1"
    using assms(2) index_ok_ids(1) [OF assms(1)] by (fastforce simp: knows_def payload_ok_def f)
  show "kb_docs (kd_kb_id d) db1 = kb_docs (kd_kb_id d) db @ [d]" by (simp add: kb_docs_def f)
qed

lemma no_kb_docs: "index_ok db \<Longrightarrow> kid \<notin> kb_id ` set (db_kbs db) \<Longrightarrow> kb_docs kid db = []"
  using index_okD(4) [of db] by (fastforce simp: kb_docs_def filter_empty_conv)

lemma append_kb:
  fixes r :: KbRow
  assumes "index_ok db" "kb_id r = db_fresh db" "kb_chunk_count r = 0" "kb_vector_status r = ST_PENDING"
  defines "db1 \<equiv> db\<lparr>db_kbs := db_kbs db @ [r], db_fresh := db_fresh db + 1\<rparr>"
  shows "index_ok db1" "evolves None db db1" "kb_docs (kb_id r) db1 = []"
proof -
  have f: "db_kbs db1 = db_kbs db @ [r]" "db_docs db1 = db_docs db" "db_vectors db1 = db_vectors db" "db_fresh db1 = db_fresh db + 1"
    by (simp_all add: db1_def)
  have ids: "kb_id x < db_fresh db" if "x \<in> set (db_kbs db)" for x using index_ok_ids(2) [OF assms(1) that] .
  have rows: "doc_row_ok db1 x" if "x \<in> set (db_docs db)" for x
    using index_okD(3) [OF assms(1) that] by (auto simp: doc_row_ok_def f visible_cong [OF f(3)])
  have "vectors_ok db1" by (rule vectors_ok_docs [OF index_okD(5) [OF assms(1)]]) (auto simp: f)
  moreover have "distinct (map kb_id (db_kbs db1))"
    using assms(1,2) ids by (fastforce simp: f index_ok_def base_ok_def)
  moreover have "\<forall>x \<in> set (db_kbs db1). kb_id x < db_fresh db1" using ids assms(2) by (fastforce simp: f)
  ultimately have base: "base_ok db1" using assms(1) rows by (simp add: index_ok_def base_ok_def f)
  have none: "kb_docs (kb_id r) db1 = []"
    using no_kb_docs [OF assms(1), of "kb_id r"] ids assms(2) by (fastforce simp: kb_docs_cong [OF f(2)])
  have "kb_row_ok db1 x" if "x \<in> set (db_kbs db)" for x
    using kb_row_ok_cong [OF kb_docs_cong [OF f(2)]] index_okD(2) [OF assms(1) that] by blast
  moreover have "kb_row_ok db1 r" using none assms(3,4) by (simp add: kb_row_ok_def ST_PENDING_def ST_COMPLETED_def)
  ultimately show "index_ok db1" using base by (simp add: index_ok_def f)
  show "evolves None db db1" by (rule evolvesI) (auto simp: f pending_cong [OF f(3)])
  show "kb_docs (kb_id r) db1 = []" by (rule none)
qed

text \<open>Deleted rows.\<close>

lemma base_ok_delete:
  assumes "index_ok db" "db_docs db1 = filter P (db_docs db)" "db_kbs db1 = filter K (db_kbs db)" "db_fresh db1 = db_fresh db"
    "\<And>d. d \<in> set (db_docs db) \<Longrightarrow> P d \<Longrightarrow> visible (kd_id d) db1 = visible (kd_id d) db"
    "\<And>d. d \<in> set (db_docs db) \<Longrightarrow> P d \<Longrightarrow> kd_kb_id d \<in> kb_id ` set (db_kbs db1)" "vectors_ok db1"
  shows "base_ok db1"
proof -
  have "doc_row_ok db1 d" if "d \<in> set (db_docs db1)" for d
    using that index_okD(3) [OF assms(1), of d] assms(5,6) by (auto simp: doc_row_ok_def assms(2,4))
  moreover have "distinct (map kd_id (db_docs db1))" "distinct (map kb_id (db_kbs db1))"
    using assms(1) by (auto simp: assms(2,3) index_ok_def base_ok_def distinct_map_filter)
  ultimately show ?thesis
    using assms(1,7) by (auto simp: index_ok_def base_ok_def assms(3,4))
qed

lemma delete_document_good:
  assumes "index_ok db" "d \<in> set (db_docs db)"
  shows "good_session None db (refresh_kb_aggregate (kd_kb_id d) (delete_doc_row (kd_id d) (delete_by_document_id (kd_id d) db)))"
proof -
  let ?db1 = "delete_doc_row (kd_id d) (delete_by_document_id (kd_id d) db)"
  have f: "db_kbs ?db1 = db_kbs db" "db_docs ?db1 = filter (\<lambda>x. kd_id x \<noteq> kd_id d) (db_docs db)" "db_fresh ?db1 = db_fresh db"
    "db_vectors ?db1 = db_vectors (delete_by_document_id (kd_id d) db)"
    by (simp_all add: delete_doc_row_def)
  have vis: "visible e ?db1 = visible e db" if "e \<noteq> kd_id d" for e using that by (simp add: visible_cong [OF f(4)])
  have "vectors_ok ?db1"
    unfolding vectors_ok_def
  proof (intro ballI impI)
    fix v assume v: "v \<in> set (db_vectors ?db1)" "vr_job v = None"
    then have "v \<in> set (db_vectors db)" "vr_document_id v \<noteq> Some (kd_id d)" by (auto simp: f(4))
    with index_okD(5) [OF assms(1)] v(2) obtain x where "x \<in> set (db_docs db)" "vr_document_id v = Some (kd_id x)"
      "vr_kb_id v = Some (kd_kb_id x)" unfolding vectors_ok_def by blast
    with \<open>vr_document_id v \<noteq> Some (kd_id d)\<close> show "\<exists>x \<in> set (db_docs ?db1). vr_document_id v = Some (kd_id x) \<and> vr_kb_id v = Some (kd_kb_id x)"
      by (intro bexI [of _ x]) (auto simp: f(2))
  qed
  then have "base_ok ?db1"
    by (intro base_ok_delete [OF assms(1) f(2) _ f(3), where K = "\<lambda>_. True"]) (auto simp: f vis index_okD(4) [OF assms(1)])
  moreover have "kb_row_ok ?db1 r" if r: "r \<in> set (db_kbs ?db1)" "kb_id r \<noteq> kd_kb_id d" for r
  proof -
    have "x = d" if "x \<in> set (db_docs db)" "kd_id x = kd_id d" for x
      using assms that by (auto simp: index_ok_def base_ok_def distinct_map inj_on_def)
    then have "(kd_kb_id x = kb_id r \<and> kd_id x \<noteq> kd_id d) = (kd_kb_id x = kb_id r)" if "x \<in> set (db_docs db)" for x
      using r(2) that by metis
    then have "kb_docs (kb_id r) ?db1 = kb_docs (kb_id r) db"
      unfolding kb_docs_def f(2) filter_filter by (intro filter_cong [OF refl]) auto
    from kb_row_ok_cong [OF this] r(1) index_okD(2) [OF assms(1)] show ?thesis by (simp add: f)
  qed
  ultimately have ex: "index_ok_except (kd_kb_id d) ?db1" by (simp add: index_ok_except_def)
  have "evolves None db ?db1"
  proof (rule evolvesI)
    show "pending k ?db1 = pending k db" for k by (simp add: pending_cong [OF f(4)])
  qed (auto simp: f)
  with refresh_restores(1) [OF ex] refresh_restores(2) [OF ex] show ?thesis
    by (auto simp: good_session_def intro: evolves_trans)
qed

lemma delete_kb_good:
  assumes "index_ok db"
  shows "good_session None db (delete_kb_row kid (delete_by_knowledge_base_id kid db))"
proof -
  let ?db1 = "delete_kb_row kid (delete_by_knowledge_base_id kid db)"
  let ?keep = "\<lambda>v. \<not> (vr_kb_id v = Some kid \<and> vr_job v = None)"
  have f: "db_kbs ?db1 = filter (\<lambda>r. kb_id r \<noteq> kid) (db_kbs db)" "db_docs ?db1 = filter (\<lambda>x. kd_kb_id x \<noteq> kid) (db_docs db)"
    "db_fresh ?db1 = db_fresh db" "db_vectors ?db1 = filter ?keep (db_vectors db)"
    by (simp_all add: delete_kb_row_def delete_by_knowledge_base_id_def)
  have owner: "vr_kb_id v = Some (kd_kb_id x)"
    if v: "v \<in> set (db_vectors db)" "vr_job v = None" "x \<in> set (db_docs db)" "vr_document_id v = Some (kd_id x)" for v x
  proof -
    from index_okD(5) [OF assms] v(1,2) obtain y where y: "y \<in> set (db_docs db)" "vr_document_id v = Some (kd_id y)"
      "vr_kb_id v = Some (kd_kb_id y)" unfolding vectors_ok_def by blast
    then have "y = x" using assms v(3,4) by (auto simp: index_ok_def base_ok_def distinct_map inj_on_def)
    with y show ?thesis by simp
  qed
  have vis: "visible (kd_id x) ?db1 = visible (kd_id x) db" if "x \<in> set (db_docs db)" "kd_kb_id x \<noteq> kid" for x
    unfolding visible_def f(4) filter_filter
    by (rule filter_cong [OF refl]) (use owner [OF _ _ that(1)] that(2) in auto)
  have "vectors_ok ?db1"
    unfolding vectors_ok_def
  proof (intro ballI impI)
    fix v assume "v \<in> set (db_vectors ?db1)" "vr_job v = None"
    then have v: "v \<in> set (db_vectors db)" "vr_job v = None" "vr_kb_id v \<noteq> Some kid" by (auto simp: f(4))
    with index_okD(5) [OF assms] obtain x where "x \<in> set (db_docs db)" "vr_document_id v = Some (kd_id x)"
      "vr_kb_id v = Some (kd_kb_id x)" unfolding vectors_ok_def by blast
    with v(3) show "\<exists>x \<in> set (db_docs ?db1). vr_document_id v = Some (kd_id x) \<and> vr_kb_id v = Some (kd_kb_id x)"
      by (intro bexI [of _ x]) (auto simp: f(2))
  qed
  moreover have "kd_kb_id x \<in> kb_id ` set (db_kbs ?db1)" if "x \<in> set (db_docs db)" "kd_kb_id x \<noteq> kid" for x
    using index_okD(4) [OF assms that(1)] that(2) by (auto simp: f(1))
  ultimately have "base_ok ?db1" using vis by (intro base_ok_delete [OF assms f(2,1,3)]) auto
  moreover have "kb_row_ok ?db1 r" if r: "r \<in> set (db_kbs ?db1)" for r
  proof -
    have "kb_docs (kb_id r) ?db1 = kb_docs (kb_id r) db"
      using r unfolding kb_docs_def f(2) filter_filter by (intro filter_cong [OF refl]) (auto simp: f(1))
    from kb_row_ok_cong [OF this] r index_okD(2) [OF assms] show ?thesis by (simp add: f(1))
  qed
  moreover have "evolves None db ?db1"
  proof (rule evolvesI)
    have "filter (\<lambda>v. ?keep v \<and> vr_job v = Some k) (db_vectors db) = filter (\<lambda>v. vr_job v = Some k) (db_vectors db)" for k
      by (rule filter_cong [OF refl]) auto
    then show "pending k ?db1 = pending k db" for k by (simp add: pending_def f(4) conj_commute)
  qed (auto simp: f)
  ultimately show ?thesis by (simp add: good_session_def index_ok_def)
qed

text \<open>Revectorising: every document of a knowledge base and then itself become PENDING.\<close>

lemma op_for_modify: "op_for xs (\<lambda>x. op_modify (f x)) w = (Inr (), fold f xs w)"
  by (induction xs arbitrary: w) (simp_all add: op_simps)

definition kid_pending_ok :: "int \<Rightarrow> KbDb \<Rightarrow> bool" where
  "kid_pending_ok kid db \<longleftrightarrow> index_ok_except kid db
     \<and> (\<forall>r \<in> set (db_kbs db). kb_id r = kid \<longrightarrow> kb_chunk_count r = sum_list (map kd_chunk_count (kb_docs kid db)))"

lemma pending_status_step:
  assumes "kid_pending_ok kid db" "\<forall>d \<in> set (db_docs db). kd_id d = i \<longrightarrow> kd_kb_id d = kid"
  defines "db1 \<equiv> doc_update_vector_status i ST_PENDING None db"
  shows "kid_pending_ok kid db1" "evolves None db db1"
proof -
  let ?g = "\<lambda>d. if kd_id d = i then d\<lparr>kd_vector_status := ST_PENDING, kd_vector_error := None\<rparr> else d"
  have f: "db_kbs db1 = db_kbs db" "db_docs db1 = map ?g (db_docs db)" "db_vectors db1 = db_vectors db" "db_fresh db1 = db_fresh db"
    by (simp_all add: db1_def doc_update_vector_status_def)
  have g: "kd_id (?g d) = kd_id d" "kd_kb_id (?g d) = kd_kb_id d" "kd_chunk_count (?g d) = kd_chunk_count d"
    "kd_vector_job_id (?g d) = kd_vector_job_id d" for d by simp_all
  have base: "base_ok db" using assms(1) by (simp add: kid_pending_ok_def index_ok_except_def)
  have rows: "doc_row_ok db1 (?g d)" if "d \<in> set (db_docs db)" for d
    using base that by (auto simp: base_ok_def doc_row_ok_def f visible_cong [OF f(3)] ST_PENDING_def ST_COMPLETED_def)
  have ids: "map kd_id (db_docs db1) = map kd_id (db_docs db)" by (simp add: f(2) comp_def)
  have "vectors_ok db1"
  proof (rule vectors_ok_docs)
    show "vectors_ok db" using base by (simp add: base_ok_def)
    show "\<exists>d' \<in> set (db_docs db1). kd_id d' = kd_id d \<and> kd_kb_id d' = kd_kb_id d" if "d \<in> set (db_docs db)" for d
      using that g(1,2) [of d] unfolding f(2) set_map by blast
  qed (simp add: f(3))
  moreover have "\<forall>x \<in> set (db_docs db1). doc_row_ok db1 x" unfolding f(2) set_map using rows by blast
  ultimately have b1: "base_ok db1" using base ids by (simp add: base_ok_def f(1,4))
  have other: "kb_docs j db1 = kb_docs j db" if "j \<noteq> kid" for j
  proof -
    have "filter (\<lambda>d. kd_kb_id d = j) (map ?g (db_docs db)) = map ?g (filter (\<lambda>d. kd_kb_id d = j) (db_docs db))"
      by (simp only: filter_map comp_def g(2))
    also have "\<dots> = filter (\<lambda>d. kd_kb_id d = j) (db_docs db)" by (rule map_idI) (use assms(2) that in auto)
    finally show ?thesis by (simp add: kb_docs_def f(2))
  qed
  have "kb_docs kid db1 = map ?g (kb_docs kid db)" by (simp only: kb_docs_def f(2) filter_map comp_def g(2))
  then have sums: "sum_list (map kd_chunk_count (kb_docs kid db1)) = sum_list (map kd_chunk_count (kb_docs kid db))"
    by (simp only: map_map comp_def g(3))
  have "kb_row_ok db1 r" if "r \<in> set (db_kbs db)" "kb_id r \<noteq> kid" for r
    using kb_row_ok_cong [OF other [OF that(2)]] assms(1) that by (auto simp: kid_pending_ok_def index_ok_except_def)
  with b1 sums assms(1) show "kid_pending_ok kid db1" by (simp add: kid_pending_ok_def index_ok_except_def f(1))
  show "evolves None db db1"
  proof (rule evolvesI)
    fix d' assume "d' \<in> set (db_docs db1)"
    then obtain d where "d \<in> set (db_docs db)" "d' = ?g d" unfolding f(2) set_map by blast
    then show "\<exists>d \<in> set (db_docs db). kd_id d = kd_id d' \<and> kd_kb_id d = kd_kb_id d'
        \<and> (kd_vector_job_id d \<noteq> None \<longrightarrow> kd_vector_job_id d' \<noteq> None)"
      using g by (intro bexI [of _ d]) auto
  qed (auto simp: f pending_cong [OF f(3)])
qed

lemma doc_update_member:
  assumes "x \<in> set (db_docs (doc_update_vector_status i st e db))"
  shows "\<exists>y \<in> set (db_docs db). kd_id y = kd_id x \<and> kd_kb_id y = kd_kb_id x"
  using assms by (auto simp: doc_update_vector_status_def split: if_splits)

lemma pending_not_completed: "ST_PENDING \<noteq> ST_COMPLETED"
  by (simp add: ST_PENDING_def ST_COMPLETED_def)

lemma revectorize_good:
  assumes "index_ok db" "\<forall>d \<in> set ds. \<forall>x \<in> set (db_docs db). kd_id x = kd_id d \<longrightarrow> kd_kb_id x = kid"
  shows "good_session None db (kb_update_vector_status kid ST_PENDING None
    (fold (\<lambda>d. doc_update_vector_status (kd_id d) ST_PENDING None) ds db))"
proof -
  have start: "kid_pending_ok kid db"
    using assms(1) by (auto simp: kid_pending_ok_def index_ok_def index_ok_except_def kb_row_ok_def)
  have "kid_pending_ok kid db1 \<Longrightarrow> evolves None db db1 \<Longrightarrow>
      \<forall>d \<in> set ds. \<forall>x \<in> set (db_docs db1). kd_id x = kd_id d \<longrightarrow> kd_kb_id x = kid \<Longrightarrow>
      kid_pending_ok kid (fold (\<lambda>d. doc_update_vector_status (kd_id d) ST_PENDING None) ds db1)
        \<and> evolves None db (fold (\<lambda>d. doc_update_vector_status (kd_id d) ST_PENDING None) ds db1)" for db1
  proof (induction ds arbitrary: db1)
    case (Cons d ds)
    have own: "\<forall>x \<in> set (db_docs db1). kd_id x = kd_id d \<longrightarrow> kd_kb_id x = kid" using Cons.prems(3) by simp
    note s = pending_status_step [OF Cons.prems(1) own]
    have "\<forall>e \<in> set ds. \<forall>x \<in> set (db_docs (doc_update_vector_status (kd_id d) ST_PENDING None db1)). kd_id x = kd_id e \<longrightarrow> kd_kb_id x = kid"
    proof (intro ballI impI)
      fix e x assume x: "e \<in> set ds" "x \<in> set (db_docs (doc_update_vector_status (kd_id d) ST_PENDING None db1))" "kd_id x = kd_id e"
      from doc_update_member [OF x(2)] obtain y where y: "y \<in> set (db_docs db1)" "kd_id y = kd_id x" "kd_kb_id y = kd_kb_id x" by blast
      with Cons.prems(3) x(1,3) show "kd_kb_id x = kid" by force
    qed
    from Cons.IH [OF s(1) evolves_trans [OF Cons.prems(2) s(2)] this] show ?case by simp
  qed simp
  from this [OF start evolves_refl assms(2)] obtain db2 where
    db2: "fold (\<lambda>d. doc_update_vector_status (kd_id d) ST_PENDING None) ds db = db2"
    "kid_pending_ok kid db2" "evolves None db db2" by blast
  let ?db3 = "kb_update_vector_status kid ST_PENDING None db2"
  have docs: "kb_docs j ?db3 = kb_docs j db2" for j by (rule kb_docs_cong) (simp add: kb_update_vector_status_def)
  have "base_ok ?db3" unfolding kb_update_vector_status_def
    by (rule base_ok_update_kb) (use db2(2) in \<open>simp_all add: kid_pending_ok_def index_ok_except_def\<close>)
  moreover have "kb_row_ok ?db3 r" if "r \<in> set (db_kbs ?db3)" for r
  proof -
    from that obtain r0 where r0: "r0 \<in> set (db_kbs db2)"
      "r = (if kb_id r0 = kid then r0\<lparr>kb_vector_status := ST_PENDING, kb_vector_error := None\<rparr> else r0)"
      by (auto simp: kb_update_vector_status_def update_kb_def)
    show ?thesis
    proof (cases "kb_id r0 = kid")
      case True
      with r0 db2(2) show ?thesis by (simp add: kid_pending_ok_def kb_row_ok_def docs pending_not_completed)
    next
      case False
      with r0 db2(2) show ?thesis by (simp add: kid_pending_ok_def index_ok_except_def kb_row_ok_def docs)
    qed
  qed
  moreover have "evolves None db2 ?db3"
    by (rule evolvesI) (auto simp: kb_update_vector_status_def pending_def)
  ultimately show ?thesis using evolves_trans [OF db2(3)] by (simp add: good_session_def index_ok_def db2(1))
qed

section \<open>Every request keeps the invariant\<close>

lemma save_kb_run: "save_kb row db = (Inr (row (db_fresh db)), db\<lparr>db_kbs := db_kbs db @ [row (db_fresh db)], db_fresh := db_fresh db + 1\<rparr>)"
  and save_doc_run: "save_doc drow db = (Inr (drow (db_fresh db)), db\<lparr>db_docs := db_docs db @ [drow (db_fresh db)], db_fresh := db_fresh db + 1\<rparr>)"
  by (simp_all add: save_kb_def save_doc_def op_simps)

lemma new_row_ids [simp]: "kb_id (new_kb i name category now) = i" "kd_id (new_doc env f j k detected content key now) = j"
  "kd_kb_id (new_doc env f j k detected content key now) = k"
  by (simp_all add: new_kb_def new_doc_def)

lemma upload_session_good:
  assumes "index_ok db" and i_def: "i = db_fresh db"
    and db1_def: "db1 = db\<lparr>db_kbs := db_kbs db @ [new_kb i name category now], db_fresh := i + 1\<rparr>"
    and d_def: "d = new_doc env f (i + 1) i detected content key now"
  shows "good_session None db (db1\<lparr>db_docs := db_docs db1 @ [d], db_fresh := db_fresh db1 + 1\<rparr>)
    \<and> knows i (i + 1) (db1\<lparr>db_docs := db_docs db1 @ [d], db_fresh := db_fresh db1 + 1\<rparr>)"
proof -
  have kb: "kb_id (new_kb i name category now) = db_fresh db" "kb_chunk_count (new_kb i name category now) = 0"
    "kb_vector_status (new_kb i name category now) = ST_PENDING" by (simp_all add: new_kb_def i_def)
  have a: "index_ok db1" "evolves None db db1" "kb_docs i db1 = []"
    using append_kb [OF assms(1) kb] by (simp_all add: db1_def i_def new_kb_def)
  have d: "kd_id d = db_fresh db1" "kd_kb_id d = i" "kd_kb_id d \<in> kb_id ` set (db_kbs db1)" "kd_chunk_count d = 0"
    "kd_vector_status d = ST_PENDING" by (simp_all add: d_def new_doc_def db1_def new_kb_def i_def)
  note b = append_doc [OF a(1) d(1,3,4,5)]
  have "kb_row_ok (db1\<lparr>db_docs := db_docs db1 @ [d], db_fresh := db_fresh db1 + 1\<rparr>) r"
    if r: "r \<in> set (db_kbs db1)" "kb_id r = i" for r
  proof -
    have "r = new_kb i name category now"
      using r index_ok_ids(2) [OF assms(1)] by (fastforce simp: db1_def i_def)
    then show ?thesis using b(4) a(3) d(2,4)
      by (simp add: kb_row_ok_def new_kb_def ST_PENDING_def ST_COMPLETED_def)
  qed
  with b(1) have "index_ok (db1\<lparr>db_docs := db_docs db1 @ [d], db_fresh := db_fresh db1 + 1\<rparr>)"
    by (intro index_ok_exceptI [where kid = i]) (simp_all add: d(2))
  with b(2,3) a(2) show ?thesis by (auto simp: good_session_def d(1,2) intro: evolves_trans) (simp add: db1_def)
qed

lemma finish: "op_inv (inv_with ws R) m \<Longrightarrow> (\<And>db. R db \<Longrightarrow> R' db) \<Longrightarrow> (\<And>db. R db \<Longrightarrow> R'' db)
    \<Longrightarrow> triple (inv_with ws R) m (\<lambda>_. inv_with ws R') (inv_with ws R'')"
  by (rule triple_weaken [OF triple_inv [where P = "inv_with ws R" and E = "inv_with ws R"]]) (auto simp: inv_with_def)

text \<open>\<open>keeps m\<close>: whatever the workers are doing, the request ends with the invariant.\<close>

definition keeps :: "'a kb_op \<Rightarrow> bool" where
  "keeps m \<longleftrightarrow> (\<forall>ws. op_inv (inv_with ws (\<lambda>_. True)) m)"

lemma keeps_triple: "(\<And>ws. triple (inv_with ws (\<lambda>_. True)) m (\<lambda>_. inv_with ws (\<lambda>_. True)) (inv_with ws (\<lambda>_. True))) \<Longrightarrow> keeps m"
  by (simp add: keeps_def op_inv_triple)

lemma triple_forget: "triple (inv_with ws R) m (\<lambda>x. inv_with ws (R' x)) (inv_with ws R'')
    \<Longrightarrow> triple (inv_with ws R) m (\<lambda>x. inv_with ws (R' x)) (inv_with ws (\<lambda>_. True))"
  by (erule triple_weaken) (auto simp: inv_with_def)

lemma inv_triple: "op_inv (inv_with ws R) m \<Longrightarrow> triple (inv_with ws R) m (\<lambda>_. inv_with ws R) (inv_with ws (\<lambda>_. True))"
  by (rule triple_inv) (auto simp: inv_with_def)

lemma enqueue_triple:
  "triple (inv_with ws (knows kid did)) (op_then (enqueue_vectorize env kid did) (op_return x)) (\<lambda>_. inv_with ws (\<lambda>_. True)) (inv_with ws (\<lambda>_. True))"
  by (rule triple_then [OF inv_triple [OF enqueue_inv] triple_return]) (auto simp: inv_with_def intro: knows_update_kb)

lemma upload_keeps: "keeps (upload env f name category)"
proof (rule keeps_triple)
  fix ws
  have sess: "triple (inv_with ws (\<lambda>_. True)) (in_session (\<lambda>now.
      op_bind (save_kb (\<lambda>i. new_kb i n c now)) (\<lambda>kb.
      op_bind (save_doc (\<lambda>i. new_doc env f i (kb_id kb) detected content key now)) (\<lambda>doc. op_return (kb, doc)))))
      (\<lambda>r. inv_with ws (knows (kb_id (fst r)) (kd_id (snd r)))) (inv_with ws (\<lambda>_. True))" for n c detected content key
  proof (rule in_session_triple)
    fix now db x db'
    assume db: "index_ok db" and run: "op_bind (save_kb (\<lambda>i. new_kb i n c now)) (\<lambda>kb.
      op_bind (save_doc (\<lambda>i. new_doc env f i (kb_id kb) detected content key now)) (\<lambda>doc. op_return (kb, doc))) db = (Inr x, db')"
    let ?i = "db_fresh db"
    let ?db1 = "db\<lparr>db_kbs := db_kbs db @ [new_kb ?i n c now], db_fresh := ?i + 1\<rparr>"
    have "x = (new_kb ?i n c now, new_doc env f (?i + 1) ?i detected content key now)"
      "db' = ?db1\<lparr>db_docs := db_docs ?db1 @ [new_doc env f (?i + 1) ?i detected content key now], db_fresh := db_fresh ?db1 + 1\<rparr>"
      using run by (auto simp: op_simps save_kb_run save_doc_run)
    with upload_session_good [OF db refl refl refl, of n c now env f detected content key]
    show "good_session None db db' \<and> knows (kb_id (fst x)) (kd_id (snd x)) db'" by simp
  qed
  show "triple (inv_with ws (\<lambda>_. True)) (upload env f name category) (\<lambda>_. inv_with ws (\<lambda>_. True)) (inv_with ws (\<lambda>_. True))"
    unfolding upload_def
    by (intro lift_bind triple_bind [OF inv_triple [OF store_file_inv]] triple_bind [OF sess])
      (auto intro: enqueue_triple split: prod.split)
qed

lemma add_document_keeps: "keeps (add_document env kid f)"
proof (rule keeps_triple)
  fix ws
  let ?R = "\<lambda>db. kid \<in> kb_id ` set (db_kbs db)"
  have sess: "triple (inv_with ws ?R) (in_session (\<lambda>now.
      op_bind (save_doc (\<lambda>i. new_doc env f i kid detected content key now)) (\<lambda>doc.
        op_then (op_modify (refresh_kb_aggregate kid)) (op_return doc))))
      (\<lambda>d. inv_with ws (knows kid (kd_id d))) (inv_with ws ?R)" for detected content key
  proof (rule in_session_triple)
    fix now db x db'
    assume db: "index_ok db" "?R db" and run: "op_bind (save_doc (\<lambda>i. new_doc env f i kid detected content key now)) (\<lambda>doc.
        op_then (op_modify (refresh_kb_aggregate kid)) (op_return doc)) db = (Inr x, db')"
    let ?d = "new_doc env f (db_fresh db) kid detected content key now"
    let ?db1 = "db\<lparr>db_docs := db_docs db @ [?d], db_fresh := db_fresh db + 1\<rparr>"
    have out: "x = ?d" "db' = refresh_kb_aggregate kid ?db1" using run by (auto simp: op_simps save_doc_run)
    have d: "kd_id ?d = db_fresh db" "kd_kb_id ?d = kid" "kd_chunk_count ?d = 0" "kd_vector_status ?d = ST_PENDING"
      by (simp_all add: new_doc_def)
    note a = append_doc [OF db(1) d(1) _ d(3,4), unfolded d(1,2), OF db(2)]
    have "knows kid (kd_id ?d) db'"
      using a(3) by (simp add: out(2) refresh_kb_aggregate_def Let_def knows_update_kb d(1))
    with refresh_restores(1) [OF a(1)] refresh_restores(2) [OF a(1), of None] a(2)
    show "good_session None db db' \<and> knows kid (kd_id x) db'"
      by (auto simp: out good_session_def intro: evolves_trans)
  qed
  have kb: "triple (inv_with ws (\<lambda>_. True)) (op_bind (require_kb kid) (\<lambda>_. op_return ())) (\<lambda>_. inv_with ws ?R) (inv_with ws (\<lambda>_. True))"
    by (rule triple_bind [OF require_kb_triple triple_return]) (auto simp: inv_with_def dest: find_kb_Some)
  have read: "triple (inv_with ws ?R) (db_read g) (\<lambda>_. inv_with ws ?R) (inv_with ws (\<lambda>_. True))" for g :: "KbDb \<Rightarrow> DocRow option"
    by (rule triple_weaken [OF db_read_triple [where E = "\<lambda>_. False"]]) (auto simp: inv_with_def)
  have weak: "inv_with ws ?R w \<Longrightarrow> inv_with ws (\<lambda>_. True) w" for w by (simp add: inv_with_def)
  show "triple (inv_with ws (\<lambda>_. True)) (add_document env kid f) (\<lambda>_. inv_with ws (\<lambda>_. True)) (inv_with ws (\<lambda>_. True))"
    unfolding add_document_def
    by (rule triple_then [OF kb], rule lift_bind [OF weak], assumption, rule triple_bind [OF read], rule triple_if,
        rule triple_raise [OF weak], assumption, rule lift_bind [OF weak], assumption,
        rule triple_bind [OF inv_triple [OF store_file_inv]], rule triple_bind [OF triple_forget [OF sess]], rule enqueue_triple)
qed

lemma require_true: "triple (inv_with ws (\<lambda>_. True)) (op_bind (require_kb kid) (\<lambda>_. op_return ())) (\<lambda>_. inv_with ws (\<lambda>_. True)) (inv_with ws (\<lambda>_. True))"
  by (rule triple_bind [OF require_kb_triple triple_return]) (auto simp: inv_with_def)

lemma read_triple:
  "triple (inv_with ws (\<lambda>_. True)) (db_read f) (\<lambda>x. inv_with ws (\<lambda>db. x = f db)) (inv_with ws (\<lambda>_. True))"
  by (rule triple_weaken [OF db_read_triple [where E = "\<lambda>_. False"]]) (auto simp: inv_with_def)

lemma inv_with_True: "inv_with ws R w \<Longrightarrow> inv_with ws (\<lambda>_. True) w"
  by (simp add: inv_with_def)

lemma delete_document_keeps: "keeps (delete_document env kid did)"
proof (rule keeps_triple)
  fix ws
  have sess: "triple (inv_with ws (\<lambda>db. Some d = find_doc did db)) (in_session (\<lambda>now. op_then (op_modify (delete_by_document_id did))
      (op_then (op_modify (delete_doc_row did)) (op_modify (refresh_kb_aggregate kid)))))
      (\<lambda>_. inv_with ws (\<lambda>_. True)) (inv_with ws (\<lambda>_. True))" if "kd_kb_id d = kid" for d
  proof (rule triple_forget [OF in_session_triple])
    fix now db x db'
    assume db: "index_ok db" "Some d = find_doc did db" and run: "op_then (op_modify (delete_by_document_id did))
      (op_then (op_modify (delete_doc_row did)) (op_modify (refresh_kb_aggregate kid))) db = (Inr x, db')"
    from find_doc_Some [OF db(2) [symmetric]] have "d \<in> set (db_docs db)" "kd_id d = did" by auto
    with delete_document_good [OF db(1)] run that show "good_session None db db' \<and> True"
      by (auto simp: op_simps)
  qed
  show "triple (inv_with ws (\<lambda>_. True)) (delete_document env kid did) (\<lambda>_. inv_with ws (\<lambda>_. True)) (inv_with ws (\<lambda>_. True))"
    unfolding delete_document_def
    by (rule triple_then [OF require_true], rule triple_bind [OF read_triple], rule triple_option, rule triple_raise,
        erule inv_with_True, rule triple_if, rule triple_raise, erule inv_with_True,
        rule triple_then [OF inv_triple [OF drop_file_inv]], simp only:, rule sess) simp
qed

lemma op_for_inv: "(\<And>x. x \<in> set xs \<Longrightarrow> op_inv P (f x)) \<Longrightarrow> op_inv P (op_for xs f)"
  by (induction xs) (auto intro: op_rules)

lemma delete_kb_keeps: "keeps (delete_kb env kid)"
proof (rule keeps_triple)
  fix ws
  have sess: "triple (inv_with ws R) (in_session (\<lambda>now. op_then (op_modify (delete_by_knowledge_base_id kid)) (op_modify (delete_kb_row kid))))
      (\<lambda>_. inv_with ws (\<lambda>_. True)) (inv_with ws (\<lambda>_. True))" for R
    by (rule triple_forget [OF in_session_triple]) (use delete_kb_good in \<open>auto simp: op_simps\<close>)
  show "triple (inv_with ws (\<lambda>_. True)) (delete_kb env kid) (\<lambda>_. inv_with ws (\<lambda>_. True)) (inv_with ws (\<lambda>_. True))"
    unfolding delete_kb_def
    by (rule triple_then [OF require_true], rule triple_bind [OF read_triple],
        rule triple_then [OF inv_triple [OF op_for_inv [OF drop_file_inv]]], rule sess)
qed

lemma docs_of_members: "set (docs_of kid db) = set (kb_docs kid db)"
  by (simp add: docs_of_def kb_docs_def)

lemma revectorize_keeps: "keeps (revectorize env kid)"
proof (rule keeps_triple)
  fix ws
  let ?K = "\<lambda>ds db. \<forall>d \<in> set ds. knows kid (kd_id d) db"
  have sess: "triple (inv_with ws (\<lambda>db. ds = docs_of kid db)) (in_session (\<lambda>now. op_then
      (op_for ds (\<lambda>d. op_modify (doc_update_vector_status (kd_id d) ST_PENDING None)))
      (op_modify (kb_update_vector_status kid ST_PENDING None)))) (\<lambda>_. inv_with ws (?K ds)) (inv_with ws (\<lambda>_. True))" for ds
  proof (rule triple_forget [OF in_session_triple])
    fix now db x db'
    assume db: "index_ok db" "ds = docs_of kid db" and run: "op_then
      (op_for ds (\<lambda>d. op_modify (doc_update_vector_status (kd_id d) ST_PENDING None)))
      (op_modify (kb_update_vector_status kid ST_PENDING None)) db = (Inr x, db')"
    have own: "\<forall>d \<in> set ds. \<forall>y \<in> set (db_docs db). kd_id y = kd_id d \<longrightarrow> kd_kb_id y = kid"
    proof (intro ballI impI)
      fix d y assume "d \<in> set ds" "y \<in> set (db_docs db)" "kd_id y = kd_id d"
      then have "d \<in> set (db_docs db)" "kd_kb_id d = kid" by (auto simp: db(2) docs_of_members kb_docs_def)
      moreover from this(1) have "y = d" using db(1) \<open>y \<in> set (db_docs db)\<close> \<open>kd_id y = kd_id d\<close>
        by (auto simp: index_ok_def base_ok_def distinct_map inj_on_def)
      ultimately show "kd_kb_id y = kid" by simp
    qed
    have "db' = kb_update_vector_status kid ST_PENDING None (fold (\<lambda>d. doc_update_vector_status (kd_id d) ST_PENDING None) ds db)"
      using run by (simp add: op_simps op_for_modify)
    with revectorize_good [OF db(1) own] have good: "good_session None db db'" by simp
    have "knows kid (kd_id d) db" if "d \<in> set ds" for d
    proof -
      have "d \<in> set (db_docs db)" using that by (simp add: db(2) docs_of_members kb_docs_def)
      from index_ok_ids(1) [OF db(1) this] own that show ?thesis by (simp add: knows_def payload_ok_def)
    qed
    then have "?K ds db'" using evolves_payload good unfolding knows_def good_session_def by blast
    with good show "good_session None db db' \<and> ?K ds db'" by simp
  qed
  have send: "op_inv (inv_with ws (?K ds)) (op_for ds (\<lambda>d. enqueue_vectorize env kid (kd_id d)))" for ds
    by (intro op_for_inv enqueue_inv) (auto intro: knows_update_kb)
  show "triple (inv_with ws (\<lambda>_. True)) (revectorize env kid) (\<lambda>_. inv_with ws (\<lambda>_. True)) (inv_with ws (\<lambda>_. True))"
    unfolding revectorize_def
    by (rule triple_then [OF require_true], rule triple_bind [OF read_triple], rule triple_then [OF sess],
        rule triple_weaken [OF inv_triple [OF send]]) (auto simp: inv_with_def)
qed

lemma update_category_keeps: "keeps (update_category kid category)"
proof (rule keeps_triple)
  fix ws
  have "kb_row_ok db (r\<lparr>kb_category := c\<rparr>) = kb_row_ok db r" for db r c by (simp add: kb_row_ok_def)
  then have "triple (inv_with ws (\<lambda>_. True)) (in_session (\<lambda>now. op_modify (update_kb kid (\<lambda>r. r\<lparr>kb_category := c\<rparr>))))
      (\<lambda>_. inv_with ws (\<lambda>_. True)) (inv_with ws (\<lambda>_. True))" for c
    by (intro in_session_triple) (auto simp: op_simps intro!: update_kb_good)
  then show "triple (inv_with ws (\<lambda>_. True)) (update_category kid category) (\<lambda>_. inv_with ws (\<lambda>_. True)) (inv_with ws (\<lambda>_. True))"
    unfolding update_category_def by (rule triple_then [OF require_true])
qed

lemma forget_keeps: "keeps m \<Longrightarrow> keeps (forget_result m)"
  unfolding keeps_def forget_result_def by (intro allI op_rules) blast

lemma kb_handle_keeps: "keeps (kb_handle env req)"
  by (cases req) (simp_all add: upload_keeps add_document_keeps delete_document_keeps delete_kb_keeps revectorize_keeps
      update_category_keeps forget_keeps)

section \<open>Every reachable state\<close>

lemma vec_step_ok: "vec_step denv env s s' \<Longrightarrow> vec_ok s \<Longrightarrow> vec_ok s'"
proof (induction rule: vec_step.induct)
  case (request s req)
  have "inv_with (vs_workers s) (\<lambda>_. True) (vs_world s)" using request by (cases s) (simp add: inv_with_def)
  with kb_handle_keeps [of denv req] have "inv_with (vs_workers s) (\<lambda>_. True) (snd (kb_handle denv req (vs_world s)))"
    unfolding keeps_def by (blast intro: op_invD)
  then show ?case by (simp add: inv_with_def vec_ok_def)
next
  case (deliver data s p)
  then have "payload_ok (kw_db (vs_world s)) p" by (auto simp: vec_ok_def vec_world_ok_def stream_ok_def)
  with deliver show ?case by (auto simp: vec_ok_def worker_ok_def jobs_distinct_def nth_append)
next
  case (work i s job fault x w')
  let ?x = "vs_workers s ! i" and ?db = "kw_db (vs_world s)"
  have x: "worker_ok ?db ?x" using work(1,4) by (simp add: vec_ok_def)
  have "pending job ?db = []" using work(2) by (auto simp: fresh_job_def pending_def filter_empty_conv)
  from worker_step_good [OF _ x this work(3)] work(4) have g: "step_good job ?x (vs_world s) x w'" by (simp add: vec_ok_def)
  have ev: "evolves (job_of ?x) ?db (kw_db w')" using g by (simp add: step_good_def good_session_def)
  have others: "worker_ok (kw_db w') (vs_workers s ! k)" if k: "k < length (vs_workers s)" "k \<noteq> i" for k
  proof (rule evolves_worker [OF ev])
    show "worker_ok ?db (vs_workers s ! k)" using work(4) k(1) by (simp add: vec_ok_def)
    show "job_of (vs_workers s ! k) \<noteq> Some j" if "job_of ?x = Some j" for j
      using work(1,4) k that by (auto simp: vec_ok_def jobs_distinct_def)
  qed
  have "\<forall>y \<in> set ((vs_workers s)[i := x]). worker_ok (kw_db w') y"
  proof
    fix y assume "y \<in> set ((vs_workers s)[i := x])"
    then obtain k where "k < length (vs_workers s)" "y = (vs_workers s)[i := x] ! k" by (auto simp: in_set_conv_nth)
    with g others [of k] show "worker_ok (kw_db w') y" by (cases "k = i") (simp_all add: step_good_def)
  qed
  moreover have "jobs_distinct ((vs_workers s)[i := x])"
    unfolding jobs_distinct_def
  proof (intro allI impI)
    fix a b j assume ab: "a < length ((vs_workers s)[i := x])" "b < length ((vs_workers s)[i := x])"
      "job_of ((vs_workers s)[i := x] ! a) = Some j" "job_of ((vs_workers s)[i := x] ! b) = Some j"
    have d: "c = d" if "c < length (vs_workers s)" "d < length (vs_workers s)" "job_of (vs_workers s ! c) = Some k"
      "job_of (vs_workers s ! d) = Some k" for c d k
      using work(4) that by (auto simp: vec_ok_def jobs_distinct_def)
    have new: "job_of x \<in> {None, job_of ?x, Some job}" using g by (simp add: step_good_def)
    have none: "job_of (vs_workers s ! c) \<noteq> Some job" if "c < length (vs_workers s)" for c
      using work(2) that by (auto simp: fresh_job_def)
    show "a = b"
    proof (cases "a = i \<or> b = i")
      case False
      with ab d [of a b j] show ?thesis by simp
    next
      case True
      then have "job_of x = Some j" using ab work(1) by auto
      then consider "job_of ?x = Some j" | "j = job" using new by auto
      then show ?thesis
      proof cases
        case 1
        then show ?thesis using ab d [of a i j] d [of i b j] work(1) by (auto simp: nth_list_update split: if_splits)
      next
        case 2
        then show ?thesis using ab none [of a] none [of b] work(1) by (auto simp: nth_list_update split: if_splits)
      qed
    qed
  qed
  moreover have "vec_world_ok w'" using g by (auto simp: step_good_def good_session_def vec_world_ok_def)
  ultimately show ?case by (simp add: vec_ok_def)
next
  case (crash s i)
  let ?ws = "take i (vs_workers s) @ drop (Suc i) (vs_workers s)"
  have "jobs_distinct ?ws"
    unfolding jobs_distinct_def
  proof (intro allI impI)
    fix a b j assume ab: "a < length ?ws" "b < length ?ws" "job_of (?ws ! a) = Some j" "job_of (?ws ! b) = Some j"
    have pos: "\<exists>c < length (vs_workers s). ?ws ! e = vs_workers s ! c \<and> c = (if e < i then e else Suc e)" if "e < length ?ws" for e
      using that by (auto simp: nth_append)
    obtain c where c: "c < length (vs_workers s)" "?ws ! a = vs_workers s ! c" "c = (if a < i then a else Suc a)"
      using pos [OF ab(1)] by blast
    obtain d where d: "d < length (vs_workers s)" "?ws ! b = vs_workers s ! d" "d = (if b < i then b else Suc b)"
      using pos [OF ab(2)] by blast
    have "c = d" using crash c d ab(3,4) by (simp add: vec_ok_def jobs_distinct_def)
    then show "a = b" using c(3) d(3) by (simp split: if_splits)
  qed
  then show ?case using crash by (auto simp: vec_ok_def dest: in_set_takeD in_set_dropD)
next
  case (elsewhere w' s)
  let ?db = "kw_db (vs_world s)" and ?db' = "kw_db w'"
  have v: "map (\<lambda>r. (kb_id r, kb_chunk_count r, kb_vector_status r)) (db_kbs ?db') = map (\<lambda>r. (kb_id r, kb_chunk_count r, kb_vector_status r)) (db_kbs ?db)"
    "db_docs ?db' = db_docs ?db" "db_vectors ?db' = db_vectors ?db" "kw_streams w' KB_VECTORIZE_STREAM = kw_streams (vs_world s) KB_VECTORIZE_STREAM"
    using elsewhere(1) by (simp_all add: vector_view_def)
  have ids: "map kb_id (db_kbs ?db') = map kb_id (db_kbs ?db)"
    using arg_cong [OF v(1), of "map fst"] by (simp add: comp_def)
  have ok: "index_ok ?db" using elsewhere(3) by (simp add: vec_ok_def vec_world_ok_def)
  have "base_ok ?db'" by (rule base_ok_kbs_cong [OF index_okD(1) [OF ok] ids v(2,3) elsewhere(2)])
  moreover have "kb_row_ok ?db' r" if r: "r \<in> set (db_kbs ?db')" for r
  proof -
    have "(kb_id r, kb_chunk_count r, kb_vector_status r) \<in> set (map (\<lambda>r. (kb_id r, kb_chunk_count r, kb_vector_status r)) (db_kbs ?db))"
      using r unfolding v(1) [symmetric] by simp
    then obtain r0 where r0: "r0 \<in> set (db_kbs ?db)" "kb_id r0 = kb_id r" "kb_chunk_count r0 = kb_chunk_count r"
      "kb_vector_status r0 = kb_vector_status r" by auto
    with index_okD(2) [OF ok r0(1)] show ?thesis by (simp add: kb_row_ok_def kb_docs_cong [OF v(2)])
  qed
  ultimately have ok': "index_ok ?db'" by (simp add: index_ok_def)
  have ev: "evolves None ?db ?db'"
    by (rule evolvesI) (use elsewhere(2) in \<open>auto simp: v(2) pending_cong [OF v(3)]\<close>)
  show ?case
    using elsewhere(3) ok' evolves_stream [OF ev] evolves_worker [OF ev] by (auto simp: vec_ok_def vec_world_ok_def v(4))
qed

lemma vec_reachable_ok: "vec_reachable denv env s \<Longrightarrow> vec_ok s"
proof (induction rule: vec_reachable.induct)
  case start
  show ?case
    by (simp add: vec_ok_def vec_world_ok_def index_ok_def base_ok_def vectors_ok_def stream_ok_def jobs_distinct_def empty_kb_world_def)
qed (rule vec_step_ok)

text \<open>The vectors of a knowledge base are those of its documents.\<close>

lemma length_filter_by_owner:
  assumes "distinct (map g ds)"
  shows "length (filter (\<lambda>v. (\<exists>d \<in> set ds. h v = Some (g d)) \<and> R v) vs)
     = sum_list (map (\<lambda>d. length (filter (\<lambda>v. h v = Some (g d) \<and> R v) vs)) ds)"
proof (induction vs)
  case (Cons v vs)
  have one: "sum_list (map (\<lambda>d. if h v = Some (g d) \<and> b then Suc (f d) else f d) ds)
      = (if (\<exists>d \<in> set ds. h v = Some (g d)) \<and> b then Suc (sum_list (map f ds)) else sum_list (map f ds))" for f b
    using assms by (induction ds) auto
  have "length (filter (\<lambda>v. h v = Some (g d) \<and> R v) (v # vs))
      = (if h v = Some (g d) \<and> R v then Suc (length (filter (\<lambda>v. h v = Some (g d) \<and> R v) vs))
         else length (filter (\<lambda>v. h v = Some (g d) \<and> R v) vs))" for d by simp
  then show ?case
    using Cons one [of "R v" "\<lambda>d. length (filter (\<lambda>v. h v = Some (g d) \<and> R v) vs)"] by simp
qed simp

lemma searchable_count:
  assumes "index_ok db"
  shows "int (length (searchable [kid] db)) = sum_list (map kd_chunk_count (kb_docs kid db))"
proof -
  have owner: "vr_kb_id v = Some kid \<longleftrightarrow> (\<exists>d \<in> set (kb_docs kid db). vr_document_id v = Some (kd_id d))"
    if v: "v \<in> set (db_vectors db)" "vr_job v = None" for v
  proof -
    from index_okD(5) [OF assms] v obtain y where y: "y \<in> set (db_docs db)" "vr_document_id v = Some (kd_id y)"
      "vr_kb_id v = Some (kd_kb_id y)" unfolding vectors_ok_def by blast
    have same: "d = y" if "d \<in> set (db_docs db)" "kd_id d = kd_id y" for d
      using assms that y(1) by (auto simp: index_ok_def base_ok_def distinct_map inj_on_def)
    show ?thesis
    proof
      assume "vr_kb_id v = Some kid"
      with y show "\<exists>d \<in> set (kb_docs kid db). vr_document_id v = Some (kd_id d)"
        by (intro bexI [of _ y]) (simp_all add: kb_docs_def)
    next
      assume "\<exists>d \<in> set (kb_docs kid db). vr_document_id v = Some (kd_id d)"
      then obtain d where d: "d \<in> set (db_docs db)" "kd_kb_id d = kid" "vr_document_id v = Some (kd_id d)"
        by (auto simp: kb_docs_def)
      with same [of d] y(2,3) show "vr_kb_id v = Some kid" by simp
    qed
  qed
  have "distinct (map kd_id (kb_docs kid db))"
    using assms by (simp add: index_ok_def base_ok_def kb_docs_def distinct_map_filter)
  from length_filter_by_owner [OF this, of vr_document_id "\<lambda>v. vr_job v = None" "db_vectors db"]
  have a: "length (filter (\<lambda>v. (\<exists>d \<in> set (kb_docs kid db). vr_document_id v = Some (kd_id d)) \<and> vr_job v = None) (db_vectors db))
      = sum_list (map (\<lambda>d. length (visible (kd_id d) db)) (kb_docs kid db))" by (simp add: visible_def)
  have b: "searchable [kid] db = filter (\<lambda>v. (\<exists>d \<in> set (kb_docs kid db). vr_document_id v = Some (kd_id d)) \<and> vr_job v = None) (db_vectors db)"
    unfolding searchable_def by (rule filter_cong [OF refl]) (use owner in auto)
  have c: "map kd_chunk_count (kb_docs kid db) = map (\<lambda>d. int (length (visible (kd_id d) db))) (kb_docs kid db)"
    using index_okD(3) [OF assms] by (auto simp: kb_docs_def doc_row_ok_def)
  have "int (sum_list (map f ds)) = sum_list (map (\<lambda>d. int (f d)) ds)" for f and ds :: "DocRow list"
    by (induction ds) simp_all
  then show ?thesis by (simp only: a b c)
qed



section \<open>A run\<close>

definition do_work :: "VecEnv \<Rightarrow> pystr \<Rightarrow> VecSystem \<Rightarrow> VecSystem" where
  "do_work env job s = (case worker_step env None job (vs_workers s ! 0) (vs_world s) of
     (Inl e, w') \<Rightarrow> s | (Inr x, w') \<Rightarrow> \<lparr>vs_world = w', vs_workers = (vs_workers s)[0 := x]\<rparr>)"

lemma do_work_reachable:
  assumes "vec_reachable denv env s" "vs_workers s \<noteq> []" "fresh_job job s"
  shows "vec_reachable denv env (do_work env job s)"
proof (cases "worker_step env None job (vs_workers s ! 0) (vs_world s)")
  case (Pair r w')
  show ?thesis
  proof (cases r)
    case (Inr x)
    with Pair vec_step.work [of 0 s job env None x w' denv] assms(2,3) have "vec_step denv env s (do_work env job s)"
      by (simp add: do_work_def)
    with assms(1) show ?thesis by (rule vec_reachable.step)
  qed (simp add: do_work_def Pair assms(1))
qed

definition sample_file :: UploadFile where
  "sample_file = \<lparr>uf_filename = ascii ''a.md'', uf_content_type = [], uf_data = [65, 66, 67, 68]\<rparr>"

definition sample_doc_env :: KbDocEnv where
  "sample_doc_env = \<lparr>de_detect = (\<lambda>f. ascii ''text/markdown''), de_allowed_types = [ascii ''text/markdown''], de_max_file_size = 10,
     de_hash = (\<lambda>d. d), de_parse = (\<lambda>f. Inr (uf_data f)), de_upload = (\<lambda>f. Inr (uf_filename f)), de_file_url = (\<lambda>k. k),
     de_delete_file = (\<lambda>k. Inr ()), de_exc_str = (\<lambda>e. []), de_lower = (\<lambda>s. s), de_ilike = (\<lambda>n k. False)\<rparr>"

definition sample_vec_env :: VecEnv where
  "sample_vec_env = \<lparr>ve_chunker = \<lparr>chunk_size = 3, chunk_overlap = 1, chunk_encoder = \<lparr>encode = (\<lambda>s. s), decode = (\<lambda>s. s)\<rparr>\<rparr>,
     ve_default_embeddings = Inr (), ve_embed = (\<lambda>cs. Inr (map (\<lambda>c. [1]) cs)), ve_exc_str = (\<lambda>e. [])\<rparr>"

definition sample_sent :: VecSystem where
  "sample_sent = \<lparr>vs_world = snd (kb_handle sample_doc_env (KR_Upload sample_file None None) empty_kb_world), vs_workers = []\<rparr>"

definition sample_taken :: VecSystem where
  "sample_taken = \<lparr>vs_world = vs_world sample_sent, vs_workers = [W_Start \<lparr>vp_kb_id = 1, vp_document_id = 2\<rparr> 0]\<rparr>"

definition sample_doc :: DocRow where
  "sample_doc = new_doc sample_doc_env sample_file 2 1 (ascii ''text/markdown'') [65, 66, 67, 68] (ascii ''a.md'') 0"

definition sample_message :: stream_message where
  "sample_message = vectorize_message \<lparr>vp_kb_id = 1, vp_document_id = 2\<rparr> 0"

lemma sample_sent_eq:
  "sample_sent = \<lparr>vs_world = \<lparr>kw_db = \<lparr>db_kbs = [new_kb 1 (Some (ascii ''a.md'')) None 0], db_docs = [sample_doc], db_bank = [],
      db_vectors = [], db_fresh = 3\<rparr>,
      kw_streams = (\<lambda>s. [])(KB_VECTORIZE_STREAM := [sample_message]), kw_faults = [], kw_storage = [ascii ''a.md''], kw_now = 0\<rparr>,
     vs_workers = []\<rparr>"
  by (simp add: sample_sent_def forget_result_def upload_def check_file_def validate_size_def parse_file_def store_file_def
      op_simps in_session_run save_kb_run save_doc_run enqueue_vectorize_def kb_send_task_def kb_xadd_def sample_message_def
      sample_doc_def empty_kb_world_def sample_file_def sample_doc_env_def py_strip_def is_space_def or_str_def)

lemma sample_taken_reachable: "vec_reachable sample_doc_env sample_vec_env sample_taken"
proof -
  have "vec_reachable sample_doc_env sample_vec_env sample_sent"
    using vec_reachable.step [OF vec_reachable.start vec_step.request [of sample_doc_env sample_vec_env _ "KR_Upload sample_file None None"]]
    by (simp add: sample_sent_def)
  moreover have "sample_message \<in> set (kw_streams (vs_world sample_sent) KB_VECTORIZE_STREAM)" by (simp add: sample_sent_eq)
  moreover have "gen_parse_retry sample_message = 0"
    by (simp add: sample_message_def gen_parse_retry_def vectorize_message_def KB_ID_FIELD_def FIELD_DOCUMENT_ID_def FIELD_RETRY_COUNT_def dict_get_default_def)
  ultimately show ?thesis
    using vec_reachable.step [OF _ vec_step.deliver [of sample_message sample_sent "\<lparr>vp_kb_id = 1, vp_document_id = 2\<rparr>"]]
    by (simp add: sample_taken_def sample_sent_def sample_message_def)
qed

lemmas run_evals = do_work_def step_to_run session_modify session_get op_simps vec_mark_processing_def find_doc_def update_doc_def
  doc_update_vector_status_def sync_kb_aggregate_def find_kb_def refresh_kb_aggregate_def list_statuses_by_kb_def
  sum_chunk_count_by_kb_def update_kb_def aggregate_vector_status_def ST_PENDING_def ST_PROCESSING_def ST_COMPLETED_def ST_FAILED_def
  insert_pending_def vec_promote_def promote_vector_job_def mark_vectorized_def delete_by_document_id_def vec_mark_completed_def
  Let_def

definition sample_state :: "pystr \<Rightarrow> int \<Rightarrow> DocRow \<Rightarrow> VectorRow list \<Rightarrow> Worker \<Rightarrow> VecSystem" where
  "sample_state st n d vs x = \<lparr>vs_world = \<lparr>kw_db = \<lparr>db_kbs = [(new_kb 1 (Some (ascii ''a.md'')) None 0)\<lparr>kb_vector_status := st, kb_chunk_count := n\<rparr>],
      db_docs = [d], db_bank = [], db_vectors = vs, db_fresh = 3\<rparr>,
      kw_streams = (\<lambda>s. [])(KB_VECTORIZE_STREAM := [sample_message]), kw_faults = [], kw_storage = [ascii ''a.md''], kw_now = 0\<rparr>,
     vs_workers = [x]\<rparr>"

definition sample_payload :: KbVectorizePayload where "sample_payload = \<lparr>vp_kb_id = 1, vp_document_id = 2\<rparr>"

definition sample_items :: "VectorItem list" where "sample_items = [([65, 66, 67], [1], 0), ([67, 68], [1], 1)]"

definition sample_vectors :: "pystr option \<Rightarrow> VectorRow list" where
  "sample_vectors job = map (\<lambda>(c, e, n). \<lparr>vr_content = c, vr_embedding = e, vr_kb_id = Some 1, vr_document_id = Some 2,
     vr_job = job, vr_chunk_index = n\<rparr>) sample_items"

definition claimed_doc :: DocRow where
  "claimed_doc = sample_doc\<lparr>kd_vector_status := ST_PROCESSING\<rparr>"

definition indexed_doc :: DocRow where
  "indexed_doc = claimed_doc\<lparr>kd_vector_job_id := Some [9], kd_chunk_count := 2, kd_vectorized_at := Some 0\<rparr>"

lemmas sample_defs = sample_state_def sample_payload_def sample_items_def sample_vectors_def claimed_doc_def indexed_doc_def
  sample_doc_def new_doc_def new_kb_def sample_file_def sample_doc_env_def

lemma sample_chunks:
  "split_text (ve_chunker sample_vec_env) [65, 66, 67, 68] = [[65, 66, 67], [67, 68]]"
  "embed_chunks sample_vec_env [[65, 66, 67], [67, 68]] = Inr [([65, 66, 67], [1], 0), ([67, 68], [1], 1)]"
  by (simp_all add: split_text_def windows_def windows_from.simps embed_chunks_def embed_in_batches.simps EMBEDDING_BATCH_SIZE_def
      vector_items_def sample_vec_env_def sample_items_def blank_def py_strip_def is_space_def take_Cons' drop_Cons' upt_conv_Cons)

lemma sample_steps:
  "sample_taken = sample_state ST_PENDING 0 sample_doc [] (W_Start sample_payload 0)"
  "do_work sample_vec_env [9] (sample_state ST_PENDING 0 sample_doc [] (W_Start sample_payload 0))
     = sample_state ST_PROCESSING 0 claimed_doc [] (W_Process sample_payload 0)"
  "do_work sample_vec_env [9] (sample_state ST_PROCESSING 0 claimed_doc [] (W_Process sample_payload 0))
     = sample_state ST_PROCESSING 0 claimed_doc [] (W_Embed sample_payload 0 [65, 66, 67, 68])"
  "do_work sample_vec_env [9] (sample_state ST_PROCESSING 0 claimed_doc [] (W_Embed sample_payload 0 [65, 66, 67, 68]))
     = sample_state ST_PROCESSING 0 claimed_doc [] (W_Insert sample_payload 0 [9] sample_items)"
  "do_work sample_vec_env [10] (sample_state ST_PROCESSING 0 claimed_doc [] (W_Insert sample_payload 0 [9] sample_items))
     = sample_state ST_PROCESSING 0 claimed_doc (sample_vectors (Some [9])) (W_Promote sample_payload 0 [9] sample_items)"
  "do_work sample_vec_env [10] (sample_state ST_PROCESSING 0 claimed_doc (sample_vectors (Some [9])) (W_Promote sample_payload 0 [9] sample_items))
     = sample_state ST_PROCESSING 2 indexed_doc (sample_vectors None) (W_Finish sample_payload 0)"
  "do_work sample_vec_env [10] (sample_state ST_PROCESSING 2 indexed_doc (sample_vectors None) (W_Finish sample_payload 0))
     = sample_state ST_COMPLETED 2 (indexed_doc\<lparr>kd_vector_status := ST_COMPLETED\<rparr>) (sample_vectors None) W_Ended"
  by (simp_all add: run_evals sample_chunks sample_defs sample_taken_def sample_sent_eq)

definition sample_final :: VecSystem where
  "sample_final = sample_state ST_COMPLETED 2 (indexed_doc\<lparr>kd_vector_status := ST_COMPLETED\<rparr>) (sample_vectors None) W_Ended"

lemma sample_final_reachable: "vec_reachable sample_doc_env sample_vec_env sample_final"
proof -
  have step: "vec_reachable sample_doc_env sample_vec_env (sample_state st n d vs x) \<Longrightarrow> fresh_job job (sample_state st n d vs x)
      \<Longrightarrow> do_work sample_vec_env job (sample_state st n d vs x) = s' \<Longrightarrow> vec_reachable sample_doc_env sample_vec_env s'"
    for st n d vs x job s'
    using do_work_reachable [of sample_doc_env sample_vec_env "sample_state st n d vs x" job] by (auto simp: sample_state_def)
  note fresh = fresh_job_def sample_state_def sample_vectors_def sample_items_def
  note r0 = sample_taken_reachable [unfolded sample_steps(1)]
  show ?thesis
    unfolding sample_final_def
    by (rule step [OF step [OF step [OF step [OF step [OF step [OF r0 _ sample_steps(2)] _ sample_steps(3)] _ sample_steps(4)]
          _ sample_steps(5)] _ sample_steps(6)] _ sample_steps(7)])
      (simp_all add: fresh)
qed



text \<open>
  The status of a knowledge base is not always the aggregate of its documents: when the broker
  is down, the producer marks the knowledge base FAILED and leaves the document PENDING.
\<close>

lemma enqueue_failure_diverges:
  "let w = snd (kb_handle sample_doc_env (KR_Upload sample_file None None) (empty_kb_world\<lparr>kw_faults := [True]\<rparr>))
   in map kb_vector_status (db_kbs (kw_db w)) = [ST_FAILED] \<and> list_statuses_by_kb 1 (kw_db w) = [ST_PENDING]
      \<and> aggregate_vector_status (list_statuses_by_kb 1 (kw_db w)) = ST_PROCESSING"
  by (simp add: Let_def forget_result_def upload_def check_file_def validate_size_def parse_file_def store_file_def
      op_simps in_session_run save_kb_run save_doc_run enqueue_vectorize_def kb_send_task_def kb_xadd_def empty_kb_world_def
      sample_file_def sample_doc_env_def py_strip_def is_space_def or_str_def vectorize_send_failed_def get_kb_def find_kb_def
      kb_update_vector_status_def update_kb_def list_statuses_by_kb_def new_doc_def new_kb_def aggregate_vector_status_def
      ST_PENDING_def ST_PROCESSING_def ST_COMPLETED_def ST_FAILED_def)

end
