(* ===== verification/Json_Utils.thy ===== *)
theory Json_Utils
  imports Question_Codec
begin

text \<open>
  \<open>infrastructure/json_utils.py\<close> and the readings of parsed values the services share: a broken
  column reads as an empty list. \<open>show\<close> is Python's \<open>str\<close> of a parsed value that is no string.
\<close>

definition json_loads_list :: "pystr option \<Rightarrow> json list" where
  "json_loads_list raw = (case raw of None \<Rightarrow> []
   | Some s \<Rightarrow> if s = [] then [] else (case loads s of Inr (JArr js) \<Rightarrow> js | _ \<Rightarrow> []))"

definition json_loads_dict_list :: "pystr option \<Rightarrow> (pystr, json) dict list" where
  "json_loads_dict_list raw = List.map_filter (\<lambda>j. case j of JObj d \<Rightarrow> Some d | _ \<Rightarrow> None) (json_loads_list raw)"

definition py_str_of :: "(json \<Rightarrow> pystr) \<Rightarrow> json \<Rightarrow> pystr" where
  "py_str_of show j = (case j of JStr s \<Rightarrow> s | _ \<Rightarrow> show j)"

definition read_string_list :: "(json \<Rightarrow> pystr) \<Rightarrow> pystr option \<Rightarrow> pystr list" where
  "read_string_list show raw = map (py_str_of show) (json_loads_list raw)"

text \<open>Reading into a field of a schema, where pydantic raises its validation error.\<close>

definition validation_error :: exn where "validation_error = ValueError (ascii ''validation error'')"

definition as_str_list :: "json \<Rightarrow> pystr list result" where
  "as_str_list j = (case j of JArr js \<Rightarrow> res_traverse as_str js | _ \<Rightarrow> Inl TypeError)"

definition validated :: "'a result \<Rightarrow> 'a result" where
  "validated r = (case r of Inl e \<Rightarrow> Inl validation_error | Inr x \<Rightarrow> Inr x)"

lemma json_loads_list_dumps: "json_wf (JArr js) \<Longrightarrow> json_loads_list (Some (dumps (JArr js))) = js"
proof -
  assume "json_wf (JArr js)"
  then have l: "loads (dumps (JArr js)) = Inr (JArr js)" by (rule loads_dumps)
  then have "dumps (JArr js) \<noteq> []" by (auto simp: loads_def)
  with l show ?thesis by (simp add: json_loads_list_def)
qed

lemma json_loads_dict_list_dumps:
  assumes "json_wf (JArr (map (\<lambda>x. JObj (f x)) xs))"
  shows "json_loads_dict_list (Some (dumps (JArr (map (\<lambda>x. JObj (f x)) xs)))) = map f xs"
  unfolding json_loads_dict_list_def json_loads_list_dumps [OF assms] by (simp add: map_filter_def comp_def)

lemma read_string_list_dumps: "read_string_list show (Some (dumps (JArr (map JStr ss)))) = ss"
proof -
  have "json_wf (JArr (map JStr ss))" by (simp add: list_all_iff)
  from json_loads_list_dumps [OF this] show ?thesis
    by (simp add: read_string_list_def comp_def py_str_of_def del: dumps.simps)
qed

lemma py_str_of_JStr [simp]: "py_str_of show (JStr s) = s"
  by (simp add: py_str_of_def)

lemma as_str_list_JStr [simp]: "as_str_list (JArr (map JStr ss)) = Inr ss"
  by (simp add: as_str_list_def)

lemma validated_Inr [simp]: "validated (Inr x) = Inr x"
  by (simp add: validated_def)

end
