(* ===== verification/Kb_Questions.thy ===== *)
theory Kb_Questions
  imports Kb_Index_System Session_Service Json_Utils
begin

text \<open>
  \<open>application/knowledgebase/question_service.py\<close> and \<open>interview_service.py\<close>: the questions of a
  bank as they are created, edited, listed and turned into an interview.
  \<open>show\<close> is Python's \<open>str\<close> of a parsed value that is no string.
\<close>

section \<open>Follow-ups in their column\<close>

text \<open>\<open>_write_follow_ups\<close> of the question service, which keeps all of them.\<close>

definition write_all_follow_ups :: "GeneratedFollowUp list \<Rightarrow> pystr" where
  "write_all_follow_ups values = dumps (JArr (map follow_up_json (clean_follow_ups values)))"

text \<open>\<open>model_validate\<close> of a follow-up: the camel case key, else the field name.\<close>

definition schema_get :: "(pystr, json) dict \<Rightarrow> pystr \<Rightarrow> pystr \<Rightarrow> json option" where
  "schema_get d alias name = (case dict_get d alias of Some v \<Rightarrow> Some v | None \<Rightarrow> dict_get d name)"

definition validate_follow_up :: "(pystr, json) dict \<Rightarrow> GeneratedFollowUp result" where
  "validate_follow_up d = validated (
     res_bind (case schema_get d (ascii ''question'') (ascii ''question'') of None \<Rightarrow> Inl TypeError | Some j \<Rightarrow> as_str j) (\<lambda>q.
     res_bind (case schema_get d (ascii ''referenceAnswer'') (ascii ''reference_answer'') of None \<Rightarrow> Inr None | Some j \<Rightarrow> as_opt as_str j) (\<lambda>ra.
     res_bind (case schema_get d (ascii ''keyPoints'') (ascii ''key_points'') of None \<Rightarrow> Inr [] | Some j \<Rightarrow> as_str_list j) (\<lambda>kp.
     res_bind (case schema_get d (ascii ''scoringRubric'') (ascii ''scoring_rubric'') of None \<Rightarrow> Inr None | Some j \<Rightarrow> as_opt as_str j) (\<lambda>sr.
     Inr \<lparr>gf_question = q, gf_reference_answer = ra, gf_key_points = kp, gf_scoring_rubric = sr\<rparr>)))))"

section \<open>The question service\<close>

definition require_non_blank :: "pystr option \<Rightarrow> pystr \<Rightarrow> pystr result" where
  "require_non_blank value msg = (case trim_to_none value of None \<Rightarrow> Inl (BusinessException BAD_REQUEST msg) | Some v \<Rightarrow> Inr v)"

definition normalize_difficulty :: "pystr option \<Rightarrow> pystr" where
  "normalize_difficulty difficulty =
     (let trimmed = or_str (trim_to_none difficulty) (ascii ''mid'')
      in if trimmed \<in> set VALID_DIFFICULTIES then trimmed else ascii ''mid'')"

record QuestionDTO =
  qd_id :: int
  qd_kb_id :: int
  qd_kb_name :: "pystr option"
  qd_skill_id :: pystr
  qd_difficulty :: "pystr option"
  qd_type :: "pystr option"
  qd_category :: "pystr option"
  qd_question :: pystr
  qd_topic_summary :: "pystr option"
  qd_reference_answer :: "pystr option"
  qd_key_points :: "pystr list"
  qd_scoring_rubric :: "pystr option"
  qd_follow_ups :: "GeneratedFollowUp list"
  qd_source_context :: "pystr option"
  qd_status :: pystr
  qd_created_at :: int
  qd_updated_at :: int

definition to_question_dto :: "(json \<Rightarrow> pystr) \<Rightarrow> pystr option \<Rightarrow> BankRow \<Rightarrow> QuestionDTO result" where
  "to_question_dto show name q =
     res_bind (res_traverse validate_follow_up (json_loads_dict_list (kq_follow_ups_json q))) (\<lambda>fus.
     Inr \<lparr>qd_id = kq_id q, qd_kb_id = kq_kb_id q, qd_kb_name = name, qd_skill_id = kq_skill_id q,
       qd_difficulty = kq_difficulty q, qd_type = kq_type q, qd_category = kq_category q, qd_question = kq_question q,
       qd_topic_summary = kq_topic_summary q, qd_reference_answer = kq_reference_answer q,
       qd_key_points = read_string_list show (kq_key_points_json q), qd_scoring_rubric = kq_scoring_rubric q,
       qd_follow_ups = fus, qd_source_context = kq_source_context q, qd_status = kq_status q,
       qd_created_at = kq_created_at q, qd_updated_at = kq_updated_at q\<rparr>)"

definition kb_name_of :: "int \<Rightarrow> KbDb \<Rightarrow> pystr option" where
  "kb_name_of kid db = (case find_kb kid db of None \<Rightarrow> None | Some kb \<Rightarrow> kb_name kb)"

definition to_dto_with_kb :: "(json \<Rightarrow> pystr) \<Rightarrow> BankRow \<Rightarrow> QuestionDTO kb_op" where
  "to_dto_with_kb show q = op_bind (db_read (kb_name_of (kq_kb_id q))) (\<lambda>name. op_lift (to_question_dto show name q))"

record CreateQuestionRequest =
  cr_difficulty :: "pystr option"
  cr_type :: "pystr option"
  cr_category :: pystr
  cr_question :: pystr
  cr_topic_summary :: "pystr option"
  cr_reference_answer :: "pystr option"
  cr_key_points :: "pystr list option"
  cr_scoring_rubric :: "pystr option"
  cr_follow_ups :: "GeneratedFollowUp list option"
  cr_source_context :: "pystr option"
  cr_status :: "pystr option"

definition or_list :: "'a list option \<Rightarrow> 'a list" where
  "or_list v = (case v of None \<Rightarrow> [] | Some xs \<Rightarrow> xs)"

definition new_question :: "CreateQuestionRequest \<Rightarrow> int \<Rightarrow> pystr \<Rightarrow> pystr \<Rightarrow> pystr option \<Rightarrow> int \<Rightarrow> int \<Rightarrow> BankRow" where
  "new_question req kid category question_text content_hash now i = \<lparr>kq_id = i, kq_kb_id = kid, kq_skill_id = KB_SKILL_ID,
     kq_difficulty = Some (normalize_difficulty (cr_difficulty req)), kq_type = trim_to_none (cr_type req),
     kq_category = Some category, kq_question = question_text, kq_topic_summary = trim_to_none (cr_topic_summary req),
     kq_reference_answer = trim_to_none (cr_reference_answer req),
     kq_key_points_json = Some (write_string_list (or_list (cr_key_points req))),
     kq_scoring_rubric = trim_to_none (cr_scoring_rubric req),
     kq_follow_ups_json = Some (write_all_follow_ups (or_list (cr_follow_ups req))),
     kq_source_context = trim_to_none (cr_source_context req), kq_content_hash = content_hash,
     kq_status = or_str (cr_status req) (ascii ''DRAFT''), kq_created_at = now, kq_updated_at = now\<rparr>"

definition save_question :: "(int \<Rightarrow> BankRow) \<Rightarrow> BankRow db_op" where
  "save_question row = op_bind (op_get db_fresh) (\<lambda>i. op_then
     (op_modify (\<lambda>db. db\<lparr>db_bank := db_bank db @ [row i], db_fresh := i + 1\<rparr>)) (op_return (row i)))"

definition create_question :: "(json \<Rightarrow> pystr) \<Rightarrow> int \<Rightarrow> CreateQuestionRequest \<Rightarrow> QuestionDTO kb_op" where
  "create_question show kid req =
     op_bind (require_kb kid) (\<lambda>kb.
     op_bind (op_lift (require_non_blank (Some (cr_category req)) [38754, 35797, 26041, 21521, 19981, 33021, 20026, 31354])) (\<lambda>category.
     op_bind (op_lift (require_non_blank (Some (cr_question req)) [39064, 24178, 19981, 33021, 20026, 31354])) (\<lambda>question_text.
     op_bind (in_session (\<lambda>now. op_bind (op_get (find_first_hash_by_kb kid)) (\<lambda>content_hash.
       save_question (new_question req kid category question_text content_hash now)))) (\<lambda>q.
     op_lift (to_question_dto show (kb_name kb) q)))))"

definition find_question :: "int \<Rightarrow> KbDb \<Rightarrow> BankRow option" where
  "find_question i db = find (\<lambda>q. kq_id q = i) (db_bank db)"

definition update_question_row :: "BankRow \<Rightarrow> KbDb \<Rightarrow> KbDb" where
  "update_question_row q db = db\<lparr>db_bank := map (\<lambda>x. if kq_id x = kq_id q then q else x) (db_bank db)\<rparr>"

definition get_question :: "int \<Rightarrow> BankRow kb_op" where
  "get_question i = op_bind (db_read (find_question i)) (\<lambda>q. case q of
     None \<Rightarrow> op_raise (business_exception INTERVIEW_QUESTION_NOT_FOUND None) | Some r \<Rightarrow> op_return r)"

record UpdateQuestionRequest =
  up_difficulty :: "pystr option"
  up_type :: "pystr option"
  up_category :: "pystr option"
  up_question :: "pystr option"
  up_topic_summary :: "pystr option"
  up_reference_answer :: "pystr option"
  up_key_points :: "pystr list option"
  up_scoring_rubric :: "pystr option"
  up_follow_ups :: "GeneratedFollowUp list option"
  up_source_context :: "pystr option"
  up_status :: "pystr option"

text \<open>A field that is not given keeps its value.\<close>

definition edit :: "'a option \<Rightarrow> ('a \<Rightarrow> 'b) \<Rightarrow> 'b \<Rightarrow> 'b" where
  "edit v f old = (case v of None \<Rightarrow> old | Some x \<Rightarrow> f x)"

definition edit_question :: "UpdateQuestionRequest \<Rightarrow> BankRow \<Rightarrow> int \<Rightarrow> BankRow result" where
  "edit_question req q now =
     res_bind (edit (up_category req) (\<lambda>c. res_map Some (require_non_blank (Some c) [38754, 35797, 26041, 21521, 19981, 33021, 20026, 31354])) (Inr (kq_category q))) (\<lambda>category.
     res_bind (edit (up_question req) (\<lambda>t. require_non_blank (Some t) [39064, 24178, 19981, 33021, 20026, 31354]) (Inr (kq_question q))) (\<lambda>question_text.
     Inr (q\<lparr>kq_difficulty := edit (up_difficulty req) (\<lambda>d. Some (normalize_difficulty (Some d))) (kq_difficulty q),
       kq_type := edit (up_type req) (\<lambda>t. trim_to_none (Some t)) (kq_type q),
       kq_category := category, kq_question := question_text,
       kq_topic_summary := edit (up_topic_summary req) (\<lambda>t. trim_to_none (Some t)) (kq_topic_summary q),
       kq_reference_answer := edit (up_reference_answer req) (\<lambda>t. trim_to_none (Some t)) (kq_reference_answer q),
       kq_key_points_json := edit (up_key_points req) (\<lambda>ps. Some (write_string_list ps)) (kq_key_points_json q),
       kq_scoring_rubric := edit (up_scoring_rubric req) (\<lambda>t. trim_to_none (Some t)) (kq_scoring_rubric q),
       kq_follow_ups_json := edit (up_follow_ups req) (\<lambda>fs. Some (write_all_follow_ups fs)) (kq_follow_ups_json q),
       kq_source_context := edit (up_source_context req) (\<lambda>t. trim_to_none (Some t)) (kq_source_context q),
       kq_status := edit (up_status req) (\<lambda>s. s) (kq_status q), kq_updated_at := now\<rparr>)))"

definition update_question :: "(json \<Rightarrow> pystr) \<Rightarrow> int \<Rightarrow> UpdateQuestionRequest \<Rightarrow> QuestionDTO kb_op" where
  "update_question show i req = op_bind (get_question i) (\<lambda>q.
     op_bind (in_session (\<lambda>now. op_bind (op_lift (edit_question req q now)) (\<lambda>q'.
       op_then (op_modify (update_question_row q')) (op_return q')))) (to_dto_with_kb show))"

definition update_question_status :: "(json \<Rightarrow> pystr) \<Rightarrow> int \<Rightarrow> pystr \<Rightarrow> QuestionDTO kb_op" where
  "update_question_status show i status = op_bind (get_question i) (\<lambda>q.
     op_bind (in_session (\<lambda>now. let q' = q\<lparr>kq_status := status, kq_updated_at := now\<rparr> in
       op_then (op_modify (update_question_row q')) (op_return q'))) (to_dto_with_kb show))"

definition delete_question :: "int \<Rightarrow> unit kb_op" where
  "delete_question i = op_bind (get_question i) (\<lambda>q.
     in_session (\<lambda>now. op_modify (\<lambda>db. db\<lparr>db_bank := filter (\<lambda>x. kq_id x \<noteq> kq_id q) (db_bank db)\<rparr>)))"

definition contains_keyword :: "(pystr \<Rightarrow> pystr) \<Rightarrow> BankRow \<Rightarrow> pystr \<Rightarrow> bool" where
  "contains_keyword lower q keyword = (\<exists>v \<in> set [Some (kq_question q), kq_reference_answer q, kq_scoring_rubric q,
      kq_topic_summary q, kq_category q]. case v of None \<Rightarrow> False | Some t \<Rightarrow> py_contains (lower keyword) (lower t))"

definition list_questions ::
  "(pystr \<Rightarrow> pystr) \<Rightarrow> (json \<Rightarrow> pystr) \<Rightarrow> int \<Rightarrow> pystr option \<Rightarrow> pystr option \<Rightarrow> pystr option \<Rightarrow> pystr option \<Rightarrow> nat \<Rightarrow> nat
     \<Rightarrow> KbDb \<Rightarrow> QuestionDTO list result" where
  "list_questions lower show kid status category difficulty keyword limit offset db =
     (let cat = trim_to_none category; dif = trim_to_none difficulty; key = trim_to_none keyword in
      res_map (py_window offset limit) (res_traverse (to_question_dto show (kb_name_of kid db))
        (filter (\<lambda>q. (cat = None \<or> kq_category q = cat) \<and> (dif = None \<or> kq_difficulty q = dif)
            \<and> (case key of None \<Rightarrow> True | Some k \<Rightarrow> contains_keyword lower q k))
          (list_by_knowledge_base kid status db))))"

record GenerateRequest =
  gr_difficulty :: "pystr option"
  gr_question_count :: int
  gr_follow_up_count :: "int option"
  gr_category_limit :: int
  gr_llm_provider :: "pystr option"

definition generation_config :: "GenerateRequest \<Rightarrow> GenerationConfig" where
  "generation_config req = \<lparr>gc_difficulty = normalize_difficulty (gr_difficulty req),
     gc_question_count = max 1 (gr_question_count req),
     gc_follow_up_count = (case gr_follow_up_count req of None \<Rightarrow> 2 | Some n \<Rightarrow> max 0 (min n 5)),
     gc_category_limit = max 1 (min (gr_category_limit req) 5),
     gc_llm_provider = trim_to_none (gr_llm_provider req)\<rparr>"

definition submit_generation_task :: "GenEnv \<Rightarrow> pystr \<Rightarrow> int \<Rightarrow> GenerateRequest \<Rightarrow> GenStatusResponse kb_op" where
  "submit_generation_task env uuid kid req =
     op_bind (in_session (create_task env uuid kid (generation_config req))) (\<lambda>response.
     op_bind (send_question_gen env \<lparr>qp_kb_id = kid, qp_task_id = uuid, qp_retry_count = 0\<rparr>) (\<lambda>sent.
     if sent then op_return response else in_session (get_gen_status env kid)))"

section \<open>Interviews from the bank\<close>

definition parse_usable_follow_up :: "(json \<Rightarrow> pystr) \<Rightarrow> (pystr, json) dict \<Rightarrow> QuestionBankFollowUp option result" where
  "parse_usable_follow_up show item =
     (let q = dict_get_default item (ascii ''question'') JNull in
      case trim_to_none (Some (py_str_of show (if json_truthy q then q else JStr []))) of
        None \<Rightarrow> Inr None
      | Some question_text \<Rightarrow>
          (let kp = dict_get_default item (ascii ''keyPoints'') JNull;
               opt = (\<lambda>k. case dict_get_default item k JNull of JNull \<Rightarrow> None | v \<Rightarrow> Some (py_str_of show v))
           in res_bind (json_iter (if json_truthy kp then kp else JArr [])) (\<lambda>points.
             Inr (Some \<lparr>bf_question = question_text, bf_reference_answer = opt (ascii ''referenceAnswer''),
               bf_key_points = map (py_str_of show) points, bf_scoring_rubric = opt (ascii ''scoringRubric'')\<rparr>))))"

definition parse_usable_follow_ups :: "(json \<Rightarrow> pystr) \<Rightarrow> pystr option \<Rightarrow> QuestionBankFollowUp list result" where
  "parse_usable_follow_ups show raw =
     res_map (List.map_filter id) (res_traverse (parse_usable_follow_up show) (json_loads_dict_list raw))"

definition to_candidate :: "(json \<Rightarrow> pystr) \<Rightarrow> BankRow \<Rightarrow> QuestionCandidate result" where
  "to_candidate show row = res_map (\<lambda>fus. \<lparr>qc_question = kq_question row, qc_type = kq_type row, qc_category = kq_category row,
     qc_topic_summary = kq_topic_summary row, qc_reference_answer = kq_reference_answer row,
     qc_key_points = read_string_list show (kq_key_points_json row), qc_scoring_rubric = kq_scoring_rubric row,
     qc_source_context = kq_source_context row, qc_follow_ups = fus\<rparr>)
     (parse_usable_follow_ups show (kq_follow_ups_json row))"

record CreateKbInterviewRequest =
  ci_kb_id :: int
  ci_category :: "pystr option"
  ci_difficulty :: "pystr option"
  ci_main_question_count :: int
  ci_follow_up_count :: int
  ci_llm_provider :: "pystr option"

text \<open>The paper of a new interview; \<open>draw\<close> and \<open>seed\<close> are the random source.\<close>

definition interview_paper ::
  "(json \<Rightarrow> pystr) \<Rightarrow> ('s \<Rightarrow> nat \<Rightarrow> nat \<times> 's) \<Rightarrow> 's \<Rightarrow> KbDb \<Rightarrow> CreateKbInterviewRequest \<Rightarrow> InterviewQuestion list result" where
  "interview_paper show draw seed db req = (case find_kb (ci_kb_id req) db of
     None \<Rightarrow> Inl (business_exception KNOWLEDGE_BASE_NOT_FOUND None)
   | Some kb \<Rightarrow>
       let category = trim_to_none (ci_category req); difficulty = normalize_difficulty (ci_difficulty req) in
       res_bind (res_traverse (to_candidate show) (find_active_questions (ci_kb_id req) difficulty category db)) (\<lambda>candidates.
       fst (assemble_interview_questions draw candidates (ci_main_question_count req) (ci_follow_up_count req) difficulty category seed)))"

definition create_kb_interview ::
  "(json \<Rightarrow> pystr) \<Rightarrow> ('s \<Rightarrow> nat \<Rightarrow> nat \<times> 's) \<Rightarrow> 's \<Rightarrow> pystr \<Rightarrow> KbDb \<Rightarrow> CreateKbInterviewRequest \<Rightarrow> InterviewSessionDTO world_op" where
  "create_kb_interview show draw seed uuid db req = op_bind (op_lift (interview_paper show draw seed db req)) (\<lambda>questions.
     create_session_from_questions uuid questions (ci_llm_provider req) KB_SKILL_ID (normalize_difficulty (ci_difficulty req))
       (Some (ci_kb_id req)) (trim_to_none (ci_category req)))"

record CapacityResponse =
  cp_kb_id :: int
  cp_category :: "pystr option"
  cp_difficulty :: pystr
  cp_main_question_count :: int
  cp_categories :: "CategoryOption list"
  cp_follow_up_options :: "FollowUpOption list"

definition get_capacity ::
  "(json \<Rightarrow> pystr) \<Rightarrow> KbDb \<Rightarrow> int \<Rightarrow> pystr option \<Rightarrow> pystr option \<Rightarrow> int \<Rightarrow> CapacityResponse result" where
  "get_capacity show db kid category difficulty main_count = (case find_kb kid db of
     None \<Rightarrow> Inl (business_exception KNOWLEDGE_BASE_NOT_FOUND None)
   | Some kb \<Rightarrow>
       let cat = trim_to_none category; dif = normalize_difficulty difficulty in
       res_bind (res_traverse (to_candidate show) (find_active_questions kid dif None db)) (\<lambda>candidates.
       let (categories, options) = calculate_interview_capacity candidates cat main_count MAX_FOLLOW_UP_COUNT in
       Inr \<lparr>cp_kb_id = kid, cp_category = cat, cp_difficulty = dif, cp_main_question_count = main_count,
         cp_categories = categories, cp_follow_up_options = options\<rparr>))"

section \<open>Round trip of the follow-up pool\<close>

definition bank_follow_up :: "GeneratedFollowUp \<Rightarrow> QuestionBankFollowUp" where
  "bank_follow_up f = \<lparr>bf_question = gf_question f, bf_reference_answer = gf_reference_answer f,
     bf_key_points = gf_key_points f, bf_scoring_rubric = gf_scoring_rubric f\<rparr>"

lemma dict_list_follow_ups:
  "json_loads_dict_list (Some (dumps (JArr (map follow_up_json fs))))
     = map (\<lambda>f. case follow_up_json f of JObj d \<Rightarrow> d | _ \<Rightarrow> []) fs"
proof -
  let ?d = "\<lambda>f. case follow_up_json f of JObj d \<Rightarrow> d | _ \<Rightarrow> []"
  have "follow_up_json = (\<lambda>f. JObj (?d f))" by (simp add: fun_eq_iff follow_up_json_def)
  then have eq: "map follow_up_json fs = map (\<lambda>f. JObj (?d f)) fs" by simp
  show ?thesis unfolding eq
    by (rule json_loads_dict_list_dumps) (simp add: follow_up_json_def list_all_iff ascii_def)
qed

lemma validate_follow_up_json: "validate_follow_up (case follow_up_json f of JObj d \<Rightarrow> d | _ \<Rightarrow> []) = Inr f"
  by (simp add: validate_follow_up_def follow_up_json_def schema_get_def ascii_def)

lemma parse_usable_json:
  assumes "py_strip (gf_question f) = gf_question f" "gf_question f \<noteq> []"
  shows "parse_usable_follow_up show (case follow_up_json f of JObj d \<Rightarrow> d | _ \<Rightarrow> []) = Inr (Some (bank_follow_up f))"
  using assms
  by (cases "gf_reference_answer f"; cases "gf_scoring_rubric f")
    (auto simp: parse_usable_follow_up_def follow_up_json_def dict_get_default_def ascii_def
      trim_to_none_def blank_def py_str_of_def opt_str_def bank_follow_up_def comp_def)

lemma clean_follow_ups_clean:
  "f \<in> set (clean_follow_ups fs) \<Longrightarrow> py_strip (gf_question f) = gf_question f \<and> gf_question f \<noteq> []"
  by (auto simp: clean_follow_ups_def clean_follow_up_def blank_def)

lemma res_traverse_const: "(\<And>x. x \<in> set xs \<Longrightarrow> f (g x) = Inr (h x)) \<Longrightarrow> res_traverse f (map g xs) = Inr (map h xs)"
  by (induction xs) auto

lemma pool_roundtrip:
  assumes "set gs \<subseteq> set (clean_follow_ups fs)" "raw = Some (dumps (JArr (map follow_up_json gs)))"
  shows "parse_usable_follow_ups show raw = Inr (map bank_follow_up gs)
    \<and> res_traverse validate_follow_up (json_loads_dict_list raw) = Inr gs"
proof -
  have "res_traverse (parse_usable_follow_up show) (json_loads_dict_list raw) = Inr (map (\<lambda>f. Some (bank_follow_up f)) gs)"
    unfolding assms(2) dict_list_follow_ups
    by (rule res_traverse_const) (use assms(1) in \<open>auto intro!: parse_usable_json dest!: clean_follow_ups_clean\<close>)
  moreover have "res_traverse validate_follow_up (json_loads_dict_list raw) = Inr (map (\<lambda>f. f) gs)"
    unfolding assms(2) dict_list_follow_ups by (rule res_traverse_const) (rule validate_follow_up_json)
  ultimately show ?thesis
    by (simp add: parse_usable_follow_ups_def map_filter_def comp_def)
qed

text \<open>
  C31. The follow-up pool survives its JSON column, for both writers (the editor keeps all follow-ups,
  the generator the first \<open>n\<close>) and both readers: the question service shows exactly the cleaned
  follow-ups, and the interview assembles from exactly the same ones.
\<close>
theorem follow_up_pool_roundtrip:
  "parse_usable_follow_ups show (Some (write_all_follow_ups fs)) = Inr (map bank_follow_up (clean_follow_ups fs))
   \<and> res_traverse validate_follow_up (json_loads_dict_list (Some (write_all_follow_ups fs))) = Inr (clean_follow_ups fs)
   \<and> parse_usable_follow_ups show (Some (write_follow_ups fs n)) = Inr (map bank_follow_up (take (nat n) (clean_follow_ups fs)))
   \<and> res_traverse validate_follow_up (json_loads_dict_list (Some (write_follow_ups fs n))) = Inr (take (nat n) (clean_follow_ups fs))"
  using pool_roundtrip [where gs = "clean_follow_ups fs" and fs = fs]
    pool_roundtrip [where gs = "take (nat n) (clean_follow_ups fs)" and fs = fs]
  by (simp add: write_all_follow_ups_def write_follow_ups_def set_take_subset)

section \<open>Interviews use the bank\<close>

lemma res_traverse_filter:
  assumes "res_traverse f xs = Inr ys" "\<And>x y. f x = Inr y \<Longrightarrow> Q y = P x"
  shows "res_traverse f (filter P xs) = Inr (filter Q ys)"
  using assms by (induction xs arbitrary: ys) (auto simp: res_bind_Inr_iff res_map_Inr_iff)

lemma res_traverse_in: "res_traverse f xs = Inr ys \<Longrightarrow> y \<in> set ys \<Longrightarrow> \<exists>x \<in> set xs. f x = Inr y"
  by (induction xs arbitrary: ys) (auto simp: res_bind_Inr_iff res_map_Inr_iff)

lemma in_bank_layout:
  assumes "q \<in> set (bank_layout ch k)" "list_all (valid_choice n) ch"
  shows "\<exists>c fs. (c, fs) \<in> set ch \<and> (if q_is_follow_up q then \<exists>f \<in> set (qc_follow_ups c). \<exists>m i. q = follow_up_entry m i c f
    else \<exists>m. q = main_entry m c)"
  using assms
proof (induction ch k rule: bank_layout.induct)
  case (2 c fs ch k)
  have fs: "set fs \<subseteq> set (qc_follow_ups c)"
    using 2(3) set_mset_mono [of "mset fs" "mset (qc_follow_ups c)"] by (simp add: valid_choice_def)
  from 2(2) consider "q = main_entry k c" | i f where "f \<in> set fs" "q = follow_up_entry k i c f"
    | "q \<in> set (bank_layout ch (k + 1 + length fs))"
    by (auto simp: enumerate_eq_zip dest: set_zip_rightD)
  then show ?case
  proof cases
    case 1
    then show ?thesis by (intro exI [of _ c] exI [of _ fs]) auto
  next
    case b: 2
    then show ?thesis using fs by (intro exI [of _ c] exI [of _ fs]) auto
  next
    case 3
    from 2(1) [OF 3] 2(3) obtain c' fs' where "(c', fs') \<in> set ch"
      "if q_is_follow_up q then \<exists>f \<in> set (qc_follow_ups c'). \<exists>m i. q = follow_up_entry m i c' f else \<exists>m. q = main_entry m c'"
      by auto
    then show ?thesis by (intro exI [of _ c'] exI [of _ fs']) simp
  qed
qed simp

lemma eligible_set: "c \<in> set (eligible n cs) \<Longrightarrow> c \<in> set cs"
  by (simp add: eligible_def)

lemma assembled_question:
  assumes "random_ok draw" "fst (assemble_interview_questions draw cs main_count fu difficulty category seed) = Inr qs"
    and "q \<in> set qs"
  obtains c where "c \<in> set cs"
    "if q_is_follow_up q then \<exists>f \<in> set (qc_follow_ups c). \<exists>m i. q = follow_up_entry m i c f else \<exists>m. q = main_entry m c"
proof -
  from assemble_cases [OF assms(1), where cands = cs and main_count = main_count and fu_count = fu and difficulty = difficulty
      and category = category and s = seed] obtain ch where
    ch: "qs = bank_layout ch 0" "mset (map fst ch) \<subseteq># mset (eligible fu cs)" "list_all (valid_choice fu) ch"
    unfolding assms(2) by auto
  from in_bank_layout [OF assms(3) [unfolded ch(1)] ch(3)] obtain c fs where
    c: "(c, fs) \<in> set ch" "if q_is_follow_up q then \<exists>f \<in> set (qc_follow_ups c). \<exists>m i. q = follow_up_entry m i c f
      else \<exists>m. q = main_entry m c" by blast
  from c(1) have "c \<in># mset (map fst ch)" by force
  with ch(2) have "c \<in># mset (eligible fu cs)" by (rule mset_subset_eqD)
  then have "c \<in> set cs" by (auto dest: eligible_set)
  from that [OF this c(2)] show ?thesis .
qed

definition usable_row :: "CreateKbInterviewRequest \<Rightarrow> BankRow \<Rightarrow> bool" where
  "usable_row req row \<longleftrightarrow> kq_kb_id row = ci_kb_id req \<and> kq_status row = ascii ''ACTIVE''
     \<and> kq_difficulty row = Some (normalize_difficulty (ci_difficulty req))
     \<and> (trim_to_none (ci_category req) = None \<or> kq_category row = trim_to_none (ci_category req))"

lemma active_row: "row \<in> set (find_active_questions kid difficulty category db) \<longleftrightarrow> row \<in> set (db_bank db) \<and> kq_kb_id row = kid
    \<and> kq_difficulty row = Some difficulty \<and> kq_status row = ascii ''ACTIVE'' \<and> (category = None \<or> kq_category row = category)"
  by (auto simp: find_active_questions_def bank_of_def)

definition sample_question :: BankRow where
  "sample_question = \<lparr>kq_id = 1, kq_kb_id = 1, kq_skill_id = KB_SKILL_ID, kq_difficulty = Some (ascii ''mid''), kq_type = None,
     kq_category = Some [82], kq_question = [81], kq_topic_summary = None, kq_reference_answer = Some [65],
     kq_key_points_json = None, kq_scoring_rubric = None, kq_follow_ups_json = None, kq_source_context = None,
     kq_content_hash = None, kq_status = ascii ''ACTIVE'', kq_created_at = 0, kq_updated_at = 0\<rparr>"

definition sample_bank_db :: KbDb where
  "sample_bank_db = sample_db\<lparr>db_bank := [sample_question, sample_question\<lparr>kq_id := 2, kq_status := ascii ''DRAFT''\<rparr>]\<rparr>"

abbreviation sample_request :: "int \<Rightarrow> CreateKbInterviewRequest" where
  "sample_request n \<equiv> \<lparr>ci_kb_id = 1, ci_category = Some [82], ci_difficulty = None, ci_main_question_count = n,
     ci_follow_up_count = 0, ci_llm_provider = None\<rparr>"

lemma sample_questions:
  "find_kb 1 sample_bank_db = Some sample_kb"
  "normalize_difficulty None = ascii ''mid''" "trim_to_none (Some [82]) = Some [82]"
  "find_active_questions 1 (ascii ''mid'') (Some [82]) sample_bank_db = [sample_question]"
  "find_active_questions 1 (ascii ''mid'') None sample_bank_db = [sample_question]"
  "\<exists>c. to_candidate show sample_question = Inr c \<and> qc_category c = Some [82]"
  by (simp_all add: sample_bank_db_def sample_db_def sample_kb_def find_kb_def normalize_difficulty_def trim_to_none_def
      or_str_def blank_def py_strip_def is_space_def VALID_DIFFICULTIES_def find_active_questions_def bank_of_def
      sample_question_def ascii_def to_candidate_def parse_usable_follow_ups_def json_loads_dict_list_def json_loads_list_def)

lemma sample_paper:
  "\<exists>q. interview_paper show (\<lambda>s n. (s mod n, s div n)) (3 :: nat) sample_bank_db (sample_request 1) = Inr [q]"
proof -
  obtain c where c: "to_candidate show sample_question = Inr c" using sample_questions(6) by blast
  show ?thesis
    by (simp add: interview_paper_def sample_questions c assemble_interview_questions_def eligible_def py_shuffle_def
        py_slice_to_def pick_follow_ups_def op_simps Let_def)
qed

text \<open>
  C24. A knowledge base interview asks only what the bank offers: for every random source, each main
  question of the paper is a question of this knowledge base that is ACTIVE and has the requested
  difficulty and category, with its reference answer and rubric, and each follow-up comes from the
  pool of such a question. Drafts and archived questions, and those of other bases, are never asked.
\<close>
theorem kb_interview_uses_active_questions:
  assumes "random_ok draw" "interview_paper show draw seed db req = Inr qs" "q \<in> set qs"
  shows "\<exists>row \<in> set (db_bank db). usable_row req row \<and>
    (if q_is_follow_up q
     then \<exists>pool. parse_usable_follow_ups show (kq_follow_ups_json row) = Inr pool
       \<and> (\<exists>f \<in> set pool. q_question q = bf_question f \<and> q_reference_answer q = bf_reference_answer f
            \<and> q_scoring_rubric q = bf_scoring_rubric f)
     else q_question q = kq_question row \<and> q_reference_answer q = kq_reference_answer row
       \<and> q_scoring_rubric q = kq_scoring_rubric row)"
proof -
  let ?dif = "normalize_difficulty (ci_difficulty req)" and ?cat = "trim_to_none (ci_category req)"
  from assms(2) obtain cs where
    cs: "res_traverse (to_candidate show) (find_active_questions (ci_kb_id req) ?dif ?cat db) = Inr cs"
      "fst (assemble_interview_questions draw cs (ci_main_question_count req) (ci_follow_up_count req) ?dif ?cat seed) = Inr qs"
    by (auto simp: interview_paper_def Let_def res_bind_Inr_iff split: option.splits)
  from assembled_question [OF assms(1) cs(2) assms(3)] obtain c where c: "c \<in> set cs"
    "if q_is_follow_up q then \<exists>f \<in> set (qc_follow_ups c). \<exists>m i. q = follow_up_entry m i c f else \<exists>m. q = main_entry m c" .
  from res_traverse_in [OF cs(1) c(1)] obtain row where
    row: "row \<in> set (find_active_questions (ci_kb_id req) ?dif ?cat db)" "to_candidate show row = Inr c" by blast
  then obtain pool where pool: "parse_usable_follow_ups show (kq_follow_ups_json row) = Inr pool"
    "qc_follow_ups c = pool" "qc_question c = kq_question row" "qc_reference_answer c = kq_reference_answer row"
    "qc_scoring_rubric c = kq_scoring_rubric row"
    by (auto simp: to_candidate_def res_map_Inr_iff)
  from row(1) have "row \<in> set (db_bank db)" "usable_row req row" by (auto simp: active_row usable_row_def)
  with c(2) pool show ?thesis
    by (intro bexI [of _ row]) (auto simp: main_entry_def follow_up_entry_def mk_question_def, blast)
qed

lemma kb_interview_uses_active_questions_witness:
  "\<exists>q. interview_paper (\<lambda>j. []) (\<lambda>s n. (s mod n, s div n)) (3 :: nat) sample_bank_db (sample_request 1) = Inr [q]
     \<and> list_ex (\<lambda>row. kq_status row = ascii ''ACTIVE'') (db_bank sample_bank_db)"
proof -
  obtain q where q: "interview_paper (\<lambda>j. []) (\<lambda>s n. (s mod n, s div n)) (3 :: nat) sample_bank_db (sample_request 1) = Inr [q]"
    using sample_paper by blast
  from kb_interview_uses_active_questions [OF random_ok_mod q, of q] q show ?thesis
    by (auto simp: usable_row_def list_ex_iff)
qed

section \<open>The preview is honest\<close>

lemma active_by_category:
  "find_active_questions kid dif cat db
     = filter (\<lambda>row. cat = None \<or> kq_category row = cat) (find_active_questions kid dif None db)"
  by (simp add: find_active_questions_def bank_of_def filter_sort conj_ac)

lemma capacity_paper:
  assumes "get_capacity show db kid category difficulty main_count = Inr resp"
  obtains cs where "cp_follow_up_options resp = snd (calculate_interview_capacity cs (trim_to_none category) main_count MAX_FOLLOW_UP_COUNT)"
    "\<And>draw seed n prov. interview_paper show draw seed db \<lparr>ci_kb_id = kid, ci_category = category, ci_difficulty = difficulty,
        ci_main_question_count = main_count, ci_follow_up_count = n, ci_llm_provider = prov\<rparr>
      = fst (assemble_interview_questions draw (scoped (trim_to_none category) cs) main_count n
          (normalize_difficulty difficulty) (trim_to_none category) seed)"
proof -
  let ?dif = "normalize_difficulty difficulty" and ?cat = "trim_to_none category"
  from assms obtain kb cs where kb: "find_kb kid db = Some kb"
    and cs: "res_traverse (to_candidate show) (find_active_questions kid ?dif None db) = Inr cs"
    and resp: "cp_follow_up_options resp = snd (calculate_interview_capacity cs ?cat main_count MAX_FOLLOW_UP_COUNT)"
    by (auto simp: get_capacity_def Let_def res_bind_Inr_iff case_prod_beta split: option.splits)
  have "res_traverse (to_candidate show) (find_active_questions kid ?dif ?cat db) = Inr (scoped ?cat cs)"
    unfolding active_by_category [of kid ?dif ?cat] scoped_def
    by (rule res_traverse_filter [OF cs]) (auto simp: to_candidate_def res_map_Inr_iff)
  with kb have "interview_paper show draw seed db \<lparr>ci_kb_id = kid, ci_category = category, ci_difficulty = difficulty,
        ci_main_question_count = main_count, ci_follow_up_count = n, ci_llm_provider = prov\<rparr>
      = fst (assemble_interview_questions draw (scoped ?cat cs) main_count n ?dif ?cat seed)" for draw :: "'s \<Rightarrow> nat \<Rightarrow> nat \<times> 's" and seed n prov
    by (simp add: interview_paper_def Let_def)
  with resp that show ?thesis by blast
qed

text \<open>
  C29. The capacity preview and the creation of the interview agree, although the first filters the
  category in Python over all candidates and the second in SQL: a follow-up level is offered as
  selectable exactly when creating an interview with the same parameters gives a paper, for every
  random source.
\<close>
theorem capacity_is_honest:
  assumes "get_capacity show db kid category difficulty main_count = Inr resp"
    and "random_ok draw" "0 < main_count" "0 \<le> n" "n \<le> MAX_FOLLOW_UP_COUNT"
  shows "fo_selectable (cp_follow_up_options resp ! nat n) \<longleftrightarrow>
    (\<exists>qs. interview_paper show draw seed db \<lparr>ci_kb_id = kid, ci_category = category, ci_difficulty = difficulty,
        ci_main_question_count = main_count, ci_follow_up_count = n, ci_llm_provider = prov\<rparr> = Inr qs)"
proof -
  from capacity_paper [OF assms(1)] obtain cs where
    cs: "cp_follow_up_options resp = snd (calculate_interview_capacity cs (trim_to_none category) main_count MAX_FOLLOW_UP_COUNT)"
    "\<And>n prov. interview_paper show draw seed db \<lparr>ci_kb_id = kid, ci_category = category, ci_difficulty = difficulty,
        ci_main_question_count = main_count, ci_follow_up_count = n, ci_llm_provider = prov\<rparr>
      = fst (assemble_interview_questions draw (scoped (trim_to_none category) cs) main_count n
          (normalize_difficulty difficulty) (trim_to_none category) seed)" by metis
  show ?thesis
    unfolding cs by (rule selectable_iff_assembles [OF assms(2-)])
qed

lemma capacity_is_honest_witness:
  "\<exists>resp. get_capacity (\<lambda>j. []) sample_bank_db 1 (Some [82]) None 1 = Inr resp
     \<and> fo_selectable (cp_follow_up_options resp ! nat 0)"
proof -
  obtain c where c: "to_candidate (\<lambda>j. []) sample_question = Inr c" using sample_questions(6) by blast
  obtain resp where resp: "get_capacity (\<lambda>j. []) sample_bank_db 1 (Some [82]) None 1 = Inr resp"
    by (simp add: get_capacity_def sample_questions c case_prod_beta Let_def)
  have "(0 :: int) < 1" "(0 :: int) \<le> 0" "0 \<le> MAX_FOLLOW_UP_COUNT" by (simp_all add: MAX_FOLLOW_UP_COUNT_def)
  from capacity_is_honest [OF resp random_ok_mod this, of 3 None] sample_paper [of "\<lambda>j. []"] have
    "fo_selectable (cp_follow_up_options resp ! nat 0)" by blast
  with resp show ?thesis by blast
qed

end
