(* ===== verification/Voice_Store.thy ===== *)
theory Voice_Store
  imports Interview_Store Voice_Dialogue Json_Utils
begin

text \<open>
  What the voice interview keeps: the rows of \<open>db/models/voice_interview.py\<close>, the queries of
  \<open>voice_interview_repository.py\<close>, the Redis hash of \<open>voice_session_cache.py\<close> and the stream of
  \<open>voice_evaluate_producer.py\<close>. Times are microseconds. A session of the database is an operation
  that takes effect when it returns and is rolled back when it raises; it may also fail by
  itself, and so may every Redis call: \<open>vw_db_faults\<close> and \<open>vw_faults\<close> say which calls do.
\<close>

section \<open>Values of the enumerations\<close>

fun phase_value :: "InterviewPhase \<Rightarrow> pystr" where
  "phase_value P_INTRO = ascii ''INTRO''"
| "phase_value P_TECH = ascii ''TECH''"
| "phase_value P_PROJECT = ascii ''PROJECT''"
| "phase_value P_HR = ascii ''HR''"
| "phase_value P_COMPLETED = ascii ''COMPLETED''"

text \<open>Calling an enumeration on a value: the member, or a \<open>ValueError\<close>.\<close>

definition enum_of :: "('e \<Rightarrow> pystr) \<Rightarrow> 'e list \<Rightarrow> pystr \<Rightarrow> 'e result" where
  "enum_of val members s = (case find (\<lambda>e. val e = s) members of None \<Rightarrow> Inl (ValueError s) | Some e \<Rightarrow> Inr e)"

definition parse_voice_status :: "pystr \<Rightarrow> VoiceSessionStatus result" where
  "parse_voice_status = enum_of voice_status_value [V_IN_PROGRESS, V_PAUSED, V_COMPLETED, V_FAILED]"

definition parse_phase :: "pystr \<Rightarrow> InterviewPhase result" where
  "parse_phase = enum_of phase_value [P_INTRO, P_TECH, P_PROJECT, P_HR, P_COMPLETED]"

lemma voice_status_values [simp]: "voice_status_value a = voice_status_value b \<longleftrightarrow> a = b"
  by (cases a; cases b) (simp_all add: ascii_def)

lemma phase_values [simp]: "phase_value a = phase_value b \<longleftrightarrow> a = b"
  by (cases a; cases b) (simp_all add: ascii_def)

lemma parse_voice_status_value [simp]: "parse_voice_status (voice_status_value a) = Inr a"
  by (cases a) (simp_all add: parse_voice_status_def enum_of_def del: voice_status_value.simps)

lemma parse_phase_value [simp]: "parse_phase (phase_value p) = Inr p"
  by (cases p) (simp_all add: parse_phase_def enum_of_def del: phase_value.simps)

lemma enum_of_Inr: "enum_of val members s = Inr e \<Longrightarrow> s = val e"
  by (auto simp: enum_of_def find_Some_iff split: option.splits)

lemma parse_voice_status_Inr: "parse_voice_status s = Inr a \<Longrightarrow> s = voice_status_value a"
  unfolding parse_voice_status_def by (rule enum_of_Inr)

lemma parse_phase_Inr: "parse_phase s = Inr p \<Longrightarrow> s = phase_value p"
  unfolding parse_phase_def by (rule enum_of_Inr)

section \<open>Rows\<close>

record VoiceRow =
  vi_id :: int
  vi_user_id :: pystr
  vi_role_type :: pystr
  vi_skill_id :: pystr
  vi_difficulty :: pystr
  vi_custom_jd_text :: "pystr option"
  vi_resume_id :: "int option"
  vi_intro_enabled :: bool
  vi_tech_enabled :: bool
  vi_project_enabled :: bool
  vi_hr_enabled :: bool
  vi_llm_provider :: "pystr option"
  vi_current_phase :: pystr
  vi_status :: pystr
  vi_planned_duration :: int
  vi_actual_duration :: "int option"
  vi_start_time :: int
  vi_end_time :: "int option"
  vi_created_at :: int
  vi_updated_at :: int
  vi_paused_at :: "int option"
  vi_resumed_at :: "int option"
  vi_evaluate_status :: "pystr option"
  vi_evaluate_error :: "pystr option"

record VoiceMsgRow =
  vmr_id :: int
  vmr_session_id :: int
  vmr_message_type :: pystr
  vmr_phase :: pystr
  vmr_user_recognized_text :: "pystr option"
  vmr_ai_generated_text :: "pystr option"
  vmr_timestamp :: int
  vmr_sequence_num :: int

record VoiceEvalRow =
  vev_id :: int
  vev_session_id :: int
  vev_overall_score :: "int option"
  vev_overall_feedback :: "pystr option"
  vev_question_evaluations_json :: "pystr option"
  vev_strengths_json :: "pystr option"
  vev_improvements_json :: "pystr option"
  vev_reference_answers_json :: "pystr option"
  vev_interviewer_role :: "pystr option"
  vev_interview_date :: "int option"

record VoiceDb =
  vdb_sessions :: "VoiceRow list"
  vdb_messages :: "VoiceMsgRow list"
  vdb_evals :: "VoiceEvalRow list"
  vdb_resumes :: "(int \<times> pystr option) list"
  vdb_fresh :: int

record VoiceWorld =
  vw_db :: VoiceDb
  vw_cache :: "pystr \<Rightarrow> (pystr, pystr) dict"
  vw_stream :: "stream_message list"
  vw_degraded :: "(pystr, pystr) dict"
  vw_faults :: "bool list"
  vw_db_faults :: "bool list"
  vw_now :: int

type_synonym 'a voice_op = "(VoiceWorld, 'a) op"
type_synonym 'a vdb_op = "(VoiceDb, 'a) op"

section \<open>Sessions and Redis\<close>

definition DbError :: exn where "DbError = RuntimeError (ascii ''OperationalError'')"

definition in_tx :: "(int \<Rightarrow> 'a vdb_op) \<Rightarrow> 'a voice_op" where
  "in_tx m = (\<lambda>w. case vw_db_faults w of
     True # fs \<Rightarrow> (Inl DbError, w\<lparr>vw_db_faults := fs\<rparr>)
   | fs \<Rightarrow> (case m (vw_now w) (vw_db w) of
       (Inl e, _) \<Rightarrow> (Inl e, w\<lparr>vw_db_faults := tl fs\<rparr>)
     | (Inr x, db) \<Rightarrow> (Inr x, w\<lparr>vw_db_faults := tl fs, vw_db := db\<rparr>)))"

definition voice_redis :: "(VoiceWorld \<Rightarrow> VoiceWorld) \<Rightarrow> unit voice_op" where
  "voice_redis f = (\<lambda>w. case vw_faults w of
     True # fs \<Rightarrow> (Inl RedisError, w\<lparr>vw_faults := fs\<rparr>)
   | fs \<Rightarrow> (Inr (), f (w\<lparr>vw_faults := tl fs\<rparr>)))"

section \<open>The repository\<close>

definition find_voice :: "int \<Rightarrow> VoiceDb \<Rightarrow> VoiceRow option" where
  "find_voice i db = find (\<lambda>r. vi_id r = i) (vdb_sessions db)"

text \<open>
  Assigning attributes of a loaded row. The flush writes only what changed, and with it
  \<open>updated_at\<close>.
\<close>

definition touch_voice :: "int \<Rightarrow> (VoiceRow \<Rightarrow> VoiceRow) \<Rightarrow> VoiceRow \<Rightarrow> VoiceRow" where
  "touch_voice now f r = (if f r = r then r else (f r)\<lparr>vi_updated_at := now\<rparr>)"

definition update_voice :: "int \<Rightarrow> (VoiceRow \<Rightarrow> VoiceRow) \<Rightarrow> int \<Rightarrow> VoiceDb \<Rightarrow> VoiceDb" where
  "update_voice i f now db =
     db\<lparr>vdb_sessions := map (\<lambda>r. if vi_id r = i then touch_voice now f r else r) (vdb_sessions db)\<rparr>"

definition save_voice_session :: "(int \<Rightarrow> VoiceRow) \<Rightarrow> VoiceRow vdb_op" where
  "save_voice_session row = op_bind (op_get vdb_fresh) (\<lambda>i. op_then
     (op_modify (\<lambda>db. db\<lparr>vdb_sessions := vdb_sessions db @ [row i], vdb_fresh := i + 1\<rparr>)) (op_return (row i)))"

definition list_by_user :: "pystr \<Rightarrow> pystr option \<Rightarrow> VoiceDb \<Rightarrow> VoiceRow list" where
  "list_by_user user status db = sort_key (\<lambda>r. - vi_updated_at r)
     (filter (\<lambda>r. vi_user_id r = user \<and> (status = None \<or> Some (vi_status r) = status)) (vdb_sessions db))"

text \<open>Messages and the evaluation go with the session.\<close>

definition delete_voice_row :: "int \<Rightarrow> VoiceDb \<Rightarrow> VoiceDb" where
  "delete_voice_row i db = db\<lparr>vdb_sessions := filter (\<lambda>r. vi_id r \<noteq> i) (vdb_sessions db),
     vdb_messages := filter (\<lambda>m. vmr_session_id m \<noteq> i) (vdb_messages db),
     vdb_evals := filter (\<lambda>e. vev_session_id e \<noteq> i) (vdb_evals db)\<rparr>"

definition voice_update_evaluate_status :: "int \<Rightarrow> pystr \<Rightarrow> pystr option \<Rightarrow> int \<Rightarrow> VoiceDb \<Rightarrow> VoiceDb" where
  "voice_update_evaluate_status i status err = update_voice i (\<lambda>r. r\<lparr>vi_evaluate_status := Some status, vi_evaluate_error := err\<rparr>)"

definition voice_update_current_phase :: "int \<Rightarrow> pystr \<Rightarrow> int \<Rightarrow> VoiceDb \<Rightarrow> VoiceDb" where
  "voice_update_current_phase i phase = update_voice i (\<lambda>r. r\<lparr>vi_current_phase := phase\<rparr>)"

definition voice_pause_row :: "int \<Rightarrow> int \<Rightarrow> VoiceDb \<Rightarrow> VoiceDb" where
  "voice_pause_row i now = update_voice i (\<lambda>r. r\<lparr>vi_status := voice_status_value V_PAUSED, vi_paused_at := Some now\<rparr>) now"

text \<open>The unique constraint on session and sequence number, and the foreign key, refuse a row.\<close>

definition save_voice_message :: "(int \<Rightarrow> VoiceMsgRow) \<Rightarrow> unit vdb_op" where
  "save_voice_message row = op_bind (op_get (\<lambda>db. db)) (\<lambda>db.
     let m = row (vdb_fresh db) in
     if find_voice (vmr_session_id m) db = None
       \<or> (\<exists>x \<in> set (vdb_messages db). vmr_session_id x = vmr_session_id m \<and> vmr_sequence_num x = vmr_sequence_num m)
     then op_raise (RuntimeError (ascii ''IntegrityError''))
     else op_modify (\<lambda>db. db\<lparr>vdb_messages := vdb_messages db @ [m], vdb_fresh := vdb_fresh db + 1\<rparr>))"

definition messages_of :: "int \<Rightarrow> VoiceDb \<Rightarrow> VoiceMsgRow list" where
  "messages_of i db = sort_key vmr_sequence_num (filter (\<lambda>m. vmr_session_id m = i) (vdb_messages db))"

definition count_messages_by_session :: "int \<Rightarrow> VoiceDb \<Rightarrow> int" where
  "count_messages_by_session i db = int (length (filter (\<lambda>m. vmr_session_id m = i) (vdb_messages db)))"

definition count_messages_by_sessions :: "int list \<Rightarrow> VoiceDb \<Rightarrow> (int, int) dict" where
  "count_messages_by_sessions pks db =
     map (\<lambda>i. (i, count_messages_by_session i db))
       (remdups (filter (\<lambda>i. i \<in> set pks) (map vmr_session_id (vdb_messages db))))"

definition unanswered :: "VoiceMsgRow \<Rightarrow> bool" where
  "unanswered m \<longleftrightarrow> vmr_user_recognized_text m = None \<and> vmr_ai_generated_text m \<noteq> None"

definition find_latest_unanswered_message :: "int \<Rightarrow> VoiceDb \<Rightarrow> VoiceMsgRow option" where
  "find_latest_unanswered_message i db = find unanswered (rev (messages_of i db))"

definition answer_message :: "VoiceMsgRow \<Rightarrow> pystr \<Rightarrow> VoiceDb \<Rightarrow> VoiceDb" where
  "answer_message m answer db = db\<lparr>vdb_messages :=
     map (\<lambda>x. if vmr_id x = vmr_id m then x\<lparr>vmr_user_recognized_text := Some answer\<rparr> else x) (vdb_messages db)\<rparr>"

definition get_evaluation_by_session :: "int \<Rightarrow> VoiceDb \<Rightarrow> VoiceEvalRow option" where
  "get_evaluation_by_session i db = find (\<lambda>e. vev_session_id e = i) (vdb_evals db)"

text \<open>The updates in bulk, which write \<open>updated_at\<close> of every row they match.\<close>

definition bulk_update :: "(VoiceRow \<Rightarrow> bool) \<Rightarrow> (VoiceRow \<Rightarrow> VoiceRow) \<Rightarrow> int \<Rightarrow> VoiceDb \<Rightarrow> VoiceDb" where
  "bulk_update P f now db =
     db\<lparr>vdb_sessions := map (\<lambda>r. if P r then (f r)\<lparr>vi_updated_at := now\<rparr> else r) (vdb_sessions db)\<rparr>"

definition idle_since :: "int \<Rightarrow> VoiceRow \<Rightarrow> bool" where
  "idle_since threshold r \<longleftrightarrow> vi_status r = voice_status_value V_IN_PROGRESS \<and> vi_updated_at r < threshold"

definition bulk_pause_idle_in_progress :: "int \<Rightarrow> int \<Rightarrow> VoiceDb \<Rightarrow> VoiceDb" where
  "bulk_pause_idle_in_progress threshold now = bulk_update (idle_since threshold)
     (\<lambda>r. r\<lparr>vi_status := voice_status_value V_PAUSED, vi_paused_at := Some now\<rparr>) now"

definition bulk_complete_zombie_sessions :: "int \<Rightarrow> int \<Rightarrow> VoiceDb \<Rightarrow> VoiceDb" where
  "bulk_complete_zombie_sessions threshold now = bulk_update (idle_since threshold)
     (\<lambda>r. r\<lparr>vi_status := voice_status_value V_COMPLETED, vi_end_time := Some now, vi_current_phase := phase_value P_COMPLETED\<rparr>) now"

definition EVAL_TIMEOUT_ERROR :: pystr where "EVAL_TIMEOUT_ERROR = [35780, 20272, 36229, 26102, 65292, 35831, 37325, 26032, 35302, 21457]"

definition bulk_fail_stuck_evaluations :: "int \<Rightarrow> int \<Rightarrow> VoiceDb \<Rightarrow> VoiceDb" where
  "bulk_fail_stuck_evaluations threshold now = bulk_update
     (\<lambda>r. vi_evaluate_status r = Some (task_status_value T_PROCESSING) \<and> vi_updated_at r < threshold)
     (\<lambda>r. r\<lparr>vi_evaluate_status := Some (task_status_value T_FAILED), vi_evaluate_error := Some EVAL_TIMEOUT_ERROR\<rparr>) now"

section \<open>The session cache\<close>

definition VOICE_SESSION_KEY :: "pystr \<Rightarrow> pystr" where
  "VOICE_SESSION_KEY sid = ascii ''voice:session:'' @ sid"

record CachedVoiceSession =
  cv_session_id :: pystr
  cv_user_id :: pystr
  cv_role_type :: pystr
  cv_skill_id :: pystr
  cv_difficulty :: pystr
  cv_current_phase :: pystr
  cv_status :: pystr
  cv_resume_id :: "int option"
  cv_llm_provider :: "pystr option"

definition voice_mapping :: "CachedVoiceSession \<Rightarrow> (pystr, pystr) dict" where
  "voice_mapping s = [(ascii ''userId'', cv_user_id s), (ascii ''roleType'', cv_role_type s),
     (ascii ''skillId'', cv_skill_id s), (ascii ''difficulty'', cv_difficulty s),
     (ascii ''currentPhase'', cv_current_phase s), (ascii ''status'', cv_status s),
     (ascii ''resumeId'', case cv_resume_id s of None \<Rightarrow> [] | Some i \<Rightarrow> int_str i),
     (ascii ''llmProvider'', or_str (cv_llm_provider s) [])]"

definition hset_fields :: "(pystr, pystr) dict \<Rightarrow> (pystr, pystr) dict \<Rightarrow> (pystr, pystr) dict" where
  "hset_fields mapping h = fold (\<lambda>(k, v). dict_set k v) mapping h"

definition voice_cache_save :: "CachedVoiceSession \<Rightarrow> unit voice_op" where
  "voice_cache_save s = (let key = VOICE_SESSION_KEY (cv_session_id s) in op_then
     (voice_redis (\<lambda>w. w\<lparr>vw_cache := (vw_cache w)(key := hset_fields (voice_mapping s) (vw_cache w key))\<rparr>))
     (voice_redis (\<lambda>w. w)))"

definition parse_cached_voice :: "pystr \<Rightarrow> (pystr, pystr) dict \<Rightarrow> CachedVoiceSession result" where
  "parse_cached_voice sid raw =
     res_bind (read_opt_int (dict_get_default raw (ascii ''resumeId'') [])) (\<lambda>resume_id.
     Inr (let f = (\<lambda>k. dict_get_default raw k []); p = f (ascii ''llmProvider'') in
       \<lparr>cv_session_id = sid, cv_user_id = f (ascii ''userId''), cv_role_type = f (ascii ''roleType''),
        cv_skill_id = f (ascii ''skillId''), cv_difficulty = f (ascii ''difficulty''),
        cv_current_phase = f (ascii ''currentPhase''), cv_status = f (ascii ''status''), cv_resume_id = resume_id,
        cv_llm_provider = (if p = [] then None else Some p)\<rparr>))"

definition voice_cache_get :: "int \<Rightarrow> CachedVoiceSession option voice_op" where
  "voice_cache_get i = op_then (voice_redis (\<lambda>w. w)) (op_bind (op_get (\<lambda>w. vw_cache w (VOICE_SESSION_KEY (int_str i)))) (\<lambda>raw.
     if raw = [] then op_return None
     else op_bind (op_lift (parse_cached_voice (int_str i) raw)) (\<lambda>s. op_return (Some s))))"

definition voice_cache_delete :: "int \<Rightarrow> unit voice_op" where
  "voice_cache_delete i = voice_redis (\<lambda>w. w\<lparr>vw_cache := (vw_cache w)(VOICE_SESSION_KEY (int_str i) := [])\<rparr>)"

section \<open>The producer\<close>

definition voice_evaluate_message :: "int \<Rightarrow> int \<Rightarrow> stream_message" where
  "voice_evaluate_message i n = [(SESSION_ID_FIELD, int_str i), (FIELD_RETRY_COUNT, int_str n)]"

definition voice_xadd :: "stream_message \<Rightarrow> unit voice_op" where
  "voice_xadd msg = voice_redis (\<lambda>w. w\<lparr>vw_stream := vw_stream w @ [msg]\<rparr>)"

text \<open>\<open>get_by_id\<close> and, when the row is there, the update of its evaluation status.\<close>

definition set_evaluation :: "int \<Rightarrow> (VoiceRow \<Rightarrow> bool) \<Rightarrow> pystr \<Rightarrow> pystr option \<Rightarrow> unit voice_op" where
  "set_evaluation i P status err = in_tx (\<lambda>now. op_bind (op_get (find_voice i)) (\<lambda>v. case v of
     None \<Rightarrow> op_return ()
   | Some r \<Rightarrow> op_when (P r) (op_modify (voice_update_evaluate_status i status err now))))"

definition voice_send_failed :: "int \<Rightarrow> pystr \<Rightarrow> unit voice_op" where
  "voice_send_failed i err = op_try
     (set_evaluation i (\<lambda>r. True) (task_status_value T_FAILED) (Some (truncate_error err))) (\<lambda>e. op_return ())"

definition voice_send_task :: "(exn \<Rightarrow> pystr) \<Rightarrow> int \<Rightarrow> bool voice_op" where
  "voice_send_task exc_str i = op_try (op_then (voice_xadd (voice_evaluate_message i 0)) (op_return True))
     (\<lambda>e. op_then (voice_send_failed i ([20219, 21153, 20837, 38431, 22833, 36133, 58, 32] @ truncate_error (exc_str e))) (op_return False))"

end
