(* ===== verification/Service_Utils.thy ===== *)
theory Service_Utils
  imports Interview_Store Json_Utils
begin

text \<open>
  What several services share: the classes of exceptions of the language-model clients and
  their error codes (\<open>infrastructure/ai/ai_error.py\<close>), and \<open>int\<close> of a parsed value.
\<close>

datatype AiException =
    X_TimeoutError | X_APITimeoutError | X_RateLimitError | X_AuthenticationError | X_PermissionDeniedError
  | X_APIConnectionError | X_OpenAIError | X_Other

definition classify_ai_error :: "AiException \<Rightarrow> ErrorCode option" where
  "classify_ai_error e =
     (if e = X_TimeoutError \<or> e = X_APITimeoutError then Some AI_SERVICE_TIMEOUT
      else if e = X_RateLimitError then Some AI_RATE_LIMIT_EXCEEDED
      else if e = X_AuthenticationError \<or> e = X_PermissionDeniedError then Some AI_API_KEY_INVALID
      else if e = X_APIConnectionError then Some AI_SERVICE_UNAVAILABLE
      else if e = X_OpenAIError then Some AI_SERVICE_ERROR
      else None)"

text \<open>\<open>int\<close> of a parsed value.\<close>

definition json_int :: "json \<Rightarrow> int result" where
  "json_int j = (case j of JInt i \<Rightarrow> Inr i | JBool b \<Rightarrow> Inr (if b then 1 else 0) | JStr s \<Rightarrow> py_int s | _ \<Rightarrow> Inl TypeError)"

end
