(* ===== verification/Voice_Service.thy ===== *)
theory Voice_Service
  imports Voice_Store Stream_Consumer Evaluation Service_Utils
begin

text \<open>
  \<open>application/voice/service.py\<close> (the life of a voice session and the reading of its
  evaluation), \<open>voice_evaluate_consumer.py\<close> with the shared \<open>base_evaluate_consumer.py\<close>, and the
  two voice jobs of \<open>scheduler/jobs.py\<close>. The provider registry (\<open>resolve\<close>, \<open>chat_client\<close>), the
  evaluation graph and Python's \<open>str\<close> of other values are parameters.
\<close>

section \<open>The life of a session\<close>

definition DEFAULT_USER_ID :: pystr where "DEFAULT_USER_ID = ascii ''default''"
definition PAUSE_IDLE_TIMEOUT_SECONDS :: int where "PAUSE_IDLE_TIMEOUT_SECONDS = 5 * 60"
definition ZOMBIE_SESSION_TIMEOUT_SECONDS :: int where "ZOMBIE_SESSION_TIMEOUT_SECONDS = 2 * 60 * 60"
definition EVAL_PROCESSING_TIMEOUT_SECONDS :: int where "EVAL_PROCESSING_TIMEOUT_SECONDS = 30 * 60"

abbreviation microseconds :: "int \<Rightarrow> int" where "microseconds s \<equiv> s * 1000000"

text \<open>\<open>int(delta.total_seconds())\<close> truncates.\<close>

definition int_seconds :: "int \<Rightarrow> int" where
  "int_seconds d = (if 0 \<le> d then d div 1000000 else - ((- d) div 1000000))"

record CreateVoiceSessionRequest =
  cvr_role_type :: pystr
  cvr_skill_id :: pystr
  cvr_difficulty :: pystr
  cvr_resume_id :: "int option"
  cvr_custom_jd_text :: "pystr option"
  cvr_intro_enabled :: bool
  cvr_tech_enabled :: bool
  cvr_project_enabled :: bool
  cvr_hr_enabled :: bool
  cvr_llm_provider :: "pystr option"
  cvr_planned_duration :: int

definition determine_first_phase :: "CreateVoiceSessionRequest \<Rightarrow> pystr" where
  "determine_first_phase req = phase_value (case find snd [(P_INTRO, cvr_intro_enabled req), (P_TECH, cvr_tech_enabled req),
      (P_PROJECT, cvr_project_enabled req), (P_HR, cvr_hr_enabled req)] of Some (p, _) \<Rightarrow> p | None \<Rightarrow> P_INTRO)"

definition new_voice :: "CreateVoiceSessionRequest \<Rightarrow> int \<Rightarrow> int \<Rightarrow> VoiceRow" where
  "new_voice req now i = \<lparr>vi_id = i, vi_user_id = DEFAULT_USER_ID, vi_role_type = cvr_role_type req,
     vi_skill_id = cvr_skill_id req, vi_difficulty = cvr_difficulty req, vi_custom_jd_text = cvr_custom_jd_text req,
     vi_resume_id = cvr_resume_id req, vi_intro_enabled = cvr_intro_enabled req, vi_tech_enabled = cvr_tech_enabled req,
     vi_project_enabled = cvr_project_enabled req, vi_hr_enabled = cvr_hr_enabled req,
     vi_llm_provider = cvr_llm_provider req, vi_current_phase = determine_first_phase req,
     vi_status = voice_status_value V_IN_PROGRESS, vi_planned_duration = cvr_planned_duration req,
     vi_actual_duration = None, vi_start_time = now, vi_end_time = None, vi_created_at = now, vi_updated_at = now,
     vi_paused_at = None, vi_resumed_at = None, vi_evaluate_status = None, vi_evaluate_error = None\<rparr>"

definition to_cache_snapshot :: "VoiceRow \<Rightarrow> CachedVoiceSession" where
  "to_cache_snapshot r = \<lparr>cv_session_id = int_str (vi_id r), cv_user_id = vi_user_id r, cv_role_type = vi_role_type r,
     cv_skill_id = vi_skill_id r, cv_difficulty = vi_difficulty r, cv_current_phase = vi_current_phase r,
     cv_status = vi_status r, cv_resume_id = vi_resume_id r, cv_llm_provider = vi_llm_provider r\<rparr>"

text \<open>A failing cache is only logged.\<close>

definition write_voice_cache :: "VoiceRow \<Rightarrow> unit voice_op" where
  "write_voice_cache r = op_try (voice_cache_save (to_cache_snapshot r)) (\<lambda>e. op_return ())"

definition invalidate_voice_cache :: "int \<Rightarrow> unit voice_op" where
  "invalidate_voice_cache i = op_try (voice_cache_delete i) (\<lambda>e. op_return ())"

record VoiceSessionDTO =
  vsd_id :: int
  vsd_session_id :: int
  vsd_user_id :: pystr
  vsd_role_type :: pystr
  vsd_skill_id :: pystr
  vsd_difficulty :: pystr
  vsd_custom_jd_text :: "pystr option"
  vsd_resume_id :: "int option"
  vsd_intro_enabled :: bool
  vsd_tech_enabled :: bool
  vsd_project_enabled :: bool
  vsd_hr_enabled :: bool
  vsd_llm_provider :: "pystr option"
  vsd_current_phase :: pystr
  vsd_status :: pystr
  vsd_planned_duration :: int
  vsd_actual_duration :: "int option"
  vsd_start_time :: int
  vsd_end_time :: "int option"
  vsd_created_at :: int
  vsd_updated_at :: int
  vsd_paused_at :: "int option"
  vsd_resumed_at :: "int option"
  vsd_evaluate_status :: "pystr option"

definition to_voice_session_dto :: "VoiceRow \<Rightarrow> VoiceSessionDTO" where
  "to_voice_session_dto r = \<lparr>vsd_id = vi_id r, vsd_session_id = vi_id r, vsd_user_id = vi_user_id r,
     vsd_role_type = vi_role_type r, vsd_skill_id = vi_skill_id r, vsd_difficulty = vi_difficulty r,
     vsd_custom_jd_text = vi_custom_jd_text r, vsd_resume_id = vi_resume_id r, vsd_intro_enabled = vi_intro_enabled r,
     vsd_tech_enabled = vi_tech_enabled r, vsd_project_enabled = vi_project_enabled r, vsd_hr_enabled = vi_hr_enabled r,
     vsd_llm_provider = vi_llm_provider r, vsd_current_phase = vi_current_phase r, vsd_status = vi_status r,
     vsd_planned_duration = vi_planned_duration r, vsd_actual_duration = vi_actual_duration r,
     vsd_start_time = vi_start_time r, vsd_end_time = vi_end_time r, vsd_created_at = vi_created_at r,
     vsd_updated_at = vi_updated_at r, vsd_paused_at = vi_paused_at r, vsd_resumed_at = vi_resumed_at r,
     vsd_evaluate_status = vi_evaluate_status r\<rparr>"

definition create_voice_session ::
  "(pystr option \<Rightarrow> unit result) \<Rightarrow> CreateVoiceSessionRequest \<Rightarrow> VoiceSessionDTO voice_op" where
  "create_voice_session resolve req = op_then (op_lift (resolve (cvr_llm_provider req)))
     (op_bind (in_tx (\<lambda>now. save_voice_session (new_voice req now))) (\<lambda>r.
      op_then (write_voice_cache r) (op_return (to_voice_session_dto r))))"

definition voice_not_found :: "int \<Rightarrow> exn" where
  "voice_not_found i = BusinessException VOICE_SESSION_NOT_FOUND ([20250, 35805, 19981, 23384, 22312, 58, 32] @ int_str i)"

definition load_voice :: "int \<Rightarrow> VoiceRow vdb_op" where
  "load_voice i = op_bind (op_get (find_voice i)) (\<lambda>v. case v of
     None \<Rightarrow> op_raise (voice_not_found i) | Some r \<Rightarrow> op_return r)"

definition get_voice_session :: "int \<Rightarrow> VoiceSessionDTO voice_op" where
  "get_voice_session i = op_bind (in_tx (\<lambda>now. load_voice i)) (\<lambda>r. op_return (to_voice_session_dto r))"

definition check_transition :: "VoiceRow \<Rightarrow> VoiceSessionStatus \<Rightarrow> unit result" where
  "check_transition r target = res_bind (parse_voice_status (vi_status r)) (\<lambda>s. validate_voice_transition s target)"

definition finish_voice :: "int \<Rightarrow> VoiceRow \<Rightarrow> VoiceRow" where
  "finish_voice now r = r\<lparr>vi_end_time := Some now, vi_current_phase := phase_value P_COMPLETED,
     vi_status := voice_status_value V_COMPLETED, vi_actual_duration := Some (int_seconds (now - vi_start_time r)),
     vi_evaluate_status := Some (task_status_value T_PENDING), vi_evaluate_error := None\<rparr>"

definition end_voice_session :: "(exn \<Rightarrow> pystr) \<Rightarrow> int \<Rightarrow> unit voice_op" where
  "end_voice_session exc_str i = op_then
     (in_tx (\<lambda>now. op_bind (load_voice i) (\<lambda>r. op_then (op_lift (check_transition r V_COMPLETED))
        (op_modify (update_voice i (finish_voice now) now)))))
     (op_then (invalidate_voice_cache i) (op_bind (voice_send_task exc_str i) (\<lambda>_. op_return ())))"

definition pause_voice_session :: "int \<Rightarrow> unit voice_op" where
  "pause_voice_session i = op_then
     (in_tx (\<lambda>now. op_bind (load_voice i) (\<lambda>r. op_then (op_lift (check_transition r V_PAUSED))
        (op_modify (update_voice i (\<lambda>r. r\<lparr>vi_status := voice_status_value V_PAUSED, vi_paused_at := Some now\<rparr>) now)))))
     (invalidate_voice_cache i)"

definition resume_row :: "int \<Rightarrow> VoiceRow \<Rightarrow> VoiceRow" where
  "resume_row now r = r\<lparr>vi_status := voice_status_value V_IN_PROGRESS, vi_resumed_at := Some now\<rparr>"

definition resume_voice_session :: "int \<Rightarrow> VoiceSessionDTO voice_op" where
  "resume_voice_session i = op_bind
     (in_tx (\<lambda>now. op_bind (load_voice i) (\<lambda>r.
        if vi_status r = voice_status_value V_IN_PROGRESS then op_return r
        else op_then (op_lift (check_transition r V_IN_PROGRESS))
          (op_then (op_modify (update_voice i (resume_row now) now)) (op_return (touch_voice now (resume_row now) r))))))
     (\<lambda>r. op_then (write_voice_cache r) (op_return (to_voice_session_dto r)))"

record VoiceSessionMetaDTO =
  vmd_id :: int
  vmd_session_id :: int
  vmd_role_type :: pystr
  vmd_skill_id :: pystr
  vmd_status :: pystr
  vmd_current_phase :: pystr
  vmd_start_time :: int
  vmd_end_time :: "int option"
  vmd_created_at :: int
  vmd_updated_at :: int
  vmd_actual_duration :: "int option"
  vmd_message_count :: int
  vmd_evaluate_status :: "pystr option"
  vmd_evaluate_error :: "pystr option"

definition to_voice_meta_dto :: "VoiceRow \<Rightarrow> int \<Rightarrow> VoiceSessionMetaDTO" where
  "to_voice_meta_dto r message_count = \<lparr>vmd_id = vi_id r, vmd_session_id = vi_id r, vmd_role_type = vi_role_type r,
     vmd_skill_id = vi_skill_id r, vmd_status = vi_status r, vmd_current_phase = vi_current_phase r,
     vmd_start_time = vi_start_time r, vmd_end_time = vi_end_time r, vmd_created_at = vi_created_at r,
     vmd_updated_at = vi_updated_at r, vmd_actual_duration = vi_actual_duration r, vmd_message_count = message_count,
     vmd_evaluate_status = vi_evaluate_status r, vmd_evaluate_error = vi_evaluate_error r\<rparr>"

definition voice_page :: "nat \<Rightarrow> nat \<Rightarrow> 'a list \<Rightarrow> 'a list" where
  "voice_page limit offset xs = take limit (drop offset xs)"

definition list_voice_sessions :: "pystr option \<Rightarrow> pystr option \<Rightarrow> nat \<Rightarrow> nat \<Rightarrow> VoiceDb \<Rightarrow> VoiceSessionMetaDTO list" where
  "list_voice_sessions user status limit offset db =
     (let rows = list_by_user (case user of Some u \<Rightarrow> u | None \<Rightarrow> DEFAULT_USER_ID) status db;
          counts = count_messages_by_sessions (map vi_id rows) db
      in voice_page limit offset (map (\<lambda>r. to_voice_meta_dto r (dict_get_default counts (vi_id r) 0)) rows))"

definition delete_voice_session :: "int \<Rightarrow> unit voice_op" where
  "delete_voice_session i = op_then
     (in_tx (\<lambda>now. op_bind (load_voice i) (\<lambda>r. op_modify (delete_voice_row (vi_id r))))) (invalidate_voice_cache i)"

record VoiceMessageDTO =
  vme_id :: int
  vme_session_id :: int
  vme_message_type :: pystr
  vme_phase :: pystr
  vme_user_recognized_text :: "pystr option"
  vme_ai_generated_text :: "pystr option"
  vme_timestamp :: int
  vme_sequence_num :: int

definition to_voice_message_dto :: "VoiceMsgRow \<Rightarrow> VoiceMessageDTO" where
  "to_voice_message_dto m = \<lparr>vme_id = vmr_id m, vme_session_id = vmr_session_id m, vme_message_type = vmr_message_type m,
     vme_phase = vmr_phase m, vme_user_recognized_text = vmr_user_recognized_text m,
     vme_ai_generated_text = vmr_ai_generated_text m, vme_timestamp = vmr_timestamp m,
     vme_sequence_num = vmr_sequence_num m\<rparr>"

definition get_voice_messages :: "int \<Rightarrow> nat \<Rightarrow> nat \<Rightarrow> VoiceMessageDTO list voice_op" where
  "get_voice_messages i limit offset = in_tx (\<lambda>now. op_bind (load_voice i) (\<lambda>r.
     op_get (\<lambda>db. voice_page limit offset (map to_voice_message_dto (messages_of (vi_id r) db)))))"

section \<open>Reading an evaluation\<close>

record VoiceAnswerDetailDTO =
  vad_question_index :: int
  vad_question :: pystr
  vad_category :: pystr
  vad_user_answer :: pystr
  vad_score :: int
  vad_feedback :: pystr
  vad_reference_answer :: "pystr option"
  vad_key_points :: "pystr list"

record VoiceEvaluationDetailDTO =
  ved_session_id :: int
  ved_total_questions :: int
  ved_overall_score :: int
  ved_overall_feedback :: pystr
  ved_strengths :: "pystr list"
  ved_improvements :: "pystr list"
  ved_answers :: "VoiceAnswerDetailDTO list"

record VoiceEvaluationStatusDTO =
  vst_evaluate_status :: pystr
  vst_evaluate_error :: "pystr option"
  vst_evaluation :: "VoiceEvaluationDetailDTO option"

definition parse_question_detail :: "(json \<Rightarrow> pystr) \<Rightarrow> (pystr, json) dict \<Rightarrow> QuestionEvaluation result" where
  "parse_question_detail show item =
     (let str_at = (\<lambda>k. py_str_of show (dict_get_default item k (JStr []))) in
      res_bind (json_int (dict_get_default item (ascii ''questionIndex'') (JInt 0))) (\<lambda>idx.
      res_bind (json_int (dict_get_default item (ascii ''score'') (JInt 0))) (\<lambda>score.
      res_bind (validated (as_opt as_str (dict_get_default item (ascii ''userAnswer'') JNull))) (\<lambda>answer.
      Inr \<lparr>qe_question_index = idx, qe_question = str_at (ascii ''question''), qe_category = str_at (ascii ''category''),
        qe_user_answer = answer, qe_score = score, qe_feedback = str_at (ascii ''feedback'')\<rparr>))))"

definition parse_question_details :: "(json \<Rightarrow> pystr) \<Rightarrow> pystr option \<Rightarrow> QuestionEvaluation list result" where
  "parse_question_details show raw = res_traverse (parse_question_detail show) (json_loads_dict_list raw)"

definition parse_reference_answer :: "(json \<Rightarrow> pystr) \<Rightarrow> (pystr, json) dict \<Rightarrow> ReferenceAnswer result" where
  "parse_reference_answer show item =
     (let str_at = (\<lambda>k. py_str_of show (dict_get_default item k (JStr []))) in
      res_bind (json_int (dict_get_default item (ascii ''questionIndex'') (JInt 0))) (\<lambda>idx.
      res_bind (json_iter (dict_get_default item (ascii ''keyPoints'') (JArr []))) (\<lambda>points.
      res_bind (validated (as_str_list (JArr points))) (\<lambda>key_points.
      Inr \<lparr>ra_question_index = idx, ra_question = str_at (ascii ''question''),
        ra_reference_answer = str_at (ascii ''referenceAnswer''), ra_key_points = key_points\<rparr>))))"

definition parse_reference_answers :: "(json \<Rightarrow> pystr) \<Rightarrow> pystr option \<Rightarrow> ReferenceAnswer list result" where
  "parse_reference_answers show raw = res_traverse (parse_reference_answer show) (json_loads_dict_list raw)"

definition reference_map :: "ReferenceAnswer list \<Rightarrow> (int, ReferenceAnswer) dict" where
  "reference_map refs = fold (\<lambda>r d. dict_set (ra_question_index r) r d) refs []"

definition answer_detail :: "(int, ReferenceAnswer) dict \<Rightarrow> QuestionEvaluation \<Rightarrow> VoiceAnswerDetailDTO" where
  "answer_detail refs q = (let ref = dict_get refs (qe_question_index q) in
     \<lparr>vad_question_index = qe_question_index q, vad_question = qe_question q, vad_category = qe_category q,
      vad_user_answer = or_str (qe_user_answer q) [], vad_score = qe_score q, vad_feedback = qe_feedback q,
      vad_reference_answer = map_option ra_reference_answer ref,
      vad_key_points = (case ref of Some r \<Rightarrow> ra_key_points r | None \<Rightarrow> [])\<rparr>)"

definition to_evaluation_detail :: "(json \<Rightarrow> pystr) \<Rightarrow> VoiceEvalRow \<Rightarrow> int \<Rightarrow> VoiceEvaluationDetailDTO result" where
  "to_evaluation_detail show e sid =
     res_bind (parse_question_details show (vev_question_evaluations_json e)) (\<lambda>details.
     res_bind (parse_reference_answers show (vev_reference_answers_json e)) (\<lambda>refs.
     let answers = map (answer_detail (reference_map refs)) details in
     Inr \<lparr>ved_session_id = sid, ved_total_questions = int (length answers),
       ved_overall_score = (case vev_overall_score e of Some s \<Rightarrow> s | None \<Rightarrow> 0),
       ved_overall_feedback = or_str (vev_overall_feedback e) [],
       ved_strengths = read_string_list show (vev_strengths_json e),
       ved_improvements = read_string_list show (vev_improvements_json e), ved_answers = answers\<rparr>))"

definition get_voice_evaluation :: "(json \<Rightarrow> pystr) \<Rightarrow> int \<Rightarrow> VoiceEvaluationStatusDTO voice_op" where
  "get_voice_evaluation show i = in_tx (\<lambda>now. op_bind (load_voice i) (\<lambda>r.
     let status = or_str (vi_evaluate_status r) [] in
     op_bind (if status = task_status_value T_COMPLETED then op_get (get_evaluation_by_session (vi_id r)) else op_return None) (\<lambda>ev.
     op_bind (case ev of None \<Rightarrow> op_return None
       | Some e \<Rightarrow> op_lift (res_map Some (to_evaluation_detail show e (vi_id r)))) (\<lambda>detail.
     op_return \<lparr>vst_evaluate_status = status, vst_evaluate_error = vi_evaluate_error r, vst_evaluation = detail\<rparr>))))"

definition trigger_voice_evaluation :: "(exn \<Rightarrow> pystr) \<Rightarrow> int \<Rightarrow> VoiceEvaluationStatusDTO voice_op" where
  "trigger_voice_evaluation exc_str i = op_bind
     (in_tx (\<lambda>now. op_bind (load_voice i) (\<lambda>r.
        if vi_evaluate_status r \<in> Some ` set (map task_status_value [T_COMPLETED, T_PENDING, T_PROCESSING])
        then op_return (Some \<lparr>vst_evaluate_status = or_str (vi_evaluate_status r) [],
               vst_evaluate_error = vi_evaluate_error r, vst_evaluation = None\<rparr>)
        else op_then (op_modify (voice_update_evaluate_status i (task_status_value T_PENDING) None now)) (op_return None))))
     (\<lambda>answer. case answer of Some dto \<Rightarrow> op_return dto
      | None \<Rightarrow> op_then (voice_send_task exc_str i) (op_return \<lparr>vst_evaluate_status = task_status_value T_PENDING,
               vst_evaluate_error = None, vst_evaluation = None\<rparr>))"

section \<open>The evaluation consumer\<close>

definition parse_voice_payload :: "stream_message \<Rightarrow> int option result" where
  "parse_voice_payload data = Inr (case dict_get data SESSION_ID_FIELD of None \<Rightarrow> None
     | Some raw \<Rightarrow> (case py_int raw of Inl e \<Rightarrow> None | Inr i \<Rightarrow> Some i))"

definition voice_retry_count :: "stream_message \<Rightarrow> int" where
  "voice_retry_count data =
     (case py_int (dict_get_default data FIELD_RETRY_COUNT (ascii ''0'')) of Inl e \<Rightarrow> 0 | Inr n \<Rightarrow> n)"

definition voice_evaluated :: "VoiceRow \<Rightarrow> bool" where
  "voice_evaluated r \<longleftrightarrow> vi_evaluate_status r = Some (task_status_value T_COMPLETED)"

definition voice_mark_processing :: "int \<Rightarrow> unit voice_op" where
  "voice_mark_processing i = set_evaluation i (\<lambda>r. \<not> voice_evaluated r) (task_status_value T_PROCESSING) None"

definition voice_message :: "VoiceMsgRow \<Rightarrow> VoiceMessage" where
  "voice_message m = \<lparr>vm_sequence_num = vmr_sequence_num m, vm_phase = vmr_phase m,
     vm_ai_generated_text = vmr_ai_generated_text m, vm_user_recognized_text = vmr_user_recognized_text m\<rparr>"

definition voice_records :: "int \<Rightarrow> VoiceDb \<Rightarrow> QaRecord list" where
  "voice_records i db = build_voice_qa_records (map voice_message (messages_of i db))"

definition voice_resume_text :: "int option \<Rightarrow> VoiceDb \<Rightarrow> pystr option" where
  "voice_resume_text resume_id db = (case resume_id of None \<Rightarrow> None
     | Some i \<Rightarrow> (case dict_get (vdb_resumes db) i of None \<Rightarrow> None | Some t \<Rightarrow> t))"

definition detail_json :: "QuestionEvaluation \<Rightarrow> (pystr, json) dict" where
  "detail_json d = [(ascii ''questionIndex'', JInt (qe_question_index d)), (ascii ''question'', JStr (qe_question d)),
     (ascii ''category'', JStr (qe_category d)), (ascii ''userAnswer'', opt_str (qe_user_answer d)),
     (ascii ''score'', JInt (qe_score d)), (ascii ''feedback'', JStr (qe_feedback d))]"

definition serialize_question_details :: "EvaluationReport \<Rightarrow> pystr" where
  "serialize_question_details report = dumps (JArr (map (\<lambda>d. JObj (detail_json d)) (er_question_details report)))"

definition reference_json :: "ReferenceAnswer \<Rightarrow> (pystr, json) dict" where
  "reference_json r = [(ascii ''questionIndex'', JInt (ra_question_index r)), (ascii ''question'', JStr (ra_question r)),
     (ascii ''referenceAnswer'', JStr (ra_reference_answer r)), (ascii ''keyPoints'', JArr (map JStr (ra_key_points r)))]"

definition serialize_reference_answers :: "EvaluationReport \<Rightarrow> pystr" where
  "serialize_reference_answers report = dumps (JArr (map (\<lambda>r. JObj (reference_json r)) (er_reference_answers report)))"

definition apply_report :: "VoiceRow \<Rightarrow> EvaluationReport \<Rightarrow> VoiceEvalRow \<Rightarrow> VoiceEvalRow" where
  "apply_report r report e = e\<lparr>vev_overall_score := Some (er_overall_score report),
     vev_overall_feedback := Some (er_overall_feedback report),
     vev_question_evaluations_json := Some (serialize_question_details report),
     vev_strengths_json := Some (str_list_json (er_strengths report)),
     vev_improvements_json := Some (str_list_json (er_improvements report)),
     vev_reference_answers_json := Some (serialize_reference_answers report),
     vev_interviewer_role := Some (vi_role_type r), vev_interview_date := Some (vi_start_time r)\<rparr>"

definition empty_evaluation :: "int \<Rightarrow> int \<Rightarrow> VoiceEvalRow" where
  "empty_evaluation sid i = \<lparr>vev_id = i, vev_session_id = sid, vev_overall_score = None, vev_overall_feedback = None,
     vev_question_evaluations_json = None, vev_strengths_json = None, vev_improvements_json = None,
     vev_reference_answers_json = None, vev_interviewer_role = None, vev_interview_date = None\<rparr>"

definition persist_voice_result :: "VoiceRow \<Rightarrow> EvaluationReport \<Rightarrow> VoiceDb \<Rightarrow> VoiceDb" where
  "persist_voice_result r report db = (case get_evaluation_by_session (vi_id r) db of
     None \<Rightarrow> db\<lparr>vdb_evals := vdb_evals db @ [apply_report r report (empty_evaluation (vi_id r) (vdb_fresh db))],
       vdb_fresh := vdb_fresh db + 1\<rparr>
   | Some e \<Rightarrow> db\<lparr>vdb_evals := map (\<lambda>x. if vev_session_id x = vi_id r then apply_report r report x else x) (vdb_evals db)\<rparr>)"

type_synonym voice_graph = "pystr \<Rightarrow> QaRecord list \<Rightarrow> pystr option \<Rightarrow> EvaluationReport result"

definition remember_voice_degraded :: "int \<Rightarrow> EvaluationReport \<Rightarrow> unit voice_op" where
  "remember_voice_degraded i report = op_modify (\<lambda>w. w\<lparr>vw_degraded :=
     (if er_degraded_reasons report \<noteq> []
      then dict_set (int_str i) (truncate_error (py_join (ascii ''; '') (er_degraded_reasons report))) (vw_degraded w)
      else AList.delete (int_str i) (vw_degraded w))\<rparr>)"

definition voice_process_business :: "(pystr option \<Rightarrow> unit result) \<Rightarrow> voice_graph \<Rightarrow> int \<Rightarrow> unit voice_op" where
  "voice_process_business chat_client graph i = op_bind
     (in_tx (\<lambda>now. op_bind (op_get (find_voice i)) (\<lambda>v. case v of
        None \<Rightarrow> op_return None
      | Some r \<Rightarrow> if voice_evaluated r then op_return None
          else op_bind (op_get (voice_records (vi_id r))) (\<lambda>records.
               op_bind (op_get (voice_resume_text (vi_resume_id r))) (\<lambda>resume_text.
               op_then (op_lift (chat_client (vi_llm_provider r)))
               (op_bind (op_lift (graph (int_str i) records resume_text)) (\<lambda>report.
                op_then (op_modify (persist_voice_result r report)) (op_return (Some report)))))))))
     (\<lambda>outcome. case outcome of None \<Rightarrow> op_return () | Some report \<Rightarrow> remember_voice_degraded i report)"

definition pop_voice_degraded :: "int \<Rightarrow> pystr option voice_op" where
  "pop_voice_degraded i = (\<lambda>w. (Inr (dict_get (vw_degraded w) (int_str i)),
     w\<lparr>vw_degraded := AList.delete (int_str i) (vw_degraded w)\<rparr>))"

definition voice_mark_completed :: "int \<Rightarrow> unit voice_op" where
  "voice_mark_completed i = op_bind (pop_voice_degraded i) (\<lambda>degraded.
     set_evaluation i (\<lambda>r. True) (task_status_value T_COMPLETED) degraded)"

definition voice_mark_failed :: "int \<Rightarrow> pystr \<Rightarrow> unit voice_op" where
  "voice_mark_failed i err = op_bind (pop_voice_degraded i) (\<lambda>_.
     set_evaluation i (\<lambda>r. True) (task_status_value T_FAILED) (Some err))"

definition voice_retry_message :: "int \<Rightarrow> int \<Rightarrow> unit voice_op" where
  "voice_retry_message i n = voice_xadd (voice_evaluate_message i n)"

definition voice_handlers :: "(pystr option \<Rightarrow> unit result) \<Rightarrow> voice_graph \<Rightarrow> (VoiceWorld, int) StreamHandlers" where
  "voice_handlers chat_client graph = \<lparr>h_parse_payload = parse_voice_payload, h_should_skip = (\<lambda>p. False),
     h_try_mark_processing = (\<lambda>p. op_then (voice_mark_processing p) (op_return True)),
     h_process_business = voice_process_business chat_client graph, h_mark_completed = voice_mark_completed,
     h_mark_failed = voice_mark_failed, h_retry_message = voice_retry_message, h_xack = voice_redis (\<lambda>w. w)\<rparr>"

definition consume_voice :: "(pystr option \<Rightarrow> unit result) \<Rightarrow> voice_graph \<Rightarrow> (exn \<Rightarrow> pystr) \<Rightarrow> stream_message \<Rightarrow> unit voice_op" where
  "consume_voice chat_client graph exc_str data =
     process_message (voice_handlers chat_client graph) (\<lambda>e. truncate_error (exc_str e)) voice_retry_count data"

section \<open>The jobs\<close>

definition pause_idle_voice_sessions :: "unit voice_op" where
  "pause_idle_voice_sessions = in_tx (\<lambda>now.
     op_modify (bulk_pause_idle_in_progress (now - microseconds PAUSE_IDLE_TIMEOUT_SECONDS) now))"

definition cleanup_voice_zombie_sessions :: "unit voice_op" where
  "cleanup_voice_zombie_sessions = in_tx (\<lambda>now. op_then
     (op_modify (bulk_complete_zombie_sessions (now - microseconds ZOMBIE_SESSION_TIMEOUT_SECONDS) now))
     (op_modify (bulk_fail_stuck_evaluations (now - microseconds EVAL_PROCESSING_TIMEOUT_SECONDS) now)))"

end
