(* ===== verification/Bytes.thy ===== *)
theory Bytes
  imports Errors "HOL-Library.Word"
begin

text \<open>
  Byte strings and the codecs of the standard library the code uses on them: UTF-8, base64 as
  \<open>binascii\<close> computes it, and the little-endian integers of \<open>struct.pack\<close>. Each comes with its
  round trip.
\<close>

type_synonym byte = "8 word"
type_synonym bytes = "byte list"

lemma unat_byte [simp]: "unat (b :: byte) < 256"
  using unsigned_less [of b] by simp

definition byte_of :: "nat \<Rightarrow> byte" where "byte_of n = of_nat n"

lemma unat_byte_of [simp]: "n < 256 \<Longrightarrow> unat (byte_of n) = n"
  by (simp add: byte_of_def unat_of_nat)

lemma byte_of_unat [simp]: "byte_of (unat b) = b"
  by (simp add: byte_of_def)

section \<open>Base64\<close>

definition b64_char :: "nat \<Rightarrow> nat" where
  "b64_char n = (if n < 26 then n + 65 else if n < 52 then n + 71 else if n < 62 then n - 4 else if n = 62 then 43 else 47)"

definition b64_value :: "nat \<Rightarrow> nat option" where
  "b64_value c = (if 65 \<le> c \<and> c \<le> 90 then Some (c - 65) else if 97 \<le> c \<and> c \<le> 122 then Some (c - 71)
     else if 48 \<le> c \<and> c \<le> 57 then Some (c + 4) else if c = 43 then Some 62 else if c = 47 then Some 63 else None)"

lemma b64_value_char [simp]: "n < 64 \<Longrightarrow> b64_value (b64_char n) = Some n"
  by (auto simp: b64_char_def b64_value_def)

lemma b64_char_range: "n < 64 \<Longrightarrow> 43 \<le> b64_char n \<and> b64_char n < 123 \<and> b64_char n \<noteq> 58 \<and> b64_char n \<noteq> 61"
  by (auto simp: b64_char_def)

lemma b64_char_simps [simp]:
  assumes "n < 64"
  shows "b64_char n \<noteq> 61" "b64_char n \<noteq> 58" "b64_char n < 128"
  using b64_char_range [OF assms] by auto

fun b64encode :: "bytes \<Rightarrow> pystr" where
  "b64encode [] = []"
| "b64encode [a] = [b64_char (unat a div 4), b64_char (unat a mod 4 * 16), 61, 61]"
| "b64encode [a, b] = [b64_char (unat a div 4), b64_char (unat a mod 4 * 16 + unat b div 16), b64_char (unat b mod 16 * 4), 61]"
| "b64encode (a # b # c # bs) = [b64_char (unat a div 4), b64_char (unat a mod 4 * 16 + unat b div 16),
     b64_char (unat b mod 16 * 4 + unat c div 64), b64_char (unat c mod 64)] @ b64encode bs"

text \<open>
  \<open>binascii.a2b_base64\<close> without strict mode: \<open>quad\<close> characters of a group have been read, \<open>left\<close>
  holds the bits not yet written, \<open>pads\<close> the padding seen. Other characters are skipped; what
  follows complete padding is not read.
\<close>

fun a2b_base64 :: "nat \<Rightarrow> nat \<Rightarrow> nat \<Rightarrow> pystr \<Rightarrow> bytes result" where
  "a2b_base64 quad left pads [] = (if quad = 0 then Inr [] else Inl (ValueError (ascii ''Incorrect padding'')))"
| "a2b_base64 quad left pads (c # cs) =
     (if c = 61 then
        (if quad < 2 then a2b_base64 quad left pads cs
         else if quad + pads + 1 \<ge> 4 then Inr [] else a2b_base64 quad left (pads + 1) cs)
      else (case b64_value c of
        None \<Rightarrow> a2b_base64 quad left pads cs
      | Some v \<Rightarrow>
          if quad = 0 then a2b_base64 1 v 0 cs
          else if quad = 1 then res_map ((#) (byte_of (left * 4 + v div 16))) (a2b_base64 2 (v mod 16) 0 cs)
          else if quad = 2 then res_map ((#) (byte_of (left * 16 + v div 4))) (a2b_base64 3 (v mod 4) 0 cs)
          else res_map ((#) (byte_of (left * 64 + v))) (a2b_base64 0 0 0 cs)))"

definition b64decode :: "pystr \<Rightarrow> bytes result" where
  "b64decode s = (if \<exists>c \<in> set s. 128 \<le> c then Inl (ValueError (ascii ''string argument should contain only ASCII characters''))
     else a2b_base64 0 0 0 s)"

lemma sextets [simp]:
  fixes a :: byte
  shows "unat a div 4 < 64" "unat a mod 4 * 16 < 64" "unat a mod 16 * 4 < 64" "unat a mod 64 < 64"
  using unat_byte [of a] by linarith+

lemma sextet_pairs [simp]:
  fixes a b :: byte
  shows "unat a mod 4 * 16 + unat b div 16 < 64" "unat a mod 16 * 4 + unat b div 64 < 64"
  using unat_byte [of a] unat_byte [of b] by linarith+

lemma byte_splits [simp]:
  fixes b :: byte
  shows "unat b div 16 div 16 = 0" "unat b div 64 div 4 = 0" "unat b div 16 mod 16 = unat b div 16" "unat b div 64 mod 4 = unat b div 64"
proof -
  have "unat b div 16 < 16" "unat b div 64 < 4" using unat_byte [of b] by linarith+
  then show "unat b div 16 div 16 = 0" "unat b div 64 div 4 = 0" "unat b div 16 mod 16 = unat b div 16" "unat b div 64 mod 4 = unat b div 64"
    by simp_all
qed

lemma b64_ascii: "c \<in> set (b64encode bs) \<Longrightarrow> c < 128 \<and> c \<noteq> 58"
  by (induction bs rule: b64encode.induct) auto

lemma a2b_b64encode: "a2b_base64 0 0 0 (b64encode bs) = Inr bs"
  by (induction bs rule: b64encode.induct) simp_all

theorem b64decode_encode [simp]: "b64decode (b64encode bs) = Inr bs"
  using b64_ascii [of _ bs] by (auto simp: b64decode_def a2b_b64encode not_le [symmetric])

section \<open>UTF-8\<close>

text \<open>\<open>str.encode\<close> and \<open>bytes.decode\<close> with the strict handler.\<close>

definition scalar :: "nat \<Rightarrow> bool" where
  "scalar c \<longleftrightarrow> c < 55296 \<or> (57344 \<le> c \<and> c < 1114112)"

definition utf8_char :: "nat \<Rightarrow> nat list" where
  "utf8_char c = (if c < 128 then [c] else if c < 2048 then [192 + c div 64, 128 + c mod 64]
     else if c < 65536 then [224 + c div 4096, 128 + c div 64 mod 64, 128 + c mod 64]
     else [240 + c div 262144, 128 + c div 4096 mod 64, 128 + c div 64 mod 64, 128 + c mod 64])"

definition utf8_encode :: "pystr \<Rightarrow> bytes result" where
  "utf8_encode s = (if list_all scalar s then Inr (map byte_of (concat (map utf8_char s)))
     else Inl (ValueError (ascii ''surrogates not allowed'')))"

definition cont :: "nat \<Rightarrow> bool" where "cont b \<longleftrightarrow> 128 \<le> b \<and> b < 192"

definition utf8_error :: exn where "utf8_error = ValueError (ascii ''invalid utf-8'')"

definition utf8_accept :: "nat \<Rightarrow> nat list \<Rightarrow> nat \<Rightarrow> pystr result \<Rightarrow> pystr result" where
  "utf8_accept low tail c rest = (if list_all cont tail \<and> low \<le> c \<and> scalar c then res_map ((#) c) rest else Inl utf8_error)"

fun utf8_run :: "nat list \<Rightarrow> pystr result" where
  "utf8_run [] = Inr []"
| "utf8_run (a # xs) =
     (if a < 128 then res_map ((#) a) (utf8_run xs)
      else if 192 \<le> a \<and> a < 224 then
        (case xs of b # ys \<Rightarrow> utf8_accept 128 [b] ((a - 192) * 64 + (b - 128)) (utf8_run ys) | _ \<Rightarrow> Inl utf8_error)
      else if 224 \<le> a \<and> a < 240 then
        (case xs of b # c # ys \<Rightarrow> utf8_accept 2048 [b, c] ((a - 224) * 4096 + (b - 128) * 64 + (c - 128)) (utf8_run ys) | _ \<Rightarrow> Inl utf8_error)
      else if 240 \<le> a \<and> a < 248 then
        (case xs of b # c # d # ys \<Rightarrow>
           utf8_accept 65536 [b, c, d] ((a - 240) * 262144 + (b - 128) * 4096 + (c - 128) * 64 + (d - 128)) (utf8_run ys)
         | _ \<Rightarrow> Inl utf8_error)
      else Inl utf8_error)"

declare utf8_run.simps(2) [simp del]

definition utf8_decode :: "bytes \<Rightarrow> pystr result" where
  "utf8_decode bs = utf8_run (map unat bs)"

lemma utf8_char_byte:
  assumes "c < 1114112" "b \<in> set (utf8_char c)"
  shows "b < 256"
proof -
  have "c mod 64 < 64" "c div 64 mod 64 < 64" "c div 4096 mod 64 < 64" by simp_all
  moreover have "c < 2048 \<Longrightarrow> c div 64 < 32" "c < 65536 \<Longrightarrow> c div 4096 < 16" "c div 262144 < 5" using assms(1) by linarith+
  ultimately show ?thesis using assms(2) by (auto simp: utf8_char_def split: if_splits)
qed

lemma digits2: "(c :: nat) div 64 * 64 + c mod 64 = c" by simp

lemma digits3: "(c :: nat) div 4096 * 4096 + c div 64 mod 64 * 64 + c mod 64 = c"
proof -
  have "c div 4096 = c div 64 div 64" by (simp add: div_mult2_eq [symmetric])
  then show ?thesis using div_mult_mod_eq [of "c div 64" 64] div_mult_mod_eq [of c 64] by linarith
qed

lemma digits4: "(c :: nat) div 262144 * 262144 + c div 4096 mod 64 * 4096 + c div 64 mod 64 * 64 + c mod 64 = c"
proof -
  have "c div 262144 = c div 4096 div 64" by (simp add: div_mult2_eq [symmetric])
  then show ?thesis using div_mult_mod_eq [of "c div 4096" 64] digits3 [of c] by linarith
qed

lemma utf8_run_char:
  assumes "scalar c"
  shows "utf8_run (utf8_char c @ bs) = res_map ((#) c) (utf8_run bs)"
proof -
  have "c < 1114112" using assms by (auto simp: scalar_def)
  consider "c < 128" | "128 \<le> c" "c < 2048" | "2048 \<le> c" "c < 65536" | "65536 \<le> c" by linarith
  then show ?thesis
  proof cases
    case 1
    then show ?thesis by (simp add: utf8_char_def utf8_run.simps)
  next
    case 2
    then have "c div 64 < 32" by linarith
    with 2 assms show ?thesis
      by (simp add: utf8_char_def utf8_run.simps utf8_accept_def cont_def)
  next
    case 3
    then have "c div 4096 < 16" by linarith
    with 3 assms show ?thesis
      by (simp add: utf8_char_def utf8_run.simps utf8_accept_def cont_def digits3)
  next
    case 4
    then have "c div 262144 < 8" using \<open>c < 1114112\<close> by linarith
    with 4 assms show ?thesis
      by (simp add: utf8_char_def utf8_run.simps utf8_accept_def cont_def digits4)
  qed
qed

lemma utf8_run_chars: "list_all scalar s \<Longrightarrow> utf8_run (concat (map utf8_char s)) = Inr s"
  by (induction s) (simp_all add: utf8_run_char)

lemma utf8_bytes:
  assumes "utf8_encode s = Inr bs"
  shows "map unat bs = concat (map utf8_char s)"
proof -
  have s: "list_all scalar s" and bs: "bs = map byte_of (concat (map utf8_char s))"
    using assms by (auto simp: utf8_encode_def split: if_splits)
  have "\<forall>b \<in> set (concat (map utf8_char s)). b < 256"
  proof
    fix b assume "b \<in> set (concat (map utf8_char s))"
    then obtain c where c: "c \<in> set s" "b \<in> set (utf8_char c)" by auto
    with s have "c < 1114112" by (auto simp: list_all_iff scalar_def)
    then show "b < 256" using c(2) by (rule utf8_char_byte)
  qed
  then show ?thesis
    unfolding bs by (simp only: map_map o_def) (rule map_idI, fastforce)
qed

theorem utf8_roundtrip:
  assumes "utf8_encode s = Inr bs"
  shows "utf8_decode bs = Inr s"
proof -
  have "list_all scalar s" using assms by (auto simp: utf8_encode_def split: if_splits)
  then show ?thesis by (simp add: utf8_decode_def utf8_bytes [OF assms] utf8_run_chars)
qed

section \<open>Little-endian integers\<close>

text \<open>\<open>struct.pack\<close> with \<open><I\<close> and \<open><H\<close>, which raises for a value out of range.\<close>

fun le_bytes :: "nat \<Rightarrow> nat \<Rightarrow> bytes" where
  "le_bytes 0 n = []"
| "le_bytes (Suc k) n = byte_of (n mod 256) # le_bytes k (n div 256)"

definition struct_pack :: "nat \<Rightarrow> int \<Rightarrow> bytes result" where
  "struct_pack width n = (if 0 \<le> n \<and> n < 256 ^ width then Inr (le_bytes width (nat n)) else Inl StructError)"

text \<open>What a reader of the bytes sees.\<close>

fun le_value :: "bytes \<Rightarrow> nat" where
  "le_value [] = 0"
| "le_value (b # bs) = unat b + 256 * le_value bs"

lemma le_value_bytes: "n < 256 ^ k \<Longrightarrow> le_value (le_bytes k n) = n"
proof (induction k arbitrary: n)
  case 0
  then show ?case by simp
next
  case (Suc k)
  then have "n div 256 < 256 ^ k" by (simp add: div_less_iff_less_mult mult.commute)
  with Suc.IH show ?case by simp
qed

lemma length_le_bytes [simp]: "length (le_bytes k n) = k"
  by (induction k arbitrary: n) auto

lemma struct_pack_ok:
  "struct_pack width n = Inr bs \<Longrightarrow> length bs = width \<and> int (le_value bs) = n"
  by (auto simp: struct_pack_def split: if_splits) (subst le_value_bytes, simp_all add: nat_less_iff)

end
