(* ===== verification/Audio_Utils.thy ===== *)
theory Audio_Utils
  imports Bytes
begin

text \<open>
  \<open>infrastructure/voice/audio_utils.py\<close>: raw PCM wrapped in a WAV header, and the same on base64
  text as the audio chunks of a voice session carry it.
\<close>

definition TTS_OUTPUT_SAMPLE_RATE :: int where "TTS_OUTPUT_SAMPLE_RATE = 24000"

definition WAV_HEADER_SIZE :: int where "WAV_HEADER_SIZE = 44"

definition PCM_FORMAT :: int where "PCM_FORMAT = 1"

definition byte_literal :: "string \<Rightarrow> bytes" where "byte_literal s = map of_char s"

definition build_wav_header :: "int \<Rightarrow> int \<Rightarrow> int \<Rightarrow> int \<Rightarrow> bytes result" where
  "build_wav_header pcm_len sample_rate channels bits_per_sample =
     (let byte_rate = sample_rate * channels * bits_per_sample div 8; block_align = channels * bits_per_sample div 8
      in res_map concat (res_traverse id
        [Inr (byte_literal ''RIFF''), struct_pack 4 (WAV_HEADER_SIZE - 8 + pcm_len), Inr (byte_literal ''WAVE''),
         Inr (byte_literal ''fmt ''), struct_pack 4 16, struct_pack 2 PCM_FORMAT, struct_pack 2 channels,
         struct_pack 4 sample_rate, struct_pack 4 byte_rate, struct_pack 2 block_align, struct_pack 2 bits_per_sample,
         Inr (byte_literal ''data''), struct_pack 4 pcm_len]))"

definition pcm_to_wav :: "bytes \<Rightarrow> int \<Rightarrow> int \<Rightarrow> int \<Rightarrow> bytes result" where
  "pcm_to_wav pcm sample_rate channels bits_per_sample =
     res_map (\<lambda>header. header @ pcm) (build_wav_header (int (length pcm)) sample_rate channels bits_per_sample)"

definition pcm_base64_to_wav_base64 :: "pystr \<Rightarrow> int \<Rightarrow> pystr result" where
  "pcm_base64_to_wav_base64 pcm_base64 sample_rate = res_bind (b64decode pcm_base64) (\<lambda>pcm.
     res_map b64encode (pcm_to_wav pcm sample_rate 1 16))"

section \<open>What a player reads back\<close>

text \<open>A player that knows the canonical layout finds the fields at fixed offsets.\<close>

record WavFile =
  wav_riff_size :: nat
  wav_format :: nat
  wav_channels :: nat
  wav_sample_rate :: nat
  wav_byte_rate :: nat
  wav_block_align :: nat
  wav_bits :: nat
  wav_data :: bytes

definition field_at :: "nat \<Rightarrow> nat \<Rightarrow> bytes \<Rightarrow> nat" where
  "field_at off width bs = le_value (take width (drop off bs))"

definition read_wav :: "bytes \<Rightarrow> WavFile option" where
  "read_wav bs = (if take 4 bs = byte_literal ''RIFF'' \<and> take 8 (drop 8 bs) = byte_literal ''WAVEfmt ''
        \<and> field_at 16 4 bs = 16 \<and> take 4 (drop 36 bs) = byte_literal ''data''
        \<and> length bs = 44 + field_at 40 4 bs
     then Some \<lparr>wav_riff_size = field_at 4 4 bs, wav_format = field_at 20 2 bs, wav_channels = field_at 22 2 bs,
       wav_sample_rate = field_at 24 4 bs, wav_byte_rate = field_at 28 4 bs, wav_block_align = field_at 32 2 bs,
       wav_bits = field_at 34 2 bs, wav_data = drop 44 bs\<rparr>
     else None)"

lemma struct_pack_eq: "struct_pack width n = (if 0 \<le> n \<and> n < 256 ^ width then Inr (le_bytes width (nat n)) else Inl StructError)"
  by (simp add: struct_pack_def)

lemma header_fields:
  assumes "length r = 4" "length s = 4" "length w = 4" "length f = 4" "length a = 4" "length b = 2" "length c = 2"
    "length d = 4" "length e = 4" "length g = 2" "length h = 2" "length i = 4" "length j = 4"
    and bs: "bs = concat [r, s, w, f, a, b, c, d, e, g, h, i, j] @ pcm"
  shows "take 4 bs = r" "take 4 (drop 4 bs) = s" "take 8 (drop 8 bs) = w @ f" "take 4 (drop 16 bs) = a" "take 2 (drop 20 bs) = b"
    "take 2 (drop 22 bs) = c" "take 4 (drop 24 bs) = d" "take 4 (drop 28 bs) = e" "take 2 (drop 32 bs) = g" "take 2 (drop 34 bs) = h"
    "take 4 (drop 36 bs) = i" "take 4 (drop 40 bs) = j" "drop 44 bs = pcm" "length bs = 44 + length pcm"
  using assms(1-13) by (simp_all add: bs)

lemma wav_header_shape:
  assumes "0 \<le> n" "n + 36 < 2 ^ 32" "0 \<le> rate" "rate * 2 < 2 ^ 32"
  shows "build_wav_header n rate 1 16 = Inr (concat [byte_literal ''RIFF'', le_bytes 4 (nat (36 + n)), byte_literal ''WAVE'',
      byte_literal ''fmt '', le_bytes 4 16, le_bytes 2 1, le_bytes 2 1, le_bytes 4 (nat rate), le_bytes 4 (nat (rate * 2)),
      le_bytes 2 2, le_bytes 2 16, byte_literal ''data'', le_bytes 4 (nat n)])"
  using assms by (simp add: build_wav_header_def Let_def struct_pack_eq WAV_HEADER_SIZE_def PCM_FORMAT_def mult.commute)

lemma length_byte_literal [simp]: "length (byte_literal s) = length s"
  by (simp add: byte_literal_def)

lemma read_wav_written:
  assumes "int (length pcm) + 36 < 2 ^ 32" "0 \<le> rate" "rate * 2 < 2 ^ 32"
  shows "\<exists>wav. pcm_to_wav pcm rate 1 16 = Inr wav \<and> length wav = 44 + length pcm \<and> read_wav wav = Some \<lparr>wav_riff_size = 36 + length pcm, wav_format = 1,
     wav_channels = 1, wav_sample_rate = nat rate, wav_byte_rate = nat rate * 2, wav_block_align = 2, wav_bits = 16, wav_data = pcm\<rparr>"
proof -
  let ?parts = "[byte_literal ''RIFF'', le_bytes 4 (nat (36 + int (length pcm))), byte_literal ''WAVE'',
      byte_literal ''fmt '', le_bytes 4 16, le_bytes 2 1, le_bytes 2 1, le_bytes 4 (nat rate), le_bytes 4 (nat (rate * 2)),
      le_bytes 2 2, le_bytes 2 16, byte_literal ''data'', le_bytes 4 (length pcm)]"
  let ?wav = "concat ?parts @ pcm"
  have w: "pcm_to_wav pcm rate 1 16 = Inr ?wav"
    using assms by (simp add: pcm_to_wav_def wav_header_shape)
  note f = header_fields [OF _ _ _ _ _ _ _ _ _ _ _ _ _ refl, of "byte_literal ''RIFF''" "le_bytes 4 (nat (36 + int (length pcm)))"
      "byte_literal ''WAVE''" "byte_literal ''fmt ''" "le_bytes 4 16" "le_bytes 2 1" "le_bytes 2 1" "le_bytes 4 (nat rate)"
      "le_bytes 4 (nat (rate * 2))" "le_bytes 2 2" "le_bytes 2 16" "byte_literal ''data''" "le_bytes 4 (length pcm)" pcm]
  have "read_wav ?wav = Some \<lparr>wav_riff_size = 36 + length pcm, wav_format = 1,
     wav_channels = 1, wav_sample_rate = nat rate, wav_byte_rate = nat rate * 2, wav_block_align = 2, wav_bits = 16, wav_data = pcm\<rparr>"
    unfolding read_wav_def field_at_def
    using assms by (simp only: f length_byte_literal length_le_bytes list.size refl) (simp add: le_value_bytes byte_literal_def nat_mult_distrib nat_add_distrib)
  moreover have "length ?wav = 44 + length pcm" by simp
  ultimately show ?thesis using w by blast
qed

lemma wav_chunk_made: "b64decode s = Inr pcm \<Longrightarrow> int (length pcm) + 36 < 2 ^ 32 \<Longrightarrow> \<exists>t. pcm_base64_to_wav_base64 s TTS_OUTPUT_SAMPLE_RATE = Inr t"
  using read_wav_written [of pcm 24000] by (auto simp: pcm_base64_to_wav_base64_def TTS_OUTPUT_SAMPLE_RATE_def)

text \<open>
  C40. A chunk of synthesised speech reaches the client as base64 of a canonical WAV file: a reader of
  the 44 byte header finds one 16 bit channel at the sample rate of the synthesis, the sizes of the
  file and of the data, and after the header the samples that were synthesised.
\<close>

theorem wav_chunk_roundtrip:
  assumes "b64decode pcm_base64 = Inr pcm" "int (length pcm) + 36 < 2 ^ 32"
  shows "\<exists>s wav. pcm_base64_to_wav_base64 pcm_base64 TTS_OUTPUT_SAMPLE_RATE = Inr s \<and> b64decode s = Inr wav
     \<and> length wav = 44 + length pcm
     \<and> read_wav wav = Some \<lparr>wav_riff_size = 36 + length pcm, wav_format = 1, wav_channels = 1, wav_sample_rate = 24000,
         wav_byte_rate = 48000, wav_block_align = 2, wav_bits = 16, wav_data = pcm\<rparr>"
  using read_wav_written [OF assms(2), of 24000] by (auto simp: pcm_base64_to_wav_base64_def assms(1) TTS_OUTPUT_SAMPLE_RATE_def)

theorem wav_chunk_roundtrip_witness:
  "\<exists>s wav. pcm_base64_to_wav_base64 (ascii ''AQID'') TTS_OUTPUT_SAMPLE_RATE = Inr s \<and> b64decode s = Inr wav
     \<and> length wav = 44 + length [1, 2, 3 :: byte]
     \<and> read_wav wav = Some \<lparr>wav_riff_size = 36 + length [1, 2, 3 :: byte], wav_format = 1, wav_channels = 1, wav_sample_rate = 24000,
         wav_byte_rate = 48000, wav_block_align = 2, wav_bits = 16, wav_data = [1, 2, 3]\<rparr>"
  by (rule wav_chunk_roundtrip) (simp_all add: b64decode_def b64_value_def ascii_def byte_of_def)

end
