(* ===== verification/Voice_Ws.thy ===== *)
theory Voice_Ws
  imports Voice_Service Audio_Utils
begin

text \<open>
  \<open>application/voice/ws_handler.py\<close>: one voice connection. The orchestrator's fields, what it
  sends to the client and to the recogniser, and the stored interview are the state; the
  language model, the speech synthesis, the opening question and the conversion of audio are
  parameters. Its tasks are events handled one after the other: a turn runs under a lock, and
  the time it takes is an argument. Milliseconds are rationals.
\<close>

section \<open>Messages\<close>

datatype ServerMessage =
    M_Subtitle pystr bool
  | M_Text pystr bool
  | M_AudioChunk int pystr bool
  | M_Control pystr "pystr option"
  | M_Error pystr pystr

datatype ClientMessage = C_Audio pystr | C_Control pystr

datatype AsrOutput = A_Audio pystr | A_Finish

definition required_str :: "(pystr, json) dict \<Rightarrow> pystr \<Rightarrow> pystr result" where
  "required_str d k = validated (case dict_get d k of None \<Rightarrow> Inl TypeError | Some j \<Rightarrow> as_str j)"

text \<open>A value that is no object has no \<open>get\<close>.\<close>

definition parse_client_message :: "json \<Rightarrow> ClientMessage result" where
  "parse_client_message raw = (case raw of
     JObj d \<Rightarrow>
       (let msg_type = dict_get_default d (ascii ''type'') JNull in
        if msg_type = JStr (ascii ''audio'') then res_map C_Audio (required_str d (ascii ''data''))
        else if msg_type = JStr (ascii ''control'') then res_map C_Control (required_str d (ascii ''action''))
        else Inl (ValueError (ascii ''unknown type'')))
   | _ \<Rightarrow> Inl AttributeError)"

section \<open>The connection\<close>

definition WS_CLOSE_SESSION_NOT_FOUND :: int where "WS_CLOSE_SESSION_NOT_FOUND = 4004"
definition WS_CLOSE_INVALID_STATE :: int where "WS_CLOSE_INVALID_STATE = 4003"
definition WS_CLOSE_PAUSE_TIMEOUT :: int where "WS_CLOSE_PAUSE_TIMEOUT = 4001"
definition CONTROL_FINISH_ACTIONS :: "pystr list" where "CONTROL_FINISH_ACTIONS = [ascii ''finish'', ascii ''stop'']"
definition PAUSE_WARNING_SECONDS :: int where "PAUSE_WARNING_SECONDS = 270"
definition ECHO_COOLDOWN_MS :: rat where "ECHO_COOLDOWN_MS = 800"
definition ASR_MAX_RECONNECT :: nat where "ASR_MAX_RECONNECT = 2"
definition ASR_RECONNECT_DELAY_SECONDS :: rat where "ASR_RECONNECT_DELAY_SECONDS = 10"
definition MESSAGE_TYPE_DIALOGUE :: pystr where "MESSAGE_TYPE_DIALOGUE = ascii ''DIALOGUE''"

record DialogueContext =
  dc_role_type :: pystr
  dc_skill_id :: pystr
  dc_difficulty :: pystr
  dc_current_phase :: pystr
  dc_custom_jd_text :: "pystr option"
  dc_llm_provider :: "pystr option"

definition build_dialogue_context :: "VoiceRow \<Rightarrow> DialogueContext" where
  "build_dialogue_context r = \<lparr>dc_role_type = vi_role_type r, dc_skill_id = vi_skill_id r, dc_difficulty = vi_difficulty r,
     dc_current_phase = vi_current_phase r, dc_custom_jd_text = vi_custom_jd_text r, dc_llm_provider = vi_llm_provider r\<rparr>"

record WsState =
  wo_segments :: "pystr list"
  wo_history :: "(pystr \<times> pystr) list"
  wo_context :: "DialogueContext option"
  wo_tts_ready :: bool
  wo_mute_until :: rat
  wo_ai_speaking :: bool
  wo_audio_index :: int
  wo_commit_pending :: bool
  wo_phase_started :: rat
  wo_phase_question_count :: int
  wo_last_activity :: rat
  wo_pause_warned :: bool
  wo_clock :: rat
  wo_sent :: "ServerMessage list"
  wo_asr :: "AsrOutput list"
  wo_closed :: "int option"
  wo_world :: VoiceWorld

type_synonym 'a ws_op = "(WsState, 'a) op"

definition connect_state :: "rat \<Rightarrow> VoiceWorld \<Rightarrow> WsState" where
  "connect_state clock w = \<lparr>wo_segments = [], wo_history = [], wo_context = None, wo_tts_ready = False, wo_mute_until = 0,
     wo_ai_speaking = False, wo_audio_index = 0, wo_commit_pending = False, wo_phase_started = 0,
     wo_phase_question_count = 0, wo_last_activity = 0, wo_pause_warned = False, wo_clock = clock, wo_sent = [],
     wo_asr = [], wo_closed = None, wo_world = w\<rparr>"

datatype TtsOutcome = TTS_Audio "pystr option list" | TTS_Timeout | TTS_Error pystr pystr | TTS_Other

text \<open>
  \<open>we_llm\<close> gives the tokens of a reply and the exception that ended it, if any; \<open>we_tts\<close> the
  events of one synthesis (\<open>None\<close> is an event without audio); \<open>we_tts_config\<close> the loading of the
  configuration.
\<close>

record WsEnv =
  we_session_id :: int
  we_llm :: "DialogueContext \<Rightarrow> pystr \<Rightarrow> pystr \<Rightarrow> pystr list \<times> AiException option"
  we_tts :: "pystr \<Rightarrow> TtsOutcome"
  we_tts_config :: "unit result"
  we_opening :: "pystr \<Rightarrow> pystr"

definition ws_stored :: "'a voice_op \<Rightarrow> 'a ws_op" where
  "ws_stored m = (\<lambda>s. case m (wo_world s) of (r, w) \<Rightarrow> (r, s\<lparr>wo_world := w\<rparr>))"

text \<open>\<open>_safe_send\<close>: a failing send is only logged; the list holds what was handed to the socket.\<close>

definition safe_send :: "ServerMessage \<Rightarrow> unit ws_op" where
  "safe_send m = op_modify (\<lambda>s. s\<lparr>wo_sent := wo_sent s @ [m]\<rparr>)"

definition ws_wait :: "rat \<Rightarrow> unit ws_op" where
  "ws_wait ms = op_modify (\<lambda>s. s\<lparr>wo_clock := wo_clock s + ms\<rparr>)"

definition next_audio_index :: "int ws_op" where
  "next_audio_index = (\<lambda>s. (Inr (wo_audio_index s), s\<lparr>wo_audio_index := wo_audio_index s + 1\<rparr>))"

definition send_audio_chunk :: "pystr \<Rightarrow> bool \<Rightarrow> unit ws_op" where
  "send_audio_chunk data is_last = op_bind next_audio_index (\<lambda>i. safe_send (M_AudioChunk i data is_last))"

definition should_drop_incoming :: "WsState \<Rightarrow> bool" where
  "should_drop_incoming s \<longleftrightarrow> wo_ai_speaking s \<or> should_drop_audio (wo_clock s) (wo_mute_until s)"

definition format_history :: "(pystr \<times> pystr) list \<Rightarrow> pystr" where
  "format_history h = py_join [10] (concat (map (\<lambda>(user_answer, ai_reply). [[20505, 36873, 20154, 65306] @ user_answer, [38754, 35797, 23448, 65306] @ ai_reply]) h))"

section \<open>Speech\<close>

text \<open>The chunks of a sentence; audio that is no base64 fails the whole sentence.\<close>

definition run_tts :: "pystr option list \<Rightarrow> pystr list result" where
  "run_tts events = res_traverse (\<lambda>a. pcm_base64_to_wav_base64 a TTS_OUTPUT_SAMPLE_RATE)
     (filter (\<lambda>a. a \<noteq> []) (List.map_filter id events))"

definition synthesize_sentence :: "WsEnv \<Rightarrow> bool \<Rightarrow> pystr \<Rightarrow> TtsOutcome" where
  "synthesize_sentence env ready sentence = (if \<not> ready then TTS_Audio [] else we_tts env sentence)"

definition emit_audio :: "WsEnv \<Rightarrow> TtsOutcome \<Rightarrow> unit ws_op" where
  "emit_audio env outcome = (case outcome of
     TTS_Audio events \<Rightarrow> (case run_tts events of
         Inl e \<Rightarrow> op_return () | Inr chunks \<Rightarrow> op_for chunks (\<lambda>chunk. send_audio_chunk chunk False))
   | TTS_Timeout \<Rightarrow> op_return ()
   | TTS_Error c msg \<Rightarrow> safe_send (M_Error c msg)
   | TTS_Other \<Rightarrow> op_return ())"

definition emit_audio_in_order :: "WsEnv \<Rightarrow> pystr list \<Rightarrow> unit ws_op" where
  "emit_audio_in_order env sentences = op_bind (op_get wo_tts_ready) (\<lambda>ready.
     op_for sentences (\<lambda>sentence. emit_audio env (synthesize_sentence env ready sentence)))"

definition finish_audio :: "unit ws_op" where
  "finish_audio = op_then (send_audio_chunk [] True) (safe_send (M_Control (ascii ''audio_complete'') None))"

definition sentences_of :: "pystr \<Rightarrow> pystr list" where
  "sentences_of s = (let (sentences, remainder) = split_sentences s; tail = py_strip remainder
     in if tail \<noteq> [] then sentences @ [tail] else sentences)"

definition speak_text :: "WsEnv \<Rightarrow> pystr \<Rightarrow> unit ws_op" where
  "speak_text env s = op_then (emit_audio_in_order env (sentences_of s)) finish_audio"

section \<open>Persistence\<close>

definition persist_turn :: "WsEnv \<Rightarrow> pystr \<Rightarrow> pystr \<Rightarrow> unit ws_op" where
  "persist_turn env answer reply = op_bind (op_get wo_context) (\<lambda>context. case context of
     None \<Rightarrow> op_return ()
   | Some c \<Rightarrow> op_try (ws_stored (in_tx (\<lambda>now. op_bind (op_get (find_latest_unanswered_message (we_session_id env))) (\<lambda>latest.
       let attached = answer \<noteq> [] \<and> latest \<noteq> None in
       op_then (case latest of None \<Rightarrow> op_return () | Some m \<Rightarrow> op_when (answer \<noteq> []) (op_modify (answer_message m answer)))
       (op_bind (op_get (count_messages_by_session (we_session_id env))) (\<lambda>n.
        save_voice_message (\<lambda>i. \<lparr>vmr_id = i, vmr_session_id = we_session_id env, vmr_message_type = MESSAGE_TYPE_DIALOGUE,
          vmr_phase = dc_current_phase c,
          vmr_user_recognized_text = (if attached then None else if answer = [] then None else Some answer),
          vmr_ai_generated_text = Some reply, vmr_timestamp = now, vmr_sequence_num = n + 1\<rparr>)))))))
     (\<lambda>e. op_return ()))"

definition enabled_phases :: "VoiceRow \<Rightarrow> InterviewPhase set" where
  "enabled_phases r = set (map fst (filter snd [(P_INTRO, vi_intro_enabled r), (P_TECH, vi_tech_enabled r),
     (P_PROJECT, vi_project_enabled r), (P_HR, vi_hr_enabled r)]))"

definition switch_phase :: "int \<Rightarrow> InterviewPhase \<Rightarrow> InterviewPhase option voice_op" where
  "switch_phase i current = in_tx (\<lambda>now. op_bind (op_get (find_voice i)) (\<lambda>v. case v of
     None \<Rightarrow> op_return None
   | Some r \<Rightarrow> let nxt = next_phase current (enabled_phases r) in
       op_then (op_modify (voice_update_current_phase i (phase_value nxt) now)) (op_return (Some nxt))))"

definition maybe_transition_phase :: "WsEnv \<Rightarrow> unit ws_op" where
  "maybe_transition_phase env = op_bind (op_get (\<lambda>s. s)) (\<lambda>s. case wo_context s of
     None \<Rightarrow> op_return ()
   | Some c \<Rightarrow> (case parse_phase (dc_current_phase c) of
       Inl e \<Rightarrow> op_return ()
     | Inr current \<Rightarrow>
         let elapsed = (wo_clock s - wo_phase_started s) / 1000 in
         if \<not> should_transition_to_next_phase current elapsed (wo_phase_question_count s) then op_return ()
         else op_try (op_bind (ws_stored (switch_phase (we_session_id env) current)) (\<lambda>nxt. case nxt of
             None \<Rightarrow> op_return ()
           | Some p \<Rightarrow> op_modify (\<lambda>s. s\<lparr>wo_context := Some (c\<lparr>dc_current_phase := phase_value p\<rparr>),
               wo_phase_started := wo_clock s, wo_phase_question_count := 0\<rparr>)))
           (\<lambda>e. op_return ())))"

section \<open>A turn\<close>

text \<open>The loop over the tokens: what was received, what is not yet a sentence, the sentences.\<close>

fun stream_loop :: "pystr list \<Rightarrow> pystr \<Rightarrow> pystr \<Rightarrow> pystr list \<Rightarrow> (pystr \<times> pystr \<times> pystr list) ws_op" where
  "stream_loop [] accumulated pending sentences = op_return (accumulated, pending, sentences)"
| "stream_loop (token # tokens) accumulated pending sentences = op_then (safe_send (M_Text (accumulated @ token) False))
     (let (new, rest) = split_sentences (pending @ token)
      in stream_loop tokens (accumulated @ token) rest (sentences @ new))"

definition llm_failed :: "AiException \<Rightarrow> unit ws_op" where
  "llm_failed e = safe_send (case classify_ai_error e of
     Some c \<Rightarrow> M_Error (int_str (code c)) (message c) | None \<Rightarrow> M_Error (ascii ''llm_error'') [29983, 25104, 22238, 22797, 22833, 36133])"

text \<open>The reply and the sentences to speak.\<close>

definition stream_reply :: "WsEnv \<Rightarrow> DialogueContext \<Rightarrow> pystr \<Rightarrow> (pystr \<times> pystr list) ws_op" where
  "stream_reply env c answer = op_bind (op_get (\<lambda>s. format_history (wo_history s))) (\<lambda>history.
     let (tokens, failure) = we_llm env c history answer in
     op_bind (stream_loop tokens [] [] []) (\<lambda>(accumulated, pending, sentences).
     case failure of
       None \<Rightarrow> op_return (py_strip accumulated, sentences @ (if py_strip pending = [] then [] else [py_strip pending]))
     | Some e \<Rightarrow> op_then (llm_failed e) (op_return (py_strip accumulated, sentences))))"

definition speak_turn :: "WsEnv \<Rightarrow> DialogueContext \<Rightarrow> pystr \<Rightarrow> rat \<Rightarrow> unit ws_op" where
  "speak_turn env c answer took = op_bind (stream_reply env c answer) (\<lambda>(reply, sentences).
     op_then (safe_send (M_Text reply True))
     (op_then (emit_audio_in_order env sentences)
     (op_then finish_audio
     (op_then (ws_wait took)
     (op_when (reply \<noteq> []) (op_then (op_modify (\<lambda>s. s\<lparr>wo_history := wo_history s @ [(answer, reply)]\<rparr>))
       (op_then (persist_turn env answer reply)
       (op_then (op_modify (\<lambda>s. s\<lparr>wo_phase_question_count := wo_phase_question_count s + 1\<rparr>))
         (maybe_transition_phase env)))))))))"

definition end_speech :: "unit ws_op" where
  "end_speech = op_modify (\<lambda>s. s\<lparr>wo_ai_speaking := False, wo_mute_until := wo_clock s + ECHO_COOLDOWN_MS\<rparr>)"

text \<open>\<open>try: m finally: f\<close>.\<close>

definition op_finally :: "('w, 'a) op \<Rightarrow> ('w, unit) op \<Rightarrow> ('w, 'a) op" where
  "op_finally m f = op_bind (op_try (op_bind m (\<lambda>x. op_return (Inr x))) (\<lambda>e. op_return (Inl e)))
     (\<lambda>r. op_then f (op_lift r))"

definition commit_turn :: "WsEnv \<Rightarrow> rat \<Rightarrow> unit ws_op" where
  "commit_turn env took = op_bind (op_get (\<lambda>s. (merge_segments (wo_segments s), wo_context s))) (\<lambda>(answer, context).
     op_then (op_modify (\<lambda>s. s\<lparr>wo_segments := []\<rparr>))
     (case context of
        None \<Rightarrow> op_return ()
      | Some c \<Rightarrow> if answer = [] then op_return ()
          else op_then (op_modify (\<lambda>s. s\<lparr>wo_ai_speaking := True\<rparr>)) (op_finally (speak_turn env c answer took) end_speech)))"

section \<open>Events\<close>

definition on_final_transcript :: "WsEnv \<Rightarrow> pystr \<Rightarrow> rat \<Rightarrow> unit ws_op" where
  "on_final_transcript env t took = op_then (safe_send (M_Subtitle t True))
     (op_then (op_modify (\<lambda>s. s\<lparr>wo_segments := wo_segments s @ [t]\<rparr>))
     (op_bind (op_get (\<lambda>s. merge_segments (wo_segments s))) (\<lambda>merged.
      if should_commit merged 0 then op_then (op_modify (\<lambda>s. s\<lparr>wo_commit_pending := False\<rparr>)) (commit_turn env took)
      else op_modify (\<lambda>s. s\<lparr>wo_commit_pending := True\<rparr>))))"

definition on_debounce :: "WsEnv \<Rightarrow> rat \<Rightarrow> unit ws_op" where
  "on_debounce env took = op_bind (op_get wo_commit_pending) (\<lambda>pending.
     op_when pending (op_then (op_modify (\<lambda>s. s\<lparr>wo_commit_pending := False\<rparr>)) (commit_turn env took)))"

text \<open>A message of the client; the result says whether the client has finished.\<close>

definition on_client_message :: "pystr \<Rightarrow> bool ws_op" where
  "on_client_message raw = op_then (op_modify (\<lambda>s. s\<lparr>wo_last_activity := wo_clock s, wo_pause_warned := False\<rparr>))
     (case res_bind (loads raw) parse_client_message of
        Inl e \<Rightarrow> if e = AttributeError then op_raise e
          else op_then (safe_send (M_Error (ascii ''bad_message'') [28040, 24687, 35299, 26512, 22833, 36133])) (op_return False)
      | Inr (C_Audio data) \<Rightarrow> op_bind (op_get should_drop_incoming) (\<lambda>drop_it.
          op_then (op_when (\<not> drop_it) (op_modify (\<lambda>s. s\<lparr>wo_asr := wo_asr s @ [A_Audio data]\<rparr>))) (op_return False))
      | Inr (C_Control action) \<Rightarrow> if action \<in> set CONTROL_FINISH_ACTIONS
          then op_then (op_modify (\<lambda>s. s\<lparr>wo_asr := wo_asr s @ [A_Finish]\<rparr>)) (op_return True)
          else op_return False)"

definition ws_pause_session :: "WsEnv \<Rightarrow> unit ws_op" where
  "ws_pause_session env = op_try (ws_stored (in_tx (\<lambda>now. op_bind (op_get (find_voice (we_session_id env))) (\<lambda>v. case v of
     None \<Rightarrow> op_return () | Some r \<Rightarrow> op_modify (voice_pause_row (we_session_id env) now))))) (\<lambda>e. op_return ())"

definition check_pause_timeout :: "WsEnv \<Rightarrow> bool ws_op" where
  "check_pause_timeout env = op_bind (op_get (\<lambda>s. s)) (\<lambda>s.
     let elapsed_ms = wo_clock s - wo_last_activity s in
     if elapsed_ms \<ge> of_int (PAUSE_IDLE_TIMEOUT_SECONDS * 1000) then
       op_then (ws_pause_session env)
         (op_then (safe_send (M_Control (ascii ''pause_timeout'') (Some [38271, 26102, 38388, 26080, 27963, 21160, 65292, 38754, 35797, 24050, 26242, 20572]))) (op_return True))
     else op_then (op_when (elapsed_ms \<ge> of_int (PAUSE_WARNING_SECONDS * 1000) \<and> \<not> wo_pause_warned s)
         (op_then (op_modify (\<lambda>s. s\<lparr>wo_pause_warned := True\<rparr>))
           (safe_send (M_Control (ascii ''pause_timeout_warning'') (Some [21363, 23558, 22240, 26080, 27963, 21160, 32780, 26242, 20572]))))) (op_return False))"

text \<open>The watch ends when it has closed the connection.\<close>

definition pause_watch :: "WsEnv \<Rightarrow> unit ws_op" where
  "pause_watch env = op_bind (op_get wo_closed) (\<lambda>closed. if closed \<noteq> None then op_return ()
     else op_bind (check_pause_timeout env) (\<lambda>timeout.
       op_when timeout (op_modify (\<lambda>s. s\<lparr>wo_closed := Some WS_CLOSE_PAUSE_TIMEOUT\<rparr>))))"

datatype WsEvent =
    E_Client pystr
  | E_Partial pystr
  | E_Final pystr rat
  | E_AsrError pystr pystr
  | E_Debounce rat
  | E_PauseCheck
  | E_Wait rat
  | E_Disconnect
  | E_AsrClosed

text \<open>The two pumps until one ends: whether it was the client's. A client pump that raises ends too.\<close>

fun pump :: "WsEnv \<Rightarrow> WsEvent list \<Rightarrow> bool ws_op" where
  "pump env [] = op_return True"
| "pump env (E_Disconnect # es) = op_return True"
| "pump env (E_AsrClosed # es) = op_return False"
| "pump env (E_Client raw # es) = op_bind (op_try (on_client_message raw) (\<lambda>e. op_return True))
     (\<lambda>finished. if finished then op_return True else pump env es)"
| "pump env (E_Partial t # es) = op_then (safe_send (M_Subtitle t False)) (pump env es)"
| "pump env (E_Final t took # es) = op_then (on_final_transcript env t took) (pump env es)"
| "pump env (E_AsrError c msg # es) = op_then (safe_send (M_Error c msg)) (pump env es)"
| "pump env (E_Debounce took # es) = op_then (on_debounce env took) (pump env es)"
| "pump env (E_PauseCheck # es) = op_then (pause_watch env) (pump env es)"
| "pump env (E_Wait ms # es) = op_then (ws_wait ms) (pump env es)"

section \<open>The connection from the handshake to its end\<close>

text \<open>
  What happens to an attempt to connect to the recogniser. Only the errors of the client lead to another
  attempt; any other exception (a refused connection, an unreadable configuration) leaves the loop.
\<close>

datatype AsrAttempt = AC_AuthError pystr pystr | AC_Error | AC_Raises exn | AC_Connected "WsEvent list"

fun run_asr_loop :: "WsEnv \<Rightarrow> nat \<Rightarrow> AsrAttempt list \<Rightarrow> unit ws_op" where
  "run_asr_loop env left [] = op_return ()"
| "run_asr_loop env left (a # attempts) = (case a of
     AC_AuthError c msg \<Rightarrow> safe_send (M_Error c msg)
   | AC_Raises e \<Rightarrow> op_raise e
   | _ \<Rightarrow> op_bind (case a of
         AC_Connected es \<Rightarrow> op_then (safe_send (M_Control (ascii ''asr_ready'') None)) (pump env es)
       | _ \<Rightarrow> op_return False)
       (\<lambda>by_client. if by_client \<or> left = 0 then op_return ()
          else op_then (safe_send (M_Control (ascii ''asr_reconnecting'') (Some [35821, 38899, 35782, 21035, 36830, 25509, 20013, 26029, 65292, 27491, 22312, 37325, 36830])))
            (op_then (ws_wait (ASR_RECONNECT_DELAY_SECONDS * 1000)) (run_asr_loop env (left - 1) attempts))))"

definition load_session_status :: "WsEnv \<Rightarrow> pystr option voice_op" where
  "load_session_status env = op_bind (op_try (voice_cache_get (we_session_id env)) (\<lambda>e. op_return None)) (\<lambda>cached.
     case cached of
       Some s \<Rightarrow> op_return (Some (cv_status s))
     | None \<Rightarrow> op_bind (in_tx (\<lambda>now. op_get (find_voice (we_session_id env)))) (\<lambda>v. op_return (map_option vi_status v)))"

definition has_persisted_messages :: "WsEnv \<Rightarrow> bool voice_op" where
  "has_persisted_messages env = op_try (in_tx (\<lambda>now. op_get (\<lambda>db. count_messages_by_session (we_session_id env) db > 0)))
     (\<lambda>e. op_return False)"

definition send_opening_question :: "WsEnv \<Rightarrow> unit ws_op" where
  "send_opening_question env = op_bind (op_get wo_context) (\<lambda>context. case context of
     None \<Rightarrow> op_return ()
   | Some c \<Rightarrow> let opening = we_opening env (dc_skill_id c) in
       if opening = [] then op_return ()
       else op_bind (ws_stored (has_persisted_messages env)) (\<lambda>has_messages.
         op_then (safe_send (M_Text opening True))
         (op_then (op_modify (\<lambda>s. s\<lparr>wo_ai_speaking := True\<rparr>))
         (op_then (op_finally (speak_text env opening) end_speech)
           (if has_messages then op_return () else persist_turn env [] opening)))))"

definition ws_run :: "WsEnv \<Rightarrow> AsrAttempt list \<Rightarrow> unit ws_op" where
  "ws_run env attempts = op_bind (ws_stored (load_session_status env)) (\<lambda>status. case status of
     None \<Rightarrow> op_modify (\<lambda>s. s\<lparr>wo_closed := Some WS_CLOSE_SESSION_NOT_FOUND\<rparr>)
   | Some st \<Rightarrow> if st \<noteq> voice_status_value V_IN_PROGRESS then op_modify (\<lambda>s. s\<lparr>wo_closed := Some WS_CLOSE_INVALID_STATE\<rparr>)
     else op_bind (ws_stored (in_tx (\<lambda>now. op_get (find_voice (we_session_id env))))) (\<lambda>v. case v of
       None \<Rightarrow> safe_send (M_Error (ascii ''session_gone'') [20250, 35805, 24050, 21024, 38500])
     | Some r \<Rightarrow>
         op_then (op_modify (\<lambda>s. s\<lparr>wo_context := Some (build_dialogue_context r), wo_phase_started := wo_clock s,
           wo_last_activity := wo_clock s\<rparr>))
         (op_then (op_lift (we_tts_config env))
         (op_then (op_modify (\<lambda>s. s\<lparr>wo_tts_ready := True\<rparr>))
         (op_then (send_opening_question env)
           (op_finally (run_asr_loop env ASR_MAX_RECONNECT attempts) (op_modify (\<lambda>s. s\<lparr>wo_commit_pending := False\<rparr>))))))))"

end
