(* ===== verification/Voice_Turns.thy ===== *)
theory Voice_Turns
  imports Voice_Ws Triples
begin

text \<open>
  What a voice connection says: the whole reply is spoken, sentence by sentence and in order,
  and the audio chunks of a connection are numbered without gaps.
\<close>

lemma op_inv_finally [op_rules]: "op_inv P m \<Longrightarrow> op_inv P f \<Longrightarrow> op_inv P (op_finally m f)"
  unfolding op_finally_def by (intro op_rules)

lemma op_inv_stored:
  "(\<And>s w. P s \<Longrightarrow> P (s\<lparr>wo_world := w\<rparr>)) \<Longrightarrow> op_inv P (ws_stored m)"
  by (rule op_invI) (simp add: ws_stored_def split: prod.split)

section \<open>Numbering of the audio\<close>

definition audio_indices :: "ServerMessage list \<Rightarrow> int list" where
  "audio_indices ms = List.map_filter (\<lambda>m. case m of M_AudioChunk i d l \<Rightarrow> Some i | _ \<Rightarrow> None) ms"

lemma audio_indices_append [simp]: "audio_indices (xs @ ys) = audio_indices xs @ audio_indices ys"
  by (simp add: audio_indices_def map_filter_def)

lemma audio_indices_simps [simp]:
  "audio_indices [] = []"
  "audio_indices (m # ms) = (case m of M_AudioChunk i d l \<Rightarrow> i # audio_indices ms | _ \<Rightarrow> audio_indices ms)"
  by (simp_all add: audio_indices_def map_filter_simps split: ServerMessage.split)

definition audio_numbered :: "WsState \<Rightarrow> bool" where
  "audio_numbered s \<longleftrightarrow> 0 \<le> wo_audio_index s \<and> audio_indices (wo_sent s) = [0..wo_audio_index s - 1]"

lemma audio_send [op_rules]: "audio_indices [m] = [] \<Longrightarrow> op_inv audio_numbered (safe_send m)"
  by (cases m) (simp_all add: op_inv_def safe_send_def op_simps audio_numbered_def)

lemma audio_chunk [op_rules]: "op_inv audio_numbered (send_audio_chunk d l)"
  by (simp add: op_inv_def send_audio_chunk_def next_audio_index_def safe_send_def op_simps audio_numbered_def upto_rec2)

lemma audio_modify [op_rules]:
  "(\<And>s. wo_audio_index (f s) = wo_audio_index s \<and> wo_sent (f s) = wo_sent s) \<Longrightarrow> op_inv audio_numbered (op_modify f)"
  by (rule op_inv_modify) (simp add: audio_numbered_def)

lemma audio_stored [op_rules]: "op_inv audio_numbered (ws_stored m)"
  by (rule op_inv_stored) (simp add: audio_numbered_def)

lemma audio_emit [op_rules]: "op_inv audio_numbered (emit_audio env out)"
  by (cases out) (auto simp: emit_audio_def split: sum.split intro!: op_rules)

lemma audio_emit_all [op_rules]: "op_inv audio_numbered (emit_audio_in_order env ss)"
  unfolding emit_audio_in_order_def by (intro op_rules)

lemma audio_finish [op_rules]: "op_inv audio_numbered finish_audio"
  unfolding finish_audio_def by (intro op_rules) simp

lemma audio_persist [op_rules]: "op_inv audio_numbered (persist_turn env a r)"
  unfolding persist_turn_def by (intro op_rules)

lemma audio_transition [op_rules]: "op_inv audio_numbered (maybe_transition_phase env)"
  unfolding maybe_transition_phase_def Let_def
  by (intro op_rules) (auto split: sum.split option.split intro!: op_rules)

lemma audio_stream [op_rules]: "op_inv audio_numbered (stream_loop tokens acc pend ss)"
  by (induction tokens arbitrary: acc pend ss) (auto simp: case_prod_beta intro!: op_rules)

lemma audio_llm_failed [op_rules]: "op_inv audio_numbered (llm_failed e)"
  unfolding llm_failed_def by (rule op_rules) (auto split: option.split)

lemma audio_reply [op_rules]: "op_inv audio_numbered (stream_reply env c a)"
  by (auto simp: stream_reply_def case_prod_beta split: option.split intro!: op_rules)

lemma audio_wait [op_rules]: "op_inv audio_numbered (ws_wait ms)"
  unfolding ws_wait_def by (intro op_rules) simp

lemma audio_turn [op_rules]: "op_inv audio_numbered (commit_turn env took)"
  by (auto simp: commit_turn_def speak_turn_def end_speech_def case_prod_beta split: option.split intro!: op_rules)

lemma audio_pump [op_rules]: "op_inv audio_numbered (pump env es)"
proof (induction env es rule: pump.induct)
  case (4 env raw es)
  have "op_inv audio_numbered (on_client_message raw)"
    by (auto simp: on_client_message_def split: sum.split ClientMessage.split intro!: op_rules)
  then show ?case using 4 by (auto intro!: op_rules)
next
  case (9 env es)
  have "op_inv audio_numbered (pause_watch env)"
    by (auto simp: pause_watch_def check_pause_timeout_def ws_pause_session_def Let_def intro!: op_rules)
  then show ?case using 9 by (auto intro!: op_rules)
qed (auto simp: on_final_transcript_def on_debounce_def intro!: op_rules)

lemma audio_loop [op_rules]: "op_inv audio_numbered (run_asr_loop env n as)"
  by (induction "as" arbitrary: n) (auto split: AsrAttempt.split intro!: op_rules)

lemma audio_opening [op_rules]: "op_inv audio_numbered (send_opening_question env)"
  by (auto simp: send_opening_question_def speak_text_def end_speech_def Let_def split: option.split intro!: op_rules)

text \<open>
  C39. The audio chunks of a connection carry the numbers 0, 1, 2 and so on in the order they
  are sent, across the opening, all turns and all reconnections of the recogniser, and whatever
  the model, the synthesis, the database or Redis do.
\<close>
theorem audio_chunks_numbered:
  "audio_indices (wo_sent (snd (ws_run env attempts (connect_state clock w))))
     = [0..int (length (audio_indices (wo_sent (snd (ws_run env attempts (connect_state clock w)))))) - 1]"
proof -
  have "op_inv audio_numbered (ws_run env attempts)"
    by (auto simp: ws_run_def split: option.split intro!: op_rules)
  moreover have "audio_numbered (connect_state clock w)" by (simp add: audio_numbered_def connect_state_def)
  ultimately have "audio_numbered (snd (ws_run env attempts (connect_state clock w)))" by (rule op_invD)
  then show ?thesis by (simp add: audio_numbered_def)
qed

section \<open>The whole reply is spoken\<close>

text \<open>What is sent for a synthesis: chunks or one error; and a numbering of such parts.\<close>

definition spoken_parts :: "WsEnv \<Rightarrow> bool \<Rightarrow> pystr \<Rightarrow> (pystr + pystr \<times> pystr) list" where
  "spoken_parts env ready sentence = (case synthesize_sentence env ready sentence of
     TTS_Audio events \<Rightarrow> (case run_tts events of Inl e \<Rightarrow> [] | Inr chunks \<Rightarrow> map Inl chunks) | TTS_Error c msg \<Rightarrow> [Inr (c, msg)] | _ \<Rightarrow> [])"

fun number_parts :: "int \<Rightarrow> (pystr + pystr \<times> pystr) list \<Rightarrow> ServerMessage list" where
  "number_parts i [] = []"
| "number_parts i (Inl d # xs) = M_AudioChunk i d False # number_parts (i + 1) xs"
| "number_parts i (Inr (c, msg) # xs) = M_Error c msg # number_parts i xs"

definition chunk_count :: "(pystr + pystr \<times> pystr) list \<Rightarrow> int" where
  "chunk_count xs = int (length (filter isl xs))"

definition sends :: "unit ws_op \<Rightarrow> (pystr + pystr \<times> pystr) list \<Rightarrow> bool" where
  "sends m xs \<longleftrightarrow> (\<forall>s. m s = (Inr (), s\<lparr>wo_sent := wo_sent s @ number_parts (wo_audio_index s) xs,
     wo_audio_index := wo_audio_index s + chunk_count xs\<rparr>))"

lemma number_append: "number_parts i (xs @ ys) = number_parts i xs @ number_parts (i + chunk_count xs) ys"
  by (induction i xs rule: number_parts.induct) (simp_all add: chunk_count_def add.assoc)

lemma sends_return: "sends (op_return ()) []"
  by (simp add: sends_def op_simps chunk_count_def)

lemma sends_then: "sends m xs \<Longrightarrow> sends k ys \<Longrightarrow> sends (op_then m k) (xs @ ys)"
  by (simp add: sends_def op_simps number_append chunk_count_def add.assoc)

lemma sends_for: "(\<And>x. sends (f x) (g x)) \<Longrightarrow> sends (op_for zs f) (concat (map g zs))"
  by (induction zs) (simp_all add: sends_return sends_then)

lemma sends_chunk: "sends (send_audio_chunk d False) [Inl d]"
  by (simp add: sends_def send_audio_chunk_def next_audio_index_def safe_send_def op_simps chunk_count_def)

lemma sends_chunks: "sends (op_for ds (\<lambda>d. send_audio_chunk d False)) (map Inl ds)"
  using sends_for [OF sends_chunk, of ds] by (simp add: concat_map_singleton)

lemma sends_error: "sends (safe_send (M_Error c msg)) [Inr (c, msg)]"
  by (simp add: sends_def safe_send_def op_simps chunk_count_def)

lemma sends_emit: "sends (emit_audio env (synthesize_sentence env ready sentence)) (spoken_parts env ready sentence)"
  by (cases "synthesize_sentence env ready sentence")
    (simp_all add: emit_audio_def spoken_parts_def sends_return sends_error sends_chunks split: sum.split)

lemma emit_audio_in_order_run:
  "emit_audio_in_order env ss s = (let xs = concat (map (spoken_parts env (wo_tts_ready s)) ss) in
     (Inr (), s\<lparr>wo_sent := wo_sent s @ number_parts (wo_audio_index s) xs, wo_audio_index := wo_audio_index s + chunk_count xs\<rparr>))"
  using sends_for [where zs = ss and f = "\<lambda>x. emit_audio env (synthesize_sentence env (wo_tts_ready s) x)"
      and g = "spoken_parts env (wo_tts_ready s)", OF sends_emit]
  by (simp add: emit_audio_in_order_def op_simps sends_def Let_def)

fun partial_texts :: "pystr \<Rightarrow> pystr list \<Rightarrow> ServerMessage list" where
  "partial_texts acc [] = []"
| "partial_texts acc (t # ts) = M_Text (acc @ t) False # partial_texts (acc @ t) ts"

lemma split_open_segment: "split_sentences (snd (split_sentences x)) = ([], snd (split_sentences x))"
proof -
  have "\<forall>c \<in> set (snd (split_sentences x)). c \<notin> set SENTENCE_ENDINGS"
    using split_acc_rest [of "[]" x] by (auto simp: split_sentences_acc)
  from split_acc_shift [OF this, of "[]" "[]"] show ?thesis by (simp add: split_sentences_acc)
qed

lemma stream_loop_run:
  "split_sentences pend = ([], pend) \<Longrightarrow> stream_loop tokens acc pend ss s =
    (Inr (acc @ concat tokens, snd (split_sentences (pend @ concat tokens)), ss @ fst (split_sentences (pend @ concat tokens))),
     s\<lparr>wo_sent := wo_sent s @ partial_texts acc tokens\<rparr>)"
proof (induction tokens arbitrary: acc pend ss s)
  case Nil
  then show ?case by (simp add: op_simps)
next
  case (Cons t ts)
  show ?case
    using split_sentences_append [of "pend @ t" "concat ts"]
    by (simp add: op_simps safe_send_def case_prod_beta Cons.IH [OF split_open_segment])
qed

lemma split_Nil: "split_sentences [] = ([], [])"
  by (simp add: split_sentences_acc)

lemma stream_reply_run:
  assumes "we_llm env c (format_history (wo_history s)) answer = (tokens, None)"
  shows "stream_reply env c answer s = (Inr (py_strip (concat tokens), sentences_of (concat tokens)),
    s\<lparr>wo_sent := wo_sent s @ partial_texts [] tokens\<rparr>)"
  by (simp add: stream_reply_def op_simps assms stream_loop_run [OF split_Nil] case_prod_beta sentences_of_def Let_def)

lemma snd_op_finally: "snd (op_finally m f s) = snd (f (snd (m s)))"
  by (cases "m s"; cases "fst (m s)"; cases "f (snd (m s))"; cases "fst (f (snd (m s)))") (auto simp: op_finally_def op_simps)

abbreviation unsent :: "ServerMessage list \<Rightarrow> WsState \<Rightarrow> bool" where
  "unsent ms s \<equiv> wo_sent s = ms"

lemma unsent_rest:
  "op_inv (unsent ms) (op_when b (op_then (op_modify (\<lambda>s. s\<lparr>wo_history := h s\<rparr>))
      (op_then (persist_turn env answer reply)
      (op_then (op_modify (\<lambda>s. s\<lparr>wo_phase_question_count := n s\<rparr>)) (maybe_transition_phase env)))))"
  by (intro op_rules)
    (auto simp: persist_turn_def maybe_transition_phase_def Let_def split: option.split sum.split
      intro!: op_rules op_inv_modify op_inv_stored)

lemma visible_sentences:
  "filter (\<lambda>c. \<not> is_space c) (concat (sentences_of x)) = filter (\<lambda>c. \<not> is_space c) x"
proof -
  obtain ss r where sr: "split_sentences x = (ss, r)" by fastforce
  have "py_strip r = [] \<Longrightarrow> filter (\<lambda>c. \<not> is_space c) r = []" using strip_nonspace [of r] by simp
  then show ?thesis
    using split_sentences_visible [of x] strip_nonspace [of r] by (auto simp: sentences_of_def sr Let_def)
qed

text \<open>
  C28. A turn whose reply the model completes sends, in this order: the reply as it grows, the final
  text, for every sentence of the reply its audio chunks (or the error of its synthesis) with
  consecutive numbers, and the end marks. The sentences are those of the whole reply although they
  are cut out of the stream token by token, and they hold all its visible characters: nothing of
  the reply stays unspoken.
\<close>
theorem turn_speaks_whole_reply:
  assumes "wo_context s = Some c" "answer = merge_segments (wo_segments s)" "answer \<noteq> []"
    and "we_llm env c (format_history (wo_history s)) answer = (tokens, None)"
  shows "let parts = concat (map (spoken_parts env (wo_tts_ready s)) (sentences_of (concat tokens))); i = wo_audio_index s in
    wo_sent (snd (commit_turn env took s)) = wo_sent s @ partial_texts [] tokens @ [M_Text (py_strip (concat tokens)) True]
      @ number_parts i parts @ [M_AudioChunk (i + chunk_count parts) [] True, M_Control (ascii ''audio_complete'') None]
    \<and> filter (\<lambda>ch. \<not> is_space ch) (concat (sentences_of (concat tokens))) = filter (\<lambda>ch. \<not> is_space ch) (concat tokens)"
proof -
  define parts where "parts = concat (map (spoken_parts env (wo_tts_ready s)) (sentences_of (concat tokens)))"
  define out where "out = wo_sent s @ partial_texts [] tokens @ [M_Text (py_strip (concat tokens)) True]
      @ number_parts (wo_audio_index s) parts
      @ [M_AudioChunk (wo_audio_index s + chunk_count parts) [] True, M_Control (ascii ''audio_complete'') None]"
  define s0 where "s0 = s\<lparr>wo_segments := [], wo_ai_speaking := True\<rparr>"
  have llm: "we_llm env c (format_history (wo_history s0)) answer = (tokens, None)" using assms(4) by (simp add: s0_def)
  have "snd (commit_turn env took s) = snd (end_speech (snd (speak_turn env c answer took s0)))"
    using assms(1-3) by (simp add: commit_turn_def op_simps snd_op_finally s0_def)
  moreover have "wo_sent (snd (speak_turn env c answer took s0)) = out"
    unfolding speak_turn_def
    by (simp add: op_simps(6,7) stream_reply_run [OF llm])
       (simp add: op_simps safe_send_def emit_audio_in_order_run finish_audio_def send_audio_chunk_def next_audio_index_def
          ws_wait_def Let_def s0_def out_def parts_def op_invD [OF unsent_rest] del: op_simps(9))
  ultimately have "wo_sent (snd (commit_turn env took s)) = out" by (simp add: end_speech_def op_simps)
  then show ?thesis by (simp add: out_def parts_def visible_sentences Let_def)
qed

definition sample_ws_env :: WsEnv where
  "sample_ws_env = \<lparr>we_session_id = 1, we_llm = (\<lambda>c h a. ([[72, 33], [66]], None)), we_tts = (\<lambda>x. TTS_Audio [Some (ascii ''AQID'')]),
     we_tts_config = Inr (), we_opening = (\<lambda>k. [79])\<rparr>"

definition empty_voice_world :: VoiceWorld where
  "empty_voice_world = \<lparr>vw_db = \<lparr>vdb_sessions = [], vdb_messages = [], vdb_evals = [], vdb_resumes = [], vdb_fresh = 1\<rparr>,
     vw_cache = (\<lambda>k. []), vw_stream = [], vw_degraded = [], vw_faults = [], vw_db_faults = [], vw_now = 0\<rparr>"

definition sample_context :: DialogueContext where
  "sample_context = \<lparr>dc_role_type = [], dc_skill_id = [], dc_difficulty = [], dc_current_phase = phase_value P_INTRO,
     dc_custom_jd_text = None, dc_llm_provider = None\<rparr>"

definition sample_wav :: pystr where
  "sample_wav = (case pcm_base64_to_wav_base64 (ascii ''AQID'') TTS_OUTPUT_SAMPLE_RATE of Inl e \<Rightarrow> [] | Inr s \<Rightarrow> s)"

lemma run_sample_tts: "run_tts [Some (ascii ''AQID'')] = Inr [sample_wav]"
proof -
  have "b64decode (ascii ''AQID'') = Inr [1, 2, 3]"
    by (simp add: b64decode_def b64_value_def ascii_def byte_of_def)
  then obtain t where "pcm_base64_to_wav_base64 (ascii ''AQID'') TTS_OUTPUT_SAMPLE_RATE = Inr t"
    using wav_chunk_made [of _ "[1, 2, 3]"] by auto
  then show ?thesis by (simp add: run_tts_def map_filter_def sample_wav_def)
qed

lemma turn_speaks_whole_reply_witness:
  "wo_sent (snd (commit_turn sample_ws_env 0 ((connect_state 0 empty_voice_world)\<lparr>wo_segments := [[65]],
      wo_context := Some sample_context, wo_tts_ready := True\<rparr>)))
    = [M_Text [72, 33] False, M_Text [72, 33, 66] False, M_Text [72, 33, 66] True, M_AudioChunk 0 sample_wav False,
       M_AudioChunk 1 sample_wav False, M_AudioChunk 2 [] True, M_Control (ascii ''audio_complete'') None]"
proof -
  let ?s = "(connect_state 0 empty_voice_world)\<lparr>wo_segments := [[65]], wo_context := Some sample_context, wo_tts_ready := True\<rparr>"
  have "wo_context ?s = Some sample_context" "[65] = merge_segments (wo_segments ?s)" "[65] \<noteq> ([] :: pystr)"
    "we_llm sample_ws_env sample_context (format_history (wo_history ?s)) [65] = ([[72, 33], [66]], None)"
    by (simp_all add: merge_segments_def sample_ws_env_def py_strip_def is_space_def)
  from turn_speaks_whole_reply [OF this, of 0] show ?thesis
    by (simp add: Let_def sentences_of_def split_sentences_acc SENTENCE_ENDINGS_def py_strip_def is_space_def
        spoken_parts_def synthesize_sentence_def run_sample_tts sample_ws_env_def chunk_count_def connect_state_def)
qed

end
