(* ===== verification/Voice_Transcript.thy ===== *)
theory Voice_Transcript
  imports Voice_Turns
begin

text \<open>
  The dialogue of a connection and its stored messages: each stored question carries the
  answer the user gave to it, which is what the evaluation reads.
\<close>

section \<open>Transcripts\<close>

text \<open>Questions and answers of an opening followed by turns of answer and reply.\<close>

fun transcript :: "pystr \<Rightarrow> (pystr \<times> pystr) list \<Rightarrow> (pystr option \<times> pystr) list" where
  "transcript q [] = [(None, q)]"
| "transcript q ((a, r) # h) = (Some a, q) # transcript r h"

fun asked :: "pystr \<Rightarrow> (pystr \<times> pystr) list \<Rightarrow> (pystr option \<times> pystr) list" where
  "asked q [] = []"
| "asked q ((a, r) # h) = (Some a, q) # asked r h"

definition last_question :: "pystr \<Rightarrow> (pystr \<times> pystr) list \<Rightarrow> pystr" where
  "last_question q h = (if h = [] then q else snd (last h))"

lemma transcript_asked: "transcript q h = asked q h @ [(None, last_question q h)]"
  by (induction q h rule: transcript.induct) (auto simp: last_question_def)

lemma asked_append: "asked q (h @ [(a, r)]) = asked q h @ [(Some a, last_question q h)]"
  by (induction q h rule: transcript.induct) (auto simp: last_question_def)

lemma last_question_append [simp]: "last_question q (h @ [(a, r)]) = r"
  by (simp add: last_question_def)

lemma merge_segments_strip:
  assumes "merge_segments segs \<noteq> []"
  shows "py_strip (merge_segments segs) = merge_segments segs"
proof -
  define ps where "ps = filter (\<lambda>c. c \<noteq> []) (map py_strip segs)"
  have eq: "merge_segments segs = concat ps" by (simp add: merge_segments_def ps_def)
  have ps: "ps \<noteq> []" "merge_segments segs = concat ps" using assms eq by (metis concat.simps(1)) (rule eq)
  have st: "p \<noteq> [] \<and> py_strip p = p" if "p \<in> set ps" for p using that by (auto simp: ps_def)
  have "hd (concat ps) = hd (hd ps)" using ps(1) st by (cases ps) auto
  moreover have "last (concat ps) = last (last ps)" using ps(1) st
    by (cases ps rule: rev_cases) auto
  moreover have "\<not> is_space (hd (hd ps))" using st [of "hd ps"] ps(1) hd_py_strip [of "hd ps"] by (metis hd_in_set)
  moreover have "\<not> is_space (last (last ps))" using st [of "last ps"] ps(1) last_py_strip [of "last ps"] by (metis last_in_set)
  ultimately show ?thesis using ps(2) by (simp add: py_strip_id)
qed

section \<open>Stored messages\<close>

definition rows_of :: "int \<Rightarrow> VoiceDb \<Rightarrow> VoiceMsgRow list" where
  "rows_of i db = filter (\<lambda>m. vmr_session_id m = i) (vdb_messages db)"

definition row_pair :: "VoiceMsgRow \<Rightarrow> pystr option \<times> pystr option" where
  "row_pair m = (vmr_user_recognized_text m, vmr_ai_generated_text m)"

text \<open>Identifiers are fresh and unique, and messages are stored in the order of their numbers.\<close>

definition messages_ok :: "int \<Rightarrow> VoiceDb \<Rightarrow> bool" where
  "messages_ok i db \<longleftrightarrow> distinct (map vmr_id (vdb_messages db)) \<and> (\<forall>m \<in> set (vdb_messages db). vmr_id m < vdb_fresh db)
     \<and> map vmr_sequence_num (rows_of i db) = [1..int (length (rows_of i db))]"

lemma messages_of_rows: "messages_ok i db \<Longrightarrow> messages_of i db = rows_of i db"
  by (simp add: messages_of_def messages_ok_def rows_of_def [symmetric] sort_key_id_if_sorted)

lemma count_rows: "count_messages_by_session i db = int (length (rows_of i db))"
  by (simp add: count_messages_by_session_def rows_of_def)

definition dialogue_stored :: "WsEnv \<Rightarrow> pystr \<Rightarrow> (pystr \<times> pystr) list \<Rightarrow> VoiceDb \<Rightarrow> bool" where
  "dialogue_stored env q h db \<longleftrightarrow> messages_ok (we_session_id env) db \<and> find_voice (we_session_id env) db \<noteq> None
     \<and> map row_pair (rows_of (we_session_id env) db) = map (\<lambda>(a, q). (a, Some q)) (transcript q h)"

lemma answer_rows:
  assumes "distinct (map vmr_id (vdb_messages db))" "rows_of i db = ms @ [m]"
  shows "rows_of i (answer_message m a db) = ms @ [m\<lparr>vmr_user_recognized_text := Some a\<rparr>]"
proof -
  let ?f = "\<lambda>x. if vmr_id x = vmr_id m then x\<lparr>vmr_user_recognized_text := Some a\<rparr> else x"
  have "rows_of i (answer_message m a db) = map ?f (rows_of i db)"
    by (simp add: rows_of_def answer_message_def filter_map comp_def if_distrib cong: if_cong)
  moreover have "distinct (map vmr_id (ms @ [m]))"
    using assms unfolding rows_of_def by (metis distinct_map_filter)
  then have "vmr_id x \<noteq> vmr_id m" if "x \<in> set ms" for x using that by (metis distinct_append distinct_singleton insert_iff list.set_map map_append IntI empty_iff imageI list.map(2) list.set(2))
  then have "map ?f ms = ms" by (intro map_idI) simp
  ultimately show ?thesis by (simp add: assms(2))
qed

lemma rows_of_frame [simp]:
  "rows_of i (db\<lparr>vdb_sessions := x\<rparr>) = rows_of i db" "rows_of i (db\<lparr>vdb_fresh := n\<rparr>) = rows_of i db"
  by (simp_all add: rows_of_def)

lemma answer_ids [simp]:
  "map vmr_id (vdb_messages (answer_message m a db)) = map vmr_id (vdb_messages db)"
  "vdb_fresh (answer_message m a db) = vdb_fresh db" "vdb_sessions (answer_message m a db) = vdb_sessions db"
  by (simp_all add: answer_message_def comp_def if_distrib cong: if_cong)

lemma messages_ok_ids:
  "messages_ok i db \<longleftrightarrow> distinct (map vmr_id (vdb_messages db)) \<and> (\<forall>k \<in> set (map vmr_id (vdb_messages db)). k < vdb_fresh db)
     \<and> map vmr_sequence_num (rows_of i db) = [1..int (length (rows_of i db))]"
  by (simp add: messages_ok_def)

text \<open>Saving the next message of a session.\<close>

lemma save_voice_message_run:
  assumes "messages_ok i db" "find_voice i db \<noteq> None"
    and "\<And>k. vmr_session_id (row k) = i \<and> vmr_sequence_num (row k) = count_messages_by_session i db + 1 \<and> vmr_id (row k) = k"
  shows "save_voice_message row db = (Inr (), db\<lparr>vdb_messages := vdb_messages db @ [row (vdb_fresh db)], vdb_fresh := vdb_fresh db + 1\<rparr>)"
proof -
  let ?n = "int (length (rows_of i db))"
  have "vmr_sequence_num x \<noteq> ?n + 1" if "x \<in> set (vdb_messages db)" "vmr_session_id x = i" for x
  proof -
    have "x \<in> set (rows_of i db)" using that by (simp add: rows_of_def)
    then have "vmr_sequence_num x \<in> set (map vmr_sequence_num (rows_of i db))" by simp
    also have "map vmr_sequence_num (rows_of i db) = [1..?n]" using assms(1) by (simp add: messages_ok_def)
    finally show ?thesis by simp
  qed
  then show ?thesis
    using assms(2,3) by (auto simp: save_voice_message_def op_simps Let_def count_rows)
qed

lemma saved_ok:
  assumes "messages_ok i db" "vmr_session_id m = i" "vmr_id m = vdb_fresh db"
    and "vmr_sequence_num m = count_messages_by_session i db + 1"
  shows "messages_ok i (db\<lparr>vdb_messages := vdb_messages db @ [m], vdb_fresh := vdb_fresh db + 1\<rparr>)"
    and "rows_of i (db\<lparr>vdb_messages := vdb_messages db @ [m], vdb_fresh := vdb_fresh db + 1\<rparr>) = rows_of i db @ [m]"
proof -
  show rows: "rows_of i (db\<lparr>vdb_messages := vdb_messages db @ [m], vdb_fresh := vdb_fresh db + 1\<rparr>) = rows_of i db @ [m]"
    using assms(2) by (simp add: rows_of_def)
  have "[1..int (length (rows_of i db)) + 1] = [1..int (length (rows_of i db))] @ [int (length (rows_of i db)) + 1]"
    by (simp add: upto_rec2)
  moreover have "distinct (map vmr_id (vdb_messages db))" "\<forall>x \<in> set (vdb_messages db). vmr_id x < vdb_fresh db"
    "map vmr_sequence_num (rows_of i db) = [1..int (length (rows_of i db))]"
    using assms(1) by (simp_all add: messages_ok_def)
  moreover from this(1,2) have "distinct (map vmr_id (vdb_messages db @ [m]))"
    "\<forall>x \<in> set (vdb_messages db @ [m]). vmr_id x < vdb_fresh db + 1"
    by (auto simp: assms(3))
  ultimately show "messages_ok i (db\<lparr>vdb_messages := vdb_messages db @ [m], vdb_fresh := vdb_fresh db + 1\<rparr>)"
    unfolding messages_ok_def rows by (simp add: assms(4) count_rows add.commute)
qed

lemma map_snoc: "map f xs = ys @ [y] \<Longrightarrow> \<exists>zs z. xs = zs @ [z] \<and> map f zs = ys \<and> f z = y"
  by (cases xs rule: rev_cases) auto

lemma dialogue_last:
  assumes "dialogue_stored env q h db"
  obtains ms m where "rows_of (we_session_id env) db = ms @ [m]" "map row_pair ms = map (\<lambda>(a, q). (a, Some q)) (asked q h)"
    "row_pair m = (None, Some (last_question q h))"
    "find_latest_unanswered_message (we_session_id env) db = Some m"
proof -
  have ok: "messages_ok (we_session_id env) db" using assms by (simp add: dialogue_stored_def)
  have "map row_pair (rows_of (we_session_id env) db) = map (\<lambda>(a, q). (a, Some q)) (asked q h) @ [(None, Some (last_question q h))]"
    using assms by (simp add: dialogue_stored_def transcript_asked)
  from map_snoc [OF this] obtain ms m where m: "rows_of (we_session_id env) db = ms @ [m]"
    "map row_pair ms = map (\<lambda>(a, q). (a, Some q)) (asked q h)" "row_pair m = (None, Some (last_question q h))" by blast
  have "unanswered m" using m(3) by (simp add: unanswered_def row_pair_def)
  then have "find_latest_unanswered_message (we_session_id env) db = Some m"
    by (simp add: find_latest_unanswered_message_def messages_of_rows [OF ok] m(1))
  with m that show ?thesis by blast
qed

text \<open>The transaction of \<open>persist_turn\<close>, without a failure of the database.\<close>

definition turn_row :: "WsEnv \<Rightarrow> DialogueContext \<Rightarrow> pystr option \<Rightarrow> pystr \<Rightarrow> int \<Rightarrow> int \<Rightarrow> int \<Rightarrow> VoiceMsgRow" where
  "turn_row env c answer reply now n = (\<lambda>i. \<lparr>vmr_id = i, vmr_session_id = we_session_id env, vmr_message_type = MESSAGE_TYPE_DIALOGUE,
     vmr_phase = dc_current_phase c, vmr_user_recognized_text = answer, vmr_ai_generated_text = Some reply,
     vmr_timestamp = now, vmr_sequence_num = n + 1\<rparr>)"

lemma dialogue_turn:
  assumes "dialogue_stored env q h db" "a \<noteq> []"
  obtains m db' where "find_latest_unanswered_message (we_session_id env) db = Some m"
    "save_voice_message (turn_row env c None r now (count_messages_by_session (we_session_id env) (answer_message m a db)))
       (answer_message m a db) = (Inr (), db')"
    "dialogue_stored env q (h @ [(a, r)]) db'" "vdb_sessions db' = vdb_sessions db"
proof -
  let ?i = "we_session_id env"
  from dialogue_last [OF assms(1)] obtain ms m where
    m: "rows_of ?i db = ms @ [m]" "map row_pair ms = map (\<lambda>(a, q). (a, Some q)) (asked q h)"
      "row_pair m = (None, Some (last_question q h))" "find_latest_unanswered_message ?i db = Some m" by blast
  define db1 where "db1 = answer_message m a db"
  have ok: "messages_ok ?i db" and sess: "find_voice ?i db \<noteq> None" using assms(1) by (simp_all add: dialogue_stored_def)
  have rows1: "rows_of ?i db1 = ms @ [m\<lparr>vmr_user_recognized_text := Some a\<rparr>]"
    unfolding db1_def using ok m(1) by (intro answer_rows) (simp_all add: messages_ok_def)
  have ok1: "messages_ok ?i db1"
    using ok m(1) rows1 unfolding messages_ok_ids db1_def by simp
  have sess1: "find_voice ?i db1 \<noteq> None" using sess by (simp add: db1_def find_voice_def)
  define row where "row = turn_row env c None r now (count_messages_by_session ?i db1)"
  have row: "vmr_session_id (row k) = ?i \<and> vmr_sequence_num (row k) = count_messages_by_session ?i db1 + 1 \<and> vmr_id (row k) = k" for k
    by (simp add: row_def turn_row_def)
  define db' where "db' = db1\<lparr>vdb_messages := vdb_messages db1 @ [row (vdb_fresh db1)], vdb_fresh := vdb_fresh db1 + 1\<rparr>"
  have run: "save_voice_message row db1 = (Inr (), db')"
    unfolding db'_def by (rule save_voice_message_run [OF ok1 sess1 row])
  have "messages_ok ?i db'" "rows_of ?i db' = rows_of ?i db1 @ [row (vdb_fresh db1)]"
    unfolding db'_def using saved_ok [OF ok1, of "row (vdb_fresh db1)"] row by simp_all
  moreover have "row_pair (row (vdb_fresh db1)) = (None, Some r)" by (simp add: row_def turn_row_def row_pair_def)
  moreover have "row_pair (m\<lparr>vmr_user_recognized_text := Some a\<rparr>) = (Some a, Some (last_question q h))"
    using m(3) by (simp add: row_pair_def)
  moreover have "find_voice ?i db' \<noteq> None" using sess1 by (simp add: db'_def find_voice_def)
  ultimately have "dialogue_stored env q (h @ [(a, r)]) db'"
    by (simp add: dialogue_stored_def rows1 m(2) transcript_asked asked_append)
  moreover have "vdb_sessions db' = vdb_sessions db" by (simp add: db'_def db1_def)
  ultimately show ?thesis using that [OF m(4) run [unfolded row_def db1_def]] by blast
qed

section \<open>The dialogue of a connection is stored\<close>

definition spoken_ok :: "(pystr \<times> pystr) list \<Rightarrow> bool" where
  "spoken_ok h \<longleftrightarrow> (\<forall>(a, r) \<in> set h. a \<noteq> [] \<and> py_strip a = a \<and> r \<noteq> [] \<and> py_strip r = r)"

definition told :: "WsEnv \<Rightarrow> pystr \<Rightarrow> WsState \<Rightarrow> bool" where
  "told env q s \<longleftrightarrow> vw_db_faults (wo_world s) = [] \<and> wo_context s \<noteq> None
     \<and> dialogue_stored env q (wo_history s) (vw_db (wo_world s)) \<and> spoken_ok (wo_history s)"

lemma in_tx_run:
  "vw_db_faults w = [] \<Longrightarrow> in_tx m w = (case m (vw_now w) (vw_db w) of
     (Inl e, _) \<Rightarrow> (Inl e, w) | (Inr x, db) \<Rightarrow> (Inr x, w\<lparr>vw_db := db\<rparr>))"
  by (cases w) (simp add: in_tx_def split: prod.split sum.split)

lemma told_modify [op_rules]:
  "(\<And>s. wo_world (f s) = wo_world s \<and> wo_history (f s) = wo_history s \<and> (wo_context s \<noteq> None \<longrightarrow> wo_context (f s) \<noteq> None))
     \<Longrightarrow> op_inv (told env q) (op_modify f)"
  by (rule op_inv_modify) (simp add: told_def)

lemma told_send [op_rules]: "op_inv (told env q) (safe_send m)" "op_inv (told env q) (ws_wait ms)"
    "op_inv (told env q) (send_audio_chunk d l)"
  by (simp_all add: safe_send_def ws_wait_def send_audio_chunk_def next_audio_index_def op_inv_def op_simps told_def)

definition keeps_messages :: "WsEnv \<Rightarrow> 'a voice_op \<Rightarrow> bool" where
  "keeps_messages env m \<longleftrightarrow> (\<forall>w. vw_db_faults w = [] \<longrightarrow> (let w' = snd (m w) in vw_db_faults w' = []
     \<and> vdb_messages (vw_db w') = vdb_messages (vw_db w) \<and> vdb_fresh (vw_db w') = vdb_fresh (vw_db w)
     \<and> (find_voice (we_session_id env) (vw_db w) \<noteq> None \<longrightarrow> find_voice (we_session_id env) (vw_db w') \<noteq> None)))"

lemma told_stored: "keeps_messages env m \<Longrightarrow> op_inv (told env q) (ws_stored m)"
  by (rule op_invI)
    (auto simp: ws_stored_def told_def keeps_messages_def dialogue_stored_def messages_ok_def rows_of_def Let_def
      split: prod.splits dest!: spec)

lemma find_map_touch:
  "(\<And>r. vi_id (f r) = vi_id r) \<Longrightarrow> find (\<lambda>r. vi_id r = i) (map f rs) = map_option f (find (\<lambda>r. vi_id r = i) rs)"
  by (induction rs) auto

lemma find_update_voice:
  assumes "\<And>r. vi_id (f r) = vi_id r"
  shows "find_voice j (update_voice i f now db) = map_option (\<lambda>r. if vi_id r = i then touch_voice now f r else r) (find_voice j db)"
  unfolding find_voice_def update_voice_def
  by (simp, rule find_map_touch) (simp add: touch_voice_def assms)

lemma keeps_switch: "keeps_messages env (switch_phase (we_session_id env) p)"
  by (auto simp: keeps_messages_def switch_phase_def in_tx_run op_simps Let_def voice_update_current_phase_def find_update_voice
      split: option.split) (simp_all add: update_voice_def)

lemma keeps_pause: "keeps_messages env (in_tx (\<lambda>now. op_bind (op_get (find_voice (we_session_id env))) (\<lambda>v. case v of
     None \<Rightarrow> op_return () | Some r \<Rightarrow> op_modify (voice_pause_row (we_session_id env) now))))"
  by (auto simp: keeps_messages_def in_tx_run op_simps Let_def voice_pause_row_def find_update_voice split: option.split)
    (simp_all add: update_voice_def)

lemma persist_turn_told:
  assumes "told env q s" "a \<noteq> []" "py_strip a = a" "r \<noteq> []" "py_strip r = r"
  obtains s' where "persist_turn env a r (s\<lparr>wo_history := wo_history s @ [(a, r)]\<rparr>) = (Inr (), s')" "told env q s'"
proof -
  let ?w = "wo_world s"
  obtain c where c: "wo_context s = Some c" using assms(1) by (auto simp: told_def)
  have f: "vw_db_faults ?w = []" and d: "dialogue_stored env q (wo_history s) (vw_db ?w)" and sp: "spoken_ok (wo_history s)"
    using assms(1) by (simp_all add: told_def)
  from dialogue_turn [OF d assms(2), where r = r and c = c and now = "vw_now ?w"] obtain m db' where
    m: "find_latest_unanswered_message (we_session_id env) (vw_db ?w) = Some m"
    and sv: "save_voice_message (turn_row env c None r (vw_now ?w)
       (count_messages_by_session (we_session_id env) (answer_message m a (vw_db ?w)))) (answer_message m a (vw_db ?w)) = (Inr (), db')"
    and db': "dialogue_stored env q (wo_history s @ [(a, r)]) db'" by metis
  let ?s' = "s\<lparr>wo_history := wo_history s @ [(a, r)], wo_world := ?w\<lparr>vw_db := db'\<rparr>\<rparr>"
  have "persist_turn env a r (s\<lparr>wo_history := wo_history s @ [(a, r)]\<rparr>) = (Inr (), ?s')"
    using sv assms(2) by (simp add: persist_turn_def op_simps c ws_stored_def in_tx_run [OF f] m turn_row_def)
  moreover have "spoken_ok (wo_history s @ [(a, r)])" using sp assms(2-) by (auto simp: spoken_ok_def)
  then have "told env q ?s'" using f db' c by (simp add: told_def)
  ultimately show ?thesis by (rule that)
qed

lemma told_turn_rest:
  assumes "op_inv (told env q) k" "a \<noteq> []" "py_strip a = a" "py_strip r = r"
  shows "op_inv (told env q) (op_when (r \<noteq> []) (op_then (op_modify (\<lambda>s. s\<lparr>wo_history := wo_history s @ [(a, r)]\<rparr>))
       (op_then (persist_turn env a r) k)))"
proof (rule op_invI)
  fix s assume t: "told env q s"
  show "told env q (snd (op_when (r \<noteq> []) (op_then (op_modify (\<lambda>s. s\<lparr>wo_history := wo_history s @ [(a, r)]\<rparr>))
       (op_then (persist_turn env a r) k)) s))"
  proof (cases "r = []")
    case False
    from persist_turn_told [OF t assms(2,3) False assms(4)] obtain s' where
      "persist_turn env a r (s\<lparr>wo_history := wo_history s @ [(a, r)]\<rparr>) = (Inr (), s')" "told env q s'" .
    then show ?thesis using False op_invD [OF assms(1)] by (simp add: op_simps)
  qed (simp add: op_simps t)
qed

lemma told_stream [op_rules]: "op_inv (told env q) (stream_loop tokens acc pend ss)"
  by (induction tokens arbitrary: acc pend ss) (auto simp: case_prod_beta intro!: op_rules)

lemma told_emit [op_rules]: "op_inv (told env q) (emit_audio env out)"
  by (cases out) (auto simp: emit_audio_def split: sum.split intro!: op_rules)

lemma told_transition [op_rules]: "op_inv (told env q) (maybe_transition_phase env)"
proof -
  have "op_inv (told env q) (op_modify (\<lambda>s. s\<lparr>wo_context := Some (c\<lparr>dc_current_phase := p\<rparr>), wo_phase_started := wo_clock s,
      wo_phase_question_count := 0\<rparr>))" for c p by (intro op_rules) simp
  then show ?thesis
    by (auto simp: maybe_transition_phase_def Let_def split: option.split sum.split
        intro!: op_rules told_stored [OF keeps_switch])
qed

lemma told_finish [op_rules]: "op_inv (told env q) finish_audio"
  unfolding finish_audio_def by (intro op_rules)

lemma told_end_speech [op_rules]: "op_inv (told env q) end_speech"
  unfolding end_speech_def by (intro op_rules) simp

lemma stream_reply_strip: "stream_reply env c a s = (Inr (reply, ss), s') \<Longrightarrow> py_strip reply = reply"
  by (auto simp: stream_reply_def op_simps case_prod_beta split: prod.splits sum.splits option.splits)

lemma told_speak:
  assumes "a \<noteq> []" "py_strip a = a"
  shows "op_inv (told env q) (speak_turn env c a took)"
proof (rule op_invI)
  fix s assume t: "told env q s"
  have inv: "op_inv (told env q) (stream_reply env c a)"
    by (auto simp: stream_reply_def llm_failed_def case_prod_beta split: option.split intro!: op_rules)
  obtain res s1 where r: "stream_reply env c a s = (res, s1)" by fastforce
  have t1: "told env q s1" using op_invD [OF inv t] by (simp add: r)
  show "told env q (snd (speak_turn env c a took s))"
  proof (cases res)
    case (Inl e)
    then show ?thesis using t1 by (simp add: speak_turn_def op_simps r)
  next
    case (Inr x)
    obtain reply ss where x: "x = (reply, ss)" by fastforce
    have st: "py_strip reply = reply" using stream_reply_strip r Inr x by metis
    have "op_inv (told env q) (op_then (safe_send (M_Text reply True)) (op_then (emit_audio_in_order env ss)
      (op_then finish_audio (op_then (ws_wait took) (op_when (reply \<noteq> [])
       (op_then (op_modify (\<lambda>s. s\<lparr>wo_history := wo_history s @ [(a, reply)]\<rparr>))
       (op_then (persist_turn env a reply)
       (op_then (op_modify (\<lambda>s. s\<lparr>wo_phase_question_count := wo_phase_question_count s + 1\<rparr>))
         (maybe_transition_phase env)))))))))"
      by (intro op_inv_then told_send told_finish told_turn_rest assms st told_transition told_modify)
        (auto simp: emit_audio_in_order_def intro!: op_rules)
    from op_invD [OF this t1] show ?thesis by (simp add: speak_turn_def op_simps(6) r Inr x)
  qed
qed

lemma told_commit [op_rules]: "op_inv (told env q) (commit_turn env took)"
proof (rule op_invI)
  fix s assume t: "told env q s"
  define s0 where "s0 = s\<lparr>wo_segments := [], wo_ai_speaking := True\<rparr>"
  have t0: "told env q s0" "told env q (s\<lparr>wo_segments := []\<rparr>)" using t by (simp_all add: told_def s0_def)
  show "told env q (snd (commit_turn env took s))"
  proof (cases "merge_segments (wo_segments s) = [] \<or> wo_context s = None")
    case True
    then show ?thesis using t0 by (auto simp: commit_turn_def op_simps split: option.split)
  next
    case False
    then obtain c where c: "wo_context s = Some c" by auto
    have "op_inv (told env q) (op_finally (speak_turn env c (merge_segments (wo_segments s)) took) end_speech)"
      using False by (intro op_rules told_speak merge_segments_strip) auto
    from op_invD [OF this t0(1)] show ?thesis using False c by (simp add: commit_turn_def op_simps s0_def)
  qed
qed

lemma told_pump [op_rules]: "op_inv (told env q) (pump env es)"
proof (induction env es rule: pump.induct)
  case (4 env raw es)
  have "op_inv (told env q) (on_client_message raw)"
    by (auto simp: on_client_message_def split: sum.split ClientMessage.split intro!: op_rules)
  then show ?case using 4 by (auto intro!: op_rules)
next
  case (9 env es)
  have "op_inv (told env q) (pause_watch env)"
    by (auto simp: pause_watch_def check_pause_timeout_def ws_pause_session_def Let_def
        intro!: op_rules told_stored [OF keeps_pause])
  then show ?case using 9 by (auto intro!: op_rules)
qed (auto simp: on_final_transcript_def on_debounce_def intro!: op_rules)

lemma told_loop [op_rules]: "op_inv (told env q) (run_asr_loop env n as)"
  by (induction "as" arbitrary: n) (auto split: AsrAttempt.split intro!: op_rules)

section \<open>The opening\<close>

definition before_opening :: "WsEnv \<Rightarrow> DialogueContext \<Rightarrow> WsState \<Rightarrow> bool" where
  "before_opening env c s \<longleftrightarrow> vw_db_faults (wo_world s) = [] \<and> wo_context s = Some c \<and> wo_history s = []
     \<and> messages_ok (we_session_id env) (vw_db (wo_world s)) \<and> find_voice (we_session_id env) (vw_db (wo_world s)) \<noteq> None
     \<and> rows_of (we_session_id env) (vw_db (wo_world s)) = []"

lemma before_modify [op_rules]:
  "(\<And>s. wo_world (f s) = wo_world s \<and> wo_history (f s) = wo_history s \<and> wo_context (f s) = wo_context s)
     \<Longrightarrow> op_inv (before_opening env c) (op_modify f)"
  by (rule op_inv_modify) (simp add: before_opening_def)

lemma before_send [op_rules]: "op_inv (before_opening env c) (safe_send m)" "op_inv (before_opening env c) (send_audio_chunk d l)"
  by (simp_all add: safe_send_def send_audio_chunk_def next_audio_index_def op_inv_def op_simps before_opening_def)

lemma before_speech [op_rules]: "op_inv (before_opening env c) (op_finally (speak_text env t) end_speech)"
proof -
  have "op_inv (before_opening env c) (emit_audio env out)" for out
    by (cases out) (auto simp: emit_audio_def split: sum.split intro!: op_rules)
  then show ?thesis
    unfolding speak_text_def emit_audio_in_order_def finish_audio_def end_speech_def by (intro op_rules) simp_all
qed

lemma speech_returns: "\<exists>s'. op_finally (speak_text env t) end_speech s = (Inr (), s')"
  by (simp add: op_finally_def speak_text_def op_simps emit_audio_in_order_run Let_def finish_audio_def send_audio_chunk_def
      next_audio_index_def safe_send_def end_speech_def)

lemma persist_opening_told:
  assumes "before_opening env c s"
  shows "told env q (snd (persist_turn env [] q s))"
proof -
  let ?w = "wo_world s" and ?i = "we_session_id env"
  have f: "vw_db_faults ?w = []" and c: "wo_context s = Some c" and h: "wo_history s = []"
    and ok: "messages_ok ?i (vw_db ?w)" and sess: "find_voice ?i (vw_db ?w) \<noteq> None" and rows: "rows_of ?i (vw_db ?w) = []"
    using assms by (simp_all add: before_opening_def)
  have latest: "find_latest_unanswered_message ?i (vw_db ?w) = None"
    by (simp add: find_latest_unanswered_message_def messages_of_rows [OF ok] rows)
  define row where "row = turn_row env c None q (vw_now ?w) (count_messages_by_session ?i (vw_db ?w))"
  have row: "vmr_session_id (row k) = ?i \<and> vmr_sequence_num (row k) = count_messages_by_session ?i (vw_db ?w) + 1 \<and> vmr_id (row k) = k" for k
    by (simp add: row_def turn_row_def)
  define db' where "db' = (vw_db ?w)\<lparr>vdb_messages := vdb_messages (vw_db ?w) @ [row (vdb_fresh (vw_db ?w))],
    vdb_fresh := vdb_fresh (vw_db ?w) + 1\<rparr>"
  have sv: "save_voice_message row (vw_db ?w) = (Inr (), db')"
    unfolding db'_def by (rule save_voice_message_run [OF ok sess row])
  have "messages_ok ?i db'" "rows_of ?i db' = rows_of ?i (vw_db ?w) @ [row (vdb_fresh (vw_db ?w))]"
    unfolding db'_def using saved_ok [OF ok, of "row (vdb_fresh (vw_db ?w))"] row by simp_all
  moreover have "find_voice ?i db' \<noteq> None" using sess by (simp add: db'_def find_voice_def)
  ultimately have "dialogue_stored env q [] db'"
    by (simp add: dialogue_stored_def rows row_pair_def row_def turn_row_def)
  moreover have "persist_turn env [] q s = (Inr (), s\<lparr>wo_world := ?w\<lparr>vw_db := db'\<rparr>\<rparr>)"
    using sv by (simp add: persist_turn_def op_simps c ws_stored_def in_tx_run [OF f] latest row_def turn_row_def)
  ultimately show ?thesis by (simp add: told_def f c h spoken_ok_def)
qed

lemma opening_told:
  assumes "before_opening env c s" "we_opening env (dc_skill_id c) \<noteq> []"
  obtains s' where "send_opening_question env s = (Inr (), s')" "told env (we_opening env (dc_skill_id c)) s'"
proof -
  let ?q = "we_opening env (dc_skill_id c)" and ?w = "wo_world s"
  have f: "vw_db_faults ?w = []" and c: "wo_context s = Some c" and rows: "rows_of (we_session_id env) (vw_db ?w) = []"
    using assms(1) by (simp_all add: before_opening_def)
  have none: "ws_stored (has_persisted_messages env) s = (Inr False, s)"
    by (simp add: has_persisted_messages_def ws_stored_def op_simps in_tx_run [OF f] count_rows rows)
  define s1 where "s1 = s\<lparr>wo_sent := wo_sent s @ [M_Text ?q True], wo_ai_speaking := True\<rparr>"
  have b1: "before_opening env c s1" using assms(1) by (simp add: s1_def before_opening_def)
  obtain s2 where s2: "op_finally (speak_text env ?q) end_speech s1 = (Inr (), s2)" using speech_returns by blast
  have b2: "before_opening env c s2" using op_invD [OF before_speech b1] s2 by (metis snd_conv)
  have "send_opening_question env s = persist_turn env [] ?q s2"
    using assms(2) by (simp add: send_opening_question_def op_simps c Let_def none safe_send_def s2 flip: s1_def)
  moreover have "\<exists>s'. persist_turn env [] ?q s2 = (Inr (), s')"
    using b2 by (auto simp: persist_turn_def op_simps before_opening_def split: option.split prod.split sum.split)
  ultimately show ?thesis using persist_opening_told [OF b2, of ?q] that by (metis snd_conv)
qed

section \<open>What the evaluation reads\<close>

lemma records_of_rows:
  assumes "map row_pair ms = map (\<lambda>(a, q). (a, Some q)) t" "map vmr_sequence_num ms = map int [k..<k + length ms]"
    and "\<forall>(a, q) \<in> set t. q \<noteq> [] \<and> py_strip q = q \<and> (\<forall>x. a = Some x \<longrightarrow> x \<noteq> [] \<and> py_strip x = x)"
  shows "map (\<lambda>r. (qa_question_index r, qa_user_answer r, qa_question r)) (build_voice_qa_records (map voice_message ms))
    = map (\<lambda>(i, (a, q)). (int i, a, q)) (List.enumerate k t)"
  using assms
proof (induction ms arbitrary: t k)
  case Nil
  then show ?case by (simp add: build_voice_qa_records_def map_filter_simps)
next
  case (Cons m ms)
  obtain a q t' where t: "t = (a, q) # t'" using Cons.prems(1) by (cases t) auto
  have up: "map int [k..<k + length (m # ms)] = int k # map int [Suc k..<Suc k + length ms]"
    by (simp add: upt_conv_Cons del: upt_Suc)
  have m: "vmr_user_recognized_text m = a" "vmr_ai_generated_text m = Some q" "vmr_sequence_num m = int k"
    using Cons.prems(1,2) t unfolding up by (auto simp: row_pair_def)
  have "map vmr_sequence_num ms = map int [Suc k..<Suc k + length ms]" using Cons.prems(2) unfolding up by simp
  with Cons.IH [of t' "Suc k"] Cons.prems t have IH:
    "map (\<lambda>r. (qa_question_index r, qa_user_answer r, qa_question r)) (build_voice_qa_records (map voice_message ms))
      = map (\<lambda>(i, (a, q)). (int i, a, q)) (List.enumerate (Suc k) t')" by simp
  have "voice_qa_record (voice_message m) = Some \<lparr>qa_question_index = int k, qa_question = q, qa_category = vmr_phase m, qa_user_answer = a\<rparr>"
    using Cons.prems(3) t m by (cases a) (auto simp: voice_qa_record_def voice_message_def or_str_def Let_def)
  then show ?case using IH t by (simp add: build_voice_qa_records_def map_filter_simps)
qed

lemma transcript_texts:
  "q \<noteq> [] \<Longrightarrow> py_strip q = q \<Longrightarrow> spoken_ok h \<Longrightarrow>
     \<forall>(a, q) \<in> set (transcript q h). q \<noteq> [] \<and> py_strip q = q \<and> (\<forall>x. a = Some x \<longrightarrow> x \<noteq> [] \<and> py_strip x = x)"
  by (induction q h rule: transcript.induct) (auto simp: spoken_ok_def)

lemma upto_int: "[1..int n] = map int [1..<Suc n]"
  by (induction n) (simp_all add: upto_rec2)

lemma told_records:
  assumes "told env q s" "q \<noteq> []" "py_strip q = q"
  shows "map (\<lambda>r. (qa_question_index r, qa_user_answer r, qa_question r)) (voice_records (we_session_id env) (vw_db (wo_world s)))
    = map (\<lambda>(i, (a, q)). (int i, a, q)) (List.enumerate 1 (transcript q (wo_history s)))"
proof -
  let ?ms = "rows_of (we_session_id env) (vw_db (wo_world s))"
  have d: "dialogue_stored env q (wo_history s) (vw_db (wo_world s))" and sp: "spoken_ok (wo_history s)"
    using assms(1) by (simp_all add: told_def)
  then have ok: "messages_ok (we_session_id env) (vw_db (wo_world s))"
    and pairs: "map row_pair ?ms = map (\<lambda>(a, q). (a, Some q)) (transcript q (wo_history s))"
    by (simp_all add: dialogue_stored_def)
  have "map vmr_sequence_num ?ms = [1..int (length ?ms)]" using ok by (simp add: messages_ok_def)
  also have "\<dots> = map int [1..<1 + length ?ms]" by (simp add: upto_int)
  finally have "map vmr_sequence_num ?ms = map int [1..<1 + length ?ms]" .
  from records_of_rows [OF pairs this transcript_texts [OF assms(2,3) sp]] show ?thesis
    by (simp add: voice_records_def messages_of_rows [OF ok])
qed

text \<open>Reading the state of a session changes nothing but the use of Redis.\<close>

lemma load_session_status_same:
  assumes "vw_db_faults w = []"
  shows "vw_db (snd (load_session_status env w)) = vw_db w" "vw_db_faults (snd (load_session_status env w)) = []"
proof -
  have g: "vw_db (snd (voice_cache_get i v)) = vw_db v \<and> vw_db_faults (snd (voice_cache_get i v)) = vw_db_faults v" for i v
    by (auto simp: voice_cache_get_def voice_redis_def op_simps split: list.split bool.split prod.split sum.split)
  obtain res v where v: "voice_cache_get (we_session_id env) w = (res, v)" by fastforce
  then have same: "vw_db v = vw_db w" "vw_db_faults v = []" using g [of "we_session_id env" w] assms by simp_all
  have "vw_db (snd (load_session_status env w)) = vw_db w \<and> vw_db_faults (snd (load_session_status env w)) = []"
    using same by (auto simp: load_session_status_def op_simps v in_tx_run split: sum.split option.split)
  then show "vw_db (snd (load_session_status env w)) = vw_db w" "vw_db_faults (snd (load_session_status env w)) = []" by auto
qed

lemma handshake_told:
  assumes "vw_db_faults w = []" "find_voice (we_session_id env) (vw_db w) = Some r" "messages_ok (we_session_id env) (vw_db w)"
    and "rows_of (we_session_id env) (vw_db w) = []" "we_tts_config env = Inr ()" "we_opening env (vi_skill_id r) \<noteq> []"
    and "fst (load_session_status env w) = Inr (Some (voice_status_value V_IN_PROGRESS))"
  shows "told env (we_opening env (vi_skill_id r)) (snd (ws_run env attempts (connect_state clock w)))"
proof -
  let ?s0 = "connect_state clock w" and ?q = "we_opening env (vi_skill_id r)"
  obtain w1 where l: "load_session_status env w = (Inr (Some (voice_status_value V_IN_PROGRESS)), w1)"
    using assms(7) by (metis prod.collapse)
  with load_session_status_same [OF assms(1), of env] have w1: "vw_db w1 = vw_db w" "vw_db_faults w1 = []" by simp_all
  have same: "w1\<lparr>vw_db := vw_db w\<rparr> = w1" using w1(1) by (cases w1) simp
  define s1 where "s1 = ?s0\<lparr>wo_world := w1\<rparr>"
  define s2 where "s2 = s1\<lparr>wo_context := Some (build_dialogue_context r), wo_phase_started := wo_clock s1,
    wo_last_activity := wo_clock s1, wo_tts_ready := True\<rparr>"
  have "ws_stored (load_session_status env) ?s0 = (Inr (Some (voice_status_value V_IN_PROGRESS)), s1)"
    by (simp add: ws_stored_def connect_state_def l s1_def)
  then have run: "ws_run env attempts ?s0 = op_then (send_opening_question env)
      (op_finally (run_asr_loop env ASR_MAX_RECONNECT attempts) (op_modify (\<lambda>s. s\<lparr>wo_commit_pending := False\<rparr>)))
      s2"
    by (simp add: ws_run_def op_simps(1-5) op_bind_def)
       (simp add: op_then_def op_bind_def op_simps(1-5) ws_stored_def in_tx_run w1 same assms(2,5) s1_def s2_def connect_state_def)
  have "before_opening env (build_dialogue_context r) s2"
    using w1 assms(2-4) by (simp add: before_opening_def s1_def s2_def connect_state_def)
  from opening_told [OF this] assms(6) obtain s3 where s3: "send_opening_question env s2 = (Inr (), s3)" "told env ?q s3"
    by (auto simp: build_dialogue_context_def)
  have "op_inv (told env ?q) (op_finally (run_asr_loop env ASR_MAX_RECONNECT attempts) (op_modify (\<lambda>s. s\<lparr>wo_commit_pending := False\<rparr>)))"
    by (intro op_rules) simp
  from op_invD [OF this s3(2)] show ?thesis by (simp add: run op_simps(7) s3(1))
qed

lemma refused_unconnected:
  assumes "wo_context (snd (ws_run env attempts (connect_state clock w))) \<noteq> None"
  shows "fst (load_session_status env w) = Inr (Some (voice_status_value V_IN_PROGRESS))"
proof -
  obtain res w1 where l: "load_session_status env w = (res, w1)" by fastforce
  have "ws_stored (load_session_status env) (connect_state clock w) = (res, (connect_state clock w)\<lparr>wo_world := w1\<rparr>)"
    by (simp add: ws_stored_def connect_state_def l)
  with assms have "res = Inr (Some (voice_status_value V_IN_PROGRESS))"
    by (cases res) (auto simp: ws_run_def op_simps connect_state_def split: option.splits if_splits)
  with l show ?thesis by simp
qed


definition sample_voice_request :: CreateVoiceSessionRequest where
  "sample_voice_request = \<lparr>cvr_role_type = [], cvr_skill_id = [], cvr_difficulty = [], cvr_resume_id = None,
     cvr_custom_jd_text = None, cvr_intro_enabled = True, cvr_tech_enabled = True, cvr_project_enabled = True,
     cvr_hr_enabled = True, cvr_llm_provider = None, cvr_planned_duration = 30\<rparr>"

definition sample_voice_world :: VoiceWorld where
  "sample_voice_world = empty_voice_world\<lparr>vw_db := (vw_db empty_voice_world)\<lparr>vdb_sessions := [new_voice sample_voice_request 0 1],
     vdb_fresh := 2\<rparr>\<rparr>"

lemmas sample_voice_defs = sample_voice_world_def empty_voice_world_def sample_voice_request_def new_voice_def sample_ws_env_def


end
