(* ===== verification/Py_Regex.thy ===== *)
theory Py_Regex
  imports Prelude
begin

text \<open>
  Python's \<open>re\<close> for the patterns the code uses: backtracking matching as the list of all matches
  in the order of their priority, \<open>search\<close> as the leftmost position with a match, and \<open>sub\<close>. A pattern
  also has a language, the texts it matches between their contexts, and matching is shown to be
  sound and complete for it.
\<close>

section \<open>Characters\<close>

text \<open>The decimal digits of Unicode come in runs of ten; \<open>\d\<close> matches them, \<open>int\<close> reads them.\<close>

definition DECIMAL_ZEROS :: "nat list" where
  "DECIMAL_ZEROS = [48, 1632, 1776, 1984, 2406, 2534, 2662, 2790, 2918, 3046, 3174, 3302, 3430, 3558, 3664, 3792, 3872,
     4160, 4240, 6112, 6160, 6470, 6608, 6784, 6800, 6992, 7088, 7232, 7248, 42528, 43216, 43264, 43472, 43504, 43600, 44016,
     65296, 66720, 68912, 69734, 69872, 69942, 70096, 70384, 70736, 70864, 71248, 71360, 71472, 71904, 72016, 72784, 73040,
     73120, 73552, 92768, 92864, 93008, 120782, 120792, 120802, 120812, 120822, 123200, 123632, 124144, 125264, 130032]"

definition decimal_value :: "nat \<Rightarrow> nat option" where
  "decimal_value c = map_option (\<lambda>z. c - z) (find (\<lambda>z. z \<le> c \<and> c < z + 10) DECIMAL_ZEROS)"

definition is_decimal :: "nat \<Rightarrow> bool" where "is_decimal c \<longleftrightarrow> decimal_value c \<noteq> None"

text \<open>
  With \<open>IGNORECASE\<close> a letter of a pattern also matches the other case and the characters whose
  simple lower case it is or that \<open>re\<close> lists as equivalent.
\<close>

definition same_letter :: "nat \<Rightarrow> nat \<Rightarrow> bool" where
  "same_letter x c \<longleftrightarrow> c = x \<or> (97 \<le> x \<and> x \<le> 122 \<and> c + 32 = x) \<or> (x = 105 \<and> (c = 304 \<or> c = 305))
     \<or> (x = 115 \<and> c = 383) \<or> (x = 107 \<and> c = 8490)"

section \<open>Patterns\<close>

datatype rx =
    Eps
  | Chr "nat \<Rightarrow> bool"
  | Cat rx rx
  | Or rx rx
  | Many bool "nat \<Rightarrow> bool" nat "nat option"
  | Grp nat rx
  | Bol
  | Eol

text \<open>\<open>Many True P lo hi\<close> is the greedy \<open>[P]{lo,hi}\<close>, with \<open>False\<close> the lazy one.\<close>

abbreviation (input) Star :: "(nat \<Rightarrow> bool) \<Rightarrow> rx" where "Star P \<equiv> Many True P 0 None"
abbreviation (input) Plus :: "(nat \<Rightarrow> bool) \<Rightarrow> rx" where "Plus P \<equiv> Many True P 1 None"
abbreviation (input) Times :: "(nat \<Rightarrow> bool) \<Rightarrow> nat \<Rightarrow> rx" where "Times P n \<equiv> Many True P n (Some n)"
abbreviation (input) Maybe :: "rx \<Rightarrow> rx" where "Maybe r \<equiv> Or r Eps"

definition Lit :: "pystr \<Rightarrow> rx" where "Lit s = foldr (\<lambda>c r. Cat (Chr (\<lambda>d. d = c)) r) s Eps"
definition Lit_ci :: "pystr \<Rightarrow> rx" where "Lit_ci s = foldr (\<lambda>c r. Cat (Chr (same_letter c)) r) s Eps"

fun Alts :: "rx list \<Rightarrow> rx" where
  "Alts [] = Eps"
| "Alts [r] = r"
| "Alts (r # rs) = Or r (Alts rs)"

fun Cats :: "rx list \<Rightarrow> rx" where
  "Cats [] = Eps"
| "Cats [r] = r"
| "Cats (r # rs) = Cat r (Cats rs)"

section \<open>Matching\<close>

text \<open>A position: the character before it, the text from it on, and the groups captured so far.\<close>

type_synonym caps = "(nat, pystr) dict"
type_synonym pos = "nat option \<times> pystr \<times> caps"

definition last_char :: "nat option \<Rightarrow> pystr \<Rightarrow> nat option" where
  "last_char prev u = (if u = [] then prev else Some (last u))"

definition advance :: "nat \<Rightarrow> pos \<Rightarrow> pos" where
  "advance k = (\<lambda>(prev, s, c). (last_char prev (take k s), drop k s, c))"

definition run_lengths :: "bool \<Rightarrow> (nat \<Rightarrow> bool) \<Rightarrow> nat \<Rightarrow> nat option \<Rightarrow> pystr \<Rightarrow> nat list" where
  "run_lengths greedy P lo hi s =
     (let n = length (takeWhile P s); m = (case hi of None \<Rightarrow> n | Some h \<Rightarrow> min h n); ks = [lo..<Suc m]
      in if greedy then rev ks else ks)"

primrec rx_match :: "rx \<Rightarrow> pos \<Rightarrow> pos list" where
  "rx_match Eps p = [p]"
| "rx_match (Chr P) p = (case p of (prev, s, c) \<Rightarrow> (case s of [] \<Rightarrow> [] | x # xs \<Rightarrow> if P x then [(Some x, xs, c)] else []))"
| "rx_match (Cat a b) p = concat (map (rx_match b) (rx_match a p))"
| "rx_match (Or a b) p = rx_match a p @ rx_match b p"
| "rx_match (Many greedy P lo hi) p = map (\<lambda>k. advance k p) (run_lengths greedy P lo hi (fst (snd p)))"
| "rx_match (Grp n a) p = map (\<lambda>(prev, s, c). (prev, s, dict_set n (take (length (fst (snd p)) - length s) (fst (snd p))) c)) (rx_match a p)"
| "rx_match Bol p = (case p of (prev, s, c) \<Rightarrow> if prev = None \<or> prev = Some 10 then [p] else [])"
| "rx_match Eol p = (case p of (prev, s, c) \<Rightarrow> if s = [] \<or> hd s = 10 then [p] else [])"

text \<open>The first match at a position: the text it covers and the groups.\<close>

definition match_at :: "rx \<Rightarrow> nat option \<Rightarrow> pystr \<Rightarrow> (pystr \<times> caps) option" where
  "match_at r prev s = (case rx_match r (prev, s, []) of [] \<Rightarrow> None
     | (_, rest, c) # _ \<Rightarrow> Some (take (length s - length rest) s, c))"

fun search_from :: "rx \<Rightarrow> nat option \<Rightarrow> pystr \<Rightarrow> (pystr \<times> caps) option" where
  "search_from r prev [] = match_at r prev []"
| "search_from r prev (x # xs) = (case match_at r prev (x # xs) of Some m \<Rightarrow> Some m | None \<Rightarrow> search_from r (Some x) xs)"

text \<open>\<open>pattern.search(text)\<close>: the text of the match and its groups.\<close>

definition rx_search :: "rx \<Rightarrow> pystr \<Rightarrow> (pystr \<times> caps) option" where
  "rx_search r s = search_from r None s"

definition rx_found :: "rx \<Rightarrow> pystr \<Rightarrow> bool" where
  "rx_found r s \<longleftrightarrow> rx_search r s \<noteq> None"

definition group :: "nat \<Rightarrow> pystr \<times> caps \<Rightarrow> pystr" where
  "group n m = dict_get_default (snd m) n []"

text \<open>
  \<open>pattern.sub(repl, text)\<close> for a constant replacement. The patterns the code substitutes match no
  empty text, so an empty match replaces nothing here.
\<close>

function sub_from :: "rx \<Rightarrow> pystr \<Rightarrow> nat option \<Rightarrow> pystr \<Rightarrow> pystr" where
  "sub_from r repl prev [] = []"
| "sub_from r repl prev (x # xs) =
     (let s = x # xs in case match_at r prev s of
        Some (u, _) \<Rightarrow> if u = [] then x # sub_from r repl (Some x) xs
          else repl @ sub_from r repl (last_char prev u) (drop (length u) s)
      | None \<Rightarrow> x # sub_from r repl (Some x) xs)"
  by pat_completeness auto
termination
  by (relation "measure (\<lambda>(r, repl, prev, s). length s)") auto

declare sub_from.simps(2) [simp del]

definition rx_sub :: "rx \<Rightarrow> pystr \<Rightarrow> pystr \<Rightarrow> pystr" where
  "rx_sub r repl s = sub_from r repl None s"

section \<open>Languages\<close>

text \<open>\<open>rx_in r prev u v\<close>: the pattern matches \<open>u\<close> after the character \<open>prev\<close> and before \<open>v\<close>.\<close>

primrec rx_in :: "rx \<Rightarrow> nat option \<Rightarrow> pystr \<Rightarrow> pystr \<Rightarrow> bool" where
  "rx_in Eps prev u v \<longleftrightarrow> u = []"
| "rx_in (Chr P) prev u v \<longleftrightarrow> (\<exists>x. u = [x] \<and> P x)"
| "rx_in (Cat a b) prev u v \<longleftrightarrow> (\<exists>u1 u2. u = u1 @ u2 \<and> rx_in a prev u1 (u2 @ v) \<and> rx_in b (last_char prev u1) u2 v)"
| "rx_in (Or a b) prev u v \<longleftrightarrow> rx_in a prev u v \<or> rx_in b prev u v"
| "rx_in (Many greedy P lo hi) prev u v \<longleftrightarrow> (\<forall>x \<in> set u. P x) \<and> lo \<le> length u \<and> (case hi of None \<Rightarrow> True | Some h \<Rightarrow> length u \<le> h)"
| "rx_in (Grp n a) prev u v \<longleftrightarrow> rx_in a prev u v"
| "rx_in Bol prev u v \<longleftrightarrow> u = [] \<and> (prev = None \<or> prev = Some 10)"
| "rx_in Eol prev u v \<longleftrightarrow> u = [] \<and> (v = [] \<or> hd v = 10)"

lemma last_char_Nil [simp]: "last_char prev [] = prev" by (simp add: last_char_def)

lemma last_char_append: "last_char prev (u @ w) = last_char (last_char prev u) w"
  by (simp add: last_char_def)

lemma takeWhile_longest: "(\<forall>x \<in> set (take k s). P x) \<Longrightarrow> k \<le> length s \<Longrightarrow> k \<le> length (takeWhile P s)"
proof (induction s arbitrary: k)
  case (Cons a s)
  then show ?case by (cases k) auto
qed simp

lemma take_takeWhile: "k \<le> length (takeWhile P s) \<Longrightarrow> x \<in> set (take k s) \<Longrightarrow> P x"
proof (induction s arbitrary: k)
  case (Cons a s)
  then show ?case by (cases k) (auto split: if_splits)
qed simp

lemma run_lengths_iff:
  "k \<in> set (run_lengths greedy P lo hi s) \<longleftrightarrow> k \<le> length s \<and> rx_in (Many greedy P lo hi) prev (take k s) v"
proof -
  have run: "k \<le> length (takeWhile P s) \<longleftrightarrow> k \<le> length s \<and> (\<forall>x \<in> set (take k s). P x)"
    using takeWhile_longest [of k s P] take_takeWhile [of k P s] length_takeWhile_le [of P s] by (meson order_trans)
  have "k \<in> set (run_lengths greedy P lo hi s) \<longleftrightarrow> lo \<le> k \<and> k \<le> length (takeWhile P s) \<and> (case hi of None \<Rightarrow> True | Some h \<Rightarrow> k \<le> h)"
    by (cases hi) (auto simp: run_lengths_def Let_def)
  also have "\<dots> \<longleftrightarrow> k \<le> length s \<and> rx_in (Many greedy P lo hi) prev (take k s) v"
    unfolding run by (cases "k \<le> length s") (simp_all add: min_absorb2 conj_ac split: option.split)
  finally show ?thesis .
qed

text \<open>A match leaves a rest of the text, and its groups do not matter to which matches exist.\<close>

lemma match_iff:
  "(\<exists>c'. (q, v, c') \<in> set (rx_match r (prev, s, c))) \<longleftrightarrow> (\<exists>u. s = u @ v \<and> q = last_char prev u \<and> rx_in r prev u v)"
proof (induction r arbitrary: prev s c q v)
  case (Chr P)
  have "(\<exists>c'. (q, v, c') \<in> set (rx_match (Chr P) (prev, s, c))) \<longleftrightarrow> (\<exists>x. s = x # v \<and> P x \<and> q = Some x)"
    by (cases s) auto
  moreover have "(\<exists>u. s = u @ v \<and> q = last_char prev u \<and> rx_in (Chr P) prev u v) \<longleftrightarrow> (\<exists>x. s = [x] @ v \<and> q = last_char prev [x] \<and> P x)"
    unfolding rx_in.simps by blast
  ultimately show ?case by (auto simp: last_char_def)
next
  case (Cat a b)
  show ?case
  proof
    assume "\<exists>c'. (q, v, c') \<in> set (rx_match (Cat a b) (prev, s, c))"
    then obtain q1 v1 c1 c' where a: "(q1, v1, c1) \<in> set (rx_match a (prev, s, c))" and b: "(q, v, c') \<in> set (rx_match b (q1, v1, c1))"
      by auto
    from a Cat.IH(1) obtain u1 where u1: "s = u1 @ v1" "q1 = last_char prev u1" "rx_in a prev u1 v1" by blast
    from b Cat.IH(2) obtain u2 where u2: "v1 = u2 @ v" "q = last_char q1 u2" "rx_in b q1 u2 v" by blast
    show "\<exists>u. s = u @ v \<and> q = last_char prev u \<and> rx_in (Cat a b) prev u v"
      using u1 u2 by (intro exI [of _ "u1 @ u2"]) (auto simp: last_char_append)
  next
    assume "\<exists>u. s = u @ v \<and> q = last_char prev u \<and> rx_in (Cat a b) prev u v"
    then obtain u1 u2 where u: "s = (u1 @ u2) @ v" "q = last_char prev (u1 @ u2)" "rx_in a prev u1 (u2 @ v)" "rx_in b (last_char prev u1) u2 v"
      by auto
    have "\<exists>c1. (last_char prev u1, u2 @ v, c1) \<in> set (rx_match a (prev, s, c))"
      unfolding Cat.IH(1) using u by auto
    then obtain c1 where c1: "(last_char prev u1, u2 @ v, c1) \<in> set (rx_match a (prev, s, c))" ..
    have "\<exists>c2. (q, v, c2) \<in> set (rx_match b (last_char prev u1, u2 @ v, c1))"
      unfolding Cat.IH(2) using u by (auto simp: last_char_append)
    with c1 show "\<exists>c'. (q, v, c') \<in> set (rx_match (Cat a b) (prev, s, c))" by force
  qed
next
  case (Or a b)
  have "(\<exists>c'. (q, v, c') \<in> set (rx_match (Or a b) (prev, s, c)))
      \<longleftrightarrow> (\<exists>c'. (q, v, c') \<in> set (rx_match a (prev, s, c))) \<or> (\<exists>c'. (q, v, c') \<in> set (rx_match b (prev, s, c)))"
    by auto
  then show ?case unfolding Or.IH by auto
next
  case (Many greedy P lo hi)
  show ?case
  proof
    assume "\<exists>c'. (q, v, c') \<in> set (rx_match (Many greedy P lo hi) (prev, s, c))"
    then obtain k where k: "k \<in> set (run_lengths greedy P lo hi s)" "q = last_char prev (take k s)" "v = drop k s"
      by (auto simp: advance_def)
    then show "\<exists>u. s = u @ v \<and> q = last_char prev u \<and> rx_in (Many greedy P lo hi) prev u v"
      using run_lengths_iff [of k greedy P lo hi s prev v] by (intro exI [of _ "take k s"]) simp
  next
    assume "\<exists>u. s = u @ v \<and> q = last_char prev u \<and> rx_in (Many greedy P lo hi) prev u v"
    then obtain u where u: "s = u @ v" "q = last_char prev u" "rx_in (Many greedy P lo hi) prev u v" by blast
    then have "length u \<in> set (run_lengths greedy P lo hi s)"
      using run_lengths_iff [of "length u" greedy P lo hi s prev v] by simp
    with u show "\<exists>c'. (q, v, c') \<in> set (rx_match (Many greedy P lo hi) (prev, s, c))"
      by (auto simp: advance_def intro!: image_eqI [of _ _ "length u"])
  qed
next
  case (Grp n a)
  have "(\<exists>c'. (q, v, c') \<in> set (rx_match (Grp n a) (prev, s, c))) \<longleftrightarrow> (\<exists>c'. (q, v, c') \<in> set (rx_match a (prev, s, c)))"
    by force
  then show ?case using Grp.IH by simp
qed auto

lemma match_at_iff: "match_at r prev s \<noteq> None \<longleftrightarrow> (\<exists>u v. s = u @ v \<and> rx_in r prev u v)"
proof -
  have "match_at r prev s \<noteq> None \<longleftrightarrow> (\<exists>q v c'. (q, v, c') \<in> set (rx_match r (prev, s, [])))"
    by (cases "rx_match r (prev, s, [])") (force simp: match_at_def)+
  then show ?thesis using match_iff [of _ _ r prev s "[]"] by auto
qed

lemma match_at_word:
  assumes "match_at r prev s = Some (u, c)"
  shows "\<exists>v. s = u @ v \<and> rx_in r prev u v"
proof -
  obtain q v c' ms where "rx_match r (prev, s, []) = (q, v, c') # ms" and u: "u = take (length s - length v) s"
    using assms by (auto simp: match_at_def split: list.splits)
  then have "\<exists>c'. (q, v, c') \<in> set (rx_match r (prev, s, []))" by auto
  then obtain u' where "s = u' @ v" "rx_in r prev u' v" unfolding match_iff by blast
  then show ?thesis unfolding u by auto
qed

lemma last_char_Cons [simp]: "last_char prev (x # a) = last_char (Some x) a"
  by (simp add: last_char_def)

text \<open>An occurrence is either here or after the first character.\<close>

lemma occurrence_Cons:
  "(\<exists>a u v. x # xs = a @ u @ v \<and> Q (last_char prev a) u v) \<longleftrightarrow>
     (\<exists>u v. x # xs = u @ v \<and> Q prev u v) \<or> (\<exists>a u v. xs = a @ u @ v \<and> Q (last_char (Some x) a) u v)" (is "?l \<longleftrightarrow> ?h \<or> ?t")
proof
  assume ?l
  then obtain a u v where l: "x # xs = a @ u @ v" "Q (last_char prev a) u v" by blast
  show "?h \<or> ?t"
  proof (cases a)
    case Nil
    with l have ?h by auto
    then show ?thesis ..
  next
    case (Cons y a')
    with l have "xs = a' @ u @ v \<and> Q (last_char (Some x) a') u v" by simp
    then have ?t by blast
    then show ?thesis ..
  qed
next
  assume "?h \<or> ?t"
  then show ?l
  proof
    assume ?h
    then obtain u v where "x # xs = [] @ u @ v" "Q (last_char prev []) u v" by auto
    then show ?l by blast
  next
    assume ?t
    then obtain a u v where "x # xs = (x # a) @ u @ v" "Q (last_char prev (x # a)) u v" by auto
    then show ?l by blast
  qed
qed

lemma search_from_iff: "search_from r prev s \<noteq> None \<longleftrightarrow> (\<exists>a u v. s = a @ u @ v \<and> rx_in r (last_char prev a) u v)"
proof (induction r prev s rule: search_from.induct)
  case (1 r prev)
  then show ?case using match_at_iff [of r prev "[]"] by auto
next
  case (2 r prev x xs)
  show ?case
  proof (cases "match_at r prev (x # xs)")
    case None
    then have no: "\<not> (\<exists>u v. x # xs = u @ v \<and> rx_in r prev u v)" using match_at_iff by blast
    show ?thesis unfolding occurrence_Cons using no 2 None by (simp del: not_ex)
  next
    case (Some m)
    then have "\<exists>u v. x # xs = u @ v \<and> rx_in r prev u v" using match_at_iff by blast
    then show ?thesis unfolding occurrence_Cons using Some by simp
  qed
qed

lemma rx_found_iff: "rx_found r s \<longleftrightarrow> (\<exists>a u v. s = a @ u @ v \<and> rx_in r (last_char None a) u v)"
  using search_from_iff [of r None s] by (simp add: rx_found_def rx_search_def)

lemma rx_in_Chr_Cat [simp]: "rx_in (Cat (Chr P) r) prev u v \<longleftrightarrow> (\<exists>x w. u = x # w \<and> P x \<and> rx_in r (Some x) w v)"
proof
  assume "rx_in (Cat (Chr P) r) prev u v"
  then show "\<exists>x w. u = x # w \<and> P x \<and> rx_in r (Some x) w v" by (auto simp: last_char_def)
next
  assume "\<exists>x w. u = x # w \<and> P x \<and> rx_in r (Some x) w v"
  then obtain x w where "u = [x] @ w" "P x" "rx_in r (last_char prev [x]) w v" by (auto simp: last_char_def)
  then show "rx_in (Cat (Chr P) r) prev u v" unfolding rx_in.simps by blast
qed

lemma rx_in_Lit [simp]: "rx_in (Lit w) prev u v \<longleftrightarrow> u = w"
  by (induction w arbitrary: prev u) (auto simp: Lit_def simp del: rx_in.simps(3))

lemma rx_in_Lit_ci [simp]: "rx_in (Lit_ci w) prev u v \<longleftrightarrow> list_all2 same_letter w u"
  by (induction w arbitrary: prev u) (auto simp: Lit_ci_def list_all2_Cons1 simp del: rx_in.simps(3))

lemma sub_from_id: "\<not> (\<exists>a u v. s = a @ u @ v \<and> (u \<noteq> [] \<and> rx_in r (last_char prev a) u v)) \<Longrightarrow> sub_from r repl prev s = s"
proof (induction s arbitrary: prev)
  case (Cons x xs)
  note none = Cons.prems [unfolded occurrence_Cons [where Q = "\<lambda>q u v. u \<noteq> [] \<and> rx_in r q u v"]]
  then have rest: "sub_from r repl (Some x) xs = xs" by (intro Cons.IH) simp
  show ?case
  proof (cases "match_at r prev (x # xs)")
    case None
    then show ?thesis by (simp add: sub_from.simps(2) rest)
  next
    case (Some m)
    obtain u c where m: "m = (u, c)" by (cases m)
    with Some obtain v where "x # xs = u @ v" "rx_in r prev u v" using match_at_word by blast
    then have "u = []" using none by blast
    then show ?thesis by (simp add: sub_from.simps(2) Some m rest)
  qed
qed simp

lemma sub_skip:
  "match_at r prev (x # xs) = None \<or> match_at r prev (x # xs) = Some ([], c) \<Longrightarrow> sub_from r repl prev (x # xs) = x # sub_from r repl (Some x) xs"
  by (auto simp: sub_from.simps(2) Let_def)

lemma sub_hit:
  "match_at r prev (x # xs) = Some (u, c) \<Longrightarrow> u \<noteq> []
    \<Longrightarrow> sub_from r repl prev (x # xs) = repl @ sub_from r repl (last_char prev u) (drop (length u) (x # xs))"
  by (simp add: sub_from.simps(2) Let_def)

lemma hit_cases:
  obtains "match_at r prev s = None" | c where "match_at r prev s = Some ([], c)" | u c where "match_at r prev s = Some (u, c)" "u \<noteq> []"
  by (cases "match_at r prev s") auto

lemma set_sub: "set (sub_from r repl prev s) \<subseteq> set s \<union> set repl"
proof (induction "length s" arbitrary: s prev rule: less_induct)
  case less
  show ?case
  proof (cases s)
    case (Cons x xs)
    show ?thesis
    proof (cases rule: hit_cases [of r prev s])
      case (3 u c)
      then have "set (sub_from r repl (last_char prev u) (drop (length u) s)) \<subseteq> set (drop (length u) s) \<union> set repl"
        using Cons by (intro less.hyps) simp
      then show ?thesis using sub_hit 3 set_drop_subset [of "length u" s] unfolding Cons by fastforce
    qed (use less.hyps [of xs "Some x"] sub_skip Cons in \<open>fastforce+\<close>)
  qed simp
qed

end
