(* ===== verification/Prompt_Sanitizer.thy ===== *)
theory Prompt_Sanitizer
  imports Py_Regex
begin

text \<open>
  \<open>infrastructure/ai/prompt_sanitizer.py\<close>: untrusted text before it enters a prompt. The patterns as
  the code writes them, and what they achieve: a sanitized text holds no role line, no injection
  phrase, no delimiter and no boundary tag, although every substitution builds new text.
\<close>

section \<open>Patterns\<close>

definition ROLE_HEAD :: rx where
  "ROLE_HEAD = Cats [Bol, Star is_space, Grp 1 (Alts (map (\<lambda>w. Lit_ci (ascii w)) [''system'', ''user'', ''assistant'', ''human'', ''ai'', ''model''])),
     Star is_space, Chr (\<lambda>c. c = 58 \<or> c = 65306)]"

definition ROLE_INJECTION_PATTERN :: rx where
  "ROLE_INJECTION_PATTERN = Cat ROLE_HEAD (Star (\<lambda>c. c \<noteq> 10))"

definition INJECTION_PHRASE_PATTERN :: rx where
  "INJECTION_PHRASE_PATTERN = Alts [
     Cats [Lit_ci (ascii ''ignore''), Plus is_space, Alts (map (\<lambda>w. Lit_ci (ascii w)) [''previous'', ''above'', ''all'', ''your'']),
       Star is_space, Alts (map (\<lambda>w. Lit_ci (ascii w)) [''instructions'', ''prompts'', ''rules''])],
     Cats [Lit_ci (ascii ''forget''), Plus is_space, Or (Lit_ci (ascii ''everything''))
       (Cats [Lit_ci (ascii ''all''), Star is_space, Maybe (Cat (Lit_ci (ascii ''previous'')) (Star is_space)),
         Alts (map (\<lambda>w. Lit_ci (ascii w)) [''instructions'', ''rules'', ''prompts''])])],
     Cats [Lit_ci (ascii ''new''), Plus is_space, Lit_ci (ascii ''instruction''), Maybe (Lit_ci (ascii ''s'')), Lit (ascii '':'')],
     Lit [24573, 30053, 20043, 21069, 30340, 25351, 20196], Lit [24536, 35760, 20043, 21069, 30340, 25351, 20196], Lit [24573, 30053, 20197, 19978, 25152, 26377], Lit [20320, 19981, 20877, 26159], Lit [20320, 30340, 26032, 35282, 33394, 26159]]"

definition DELIMITER_INJECTION_PATTERN :: rx where
  "DELIMITER_INJECTION_PATTERN = Cats [Lit (ascii ''---''), Alts [Lit [31616, 21382], Lit [25991, 26723], Lit [38382, 31572]], Lit [20869, 23481],
     Or (Lit [24320, 22987]) (Lit [32467, 26463]), Lit (ascii ''---'')]"

definition TAG_HEAD :: rx where
  "TAG_HEAD = Cats [Lit (ascii ''<''), Maybe (Lit (ascii ''/'')), Lit_ci (ascii ''data-boundary'')]"

definition BOUNDARY_TAG_PATTERN :: rx where
  "BOUNDARY_TAG_PATTERN = Cat TAG_HEAD (Cat (Star (\<lambda>c. c \<noteq> 62)) (Chr (\<lambda>c. c = 62)))"

section \<open>The sanitizer\<close>

definition sub_if_found :: "rx \<Rightarrow> pystr \<Rightarrow> pystr \<Rightarrow> pystr" where
  "sub_if_found r repl s = (if rx_found r s then rx_sub r repl s else s)"

definition sanitize_text :: "pystr \<Rightarrow> pystr" where
  "sanitize_text s = sub_if_found BOUNDARY_TAG_PATTERN (ascii ''[filtered-boundary-tag]'')
     (sub_if_found DELIMITER_INJECTION_PATTERN (ascii ''[filtered-delimiter]'')
     (sub_if_found INJECTION_PHRASE_PATTERN (ascii ''[filtered]'')
     (sub_if_found ROLE_INJECTION_PATTERN (ascii ''[filtered-role-marker]'') s)))"

definition sanitized :: "pystr \<Rightarrow> pystr" where
  "sanitized s = (if s = [] then s else sanitize_text s)"

definition sanitize :: "pystr option \<Rightarrow> pystr option" where
  "sanitize v = map_option sanitized v"

definition detect_injection_attempt :: "pystr option \<Rightarrow> bool" where
  "detect_injection_attempt v = (case v of None \<Rightarrow> False | Some s \<Rightarrow>
     s \<noteq> [] \<and> (rx_found ROLE_INJECTION_PATTERN s \<or> rx_found INJECTION_PHRASE_PATTERN s))"

section \<open>Words of a pattern\<close>

text \<open>The characters words can hold, and a character every word must hold.\<close>

primrec rx_chars :: "rx \<Rightarrow> nat \<Rightarrow> bool" where
  "rx_chars Eps c = False"
| "rx_chars (Chr P) c = P c"
| "rx_chars (Cat a b) c = (rx_chars a c \<or> rx_chars b c)"
| "rx_chars (Or a b) c = (rx_chars a c \<or> rx_chars b c)"
| "rx_chars (Many g P lo hi) c = P c"
| "rx_chars (Grp n a) c = rx_chars a c"
| "rx_chars Bol c = False"
| "rx_chars Eol c = False"

primrec rx_needs :: "(nat \<Rightarrow> bool) \<Rightarrow> rx \<Rightarrow> bool" where
  "rx_needs Q Eps = False"
| "rx_needs Q (Chr P) = (\<forall>c. P c \<longrightarrow> Q c)"
| "rx_needs Q (Cat a b) = (rx_needs Q a \<or> rx_needs Q b)"
| "rx_needs Q (Or a b) = (rx_needs Q a \<and> rx_needs Q b)"
| "rx_needs Q (Many g P lo hi) = (0 < lo \<and> (\<forall>c. P c \<longrightarrow> Q c))"
| "rx_needs Q (Grp n a) = rx_needs Q a"
| "rx_needs Q Bol = False"
| "rx_needs Q Eol = False"

primrec rx_plain :: "rx \<Rightarrow> bool" where
  "rx_plain Eps = True"
| "rx_plain (Chr P) = True"
| "rx_plain (Cat a b) = (rx_plain a \<and> rx_plain b)"
| "rx_plain (Or a b) = (rx_plain a \<and> rx_plain b)"
| "rx_plain (Many g P lo hi) = True"
| "rx_plain (Grp n a) = rx_plain a"
| "rx_plain Bol = True"
| "rx_plain Eol = False"

lemma rx_charsD: "rx_in r prev u v \<Longrightarrow> c \<in> set u \<Longrightarrow> rx_chars r c"
proof (induction r arbitrary: prev u v)
  case (Cat a b)
  then obtain u1 u2 where "rx_in a prev u1 (u2 @ v)" "rx_in b (last_char prev u1) u2 v" "c \<in> set u1 \<or> c \<in> set u2" by auto
  then show ?case using Cat.IH by (simp del: rx_in.simps) blast
next
  case (Or a b)
  then show ?case using Or.IH by (simp del: rx_in.simps add: rx_in.simps(4)) blast
qed auto

lemma rx_needsD: "rx_in r prev u v \<Longrightarrow> rx_needs Q r \<Longrightarrow> \<exists>c \<in> set u. Q c"
proof (induction r arbitrary: prev u v)
  case (Cat a b)
  then obtain u1 u2 where u: "u = u1 @ u2" "rx_in a prev u1 (u2 @ v)" "rx_in b (last_char prev u1) u2 v" by auto
  from Cat.prems(2) consider "rx_needs Q a" | "rx_needs Q b" by auto
  then show ?case
  proof cases
    case 1
    with Cat.IH(1) [OF u(2)] u(1) show ?thesis by auto
  next
    case 2
    with Cat.IH(2) [OF u(3)] u(1) show ?thesis by auto
  qed
next
  case (Many g P lo hi)
  then show ?case by (cases u) auto
qed auto

lemma rx_plainD: "rx_plain r \<Longrightarrow> rx_in r prev u v = rx_in r prev u v'"
proof (induction r arbitrary: prev u v v')
  case (Cat a b)
  have "rx_in a prev u1 (u2 @ v) \<and> rx_in b (last_char prev u1) u2 v \<longleftrightarrow> rx_in a prev u1 (u2 @ v') \<and> rx_in b (last_char prev u1) u2 v'" for u1 u2
    using Cat.IH(1) [of prev u1 "u2 @ v" "u2 @ v'"] Cat.IH(2) [of "last_char prev u1" u2 v v'] Cat.prems by simp
  then show ?case unfolding rx_in.simps by simp
next
  case (Or a b)
  then have "rx_in a prev u v = rx_in a prev u v'" "rx_in b prev u v = rx_in b prev u v'" by simp_all
  then show ?case by (simp only: rx_in.simps)
next
  case (Grp n a)
  then show ?case using Grp.IH [of prev u v v'] by simp
qed simp_all

lemma chars_Lit [simp]: "rx_chars (Lit w) c \<longleftrightarrow> c \<in> set w"
  by (induction w) (auto simp: Lit_def)

lemma chars_Lit_ci [simp]: "rx_chars (Lit_ci w) c \<longleftrightarrow> (\<exists>x \<in> set w. same_letter x c)"
  by (induction w) (auto simp: Lit_ci_def)

lemma needs_Lit [simp]: "rx_needs Q (Lit w) \<longleftrightarrow> (\<exists>c \<in> set w. Q c)"
  by (induction w) (auto simp: Lit_def)

lemma needs_Lit_ci [simp]: "rx_needs Q (Lit_ci w) \<longleftrightarrow> (\<exists>x \<in> set w. \<forall>c. same_letter x c \<longrightarrow> Q c)"
  by (induction w) (auto simp: Lit_ci_def)

lemma plain_Lits [simp]: "rx_plain (Lit w)" "rx_plain (Lit_ci w)"
  by (induction w) (simp_all add: Lit_def Lit_ci_def)

section \<open>Substitution\<close>

definition occurs :: "rx \<Rightarrow> nat option \<Rightarrow> pystr \<Rightarrow> bool" where
  "occurs k prev s \<longleftrightarrow> (\<exists>a u v. s = a @ u @ v \<and> rx_in k (last_char prev a) u [])"

definition starts :: "rx \<Rightarrow> nat option \<Rightarrow> pystr \<Rightarrow> bool" where
  "starts k prev s \<longleftrightarrow> (\<exists>u v. s = u @ v \<and> rx_in k prev u [])"

lemma occurs_Cons: "occurs k prev (x # xs) \<longleftrightarrow> starts k prev (x # xs) \<or> occurs k (Some x) xs"
  unfolding occurs_def starts_def by (rule occurrence_Cons)

lemma occurs_Nil: "occurs k prev [] \<longleftrightarrow> starts k prev []"
  by (auto simp: occurs_def starts_def)

text \<open>A text without an opening bracket at the start of a result was already in the source.\<close>

lemma sub_prefix:
  "sub_from r (91 # mid) prev s = w @ v \<Longrightarrow> 91 \<notin> set w \<Longrightarrow> \<exists>v'. s = w @ v'"
proof (induction s arbitrary: prev w v)
  case (Cons x xs)
  show ?case
  proof (cases w)
    case (Cons y ys)
    have "sub_from r (91 # mid) prev (x # xs) = x # sub_from r (91 # mid) (Some x) xs"
    proof (cases rule: hit_cases [of r prev "x # xs"])
      case (3 u c)
      then show ?thesis using sub_hit [OF 3, of "91 # mid"] Cons.prems Cons by auto
    qed (auto intro: sub_skip)
    with Cons.prems Cons have "y = x" "sub_from r (91 # mid) (Some x) xs = ys @ v" by auto
    with Cons.IH [of "Some x" ys v] Cons.prems(2) Cons show ?thesis by auto
  qed simp
qed simp

text \<open>
  What a filter needs of the words \<open>k\<close> it is to keep out: they are not empty, hold no bracket, are
  not part of the replacement, and where one may follow a bracket it may stand anywhere.
\<close>

definition filtered_words :: "rx \<Rightarrow> pystr \<Rightarrow> bool" where
  "filtered_words k repl \<longleftrightarrow> rx_plain k \<and> \<not> rx_chars k 91 \<and> \<not> rx_chars k 93 \<and> rx_needs (\<lambda>c. c \<notin> set repl) k
     \<and> (\<forall>u q. rx_in k (Some 93) u [] \<longrightarrow> rx_in k q u [])"

lemma filtered_word:
  assumes "filtered_words k repl" "rx_in k prev u []"
  shows "u \<noteq> [] \<and> 91 \<notin> set u \<and> 93 \<notin> set u \<and> (\<exists>c \<in> set u. c \<notin> set repl)"
  using assms rx_charsD [OF assms(2)] rx_needsD [OF assms(2), of "\<lambda>c. c \<notin> set repl"] unfolding filtered_words_def by fastforce

lemma starts_in_repl:
  assumes "filtered_words k repl" "repl = a @ b @ [93]"
  shows "\<not> starts k prev (b @ 93 # t)"
proof
  assume "starts k prev (b @ 93 # t)"
  then obtain u v where u: "b @ 93 # t = u @ v" "rx_in k prev u []" by (auto simp: starts_def)
  note w = filtered_word [OF assms(1) u(2)]
  have "length u \<le> length b"
  proof (rule ccontr)
    assume "\<not> length u \<le> length b"
    then have "u ! length b = 93" "length b < length u" using arg_cong [OF u(1), of "\<lambda>s. s ! length b"] by (simp_all add: nth_append)
    then show False using w nth_mem by metis
  qed
  then have "set u \<subseteq> set b" using u(1) by (metis append_eq_append_conv_if set_take_subset)
  with w assms(2) show False by auto
qed

lemma occurs_repl:
  assumes "filtered_words k repl" "repl = a @ b @ [93]" "\<not> occurs k (Some 93) t"
  shows "\<not> occurs k prev (b @ 93 # t)"
  using assms(2)
proof (induction b arbitrary: a prev)
  case Nil
  then show ?case using starts_in_repl [OF assms(1) Nil] assms(3) by (simp add: occurs_Cons)
next
  case (Cons x b)
  then have "\<not> occurs k (Some x) (b @ 93 # t)" by (intro Cons.IH [of "a @ [x]"]) simp
  moreover have "\<not> starts k prev ((x # b) @ 93 # t)" by (rule starts_in_repl [OF assms(1) Cons.prems])
  ultimately show ?case by (simp add: occurs_Cons)
qed

text \<open>
  A substitution leaves no word of \<open>k\<close> if the pattern matches wherever one stands; in particular it
  makes no new ones.
\<close>

lemma sub_removes:
  assumes k: "filtered_words k repl" and repl: "repl = 91 # b @ [93]"
    and every: "\<And>a t. s = a @ t \<Longrightarrow> starts k (last_char prev a) t \<Longrightarrow> \<exists>u c. match_at r (last_char prev a) t = Some (u, c) \<and> u \<noteq> []"
    and q: "q = prev \<or> q = Some 93"
  shows "\<not> occurs k q (sub_from r repl prev s)"
  using every q
proof (induction "length s" arbitrary: s prev q rule: less_induct)
  case less
  show ?case
  proof (cases s)
    case Nil
    have "\<not> starts k q []" using filtered_word [OF k] by (auto simp: starts_def)
    with Nil show ?thesis by (simp add: occurs_Nil)
  next
    case (Cons x xs)
    have later: "\<not> occurs k q' (sub_from r repl (last_char prev a) t)" if "s = a @ t" "a \<noteq> []" "q' = last_char prev a \<or> q' = Some 93" for a t q'
    proof (rule less.hyps)
      show "length t < length s" using that by simp
      show "\<exists>u c. match_at r (last_char (last_char prev a) a') t' = Some (u, c) \<and> u \<noteq> []"
        if "t = a' @ t'" "starts k (last_char (last_char prev a) a') t'" for a' t'
        using less.prems(1) [of "a @ a'" t'] that \<open>s = a @ t\<close> by (simp add: last_char_append)
      show "q' = last_char prev a \<or> q' = Some 93" by fact
    qed
    have skipped: ?thesis if "sub_from r repl prev s = x # sub_from r repl (Some x) xs" "\<not> (\<exists>u c. match_at r prev s = Some (u, c) \<and> u \<noteq> [])"
    proof -
      have "\<not> starts k q (x # sub_from r repl (Some x) xs)"
      proof
        assume "starts k q (x # sub_from r repl (Some x) xs)"
        then have "starts k q (sub_from r repl prev s)" by (simp only: that(1))
        then obtain u v where u: "sub_from r repl prev s = u @ v" "rx_in k q u []" unfolding starts_def by blast
        then obtain v' where "s = u @ v'" using sub_prefix [of r "b @ [93]" prev s u v] filtered_word [OF k u(2)] repl by auto
        moreover have "rx_in k prev u []" using u(2) less.prems(2) k by (auto simp: filtered_words_def)
        ultimately have "starts k prev s" by (auto simp: starts_def)
        with less.prems(1) [of "[]" s] that(2) show False by simp
      qed
      moreover have "\<not> occurs k (Some x) (sub_from r repl (Some x) xs)" using later [of "[x]" xs "Some x"] Cons by (simp add: last_char_def)
      ultimately show ?thesis using that(1) by (simp add: occurs_Cons)
    qed
    show ?thesis
    proof (cases rule: hit_cases [of r prev s])
      case 1
      then show ?thesis using skipped sub_skip [of r prev x xs _ repl] Cons by auto
    next
      case (2 c)
      then show ?thesis using skipped sub_skip [of r prev x xs c repl] Cons by auto
    next
      case (3 u c)
      then obtain v where v: "s = u @ v" using match_at_word by blast
      have "\<not> occurs k (Some 93) (sub_from r repl (last_char prev u) v)" using later [OF v] 3(2) by simp
      then have "\<not> occurs k q ((91 # b) @ 93 # sub_from r repl (last_char prev u) v)"
        using occurs_repl [OF k, of "[]" "91 # b"] repl by simp
      moreover have "drop (length u) s = v" using v by simp
      ultimately show ?thesis using sub_hit [of r prev x xs u c repl] 3 Cons by (simp add: repl)
    qed
  qed
qed

lemma sub_keeps_out:
  assumes "filtered_words k repl" "repl = 91 # b @ [93]" "\<not> occurs k None s"
  shows "\<not> occurs k None (sub_if_found r repl s)"
proof -
  have "\<not> starts k (last_char None a) t" if "s = a @ t" for a t
    using assms(3) that by (auto simp: occurs_def starts_def)
  then have "\<not> occurs k None (sub_from r repl None s)" by (intro sub_removes [OF assms(1,2)]) auto
  with assms(3) show ?thesis by (simp add: sub_if_found_def rx_sub_def)
qed

section \<open>What the sanitizer removes\<close>

lemma found_occurs:
  assumes "rx_plain k" "\<And>prev u v. rx_in r prev u v \<Longrightarrow> \<exists>w v'. u = w @ v' \<and> rx_in k prev w []"
    "\<And>prev w v. rx_in k prev w [] \<Longrightarrow> rx_in r prev w v"
  shows "rx_found r s \<longleftrightarrow> occurs k None s"
proof
  assume "rx_found r s"
  then obtain a u v where s: "s = a @ u @ v" "rx_in r (last_char None a) u v" unfolding rx_found_iff by blast
  from assms(2) [OF s(2)] obtain w v' where "u = w @ v'" "rx_in k (last_char None a) w []" by blast
  with s have "s = a @ w @ (v' @ v)" by simp
  with \<open>rx_in k (last_char None a) w []\<close> show "occurs k None s" unfolding occurs_def by blast
next
  assume "occurs k None s"
  then show "rx_found r s" using assms(3) unfolding rx_found_iff occurs_def by blast
qed

lemma found_plain: "rx_plain r \<Longrightarrow> rx_found r s \<longleftrightarrow> occurs r None s"
  by (rule found_occurs) (auto dest: rx_plainD)

text \<open>A filter whose pattern begins with the words \<open>k\<close> and matches each of them removes them all.\<close>

lemma own_sub_removes:
  assumes k: "filtered_words k repl" and repl: "repl = 91 # b @ [93]"
    and r: "\<And>prev u v. rx_in r prev u v \<Longrightarrow> \<exists>w v'. u = w @ v' \<and> rx_in k prev w []" "\<And>prev w v. rx_in k prev w [] \<Longrightarrow> rx_in r prev w v"
  shows "\<not> occurs k None (sub_if_found r repl s)"
proof (cases "rx_found r s")
  case True
  have "\<exists>u c. match_at r (last_char None a) t = Some (u, c) \<and> u \<noteq> []" if "starts k (last_char None a) t" for a t
  proof -
    from that obtain w v where "t = w @ v" "rx_in k (last_char None a) w []" by (auto simp: starts_def)
    then have "match_at r (last_char None a) t \<noteq> None" using r(2) match_at_iff by blast
    then obtain u c where m: "match_at r (last_char None a) t = Some (u, c)" by auto
    from match_at_word [OF m] obtain v' where "rx_in r (last_char None a) u v'" by blast
    then have "u \<noteq> []" using r(1) filtered_word [OF k] by fastforce
    with m show ?thesis by blast
  qed
  then have "\<not> occurs k None (sub_from r repl None s)" by (intro sub_removes [OF k repl]) auto
  with True show ?thesis by (simp add: sub_if_found_def rx_sub_def)
next
  case False
  have "rx_plain k" using k by (simp add: filtered_words_def)
  with False show ?thesis using found_occurs [OF _ r] by (simp add: sub_if_found_def)
qed

text \<open>Patterns without \<open>^\<close> do not look at the character before.\<close>

primrec rx_floating :: "rx \<Rightarrow> bool" where
  "rx_floating Eps = True"
| "rx_floating (Chr P) = True"
| "rx_floating (Cat a b) = (rx_floating a \<and> rx_floating b)"
| "rx_floating (Or a b) = (rx_floating a \<and> rx_floating b)"
| "rx_floating (Many g P lo hi) = True"
| "rx_floating (Grp n a) = rx_floating a"
| "rx_floating Bol = False"
| "rx_floating Eol = True"

lemma rx_floatingD: "rx_floating r \<Longrightarrow> rx_in r prev u v = rx_in r q u v"
proof (induction r arbitrary: prev q u v)
  case (Cat a b)
  have "rx_in a prev u1 (u2 @ v) \<and> rx_in b (last_char prev u1) u2 v \<longleftrightarrow> rx_in a q u1 (u2 @ v) \<and> rx_in b (last_char q u1) u2 v" for u1 u2
    using Cat.IH(1) [of prev u1 "u2 @ v" q] Cat.IH(2) [of "last_char prev u1" u2 v "last_char q u1"] Cat.prems by simp
  then show ?case unfolding rx_in.simps by simp
next
  case (Or a b)
  then have "rx_in a prev u v = rx_in a q u v" "rx_in b prev u v = rx_in b q u v" by simp_all
  then show ?case by (simp only: rx_in.simps)
next
  case (Grp n a)
  then show ?case by (simp only: rx_in.simps rx_floating.simps)
qed simp_all

lemma floating_Lits [simp]: "rx_floating (Lit w)" "rx_floating (Lit_ci w)"
  by (induction w) (simp_all add: Lit_def Lit_ci_def)

lemma filtered_wordsI:
  assumes "rx_plain k" "\<not> rx_chars k 91" "\<not> rx_chars k 93" "rx_needs (\<lambda>c. c \<notin> set repl) k" "rx_floating k"
  shows "filtered_words k repl"
  using assms rx_floatingD [of k] unfolding filtered_words_def by blast

definition fillers :: "pystr list" where
  "fillers = map ascii [''[filtered-role-marker]'', ''[filtered]'', ''[filtered-delimiter]'', ''[filtered-boundary-tag]'']"

lemma fillers_chars: "repl \<in> set fillers \<Longrightarrow> c \<in> set repl \<Longrightarrow> c = 45 \<or> (91 \<le> c \<and> c \<le> 122)"
  by (auto simp: fillers_def ascii_def)

lemma space_not_filler: "repl \<in> set fillers \<Longrightarrow> is_space c \<Longrightarrow> c \<notin> set repl"
  using fillers_chars by (fastforce simp: is_space_def)

lemma high_not_filler: "repl \<in> set fillers \<Longrightarrow> 122 < c \<Longrightarrow> c \<notin> set repl"
  using fillers_chars by fastforce

lemma colon_not_filler: "repl \<in> set fillers \<Longrightarrow> 58 \<notin> set repl"
  using fillers_chars by fastforce

lemma role_filtered: "repl \<in> set fillers \<Longrightarrow> filtered_words ROLE_HEAD repl"
  using colon_not_filler high_not_filler [of repl 65306]
  by (auto simp: filtered_words_def ROLE_HEAD_def ascii_def same_letter_def is_space_def)

lemma phrase_filtered: "repl \<in> set fillers \<Longrightarrow> filtered_words INJECTION_PHRASE_PATTERN repl"
  by (rule filtered_wordsI)
    (simp_all add: INJECTION_PHRASE_PATTERN_def ascii_def same_letter_def is_space_def [of 91] is_space_def [of 93] space_not_filler high_not_filler)

lemma delimiter_filtered: "repl \<in> set fillers \<Longrightarrow> filtered_words DELIMITER_INJECTION_PATTERN repl"
  by (rule filtered_wordsI) (simp_all add: DELIMITER_INJECTION_PATTERN_def ascii_def high_not_filler)

lemma role_head: "rx_in ROLE_INJECTION_PATTERN prev u v \<Longrightarrow> \<exists>w v'. u = w @ v' \<and> rx_in ROLE_HEAD prev w []"
  "rx_in ROLE_HEAD prev w [] \<Longrightarrow> rx_in ROLE_INJECTION_PATTERN prev w v"
proof -
  have plain: "rx_plain ROLE_HEAD" by (simp add: ROLE_HEAD_def)
  show "rx_in ROLE_INJECTION_PATTERN prev u v \<Longrightarrow> \<exists>w v'. u = w @ v' \<and> rx_in ROLE_HEAD prev w []"
    using rx_plainD [OF plain] unfolding ROLE_INJECTION_PATTERN_def rx_in.simps(3) [of ROLE_HEAD] by blast
  assume "rx_in ROLE_HEAD prev w []"
  then have "rx_in ROLE_HEAD prev w ([] @ v)" using rx_plainD [OF plain] by blast
  then have "w = w @ [] \<and> rx_in ROLE_HEAD prev w ([] @ v) \<and> rx_in (Star (\<lambda>c. c \<noteq> 10)) (last_char prev w) [] v" by simp
  then show "rx_in ROLE_INJECTION_PATTERN prev w v" unfolding ROLE_INJECTION_PATTERN_def rx_in.simps(3) [of ROLE_HEAD] by blast
qed

section \<open>Boundary tags\<close>

definition tag_starts :: "pystr \<Rightarrow> bool" where
  "tag_starts s \<longleftrightarrow> (\<exists>h m. s = h @ m \<and> rx_in TAG_HEAD None h [] \<and> 62 \<in> set m)"

definition tags :: "pystr \<Rightarrow> bool" where "tags s \<longleftrightarrow> (\<exists>a b. s = a @ b \<and> tag_starts b)"

lemma tag_head: "rx_plain TAG_HEAD" "rx_floating TAG_HEAD" by (simp_all add: TAG_HEAD_def)

lemma tag_head_word:
  assumes "rx_in TAG_HEAD prev h v"
  shows "h \<noteq> [] \<and> hd h = 60 \<and> 91 \<notin> set h \<and> 62 \<notin> set h"
proof -
  have "\<not> rx_chars TAG_HEAD 91" "\<not> rx_chars TAG_HEAD 62"
    by (simp_all add: TAG_HEAD_def ascii_def same_letter_def)
  then have "91 \<notin> set h" "62 \<notin> set h" using rx_charsD [OF assms] by blast+
  moreover from assms obtain t where "h = ascii ''<'' @ t" unfolding TAG_HEAD_def Cats.simps rx_in.simps(3) [of "Lit (ascii ''<'')"] rx_in_Lit by blast
  then have "h \<noteq> [] \<and> hd h = 60" by (simp add: ascii_def)
  ultimately show ?thesis by simp
qed

lemma tag_in: "(\<exists>u v. s = u @ v \<and> rx_in BOUNDARY_TAG_PATTERN prev u v) \<longleftrightarrow> tag_starts s"
proof
  assume "\<exists>u v. s = u @ v \<and> rx_in BOUNDARY_TAG_PATTERN prev u v"
  then obtain u v h t where s: "s = u @ v" "u = h @ t" "rx_in TAG_HEAD prev h (t @ v)"
      "rx_in (Cat (Star (\<lambda>c. c \<noteq> 62)) (Chr (\<lambda>c. c = 62))) (last_char prev h) t v"
    unfolding BOUNDARY_TAG_PATTERN_def rx_in.simps(3) [of TAG_HEAD] by blast
  then have "62 \<in> set (t @ v)" by auto
  moreover have "rx_in TAG_HEAD None h []" using s(3) rx_plainD [OF tag_head(1)] rx_floatingD [OF tag_head(2)] by blast
  ultimately show "tag_starts s" using s unfolding tag_starts_def by (intro exI [of _ h] exI [of _ "t @ v"]) simp
next
  assume "tag_starts s"
  then obtain h m where s: "s = h @ m" "rx_in TAG_HEAD None h []" "62 \<in> set m" unfolding tag_starts_def by blast
  obtain m1 m2 where m: "m = m1 @ 62 # m2" "62 \<notin> set m1" using split_list_first [OF s(3)] by blast
  have "rx_in TAG_HEAD prev h ((m1 @ [62]) @ m2)" using s(2) rx_plainD [OF tag_head(1)] rx_floatingD [OF tag_head(2)] by blast
  moreover have "rx_in (Cat (Star (\<lambda>c. c \<noteq> 62)) (Chr (\<lambda>c. c = 62))) q (m1 @ [62]) m2" for q using m(2) by auto
  ultimately have "rx_in BOUNDARY_TAG_PATTERN prev (h @ m1 @ [62]) m2" unfolding BOUNDARY_TAG_PATTERN_def rx_in.simps(3) [of TAG_HEAD] by blast
  with s m show "\<exists>u v. s = u @ v \<and> rx_in BOUNDARY_TAG_PATTERN prev u v" by (intro exI [of _ "h @ m1 @ [62]"] exI [of _ m2]) simp
qed

lemma tag_found: "rx_found BOUNDARY_TAG_PATTERN s \<longleftrightarrow> tags s"
proof -
  have "rx_found BOUNDARY_TAG_PATTERN s \<longleftrightarrow> (\<exists>a b. s = a @ b \<and> (\<exists>u v. b = u @ v \<and> rx_in BOUNDARY_TAG_PATTERN (last_char None a) u v))"
    unfolding rx_found_iff by blast
  then show ?thesis unfolding tag_in tags_def .
qed

lemma tags_Cons: "tags (x # xs) \<longleftrightarrow> tag_starts (x # xs) \<or> tags xs"
  unfolding tags_def by (metis (no_types, opaque_lifting) append_Cons append_Nil neq_Nil_conv list.inject)

lemma tags_Nil [simp]: "\<not> tags []" "\<not> tag_starts []"
  by (auto simp: tags_def tag_starts_def)

lemma tags_after: "60 \<notin> set r \<Longrightarrow> tags (r @ t) \<longleftrightarrow> tags t"
proof (induction r)
  case (Cons x r)
  have "\<not> tag_starts (x # r @ t)"
  proof
    assume "tag_starts (x # r @ t)"
    then obtain h m where h: "x # r @ t = h @ m" "rx_in TAG_HEAD None h []" unfolding tag_starts_def by blast
    with tag_head_word [OF h(2)] Cons.prems show False by (cases h) auto
  qed
  with Cons show ?case by (simp add: tags_Cons)
qed simp

lemma no_tag_without_close: "62 \<notin> set s \<Longrightarrow> sub_from BOUNDARY_TAG_PATTERN repl prev s = s"
proof (rule sub_from_id, rule notI)
  assume s: "62 \<notin> set s" and "\<exists>a u v. s = a @ u @ v \<and> u \<noteq> [] \<and> rx_in BOUNDARY_TAG_PATTERN (last_char prev a) u v"
  then obtain a u v where "s = a @ u @ v" "rx_in BOUNDARY_TAG_PATTERN (last_char prev a) u v" by blast
  then have "s = a @ (u @ v)" "tag_starts (u @ v)" using tag_in by blast+
  then obtain h m where "s = a @ h @ m" "62 \<in> set m" unfolding tag_starts_def by auto
  with s show False by simp
qed

lemma tag_sub_removes: "\<not> tags (sub_from BOUNDARY_TAG_PATTERN (91 # mid) prev s)" if "60 \<notin> set mid"
proof (induction "length s" arbitrary: s prev rule: less_induct)
  case less
  let ?sub = "sub_from BOUNDARY_TAG_PATTERN (91 # mid)"
  show ?case
  proof (cases s)
    case (Cons x xs)
    show ?thesis
    proof (cases "match_at BOUNDARY_TAG_PATTERN prev s")
      case None
      then have no: "\<not> tag_starts s" using match_at_iff [of BOUNDARY_TAG_PATTERN prev s] tag_in [of s prev] by blast
      have eq: "?sub prev s = x # ?sub (Some x) xs" using sub_skip None unfolding Cons by fast
      have "\<not> tag_starts (?sub prev s)"
      proof
        assume "tag_starts (?sub prev s)"
        then obtain h m where h: "?sub prev s = h @ m" "rx_in TAG_HEAD None h []" "62 \<in> set m" unfolding tag_starts_def by blast
        obtain v where v: "s = h @ v" using sub_prefix [OF h(1)] tag_head_word [OF h(2)] by blast
        have "62 \<notin> set v" using no v h(2) unfolding tag_starts_def by blast
        then have "62 \<notin> set s" using v tag_head_word [OF h(2)] by simp
        then have "h @ m = s" using no_tag_without_close h(1) by metis
        with \<open>62 \<notin> set s\<close> h(3) show False by auto
      qed
      then show ?thesis using less.hyps [of xs "Some x"] unfolding eq tags_Cons by (simp add: Cons)
    next
      case (Some m)
      obtain u c where m: "match_at BOUNDARY_TAG_PATTERN prev s = Some (u, c)" using Some by (cases m) auto
      from match_at_word [OF m] obtain v where v: "s = u @ v" "rx_in BOUNDARY_TAG_PATTERN prev u v" by blast
      then have "u \<noteq> []" using tag_head_word unfolding BOUNDARY_TAG_PATTERN_def rx_in.simps(3) [of TAG_HEAD] by blast
      then have "?sub prev s = (91 # mid) @ ?sub (last_char prev u) v" using sub_hit m v(1) unfolding Cons by (metis append_eq_conv_conj)
      moreover have "\<not> tags (?sub (last_char prev u) v)" using less.hyps v(1) \<open>u \<noteq> []\<close> by simp
      ultimately show ?thesis using tags_after [of "91 # mid"] that by simp
    qed
  qed simp
qed

section \<open>Sanitized text is inert\<close>

lemma filler_shape: "repl \<in> set fillers \<Longrightarrow> \<exists>b. repl = 91 # b @ [93]"
  by (auto simp: fillers_def ascii_def intro: exI [of _ "butlast (tl repl)"])

lemma filler_keeps_out:
  assumes "\<And>repl. repl \<in> set fillers \<Longrightarrow> filtered_words k repl" "repl \<in> set fillers" "\<not> occurs k None s"
  shows "\<not> occurs k None (sub_if_found r repl s)"
proof -
  from filler_shape [OF assms(2)] obtain b where b: "repl = 91 # b @ [93]" ..
  show ?thesis by (rule sub_keeps_out [OF assms(1) [OF assms(2)] b assms(3)])
qed

lemma filler_removes:
  assumes "\<And>repl. repl \<in> set fillers \<Longrightarrow> filtered_words k repl" "repl \<in> set fillers"
    "\<And>prev u v. rx_in r prev u v \<Longrightarrow> \<exists>w v'. u = w @ v' \<and> rx_in k prev w []" "\<And>prev w v. rx_in k prev w [] \<Longrightarrow> rx_in r prev w v"
  shows "\<not> occurs k None (sub_if_found r repl s)"
proof -
  from filler_shape [OF assms(2)] obtain b where b: "repl = 91 # b @ [93]" ..
  show ?thesis by (rule own_sub_removes [OF assms(1) [OF assms(2)] b assms(3,4)])
qed

lemma plain_words:
  assumes "rx_plain r"
  shows "rx_in r prev u v \<Longrightarrow> \<exists>w v'. u = w @ v' \<and> rx_in r prev w []" "rx_in r prev w [] \<Longrightarrow> rx_in r prev w v"
  using rx_plainD [OF assms, of prev u v "[]"] rx_plainD [OF assms, of prev w v "[]"] append_Nil2 [of u, symmetric] by blast+

lemma phrase_plain: "rx_plain INJECTION_PHRASE_PATTERN" by (simp add: INJECTION_PHRASE_PATTERN_def)

lemma delimiter_plain: "rx_plain DELIMITER_INJECTION_PATTERN" by (simp add: DELIMITER_INJECTION_PATTERN_def)

lemma sanitized_clean:
  "\<not> rx_found ROLE_INJECTION_PATTERN (sanitize_text s) \<and> \<not> rx_found INJECTION_PHRASE_PATTERN (sanitize_text s)
   \<and> \<not> rx_found DELIMITER_INJECTION_PATTERN (sanitize_text s) \<and> \<not> rx_found BOUNDARY_TAG_PATTERN (sanitize_text s)"
proof -
  define s1 where "s1 = sub_if_found ROLE_INJECTION_PATTERN (ascii ''[filtered-role-marker]'') s"
  define s2 where "s2 = sub_if_found INJECTION_PHRASE_PATTERN (ascii ''[filtered]'') s1"
  define s3 where "s3 = sub_if_found DELIMITER_INJECTION_PATTERN (ascii ''[filtered-delimiter]'') s2"
  define s4 where "s4 = sub_if_found BOUNDARY_TAG_PATTERN (ascii ''[filtered-boundary-tag]'') s3"
  have f: "ascii ''[filtered-role-marker]'' \<in> set fillers" "ascii ''[filtered]'' \<in> set fillers"
    "ascii ''[filtered-delimiter]'' \<in> set fillers" "ascii ''[filtered-boundary-tag]'' \<in> set fillers" by (simp_all add: fillers_def)
  note role = filler_removes [OF role_filtered f(1) role_head] filler_keeps_out [OF role_filtered]
  note phrase = filler_removes [OF phrase_filtered f(2) plain_words [OF phrase_plain]] filler_keeps_out [OF phrase_filtered]
  note delimiter = filler_removes [OF delimiter_filtered f(3) plain_words [OF delimiter_plain]] filler_keeps_out [OF delimiter_filtered]
  have r: "\<not> occurs ROLE_HEAD None s4" unfolding s4_def s3_def s2_def s1_def by (intro role f)
  have p: "\<not> occurs INJECTION_PHRASE_PATTERN None s4" unfolding s4_def s3_def s2_def by (intro phrase f)
  have d: "\<not> occurs DELIMITER_INJECTION_PATTERN None s4" unfolding s4_def s3_def by (intro delimiter f)
  have t: "\<not> tags s4"
  proof (cases "rx_found BOUNDARY_TAG_PATTERN s3")
    case True
    have "ascii ''[filtered-boundary-tag]'' = 91 # tl (ascii ''[filtered-boundary-tag]'')" "60 \<notin> set (tl (ascii ''[filtered-boundary-tag]''))"
      by (simp_all add: ascii_def)
    then have "\<not> tags (sub_from BOUNDARY_TAG_PATTERN (91 # tl (ascii ''[filtered-boundary-tag]'')) None s3)" by (intro tag_sub_removes)
    then show ?thesis using True by (simp add: s4_def sub_if_found_def rx_sub_def ascii_def)
  next
    case False
    then show ?thesis by (simp add: s4_def sub_if_found_def tag_found)
  qed
  have "rx_plain ROLE_HEAD" by (simp add: ROLE_HEAD_def)
  then have "rx_found ROLE_INJECTION_PATTERN s4 \<longleftrightarrow> occurs ROLE_HEAD None s4" by (rule found_occurs [OF _ role_head])
  moreover have "sanitize_text s = s4" by (simp add: sanitize_text_def s1_def s2_def s3_def s4_def)
  ultimately show ?thesis using r p d t by (simp add: found_plain [OF phrase_plain] found_plain [OF delimiter_plain] tag_found)
qed

text \<open>
  C9. Sanitized text is inert: whatever the text, its sanitized form holds no role line, no injection
  phrase, no delimiter and no boundary tag, though each substitution builds text the earlier ones did not
  see, so it is not taken for an injection and sanitizing it again changes nothing.
\<close>

theorem sanitized_text_is_inert:
  "\<not> detect_injection_attempt (sanitize (Some s)) \<and> \<not> rx_found DELIMITER_INJECTION_PATTERN (sanitized s)
   \<and> \<not> rx_found BOUNDARY_TAG_PATTERN (sanitized s) \<and> sanitize (sanitize (Some s)) = sanitize (Some s)"
proof (cases "s = []")
  case True
  have "\<not> rx_found DELIMITER_INJECTION_PATTERN []" "\<not> rx_found BOUNDARY_TAG_PATTERN []"
    using sanitized_clean [of "[]"] filtered_word [OF delimiter_filtered, of "ascii ''[filtered]''"]
    by (auto simp: found_plain [OF delimiter_plain] occurs_def tag_found fillers_def)
  with True show ?thesis by (simp add: sanitize_def sanitized_def detect_injection_attempt_def)
next
  case False
  have "sanitize_text (sanitize_text s) = sanitize_text s"
    using sanitized_clean [of s] by (simp add: sanitize_text_def [of "sanitize_text s"] sub_if_found_def)
  with False sanitized_clean [of s] show ?thesis by (simp add: sanitize_def sanitized_def detect_injection_attempt_def)
qed

section \<open>What it leaves\<close>

definition wrap_with_delimiters :: "pystr \<Rightarrow> pystr \<Rightarrow> pystr \<Rightarrow> pystr" where
  "wrap_with_delimiters short_id label t = ascii ''<data-boundary-'' @ short_id @ [45] @ label @ [62, 10] @ t @ [10]
     @ ascii ''</data-boundary-'' @ short_id @ [45] @ label @ [62]"

text \<open>
  A tag that is never closed is no tag to the sanitizer, but inside the wrapping it runs on to the end
  of the closing tag: a text that ends in one hides where the untrusted part ends.
\<close>

lemma unclosed_tag_survives:
  "sanitized (ascii ''<data-boundary'') = ascii ''<data-boundary''"
  "tag_starts (ascii ''<data-boundary'' @ [10] @ ascii ''</data-boundary-'' @ short_id @ [45] @ label @ [62])"
proof -
  have found: "\<not> rx_found r (ascii ''<data-boundary'')" if "rx_needs (\<lambda>c. c \<notin> set (ascii ''<data-boundary'')) r" for r
  proof
    assume "rx_found r (ascii ''<data-boundary'')"
    then obtain a u v q where u: "ascii ''<data-boundary'' = a @ u @ v" "rx_in r q u v" unfolding rx_found_iff by blast
    from rx_needsD [OF u(2) that] obtain c where "c \<in> set u" "c \<notin> set (ascii ''<data-boundary'')" by blast
    then show False by (simp add: u(1))
  qed
  let ?Q = "\<lambda>c. c \<notin> set (ascii ''<data-boundary'')"
  have "rx_needs ?Q ROLE_INJECTION_PATTERN" by (simp add: ROLE_INJECTION_PATTERN_def ROLE_HEAD_def ascii_def)
  moreover have "rx_needs ?Q INJECTION_PHRASE_PATTERN"
    by (auto simp: INJECTION_PHRASE_PATTERN_def ascii_def is_space_def)
  moreover have "rx_needs ?Q DELIMITER_INJECTION_PATTERN" by (simp add: DELIMITER_INJECTION_PATTERN_def ascii_def)
  moreover have "rx_needs ?Q BOUNDARY_TAG_PATTERN" by (simp add: BOUNDARY_TAG_PATTERN_def ascii_def)
  ultimately show "sanitized (ascii ''<data-boundary'') = ascii ''<data-boundary''"
    by (simp add: sanitized_def sanitize_text_def sub_if_found_def found)
  have "rx_in TAG_HEAD None (ascii ''<data-boundary'') []"
    unfolding TAG_HEAD_def Cats.simps rx_in.simps(3)
    by (rule exI [of _ "ascii ''<''"], rule exI [of _ "ascii ''data-boundary''"], simp add: ascii_def,
        rule exI [of _ "[]"], simp add: same_letter_def)
  then show "tag_starts (ascii ''<data-boundary'' @ [10] @ ascii ''</data-boundary-'' @ short_id @ [45] @ label @ [62])"
    unfolding tag_starts_def
    by (intro exI [of _ "ascii ''<data-boundary''"] exI [of _ "[10] @ ascii ''</data-boundary-'' @ short_id @ [45] @ label @ [62]"]) simp
qed

end
