(* ===== verification/Rag_Chat.thy ===== *)
theory Rag_Chat
  imports Kb_Documents Retrieval Service_Utils Prompt_Sanitizer
begin

text \<open>
  Chats over knowledge bases: \<open>application/rag/service.py\<close> with the repository and rows of
  \<open>rag_chat_repository.py\<close> and \<open>models/rag_chat.py\<close>. A streamed answer runs in database sessions of
  its own; each may fail at its beginning or at its commit (\<open>rw_faults\<close>, an empty list means that
  the database answers from now on). What the client has received is part of the world.
  \<open>RagChatEnv\<close> holds what the service calls: embeddings, the ranking of pgvector, the language
  model and the prompt files.
\<close>

section \<open>Rows and repository\<close>

record RagSessionRow =
  rag_id :: int
  rag_session_id :: pystr
  rag_kb_ids_json :: pystr
  rag_title :: "pystr option"
  rag_status :: pystr
  rag_pinned :: bool
  rag_created_at :: int
  rag_updated_at :: int

record RagMessageRow =
  rm_id :: int
  rm_session_id :: int
  rm_role :: pystr
  rm_content :: "pystr option"
  rm_sources_json :: "pystr option"
  rm_created_at :: int

datatype DbFault = F_None | F_Begin | F_Commit

record RagWorld =
  rw_sessions :: "RagSessionRow list"
  rw_messages :: "RagMessageRow list"
  rw_fresh :: int
  rw_kb :: KbDb
  rw_faults :: "DbFault list"
  rw_out :: "pystr list"
  rw_now :: int

type_synonym 'a rag_op = "(RagWorld, 'a) op"

definition RagDbError :: exn where "RagDbError = RuntimeError (ascii ''OperationalError'')"
definition USER_ROLE :: pystr where "USER_ROLE = ascii ''user''"
definition ASSISTANT_ROLE :: pystr where "ASSISTANT_ROLE = ascii ''assistant''"
definition NO_RESULT_MESSAGE :: pystr where
  "NO_RESULT_MESSAGE = [25265, 27465, 65292, 30693, 35782, 24211, 20013, 26410, 25214, 21040, 19982, 24744, 38382, 39064, 30456, 20851, 30340, 20449, 24687, 12290, 35831, 23581, 35797, 25442, 19968, 31181, 38382, 27861, 65292, 25110, 30830, 35748, 24050, 36873, 25321, 27491, 30830, 30340, 30693, 35782, 24211, 12290]"
definition ERROR_PLACEHOLDER :: pystr where "ERROR_PLACEHOLDER = [91, 22238, 31572, 29983, 25104, 22833, 36133, 65292, 35831, 31245, 21518, 37325, 35797, 93]"

definition find_rag :: "int \<Rightarrow> RagWorld \<Rightarrow> RagSessionRow option" where
  "find_rag pk w = find (\<lambda>s. rag_id s = pk) (rw_sessions w)"

text \<open>An update that changes nothing is not written, so \<open>onupdate\<close> does not fire.\<close>

definition update_rag :: "int \<Rightarrow> (RagSessionRow \<Rightarrow> RagSessionRow) \<Rightarrow> RagWorld \<Rightarrow> RagWorld" where
  "update_rag pk f w = w\<lparr>rw_sessions := map (\<lambda>s. if rag_id s = pk \<and> f s \<noteq> s
     then (f s)\<lparr>rag_updated_at := rw_now w\<rparr> else s) (rw_sessions w)\<rparr>"

definition list_all_rag :: "RagWorld \<Rightarrow> RagSessionRow list" where
  "list_all_rag w = sort_key (\<lambda>s. \<not> rag_pinned s) (sort_key (\<lambda>s. - rag_updated_at s) (rw_sessions w))"

text \<open>The messages of a deleted session go with it.\<close>

definition delete_rag_row :: "int \<Rightarrow> RagWorld \<Rightarrow> RagWorld" where
  "delete_rag_row pk w = w\<lparr>rw_sessions := filter (\<lambda>s. rag_id s \<noteq> pk) (rw_sessions w),
     rw_messages := filter (\<lambda>m. rm_session_id m \<noteq> pk) (rw_messages w)\<rparr>"

definition rag_messages_of :: "int \<Rightarrow> RagWorld \<Rightarrow> RagMessageRow list" where
  "rag_messages_of pk w = sort_key rm_created_at (sort_key rm_id (filter (\<lambda>m. rm_session_id m = pk) (rw_messages w)))"

definition rag_count_messages :: "int \<Rightarrow> RagWorld \<Rightarrow> int" where
  "rag_count_messages pk w = int (length (filter (\<lambda>m. rm_session_id m = pk) (rw_messages w)))"

definition recent_history :: "int \<Rightarrow> nat \<Rightarrow> RagWorld \<Rightarrow> RagMessageRow list" where
  "recent_history pk limit w = rev (take limit (rev (rag_messages_of pk w)))"

definition append_message :: "int \<Rightarrow> pystr \<Rightarrow> pystr \<Rightarrow> pystr option \<Rightarrow> RagWorld \<Rightarrow> RagWorld" where
  "append_message pk role content sources w = w\<lparr>rw_fresh := rw_fresh w + 1,
     rw_messages := rw_messages w @ [\<lparr>rm_id = rw_fresh w, rm_session_id = pk, rm_role = role, rm_content = Some content,
       rm_sources_json = sources, rm_created_at = rw_now w\<rparr>]\<rparr>"

text \<open>The foreign key refuses a message of a session that does not exist.\<close>

definition add_message :: "int \<Rightarrow> pystr \<Rightarrow> pystr \<Rightarrow> pystr option \<Rightarrow> unit rag_op" where
  "add_message pk role content sources = op_bind (op_get (find_rag pk)) (\<lambda>s.
     if s = None then op_raise RagDbError else op_modify (append_message pk role content sources))"

text \<open>A database session: \<open>async with session_factory() as s: ...; await s.commit()\<close>.\<close>

definition next_fault :: "RagWorld \<Rightarrow> DbFault" where
  "next_fault w = (case rw_faults w of [] \<Rightarrow> F_None | f # fs \<Rightarrow> f)"

definition rag_tx :: "'a rag_op \<Rightarrow> 'a rag_op" where
  "rag_tx m = (\<lambda>w. let w' = w\<lparr>rw_faults := tl (rw_faults w)\<rparr> in
     if next_fault w = F_Begin then (Inl RagDbError, w')
     else (case m w' of
       (Inl e, _) \<Rightarrow> (Inl e, w')
     | (Inr x, w'') \<Rightarrow> if next_fault w = F_Commit then (Inl RagDbError, w') else (Inr x, w'')))"

section \<open>Environment, frames and texts\<close>

record RagConfig =
  rcf_min_score :: rat
  rcf_probe_window :: nat
  rcf_query_rewrite_enabled :: bool
  rcf_max_context_chars :: int
  rcf_history_limit :: nat

record RagSourceDTO =
  rsd_content :: pystr
  rsd_score :: rat
  rsd_kb_id :: int

text \<open>A stream of the model: its tokens and the exception that ended it, if one did.\<close>

record RagChatEnv =
  rce_config :: RagConfig
  rce_embed :: "pystr list \<Rightarrow> rat list list result"
  rce_rank :: "rat list \<Rightarrow> VectorRow list \<Rightarrow> (VectorRow \<times> rat) list"
  rce_rewrite_prompt :: "pystr \<Rightarrow> pystr \<Rightarrow> pystr result"
  rce_chat :: "pystr \<Rightarrow> json result"
  rce_system_prompt :: "pystr result"
  rce_user_prompt :: "pystr \<Rightarrow> pystr \<Rightarrow> pystr result"
  rce_streaming_client :: "unit result"
  rce_stream :: "pystr \<Rightarrow> pystr \<Rightarrow> json list \<times> exn option"
  rce_short_id :: pystr
  rce_show :: "json \<Rightarrow> pystr"
  rce_dump_sources :: "RagSourceDTO list \<Rightarrow> pystr"
  rce_class :: "exn \<Rightarrow> AiException"

definition escape_newlines :: "pystr \<Rightarrow> pystr" where
  "escape_newlines t = concat (map (\<lambda>c. if c = 10 then [92, 110] else if c = 13 then [92, 114] else [c]) t)"

definition sse_text :: "pystr \<Rightarrow> pystr" where
  "sse_text t = ascii ''data: '' @ escape_newlines t @ [10, 10]"

definition sse_error :: "pystr \<Rightarrow> pystr" where
  "sse_error m = ascii ''event: error'' @ [10] @ ascii ''data: '' @ escape_newlines m @ [10, 10]"

definition content_to_str :: "(json \<Rightarrow> pystr) \<Rightarrow> json \<Rightarrow> pystr" where
  "content_to_str show content = (case content of
     JStr s \<Rightarrow> s
   | JArr parts \<Rightarrow> concat (map (\<lambda>part. case part of
       JStr s \<Rightarrow> s
     | JObj d \<Rightarrow> py_str_of show (dict_get_default d (ascii ''text'') (JStr []))
     | _ \<Rightarrow> []) parts)
   | _ \<Rightarrow> show content)"

definition yield_frame :: "pystr \<Rightarrow> unit rag_op" where
  "yield_frame f = op_modify (\<lambda>w. w\<lparr>rw_out := rw_out w @ [f]\<rparr>)"

definition rag_kb_ids :: "RagSessionRow \<Rightarrow> int list result" where
  "rag_kb_ids s = res_bind (loads (rag_kb_ids_json s)) (\<lambda>j. res_bind (json_iter j) (res_traverse json_int))"

definition format_rag_history :: "RagMessageRow list \<Rightarrow> pystr" where
  "format_rag_history ms = (if ms = [] then [] else [23545, 35805, 21382, 21490, 65306, 10] @ py_join [10] (map (\<lambda>m.
     (if rm_role m = USER_ROLE then [29992, 25143] else [21161, 25163]) @ [58, 32] @ or_str (rm_content m) []) ms))"

section \<open>The chats\<close>

record RagSessionDTO =
  rsn_id :: int
  rsn_title :: "pystr option"
  rsn_knowledge_base_ids :: "int list"
  rsn_created_at :: int

record RagSessionListItemDTO =
  rsl_id :: int
  rsl_title :: "pystr option"
  rsl_message_count :: int
  rsl_knowledge_base_names :: "pystr list"
  rsl_updated_at :: int
  rsl_is_pinned :: bool

record RagMessageDTO =
  rmd_id :: int
  rmd_type :: pystr
  rmd_content :: "pystr option"
  rmd_created_at :: int

record RagSessionDetailDTO =
  rsx_id :: int
  rsx_title :: "pystr option"
  rsx_knowledge_bases :: "KbListItem list"
  rsx_messages :: "RagMessageDTO list"
  rsx_created_at :: int
  rsx_updated_at :: int

definition rag_get_or_raise :: "int \<Rightarrow> RagSessionRow rag_op" where
  "rag_get_or_raise pk = op_bind (op_get (find_rag pk)) (\<lambda>s. case s of
     None \<Rightarrow> op_raise (business_exception RAG_SESSION_NOT_FOUND None) | Some r \<Rightarrow> op_return r)"

definition to_rag_session_dto :: "RagSessionRow \<Rightarrow> RagSessionDTO result" where
  "to_rag_session_dto s = res_map (\<lambda>ids. \<lparr>rsn_id = rag_id s, rsn_title = rag_title s, rsn_knowledge_base_ids = ids,
     rsn_created_at = rag_created_at s\<rparr>) (rag_kb_ids s)"

text \<open>\<open>uuid\<close> is the new session id.\<close>

definition create_rag_session :: "pystr \<Rightarrow> int list \<Rightarrow> pystr option \<Rightarrow> RagSessionDTO rag_op" where
  "create_rag_session uuid ids title = (if ids = [] then op_raise (business_exception BAD_REQUEST (Some [35831, 33267, 23569, 36873, 25321, 19968, 20010, 30693, 35782, 24211]))
     else op_then (op_for ids (\<lambda>i. op_bind (op_get (\<lambda>w. find_kb i (rw_kb w))) (\<lambda>kb. op_when (kb = None)
            (op_raise (business_exception KNOWLEDGE_BASE_NOT_FOUND (Some ([30693, 35782, 24211, 19981, 23384, 22312, 58, 32] @ int_str i)))))))
       (op_bind (rag_tx (op_bind (op_get (\<lambda>w. w)) (\<lambda>w.
            let s = \<lparr>rag_id = rw_fresh w, rag_session_id = uuid, rag_kb_ids_json = dumps (JArr (map JInt ids)),
                  rag_title = title, rag_status = ascii ''ACTIVE'', rag_pinned = False, rag_created_at = rw_now w,
                  rag_updated_at = rw_now w\<rparr>
            in op_then (op_modify (\<lambda>w. w\<lparr>rw_sessions := rw_sessions w @ [s], rw_fresh := rw_fresh w + 1\<rparr>)) (op_return s))))
         (\<lambda>s. op_lift (to_rag_session_dto s))))"

definition to_rag_list_item :: "RagWorld \<Rightarrow> RagSessionRow \<Rightarrow> RagSessionListItemDTO result" where
  "to_rag_list_item w s = res_map (\<lambda>ids. \<lparr>rsl_id = rag_id s, rsl_title = rag_title s,
     rsl_message_count = rag_count_messages (rag_id s) w,
     rsl_knowledge_base_names = map (\<lambda>i. case find_kb i (rw_kb w) of
         None \<Rightarrow> [26410, 30693, 30693, 35782, 24211] | Some kb \<Rightarrow> or_str (kb_name kb) [26410, 30693, 30693, 35782, 24211]) ids,
     rsl_updated_at = rag_updated_at s, rsl_is_pinned = rag_pinned s\<rparr>) (rag_kb_ids s)"

definition list_rag_sessions :: "nat \<Rightarrow> nat \<Rightarrow> RagSessionListItemDTO list rag_op" where
  "list_rag_sessions limit offset = op_bind (op_get (\<lambda>w. w)) (\<lambda>w.
     op_lift (res_map (py_window offset limit) (res_traverse (to_rag_list_item w) (list_all_rag w))))"

definition to_rag_message_dto :: "RagMessageRow \<Rightarrow> RagMessageDTO" where
  "to_rag_message_dto m = \<lparr>rmd_id = rm_id m, rmd_type = rm_role m, rmd_content = rm_content m, rmd_created_at = rm_created_at m\<rparr>"

definition get_rag_detail :: "int \<Rightarrow> RagSessionDetailDTO rag_op" where
  "get_rag_detail pk = op_bind (rag_get_or_raise pk) (\<lambda>s. op_bind (op_lift (rag_kb_ids s)) (\<lambda>ids. op_get (\<lambda>w.
     \<lparr>rsx_id = rag_id s, rsx_title = rag_title s,
      rsx_knowledge_bases = List.map_filter (\<lambda>i. map_option (\<lambda>kb. to_kb_list_item kb None None None) (find_kb i (rw_kb w))) ids,
      rsx_messages = map to_rag_message_dto (rag_messages_of (rag_id s) w),
      rsx_created_at = rag_created_at s, rsx_updated_at = rag_updated_at s\<rparr>)))"

definition update_rag_title :: "int \<Rightarrow> pystr \<Rightarrow> unit rag_op" where
  "update_rag_title pk title = rag_tx (op_bind (rag_get_or_raise pk) (\<lambda>s.
     op_modify (update_rag (rag_id s) (\<lambda>r. r\<lparr>rag_title := Some title\<rparr>))))"

definition toggle_pin :: "int \<Rightarrow> unit rag_op" where
  "toggle_pin pk = rag_tx (op_bind (rag_get_or_raise pk) (\<lambda>s.
     op_modify (update_rag (rag_id s) (\<lambda>r. r\<lparr>rag_pinned := \<not> rag_pinned s\<rparr>))))"

definition delete_rag_session :: "int \<Rightarrow> unit rag_op" where
  "delete_rag_session pk = rag_tx (op_bind (rag_get_or_raise pk) (\<lambda>s. op_modify (delete_rag_row (rag_id s))))"


section \<open>Retrieval and answer\<close>

definition rag_rewrite :: "RagChatEnv \<Rightarrow> pystr \<Rightarrow> pystr \<Rightarrow> pystr" where
  "rag_rewrite env question history =
     (case res_bind (rce_rewrite_prompt env (wrap_with_delimiters (rce_short_id env) [38382, 31572, 20869, 23481] (sanitized question)) history) (rce_chat env) of
        Inl e \<Rightarrow> question
      | Inr content \<Rightarrow> let t = py_strip (content_to_str (rce_show env) content) in if t = [] then question else t)"

definition build_probes :: "RagChatEnv \<Rightarrow> pystr \<Rightarrow> pystr \<Rightarrow> pystr list" where
  "build_probes env question history =
     (let window = rcf_probe_window (rce_config env); base = normalize_probe_window question window;
          probes = (if base \<noteq> [] then [base] else [normalize_probe_window (if question = [] then [26597, 35810] else question) window])
      in if rcf_query_rewrite_enabled (rce_config env)
         then let rewritten = normalize_probe_window (rag_rewrite env question history) window
           in if rewritten \<noteq> [] \<and> rewritten \<notin> set probes then probes @ [rewritten] else probes
         else probes)"

text \<open>The searches of \<open>asyncio.gather\<close>, each in a session of its own.\<close>

definition search_one :: "RagChatEnv \<Rightarrow> int list \<Rightarrow> int \<Rightarrow> rat list \<Rightarrow> RetrievedChunk list rag_op" where
  "search_one env ids top_k v = rag_tx (op_get (\<lambda>w. map
     (\<lambda>r. \<lparr>ch_content = sr_content r, ch_score = sr_score r, ch_kb_id = sr_kb_id r\<rparr>)
     (vector_search (rce_rank env) (rw_kb w) v ids top_k)))"

fun gather_searches :: "RagChatEnv \<Rightarrow> int list \<Rightarrow> int \<Rightarrow> rat list list \<Rightarrow> RetrievedChunk list list rag_op" where
  "gather_searches env ids top_k [] = op_return []"
| "gather_searches env ids top_k (v # vs) = op_bind (search_one env ids top_k v) (\<lambda>cs.
     op_bind (gather_searches env ids top_k vs) (\<lambda>css. op_return (cs # css)))"

definition strict_zip_error :: exn where "strict_zip_error = ValueError (ascii ''zip() argument 2 is shorter'')"

definition rag_retrieve :: "RagChatEnv \<Rightarrow> pystr \<Rightarrow> int list \<Rightarrow> pystr \<Rightarrow> (RetrievedChunk list \<times> RagSourceDTO list) rag_op" where
  "rag_retrieve env question ids history =
     (let probes = build_probes env question history; (top_k, tier) = compute_retrieval_params question;
          min_score = (case tier of Some t \<Rightarrow> t | None \<Rightarrow> rcf_min_score (rce_config env))
      in op_bind (op_lift (rce_embed env probes)) (\<lambda>vectors.
         if length vectors \<noteq> length probes then op_raise strict_zip_error
         else op_bind (gather_searches env ids top_k vectors) (\<lambda>candidates.
           let filtered = filter_by_min_score (merge_and_dedup candidates) min_score
           in op_return (filtered, map (\<lambda>c. \<lparr>rsd_content = ch_content c, rsd_score = ch_score c, rsd_kb_id = ch_kb_id c\<rparr>) filtered))))"

definition answer_messages :: "RagChatEnv \<Rightarrow> pystr \<Rightarrow> pystr \<Rightarrow> (pystr \<times> pystr) result" where
  "answer_messages env question context = res_bind (rce_system_prompt env) (\<lambda>system.
     res_map (Pair system) (rce_user_prompt env (sanitized context) (sanitized question)))"

definition persist_assistant :: "RagChatEnv \<Rightarrow> int \<Rightarrow> pystr \<Rightarrow> RagSourceDTO list \<Rightarrow> unit rag_op" where
  "persist_assistant env pk answer sources =
     rag_tx (add_message pk ASSISTANT_ROLE answer (Some (rce_dump_sources env sources)))"

definition safe_persist_error :: "RagChatEnv \<Rightarrow> int option \<Rightarrow> pystr \<Rightarrow> unit rag_op" where
  "safe_persist_error env pk placeholder = (case pk of None \<Rightarrow> op_return ()
   | Some i \<Rightarrow> op_try (persist_assistant env i placeholder []) (\<lambda>e. op_return ()))"

section \<open>A streamed answer\<close>

text \<open>
  The session that records the question. The key of the chat is known to the handlers of
  exceptions once the row is loaded, even where the rest of the session fails.
\<close>

definition record_question :: "RagChatEnv \<Rightarrow> int \<Rightarrow> pystr \<Rightarrow> (int option \<times> (int list \<times> pystr) result) rag_op" where
  "record_question env pk0 question = (\<lambda>w. let f = next_fault w; w' = w\<lparr>rw_faults := tl (rw_faults w)\<rparr> in
     if f = F_Begin then (Inr (None, Inl RagDbError), w')
     else (case find_rag pk0 w' of
       None \<Rightarrow> (Inr (None, Inl (business_exception RAG_SESSION_NOT_FOUND None)), w')
     | Some s \<Rightarrow> (case rag_kb_ids s of
         Inl e \<Rightarrow> (Inr (Some (rag_id s), Inl e), w')
       | Inr ids \<Rightarrow>
           let history = format_rag_history (recent_history (rag_id s) (rcf_history_limit (rce_config env)) w') in
           if f = F_Commit then (Inr (Some (rag_id s), Inl RagDbError), w')
           else (Inr (Some (rag_id s), Inr (ids, history)), append_message (rag_id s) USER_ROLE question None w'))))"

definition tell_no_result :: "RagChatEnv \<Rightarrow> int \<Rightarrow> RagSourceDTO list \<Rightarrow> unit rag_op" where
  "tell_no_result env pk sources = op_then (persist_assistant env pk NO_RESULT_MESSAGE sources) (yield_frame (sse_text NO_RESULT_MESSAGE))"

text \<open>
  The loop over the tokens: the text held back so far (\<open>Some\<close> until the window is passed) and
  the answer already sent. The result is \<open>None\<close> where the generator returned.
\<close>

fun stream_tokens :: "RagChatEnv \<Rightarrow> int \<Rightarrow> json list \<Rightarrow> pystr option \<Rightarrow> pystr \<Rightarrow> (pystr option \<times> pystr) option rag_op" where
  "stream_tokens env pk [] probe answer = op_return (Some (probe, answer))"
| "stream_tokens env pk (c # cs) probe answer = (let token = content_to_str (rce_show env) c in
     if token = [] then stream_tokens env pk cs probe answer
     else (case probe of
       None \<Rightarrow> op_then (yield_frame (sse_text token)) (stream_tokens env pk cs None (answer @ token))
     | Some held \<Rightarrow> let probe_text = held @ token in
         if is_no_info_answer probe_text then op_then (tell_no_result env pk []) (op_return None)
         else if length probe_text \<ge> rcf_probe_window (rce_config env)
           then op_then (yield_frame (sse_text probe_text)) (stream_tokens env pk cs None (answer @ probe_text))
         else stream_tokens env pk cs (Some probe_text) answer))"

definition finish_stream :: "RagChatEnv \<Rightarrow> int \<Rightarrow> RagSourceDTO list \<Rightarrow> pystr option \<times> pystr \<Rightarrow> unit rag_op" where
  "finish_stream env pk sources = (\<lambda>(probe, answer). case probe of
     None \<Rightarrow> persist_assistant env pk answer sources
   | Some held \<Rightarrow> if is_no_info_answer held then tell_no_result env pk []
       else op_then (yield_frame (sse_text held)) (persist_assistant env pk (answer @ held) sources))"

definition answer_question :: "RagChatEnv \<Rightarrow> int \<Rightarrow> pystr \<Rightarrow> int list \<Rightarrow> pystr \<Rightarrow> unit rag_op" where
  "answer_question env pk question ids history = op_bind (rag_retrieve env question ids history) (\<lambda>(chunks, sources).
     if detect_no_result chunks then tell_no_result env pk sources
     else op_bind (op_lift (answer_messages env question (build_context chunks (rcf_max_context_chars (rce_config env))))) (\<lambda>(system, user).
       op_bind (op_lift (rce_streaming_client env)) (\<lambda>_.
       let (tokens, failure) = rce_stream env system user in
       op_bind (stream_tokens env pk tokens (Some []) []) (\<lambda>r. case r of
         None \<Rightarrow> op_return ()
       | Some state \<Rightarrow> (case failure of Some e \<Rightarrow> op_raise e | None \<Rightarrow> finish_stream env pk sources state)))))"

definition failure_text :: "RagChatEnv \<Rightarrow> exn \<Rightarrow> pystr" where
  "failure_text env e = (case e of
     BusinessException c m \<Rightarrow> m
   | _ \<Rightarrow> (case classify_ai_error (rce_class env e) of Some c \<Rightarrow> message c | None \<Rightarrow> [82, 65, 71, 32, 27969, 24335, 38382, 31572, 22833, 36133]))"

definition stream_failed :: "RagChatEnv \<Rightarrow> int option \<Rightarrow> exn \<Rightarrow> unit rag_op" where
  "stream_failed env pk e = op_then (safe_persist_error env pk ERROR_PLACEHOLDER) (yield_frame (sse_error (failure_text env e)))"

definition stream_query :: "RagChatEnv \<Rightarrow> int \<Rightarrow> pystr \<Rightarrow> unit rag_op" where
  "stream_query env pk0 question = op_bind (record_question env pk0 question) (\<lambda>(pk, r).
     op_try (op_bind (op_lift r) (\<lambda>(ids, history). case pk of
         None \<Rightarrow> op_return ()
       | Some i \<Rightarrow> answer_question env i question ids history))
       (stream_failed env pk))"


section \<open>What a turn leaves behind\<close>

text \<open>
  What happened since \<open>w\<close>: the parts sent to the client, none of which begins the answer with a
  no-information phrase, and, unless an exception is on its way, the answer stored for the chat,
  which is their concatenation.
\<close>

definition told :: "pystr list \<Rightarrow> RagWorld \<Rightarrow> RagWorld" where
  "told parts w = w\<lparr>rw_out := rw_out w @ map sse_text parts\<rparr>"

definition answered :: "int \<Rightarrow> RagWorld \<Rightarrow> unit result \<times> RagWorld \<Rightarrow> bool" where
  "answered pk w out = (\<exists>parts. (parts = [] \<or> \<not> is_no_info_answer (hd parts)) \<and> (case out of
     (Inl e, w') \<Rightarrow> w' = told parts w
   | (Inr _, w') \<Rightarrow> \<exists>src. w' = told parts (append_message pk ASSISTANT_ROLE (concat parts) (Some src) w)))"

text \<open>A world in which the database answers and the chat exists.\<close>

definition ready :: "int \<Rightarrow> RagWorld \<Rightarrow> bool" where
  "ready pk w \<longleftrightarrow> rw_faults w = [] \<and> find_rag pk w \<noteq> None"

lemma tl_faults [simp]: "rw_faults w = [] \<Longrightarrow> w\<lparr>rw_faults := []\<rparr> = w"
  by (cases w) simp

lemma rag_tx_quiet: "rw_faults w = [] \<Longrightarrow> rag_tx m w = (case m w of (Inl e, w') \<Rightarrow> (Inl e, w) | r \<Rightarrow> r)"
  by (simp add: rag_tx_def next_fault_def Let_def split: sum.splits prod.splits)

lemma persist_ready:
  "ready pk w \<Longrightarrow> persist_assistant env pk a src w =
     (Inr (), append_message pk ASSISTANT_ROLE a (Some (rce_dump_sources env src)) w)"
  by (simp add: ready_def persist_assistant_def rag_tx_quiet add_message_def op_simps)

lemma told_simps [simp]:
  "told [] w = w" "told ps (told qs w) = told (qs @ ps) w" "ready pk (told ps w) = ready pk w"
  "append_message pk role a src (told ps w) = told ps (append_message pk role a src w)"
  by (simp_all add: told_def ready_def find_rag_def append_message_def)

lemma yield_told: "yield_frame (sse_text t) w = (Inr (), told [t] w)"
  by (simp add: yield_frame_def told_def op_simps)

lemma no_result_is_plain: "\<not> is_no_info_answer NO_RESULT_MESSAGE"
  by (simp add: is_no_info_answer_def NO_RESULT_MESSAGE_def NO_INFO_PATTERNS_def)

lemma tell_no_result_ready: "ready pk w \<Longrightarrow> tell_no_result env pk src w =
    (Inr (), told [NO_RESULT_MESSAGE] (append_message pk ASSISTANT_ROLE NO_RESULT_MESSAGE (Some (rce_dump_sources env src)) w))"
  by (simp add: tell_no_result_def op_simps persist_ready yield_told)

lemma stream_tokens_spec:
  "ready pk w \<Longrightarrow>
   (\<exists>src. probe \<noteq> None \<and> stream_tokens env pk cs probe answer w =
      (Inr None, told [NO_RESULT_MESSAGE] (append_message pk ASSISTANT_ROLE NO_RESULT_MESSAGE (Some src) w))) \<or>
   (\<exists>probe' parts. stream_tokens env pk cs probe answer w = (Inr (Some (probe', answer @ concat parts)), told parts w)
      \<and> (probe' \<noteq> None \<longrightarrow> parts = [] \<and> probe \<noteq> None)
      \<and> (probe \<noteq> None \<longrightarrow> parts = [] \<or> \<not> is_no_info_answer (hd parts)))"
proof (induction cs arbitrary: w probe answer)
  case Nil
  then show ?case by (auto simp: op_simps intro!: exI [of _ "[]"])
next
  case (Cons c cs)
  let ?t = "content_to_str (rce_show env) c"
  show ?case
  proof (cases "?t = []")
    case True
    with Cons show ?thesis by (simp add: Let_def)
  next
    case t: False
    show ?thesis
    proof (cases probe)
      case None
      from Cons.IH [of "told [?t] w" None "answer @ ?t"] Cons.prems obtain parts where
        "stream_tokens env pk cs None (answer @ ?t) (told [?t] w) = (Inr (Some (None, answer @ ?t @ concat parts)), told (?t # parts) w)"
        by auto
      with t None show ?thesis by (auto simp: Let_def op_simps yield_told intro!: exI [of _ "?t # parts"])
    next
      case (Some held)
      let ?p = "held @ ?t"
      consider "is_no_info_answer ?p" | "\<not> is_no_info_answer ?p" "rcf_probe_window (rce_config env) \<le> length ?p"
        | "\<not> is_no_info_answer ?p" "length ?p < rcf_probe_window (rce_config env)" by linarith
      then show ?thesis
      proof cases
        case 1
        with t Some Cons.prems show ?thesis by (auto simp: Let_def op_simps tell_no_result_ready)
      next
        case 2
        from Cons.IH [of "told [?p] w" None "answer @ ?p"] Cons.prems obtain parts where
          "stream_tokens env pk cs None (answer @ ?p) (told [?p] w) = (Inr (Some (None, answer @ ?p @ concat parts)), told (?p # parts) w)"
          by auto
        with t Some 2 show ?thesis by (auto simp: Let_def op_simps yield_told intro!: exI [of _ "?p # parts"])
      next
        case 3
        with t Some Cons.IH [of w "Some ?p" answer] Cons.prems show ?thesis by (simp add: Let_def)
      qed
    qed
  qed
qed


lemma stream_failed_ready: "ready pk w \<Longrightarrow> stream_failed env (Some pk) e w =
    (Inr (), (append_message pk ASSISTANT_ROLE ERROR_PLACEHOLDER (Some (rce_dump_sources env [])) w)
       \<lparr>rw_out := rw_out w @ [sse_error (failure_text env e)]\<rparr>)"
  by (simp add: stream_failed_def safe_persist_error_def op_simps persist_ready yield_frame_def append_message_def)

lemma answeredI:
  "parts = [] \<or> \<not> is_no_info_answer (hd parts) \<Longrightarrow> a = concat parts \<Longrightarrow>
     answered pk w (Inr u, told parts (append_message pk ASSISTANT_ROLE a (Some src) w))"
  by (auto simp: answered_def)

lemma answered_errorI: "parts = [] \<or> \<not> is_no_info_answer (hd parts) \<Longrightarrow> answered pk w (Inl e, told parts w)"
  by (auto simp: answered_def)

lemma told_no_result_answered:
  "answered pk w (Inr u, told [NO_RESULT_MESSAGE] (append_message pk ASSISTANT_ROLE NO_RESULT_MESSAGE (Some src) w))"
  by (rule answeredI) (simp_all add: no_result_is_plain)

lemma gather_quiet: "rw_faults w = [] \<Longrightarrow> snd (gather_searches env ids top_k vs w) = w"
  by (induction vs) (auto simp: op_simps search_one_def rag_tx_quiet split: sum.splits prod.splits)

lemma retrieve_quiet: "rw_faults w = [] \<Longrightarrow> snd (rag_retrieve env question ids history w) = w"
  using gather_quiet [of w env ids]
  by (auto simp: rag_retrieve_def op_simps Let_def split: sum.splits prod.splits; metis snd_conv)

lemma finish_stream_spec:
  assumes "ready pk w" "parts = [] \<or> \<not> is_no_info_answer (hd parts)" "probe \<noteq> None \<longrightarrow> parts = []"
  shows "answered pk w (finish_stream env pk src (probe, concat parts) (told parts w))"
proof (cases probe)
  case None
  with assms show ?thesis by (simp add: finish_stream_def persist_ready answeredI)
next
  case (Some held)
  with assms have "parts = []" by simp
  then show ?thesis
    using assms(1) Some answeredI [of "[held]" held pk w]
    by (auto simp: finish_stream_def op_simps tell_no_result_ready told_no_result_answered yield_told persist_ready)
qed

lemma answer_question_answers:
  assumes "ready pk w"
  shows "answered pk w (answer_question env pk question ids history w)"
proof -
  obtain r where retr: "rag_retrieve env question ids history w = (r, w)"
    using retrieve_quiet [of w env question ids history] assms by (metis ready_def prod.collapse)
  have err: "answered pk w (Inl e, w)" for e using answered_errorI [of "[]"] by simp
  show ?thesis
  proof (cases r)
    case (Inl e)
    with retr err show ?thesis by (simp add: answer_question_def op_simps)
  next
    case (Inr cs)
    obtain chunks src where cs: "cs = (chunks, src)" by (cases cs)
    let ?m = "answer_messages env question (build_context chunks (rcf_max_context_chars (rce_config env)))"
    show ?thesis
    proof (cases "detect_no_result chunks \<or> (\<exists>e. ?m = Inl e) \<or> (\<exists>e. rce_streaming_client env = Inl e)")
      case True
      then show ?thesis
        using retr Inr cs err assms
        by (cases ?m; cases "rce_streaming_client env")
          (auto simp: answer_question_def op_simps tell_no_result_ready told_no_result_answered)
    next
      case False
      then obtain system user where m: "?m = Inr (system, user)" by (cases ?m) auto
      obtain tokens failure where st: "rce_stream env system user = (tokens, failure)" by fastforce
      have q: "answer_question env pk question ids history w =
          (case stream_tokens env pk tokens (Some []) [] w of
             (Inl e, w') \<Rightarrow> (Inl e, w') | (Inr None, w') \<Rightarrow> (Inr (), w')
           | (Inr (Some state), w') \<Rightarrow> (case failure of Some e \<Rightarrow> (Inl e, w') | None \<Rightarrow> finish_stream env pk src state w'))"
        using False m st retr Inr cs
        by (cases "rce_streaming_client env") (auto simp: answer_question_def op_simps Let_def split: sum.splits prod.splits option.splits)
      have stop: "answered pk w (case failure of Some e \<Rightarrow> (Inl e, told parts w)
            | None \<Rightarrow> finish_stream env pk src (probe, concat parts) (told parts w))"
        if "parts = [] \<or> \<not> is_no_info_answer (hd parts)" "probe \<noteq> None \<longrightarrow> parts = []" for probe parts
        using that answered_errorI [of parts] finish_stream_spec [OF assms, of parts] by (cases failure) simp_all
      from stream_tokens_spec [OF assms, of "Some []" env tokens "[]"] show ?thesis
      proof
        assume "\<exists>src. Some [] \<noteq> None \<and> stream_tokens env pk tokens (Some []) [] w =
          (Inr None, told [NO_RESULT_MESSAGE] (append_message pk ASSISTANT_ROLE NO_RESULT_MESSAGE (Some src) w))"
        then show ?thesis by (auto simp: q told_no_result_answered)
      next
        assume "\<exists>probe' parts. stream_tokens env pk tokens (Some []) [] w = (Inr (Some (probe', [] @ concat parts)), told parts w)
          \<and> (probe' \<noteq> None \<longrightarrow> parts = [] \<and> Some [] \<noteq> None)
          \<and> (Some [] \<noteq> None \<longrightarrow> parts = [] \<or> \<not> is_no_info_answer (hd parts))"
        then obtain probe' parts where
          "stream_tokens env pk tokens (Some []) [] w = (Inr (Some (probe', concat parts)), told parts w)"
          "parts = [] \<or> \<not> is_no_info_answer (hd parts)" "probe' \<noteq> None \<longrightarrow> parts = []" by auto
        with stop show ?thesis by (simp add: q)
      qed
    qed
  qed
qed

text \<open>
  C10. While the database answers, a question to an existing chat adds exactly two messages, the
  question and one answer. Either the answer is, character for character, what the client was
  sent, or the client was sent an error event last and the placeholder is stored. What is sent
  never begins with a phrase that tells that nothing was found.
\<close>
theorem chat_turn_recorded:
  assumes "rw_faults w = []" "find_rag pk w = Some s" "rag_kb_ids s = Inr ids"
  shows "\<exists>answer src parts tail. fst (stream_query env pk question w) = Inr ()
    \<and> rw_messages (snd (stream_query env pk question w)) = rw_messages w @
        [\<lparr>rm_id = rw_fresh w, rm_session_id = pk, rm_role = USER_ROLE, rm_content = Some question,
          rm_sources_json = None, rm_created_at = rw_now w\<rparr>,
         \<lparr>rm_id = rw_fresh w + 1, rm_session_id = pk, rm_role = ASSISTANT_ROLE, rm_content = Some answer,
          rm_sources_json = Some src, rm_created_at = rw_now w\<rparr>]
    \<and> rw_out (snd (stream_query env pk question w)) = rw_out w @ map sse_text parts @ tail
    \<and> (parts = [] \<or> \<not> is_no_info_answer (hd parts))
    \<and> ((tail = [] \<and> answer = concat parts) \<or> (answer = ERROR_PLACEHOLDER \<and> (\<exists>m. tail = [sse_error m])))"
proof -
  let ?w = "append_message pk USER_ROLE question None w"
  let ?h = "format_rag_history (recent_history pk (rcf_history_limit (rce_config env)) w)"
  have pk: "rag_id s = pk" using assms(2) by (auto simp: find_rag_def find_Some_iff)
  have ready: "ready pk ?w" using assms by (simp add: ready_def append_message_def find_rag_def)
  let ?out = "answer_question env pk question ids ?h ?w"
  have q: "stream_query env pk question w =
      (case ?out of (Inl e, w') \<Rightarrow> stream_failed env (Some pk) e w' | r \<Rightarrow> r)"
    using assms pk by (simp add: stream_query_def record_question_def next_fault_def op_simps split: sum.splits prod.splits)
  from answer_question_answers [OF ready, of env question ids ?h] obtain parts where
    p: "parts = [] \<or> \<not> is_no_info_answer (hd parts)"
      "case ?out of (Inl e, w') \<Rightarrow> w' = told parts ?w
        | (Inr _, w') \<Rightarrow> \<exists>src. w' = told parts (append_message pk ASSISTANT_ROLE (concat parts) (Some src) ?w)"
    unfolding answered_def by (elim exE conjE) (rule that)
  show ?thesis
  proof (cases "fst ?out")
    case (Inl e)
    with p have out: "?out = (Inl e, told parts ?w)" by (cases ?out) auto
    let ?w2 = "append_message pk ASSISTANT_ROLE ERROR_PLACEHOLDER (Some (rce_dump_sources env [])) (told parts ?w)"
    have e: "stream_query env pk question w =
        (Inr (), ?w2\<lparr>rw_out := rw_out (told parts ?w) @ [sse_error (failure_text env e)]\<rparr>)"
      using ready by (simp only: q out stream_failed_ready told_simps prod.case sum.case)
    have "rw_messages ?w2 = rw_messages w @
        [\<lparr>rm_id = rw_fresh w, rm_session_id = pk, rm_role = USER_ROLE, rm_content = Some question,
          rm_sources_json = None, rm_created_at = rw_now w\<rparr>,
         \<lparr>rm_id = rw_fresh w + 1, rm_session_id = pk, rm_role = ASSISTANT_ROLE, rm_content = Some ERROR_PLACEHOLDER,
          rm_sources_json = Some (rce_dump_sources env []), rm_created_at = rw_now w\<rparr>]"
      "rw_out (told parts ?w) = rw_out w @ map sse_text parts"
      by (simp_all add: told_def append_message_def)
    with p(1) e show ?thesis
      by (simp only: fst_conv snd_conv, rule_tac x = ERROR_PLACEHOLDER in exI, rule_tac x = "rce_dump_sources env []" in exI,
          rule_tac x = parts in exI, rule_tac x = "[sse_error (failure_text env e)]" in exI) auto
  next
    case (Inr u)
    with p obtain src where "?out = (Inr (), told parts (append_message pk ASSISTANT_ROLE (concat parts) (Some src) ?w))"
      by (cases ?out) auto
    with p(1) show ?thesis
      by (rule_tac x = "concat parts" in exI, rule_tac x = src in exI, rule_tac x = parts in exI, rule_tac x = "[]" in exI)
        (simp add: q told_def append_message_def)
  qed
qed


definition sample_chat_env :: RagChatEnv where
  "sample_chat_env = \<lparr>rce_config = \<lparr>rcf_min_score = 0, rcf_probe_window = 10, rcf_query_rewrite_enabled = False,
       rcf_max_context_chars = 100, rcf_history_limit = 5\<rparr>,
     rce_embed = (\<lambda>ps. Inr (map (\<lambda>_. [1]) ps)), rce_rank = (\<lambda>q rows. map (\<lambda>r. (r, 1)) rows),
     rce_rewrite_prompt = (\<lambda>q h. Inr q), rce_chat = (\<lambda>p. Inr (JStr p)), rce_system_prompt = Inr [],
     rce_user_prompt = (\<lambda>c q. Inr q), rce_streaming_client = Inr (), rce_stream = (\<lambda>s u. ([JStr [104, 105]], None)),
     rce_short_id = [], rce_show = dumps, rce_dump_sources = (\<lambda>ss. []),
     rce_class = (\<lambda>e. X_Other)\<rparr>"

definition sample_chat_world :: RagWorld where
  "sample_chat_world = \<lparr>rw_sessions = [\<lparr>rag_id = 1, rag_session_id = [97], rag_kb_ids_json = ascii ''[7]'', rag_title = None,
       rag_status = ascii ''ACTIVE'', rag_pinned = False, rag_created_at = 0, rag_updated_at = 0\<rparr>],
     rw_messages = [], rw_fresh = 2,
     rw_kb = \<lparr>db_kbs = [], db_docs = [], db_bank = [], db_vectors = [], db_fresh = 1\<rparr>,
     rw_faults = [], rw_out = [], rw_now = 5\<rparr>"

lemma chat_turn_recorded_witness:
  "length (rw_messages (snd (stream_query sample_chat_env 1 [104] sample_chat_world))) = 2"
proof -
  have l: "loads (ascii ''[7]'') = Inr (JArr [JInt 7])" by code_simp
  have k: "rag_kb_ids (hd (rw_sessions sample_chat_world)) = Inr [7]"
    by (simp add: rag_kb_ids_def sample_chat_world_def l json_int_def)
  have "rw_faults sample_chat_world = []"
    "find_rag 1 sample_chat_world = Some (hd (rw_sessions sample_chat_world))"
    by (simp_all add: sample_chat_world_def find_rag_def)
  from chat_turn_recorded [OF this k, of sample_chat_env "[104]"] show ?thesis by (auto simp: sample_chat_world_def)
qed

end
