(* ===== verification/Graph_Runtime.thy ===== *)
theory Graph_Runtime
  imports Effects
begin

text \<open>
  What the agent graphs use of LangGraph, as it documents it: a compiled graph runs in
  supersteps, and a run that has not reached \<open>END\<close> within the recursion limit raises
  \<open>GraphRecursionError\<close>. A superstep gives the next configuration or the result of the run. The
  locale holds what a graph with a decreasing rank gives: the limit never shows.
\<close>

definition GraphRecursionError :: exn where
  "GraphRecursionError = RuntimeError (ascii ''GraphRecursionError'')"

fun run_graph :: "('c \<Rightarrow> ('c + 'r) result) \<Rightarrow> nat \<Rightarrow> 'c \<Rightarrow> 'r result" where
  "run_graph superstep 0 c = Inl GraphRecursionError"
| "run_graph superstep (Suc limit) c = res_bind (superstep c) (\<lambda>r. case r of
     Inl c' \<Rightarrow> run_graph superstep limit c' | Inr x \<Rightarrow> Inr x)"

lemma run_graph_step: "0 < limit \<Longrightarrow> run_graph superstep limit c = res_bind (superstep c) (\<lambda>r. case r of
    Inl c' \<Rightarrow> run_graph superstep (limit - 1) c' | Inr x \<Rightarrow> Inr x)"
  by (cases limit) simp_all

text \<open>
  A graph whose configurations keep an invariant and whose rank every superstep lowers: the run
  ends by itself, with a result the last superstep gave, or with an exception a node raised.
\<close>

locale ranked_graph =
  fixes superstep :: "'c \<Rightarrow> ('c + 'r) result"
    and valid :: "'c \<Rightarrow> bool"
    and rank :: "'c \<Rightarrow> nat"
    and good :: "'r result \<Rightarrow> bool"
  assumes step_valid: "valid c \<Longrightarrow> superstep c = Inr (Inl c') \<Longrightarrow> valid c' \<and> rank c' < rank c"
    and step_result: "valid c \<Longrightarrow> superstep c = Inr (Inr x) \<Longrightarrow> good (Inr x)"
    and step_error: "valid c \<Longrightarrow> superstep c = Inl e \<Longrightarrow> good (Inl e)"
begin

lemma run_good: "valid c \<Longrightarrow> rank c < limit \<Longrightarrow> good (run_graph superstep limit c)"
proof (induction limit arbitrary: c)
  case (Suc limit)
  show ?case
  proof (cases "superstep c")
    case (Inl e)
    with step_error Suc.prems show ?thesis by simp
  next
    case (Inr r)
    show ?thesis
    proof (cases r)
      case (Inl c')
      with Inr step_valid Suc.prems have "valid c'" "rank c' < limit" by fastforce+
      with Suc.IH Inr Inl show ?thesis by simp
    next
      case (Inr x)
      with \<open>superstep c = Inr r\<close> step_result Suc.prems show ?thesis by simp
    qed
  qed
qed simp

lemma limit_irrelevant:
  "valid c \<Longrightarrow> rank c < limit \<Longrightarrow> rank c < limit' \<Longrightarrow> run_graph superstep limit c = run_graph superstep limit' c"
proof (induction limit arbitrary: c limit')
  case (Suc limit)
  then obtain n where n: "limit' = Suc n" by (cases limit') auto
  show ?case
  proof (cases "superstep c")
    case (Inr r)
    show ?thesis
    proof (cases r)
      case (Inl c')
      with Inr step_valid Suc.prems have "valid c'" "rank c' < limit" "rank c' < n" unfolding n by fastforce+
      with Suc.IH [of c' n] Inr Inl show ?thesis by (simp add: n)
    qed (simp add: n Inr)
  qed (simp add: n)
qed simp

end

end
