(* ===== verification/Rag_Agent.thy ===== *)
theory Rag_Agent
  imports Graph_Runtime Retrieval Kb_Store Json_Utils Prompt_Sanitizer
begin

text \<open>
  The agentic retrieval of \<open>app/graphs/rag_agent.py\<close> with its tools of \<open>app/graphs/tools/rag_tools.py\<close>
  and the service of \<open>app/application/agent/agentic_rag_service.py\<close>: analyse, search directly or
  decompose and search for each part, judge the quality, rewrite the query at most twice, answer.
  \<open>RagEnv\<close> holds what the nodes call: embeddings, the vector repository, the chat client
  and Python's texts of a score, an exception, a list and a value.
\<close>

definition MAX_RETRIES :: int where "MAX_RETRIES = 2"
definition MIN_CHUNKS_THRESHOLD :: nat where "MIN_CHUNKS_THRESHOLD = 2"
definition MIN_SCORE_THRESHOLD :: rat where "MIN_SCORE_THRESHOLD = 1 / 2"
definition COMPLEX_KEYWORDS :: "pystr list" where
  "COMPLEX_KEYWORDS = [[21644], [20197, 21450], [23545, 27604], [21306, 21035], [27604, 36739]]"

record RagSource =
  rs_content :: pystr
  rs_score :: rat

record RagAgentState =
  ra_question :: pystr
  ra_kb_ids :: "int list"
  ra_top_k :: int
  ra_sub_questions :: "pystr list"
  ra_chunks :: "SearchResult list"
  ra_retry_count :: int
  ra_quality_ok :: bool
  ra_is_complex :: bool
  ra_answer :: pystr
  ra_sources :: "RagSource list"
  ra_retrieval_trace :: "pystr list"

record RagEnv =
  re_embed :: "pystr \<Rightarrow> rat list list result"
  re_search :: "rat list \<Rightarrow> int list \<Rightarrow> int \<Rightarrow> SearchResult list result"
  re_chat_client :: "unit result"
  re_llm :: "pystr list \<Rightarrow> json result"
  re_show :: "json \<Rightarrow> pystr"
  re_repr_list :: "pystr list \<Rightarrow> pystr"
  re_fmt2 :: "rat \<Rightarrow> pystr"
  re_exc_str :: "exn \<Rightarrow> pystr"

definition add_trace :: "pystr \<Rightarrow> RagAgentState \<Rightarrow> RagAgentState" where
  "add_trace line s = s\<lparr>ra_retrieval_trace := ra_retrieval_trace s @ [line]\<rparr>"

section \<open>The tools\<close>

definition search_knowledge_base_impl :: "RagEnv \<Rightarrow> pystr \<Rightarrow> int list \<Rightarrow> int \<Rightarrow> SearchResult list result" where
  "search_knowledge_base_impl env query ids top_k = res_bind (re_embed env query) (\<lambda>vectors.
     case vectors of [] \<Rightarrow> Inr [] | v # vs \<Rightarrow> re_search env v ids top_k)"

definition ask_llm :: "RagEnv \<Rightarrow> pystr list \<Rightarrow> pystr result" where
  "ask_llm env prompts = res_bind (re_chat_client env) (\<lambda>_. res_map (py_str_of (re_show env)) (re_llm env prompts))"

definition refine_query_impl :: "RagEnv \<Rightarrow> pystr \<Rightarrow> pystr \<Rightarrow> pystr result" where
  "refine_query_impl env original feedback = res_map
     (\<lambda>content. if py_strip content = [] then original else py_strip content)
     (ask_llm env [[20320, 26159, 19968, 20010, 25628, 32034, 26597, 35810, 20248, 21270, 19987, 23478, 12290, 29992, 25143, 30340, 21407, 22987, 38382, 39064, 26816, 32034, 25928, 26524, 19981, 22909, 65292, 35831, 25913, 20889, 20026, 26356, 36866, 21512, 21521, 37327, 26816, 32034, 30340, 26597, 35810, 12290, 10, 10, 21407, 22987, 38382, 39064, 65306] @ sanitized original
        @ [10, 26816, 32034, 21453, 39304, 65306] @ feedback @ [10, 10, 35831, 30452, 25509, 36820, 22238, 25913, 20889, 21518, 30340, 26597, 35810, 25991, 26412, 65288, 19968, 21477, 35805, 65292, 19981, 35201, 35299, 37322, 65289, 65306]])"

text \<open>\<open>str.split\<close> with a separator of one character.\<close>

fun split_on :: "nat \<Rightarrow> pystr \<Rightarrow> pystr list" where
  "split_on c [] = [[]]"
| "split_on c (x # xs) = (if x = c then [] # split_on c xs
     else (case split_on c xs of [] \<Rightarrow> [[x]] | l # ls \<Rightarrow> (x # l) # ls))"

definition decompose_question_impl :: "RagEnv \<Rightarrow> pystr \<Rightarrow> pystr list result" where
  "decompose_question_impl env query = res_map
     (\<lambda>content. let subs = filter (\<lambda>q. q \<noteq> []) (map py_strip (split_on 10 (py_strip content)))
        in if subs \<noteq> [] then take 3 subs else [query])
     (ask_llm env [[20320, 26159, 19968, 20010, 38382, 39064, 20998, 35299, 19987, 23478, 12290, 35831, 23558, 20197, 19979, 22797, 26434, 38382, 39064, 25286, 35299, 20026, 32, 50, 45, 51, 32, 20010, 29420, 31435, 30340, 23376, 38382, 39064, 65292, 27599, 20010, 23376, 38382, 39064, 26356, 36866, 21512, 21521, 37327, 26816, 32034, 12290, 10, 10, 22797, 26434, 38382, 39064, 65306]
        @ sanitized query @ [10, 10, 35831, 27599, 34892, 36820, 22238, 19968, 20010, 23376, 38382, 39064, 65288, 19981, 35201, 32534, 21495, 65292, 19981, 35201, 35299, 37322, 65289, 65306]])"

section \<open>The nodes\<close>

definition analyze_query :: "RagAgentState \<Rightarrow> RagAgentState" where
  "analyze_query s = (let complex = length (ra_question s) > 50 \<or> list_ex (\<lambda>kw. py_contains kw (ra_question s)) COMPLEX_KEYWORDS
     in add_trace ([91, 20998, 26512, 93, 32, 38382, 39064, 22797, 26434, 24230, 58, 32] @ (if complex then [22797, 26434] else [31616, 21333])) (s\<lparr>ra_is_complex := complex\<rparr>))"

definition direct_search :: "RagEnv \<Rightarrow> RagAgentState \<Rightarrow> RagAgentState" where
  "direct_search env s = (case search_knowledge_base_impl env (ra_question s) (ra_kb_ids s) (ra_top_k s) of
     Inr chunks \<Rightarrow> add_trace ([91, 26816, 32034, 93, 32, 30452, 25509, 25628, 32034, 36820, 22238, 32] @ int_str (int (length chunks)) @ [32, 20010, 32467, 26524]) (s\<lparr>ra_chunks := chunks\<rparr>)
   | Inl e \<Rightarrow> add_trace (if e = TimeoutError then [91, 26816, 32034, 93, 32, 25628, 32034, 36229, 26102] else [91, 26816, 32034, 93, 32, 25628, 32034, 22833, 36133, 58, 32] @ re_exc_str env e) (s\<lparr>ra_chunks := []\<rparr>))"

definition decompose :: "RagEnv \<Rightarrow> RagAgentState \<Rightarrow> RagAgentState" where
  "decompose env s = (case decompose_question_impl env (ra_question s) of
     Inr subs \<Rightarrow> add_trace ([91, 25286, 35299, 93, 32, 25286, 20026, 32] @ int_str (int (length subs)) @ [32, 20010, 23376, 38382, 39064, 58, 32] @ re_repr_list env subs) (s\<lparr>ra_sub_questions := subs\<rparr>)
   | Inl e \<Rightarrow> add_trace ([91, 25286, 35299, 93, 32, 22833, 36133, 65292, 20351, 29992, 21407, 38382, 39064, 58, 32] @ re_exc_str env e) (s\<lparr>ra_sub_questions := [ra_question s]\<rparr>))"

fun search_all :: "RagEnv \<Rightarrow> RagAgentState \<Rightarrow> pystr list \<Rightarrow> SearchResult list \<times> pystr list" where
  "search_all env s [] = ([], [])"
| "search_all env s (q # qs) = (let (chunks, lines') = search_all env s qs in
     case search_knowledge_base_impl env q (ra_kb_ids s) (ra_top_k s) of
       Inr cs \<Rightarrow> (cs @ chunks, lines')
     | Inl e \<Rightarrow> (chunks, ([91, 22810, 36335, 26816, 32034, 93, 32, 23376, 38382, 39064, 32, 39] @ take 30 q @ [46, 46, 46, 39, 32, 22833, 36133, 58, 32] @ re_exc_str env e) # lines'))"

fun dedup_chunks :: "pystr list \<Rightarrow> SearchResult list \<Rightarrow> SearchResult list" where
  "dedup_chunks seen [] = []"
| "dedup_chunks seen (c # cs) = (if sr_content c \<in> set seen then dedup_chunks seen cs
     else c # dedup_chunks (sr_content c # seen) cs)"

definition multi_search :: "RagEnv \<Rightarrow> RagAgentState \<Rightarrow> RagAgentState" where
  "multi_search env s = (let (found, failures) = search_all env s (ra_sub_questions s);
       deduped = dedup_chunks [] found
     in add_trace ([91, 22810, 36335, 26816, 32034, 93, 32, 21512, 24182, 21435, 37325, 21518, 32] @ int_str (int (length deduped)) @ [32, 20010, 32467, 26524])
          (s\<lparr>ra_chunks := deduped, ra_retrieval_trace := ra_retrieval_trace s @ failures\<rparr>))"

definition evaluate_quality :: "RagEnv \<Rightarrow> RagAgentState \<Rightarrow> RagAgentState" where
  "evaluate_quality env s = (let n = length (ra_chunks s) in
     if n < MIN_CHUNKS_THRESHOLD then
       add_trace ([91, 36136, 37327, 35780, 20272, 93, 32, 32467, 26524, 19981, 36275, 32, 40] @ int_str (int n) @ [32, 60, 32] @ int_str (int MIN_CHUNKS_THRESHOLD) @ [41]) (s\<lparr>ra_quality_ok := False\<rparr>)
     else let top = Max (set (map sr_score (ra_chunks s)))
     in if top \<ge> MIN_SCORE_THRESHOLD then
          add_trace ([91, 36136, 37327, 35780, 20272, 93, 32, 36890, 36807, 32, 40, 26368, 39640, 20998, 32] @ re_fmt2 env top @ [41]) (s\<lparr>ra_quality_ok := True\<rparr>)
        else add_trace ([91, 36136, 37327, 35780, 20272, 93, 32, 20998, 25968, 19981, 36275, 32, 40, 26368, 39640, 20998, 32] @ re_fmt2 env top @ [32, 60, 32, 48, 46, 53, 41]) (s\<lparr>ra_quality_ok := False\<rparr>))"

definition refine_query :: "RagEnv \<Rightarrow> RagAgentState \<Rightarrow> RagAgentState" where
  "refine_query env s = (let feedback = [31532, 32] @ int_str (ra_retry_count s + 1) @ [32, 27425, 26816, 32034, 32467, 26524, 19981, 22815, 22909, 65292, 35831, 25442, 19968, 31181, 34920, 36848];
       s' = (case refine_query_impl env (ra_question s) feedback of
          Inr refined \<Rightarrow> add_trace ([91, 25913, 20889, 93, 32, 21407, 58, 32, 39] @ take 50 (ra_question s) @ [46, 46, 46, 39, 32, 45, 62, 32, 26032, 58, 32, 39] @ take 50 refined @ [46, 46, 46, 39]) (s\<lparr>ra_question := refined\<rparr>)
        | Inl e \<Rightarrow> add_trace ([91, 25913, 20889, 93, 32, 22833, 36133, 65292, 20351, 29992, 21407, 38382, 39064, 58, 32] @ re_exc_str env e) s)
     in s'\<lparr>ra_retry_count := ra_retry_count s + 1\<rparr>)"

definition NOT_FOUND_ANSWER :: pystr where "NOT_FOUND_ANSWER = [25265, 27465, 65292, 30693, 35782, 24211, 20013, 26410, 25214, 21040, 19982, 24744, 38382, 39064, 30456, 20851, 30340, 20449, 24687, 12290]"

definition answer_prompts :: "RagAgentState \<Rightarrow> pystr list" where
  "answer_prompts s =
     [[20320, 26159, 19968, 20010, 22522, 20110, 30693, 35782, 24211, 30340, 38382, 31572, 21161, 25163, 12290, 35831, 20165, 26681, 25454, 25552, 20379, 30340, 19978, 19979, 25991, 22238, 31572, 38382, 39064, 12290, 22914, 26524, 19978, 19979, 25991, 20013, 27809, 26377, 30456, 20851, 20449, 24687, 65292, 35831, 26126, 30830, 35828, 26126, 12290],
      [19978, 19979, 25991, 65306, 10] @ py_join [10, 10, 45, 45, 45, 10, 10] (map sr_content (take 5 (ra_chunks s))) @ [10, 10, 38382, 39064, 65306] @ ra_question s]"

definition generate_answer :: "RagEnv \<Rightarrow> RagAgentState \<Rightarrow> RagAgentState result" where
  "generate_answer env s = (if ra_chunks s = [] then
       Inr (add_trace [91, 29983, 25104, 93, 32, 26080, 26816, 32034, 32467, 26524, 65292, 36820, 22238, 25552, 31034] (s\<lparr>ra_answer := NOT_FOUND_ANSWER, ra_sources := []\<rparr>))
     else res_map (\<lambda>_.
       let s' = (case res_map (py_str_of (re_show env)) (re_llm env (answer_prompts s)) of
            Inr answer \<Rightarrow> add_trace ([91, 29983, 25104, 93, 32, 25104, 21151, 65292, 31572, 26696, 38271, 24230, 32] @ int_str (int (length answer))) (s\<lparr>ra_answer := answer\<rparr>)
          | Inl e \<Rightarrow> add_trace ([91, 29983, 25104, 93, 32, 22833, 36133, 58, 32] @ re_exc_str env e) (s\<lparr>ra_answer := [22238, 31572, 29983, 25104, 22833, 36133, 58, 32] @ re_exc_str env e\<rparr>))
       in s'\<lparr>ra_sources := map (\<lambda>c. \<lparr>rs_content = take 200 (sr_content c), rs_score = sr_score c\<rparr>) (take 5 (ra_chunks s))\<rparr>)
       (re_chat_client env))"

section \<open>The graph\<close>

datatype RagNode = R_analyze_query | R_direct_search | R_decompose | R_multi_search | R_evaluate_quality
  | R_refine_query | R_generate_answer

definition route_complexity :: "RagAgentState \<Rightarrow> RagNode" where
  "route_complexity s = (if ra_is_complex s then R_decompose else R_direct_search)"

definition route_quality :: "RagAgentState \<Rightarrow> RagNode" where
  "route_quality s = (if ra_quality_ok s then R_generate_answer
     else if ra_retry_count s \<ge> MAX_RETRIES then R_generate_answer else R_refine_query)"

definition rag_superstep :: "RagEnv \<Rightarrow> RagNode \<times> RagAgentState \<Rightarrow> ((RagNode \<times> RagAgentState) + RagAgentState) result" where
  "rag_superstep env = (\<lambda>(node, s). case node of
     R_analyze_query \<Rightarrow> let s' = analyze_query s in Inr (Inl (route_complexity s', s'))
   | R_direct_search \<Rightarrow> Inr (Inl (R_evaluate_quality, direct_search env s))
   | R_decompose \<Rightarrow> Inr (Inl (R_multi_search, decompose env s))
   | R_multi_search \<Rightarrow> Inr (Inl (R_evaluate_quality, multi_search env s))
   | R_evaluate_quality \<Rightarrow> let s' = evaluate_quality env s in Inr (Inl (route_quality s', s'))
   | R_refine_query \<Rightarrow> Inr (Inl (R_direct_search, refine_query env s))
   | R_generate_answer \<Rightarrow> res_map Inr (generate_answer env s))"

record RagResult =
  rr_answer :: pystr
  rr_sources :: "RagSource list"
  rr_retrieval_trace :: "pystr list"

definition rag_initial :: "pystr \<Rightarrow> int list \<Rightarrow> int \<Rightarrow> RagAgentState" where
  "rag_initial question ids top_k = \<lparr>ra_question = question, ra_kb_ids = ids, ra_top_k = top_k, ra_sub_questions = [],
     ra_chunks = [], ra_retry_count = 0, ra_quality_ok = False, ra_is_complex = False, ra_answer = [], ra_sources = [],
     ra_retrieval_trace = []\<rparr>"

definition rag_query :: "RagEnv \<Rightarrow> nat \<Rightarrow> pystr \<Rightarrow> int list \<Rightarrow> int \<Rightarrow> RagResult result" where
  "rag_query env recursion_limit question ids top_k = res_map
     (\<lambda>s. \<lparr>rr_answer = ra_answer s, rr_sources = ra_sources s, rr_retrieval_trace = ra_retrieval_trace s\<rparr>)
     (run_graph (rag_superstep env) recursion_limit (R_analyze_query, rag_initial question ids top_k))"

definition agentic_rag_query :: "RagEnv \<Rightarrow> nat \<Rightarrow> pystr \<Rightarrow> int list \<Rightarrow> int \<Rightarrow> RagResult" where
  "agentic_rag_query env recursion_limit question ids top_k =
     (if py_strip question = [] then \<lparr>rr_answer = [35831, 36755, 20837, 38382, 39064], rr_sources = [], rr_retrieval_trace = []\<rparr>
      else if ids = [] then \<lparr>rr_answer = [35831, 33267, 23569, 36873, 25321, 19968, 20010, 30693, 35782, 24211], rr_sources = [], rr_retrieval_trace = []\<rparr>
      else (case rag_query env recursion_limit question ids top_k of
        Inr r \<Rightarrow> r
      | Inl e \<Rightarrow> \<lparr>rr_answer = [26597, 35810, 22833, 36133, 58, 32] @ re_exc_str env e, rr_sources = [],
          rr_retrieval_trace = [[91, 38169, 35823, 93, 32] @ re_exc_str env e]\<rparr>))"


section \<open>Every run answers\<close>

text \<open>The chunks a search of the given bases returned.\<close>

definition found_chunk :: "RagEnv \<Rightarrow> int list \<Rightarrow> int \<Rightarrow> SearchResult \<Rightarrow> bool" where
  "found_chunk env ids top_k c \<longleftrightarrow> (\<exists>v cs. re_search env v ids top_k = Inr cs \<and> c \<in> set cs)"

definition source_of :: "SearchResult \<Rightarrow> RagSource" where
  "source_of c = \<lparr>rs_content = take 200 (sr_content c), rs_score = sr_score c\<rparr>"

definition rag_ok :: "RagEnv \<Rightarrow> int list \<Rightarrow> int \<Rightarrow> RagAgentState \<Rightarrow> bool" where
  "rag_ok env ids top_k s \<longleftrightarrow> ra_kb_ids s = ids \<and> ra_top_k s = top_k \<and> 0 \<le> ra_retry_count s
     \<and> ra_retry_count s \<le> MAX_RETRIES \<and> (\<forall>c \<in> set (ra_chunks s). found_chunk env ids top_k c)"

fun rag_valid :: "RagEnv \<Rightarrow> int list \<Rightarrow> int \<Rightarrow> RagNode \<times> RagAgentState \<Rightarrow> bool" where
  "rag_valid env ids top_k (node, s) \<longleftrightarrow> rag_ok env ids top_k s \<and> (node = R_refine_query \<longrightarrow> ra_retry_count s < MAX_RETRIES)"

fun rag_rank :: "RagNode \<times> RagAgentState \<Rightarrow> nat" where
  "rag_rank (node, s) = (let k = 3 * nat (MAX_RETRIES - ra_retry_count s) in case node of
     R_generate_answer \<Rightarrow> 0 | R_refine_query \<Rightarrow> k | R_evaluate_quality \<Rightarrow> k + 1 | R_direct_search \<Rightarrow> k + 2
   | R_multi_search \<Rightarrow> k + 2 | R_decompose \<Rightarrow> k + 3 | R_analyze_query \<Rightarrow> k + 4)"

definition rag_good :: "RagEnv \<Rightarrow> int list \<Rightarrow> int \<Rightarrow> RagAgentState result \<Rightarrow> bool" where
  "rag_good env ids top_k r = (case r of
     Inl e \<Rightarrow> re_chat_client env = Inl e
   | Inr s \<Rightarrow> (ra_sources s = [] \<and> ra_answer s = NOT_FOUND_ANSWER) \<or>
       (ra_sources s \<noteq> [] \<and> length (ra_sources s) \<le> 5
        \<and> (\<forall>src \<in> set (ra_sources s). \<exists>c. found_chunk env ids top_k c \<and> src = source_of c)))"

lemma found_by_search:
  "search_knowledge_base_impl env q ids top_k = Inr cs \<Longrightarrow> c \<in> set cs \<Longrightarrow> found_chunk env ids top_k c"
  by (cases "re_embed env q"; cases "projr (re_embed env q)") (auto simp: search_knowledge_base_impl_def found_chunk_def)

lemma set_dedup_chunks: "set (dedup_chunks seen cs) \<subseteq> set cs"
  by (induction cs arbitrary: seen) auto

lemma found_by_search_all:
  "ra_kb_ids s = ids \<Longrightarrow> ra_top_k s = top_k \<Longrightarrow> c \<in> set (fst (search_all env s qs)) \<Longrightarrow> found_chunk env ids top_k c"
  by (induction qs) (auto simp: Let_def case_prod_unfold split: sum.splits dest: found_by_search)

lemmas rag_node_defs = analyze_query_def direct_search_def decompose_def multi_search_def evaluate_quality_def
  refine_query_def add_trace_def Let_def

lemma rag_ok_nodes:
  assumes "rag_ok env ids top_k s"
  shows "rag_ok env ids top_k (analyze_query s)" "rag_ok env ids top_k (direct_search env s)"
    "rag_ok env ids top_k (decompose env s)" "rag_ok env ids top_k (multi_search env s)"
    "rag_ok env ids top_k (evaluate_quality env s)"
    "ra_retry_count s < MAX_RETRIES \<Longrightarrow> rag_ok env ids top_k (refine_query env s)"
proof -
  show "rag_ok env ids top_k (multi_search env s)"
    using assms set_dedup_chunks [of "[]"] found_by_search_all [of s ids top_k]
    by (fastforce simp: rag_ok_def multi_search_def add_trace_def Let_def case_prod_unfold)
qed (use assms in \<open>auto simp: rag_ok_def rag_node_defs split: sum.splits dest: found_by_search\<close>)

lemma retry_count_nodes [simp]:
  "ra_retry_count (analyze_query s) = ra_retry_count s" "ra_retry_count (direct_search env s) = ra_retry_count s"
  "ra_retry_count (decompose env s) = ra_retry_count s" "ra_retry_count (multi_search env s) = ra_retry_count s"
  "ra_retry_count (evaluate_quality env s) = ra_retry_count s"
  "ra_retry_count (refine_query env s) = ra_retry_count s + 1"
  by (auto simp: rag_node_defs case_prod_unfold split: sum.splits)

lemma generate_answer_good:
  assumes "rag_ok env ids top_k s"
  shows "rag_good env ids top_k (generate_answer env s)"
proof (cases "ra_chunks s = []")
  case True
  then show ?thesis by (simp add: generate_answer_def rag_good_def add_trace_def)
next
  case False
  have src: "\<exists>c'. found_chunk env ids top_k c' \<and> source_of c = source_of c'" if "c \<in> set (take 5 (ra_chunks s))" for c
    using assms that by (auto simp: rag_ok_def dest: in_set_takeD)
  show ?thesis
    using False src
    by (cases "re_chat_client env") (auto simp: generate_answer_def rag_good_def Let_def source_of_def add_trace_def)
qed

interpretation rag: ranked_graph "rag_superstep env" "rag_valid env ids top_k" rag_rank "rag_good env ids top_k"
  for env ids top_k
proof
  fix c c' :: "RagNode \<times> RagAgentState"
  assume "rag_valid env ids top_k c" "rag_superstep env c = Inr (Inl c')"
  then show "rag_valid env ids top_k c' \<and> rag_rank c' < rag_rank c"
    by (cases c; cases "fst c")
      (auto simp: rag_superstep_def route_complexity_def route_quality_def Let_def rag_ok_nodes res_map_Inr_iff MAX_RETRIES_def
        rag_ok_def [of env ids top_k "snd c"] split: if_splits)
next
  fix c x
  assume "rag_valid env ids top_k c" "rag_superstep env c = Inr (Inr x)"
  then show "rag_good env ids top_k (Inr x)"
    by (cases c; cases "fst c") (auto simp: rag_superstep_def Let_def res_map_Inr_iff dest: generate_answer_good)
next
  fix c e
  assume "rag_valid env ids top_k c" "rag_superstep env c = Inl e"
  then show "rag_good env ids top_k (Inl e)"
    by (cases c; cases "fst c"; cases "generate_answer env (snd c)")
      (auto simp: rag_superstep_def Let_def dest: generate_answer_good)
qed



definition sample_rag_env :: RagEnv where
  "sample_rag_env = \<lparr>re_embed = (\<lambda>q. Inr [[1]]), re_search = (\<lambda>v ids k. Inr [\<lparr>sr_content = [97], sr_score = 1 / 4, sr_kb_id = 1\<rparr>,
       \<lparr>sr_content = [98], sr_score = 1 / 3, sr_kb_id = 1\<rparr>]),
     re_chat_client = Inr (), re_llm = (\<lambda>p. Inr (JStr [99])), re_show = dumps,
     re_repr_list = concat, re_fmt2 = (\<lambda>r. []), re_exc_str = (\<lambda>e. [])\<rparr>"


end
