(* ===== verification/Agent_State.thy ===== *)
theory Agent_State
  imports Rag_Agent Adaptive_Strategy
begin

text \<open>
  The state of the adaptive interview agent (\<open>app/graphs/adaptive_interview.py\<close>, lines 38 to 130):
  the transcript with the model, the working memory, the accumulators of the parallel tools,
  their reducer, and how LangGraph writes what a node returns. A state is a dictionary whose
  keys may be absent (\<open>TypedDict\<close> with \<open>total=False\<close>): every field is optional, and \<open>get_or\<close> is
  \<open>state.get(key, default)\<close>. A key that may also hold \<open>None\<close> is an option of an option.
\<close>

section \<open>The transcript\<close>

record ToolCall =
  tc_name :: pystr
  tc_args :: "(pystr, json) dict"
  tc_id :: pystr

text \<open>The content of a reply that is not a string is \<open>None\<close>.\<close>

datatype AgentMessage =
    SystemMsg pystr
  | HumanMsg pystr
  | AIMsg "pystr option" "ToolCall list"
  | ToolMsg pystr pystr

definition is_system_msg :: "AgentMessage \<Rightarrow> bool" where
  "is_system_msg m = (case m of SystemMsg c \<Rightarrow> True | _ \<Rightarrow> False)"

section \<open>Working memory\<close>

record QARecord =
  qr_question_index :: int
  qr_question :: "pystr option"
  qr_category :: "pystr option"
  qr_difficulty :: "pystr option"
  qr_answer :: "pystr option"
  qr_score :: "int option"
  qr_feedback :: "pystr option"

record TraceEntry =
  te_step :: int
  te_action :: pystr
  te_args :: json
  te_result :: json
  te_duration_ms :: int

record QaPatch =
  qp_question_index :: int
  qp_score :: int
  qp_feedback :: pystr

record SideEffect =
  se_current_question :: "pystr option"
  se_current_category :: "pystr option"
  se_qa_patch :: "QaPatch option"
  se_category_scores_delta :: "(pystr, int list) dict"
  se_turn_count_delta :: int
  se_difficulty :: "pystr option"

definition no_effect :: SideEffect where
  "no_effect = \<lparr>se_current_question = None, se_current_category = None, se_qa_patch = None,
     se_category_scores_delta = [], se_turn_count_delta = 0, se_difficulty = None\<rparr>"

record ToolEffect =
  tf_tool_call_index :: int
  tf_side_effect :: SideEffect
  tf_trace_entry :: TraceEntry

record AdaptiveReport =
  ar_session_id :: pystr
  ar_total_questions :: int
  ar_overall_score :: int
  ar_category_scores :: "(pystr, int) dict"
  ar_questions :: "QARecord list"
  ar_difficulty_progression :: pystr

record ApprovalRequest =
  ap_question :: pystr
  ap_category :: pystr
  ap_type :: pystr
  ap_prompt :: pystr

record AdaptiveInterviewState =
  as_session_id :: "pystr option"
  as_skill_id :: "pystr option"
  as_difficulty :: "pystr option"
  as_resume_text :: "pystr option"
  as_max_turns :: "int option"
  as_qa_history :: "QARecord list option"
  as_category_scores :: "(pystr, int list) dict option"
  as_turn_count :: "int option"
  as_current_question :: "pystr option option"
  as_current_category :: "pystr option option"
  as_messages :: "AgentMessage list option"
  as_agent_step_count :: "int option"
  as_finished :: "bool option"
  as_final_report :: "AdaptiveReport option option"
  as_decision_trace :: "TraceEntry list option"
  as_tool_messages :: "AgentMessage list option"
  as_tool_effects :: "ToolEffect list option"
  as_tool_call :: "ToolCall option option"
  as_tool_call_index :: "int option"

definition no_state :: AdaptiveInterviewState where
  "no_state = \<lparr>as_session_id = None, as_skill_id = None, as_difficulty = None, as_resume_text = None, as_max_turns = None,
     as_qa_history = None, as_category_scores = None, as_turn_count = None, as_current_question = None,
     as_current_category = None, as_messages = None, as_agent_step_count = None, as_finished = None,
     as_final_report = None, as_decision_trace = None, as_tool_messages = None, as_tool_effects = None,
     as_tool_call = None, as_tool_call_index = None\<rparr>"

definition get_or :: "'a option \<Rightarrow> 'a \<Rightarrow> 'a" where
  "get_or v d = (case v of None \<Rightarrow> d | Some x \<Rightarrow> x)"

lemma get_or_simps [simp]: "get_or None d = d" "get_or (Some x) d = x"
  by (simp_all add: get_or_def)

definition GENERAL :: pystr where "GENERAL = GENERAL_CATEGORY"
definition MID :: pystr where "MID = ascii ''mid''"
definition JAVA_BACKEND :: pystr where "JAVA_BACKEND = ascii ''java-backend''"

section \<open>Writing to the state\<close>

text \<open>
  What a node hands to the reducer of an accumulator: the sentinel that clears it, a list, or a
  single element.
\<close>

datatype 'a Accum = A_Clear | A_List "'a list" | A_One 'a

fun append_or_clear :: "'a list option \<Rightarrow> 'a Accum \<Rightarrow> 'a list" where
  "append_or_clear cur A_Clear = []"
| "append_or_clear cur (A_List xs) = get_or cur [] @ xs"
| "append_or_clear cur (A_One x) = get_or cur [] @ [x]"

text \<open>
  A node returns the keys it writes (\<open>nu_values\<close>, whose accumulators are absent) and its updates
  of the accumulators. LangGraph replaces the written keys and runs the reducers.
\<close>

record NodeUpdate =
  nu_values :: AdaptiveInterviewState
  nu_tool_messages :: "AgentMessage Accum option"
  nu_tool_effects :: "ToolEffect Accum option"

definition or_else :: "'a option \<Rightarrow> 'a option \<Rightarrow> 'a option" where
  "or_else new old = (case new of None \<Rightarrow> old | Some x \<Rightarrow> Some x)"

lemma or_else_simps [simp]: "or_else None old = old" "or_else (Some x) old = Some x"
  by (simp_all add: or_else_def)

definition reduce :: "'a list option \<Rightarrow> 'a Accum option \<Rightarrow> 'a list option" where
  "reduce cur u = (case u of None \<Rightarrow> cur | Some a \<Rightarrow> Some (append_or_clear cur a))"

definition write_state :: "AdaptiveInterviewState \<Rightarrow> NodeUpdate \<Rightarrow> AdaptiveInterviewState" where
  "write_state s u = (let v = nu_values u in
     \<lparr>as_session_id = or_else (as_session_id v) (as_session_id s), as_skill_id = or_else (as_skill_id v) (as_skill_id s),
      as_difficulty = or_else (as_difficulty v) (as_difficulty s), as_resume_text = or_else (as_resume_text v) (as_resume_text s),
      as_max_turns = or_else (as_max_turns v) (as_max_turns s), as_qa_history = or_else (as_qa_history v) (as_qa_history s),
      as_category_scores = or_else (as_category_scores v) (as_category_scores s),
      as_turn_count = or_else (as_turn_count v) (as_turn_count s),
      as_current_question = or_else (as_current_question v) (as_current_question s),
      as_current_category = or_else (as_current_category v) (as_current_category s),
      as_messages = or_else (as_messages v) (as_messages s),
      as_agent_step_count = or_else (as_agent_step_count v) (as_agent_step_count s),
      as_finished = or_else (as_finished v) (as_finished s), as_final_report = or_else (as_final_report v) (as_final_report s),
      as_decision_trace = or_else (as_decision_trace v) (as_decision_trace s),
      as_tool_messages = reduce (as_tool_messages s) (nu_tool_messages u),
      as_tool_effects = reduce (as_tool_effects s) (nu_tool_effects u),
      as_tool_call = or_else (as_tool_call v) (as_tool_call s),
      as_tool_call_index = or_else (as_tool_call_index v) (as_tool_call_index s)\<rparr>)"

definition plain_update :: "AdaptiveInterviewState \<Rightarrow> NodeUpdate" where
  "plain_update v = \<lparr>nu_values = v, nu_tool_messages = None, nu_tool_effects = None\<rparr>"

text \<open>The state handed to \<open>ainvoke\<close> is written in the same way, its accumulators as lists.\<close>

definition input_update :: "AdaptiveInterviewState \<Rightarrow> NodeUpdate" where
  "input_update s = \<lparr>nu_values = s, nu_tool_messages = map_option A_List (as_tool_messages s),
     nu_tool_effects = map_option A_List (as_tool_effects s)\<rparr>"

lemmas write_simps = write_state_def plain_update_def no_state_def reduce_def Let_def

end
