(* ===== verification/Agent_Tools.thy ===== *)
theory Agent_Tools
  imports Agent_State
begin

text \<open>
  The tools of the adaptive interview agent (\<open>app/graphs/tools/interview_tools.py\<close>, the file look-up
  of \<open>skill_tool.py\<close>) and the node that runs one of them: dispatch, side effects, and the pause for
  the approval of a question. The arguments come from the model and are JSON values. \<open>resume\<close> is
  the decision the run was resumed with, absent on the first execution: LangGraph's \<open>interrupt\<close>
  then leaves the node, which starts again from its beginning when the run is resumed.
\<close>

section \<open>What the tools call\<close>

record AgentQuestion =
  aq_question :: pystr
  aq_type :: pystr
  aq_category :: pystr
  aq_follow_up :: pystr

record AnswerEvaluation =
  av_score :: int
  av_feedback :: pystr
  av_should_follow_up :: bool
  av_follow_up_suggestion :: pystr

record AiReply =
  ai_content :: "pystr option"
  ai_tool_calls :: "ToolCall list"

text \<open>
  \<open>ae_question\<close> and \<open>ae_evaluation\<close> are the structured outputs of the model for the variables of the
  prompts, \<open>ae_decide\<close> its reply to a transcript, \<open>ae_file\<close> the text of a file below the skill
  directory if it exists, \<open>ae_duration\<close> the measured time of a tool call.
\<close>

record AgentEnv =
  ae_question :: "json \<Rightarrow> json \<Rightarrow> json \<Rightarrow> pystr \<Rightarrow> AgentQuestion result"
  ae_evaluation :: "json \<Rightarrow> json \<Rightarrow> json \<Rightarrow> AnswerEvaluation result"
  ae_decide :: "AgentMessage list \<Rightarrow> AiReply result"
  ae_file :: "pystr list \<Rightarrow> pystr result option"
  ae_rag :: RagEnv
  ae_recursion_limit :: nat
  ae_lower :: "pystr \<Rightarrow> pystr"
  ae_fmt1 :: "rat \<Rightarrow> pystr"
  ae_show :: "json \<Rightarrow> pystr"
  ae_exc_str :: "exn \<Rightarrow> pystr"
  ae_duration :: "int \<Rightarrow> int"

section \<open>The tools\<close>

definition generate_question_impl :: "AgentEnv \<Rightarrow> json \<Rightarrow> json \<Rightarrow> json \<Rightarrow> pystr \<Rightarrow> AgentQuestion result" where
  "generate_question_impl env category difficulty context resume_text =
     ae_question env category difficulty context (if resume_text \<noteq> [] then take 2000 resume_text else [26080])"

text \<open>The output model bounds the score.\<close>

definition evaluate_answer_impl :: "AgentEnv \<Rightarrow> json \<Rightarrow> json \<Rightarrow> json \<Rightarrow> AnswerEvaluation result" where
  "evaluate_answer_impl env question answer category = res_bind (ae_evaluation env question answer category) (\<lambda>v.
     if 0 \<le> av_score v \<and> av_score v \<le> 10 then Inr v else Inl validation_error)"

definition read_and_truncate :: "AgentEnv \<Rightarrow> pystr result \<Rightarrow> pystr" where
  "read_and_truncate env r = (case r of
     Inl e \<Rightarrow> [25991, 20214, 35835, 21462, 22833, 36133, 58, 32] @ ae_exc_str env e
   | Inr content \<Rightarrow> if length content > 3000 then take 3000 content @ [10, 46, 46, 46, 40, 20869, 23481, 36807, 38271, 24050, 25130, 26029, 41] else content)"

definition load_skill_reference :: "AgentEnv \<Rightarrow> pystr \<Rightarrow> pystr \<Rightarrow> pystr" where
  "load_skill_reference env sid category =
     (let filename = map (\<lambda>c. if c = 95 then 45 else c) (ae_lower env category) @ ascii ''.md'' in
      case ae_file env [sid, filename] of Some r \<Rightarrow> read_and_truncate env r
      | None \<Rightarrow> (case ae_file env [ascii ''_shared'', ascii ''references'', filename] of Some r \<Rightarrow> read_and_truncate env r
      | None \<Rightarrow> (case ae_file env [sid, ascii ''SKILL.md''] of Some r \<Rightarrow> read_and_truncate env r
      | None \<Rightarrow> [26410, 25214, 21040, 32] @ sid @ [47] @ category @ [32, 30340, 21442, 32771, 36164, 26009])))"

definition lookup_reference_impl :: "AgentEnv \<Rightarrow> json \<Rightarrow> json \<Rightarrow> pystr" where
  "lookup_reference_impl env sid category =
     (case res_bind (as_str sid) (\<lambda>s. res_bind (as_str category) (\<lambda>c. Inr (s, c, load_skill_reference env s c))) of
        Inl e \<Rightarrow> [21442, 32771, 36164, 26009, 21152, 36733, 22833, 36133, 58, 32] @ ae_exc_str env e
      | Inr (s, c, content) \<Rightarrow> if content \<noteq> [] then (if length content > 3000 then take 3000 content else content)
          else [26410, 25214, 21040, 32] @ s @ [47] @ c @ [32, 30340, 21442, 32771, 36164, 26009])"

definition agentic_rag_search_impl :: "AgentEnv \<Rightarrow> json \<Rightarrow> json \<Rightarrow> pystr" where
  "agentic_rag_search_impl env question ids = (if \<not> json_truthy ids
     then [26410, 25351, 23450, 30693, 35782, 24211, 32, 73, 68, 65292, 36339, 36807, 30693, 35782, 24211, 26816, 32034, 65307, 22914, 38656, 26816, 32034, 35831, 25552, 20379, 32, 107, 98, 95, 105, 100, 115, 12290]
     else (case res_bind (as_str question) (\<lambda>q. res_bind (json_iter ids) (\<lambda>js. res_bind (res_traverse as_int js) (\<lambda>is.
             rag_query (ae_rag env) (ae_recursion_limit env) q is 5))) of
        Inl e \<Rightarrow> [30693, 35782, 24211, 26816, 32034, 22833, 36133, 58, 32] @ ae_exc_str env e
      | Inr r \<Rightarrow> rr_answer r
          @ (if rr_sources r \<noteq> [] then [10, 10, 26469, 28304, 58, 32] @ int_str (int (length (rr_sources r))) @ [32, 20010, 25991, 26723, 29255, 27573] else [])
          @ (let trace = rr_retrieval_trace r in if trace \<noteq> []
             then [10, 26816, 32034, 36807, 31243, 58, 32] @ py_join [32, 45, 62, 32] (drop (length trace - 3) trace) else [])))"

definition question_json :: "AgentQuestion \<Rightarrow> pystr" where
  "question_json q = dumps (JObj [(ascii ''question'', JStr (aq_question q)), (ascii ''type'', JStr (aq_type q)),
     (ascii ''category'', JStr (aq_category q))])"

definition evaluation_json :: "AnswerEvaluation \<Rightarrow> pystr" where
  "evaluation_json v = dumps (JObj [(ascii ''score'', JInt (av_score v)), (ascii ''feedback'', JStr (av_feedback v)),
     (ascii ''shouldFollowUp'', JBool (av_should_follow_up v)), (ascii ''followUpSuggestion'', JStr (av_follow_up_suggestion v))])"

definition strategy_json :: "StrategyUpdate \<Rightarrow> pystr" where
  "strategy_json u = dumps (JObj [(ascii ''suggested_difficulty'', JStr (su_suggested_difficulty u)),
     (ascii ''suggested_category'', JStr (su_suggested_category u)), (ascii ''reason'', JStr (su_reason u))])"

section \<open>Dispatch\<close>

definition T_GENERATE :: pystr where "T_GENERATE = ascii ''generate_question''"
definition T_EVALUATE :: pystr where "T_EVALUATE = ascii ''evaluate_answer''"
definition T_LOOKUP :: pystr where "T_LOOKUP = ascii ''lookup_reference''"
definition T_ADJUST :: pystr where "T_ADJUST = ascii ''adjust_strategy''"
definition T_RAG :: pystr where "T_RAG = ascii ''agentic_rag_search''"

lemmas tool_names = T_GENERATE_def T_EVALUATE_def T_LOOKUP_def T_ADJUST_def T_RAG_def

definition json_append :: "json \<Rightarrow> pystr \<Rightarrow> json result" where
  "json_append j t = res_map (\<lambda>s. JStr (s @ t)) (as_str j)"

definition approval_request :: "AgentQuestion \<Rightarrow> ApprovalRequest" where
  "approval_request q = \<lparr>ap_question = aq_question q, ap_category = aq_category q,
     ap_type = ascii ''generate_question_approval'', ap_prompt = [36825, 36947, 39064, 26159, 21542, 21512, 36866, 65311]\<rparr>"

definition ask_question :: "AgentEnv \<Rightarrow> bool option \<Rightarrow> (pystr, json) dict \<Rightarrow> AdaptiveInterviewState \<Rightarrow> ApprovalRequest + pystr result" where
  "ask_question env resume args s =
     (let category = dict_get_default args (ascii ''category'') (JStr GENERAL);
          difficulty = dict_get_default args (ascii ''difficulty'') (JStr (get_or (as_difficulty s) MID));
          context = dict_get_default args (ascii ''context'') (JStr []);
          resume_text = get_or (as_resume_text s) []
      in case generate_question_impl env category difficulty context resume_text of
           Inl e \<Rightarrow> Inr (Inl e)
         | Inr q \<Rightarrow> (case resume of
             None \<Rightarrow> Inl (approval_request q)
           | Some True \<Rightarrow> Inr (Inr (question_json q))
           | Some False \<Rightarrow> Inr (res_bind (json_append context [10, 27880, 24847, 65306, 19978, 19968, 39064, 34987, 39539, 22238, 65292, 35831, 25442, 19968, 20010, 35282, 24230, 20986, 39064, 12290]) (\<lambda>context'.
               res_map question_json (generate_question_impl env category difficulty context' resume_text)))))"

definition dispatch_tool :: "AgentEnv \<Rightarrow> bool option \<Rightarrow> ToolCall \<Rightarrow> AdaptiveInterviewState \<Rightarrow> ApprovalRequest + pystr result" where
  "dispatch_tool env resume tc s =
     (let name = tc_name tc; args = tc_args tc; arg = (\<lambda>k d. dict_get_default args (ascii k) d) in
      if name = T_GENERATE then ask_question env resume args s
      else if name = T_EVALUATE then Inr (res_map evaluation_json (evaluate_answer_impl env (arg ''question'' (JStr []))
        (arg ''answer'' (JStr [])) (arg ''category'' (JStr GENERAL))))
      else if name = T_LOOKUP then Inr (Inr (lookup_reference_impl env
        (arg ''skill_id'' (JStr (get_or (as_skill_id s) JAVA_BACKEND))) (arg ''category'' (JStr []))))
      else if name = T_ADJUST then Inr (Inr (strategy_json (compute_strategy_update (ae_fmt1 env)
        (get_or (as_category_scores s) []) (get_or (as_difficulty s) MID) (get_or (as_turn_count s) 0) (get_or (as_max_turns s) 6))))
      else if name = T_RAG then Inr (Inr (agentic_rag_search_impl env (arg ''question'' (JStr [])) (arg ''kb_ids'' (JArr []))))
      else Inr (Inr ([26410, 30693, 24037, 20855, 58, 32] @ name)))"

section \<open>Side effects\<close>

text \<open>
  The values are read at their types. Every text read here was written by \<open>dispatch_tool\<close>, where the
  typed reading succeeds (lemma \<open>effects_of_dispatch\<close>).
\<close>

definition generate_effect :: "json \<Rightarrow> SideEffect result" where
  "generate_effect parsed =
     res_bind (res_bind (item_get parsed (ascii ''question'') (JStr [])) as_str) (\<lambda>q.
     res_bind (res_bind (item_get parsed (ascii ''category'') (JStr GENERAL)) as_str) (\<lambda>c.
       Inr (no_effect\<lparr>se_current_question := Some q, se_current_category := Some c\<rparr>)))"

definition or_text :: "pystr option \<Rightarrow> pystr \<Rightarrow> pystr" where
  "or_text t d = (case t of None \<Rightarrow> d | Some x \<Rightarrow> if x = [] then d else x)"

definition evaluate_effect :: "AdaptiveInterviewState \<Rightarrow> json \<Rightarrow> SideEffect result" where
  "evaluate_effect s parsed =
     res_bind (res_bind (item_get parsed (ascii ''score'') (JInt 0)) as_int) (\<lambda>score.
     res_bind (res_bind (item_get parsed (ascii ''feedback'') (JStr [])) as_str) (\<lambda>feedback.
       let category = or_text (get_or (as_current_category s) None) GENERAL; qa = get_or (as_qa_history s) [];
           index = (if qa \<noteq> [] then qr_question_index (last qa) else 0)
       in Inr (no_effect\<lparr>se_qa_patch := Some \<lparr>qp_question_index = index, qp_score = score, qp_feedback = feedback\<rparr>,
            se_category_scores_delta := [(category, [score])], se_turn_count_delta := 1\<rparr>)))"

definition adjust_effect :: "AdaptiveInterviewState \<Rightarrow> json \<Rightarrow> SideEffect result" where
  "adjust_effect s parsed =
     res_bind (res_bind (item_get parsed (ascii ''suggested_difficulty'') JNull) (as_opt as_str)) (\<lambda>new.
       Inr (if or_text new [] \<noteq> [] \<and> new \<noteq> as_difficulty s then no_effect\<lparr>se_difficulty := new\<rparr> else no_effect))"

definition apply_tool_side_effects :: "pystr \<Rightarrow> pystr \<Rightarrow> AdaptiveInterviewState \<Rightarrow> SideEffect result" where
  "apply_tool_side_effects name res s =
     (let read = (\<lambda>f. case res_bind (loads res) f of
         Inl e \<Rightarrow> if e = JSONDecodeError \<or> e = TypeError then Inr no_effect else Inl e
       | Inr x \<Rightarrow> Inr x) in
      if name = T_GENERATE then read generate_effect
      else if name = T_EVALUATE then read (evaluate_effect s)
      else if name = T_ADJUST then read (adjust_effect s)
      else Inr no_effect)"

section \<open>The node\<close>

definition tool_update :: "AgentEnv \<Rightarrow> AdaptiveInterviewState \<Rightarrow> ToolCall \<Rightarrow> pystr \<Rightarrow> pystr \<Rightarrow> SideEffect \<Rightarrow> NodeUpdate" where
  "tool_update env s tc content traced effect = \<lparr>nu_values = no_state,
     nu_tool_messages = Some (A_List [ToolMsg content (tc_id tc)]),
     nu_tool_effects = Some (A_List [\<lparr>tf_tool_call_index = get_or (as_tool_call_index s) 0, tf_side_effect = effect,
       tf_trace_entry = \<lparr>te_step = get_or (as_agent_step_count s) 0, te_action = tc_name tc, te_args = JObj (tc_args tc),
         te_result = JStr traced, te_duration_ms = ae_duration env (get_or (as_tool_call_index s) 0)\<rparr>\<rparr>])\<rparr>"

definition run_tool :: "AgentEnv \<Rightarrow> bool option \<Rightarrow> AdaptiveInterviewState \<Rightarrow> ToolCall \<Rightarrow> ApprovalRequest + NodeUpdate" where
  "run_tool env resume s tc = (case dispatch_tool env resume tc s of
     Inl request \<Rightarrow> Inl request
   | Inr r \<Rightarrow> Inr (case res_bind r (\<lambda>res. res_map (Pair res) (apply_tool_side_effects (tc_name tc) res s)) of
       Inr (res, effect) \<Rightarrow> tool_update env s tc res (take 200 res) effect
     | Inl e \<Rightarrow> tool_update env s tc ([24037, 20855, 25191, 34892, 22833, 36133, 58, 32] @ ae_exc_str env e) (ascii ''error: '' @ ae_exc_str env e) no_effect))"

definition execute_single_tool :: "AgentEnv \<Rightarrow> bool option \<Rightarrow> AdaptiveInterviewState \<Rightarrow> (ApprovalRequest + NodeUpdate) result" where
  "execute_single_tool env resume s = (case as_tool_call s of
     None \<Rightarrow> Inl (KeyError (ascii ''tool_call''))
   | Some None \<Rightarrow> Inl (KeyError (ascii ''name''))
   | Some (Some tc) \<Rightarrow> Inr (run_tool env resume s tc))"

section \<open>What a tool writes is what its effect reads\<close>

lemma loads_questions: "loads (question_json q) = Inr (JObj [(ascii ''question'', JStr (aq_question q)),
    (ascii ''type'', JStr (aq_type q)), (ascii ''category'', JStr (aq_category q))])"
  unfolding question_json_def by (rule loads_dumps) (simp add: ascii_def)

lemma loads_evaluation: "loads (evaluation_json v) = Inr (JObj [(ascii ''score'', JInt (av_score v)),
    (ascii ''feedback'', JStr (av_feedback v)), (ascii ''shouldFollowUp'', JBool (av_should_follow_up v)),
    (ascii ''followUpSuggestion'', JStr (av_follow_up_suggestion v))])"
  unfolding evaluation_json_def by (rule loads_dumps) (simp add: ascii_def)

lemma loads_strategy: "loads (strategy_json u) = Inr (JObj [(ascii ''suggested_difficulty'', JStr (su_suggested_difficulty u)),
    (ascii ''suggested_category'', JStr (su_suggested_category u)), (ascii ''reason'', JStr (su_reason u))])"
  unfolding strategy_json_def by (rule loads_dumps) (simp add: ascii_def)


lemma item_get_JObj [simp]: "item_get (JObj d) k v = Inr (dict_get_default d k v)"
  by (simp add: dict_get_default_def)

text \<open>An effect counts one turn for every score it adds, and its scores are those of the output model.\<close>

definition score_ok :: "int \<Rightarrow> bool" where "score_ok n \<longleftrightarrow> 0 \<le> n \<and> n \<le> 10"

definition count_scores :: "(pystr, int list) dict \<Rightarrow> int" where
  "count_scores d = sum_list (map (\<lambda>kv. int (length (snd kv))) d)"

definition scores_ok :: "(pystr, int list) dict \<Rightarrow> bool" where
  "scores_ok d \<longleftrightarrow> list_all (\<lambda>kv. snd kv \<noteq> [] \<and> list_all score_ok (snd kv)) d"

definition effect_typed :: "SideEffect \<Rightarrow> bool" where
  "effect_typed e \<longleftrightarrow> (case se_qa_patch e of None \<Rightarrow> True | Some p \<Rightarrow> score_ok (qp_score p))
     \<and> scores_ok (se_category_scores_delta e) \<and> se_turn_count_delta e = count_scores (se_category_scores_delta e)"

lemma no_effect_typed [simp]: "effect_typed no_effect"
  by (simp add: effect_typed_def no_effect_def scores_ok_def count_scores_def)

text \<open>The effect of a tool on the text it returned: the values of the reply, and never an exception.\<close>

lemma effects_of_dispatch:
  "apply_tool_side_effects T_GENERATE (question_json q) s =
     Inr (no_effect\<lparr>se_current_question := Some (aq_question q), se_current_category := Some (aq_category q)\<rparr>)"
  "apply_tool_side_effects T_EVALUATE (evaluation_json v) s =
     Inr (no_effect\<lparr>se_qa_patch := Some \<lparr>qp_question_index = (let qa = get_or (as_qa_history s) [] in if qa \<noteq> [] then qr_question_index (last qa) else 0),
         qp_score = av_score v, qp_feedback = av_feedback v\<rparr>,
       se_category_scores_delta := [(or_text (get_or (as_current_category s) None) GENERAL, [av_score v])], se_turn_count_delta := 1\<rparr>)"
  "apply_tool_side_effects T_ADJUST (strategy_json u) s =
     Inr (if su_suggested_difficulty u \<noteq> [] \<and> Some (su_suggested_difficulty u) \<noteq> as_difficulty s
       then no_effect\<lparr>se_difficulty := Some (su_suggested_difficulty u)\<rparr> else no_effect)"
  by (simp_all add: apply_tool_side_effects_def loads_questions loads_evaluation loads_strategy generate_effect_def
      evaluate_effect_def adjust_effect_def dict_get_default_def tool_names or_text_def Let_def)

lemma evaluate_answer_score: "evaluate_answer_impl env q a c = Inr v \<Longrightarrow> score_ok (av_score v)"
  by (auto simp: evaluate_answer_impl_def res_bind_Inr_iff score_ok_def split: if_splits)

lemma effect_typed_dispatch:
  assumes "dispatch_tool env resume tc s = Inr (Inr res)" "apply_tool_side_effects (tc_name tc) res s = Inr e"
  shows "effect_typed e"
proof -
  consider "tc_name tc = T_EVALUATE" | "tc_name tc \<noteq> T_EVALUATE" by blast
  then show ?thesis
  proof cases
    case 1
    with assms(1) obtain v where "res = evaluation_json v" "score_ok (av_score v)"
      by (auto simp: dispatch_tool_def tool_names Let_def res_map_Inr_iff dest: evaluate_answer_score)
    with 1 assms(2) show ?thesis
      by (auto simp: effects_of_dispatch effect_typed_def no_effect_def scores_ok_def count_scores_def score_ok_def)
  next
    case 2
    then have "se_qa_patch e = None \<and> se_category_scores_delta e = [] \<and> se_turn_count_delta e = 0"
      using assms(2)
      by (auto simp: apply_tool_side_effects_def Let_def generate_effect_def adjust_effect_def res_bind_Inr_iff no_effect_def
          split: if_splits sum.splits)
    then show ?thesis by (simp add: effect_typed_def scores_ok_def count_scores_def)
  qed
qed

lemma run_tool_typed:
  assumes "run_tool env resume s tc = Inr u"
  shows "\<exists>content traced e. u = tool_update env s tc content traced e \<and> effect_typed e"
proof -
  from assms obtain r where r: "dispatch_tool env resume tc s = Inr r"
    by (auto simp: run_tool_def split: sum.splits)
  show ?thesis
  proof (cases "res_bind r (\<lambda>res. res_map (Pair res) (apply_tool_side_effects (tc_name tc) res s))")
    case (Inl e)
    with assms r show ?thesis by (auto simp: run_tool_def intro: no_effect_typed)
  next
    case (Inr x)
    then obtain res e where "r = Inr res" "apply_tool_side_effects (tc_name tc) res s = Inr e" "x = (res, e)"
      by (auto simp: res_bind_Inr_iff res_map_Inr_iff)
    with effect_typed_dispatch r assms Inr show ?thesis by (fastforce simp: run_tool_def)
  qed
qed

end
