(* ===== verification/Agent_Graph.thy ===== *)
theory Agent_Graph
  imports Agent_Tools "HOL-Library.Multiset"
begin

text \<open>
  The graph of the adaptive interview agent (\<open>AdaptiveInterviewGraph\<close> in
  \<open>app/graphs/adaptive_interview.py\<close>): its nodes, its routes and its supersteps, with the fan-out of
  the tool calls. As LangGraph documents, a node started by \<open>Send\<close> sees the state that \<open>Send\<close>
  carries and nothing else; a superstep in which a task is interrupted writes nothing, keeps what
  the finished tasks returned, and runs the others again when it is resumed.
\<close>

definition END_SIGNAL :: pystr where "END_SIGNAL = ascii ''END_INTERVIEW''"
definition MAX_AGENT_STEPS :: int where "MAX_AGENT_STEPS = 30"

section \<open>The nodes\<close>

definition scores_summary :: "AgentEnv \<Rightarrow> (pystr, int list) dict \<Rightarrow> pystr result" where
  "scores_summary env cs = (if cs = [] then Inr (dumps (JObj [([26080, 25968, 25454], JStr [23578, 26410, 24320, 22987])]))
     else if list_ex (\<lambda>kv. snd kv = []) cs then Inl ZeroDivisionError
     else Inr (dumps (JObj (map (\<lambda>(k, v). (k, JStr (ascii ''avg='' @ ae_fmt1 env (average v) @ ascii '', count=''
       @ int_str (int (length v))))) cs))))"

definition system_content :: "AdaptiveInterviewState \<Rightarrow> pystr \<Rightarrow> pystr" where
  "system_content s summary =
     (let resume_text = get_or (as_resume_text s) [];
          resume_summary = (if length resume_text > 500 then take 500 resume_text @ ascii ''...''
            else if resume_text = [] then [26410, 25552, 20379, 31616, 21382] else resume_text)
      in [20320, 26159, 19968, 20301, 36164, 28145, 38754, 35797, 31574, 30053, 35268, 21010, 32773, 12290, 26681, 25454, 20505, 36873, 20154, 23454, 26102, 34920, 29616, 65292, 33258, 20027, 20915, 23450, 27599, 36718, 38754, 35797, 34892, 21160, 12290, 10, 10, 24403, 21069, 38754, 35797, 19978, 19979, 25991, 65306, 10, 45, 32, 25216, 33021, 26041, 21521, 65306] @ get_or (as_skill_id s) JAVA_BACKEND
       @ [10, 45, 32, 24403, 21069, 38590, 24230, 65306] @ get_or (as_difficulty s) MID
       @ [10, 45, 32, 24050, 23436, 25104, 39064, 25968, 65306] @ int_str (get_or (as_turn_count s) 0) @ [47] @ int_str (get_or (as_max_turns s) 6)
       @ [10, 45, 32, 21508, 32500, 24230, 24471, 20998, 65306] @ summary @ [10, 45, 32, 20505, 36873, 20154, 31616, 21382, 25688, 35201, 65306] @ resume_summary
       @ [10, 10, 20320, 21487, 20197, 35843, 29992, 24037, 20855, 65306, 103, 101, 110, 101, 114, 97, 116, 101, 95, 113, 117, 101, 115, 116, 105, 111, 110, 44, 32, 101, 118, 97, 108, 117, 97, 116, 101, 95, 97, 110, 115, 119, 101, 114, 44, 32, 108, 111, 111, 107, 117, 112, 95, 114, 101, 102, 101, 114, 101, 110, 99, 101, 44, 32, 97, 100, 106, 117, 115, 116, 95, 115, 116, 114, 97, 116, 101, 103, 121, 12290, 10, 24403, 38754, 35797, 24212, 35813, 32467, 26463, 26102, 65292, 22238, 22797, 25991, 26412, 32, 34, 69, 78, 68, 95, 73, 78, 84, 69, 82, 86, 73, 69, 87, 34, 65288, 19981, 35843, 29992, 24037, 20855, 65289, 12290, 10, 22914, 26524, 36824, 27809, 26377, 20986, 31532, 19968, 39064, 65292, 35831, 20808, 35843, 29992, 32, 103, 101, 110, 101, 114, 97, 116, 101, 95, 113, 117, 101, 115, 116, 105, 111, 110, 32, 20986, 19968, 39064, 12290])"

definition init_context :: "AgentEnv \<Rightarrow> AdaptiveInterviewState \<Rightarrow> NodeUpdate result" where
  "init_context env s = res_map (\<lambda>summary.
     let system = SystemMsg (system_content s summary); messages = get_or (as_messages s) []
     in plain_update (no_state\<lparr>
       as_messages := Some (if messages = [] then [system] else system # filter (\<lambda>m. \<not> is_system_msg m) messages),
       as_agent_step_count := Some 0, as_finished := Some False,
       as_decision_trace := Some [\<lparr>te_step = 0, te_action = ascii ''init_context'',
         te_args = JObj [(ascii ''skill_id'', JStr (get_or (as_skill_id s) JAVA_BACKEND)),
           (ascii ''difficulty'', JStr (get_or (as_difficulty s) MID)), (ascii ''max_turns'', JInt (get_or (as_max_turns s) 6))],
         te_result = JObj [], te_duration_ms = 0\<rparr>]\<rparr>))
     (scores_summary env (get_or (as_category_scores s) []))"

definition finish_update :: "AdaptiveInterviewState" where
  "finish_update = no_state\<lparr>as_finished := Some True\<rparr>"

definition call_info :: "ToolCall \<Rightarrow> json" where
  "call_info tc = JObj [(ascii ''name'', JStr (tc_name tc)), (ascii ''args'', JObj (tc_args tc))]"

definition agent_trace_entry :: "int \<Rightarrow> AiReply \<Rightarrow> json \<Rightarrow> TraceEntry" where
  "agent_trace_entry step reply res = \<lparr>te_step = step, te_action = ascii ''agent_loop'',
     te_args = JObj [(ascii ''tool_calls'', JArr (map call_info (ai_tool_calls reply)))], te_result = res, te_duration_ms = 0\<rparr>"

definition signal :: "pystr \<Rightarrow> json" where "signal t = JObj [(ascii ''signal'', JStr t)]"

definition agent_loop :: "AgentEnv \<Rightarrow> AdaptiveInterviewState \<Rightarrow> NodeUpdate" where
  "agent_loop env s =
     (let messages = get_or (as_messages s) []; step_count = get_or (as_agent_step_count s) 0 in
      if step_count \<ge> MAX_AGENT_STEPS then plain_update finish_update
      else if should_end_interview (get_or (as_turn_count s) 0) (get_or (as_max_turns s) 6) (get_or (as_category_scores s) [])
        then plain_update finish_update
      else (case ae_decide env messages of
        Inl e \<Rightarrow> plain_update finish_update
      | Inr reply \<Rightarrow>
          let new_messages = messages @ [AIMsg (ai_content reply) (ai_tool_calls reply)];
              trace = get_or (as_decision_trace s) [];
              entry = agent_trace_entry (step_count + 1) reply in
          if py_contains END_SIGNAL (get_or (ai_content reply) []) then
            plain_update (finish_update\<lparr>as_messages := Some new_messages,
              as_decision_trace := Some (trace @ [entry (signal (ascii ''END_INTERVIEW''))])\<rparr>)
          else if ai_tool_calls reply = [] then
            plain_update (finish_update\<lparr>as_messages := Some new_messages,
              as_decision_trace := Some (trace @ [entry (signal (ascii ''no_tool_calls''))])\<rparr>)
          else plain_update (no_state\<lparr>as_messages := Some new_messages, as_agent_step_count := Some (step_count + 1),
              as_decision_trace := Some (trace @ [entry (JObj [])])\<rparr>)))"

text \<open>Merging the effects of the tools, in the order of their calls, into the working memory.\<close>

record MergeState =
  mg_qa :: "QARecord list"
  mg_scores :: "(pystr, int list) dict"
  mg_turn_count :: int
  mg_current_question :: "pystr option"
  mg_current_category :: "pystr option"
  mg_difficulty :: "pystr option"
  mg_trace :: "TraceEntry list"

definition patch_record :: "QaPatch \<Rightarrow> QARecord \<Rightarrow> QARecord" where
  "patch_record p q = q\<lparr>qr_score := Some (qp_score p), qr_feedback := Some (qp_feedback p)\<rparr>"

fun patch_qa :: "QaPatch \<Rightarrow> QARecord list \<Rightarrow> QARecord list" where
  "patch_qa p [] = [\<lparr>qr_question_index = qp_question_index p, qr_question = None, qr_category = None, qr_difficulty = None,
     qr_answer = None, qr_score = Some (qp_score p), qr_feedback = Some (qp_feedback p)\<rparr>]"
| "patch_qa p (q # qs) = (if qr_question_index q = qp_question_index p then patch_record p q # qs else q # patch_qa p qs)"

definition extend_scores :: "pystr \<times> int list \<Rightarrow> (pystr, int list) dict \<Rightarrow> (pystr, int list) dict" where
  "extend_scores kv d = dict_set (fst kv) (dict_get_default d (fst kv) [] @ snd kv) d"

definition merge_effect :: "ToolEffect \<Rightarrow> MergeState \<Rightarrow> MergeState" where
  "merge_effect item m = (let e = tf_side_effect item in
     \<lparr>mg_qa = (case se_qa_patch e of None \<Rightarrow> mg_qa m | Some p \<Rightarrow> patch_qa p (mg_qa m)),
      mg_scores = fold extend_scores (se_category_scores_delta e) (mg_scores m),
      mg_turn_count = mg_turn_count m + se_turn_count_delta e,
      mg_current_question = or_else (se_current_question e) (mg_current_question m),
      mg_current_category = or_else (se_current_category e) (mg_current_category m),
      mg_difficulty = or_else (se_difficulty e) (mg_difficulty m),
      mg_trace = mg_trace m @ [tf_trace_entry item]\<rparr>)"

definition merge_base :: "AdaptiveInterviewState \<Rightarrow> MergeState" where
  "merge_base s = \<lparr>mg_qa = get_or (as_qa_history s) [], mg_scores = get_or (as_category_scores s) [],
     mg_turn_count = get_or (as_turn_count s) 0, mg_current_question = None, mg_current_category = None,
     mg_difficulty = None, mg_trace = get_or (as_decision_trace s) []\<rparr>"

definition merged_effects :: "AdaptiveInterviewState \<Rightarrow> MergeState" where
  "merged_effects s = fold merge_effect (sort_key tf_tool_call_index (get_or (as_tool_effects s) [])) (merge_base s)"

definition merge_tool_results :: "AdaptiveInterviewState \<Rightarrow> NodeUpdate" where
  "merge_tool_results s = (let m = merged_effects s in
     \<lparr>nu_values = no_state\<lparr>as_messages := Some (get_or (as_messages s) [] @ get_or (as_tool_messages s) []),
        as_decision_trace := Some (mg_trace m), as_qa_history := Some (mg_qa m), as_category_scores := Some (mg_scores m),
        as_turn_count := Some (mg_turn_count m), as_current_question := map_option Some (mg_current_question m),
        as_current_category := map_option Some (mg_current_category m), as_difficulty := mg_difficulty m\<rparr>,
      nu_tool_messages = Some A_Clear, nu_tool_effects = Some A_Clear\<rparr>)"

text \<open>The report; \<open>int(sum / len)\<close> truncates.\<close>

definition mean_score :: "int list \<Rightarrow> int" where
  "mean_score xs = py_trunc_div (sum_list xs) (int (length xs))"

definition build_adaptive_report :: "pystr \<Rightarrow> AdaptiveInterviewState \<Rightarrow> AdaptiveReport" where
  "build_adaptive_report sid s =
     (let qa = get_or (as_qa_history s) []; all_scores = List.map_filter qr_score qa;
          cs = get_or (as_category_scores s) [] in
      \<lparr>ar_session_id = sid, ar_total_questions = int (length qa),
       ar_overall_score = (if all_scores \<noteq> [] then mean_score all_scores else 0),
       ar_category_scores = map (\<lambda>(k, v). (k, mean_score v)) (filter (\<lambda>(k, v). v \<noteq> []) cs),
       ar_questions = qa, ar_difficulty_progression = get_or (as_difficulty s) MID\<rparr>)"

definition finalize :: "AdaptiveInterviewState \<Rightarrow> NodeUpdate" where
  "finalize s =
     (let report = build_adaptive_report (get_or (as_session_id s) []) s; trace = get_or (as_decision_trace s) [] in
      plain_update (finish_update\<lparr>as_final_report := Some (Some report),
        as_decision_trace := Some (trace @ [\<lparr>te_step = (if trace = [] then 0 else Max (set (map te_step trace))) + 1,
          te_action = ascii ''finalize'', te_args = JObj [],
          te_result = JObj [(ascii ''total_questions'', JInt (ar_total_questions report)),
            (ascii ''overall_score'', JInt (ar_overall_score report))], te_duration_ms = 0\<rparr>]),
        as_tool_call := Some None, as_tool_call_index := Some (- 1)\<rparr>))"

section \<open>Routes and supersteps\<close>

datatype Route = To_Finalize | To_Tools "ToolCall list"

definition route_agent_output :: "AdaptiveInterviewState \<Rightarrow> Route" where
  "route_agent_output s = (if get_or (as_finished s) False then To_Finalize
     else (let messages = get_or (as_messages s) [] in
       if messages = [] then To_Finalize
       else (case last messages of
         AIMsg c tcs \<Rightarrow> if tcs \<noteq> [] then To_Tools tcs else To_Finalize
       | _ \<Rightarrow> To_Finalize)))"

definition send_state :: "nat \<Rightarrow> ToolCall \<Rightarrow> AdaptiveInterviewState" where
  "send_state i tc = no_state\<lparr>as_tool_call_index := Some (int i), as_tool_call := Some (Some tc)\<rparr>"

text \<open>A task of the fan-out: its call, what it returned if it is finished, the decision it is resumed with.\<close>

record ToolTask =
  tk_call :: ToolCall
  tk_done :: "NodeUpdate option"
  tk_resume :: "bool option"

datatype GraphPos = G_Init | G_Agent | G_Tools "ToolTask list" | G_Merge | G_Finalize

datatype TurnEnd = Ended AdaptiveInterviewState | Paused "ApprovalRequest list" "ToolTask list" AdaptiveInterviewState

definition new_task :: "ToolCall \<Rightarrow> ToolTask" where
  "new_task tc = \<lparr>tk_call = tc, tk_done = None, tk_resume = None\<rparr>"

definition run_task :: "AgentEnv \<Rightarrow> nat \<times> ToolTask \<Rightarrow> (ApprovalRequest + NodeUpdate) result" where
  "run_task env it = (case tk_done (snd it) of
     Some u \<Rightarrow> Inr (Inr u)
   | None \<Rightarrow> execute_single_tool env (tk_resume (snd it)) (send_state (fst it) (tk_call (snd it))))"

definition left_update :: "ApprovalRequest + NodeUpdate \<Rightarrow> NodeUpdate option" where
  "left_update r = (case r of Inl req \<Rightarrow> None | Inr u \<Rightarrow> Some u)"

definition tools_superstep :: "AgentEnv \<Rightarrow> ToolTask list \<Rightarrow> AdaptiveInterviewState
    \<Rightarrow> ((GraphPos \<times> AdaptiveInterviewState) + TurnEnd) result" where
  "tools_superstep env tasks s = res_map (\<lambda>outs.
     let requests = List.map_filter (\<lambda>r. case r of Inl req \<Rightarrow> Some req | Inr u \<Rightarrow> None) outs in
     if requests = [] then Inl (G_Merge, fold (\<lambda>r st. case r of Inl req \<Rightarrow> st | Inr u \<Rightarrow> write_state st u) outs s)
     else Inr (Paused requests (map (\<lambda>(t, r). t\<lparr>tk_done := left_update r, tk_resume := None\<rparr>) (zip tasks outs)) s))
     (res_traverse (run_task env) (List.enumerate 0 tasks))"

definition superstep :: "AgentEnv \<Rightarrow> GraphPos \<times> AdaptiveInterviewState \<Rightarrow> ((GraphPos \<times> AdaptiveInterviewState) + TurnEnd) result" where
  "superstep env = (\<lambda>(pos, s). case pos of
     G_Init \<Rightarrow> res_map (\<lambda>u. Inl (G_Agent, write_state s u)) (init_context env s)
   | G_Agent \<Rightarrow> (let s' = write_state s (agent_loop env s) in case route_agent_output s' of
       To_Finalize \<Rightarrow> Inr (Inl (G_Finalize, s'))
     | To_Tools tcs \<Rightarrow> Inr (Inl (G_Tools (map new_task tcs), s')))
   | G_Tools tasks \<Rightarrow> tools_superstep env tasks s
   | G_Merge \<Rightarrow> Inr (Inl (G_Agent, write_state s (merge_tool_results s)))
   | G_Finalize \<Rightarrow> Inr (Inr (Ended (write_state s (finalize s)))))"

definition run_agent :: "AgentEnv \<Rightarrow> nat \<Rightarrow> GraphPos \<times> AdaptiveInterviewState \<Rightarrow> TurnEnd result" where
  "run_agent env recursion_limit = run_graph (superstep env) recursion_limit"


section \<open>The working memory stays typed\<close>

definition qa_ok :: "QARecord list \<Rightarrow> bool" where
  "qa_ok qa \<longleftrightarrow> list_all (\<lambda>q. case qr_score q of None \<Rightarrow> True | Some n \<Rightarrow> score_ok n) qa"

text \<open>
  Scores lie between 0 and 10, no category has an empty list, and the turns counted are the
  scores given.
\<close>

definition memory_typed :: "AdaptiveInterviewState \<Rightarrow> bool" where
  "memory_typed s \<longleftrightarrow> (let cs = get_or (as_category_scores s) [] in qa_ok (get_or (as_qa_history s) [])
     \<and> scores_ok cs \<and> dict_wf cs \<and> get_or (as_turn_count s) 0 = count_scores cs)"

lemma qa_ok_patch: "qa_ok qa \<Longrightarrow> score_ok (qp_score p) \<Longrightarrow> qa_ok (patch_qa p qa)"
  by (induction qa) (auto simp: qa_ok_def patch_record_def)

lemma count_scores_simps [simp]: "count_scores [] = 0" "count_scores (kv # d) = int (length (snd kv)) + count_scores d"
  by (simp_all add: count_scores_def)

lemma count_scores_set: "dict_wf d \<Longrightarrow>
    count_scores (dict_set k v d) = count_scores d + int (length v) - int (length (dict_get_default d k []))"
  using sum_dict_set [of d "\<lambda>v. int (length v)" k v] by (auto simp: count_scores_def dict_get_default_def split: option.splits)

lemma scores_ok_set: "scores_ok d \<Longrightarrow> v \<noteq> [] \<Longrightarrow> list_all score_ok v \<Longrightarrow> scores_ok (dict_set k v d)"
  by (induction d) (auto simp: scores_ok_def)

lemma scores_ok_get: "scores_ok d \<Longrightarrow> list_all score_ok (dict_get_default d k [])"
  by (cases "dict_get d k") (auto simp: scores_ok_def dict_get_default_def list_all_iff dest!: map_of_SomeD)

lemma extend_scores_ok:
  assumes "scores_ok d" "dict_wf d" "snd kv \<noteq> []" "list_all score_ok (snd kv)"
  shows "scores_ok (extend_scores kv d)" "dict_wf (extend_scores kv d)"
    "count_scores (extend_scores kv d) = count_scores d + int (length (snd kv))"
  using assms by (auto simp: extend_scores_def count_scores_set intro!: scores_ok_set scores_ok_get)

lemma fold_extend_scores:
  "scores_ok delta \<Longrightarrow> scores_ok d \<Longrightarrow> dict_wf d \<Longrightarrow>
     scores_ok (fold extend_scores delta d) \<and> dict_wf (fold extend_scores delta d)
     \<and> count_scores (fold extend_scores delta d) = count_scores d + count_scores delta"
proof (induction delta arbitrary: d)
  case (Cons kv delta)
  then have kv: "snd kv \<noteq> []" "list_all score_ok (snd kv)" "scores_ok delta" by (auto simp: scores_ok_def)
  from Cons.IH [OF kv(3), of "extend_scores kv d"] extend_scores_ok [OF Cons.prems(2,3) kv(1,2)] show ?case by simp
qed simp

definition merge_ok :: "MergeState \<Rightarrow> bool" where
  "merge_ok m \<longleftrightarrow> qa_ok (mg_qa m) \<and> scores_ok (mg_scores m) \<and> dict_wf (mg_scores m) \<and> mg_turn_count m = count_scores (mg_scores m)"

lemma merge_effect_ok: "effect_typed (tf_side_effect item) \<Longrightarrow> merge_ok m \<Longrightarrow> merge_ok (merge_effect item m)"
  using fold_extend_scores [of "se_category_scores_delta (tf_side_effect item)" "mg_scores m"]
  by (auto simp: merge_ok_def merge_effect_def Let_def effect_typed_def qa_ok_patch split: option.splits)

lemma fold_merge_ok: "list_all (\<lambda>i. effect_typed (tf_side_effect i)) items \<Longrightarrow> merge_ok m \<Longrightarrow> merge_ok (fold merge_effect items m)"
  by (induction items arbitrary: m) (simp_all add: merge_effect_ok)

definition effects_typed :: "AdaptiveInterviewState \<Rightarrow> bool" where
  "effects_typed s \<longleftrightarrow> list_all (\<lambda>i. effect_typed (tf_side_effect i)) (get_or (as_tool_effects s) [])"

lemma memory_typed_merge:
  assumes "memory_typed s" "effects_typed s"
  shows "memory_typed (write_state s (merge_tool_results s))"
proof -
  have "merge_ok (merge_base s)" using assms(1) by (auto simp: memory_typed_def merge_ok_def merge_base_def Let_def)
  with assms(2) have "merge_ok (merged_effects s)"
    unfolding merged_effects_def effects_typed_def by (intro fold_merge_ok) (auto simp: list_all_iff)
  then show ?thesis by (auto simp: memory_typed_def merge_ok_def merge_tool_results_def write_simps)
qed


section \<open>The transcript stays well formed\<close>

text \<open>
  The tool calls of a transcript that still wait for their messages, in order; \<open>None\<close> where a
  message stands between a call and its answer, or answers another call: a chat model refuses
  such a transcript.
\<close>

fun unanswered :: "pystr list \<Rightarrow> AgentMessage list \<Rightarrow> pystr list option" where
  "unanswered ps [] = Some ps"
| "unanswered ps (ToolMsg c i # ms) = (case ps of [] \<Rightarrow> None | p # ps' \<Rightarrow> if i = p then unanswered ps' ms else None)"
| "unanswered ps (AIMsg c tcs # ms) = (if ps = [] then unanswered (map tc_id tcs) ms else None)"
| "unanswered ps (SystemMsg c # ms) = (if ps = [] then unanswered [] ms else None)"
| "unanswered ps (HumanMsg c # ms) = (if ps = [] then unanswered [] ms else None)"

lemma unanswered_append: "unanswered ps (xs @ ys) = (case unanswered ps xs of None \<Rightarrow> None | Some qs \<Rightarrow> unanswered qs ys)"
  by (induction ps xs rule: unanswered.induct) (auto split: list.split)

lemma unanswered_no_system:
  "unanswered ps ms = Some qs \<Longrightarrow> unanswered ps (filter (\<lambda>m. \<not> is_system_msg m) ms) = Some qs"
  by (induction ps ms rule: unanswered.induct) (auto simp: is_system_msg_def split: list.splits if_splits)

definition transcript :: "AdaptiveInterviewState \<Rightarrow> AgentMessage list" where
  "transcript s = get_or (as_messages s) []"

definition one_system :: "AgentMessage list \<Rightarrow> bool" where
  "one_system ms \<longleftrightarrow> ms \<noteq> [] \<and> is_system_msg (hd ms) \<and> list_all (\<lambda>m. \<not> is_system_msg m) (tl ms)"

lemma one_system_append: "one_system ms \<Longrightarrow> list_all (\<lambda>m. \<not> is_system_msg m) ms' \<Longrightarrow> one_system (ms @ ms')"
  by (cases ms) (auto simp: one_system_def)

section \<open>Valid configurations\<close>

definition no_results :: "AdaptiveInterviewState \<Rightarrow> bool" where
  "no_results s \<longleftrightarrow> as_tool_messages s = Some [] \<and> as_tool_effects s = Some []"

definition steps_done :: "AdaptiveInterviewState \<Rightarrow> int" where
  "steps_done s = get_or (as_agent_step_count s) 0"

definition returned :: "ToolCall \<Rightarrow> NodeUpdate \<Rightarrow> bool" where
  "returned tc u \<longleftrightarrow> (\<exists>env s content traced e. u = tool_update env s tc content traced e \<and> effect_typed e)"

definition task_ok :: "ToolTask \<Rightarrow> bool" where
  "task_ok t \<longleftrightarrow> (\<forall>u. tk_done t = Some u \<longrightarrow> returned (tk_call t) u)"

definition going :: "int \<Rightarrow> AdaptiveInterviewState \<Rightarrow> bool" where
  "going lo s \<longleftrightarrow> lo \<le> steps_done s \<and> steps_done s \<le> MAX_AGENT_STEPS \<and> as_finished s = Some False \<and> one_system (transcript s)"

text \<open>
  Where a turn can be, with the state it has there. With \<open>tidy\<close> the turn began with a transcript
  whose calls are all answered.
\<close>

fun turn_valid :: "bool \<Rightarrow> GraphPos \<times> AdaptiveInterviewState \<Rightarrow> bool" where
  "turn_valid tidy (G_Init, s) \<longleftrightarrow> memory_typed s \<and> no_results s \<and> (tidy \<longrightarrow> unanswered [] (transcript s) = Some [])"
| "turn_valid tidy (G_Agent, s) \<longleftrightarrow> memory_typed s \<and> no_results s \<and> going 0 s
     \<and> (tidy \<longrightarrow> unanswered [] (transcript s) = Some [])"
| "turn_valid tidy (G_Tools tasks, s) \<longleftrightarrow> memory_typed s \<and> no_results s \<and> going 1 s \<and> list_all task_ok tasks
     \<and> (tidy \<longrightarrow> unanswered [] (transcript s) = Some (map (\<lambda>t. tc_id (tk_call t)) tasks))"
| "turn_valid tidy (G_Merge, s) \<longleftrightarrow> memory_typed s \<and> effects_typed s \<and> going 1 s
     \<and> list_all (\<lambda>m. \<not> is_system_msg m) (get_or (as_tool_messages s) [])
     \<and> (tidy \<longrightarrow> unanswered [] (transcript s @ get_or (as_tool_messages s) []) = Some [])"
| "turn_valid tidy (G_Finalize, s) \<longleftrightarrow> memory_typed s \<and> no_results s"

text \<open>How many supersteps can still follow.\<close>

fun turn_rank :: "GraphPos \<times> AdaptiveInterviewState \<Rightarrow> nat" where
  "turn_rank (pos, s) = (let k = 3 * nat (MAX_AGENT_STEPS - steps_done s) in case pos of
     G_Init \<Rightarrow> 92 | G_Agent \<Rightarrow> k + 1 | G_Tools tasks \<Rightarrow> k + 3 | G_Merge \<Rightarrow> k + 2 | G_Finalize \<Rightarrow> 0)"

definition ended_well :: "AdaptiveInterviewState \<Rightarrow> bool" where
  "ended_well s \<longleftrightarrow> memory_typed s \<and> no_results s \<and> as_finished s = Some True
     \<and> as_final_report s = Some (Some (build_adaptive_report (get_or (as_session_id s) []) s))"

fun turn_good :: "bool \<Rightarrow> TurnEnd result \<Rightarrow> bool" where
  "turn_good tidy (Inl e) \<longleftrightarrow> False"
| "turn_good tidy (Inr (Ended s)) \<longleftrightarrow> ended_well s"
| "turn_good tidy (Inr (Paused requests tasks s)) \<longleftrightarrow> requests \<noteq> [] \<and> turn_valid tidy (G_Tools tasks, s)"

lemmas turn_defs = no_results_def steps_done_def going_def transcript_def

lemma init_context_valid:
  assumes "turn_valid tidy (G_Init, s)"
  shows "\<exists>u. init_context env s = Inr u \<and> turn_valid tidy (G_Agent, write_state s u)
    \<and> turn_rank (G_Agent, write_state s u) < turn_rank (G_Init, s)"
proof -
  from assms have "scores_ok (get_or (as_category_scores s) [])" by (simp add: memory_typed_def Let_def)
  then have "\<exists>t. scores_summary env (get_or (as_category_scores s) []) = Inr t"
    by (auto simp: scores_summary_def scores_ok_def list_ex_iff list_all_iff)
  moreover have "one_system [x]" "one_system (x # filter (\<lambda>m. \<not> is_system_msg m) ms)" if "is_system_msg x" for x ms
    using that by (auto simp: one_system_def list_all_iff)
  moreover have "is_system_msg (SystemMsg c)" for c by (simp add: is_system_msg_def)
  ultimately show ?thesis
    using assms unanswered_no_system [of "[]" "transcript s" "[]"]
    by (auto simp: init_context_def turn_defs write_simps memory_typed_def MAX_AGENT_STEPS_def)
qed


definition call_update :: "AdaptiveInterviewState \<Rightarrow> AiReply \<Rightarrow> NodeUpdate" where
  "call_update s reply = plain_update (no_state\<lparr>
     as_messages := Some (transcript s @ [AIMsg (ai_content reply) (ai_tool_calls reply)]),
     as_agent_step_count := Some (steps_done s + 1),
     as_decision_trace := Some (get_or (as_decision_trace s) [] @ [agent_trace_entry (steps_done s + 1) reply (JObj [])])\<rparr>)"

text \<open>The agent finishes, or it calls tools.\<close>

lemma agent_loop_cases:
  obtains (finish) ms tr where
    "agent_loop env s = plain_update (finish_update\<lparr>as_messages := ms, as_decision_trace := tr\<rparr>)"
  | (call) reply where "steps_done s < MAX_AGENT_STEPS" "ai_tool_calls reply \<noteq> []" "agent_loop env s = call_update s reply"
proof -
  have f: "finish_update = finish_update\<lparr>as_messages := None, as_decision_trace := None\<rparr>"
    by (simp add: finish_update_def no_state_def)
  let ?t = "get_or (as_decision_trace s) []"
  show ?thesis
  proof (cases "steps_done s \<ge> MAX_AGENT_STEPS \<or>
      should_end_interview (get_or (as_turn_count s) 0) (get_or (as_max_turns s) 6) (get_or (as_category_scores s) [])")
    case True
    then have "agent_loop env s = plain_update finish_update" by (auto simp: agent_loop_def steps_done_def Let_def)
    with f finish show ?thesis by metis
  next
    case go: False
    show ?thesis
    proof (cases "ae_decide env (transcript s)")
      case (Inl e)
      with go have "agent_loop env s = plain_update finish_update" by (simp add: agent_loop_def turn_defs)
      with f finish show ?thesis by metis
    next
      case (Inr reply)
      consider "py_contains END_SIGNAL (get_or (ai_content reply) []) \<or> ai_tool_calls reply = []"
        | "\<not> py_contains END_SIGNAL (get_or (ai_content reply) [])" "ai_tool_calls reply \<noteq> []" by blast
      then show ?thesis
      proof cases
        case 1
        with go Inr have "\<exists>ms tr. agent_loop env s = plain_update (finish_update\<lparr>as_messages := ms, as_decision_trace := tr\<rparr>)"
          by (auto simp: agent_loop_def turn_defs Let_def)
        with finish show ?thesis by blast
      next
        case 2
        with go Inr have "agent_loop env s = call_update s reply"
          by (simp add: agent_loop_def turn_defs Let_def call_update_def)
        with go 2 call show ?thesis by simp
      qed
    qed
  qed
qed

lemma agent_loop_valid:
  assumes v: "turn_valid tidy (G_Agent, s)" and st: "superstep env (G_Agent, s) = Inr (Inl c)"
  shows "turn_valid tidy c \<and> turn_rank c < turn_rank (G_Agent, s)"
proof (cases rule: agent_loop_cases [of env s])
  case (finish ms tr)
  with v st show ?thesis
    by (auto simp: superstep_def route_agent_output_def Let_def finish_update_def write_simps turn_defs memory_typed_def)
next
  case (call reply)
  let ?ms = "transcript s @ [AIMsg (ai_content reply) (ai_tool_calls reply)]"
  let ?s = "write_state s (call_update s reply)"
  have s: "transcript ?s = ?ms" "steps_done ?s = steps_done s + 1" "as_finished ?s = as_finished s"
    "memory_typed ?s = memory_typed s" "no_results ?s = no_results s"
    by (simp_all add: call_update_def write_simps turn_defs memory_typed_def)
  have "one_system ?ms" using v by (intro one_system_append) (auto simp: going_def is_system_msg_def)
  moreover have "unanswered [] (transcript s) = Some [] \<Longrightarrow> unanswered [] ?ms = Some (map tc_id (ai_tool_calls reply))"
    by (simp add: unanswered_append)
  moreover have "c = (G_Tools (map new_task (ai_tool_calls reply)), ?s)"
    using st call v s(1,3) by (auto simp: superstep_def route_agent_output_def Let_def transcript_def going_def split: if_splits)
  ultimately show ?thesis
    using v call by (auto simp: s going_def new_task_def task_ok_def comp_def list_all_iff)
qed

lemma write_tool_update:
  "write_state s (tool_update env st tc content traced e) = s\<lparr>
     as_tool_messages := Some (get_or (as_tool_messages s) [] @ [ToolMsg content (tc_id tc)]),
     as_tool_effects := Some (get_or (as_tool_effects s) [] @ [\<lparr>tf_tool_call_index = get_or (as_tool_call_index st) 0, tf_side_effect = e,
       tf_trace_entry = \<lparr>te_step = get_or (as_agent_step_count st) 0, te_action = tc_name tc, te_args = JObj (tc_args tc),
         te_result = JStr traced, te_duration_ms = ae_duration env (get_or (as_tool_call_index st) 0)\<rparr>\<rparr>])\<rparr>"
  by (simp add: tool_update_def write_simps)

definition task_out :: "AgentEnv \<Rightarrow> nat \<times> ToolTask \<Rightarrow> ApprovalRequest + NodeUpdate" where
  "task_out env it = (case tk_done (snd it) of
     Some u \<Rightarrow> Inr u
   | None \<Rightarrow> run_tool env (tk_resume (snd it)) (send_state (fst it) (tk_call (snd it))) (tk_call (snd it)))"

lemma run_task_out: "run_task env it = Inr (task_out env it)"
  by (simp add: run_task_def task_out_def execute_single_tool_def send_state_def split: option.split)

lemma task_out_returned: "task_ok t \<Longrightarrow> task_out env (i, t) = Inr u \<Longrightarrow> returned (tk_call t) u"
  using run_tool_typed [of env "tk_resume t" "send_state i (tk_call t)" "tk_call t" u]
  unfolding task_out_def task_ok_def returned_def by (cases "tk_done t") (simp_all, blast)

lemma fold_returned:
  "list_all2 (\<lambda>t r. \<exists>u. r = Inr u \<and> returned (tk_call t) u) tasks outs \<Longrightarrow>
   as_tool_messages s = Some ms \<Longrightarrow> as_tool_effects s = Some es \<Longrightarrow>
   \<exists>ms' es'. fold (\<lambda>r st. case r of Inl req \<Rightarrow> st | Inr u \<Rightarrow> write_state st u) outs s
       = s\<lparr>as_tool_messages := Some (ms @ ms'), as_tool_effects := Some (es @ es')\<rparr>
     \<and> unanswered (map (\<lambda>t. tc_id (tk_call t)) tasks) ms' = Some [] \<and> list_all (\<lambda>m. \<not> is_system_msg m) ms'
     \<and> list_all (\<lambda>i. effect_typed (tf_side_effect i)) es'"
proof (induction tasks outs arbitrary: s ms es rule: list_all2_induct)
  case Nil
  then show ?case by (intro exI [of _ "[]"]) simp
next
  case (Cons t tasks r outs)
  then obtain env st c tr e where u: "r = Inr (tool_update env st (tk_call t) c tr e)" "effect_typed e"
    by (auto simp: returned_def)
  let ?m = "ToolMsg c (tc_id (tk_call t))"
  let ?e = "\<lparr>tf_tool_call_index = get_or (as_tool_call_index st) 0, tf_side_effect = e,
    tf_trace_entry = \<lparr>te_step = get_or (as_agent_step_count st) 0, te_action = tc_name (tk_call t), te_args = JObj (tc_args (tk_call t)),
      te_result = JStr tr, te_duration_ms = ae_duration env (get_or (as_tool_call_index st) 0)\<rparr>\<rparr>"
  let ?s = "s\<lparr>as_tool_messages := Some (ms @ [?m]), as_tool_effects := Some (es @ [?e])\<rparr>"
  have s: "write_state s (tool_update env st (tk_call t) c tr e) = ?s" using Cons.prems by (simp add: write_tool_update)
  have "as_tool_messages ?s = Some (ms @ [?m])" "as_tool_effects ?s = Some (es @ [?e])" by simp_all
  from Cons.IH [OF this] obtain ms' es' where
    "fold (\<lambda>r st. case r of Inl req \<Rightarrow> st | Inr u \<Rightarrow> write_state st u) outs ?s =
       ?s\<lparr>as_tool_messages := Some ((ms @ [?m]) @ ms'), as_tool_effects := Some ((es @ [?e]) @ es')\<rparr>"
    "unanswered (map (\<lambda>t. tc_id (tk_call t)) tasks) ms' = Some []" "list_all (\<lambda>m. \<not> is_system_msg m) ms'"
    "list_all (\<lambda>i. effect_typed (tf_side_effect i)) es'"
    by (elim exE conjE) (rule that)
  then show ?case
    using u(2) by (intro exI [of _ "?m # ms'"] exI [of _ "?e # es'"]) (simp add: u(1) s is_system_msg_def)
qed


lemma tools_superstep_outs:
  "tools_superstep env tasks s = Inr (let outs = map (task_out env) (List.enumerate 0 tasks);
       requests = List.map_filter (\<lambda>r. case r of Inl req \<Rightarrow> Some req | Inr u \<Rightarrow> None) outs in
     if requests = [] then Inl (G_Merge, fold (\<lambda>r st. case r of Inl req \<Rightarrow> st | Inr u \<Rightarrow> write_state st u) outs s)
     else Inr (Paused requests (map (\<lambda>(t, r). t\<lparr>tk_done := left_update r, tk_resume := None\<rparr>) (zip tasks outs)) s))"
  using res_traverse_Inr [of "List.enumerate 0 tasks" "run_task env" "task_out env"]
  by (simp add: tools_superstep_def run_task_out Let_def)

lemma no_requests: "List.map_filter (\<lambda>r. case r of Inl req \<Rightarrow> Some req | Inr u \<Rightarrow> None) outs = [] \<longleftrightarrow> (\<forall>r \<in> set outs. \<exists>u. r = Inr u)"
proof (induction outs)
  case (Cons r outs)
  then show ?case by (cases r) (auto simp: map_filter_simps)
qed (simp add: map_filter_simps)

lemma tools_valid:
  assumes v: "turn_valid tidy (G_Tools tasks, s)"
  shows "(\<exists>s'. tools_superstep env tasks s = Inr (Inl (G_Merge, s')) \<and> turn_valid tidy (G_Merge, s')
        \<and> turn_rank (G_Merge, s') < turn_rank (G_Tools tasks, s))
    \<or> (\<exists>reqs tasks'. tools_superstep env tasks s = Inr (Inr (Paused reqs tasks' s)) \<and> turn_good tidy (Inr (Paused reqs tasks' s)))"
proof -
  let ?outs = "map (task_out env) (List.enumerate 0 tasks)"
  have ret: "returned (tk_call (tasks ! i)) u" if "i < length tasks" "?outs ! i = Inr u" for i u
    using task_out_returned [of "tasks ! i" env i u] v that by (auto simp: list_all_length nth_enumerate_eq)
  show ?thesis
  proof (cases "\<forall>r \<in> set ?outs. \<exists>u. r = Inr u")
    case True
    have "\<exists>u. ?outs ! i = Inr u \<and> returned (tk_call (tasks ! i)) u" if i: "i < length tasks" for i
    proof -
      have "?outs ! i \<in> set ?outs" using i by (intro nth_mem) simp
      with True ret i show ?thesis by blast
    qed
    then have all: "list_all2 (\<lambda>t r. \<exists>u. r = Inr u \<and> returned (tk_call t) u) tasks ?outs" by (auto simp: list_all2_conv_all_nth)
    have none: "as_tool_messages s = Some []" "as_tool_effects s = Some []" using v by (auto simp: no_results_def)
    from fold_returned [OF all none] obtain ms es where f: "fold (\<lambda>r st. case r of Inl req \<Rightarrow> st | Inr u \<Rightarrow> write_state st u) ?outs s
        = s\<lparr>as_tool_messages := Some ([] @ ms), as_tool_effects := Some ([] @ es)\<rparr>"
      "unanswered (map (\<lambda>t. tc_id (tk_call t)) tasks) ms = Some []" "list_all (\<lambda>m. \<not> is_system_msg m) ms"
      "list_all (\<lambda>i. effect_typed (tf_side_effect i)) es"
      by (elim exE conjE) (rule that)
    have "tools_superstep env tasks s = Inr (Inl (G_Merge, s\<lparr>as_tool_messages := Some ms, as_tool_effects := Some es\<rparr>))"
      unfolding tools_superstep_outs Let_def f(1) using True by (simp add: no_requests)
    moreover have "turn_valid tidy (G_Merge, s\<lparr>as_tool_messages := Some ms, as_tool_effects := Some es\<rparr>)"
      using v f by (auto simp: turn_defs effects_typed_def memory_typed_def unanswered_append)
    ultimately show ?thesis by (auto simp: turn_defs)
  next
    case False
    let ?tasks = "map (\<lambda>(t, r). t\<lparr>tk_done := left_update r, tk_resume := None\<rparr>) (zip tasks ?outs)"
    have "list_all task_ok ?tasks"
      using ret by (auto simp: list_all_length task_ok_def left_update_def split: sum.splits)
    moreover have "map (\<lambda>t. tc_id (tk_call t)) ?tasks = map (\<lambda>t. tc_id (tk_call t)) tasks"
      by (rule nth_equalityI) auto
    moreover let ?requests = "List.map_filter (\<lambda>r. case r of Inl req \<Rightarrow> Some req | Inr u \<Rightarrow> None) ?outs"
    have reqs: "?requests \<noteq> []" using False unfolding no_requests .
    moreover have "tools_superstep env tasks s = Inr (Inr (Paused ?requests ?tasks s))"
      unfolding tools_superstep_outs Let_def using reqs by (simp only: if_False)
    ultimately show ?thesis using v unfolding turn_good.simps turn_valid.simps by metis
  qed
qed


lemma merge_valid:
  assumes v: "turn_valid tidy (G_Merge, s)"
  shows "turn_valid tidy (G_Agent, write_state s (merge_tool_results s))"
    "turn_rank (G_Agent, write_state s (merge_tool_results s)) < turn_rank (G_Merge, s)"
proof -
  let ?s = "write_state s (merge_tool_results s)"
  have s: "transcript ?s = transcript s @ get_or (as_tool_messages s) []" "steps_done ?s = steps_done s"
    "as_finished ?s = as_finished s" "no_results ?s"
    by (simp_all add: merge_tool_results_def write_simps turn_defs)
  with v one_system_append [of "transcript s"] show "turn_valid tidy (G_Agent, ?s)"
    by (auto simp: going_def memory_typed_merge)
  show "turn_rank (G_Agent, ?s) < turn_rank (G_Merge, s)" by (simp add: s)
qed

lemma finalize_good: "turn_valid tidy (G_Finalize, s) \<Longrightarrow> ended_well (write_state s (finalize s))"
  by (auto simp: ended_well_def finalize_def finish_update_def write_simps memory_typed_def no_results_def build_adaptive_report_def)

interpretation agent: ranked_graph "superstep env" "turn_valid tidy" turn_rank "turn_good tidy" for env tidy
proof
  fix c c' :: "GraphPos \<times> AdaptiveInterviewState"
  assume v: "turn_valid tidy c" and st: "superstep env c = Inr (Inl c')"
  obtain pos s where c: "c = (pos, s)" by (cases c)
  show "turn_valid tidy c' \<and> turn_rank c' < turn_rank c"
  proof (cases pos)
    case G_Init
    with init_context_valid [of tidy s env] v st show ?thesis by (auto simp: c superstep_def)
  next
    case G_Agent
    show ?thesis using v st unfolding c G_Agent by (rule agent_loop_valid)
  next
    case (G_Tools tasks)
    with tools_valid [of tidy tasks s env] v st show ?thesis by (auto simp: c superstep_def)
  next
    case G_Merge
    with merge_valid [of tidy s] v st show ?thesis by (auto simp: c superstep_def)
  next
    case G_Finalize
    with st show ?thesis by (simp add: c superstep_def)
  qed
next
  fix c :: "GraphPos \<times> AdaptiveInterviewState" and x
  assume v: "turn_valid tidy c" and st: "superstep env c = Inr (Inr x)"
  obtain pos s where c: "c = (pos, s)" by (cases c)
  show "turn_good tidy (Inr x)"
  proof (cases pos)
    case (G_Tools tasks)
    with tools_valid [of tidy tasks s env] v st show ?thesis by (auto simp: c superstep_def)
  next
    case G_Finalize
    with st v finalize_good show ?thesis by (auto simp: c superstep_def)
  qed (use v st init_context_valid [of tidy s env] in \<open>auto simp: c superstep_def Let_def split: Route.splits\<close>)
next
  fix c :: "GraphPos \<times> AdaptiveInterviewState" and e
  assume v: "turn_valid tidy c" and st: "superstep env c = Inl e"
  obtain pos s where c: "c = (pos, s)" by (cases c)
  show "turn_good tidy (Inl e)"
    using v st init_context_valid [of tidy s env] tools_valid [of tidy _ s env]
    by (cases pos) (fastforce simp: c superstep_def Let_def split: Route.splits)+
qed


section \<open>What a turn guarantees\<close>

text \<open>
  C8. A turn ends by itself within 93 supersteps, whatever the model answers and the tools return,
  so that no larger recursion limit makes a difference: it finishes with a report of exactly the
  working memory, or it pauses at a question that waits for approval. It never raises.
\<close>
theorem agent_turn_terminates:
  assumes "memory_typed s" "no_results s" "93 \<le> limit"
  shows "run_agent env limit (G_Init, s) = run_agent env 93 (G_Init, s) \<and>
    (case run_agent env limit (G_Init, s) of
       Inl e \<Rightarrow> False
     | Inr (Ended s') \<Rightarrow> as_finished s' = Some True
         \<and> as_final_report s' = Some (Some (build_adaptive_report (get_or (as_session_id s') []) s'))
     | Inr (Paused requests tasks s') \<Rightarrow> requests \<noteq> [] \<and> as_finished s' = Some False)"
proof -
  have v: "turn_valid False (G_Init, s)" using assms(1,2) by simp
  have r: "turn_rank (G_Init, s) < 93" "turn_rank (G_Init, s) < limit" using assms(3) by simp_all
  from agent.run_good [OF v r(2), of env] agent.limit_irrelevant [OF v r(2) r(1), of env] show ?thesis
    by (auto simp: run_agent_def ended_well_def going_def split: sum.splits TurnEnd.splits)
qed

definition sample_agent_env :: AgentEnv where
  "sample_agent_env = \<lparr>ae_question = (\<lambda>c d x r. Inr \<lparr>aq_question = [113], aq_type = [], aq_category = [67], aq_follow_up = []\<rparr>),
     ae_evaluation = (\<lambda>q a c. Inr \<lparr>av_score = 8, av_feedback = [], av_should_follow_up = False, av_follow_up_suggestion = []\<rparr>),
     ae_decide = (\<lambda>ms. Inr \<lparr>ai_content = None, ai_tool_calls = [\<lparr>tc_name = T_GENERATE, tc_args = [], tc_id = [49]\<rparr>]\<rparr>),
     ae_file = (\<lambda>p. None), ae_rag = sample_rag_env, ae_recursion_limit = 25, ae_lower = (\<lambda>s. s), ae_fmt1 = (\<lambda>r. []),
     ae_show = dumps, ae_exc_str = (\<lambda>e. []), ae_duration = (\<lambda>i. 0)\<rparr>"

lemma agent_turn_terminates_witness:
  "run_agent sample_agent_env 1000 (G_Init, no_state\<lparr>as_tool_messages := Some [], as_tool_effects := Some []\<rparr>)
     = run_agent sample_agent_env 93 (G_Init, no_state\<lparr>as_tool_messages := Some [], as_tool_effects := Some []\<rparr>)"
  using agent_turn_terminates [of "no_state\<lparr>as_tool_messages := Some [], as_tool_effects := Some []\<rparr>" 1000 sample_agent_env]
  by (simp add: memory_typed_def no_results_def no_state_def qa_ok_def scores_ok_def Let_def)

inductive agent_reaches :: "AgentEnv \<Rightarrow> GraphPos \<times> AdaptiveInterviewState \<Rightarrow> GraphPos \<times> AdaptiveInterviewState \<Rightarrow> bool"
  for env where
  here: "agent_reaches env c c"
| further: "agent_reaches env c d \<Longrightarrow> superstep env d = Inr (Inl d') \<Longrightarrow> agent_reaches env c d'"

lemma reaches_valid: "agent_reaches env c d \<Longrightarrow> turn_valid tidy c \<Longrightarrow> turn_valid tidy d"
  by (induction rule: agent_reaches.induct) (auto dest: agent.step_valid)



lemma filter_eq_count: "length (filter (\<lambda>y. x = y) ys) = count (mset ys) x"
  by (induction ys) auto

text \<open>
  C20. The order in which the parallel tools finish does not matter: effects with different call
  indices give the same working memory and the same trace in every order.
\<close>
theorem merge_order_irrelevant:
  assumes "mset es = mset es'" "distinct (map tf_tool_call_index es)"
  shows "merged_effects (s\<lparr>as_tool_effects := Some es\<rparr>) = merged_effects (s\<lparr>as_tool_effects := Some es'\<rparr>)"
proof -
  let ?k = tf_tool_call_index
  have inj: "inj_on ?k (set es)" using assms(2) by (simp add: distinct_map)
  have set: "set es = set es'" using assms(1) by (metis set_mset_mset)
  have "sort_key ?k es = sort_key ?k es'"
  proof (rule properties_for_sort_key)
    show "mset (sort_key ?k es') = mset es" using assms(1) by simp
    fix x
    assume "x \<in> set (sort_key ?k es')"
    then have x: "x \<in> set es" by (simp add: set)
    have "filter (\<lambda>y. ?k x = ?k y) ys = filter (\<lambda>y. x = y) ys" if "set ys = set es" for ys
      using inj x that by (intro filter_cong) (auto dest: inj_onD)
    then have f: "filter (\<lambda>y. ?k x = ?k y) ys = replicate (count (mset ys) x) x" if "set ys = set es" for ys
      using that replicate_length_filter [of x ys] filter_eq_count [of x ys] by simp
    show "filter (\<lambda>y. ?k x = ?k y) (sort_key ?k es') = filter (\<lambda>y. ?k x = ?k y) es"
      using f [of es] f [of "sort_key ?k es'"] set assms(1) by simp
  qed simp
  then show ?thesis by (simp add: merged_effects_def merge_base_def)
qed

definition sample_effect :: "int \<Rightarrow> ToolEffect" where
  "sample_effect i = \<lparr>tf_tool_call_index = i, tf_side_effect = no_effect\<lparr>se_difficulty := Some [nat i]\<rparr>,
     tf_trace_entry = \<lparr>te_step = i, te_action = [], te_args = JNull, te_result = JNull, te_duration_ms = 0\<rparr>\<rparr>"

lemma merge_order_irrelevant_witness:
  "merged_effects (no_state\<lparr>as_tool_effects := Some [sample_effect 1, sample_effect 0]\<rparr>)
     = merged_effects (no_state\<lparr>as_tool_effects := Some [sample_effect 0, sample_effect 1]\<rparr>)"
  by (rule merge_order_irrelevant) (simp_all add: sample_effect_def)


text \<open>
  A tool started by \<open>Send\<close> does not see the working memory: an evaluation always scores the first
  record and the general category, whatever question was asked.
\<close>

lemma fan_out_forgets_memory:
  "apply_tool_side_effects T_EVALUATE (evaluation_json v) (send_state i tc) =
     Inr (no_effect\<lparr>se_qa_patch := Some \<lparr>qp_question_index = 0, qp_score = av_score v, qp_feedback = av_feedback v\<rparr>,
       se_category_scores_delta := [(GENERAL, [av_score v])], se_turn_count_delta := 1\<rparr>)"
  by (simp add: effects_of_dispatch send_state_def no_state_def or_text_def)

end
