(* ===== verification/Agent_Service.thy ===== *)
theory Agent_Service
  imports Agent_Graph
begin

text \<open>
  The application service of the adaptive interview (\<open>app/application/agent/adaptive_service.py\<close>) with
  the entry points of the graph: \<open>run_next_turn\<close>, \<open>resume_turn\<close>, \<open>stream_next_turn\<close> and \<open>aget_state\<close>.
  Sessions live in the checkpointer of LangGraph, or, without one, in an LRU cache. A checkpoint
  holds the state after the last superstep and, of an interrupted one, its tasks and requests.
  \<open>sv_unknown\<close> is what the checkpointer answers for a thread it does not know, and \<open>sv_target\<close>
  which of several interrupted tasks receives the decision (\<open>None\<close>: the runtime refuses).
\<close>

section \<open>Sessions and where they are kept\<close>

record Snapshot =
  sn_values :: AdaptiveInterviewState
  sn_tasks :: "ToolTask list"
  sn_requests :: "ApprovalRequest list"

text \<open>The state a caller sees: the values, and the request that waits for approval.\<close>

record AgentSession =
  ag_state :: AdaptiveInterviewState
  ag_pending :: "ApprovalRequest option"

record AgentWorld =
  aw_checkpoints :: "(pystr, Snapshot) dict option"
  aw_cache :: "(pystr, AgentSession) dict"

text \<open>An event of \<open>astream_events\<close>: the fields the code reads.\<close>

record RtEvent =
  rt_event :: pystr
  rt_name :: pystr
  rt_token :: "pystr option"
  rt_input :: pystr
  rt_output :: pystr
  rt_state :: "AdaptiveInterviewState option"
  rt_payload :: ApprovalRequest

datatype StreamEvent =
    SE_ChainStart pystr
  | SE_ChainEnd pystr bool
  | SE_LlmStream pystr
  | SE_ToolStart pystr pystr
  | SE_ToolEnd pystr pystr
  | SE_Interrupt ApprovalRequest
  | SE_Final AgentSession

record AgentServiceEnv =
  sv_agent :: AgentEnv
  sv_recursion_limit :: nat
  sv_uuid :: pystr
  sv_resolve :: "pystr \<Rightarrow> unit result"
  sv_chat_client :: "unit result"
  sv_unknown :: "Snapshot option"
  sv_target :: "nat list \<Rightarrow> nat option"
  sv_events :: "TurnEnd \<Rightarrow> RtEvent list"

type_synonym 'a agent_op = "(AgentWorld, 'a) op"

definition MEMORY_CACHE_MAXSIZE :: nat where "MEMORY_CACHE_MAXSIZE = 500"

definition head_request :: "ApprovalRequest list \<Rightarrow> ApprovalRequest option" where
  "head_request rs = (case rs of [] \<Rightarrow> None | r # rest \<Rightarrow> Some r)"

definition session_of_snapshot :: "Snapshot \<Rightarrow> AgentSession" where
  "session_of_snapshot sn = \<lparr>ag_state = sn_values sn, ag_pending = head_request (sn_requests sn)\<rparr>"

definition find_snapshot :: "AgentServiceEnv \<Rightarrow> pystr \<Rightarrow> (pystr, Snapshot) dict \<Rightarrow> Snapshot option" where
  "find_snapshot env sid cps = (case dict_get cps sid of Some sn \<Rightarrow> Some sn | None \<Rightarrow> sv_unknown env)"

definition aget_state :: "AgentServiceEnv \<Rightarrow> pystr \<Rightarrow> AgentWorld \<Rightarrow> AgentSession option" where
  "aget_state env sid w = (case aw_checkpoints w of None \<Rightarrow> None
     | Some cps \<Rightarrow> map_option session_of_snapshot (find_snapshot env sid cps))"

section \<open>Turns\<close>

definition outcome_snapshot :: "TurnEnd \<Rightarrow> Snapshot" where
  "outcome_snapshot t = (case t of
     Ended s \<Rightarrow> \<lparr>sn_values = s, sn_tasks = [], sn_requests = []\<rparr>
   | Paused reqs tasks s \<Rightarrow> \<lparr>sn_values = s, sn_tasks = tasks, sn_requests = reqs\<rparr>)"

definition save_outcome :: "pystr \<Rightarrow> TurnEnd \<Rightarrow> AgentSession agent_op" where
  "save_outcome sid t = op_then
     (op_modify (\<lambda>w. w\<lparr>aw_checkpoints := map_option (dict_set sid (outcome_snapshot t)) (aw_checkpoints w)\<rparr>))
     (op_return (session_of_snapshot (outcome_snapshot t)))"

definition with_user_message :: "pystr option \<Rightarrow> AdaptiveInterviewState \<Rightarrow> AdaptiveInterviewState" where
  "with_user_message answer s = (case answer of None \<Rightarrow> s
   | Some a \<Rightarrow> s\<lparr>as_messages := Some (get_or (as_messages s) [] @
       [HumanMsg ([20505, 36873, 20154, 22238, 31572, 20102, 65306, 10] @ a @ [10, 10, 35831, 20808, 35780, 20272, 36825, 20010, 22238, 31572, 65292, 28982, 21518, 20915, 23450, 19979, 19968, 27493, 12290])])\<rparr>)"

text \<open>
  The values of the thread's checkpoint, if it has one, under the state handed in. The channels
  of the accumulators begin as empty lists.
\<close>

definition fresh_state :: AdaptiveInterviewState where
  "fresh_state = no_state\<lparr>as_tool_messages := Some [], as_tool_effects := Some []\<rparr>"

definition turn_input :: "pystr \<Rightarrow> AdaptiveInterviewState \<Rightarrow> pystr option \<Rightarrow> AgentWorld \<Rightarrow> AdaptiveInterviewState" where
  "turn_input sid s answer w =
     (let base = (case aw_checkpoints w of None \<Rightarrow> fresh_state
        | Some cps \<Rightarrow> (case dict_get cps sid of None \<Rightarrow> fresh_state | Some sn \<Rightarrow> sn_values sn))
      in write_state base (input_update (with_user_message answer s)))"

definition run_next_turn :: "AgentServiceEnv \<Rightarrow> AdaptiveInterviewState \<Rightarrow> pystr option \<Rightarrow> pystr \<Rightarrow> AgentSession agent_op" where
  "run_next_turn env s answer sid = op_bind (op_get (turn_input sid s answer)) (\<lambda>s0.
     op_bind (op_lift (run_agent (sv_agent env) (sv_recursion_limit env) (G_Init, s0))) (save_outcome sid))"

definition NO_RESUME :: exn where "NO_RESUME = RuntimeError (ascii ''cannot resume'')"

definition pending_tasks :: "ToolTask list \<Rightarrow> nat list" where
  "pending_tasks tasks = map fst (filter (\<lambda>it. tk_done (snd it) = None) (List.enumerate 0 tasks))"

definition resume_turn :: "AgentServiceEnv \<Rightarrow> pystr \<Rightarrow> bool \<Rightarrow> AgentSession agent_op" where
  "resume_turn env sid approved = op_bind (op_get aw_checkpoints) (\<lambda>cps.
     case Option.bind cps (\<lambda>c. dict_get c sid) of
       None \<Rightarrow> op_raise NO_RESUME
     | Some sn \<Rightarrow> (case sv_target env (pending_tasks (sn_tasks sn)) of
         None \<Rightarrow> op_raise NO_RESUME
       | Some i \<Rightarrow> if i \<in> set (pending_tasks (sn_tasks sn)) then
           op_bind (op_lift (run_agent (sv_agent env) (sv_recursion_limit env)
               (G_Tools ((sn_tasks sn)[i := (sn_tasks sn ! i)\<lparr>tk_resume := Some approved\<rparr>]), sn_values sn)))
             (save_outcome sid)
         else op_raise NO_RESUME))"

section \<open>Streaming\<close>

definition GRAPH_NODES :: "pystr list" where
  "GRAPH_NODES = [ascii ''init_context'', ascii ''agent_loop'', ascii ''execute_single_tool'', ascii ''merge_tool_results'']"

text \<open>What an event becomes, and whether it ends the loop.\<close>

definition map_event :: "RtEvent \<Rightarrow> StreamEvent list" where
  "map_event ev =
     (let name = rt_name ev; kind = rt_event ev in
      if kind = ascii ''on_chain_start'' \<and> name \<in> set (GRAPH_NODES @ [ascii ''finalize'']) then [SE_ChainStart name]
      else if kind = ascii ''on_chain_end'' then
        (if name = ascii ''finalize'' then [SE_ChainEnd name True]
         else if name \<in> set GRAPH_NODES then [SE_ChainEnd name False] else [])
      else if kind = ascii ''on_chat_model_stream'' then
        (case rt_token ev of None \<Rightarrow> [] | Some t \<Rightarrow> if t = [] then [] else [SE_LlmStream t])
      else if kind = ascii ''on_tool_start'' then [SE_ToolStart name (take 300 (rt_input ev))]
      else if kind = ascii ''on_tool_end'' then [SE_ToolEnd name (take 200 (rt_output ev))]
      else [])"

fun stream_loop_events :: "RtEvent list \<Rightarrow> StreamEvent list \<Rightarrow> AdaptiveInterviewState option
    \<Rightarrow> StreamEvent list \<times> bool \<times> AdaptiveInterviewState option" where
  "stream_loop_events [] out final = (out, False, final)"
| "stream_loop_events (ev # evs) out final =
     (if rt_event ev = ascii ''on_chain_interrupt'' then (out @ [SE_Interrupt (rt_payload ev)], True, final)
      else stream_loop_events evs (out @ map_event ev)
        (if rt_event ev = ascii ''on_chain_end'' \<and> rt_name ev = [] then or_else (rt_state ev) final else final))"

definition stream_next_turn :: "AgentServiceEnv \<Rightarrow> AgentSession \<Rightarrow> pystr option \<Rightarrow> pystr \<Rightarrow> StreamEvent list agent_op" where
  "stream_next_turn env a answer sid = op_bind (op_get (turn_input sid (ag_state a) answer)) (\<lambda>s0.
     op_bind (op_lift (run_agent (sv_agent env) (sv_recursion_limit env) (G_Init, s0))) (\<lambda>t.
     op_bind (save_outcome sid t) (\<lambda>_. op_get (\<lambda>w.
       let (out, interrupted, final) = stream_loop_events (sv_events env t) [] None;
           saved = aget_state env sid w in
       if interrupted then out
       else (case Option.bind saved ag_pending of
         Some request \<Rightarrow> out @ [SE_Interrupt request]
       | None \<Rightarrow>
         let final' = or_else saved (map_option (\<lambda>f. a\<lparr>ag_state := f\<rparr>) final);
             input = a\<lparr>ag_state := with_user_message answer (ag_state a)\<rparr>
         in out @ [SE_Final (case final' of
              None \<Rightarrow> input
            | Some a \<Rightarrow> if as_qa_history (ag_state a) = None \<or> as_messages (ag_state a) = None then input else a)])))))"

section \<open>The service\<close>

record CreateAdaptiveSessionRequest =
  cas_skill_id :: pystr
  cas_difficulty :: pystr
  cas_resume_text :: pystr
  cas_max_turns :: int
  cas_llm_provider :: "pystr option"

record AdaptiveQuestionDTO =
  aqd_question :: pystr
  aqd_category :: pystr
  aqd_difficulty :: pystr
  aqd_question_index :: int

record AdaptiveSessionDTO =
  asd_session_id :: pystr
  asd_skill_id :: pystr
  asd_difficulty :: pystr
  asd_turn_count :: int
  asd_max_turns :: int
  asd_current_question :: "AdaptiveQuestionDTO option"
  asd_finished :: bool
  asd_category_scores :: "(pystr, rat) dict"
  asd_decision_trace :: "TraceEntry list option"
  asd_pending_approval :: "ApprovalRequest option"

record AdaptiveAnswerResultDTO =
  aad_score :: "int option"
  aad_feedback :: "pystr option"
  aad_next_question :: "AdaptiveQuestionDTO option"
  aad_finished :: bool
  aad_difficulty_changed :: bool
  aad_new_difficulty :: "pystr option"
  aad_pending_approval :: "ApprovalRequest option"

definition question_dto :: "AdaptiveInterviewState \<Rightarrow> AdaptiveQuestionDTO option" where
  "question_dto s = (case get_or (as_current_question s) None of None \<Rightarrow> None
     | Some q \<Rightarrow> if q = [] then None else Some \<lparr>aqd_question = q,
         aqd_category = or_text (get_or (as_current_category s) None) GENERAL,
         aqd_difficulty = get_or (as_difficulty s) MID, aqd_question_index = get_or (as_turn_count s) 0\<rparr>)"

definition to_adaptive_session_dto :: "AgentSession \<Rightarrow> AdaptiveSessionDTO" where
  "to_adaptive_session_dto a = (let s = ag_state a in
     \<lparr>asd_session_id = get_or (as_session_id s) [], asd_skill_id = get_or (as_skill_id s) JAVA_BACKEND,
      asd_difficulty = get_or (as_difficulty s) MID, asd_turn_count = get_or (as_turn_count s) 0,
      asd_max_turns = get_or (as_max_turns s) 6,
      asd_current_question = (if get_or (as_finished s) False then None else question_dto s),
      asd_finished = get_or (as_finished s) False,
      asd_category_scores = map (\<lambda>(k, v). (k, average v)) (filter (\<lambda>(k, v). v \<noteq> []) (get_or (as_category_scores s) [])),
      asd_decision_trace = as_decision_trace s, asd_pending_approval = ag_pending a\<rparr>)"

definition answer_result :: "pystr \<Rightarrow> AgentSession \<Rightarrow> AdaptiveAnswerResultDTO" where
  "answer_result old_difficulty a =
     (let s = ag_state a; new = get_or (as_difficulty s) MID; qa = get_or (as_qa_history s) [] in
      \<lparr>aad_score = (if qa = [] then None else qr_score (last qa)),
       aad_feedback = (if qa = [] then None else qr_feedback (last qa)),
       aad_next_question = (if get_or (as_finished s) False \<or> ag_pending a \<noteq> None then None else question_dto s),
       aad_finished = get_or (as_finished s) False, aad_difficulty_changed = (new \<noteq> old_difficulty),
       aad_new_difficulty = (if new \<noteq> old_difficulty then Some new else None), aad_pending_approval = ag_pending a\<rparr>)"

definition move_to_end :: "'k \<Rightarrow> ('k, 'v) dict \<Rightarrow> ('k, 'v) dict" where
  "move_to_end k d = filter (\<lambda>p. fst p \<noteq> k) d @ filter (\<lambda>p. fst p = k) d"

definition cache_state :: "pystr \<Rightarrow> AgentSession \<Rightarrow> unit agent_op" where
  "cache_state sid a = op_modify (\<lambda>w. if aw_checkpoints w \<noteq> None then w
     else let cache = move_to_end sid (dict_set sid a (aw_cache w))
       in w\<lparr>aw_cache := (if length cache > MEMORY_CACHE_MAXSIZE then tl cache else cache)\<rparr>)"

definition get_agent_state :: "AgentServiceEnv \<Rightarrow> pystr \<Rightarrow> AgentSession agent_op" where
  "get_agent_state env sid = op_bind (op_get (\<lambda>w. w)) (\<lambda>w.
     let missing = op_raise (business_exception INTERVIEW_SESSION_NOT_FOUND (Some ([65, 103, 101, 110, 116, 32, 38754, 35797, 20250, 35805, 19981, 23384, 22312, 58, 32] @ sid))) in
     if aw_checkpoints w \<noteq> None then (case aget_state env sid w of Some a \<Rightarrow> op_return a | None \<Rightarrow> missing)
     else (case dict_get (aw_cache w) sid of
       Some a \<Rightarrow> op_then (op_modify (\<lambda>w. w\<lparr>aw_cache := move_to_end sid (aw_cache w)\<rparr>)) (op_return a)
     | None \<Rightarrow> missing))"

definition initial_agent_state :: "pystr \<Rightarrow> CreateAdaptiveSessionRequest \<Rightarrow> AdaptiveInterviewState" where
  "initial_agent_state sid req = \<lparr>as_session_id = Some sid, as_skill_id = Some (cas_skill_id req),
     as_difficulty = Some (cas_difficulty req), as_resume_text = Some (cas_resume_text req),
     as_max_turns = Some (cas_max_turns req), as_qa_history = Some [], as_category_scores = Some [], as_turn_count = Some 0,
     as_current_question = Some None, as_current_category = Some None, as_messages = Some [],
     as_agent_step_count = Some 0, as_finished = Some False, as_final_report = Some None, as_decision_trace = Some [],
     as_tool_messages = Some [], as_tool_effects = Some [], as_tool_call = None, as_tool_call_index = None\<rparr>"

definition create_adaptive_session :: "AgentServiceEnv \<Rightarrow> CreateAdaptiveSessionRequest \<Rightarrow> AdaptiveSessionDTO agent_op" where
  "create_adaptive_session env req = op_then
     (op_lift (if truthy_str (cas_llm_provider req) then sv_resolve env (or_str (cas_llm_provider req) []) else Inr ()))
     (op_then (op_lift (sv_chat_client env))
     (op_bind (run_next_turn env (initial_agent_state (sv_uuid env) req) None (sv_uuid env)) (\<lambda>a.
        op_then (cache_state (sv_uuid env) a) (op_return (to_adaptive_session_dto a)))))"

definition get_adaptive_session :: "AgentServiceEnv \<Rightarrow> pystr \<Rightarrow> AdaptiveSessionDTO agent_op" where
  "get_adaptive_session env sid = op_bind (get_agent_state env sid) (\<lambda>a. op_return (to_adaptive_session_dto a))"

text \<open>The guard of a finished interview, and the copy of the state with the new answer.\<close>

definition open_session :: "AgentServiceEnv \<Rightarrow> pystr \<Rightarrow> AgentSession agent_op" where
  "open_session env sid = op_bind (get_agent_state env sid) (\<lambda>a.
     if get_or (as_finished (ag_state a)) False
     then op_raise (business_exception INTERVIEW_ALREADY_COMPLETED (Some [38754, 35797, 24050, 32467, 26463])) else op_return a)"

definition add_answer :: "pystr \<Rightarrow> AdaptiveInterviewState \<Rightarrow> AdaptiveInterviewState" where
  "add_answer answer s = s\<lparr>as_qa_history := Some (get_or (as_qa_history s) [] @
     [\<lparr>qr_question_index = get_or (as_turn_count s) 0, qr_question = Some (or_text (get_or (as_current_question s) None) []),
       qr_category = Some (or_text (get_or (as_current_category s) None) GENERAL),
       qr_difficulty = Some (get_or (as_difficulty s) MID), qr_answer = Some answer, qr_score = None, qr_feedback = None\<rparr>])\<rparr>"

definition submit_adaptive_answer :: "AgentServiceEnv \<Rightarrow> pystr \<Rightarrow> pystr \<Rightarrow> AdaptiveAnswerResultDTO agent_op" where
  "submit_adaptive_answer env sid answer = op_bind (open_session env sid) (\<lambda>a.
     op_then (op_lift (sv_chat_client env))
     (op_bind (run_next_turn env (add_answer answer (ag_state a)) (Some answer) sid) (\<lambda>a'.
        op_then (cache_state sid a') (op_return (answer_result (get_or (as_difficulty (ag_state a)) MID) a')))))"

definition resume_adaptive_session :: "AgentServiceEnv \<Rightarrow> pystr \<Rightarrow> bool \<Rightarrow> AdaptiveAnswerResultDTO agent_op" where
  "resume_adaptive_session env sid approved = op_bind (open_session env sid) (\<lambda>a.
     if ag_pending a = None then op_raise (business_exception BAD_REQUEST (Some [20250, 35805, 24403, 21069, 19981, 22312, 24453, 30830, 35748, 29366, 24577]))
     else op_then (op_lift (sv_chat_client env))
     (op_bind (resume_turn env sid approved) (\<lambda>a'.
        op_then (cache_state sid a') (op_return (answer_result (get_or (as_difficulty (ag_state a)) MID) a')))))"

text \<open>The events of the graph are passed on; the last becomes the result, without a pending approval.\<close>

definition final_of :: "StreamEvent list \<Rightarrow> AgentSession option" where
  "final_of evs = (case last evs of SE_Final a \<Rightarrow> Some a | _ \<Rightarrow> None)"

definition stream_adaptive_answer :: "AgentServiceEnv \<Rightarrow> pystr \<Rightarrow> pystr \<Rightarrow> (StreamEvent list \<times> AdaptiveAnswerResultDTO option) agent_op" where
  "stream_adaptive_answer env sid answer = op_bind (open_session env sid) (\<lambda>a.
     op_then (op_lift (sv_chat_client env))
     (op_bind (stream_next_turn env (a\<lparr>ag_state := add_answer answer (ag_state a)\<rparr>) (Some answer) sid) (\<lambda>evs.
        case final_of evs of
          None \<Rightarrow> op_return (evs, None)
        | Some a' \<Rightarrow> op_then (cache_state sid a') (op_return (butlast evs,
            Some (answer_result (get_or (as_difficulty (ag_state a)) MID) (a'\<lparr>ag_pending := None\<rparr>)))))))"

definition get_adaptive_report :: "AgentServiceEnv \<Rightarrow> pystr \<Rightarrow> AdaptiveReport agent_op" where
  "get_adaptive_report env sid = op_bind (get_agent_state env sid) (\<lambda>a.
     op_return (case get_or (as_final_report (ag_state a)) None of
       Some report \<Rightarrow> report | None \<Rightarrow> build_adaptive_report sid (ag_state a)))"


section \<open>Every stored session is finished or waits for approval\<close>

definition snap_ok :: "Snapshot \<Rightarrow> bool" where
  "snap_ok sn \<longleftrightarrow> (if sn_requests sn = [] then sn_tasks sn = [] \<and> ended_well (sn_values sn)
     else turn_valid False (G_Tools (sn_tasks sn), sn_values sn))"

definition world_ok :: "AgentWorld \<Rightarrow> bool" where
  "world_ok w \<longleftrightarrow> (case aw_checkpoints w of None \<Rightarrow> False
     | Some cps \<Rightarrow> \<forall>sid sn. dict_get cps sid = Some sn \<longrightarrow> snap_ok sn)"

text \<open>
  What the code relies on: the recursion limit of LangGraph is not below the steps of a turn, and
  a thread that was never run reads as nothing or as a state without keys.
\<close>

definition empty_snapshot :: Snapshot where
  "empty_snapshot = \<lparr>sn_values = no_state, sn_tasks = [], sn_requests = []\<rparr>"

definition runtime_ok :: "AgentServiceEnv \<Rightarrow> bool" where
  "runtime_ok env \<longleftrightarrow> 93 \<le> sv_recursion_limit env \<and> (sv_unknown env = None \<or> sv_unknown env = Some empty_snapshot)"

text \<open>What a turn leaves for its caller.\<close>

definition settled :: "AgentSession \<Rightarrow> bool" where
  "settled a \<longleftrightarrow> (if ag_pending a = None then as_finished (ag_state a) = Some True else as_finished (ag_state a) = Some False)"

lemma head_request_None [simp]: "head_request rs = None \<longleftrightarrow> rs = []"
  by (simp add: head_request_def split: list.splits)

lemma snap_settled: "snap_ok sn \<Longrightarrow> settled (session_of_snapshot sn)"
  by (auto simp: snap_ok_def settled_def session_of_snapshot_def ended_well_def going_def split: if_splits)

lemma outcome_ok: "turn_good False (Inr t) \<Longrightarrow> snap_ok (outcome_snapshot t)"
  by (cases t) (auto simp: snap_ok_def outcome_snapshot_def)

lemma world_ok_set: "world_ok w \<Longrightarrow> snap_ok sn \<Longrightarrow>
    world_ok (w\<lparr>aw_checkpoints := map_option (dict_set sid sn) (aw_checkpoints w)\<rparr>)"
  by (auto simp: world_ok_def split: option.splits)

lemma cache_quiet: "world_ok w \<Longrightarrow> cache_state sid a w = (Inr (), w)"
  by (auto simp: cache_state_def world_ok_def op_simps split: option.splits)

lemma get_agent_state_checkpoint:
  "world_ok w \<Longrightarrow> get_agent_state env sid w = (case aget_state env sid w of
     Some a \<Rightarrow> (Inr a, w)
   | None \<Rightarrow> (Inl (business_exception INTERVIEW_SESSION_NOT_FOUND (Some ([65, 103, 101, 110, 116, 32, 38754, 35797, 20250, 35805, 19981, 23384, 22312, 58, 32] @ sid))), w))"
  by (auto simp: world_ok_def get_agent_state_def op_simps Let_def split: option.splits)

text \<open>The state a turn starts from.\<close>

definition base_values :: "pystr \<Rightarrow> AgentWorld \<Rightarrow> AdaptiveInterviewState" where
  "base_values sid w = (case aw_checkpoints w of None \<Rightarrow> fresh_state
     | Some cps \<Rightarrow> (case dict_get cps sid of None \<Rightarrow> fresh_state | Some sn \<Rightarrow> sn_values sn))"

lemma base_ok:
  assumes "world_ok w"
  shows "memory_typed (base_values sid w)" "no_results (base_values sid w)"
proof -
  have "memory_typed fresh_state" "no_results fresh_state"
    by (simp_all add: memory_typed_def no_results_def fresh_state_def no_state_def qa_ok_def scores_ok_def Let_def)
  then show "memory_typed (base_values sid w)" "no_results (base_values sid w)"
    using assms by (auto simp: world_ok_def base_values_def snap_ok_def ended_well_def split: option.splits if_splits)
qed

lemma input_valid:
  assumes "world_ok w" "qa_ok (get_or (as_qa_history s) [])" "as_qa_history s \<noteq> None"
    "as_tool_messages s = None \<or> as_tool_messages s = Some []" "as_tool_effects s = None \<or> as_tool_effects s = Some []"
    "(as_category_scores s = Some [] \<and> as_turn_count s = Some 0) \<or>
     (get_or (as_category_scores s) [] = get_or (as_category_scores (base_values sid w)) []
       \<and> get_or (as_turn_count s) 0 = get_or (as_turn_count (base_values sid w)) 0)"
  shows "turn_valid False (G_Init, turn_input sid s answer w)"
proof -
  let ?b = "base_values sid w"
  have t: "turn_input sid s answer w = write_state ?b (input_update (with_user_message answer s))"
    by (simp add: turn_input_def base_values_def Let_def)
  have same: "as_qa_history (with_user_message answer s) = as_qa_history s"
    "as_category_scores (with_user_message answer s) = as_category_scores s"
    "as_turn_count (with_user_message answer s) = as_turn_count s"
    "as_tool_messages (with_user_message answer s) = as_tool_messages s" "as_tool_effects (with_user_message answer s) = as_tool_effects s"
    by (simp_all add: with_user_message_def split: option.splits)
  let ?w = "write_state ?b (input_update (with_user_message answer s))"
  have w: "as_qa_history ?w = or_else (as_qa_history s) (as_qa_history ?b)"
    "as_category_scores ?w = or_else (as_category_scores s) (as_category_scores ?b)"
    "as_turn_count ?w = or_else (as_turn_count s) (as_turn_count ?b)"
    by (simp_all add: write_state_def input_update_def Let_def same)
  have qa: "get_or (as_qa_history ?w) [] = get_or (as_qa_history s) []" using assms(3) by (auto simp: w)
  have memory: "memory_typed ?w"
    using assms(6)
  proof
    assume "as_category_scores s = Some [] \<and> as_turn_count s = Some 0"
    with assms(2) show ?thesis unfolding memory_typed_def qa by (simp add: w scores_ok_def)
  next
    assume e: "get_or (as_category_scores s) [] = get_or (as_category_scores ?b) [] \<and> get_or (as_turn_count s) 0 = get_or (as_turn_count ?b) 0"
    have "get_or (as_category_scores ?w) [] = get_or (as_category_scores ?b) []" "get_or (as_turn_count ?w) 0 = get_or (as_turn_count ?b) 0"
      using e by (cases "as_category_scores s"; cases "as_turn_count s"; simp add: w)+
    with assms(2) base_ok(1) [OF assms(1), of sid] show ?thesis unfolding memory_typed_def qa by (simp add: Let_def)
  qed
  have b: "as_tool_messages ?b = Some []" "as_tool_effects ?b = Some []"
    using base_ok(2) [OF assms(1), of sid] by (simp_all add: no_results_def)
  have r: "as_tool_messages ?w = reduce (as_tool_messages ?b) (map_option A_List (as_tool_messages s))"
    "as_tool_effects ?w = reduce (as_tool_effects ?b) (map_option A_List (as_tool_effects s))"
    by (simp_all add: write_state_def input_update_def Let_def same)
  have "as_tool_messages ?w = Some []" unfolding r b using assms(4) by (auto simp: reduce_def)
  moreover have "as_tool_effects ?w = Some []" unfolding r b using assms(5) by (auto simp: reduce_def)
  ultimately have "no_results ?w" by (simp add: no_results_def)
  with memory show ?thesis by (simp add: t)
qed

lemma loaded_values:
  assumes "world_ok w" "runtime_ok env" "aget_state env sid w = Some a"
  shows "qa_ok (get_or (as_qa_history (ag_state a)) [])"
    "as_tool_messages (ag_state a) = None \<or> as_tool_messages (ag_state a) = Some []"
    "as_tool_effects (ag_state a) = None \<or> as_tool_effects (ag_state a) = Some []"
    "get_or (as_category_scores (ag_state a)) [] = get_or (as_category_scores (base_values sid w)) []"
    "get_or (as_turn_count (ag_state a)) 0 = get_or (as_turn_count (base_values sid w)) 0"
proof -
  obtain cps where cps: "aw_checkpoints w = Some cps" using assms(1) by (auto simp: world_ok_def split: option.splits)
  have "ag_state a = base_values sid w \<or> (ag_state a = no_state \<and> base_values sid w = fresh_state)"
  proof (cases "dict_get cps sid")
    case None
    with assms(2,3) cps show ?thesis
      by (auto simp: aget_state_def find_snapshot_def session_of_snapshot_def runtime_ok_def empty_snapshot_def base_values_def)
  next
    case (Some sn)
    with assms(3) cps show ?thesis
      by (auto simp: aget_state_def find_snapshot_def session_of_snapshot_def base_values_def)
  qed
  then have "qa_ok (get_or (as_qa_history (ag_state a)) [])
    \<and> (as_tool_messages (ag_state a) = None \<or> as_tool_messages (ag_state a) = Some [])
    \<and> (as_tool_effects (ag_state a) = None \<or> as_tool_effects (ag_state a) = Some [])
    \<and> get_or (as_category_scores (ag_state a)) [] = get_or (as_category_scores (base_values sid w)) []
    \<and> get_or (as_turn_count (ag_state a)) 0 = get_or (as_turn_count (base_values sid w)) 0"
  proof (elim disjE conjE)
    assume "ag_state a = base_values sid w"
    with base_ok [OF assms(1), of sid] show ?thesis by (simp add: memory_typed_def no_results_def Let_def)
  next
    assume "ag_state a = no_state" "base_values sid w = fresh_state"
    then show ?thesis by (simp add: fresh_state_def no_state_def qa_ok_def)
  qed
  then show "qa_ok (get_or (as_qa_history (ag_state a)) [])"
    "as_tool_messages (ag_state a) = None \<or> as_tool_messages (ag_state a) = Some []"
    "as_tool_effects (ag_state a) = None \<or> as_tool_effects (ag_state a) = Some []"
    "get_or (as_category_scores (ag_state a)) [] = get_or (as_category_scores (base_values sid w)) []"
    "get_or (as_turn_count (ag_state a)) 0 = get_or (as_turn_count (base_values sid w)) 0"
    by simp_all
qed

lemma answer_valid:
  assumes "world_ok w" "runtime_ok env" "aget_state env sid w = Some a"
  shows "turn_valid False (G_Init, turn_input sid (add_answer answer (ag_state a)) answer' w)"
  using loaded_values [OF assms] assms(1)
  by (intro input_valid) (auto simp: add_answer_def qa_ok_def)

lemma create_valid: "world_ok w \<Longrightarrow> turn_valid False (G_Init, turn_input sid (initial_agent_state sid req) None w)"
  by (intro input_valid) (simp_all add: initial_agent_state_def qa_ok_def)


lemma save_outcome_ok:
  assumes "world_ok w" "turn_good False (Inr t)"
  shows "\<exists>a w'. save_outcome sid t w = (Inr a, w') \<and> world_ok w' \<and> settled a"
  using world_ok_set [OF assms(1) outcome_ok [OF assms(2)]] snap_settled [OF outcome_ok [OF assms(2)]]
  by (simp add: save_outcome_def op_simps)

lemma run_ok:
  assumes "turn_valid False c" "turn_rank c < 93" "runtime_ok env"
  shows "\<exists>t. run_agent (sv_agent env) (sv_recursion_limit env) c = Inr t \<and> turn_good False (Inr t)"
proof -
  have "turn_rank c < sv_recursion_limit env" using assms(2,3) by (simp add: runtime_ok_def)
  from agent.run_good [OF assms(1) this, of "sv_agent env"] show ?thesis
    by (cases "run_agent (sv_agent env) (sv_recursion_limit env) c") (simp_all add: run_agent_def)
qed

lemma run_next_ok:
  assumes "world_ok w" "runtime_ok env" "turn_valid False (G_Init, turn_input sid s answer w)"
  shows "\<exists>a w'. run_next_turn env s answer sid w = (Inr a, w') \<and> world_ok w' \<and> settled a"
proof -
  from run_ok [OF assms(3) _ assms(2)] obtain t where
    "run_agent (sv_agent env) (sv_recursion_limit env) (G_Init, turn_input sid s answer w) = Inr t" "turn_good False (Inr t)"
    by auto
  with save_outcome_ok [OF assms(1), of t sid] show ?thesis by (simp add: run_next_turn_def op_simps)
qed

lemma resume_valid:
  assumes "snap_ok sn" "i \<in> set (pending_tasks (sn_tasks sn))"
  shows "turn_valid False (G_Tools ((sn_tasks sn)[i := (sn_tasks sn ! i)\<lparr>tk_resume := Some b\<rparr>]), sn_values sn)"
    "turn_rank (G_Tools ((sn_tasks sn)[i := (sn_tasks sn ! i)\<lparr>tk_resume := Some b\<rparr>]), sn_values sn) < 93"
proof -
  have i: "i < length (sn_tasks sn)" using assms(2) by (auto simp: pending_tasks_def in_set_enumerate_eq)
  then have v: "turn_valid False (G_Tools (sn_tasks sn), sn_values sn)" using assms(1) by (auto simp: snap_ok_def split: if_splits)
  then show "turn_valid False (G_Tools ((sn_tasks sn)[i := (sn_tasks sn ! i)\<lparr>tk_resume := Some b\<rparr>]), sn_values sn)"
    using i by (auto simp: list_all_length nth_list_update task_ok_def)
  show "turn_rank (G_Tools ((sn_tasks sn)[i := (sn_tasks sn ! i)\<lparr>tk_resume := Some b\<rparr>]), sn_values sn) < 93"
    using v by (auto simp: going_def MAX_AGENT_STEPS_def nat_less_iff)
qed

lemma resume_ok:
  assumes "world_ok w" "runtime_ok env"
  shows "(\<exists>e. resume_turn env sid b w = (Inl e, w)) \<or> (\<exists>a w'. resume_turn env sid b w = (Inr a, w') \<and> world_ok w' \<and> settled a)"
proof -
  obtain cps where cps: "aw_checkpoints w = Some cps" "\<And>sid sn. dict_get cps sid = Some sn \<Longrightarrow> snap_ok sn"
    using assms(1) by (auto simp: world_ok_def split: option.splits)
  show ?thesis
  proof (cases "dict_get cps sid")
    case None
    with cps show ?thesis by (simp add: resume_turn_def op_simps)
  next
    case (Some sn)
    show ?thesis
    proof (cases "sv_target env (pending_tasks (sn_tasks sn))")
      case None
      with Some cps show ?thesis by (simp add: resume_turn_def op_simps)
    next
      case i: (Some i)
      show ?thesis
      proof (cases "i \<in> set (pending_tasks (sn_tasks sn))")
        case False
        with i Some cps show ?thesis by (simp add: resume_turn_def op_simps)
      next
        case True
        from run_ok [OF resume_valid [OF cps(2) [OF Some] True] assms(2), of b] obtain t where
          "run_agent (sv_agent env) (sv_recursion_limit env)
             (G_Tools ((sn_tasks sn)[i := (sn_tasks sn ! i)\<lparr>tk_resume := Some b\<rparr>]), sn_values sn) = Inr t" "turn_good False (Inr t)"
          by auto
        with save_outcome_ok [OF assms(1), of t sid] True i Some cps(1) show ?thesis by (simp add: resume_turn_def op_simps)
      qed
    qed
  qed
qed

lemma stream_ok:
  assumes "world_ok w" "runtime_ok env" "turn_valid False (G_Init, turn_input sid (ag_state a) answer w)"
  shows "\<exists>evs w'. stream_next_turn env a answer sid w = (Inr evs, w') \<and> world_ok w'"
proof -
  from run_ok [OF assms(3) _ assms(2)] obtain t where
    t: "run_agent (sv_agent env) (sv_recursion_limit env) (G_Init, turn_input sid (ag_state a) answer w) = Inr t" "turn_good False (Inr t)"
    by auto
  from save_outcome_ok [OF assms(1) t(2), of sid] obtain a' w' where "save_outcome sid t w = (Inr a', w')" "world_ok w'" by auto
  with t(1) show ?thesis by (simp add: stream_next_turn_def op_simps)
qed

text \<open>Requests, each with the environment it meets.\<close>

datatype AgentRequest =
    AR_Create CreateAdaptiveSessionRequest
  | AR_Get pystr
  | AR_Submit pystr pystr
  | AR_Resume pystr bool
  | AR_Stream pystr pystr
  | AR_Report pystr

definition as_unit :: "'a agent_op \<Rightarrow> unit agent_op" where
  "as_unit m = op_bind m (\<lambda>_. op_return ())"

fun agent_exec :: "AgentServiceEnv \<Rightarrow> AgentRequest \<Rightarrow> unit agent_op" where
  "agent_exec env (AR_Create req) = as_unit (create_adaptive_session env req)"
| "agent_exec env (AR_Get sid) = as_unit (get_adaptive_session env sid)"
| "agent_exec env (AR_Submit sid answer) = as_unit (submit_adaptive_answer env sid answer)"
| "agent_exec env (AR_Resume sid b) = as_unit (resume_adaptive_session env sid b)"
| "agent_exec env (AR_Stream sid answer) = as_unit (stream_adaptive_answer env sid answer)"
| "agent_exec env (AR_Report sid) = as_unit (get_adaptive_report env sid)"

fun agent_run :: "(AgentServiceEnv \<times> AgentRequest) list \<Rightarrow> AgentWorld \<Rightarrow> AgentWorld" where
  "agent_run [] w = w"
| "agent_run ((env, r) # rs) w = agent_run rs (snd (agent_exec env r w))"

lemma open_session_cases:
  assumes "world_ok w"
  obtains (refused) e where "open_session env sid w = (Inl e, w)"
  | (opened) a where "aget_state env sid w = Some a" "\<not> get_or (as_finished (ag_state a)) False" "open_session env sid w = (Inr a, w)"
proof (cases "aget_state env sid w")
  case None
  with assms refused show ?thesis by (simp add: open_session_def op_simps get_agent_state_checkpoint)
next
  case (Some a)
  with assms refused opened show ?thesis
    by (cases "get_or (as_finished (ag_state a)) False") (simp_all add: open_session_def op_simps get_agent_state_checkpoint)
qed

lemma snd_as_unit [simp]: "snd (as_unit m w) = snd (m w)"
  by (simp add: as_unit_def op_simps split: sum.splits prod.splits)

lemma agent_exec_ok:
  assumes w: "world_ok w" and env: "runtime_ok env"
  shows "world_ok (snd (agent_exec env r w))"
proof (cases r)
  case (AR_Create req)
  from run_next_ok [OF w env create_valid [OF w], of "sv_uuid env" req] obtain a w' where
    "run_next_turn env (initial_agent_state (sv_uuid env) req) None (sv_uuid env) w = (Inr a, w')" "world_ok w'" by auto
  then show ?thesis
    using w by (cases "sv_chat_client env")
      (auto simp: AR_Create create_adaptive_session_def op_simps cache_quiet split: sum.splits prod.splits)
next
  case (AR_Get sid)
  then show ?thesis
    using w by (simp add: get_adaptive_session_def op_simps get_agent_state_checkpoint split: option.splits)
next
  case (AR_Submit sid answer)
  from w show ?thesis
  proof (cases rule: open_session_cases [where env = env and sid = sid])
    case (opened a)
    from run_next_ok [OF w env answer_valid [OF w env opened(1)]] obtain a' w' where
      "run_next_turn env (add_answer answer (ag_state a)) (Some answer) sid w = (Inr a', w')" "world_ok w'" by blast
    then show ?thesis
      using w opened by (cases "sv_chat_client env") (auto simp: AR_Submit submit_adaptive_answer_def op_simps cache_quiet)
  qed (simp add: AR_Submit submit_adaptive_answer_def op_simps w)
next
  case (AR_Resume sid b)
  from w show ?thesis
  proof (cases rule: open_session_cases [where env = env and sid = sid])
    case (opened a)
    then show ?thesis
      using w resume_ok [OF w env, of sid b]
      by (cases "sv_chat_client env") (auto simp: AR_Resume resume_adaptive_session_def op_simps cache_quiet)
  qed (simp add: AR_Resume resume_adaptive_session_def op_simps w)
next
  case (AR_Stream sid answer)
  from w show ?thesis
  proof (cases rule: open_session_cases [where env = env and sid = sid])
    case (opened a)
    let ?a = "a\<lparr>ag_state := add_answer answer (ag_state a)\<rparr>"
    have "turn_valid False (G_Init, turn_input sid (ag_state ?a) (Some answer) w)"
      using answer_valid [OF w env opened(1)] by simp
    from stream_ok [OF w env this] obtain evs w' where
      "stream_next_turn env ?a (Some answer) sid w = (Inr evs, w')" "world_ok w'" by auto
    then show ?thesis
      using w opened
      by (cases "sv_chat_client env")
        (auto simp: AR_Stream stream_adaptive_answer_def op_simps cache_quiet split: option.splits)
  qed (simp add: AR_Stream stream_adaptive_answer_def op_simps w)
next
  case (AR_Report sid)
  then show ?thesis
    using w by (simp add: get_adaptive_report_def op_simps get_agent_state_checkpoint split: option.splits)
qed

lemma agent_run_ok: "world_ok w \<Longrightarrow> list_all (\<lambda>er. runtime_ok (fst er)) rs \<Longrightarrow> world_ok (agent_run rs w)"
  by (induction rs w rule: agent_run.induct) (simp_all add: agent_exec_ok)


definition empty_agent_world :: AgentWorld where
  "empty_agent_world = \<lparr>aw_checkpoints = Some [], aw_cache = []\<rparr>"

lemma empty_agent_world_ok: "world_ok empty_agent_world"
  by (simp add: world_ok_def empty_agent_world_def)

lemma mean_score_ok:
  assumes "list_all score_ok xs" "xs \<noteq> []"
  shows "score_ok (mean_score xs)"
proof -
  have "0 \<le> sum_list xs \<and> sum_list xs \<le> 10 * int (length xs)"
    using assms(1) by (induction xs) (auto simp: score_ok_def)
  moreover have "0 < int (length xs)" using assms(2) by simp
  ultimately show ?thesis
    using py_trunc_div_bounds [of "int (length xs)" 0 "sum_list xs" 10] by (simp add: mean_score_def score_ok_def mult.commute)
qed

lemma report_scores:
  assumes "memory_typed s"
  shows "score_ok (ar_overall_score (build_adaptive_report sid s))"
    "list_all (\<lambda>kv. score_ok (snd kv)) (ar_category_scores (build_adaptive_report sid s))"
proof -
  let ?xs = "List.map_filter qr_score (get_or (as_qa_history s) [])"
  have "list_all score_ok (List.map_filter qr_score qa)" if "qa_ok qa" for qa
    using that by (auto simp: qa_ok_def list_all_iff map_filter_def)
  then have "list_all score_ok ?xs" using assms by (simp add: memory_typed_def Let_def)
  moreover have "score_ok 0" by (simp add: score_ok_def)
  ultimately show "score_ok (ar_overall_score (build_adaptive_report sid s))"
    by (simp add: build_adaptive_report_def Let_def mean_score_ok)
  show "list_all (\<lambda>kv. score_ok (snd kv)) (ar_category_scores (build_adaptive_report sid s))"
    using assms by (auto simp: build_adaptive_report_def Let_def memory_typed_def scores_ok_def list_all_iff intro!: mean_score_ok)
qed

text \<open>
  C7. Whatever requests arrive, in whatever order and whatever the model answers, every stored
  interview is well typed: scores lie between 0 and 10, the turns counted are the scores given,
  an interview that waits for no approval is finished and has a report of its own memory with
  all scores between 0 and 10, and one that waits is not finished.
\<close>
theorem agent_sessions_typed:
  assumes "list_all (\<lambda>er. runtime_ok (fst er)) rs" "aw_checkpoints (agent_run rs empty_agent_world) = Some cps"
    "dict_get cps sid = Some sn"
  shows "memory_typed (sn_values sn) \<and>
    (if sn_requests sn = [] then as_finished (sn_values sn) = Some True \<and>
       (\<exists>report. as_final_report (sn_values sn) = Some (Some report) \<and> score_ok (ar_overall_score report)
          \<and> list_all (\<lambda>kv. score_ok (snd kv)) (ar_category_scores report)
          \<and> ar_questions report = get_or (as_qa_history (sn_values sn)) [])
     else as_finished (sn_values sn) = Some False)"
proof -
  have "world_ok (agent_run rs empty_agent_world)" using assms(1) by (intro agent_run_ok empty_agent_world_ok)
  with assms(2,3) have "snap_ok sn" by (simp add: world_ok_def)
  then show ?thesis
    by (auto simp: snap_ok_def ended_well_def going_def report_scores split: if_splits)
      (simp add: build_adaptive_report_def Let_def)
qed

definition sample_agent_service :: AgentServiceEnv where
  "sample_agent_service = \<lparr>sv_agent = sample_agent_env\<lparr>ae_decide := \<lambda>ms. Inl TimeoutError\<rparr>, sv_recursion_limit = 1000,
     sv_uuid = [97], sv_resolve = (\<lambda>n. Inr ()), sv_chat_client = Inr (), sv_unknown = None,
     sv_target = (\<lambda>is. case is of [] \<Rightarrow> None | i # rest \<Rightarrow> Some i), sv_events = (\<lambda>t. [])\<rparr>"

definition sample_agent_request :: CreateAdaptiveSessionRequest where
  "sample_agent_request = \<lparr>cas_skill_id = [106], cas_difficulty = MID, cas_resume_text = [], cas_max_turns = 6, cas_llm_provider = None\<rparr>"

text \<open>One request in an empty world creates a session, which the checkpointer then knows.\<close>

lemma sample_agent_session:
  "\<exists>cps sn. aw_checkpoints (agent_run [(sample_agent_service, AR_Create sample_agent_request)] empty_agent_world) = Some cps
     \<and> dict_get cps [97] = Some sn"
proof -
  have env: "runtime_ok sample_agent_service" by (simp add: runtime_ok_def sample_agent_service_def)
  note v = create_valid [OF empty_agent_world_ok, of "[97]" sample_agent_request]
  from run_ok [OF v _ env] obtain t where
    t: "run_agent (sv_agent sample_agent_service) (sv_recursion_limit sample_agent_service)
      (G_Init, turn_input [97] (initial_agent_state [97] sample_agent_request) None empty_agent_world) = Inr t" by auto
  then have "aw_checkpoints (agent_run [(sample_agent_service, AR_Create sample_agent_request)] empty_agent_world) = Some [([97], outcome_snapshot t)]"
    by (simp add: create_adaptive_session_def run_next_turn_def save_outcome_def op_simps cache_state_def
        sample_agent_service_def sample_agent_request_def empty_agent_world_def)
  then show ?thesis by simp
qed

lemma agent_sessions_typed_witness:
  "\<exists>cps sn. aw_checkpoints (agent_run [(sample_agent_service, AR_Create sample_agent_request)] empty_agent_world) = Some cps
     \<and> dict_get cps [97] = Some sn \<and> memory_typed (sn_values sn)"
  using sample_agent_session agent_sessions_typed [of "[(sample_agent_service, AR_Create sample_agent_request)]"]
  by (fastforce simp: runtime_ok_def sample_agent_service_def)

lemma answer_result_settled: "settled a \<Longrightarrow> aad_next_question (answer_result d a) = None
    \<and> aad_finished (answer_result d a) = (aad_pending_approval (answer_result d a) = None)"
  by (auto simp: settled_def answer_result_def Let_def split: if_splits)


lemma submit_settles:
  assumes w: "world_ok w" and env: "runtime_ok env" and r: "fst (submit_adaptive_answer env sid answer w) = Inr r"
  shows "\<exists>a. aget_state env sid w = Some a \<and> \<not> get_or (as_finished (ag_state a)) False"
    "aad_next_question r = None \<and> aad_finished r = (aad_pending_approval r = None)"
proof -
  from w have "(\<exists>a. aget_state env sid w = Some a \<and> \<not> get_or (as_finished (ag_state a)) False)
    \<and> aad_next_question r = None \<and> aad_finished r = (aad_pending_approval r = None)"
  proof (cases rule: open_session_cases [where env = env and sid = sid])
    case (refused e)
    with r show ?thesis by (simp add: submit_adaptive_answer_def op_simps)
  next
    case (opened a)
    from run_next_ok [OF w env answer_valid [OF w env opened(1)]] obtain a' w' where
      n: "run_next_turn env (add_answer answer (ag_state a)) (Some answer) sid w = (Inr a', w')" "world_ok w'" "settled a'" by blast
    have eq: "r = answer_result (get_or (as_difficulty (ag_state a)) MID) a'"
      using r opened n(1,2) by (cases "sv_chat_client env") (auto simp: submit_adaptive_answer_def op_simps cache_quiet)
    show ?thesis using answer_result_settled [OF n(3)] opened(1,2) unfolding eq by auto
  qed
  then show "\<exists>a. aget_state env sid w = Some a \<and> \<not> get_or (as_finished (ag_state a)) False"
    "aad_next_question r = None \<and> aad_finished r = (aad_pending_approval r = None)" by blast+
qed

lemma resume_settles:
  assumes w: "world_ok w" and env: "runtime_ok env" and r: "fst (resume_adaptive_session env sid b w) = Inr r"
  shows "\<exists>a. aget_state env sid w = Some a \<and> \<not> get_or (as_finished (ag_state a)) False"
    "aad_next_question r = None \<and> aad_finished r = (aad_pending_approval r = None)"
proof -
  from w have "(\<exists>a. aget_state env sid w = Some a \<and> \<not> get_or (as_finished (ag_state a)) False)
    \<and> aad_next_question r = None \<and> aad_finished r = (aad_pending_approval r = None)"
  proof (cases rule: open_session_cases [where env = env and sid = sid])
    case (refused e)
    with r show ?thesis by (simp add: resume_adaptive_session_def op_simps)
  next
    case (opened a)
    from resume_ok [OF w env, of sid b] r opened obtain a' where
      a': "settled a'" and eq: "r = answer_result (get_or (as_difficulty (ag_state a)) MID) a'"
      by (cases "sv_chat_client env") (auto simp: resume_adaptive_session_def op_simps cache_quiet split: if_splits)
    show ?thesis using answer_result_settled [OF a'] opened(1,2) unfolding eq by auto
  qed
  then show "\<exists>a. aget_state env sid w = Some a \<and> \<not> get_or (as_finished (ag_state a)) False"
    "aad_next_question r = None \<and> aad_finished r = (aad_pending_approval r = None)" by blast+
qed


text \<open>A model that asks a question: the session pauses, and an answer sent then is accepted.\<close>

definition asking_service :: AgentServiceEnv where
  "asking_service = sample_agent_service\<lparr>sv_agent := sample_agent_env\<rparr>"

lemma init_context_fields:
  "init_context env s = Inr u \<Longrightarrow> as_agent_step_count (write_state s u) = Some 0 \<and> as_finished (write_state s u) = Some False
     \<and> as_category_scores (write_state s u) = as_category_scores s \<and> as_turn_count (write_state s u) = as_turn_count s
     \<and> as_max_turns (write_state s u) = as_max_turns s"
  by (auto simp: init_context_def res_map_Inr_iff Let_def write_simps)

lemma asking_pauses:
  assumes "get_or (as_category_scores s) [] = []" "get_or (as_turn_count s) 0 = 0" "as_max_turns s = Some 6"
  shows "\<exists>reqs tasks s'. run_agent sample_agent_env 1000 (G_Init, s) = Inr (Paused reqs tasks s')"
proof -
  obtain summary where "scores_summary sample_agent_env (get_or (as_category_scores s) []) = Inr summary"
    using assms(1) by (simp add: scores_summary_def)
  then obtain u where u: "init_context sample_agent_env s = Inr u" by (simp add: init_context_def)
  note s = init_context_fields [OF u] assms
  let ?t = "\<lparr>tc_name = T_GENERATE, tc_args = [], tc_id = [49]\<rparr>"
  let ?s = "write_state s u"
  let ?reply = "\<lparr>ai_content = None, ai_tool_calls = [?t]\<rparr>"
  let ?s2 = "write_state ?s (call_update ?s ?reply)"
  have no_end: "\<not> py_contains END_SIGNAL []" by (simp add: END_SIGNAL_def)
  have decide: "ae_decide sample_agent_env ms = Inr ?reply" for ms by (simp add: sample_agent_env_def)
  have "agent_loop sample_agent_env ?s = call_update ?s ?reply"
    using s no_end by (simp add: agent_loop_def call_update_def decide MAX_AGENT_STEPS_def should_end_interview_def Let_def turn_defs)
  then have two: "superstep sample_agent_env (G_Agent, ?s) = Inr (Inl (G_Tools [new_task ?t], ?s2))"
    using s by (simp add: superstep_def Let_def route_agent_output_def call_update_def write_simps)
  obtain reqs tasks where "tools_superstep sample_agent_env [new_task ?t] ?s2 = Inr (Inr (Paused reqs tasks ?s2))"
    by (simp add: tools_superstep_outs task_out_def new_task_def run_tool_def dispatch_tool_def ask_question_def
        generate_question_impl_def sample_agent_env_def Let_def map_filter_simps)
  then have "superstep sample_agent_env (G_Tools [new_task ?t], ?s2) = Inr (Inr (Paused reqs tasks ?s2))" by (simp add: superstep_def)
  moreover have "superstep sample_agent_env (G_Init, s) = Inr (Inl (G_Agent, ?s))" by (simp add: superstep_def u)
  ultimately show ?thesis using two by (simp add: run_agent_def run_graph_step)
qed


end
