(* ===== verification/Llm_Registry.thy ===== *)
theory Llm_Registry
  imports Bytes Interview_Store
begin

text \<open>
  \<open>infrastructure/ai/encryption.py\<close>, \<open>llm_registry.py\<close>, \<open>embeddings.py\<close> and the rows and repositories
  of the model providers and the voice configuration: how a stored configuration becomes a client,
  and the cache of clients. AES-GCM and \<open>str.lower\<close> are parameters; a client is the record of the
  arguments it is built from. The time stamps of the rows, which nothing reads, are left out.
\<close>

section \<open>Encryption of API keys\<close>

text \<open>\<open>ke_seal\<close> and \<open>ke_open\<close> are \<open>AESGCM(key).encrypt\<close> and \<open>decrypt\<close> without associated data.\<close>

record KeyEnv =
  ke_raw_key :: pystr
  ke_seal :: "bytes \<Rightarrow> bytes \<Rightarrow> bytes \<Rightarrow> bytes result"
  ke_open :: "bytes \<Rightarrow> bytes \<Rightarrow> bytes \<Rightarrow> bytes result"

definition resolve_key :: "KeyEnv \<Rightarrow> bytes result" where
  "resolve_key env = (let trimmed = py_strip (ke_raw_key env) in
     if trimmed = [] then Inl (BusinessException PROVIDER_CONFIG_READ_FAILED [65, 80, 80, 95, 65, 73, 95, 67, 79, 78, 70, 73, 71, 95, 69, 78, 67, 82, 89, 80, 84, 73, 79, 78, 95, 75, 69, 89, 32, 26410, 37197, 32622, 65292, 26080, 27861, 21021, 22987, 21270, 32, 80, 114, 111, 118, 105, 100, 101, 114, 32, 65, 80, 73, 32, 75, 101, 121, 32, 21152, 23494])
     else (case b64decode trimmed of
       Inr decoded \<Rightarrow> if length decoded = 32 then Inr decoded
         else Inl (BusinessException PROVIDER_CONFIG_READ_FAILED [65, 80, 80, 95, 65, 73, 95, 67, 79, 78, 70, 73, 71, 95, 69, 78, 67, 82, 89, 80, 84, 73, 79, 78, 95, 75, 69, 89, 32, 24517, 39035, 26159, 32, 98, 97, 115, 101, 54, 52, 32, 32534, 30721, 30340, 32, 51, 50, 32, 23383, 33410, 23494, 38053])
     | Inl e \<Rightarrow> Inl (BusinessException PROVIDER_CONFIG_READ_FAILED [65, 80, 80, 95, 65, 73, 95, 67, 79, 78, 70, 73, 71, 95, 69, 78, 67, 82, 89, 80, 84, 73, 79, 78, 95, 75, 69, 89, 32, 24517, 39035, 26159, 32, 98, 97, 115, 101, 54, 52, 32, 32534, 30721, 30340, 32, 51, 50, 32, 23383, 33410, 23494, 38053])))"

text \<open>Other exceptions become one of the configuration.\<close>

definition rebrand :: "ErrorCode \<Rightarrow> pystr \<Rightarrow> 'a result \<Rightarrow> 'a result" where
  "rebrand c msg r = (case r of Inr x \<Rightarrow> Inr x
     | Inl (BusinessException k m) \<Rightarrow> Inl (BusinessException k m) | Inl e \<Rightarrow> Inl (BusinessException c msg))"

text \<open>The nonce is drawn anew for each encryption: an argument.\<close>

definition encrypt :: "KeyEnv \<Rightarrow> bytes \<Rightarrow> pystr \<Rightarrow> pystr result" where
  "encrypt env nonce plaintext = (if plaintext = [] then Inr [] else
     rebrand PROVIDER_CONFIG_WRITE_FAILED [21152, 23494, 32, 80, 114, 111, 118, 105, 100, 101, 114, 32, 65, 80, 73, 32, 75, 101, 121, 32, 22833, 36133]
       (res_bind (resolve_key env) (\<lambda>key. res_bind (utf8_encode plaintext) (\<lambda>data.
        res_bind (ke_seal env key nonce data) (\<lambda>ciphertext.
        Inr (b64encode nonce @ [58] @ b64encode ciphertext))))))"

text \<open>\<open>combined.split(':', 1)\<close> unpacked into two parts.\<close>

fun split_colon :: "pystr \<Rightarrow> (pystr \<times> pystr) result" where
  "split_colon [] = Inl (ValueError (ascii ''not enough values to unpack''))"
| "split_colon (c # cs) = (if c = 58 then Inr ([], cs) else res_map (\<lambda>(a, b). (c # a, b)) (split_colon cs))"

definition decrypt :: "KeyEnv \<Rightarrow> pystr \<Rightarrow> pystr result" where
  "decrypt env combined = (if combined = [] then Inr [] else
     rebrand PROVIDER_CONFIG_READ_FAILED [35299, 23494, 32, 80, 114, 111, 118, 105, 100, 101, 114, 32, 65, 80, 73, 32, 75, 101, 121, 32, 22833, 36133, 65292, 35831, 26816, 26597, 32, 65, 80, 80, 95, 65, 73, 95, 67, 79, 78, 70, 73, 71, 95, 69, 78, 67, 82, 89, 80, 84, 73, 79, 78, 95, 75, 69, 89]
       (res_bind (resolve_key env) (\<lambda>key. res_bind (split_colon combined) (\<lambda>(nonce_b64, ct_b64).
        res_bind (b64decode nonce_b64) (\<lambda>nonce. res_bind (b64decode ct_b64) (\<lambda>ciphertext.
        res_bind (ke_open env key nonce ciphertext) (\<lambda>plaintext. utf8_decode plaintext)))))))"

text \<open>What AES-GCM promises: opening with the key and nonce of the sealing gives the text back.\<close>

definition aead_ok :: "KeyEnv \<Rightarrow> bool" where
  "aead_ok env \<longleftrightarrow> (\<forall>key nonce data ct. length key = 32 \<longrightarrow> ke_seal env key nonce data = Inr ct \<longrightarrow> ke_open env key nonce ct = Inr data)"

lemma split_colon_at: "58 \<notin> set a \<Longrightarrow> split_colon (a @ 58 # b) = Inr (a, b)"
  by (induction a) auto

lemma rebrand_Inr [simp]: "rebrand c msg r = Inr x \<longleftrightarrow> r = Inr x"
  by (auto simp: rebrand_def split: sum.splits exn.splits)

lemma rebrand_ok [simp]: "rebrand c msg (Inr x) = Inr x"
  by (simp add: rebrand_def)

lemma resolved_length: "resolve_key env = Inr key \<Longrightarrow> length key = 32"
  by (auto simp: resolve_key_def Let_def split: if_splits sum.splits)

lemma decrypt_encrypt:
  assumes "aead_ok env" "encrypt env nonce s = Inr c"
  shows "decrypt env c = Inr s"
proof (cases "s = []")
  case True
  with assms(2) show ?thesis by (auto simp: encrypt_def decrypt_def)
next
  case False
  with assms(2) obtain key data ct where key: "resolve_key env = Inr key" and d: "utf8_encode s = Inr data"
      and ct: "ke_seal env key nonce data = Inr ct" and c: "c = b64encode nonce @ [58] @ b64encode ct"
    by (auto simp: encrypt_def res_bind_Inr_iff)
  have "ke_open env key nonce ct = Inr data"
    using assms(1) ct resolved_length [OF key] unfolding aead_ok_def by blast
  moreover have "58 \<notin> set (b64encode nonce)" using b64_ascii by blast
  ultimately show ?thesis
    by (simp add: decrypt_def c key split_colon_at utf8_roundtrip [OF d])
qed

lemma encrypt_raises_business:
  "encrypt env nonce s = Inl e \<Longrightarrow> \<exists>c m. e = BusinessException c m"
  by (auto simp: encrypt_def rebrand_def split: if_splits sum.splits exn.splits)

section \<open>Rows\<close>

record LlmProvider =
  lp_id :: int
  lp_provider_name :: pystr
  lp_base_url :: pystr
  lp_api_key :: pystr
  lp_model :: pystr
  lp_embedding_model :: "pystr option"
  lp_embedding_dimensions :: int
  lp_supports_embedding :: bool
  lp_is_default :: bool
  lp_temperature :: "rat option"

text \<open>The two tables with the one row of id 1.\<close>

record LlmGlobalSetting =
  lg_default_chat_provider_id :: int
  lg_default_embedding_provider_id :: "int option"

record VoiceConfig =
  vc_asr_url :: pystr
  vc_asr_model :: pystr
  vc_asr_api_key :: pystr
  vc_asr_language :: pystr
  vc_asr_format :: pystr
  vc_asr_sample_rate :: int
  vc_asr_enable_turn_detection :: bool
  vc_asr_turn_detection_type :: pystr
  vc_asr_turn_detection_threshold :: rat
  vc_asr_turn_detection_silence_duration_ms :: int
  vc_tts_model :: pystr
  vc_tts_api_key :: pystr
  vc_tts_voice :: pystr
  vc_tts_format :: pystr
  vc_tts_sample_rate :: int
  vc_tts_mode :: pystr
  vc_tts_language_type :: pystr
  vc_tts_speech_rate :: rat
  vc_tts_volume :: int

record LlmDb =
  ldb_providers :: "LlmProvider list"
  ldb_setting :: "LlmGlobalSetting option"
  ldb_voice :: "VoiceConfig option"
  ldb_fresh :: int

definition provider_by_id :: "int \<Rightarrow> LlmDb \<Rightarrow> LlmProvider option" where
  "provider_by_id i db = find (\<lambda>p. lp_id p = i) (ldb_providers db)"

definition provider_by_name :: "pystr \<Rightarrow> LlmDb \<Rightarrow> LlmProvider option" where
  "provider_by_name name db = find (\<lambda>p. lp_provider_name p = name) (ldb_providers db)"

definition list_all_providers :: "LlmDb \<Rightarrow> LlmProvider list" where
  "list_all_providers db = sort_key lp_id (ldb_providers db)"

definition provider_exists :: "pystr \<Rightarrow> LlmDb \<Rightarrow> bool" where
  "provider_exists name db \<longleftrightarrow> 0 < length (filter (\<lambda>p. lp_provider_name p = name) (ldb_providers db))"

definition save_provider :: "(int \<Rightarrow> LlmProvider) \<Rightarrow> LlmDb \<Rightarrow> LlmDb" where
  "save_provider row db = db\<lparr>ldb_providers := ldb_providers db @ [row (ldb_fresh db)], ldb_fresh := ldb_fresh db + 1\<rparr>"

definition update_provider_row :: "LlmProvider \<Rightarrow> LlmDb \<Rightarrow> LlmDb" where
  "update_provider_row p db = db\<lparr>ldb_providers := map (\<lambda>x. if lp_id x = lp_id p then p else x) (ldb_providers db)\<rparr>"

definition delete_provider_row :: "LlmProvider \<Rightarrow> LlmDb \<Rightarrow> LlmDb" where
  "delete_provider_row p db = db\<lparr>ldb_providers := filter (\<lambda>x. lp_id x \<noteq> lp_id p) (ldb_providers db)\<rparr>"

section \<open>Clients\<close>

record ProviderSnapshot =
  ps_id :: int
  ps_base_url :: pystr
  ps_api_key :: pystr
  ps_model :: pystr
  ps_embedding_model :: "pystr option"
  ps_embedding_dimensions :: int
  ps_supports_embedding :: bool
  ps_temperature :: "rat option"

record ChatClient =
  cc_model :: pystr
  cc_api_key :: "pystr option"
  cc_base_url :: pystr
  cc_temperature :: rat
  cc_timeout :: "int \<times> int"
  cc_max_retries :: int
  cc_streaming :: bool

record EmbeddingsClient =
  ec_model :: pystr
  ec_api_key :: "pystr option"
  ec_base_url :: pystr
  ec_dimensions :: int

record LlmEnv =
  le_key :: KeyEnv
  le_lower :: "pystr \<Rightarrow> pystr"

definition CONNECT_TIMEOUT :: int where "CONNECT_TIMEOUT = 10"
definition READ_TIMEOUT :: int where "READ_TIMEOUT = 300"
definition LLM_MAX_RETRIES :: int where "LLM_MAX_RETRIES = 2"
definition DEFAULT_TEMPERATURE :: rat where "DEFAULT_TEMPERATURE = 1 / 5"

definition CHAT_MODEL_PREFIXES :: "pystr list" where
  "CHAT_MODEL_PREFIXES = map ascii [''glm-'', ''deepseek'', ''kimi'', ''moonshot'', ''qwen'', ''ernie'']"

definition looks_like_chat_model :: "LlmEnv \<Rightarrow> pystr \<Rightarrow> bool" where
  "looks_like_chat_model env model = (let lower = le_lower env model in
     if py_contains (ascii ''embed'') lower then False else \<exists>p \<in> set CHAT_MODEL_PREFIXES. is_prefix_of p lower)"

definition secret_str :: "pystr \<Rightarrow> pystr option" where
  "secret_str key = (if key = [] then None else Some key)"

definition create_embeddings :: "LlmEnv \<Rightarrow> ProviderSnapshot \<Rightarrow> EmbeddingsClient result" where
  "create_embeddings env config = (case ps_embedding_model config of
     Some model \<Rightarrow>
       if \<not> ps_supports_embedding config \<or> model = [] then
         Inl (BusinessException PROVIDER_CONFIG_READ_FAILED ([80, 114, 111, 118, 105, 100, 101, 114, 32, 39] @ int_str (ps_id config) @ [39, 32, 26410, 37197, 32622, 21487, 29992, 30340, 32, 69, 109, 98, 101, 100, 100, 105, 110, 103, 32, 27169, 22411, 65292, 26080, 27861, 25191, 34892, 30693, 35782, 24211, 21521, 37327, 21270]))
       else if looks_like_chat_model env model then
         Inl (BusinessException PROVIDER_CONFIG_READ_FAILED ([80, 114, 111, 118, 105, 100, 101, 114, 32, 39] @ int_str (ps_id config) @ [39, 32, 30340, 32, 69, 109, 98, 101, 100, 100, 105, 110, 103, 32, 77, 111, 100, 101, 108, 32, 37197, 25104, 20102, 32842, 22825, 27169, 22411, 32, 39]
           @ model @ [39, 65292, 35831, 22635, 20889, 35813, 21378, 21830, 30495, 23454, 30340, 32, 69, 109, 98, 101, 100, 100, 105, 110, 103, 32, 27169, 22411, 21517]))
       else Inr \<lparr>ec_model = model, ec_api_key = secret_str (ps_api_key config), ec_base_url = ps_base_url config,
         ec_dimensions = ps_embedding_dimensions config\<rparr>
   | None \<Rightarrow> Inl (BusinessException PROVIDER_CONFIG_READ_FAILED ([80, 114, 111, 118, 105, 100, 101, 114, 32, 39] @ int_str (ps_id config) @ [39, 32, 26410, 37197, 32622, 21487, 29992, 30340, 32, 69, 109, 98, 101, 100, 100, 105, 110, 103, 32, 27169, 22411, 65292, 26080, 27861, 25191, 34892, 30693, 35782, 24211, 21521, 37327, 21270])))"

section \<open>The registry\<close>

text \<open>The database and the caches of the one process.\<close>

record LlmWorld =
  lw_db :: LlmDb
  lw_clients :: "(pystr, ChatClient) dict"
  lw_embeddings :: "(int, EmbeddingsClient) dict"

type_synonym 'a llm_op = "(LlmWorld, 'a) op"

definition llm_read :: "(LlmDb \<Rightarrow> 'a) \<Rightarrow> 'a llm_op" where
  "llm_read f = op_get (\<lambda>w. f (lw_db w))"

definition reload :: "unit llm_op" where
  "reload = op_modify (\<lambda>w. w\<lparr>lw_clients := [], lw_embeddings := []\<rparr>)"

definition get_global_setting :: "LlmDb \<Rightarrow> LlmGlobalSetting result" where
  "get_global_setting db = (case ldb_setting db of
     None \<Rightarrow> Inl (BusinessException PROVIDER_NOT_FOUND [20840, 23616, 32, 76, 76, 77, 32, 37197, 32622, 26410, 21021, 22987, 21270, 65292, 35831, 20808, 37197, 32622, 40664, 35748, 32, 80, 114, 111, 118, 105, 100, 101, 114]) | Some g \<Rightarrow> Inr g)"

text \<open>The column of the default chat provider is not nullable, so its test for \<open>None\<close> never fires.\<close>

definition find_default_chat_provider_id :: "LlmDb \<Rightarrow> int result" where
  "find_default_chat_provider_id db = res_map lg_default_chat_provider_id (get_global_setting db)"

definition find_default_embedding_provider_id :: "LlmDb \<Rightarrow> int result" where
  "find_default_embedding_provider_id db = res_bind (get_global_setting db) (\<lambda>g. case lg_default_embedding_provider_id g of
     None \<Rightarrow> Inl (BusinessException PROVIDER_NOT_FOUND [26410, 25214, 21040, 40664, 35748, 32, 69, 109, 98, 101, 100, 100, 105, 110, 103, 32, 80, 114, 111, 118, 105, 100, 101, 114, 65292, 35831, 20808, 37197, 32622]) | Some i \<Rightarrow> Inr i)"

definition resolve_chat_provider_id :: "int option \<Rightarrow> LlmDb \<Rightarrow> int result" where
  "resolve_chat_provider_id provider_id db = (case provider_id of Some i \<Rightarrow> Inr i | None \<Rightarrow> find_default_chat_provider_id db)"

definition resolve_embedding_provider_id :: "int option \<Rightarrow> LlmDb \<Rightarrow> int result" where
  "resolve_embedding_provider_id provider_id db = (case provider_id of Some i \<Rightarrow> Inr i | None \<Rightarrow> find_default_embedding_provider_id db)"

definition load_provider :: "LlmEnv \<Rightarrow> int \<Rightarrow> LlmDb \<Rightarrow> ProviderSnapshot result" where
  "load_provider env provider_id db = (case provider_by_id provider_id db of
     None \<Rightarrow> Inl (BusinessException PROVIDER_NOT_FOUND ([26410, 25214, 21040, 32, 76, 76, 77, 32, 80, 114, 111, 118, 105, 100, 101, 114, 58, 32] @ int_str provider_id))
   | Some p \<Rightarrow> res_map (\<lambda>key. \<lparr>ps_id = lp_id p, ps_base_url = lp_base_url p, ps_api_key = key, ps_model = lp_model p,
       ps_embedding_model = lp_embedding_model p, ps_embedding_dimensions = lp_embedding_dimensions p,
       ps_supports_embedding = lp_supports_embedding p, ps_temperature = lp_temperature p\<rparr>) (decrypt (le_key env) (lp_api_key p)))"

definition create_chat_client :: "LlmEnv \<Rightarrow> int \<Rightarrow> bool \<Rightarrow> LlmDb \<Rightarrow> ChatClient result" where
  "create_chat_client env provider_id streaming db = res_map (\<lambda>config.
     \<lparr>cc_model = ps_model config, cc_api_key = secret_str (ps_api_key config), cc_base_url = ps_base_url config,
      cc_temperature = (case ps_temperature config of None \<Rightarrow> DEFAULT_TEMPERATURE | Some t \<Rightarrow> t),
      cc_timeout = (CONNECT_TIMEOUT, READ_TIMEOUT), cc_max_retries = LLM_MAX_RETRIES, cc_streaming = streaming\<rparr>)
     (load_provider env provider_id db)"

datatype ClientKind = K_Default | K_Plain | K_Voice | K_Stream

fun kind_suffix :: "ClientKind \<Rightarrow> pystr" where
  "kind_suffix K_Default = ascii ''default''"
| "kind_suffix K_Plain = ascii ''plain''"
| "kind_suffix K_Voice = ascii ''voice''"
| "kind_suffix K_Stream = ascii ''stream''"

definition cache_key :: "int \<Rightarrow> ClientKind \<Rightarrow> pystr" where
  "cache_key provider_id kind = int_str provider_id @ [58] @ kind_suffix kind"

definition streams :: "ClientKind \<Rightarrow> bool" where
  "streams kind \<longleftrightarrow> kind = K_Voice \<or> kind = K_Stream"

text \<open>The four methods that give a chat client differ in the suffix of the key and in streaming.\<close>

definition get_client :: "LlmEnv \<Rightarrow> ClientKind \<Rightarrow> int option \<Rightarrow> ChatClient llm_op" where
  "get_client env kind provider_id =
     op_bind (llm_read (resolve_chat_provider_id provider_id)) (\<lambda>r. op_bind (op_lift r) (\<lambda>resolved_id.
     let key = cache_key resolved_id kind in
     op_bind (op_get (\<lambda>w. dict_get (lw_clients w) key)) (\<lambda>cached. case cached of
       Some c \<Rightarrow> op_return c
     | None \<Rightarrow> op_bind (llm_read (create_chat_client env resolved_id (streams kind))) (\<lambda>r. op_bind (op_lift r) (\<lambda>c.
         op_then (op_modify (\<lambda>w. w\<lparr>lw_clients := dict_set key c (lw_clients w)\<rparr>)) (op_return c))))))"

definition get_chat_client :: "LlmEnv \<Rightarrow> int option \<Rightarrow> ChatClient llm_op" where
  "get_chat_client env = get_client env K_Default"

definition get_plain_chat_client :: "LlmEnv \<Rightarrow> int option \<Rightarrow> ChatClient llm_op" where
  "get_plain_chat_client env = get_client env K_Plain"

definition get_voice_chat_client :: "LlmEnv \<Rightarrow> int option \<Rightarrow> ChatClient llm_op" where
  "get_voice_chat_client env = get_client env K_Voice"

definition get_streaming_chat_client :: "LlmEnv \<Rightarrow> int option \<Rightarrow> ChatClient llm_op" where
  "get_streaming_chat_client env = get_client env K_Stream"

definition build_embeddings :: "LlmEnv \<Rightarrow> int \<Rightarrow> LlmDb \<Rightarrow> EmbeddingsClient result" where
  "build_embeddings env provider_id db = res_bind (load_provider env provider_id db) (create_embeddings env)"

definition get_embeddings :: "LlmEnv \<Rightarrow> int option \<Rightarrow> EmbeddingsClient llm_op" where
  "get_embeddings env provider_id =
     op_bind (llm_read (resolve_embedding_provider_id provider_id)) (\<lambda>r. op_bind (op_lift r) (\<lambda>resolved_id.
     op_bind (op_get (\<lambda>w. dict_get (lw_embeddings w) resolved_id)) (\<lambda>cached. case cached of
       Some c \<Rightarrow> op_return c
     | None \<Rightarrow> op_bind (llm_read (build_embeddings env resolved_id)) (\<lambda>r. op_bind (op_lift r) (\<lambda>c.
         op_then (op_modify (\<lambda>w. w\<lparr>lw_embeddings := dict_set resolved_id c (lw_embeddings w)\<rparr>)) (op_return c))))))"

definition get_default_embeddings :: "LlmEnv \<Rightarrow> EmbeddingsClient llm_op" where
  "get_default_embeddings env = get_embeddings env None"

definition resolve_provider_id_by_name :: "pystr option \<Rightarrow> int option llm_op" where
  "resolve_provider_id_by_name provider_name = (case provider_name of
     None \<Rightarrow> op_return None
   | Some name \<Rightarrow> if name = [] then op_return None else
       op_bind (llm_read (provider_by_name name)) (\<lambda>p. case p of
         None \<Rightarrow> op_raise (BusinessException PROVIDER_NOT_FOUND ([26410, 25214, 21040, 32, 76, 76, 77, 32, 80, 114, 111, 118, 105, 100, 101, 114, 58, 32] @ name))
       | Some p \<Rightarrow> op_return (Some (lp_id p))))"

definition RECOMMENDED_EMBEDDING_MODELS :: "(pystr, pystr) dict" where
  "RECOMMENDED_EMBEDDING_MODELS = map (\<lambda>(a, b). (ascii a, ascii b)) [(''dashscope'', ''text-embedding-v3''),
     (''glm'', ''embedding-3''), (''zhipu'', ''embedding-3''), (''baidu'', ''Embedding-V1''), (''minimax'', ''embo-01'')]"

definition get_recommended_embedding_model :: "LlmEnv \<Rightarrow> pystr \<Rightarrow> pystr option" where
  "get_recommended_embedding_model env provider_name = dict_get RECOMMENDED_EMBEDDING_MODELS (le_lower env provider_name)"

section \<open>The cache\<close>

text \<open>What a client would be if it were built now.\<close>

definition fresh_client :: "LlmEnv \<Rightarrow> ClientKind \<Rightarrow> int option \<Rightarrow> LlmDb \<Rightarrow> ChatClient result" where
  "fresh_client env kind provider_id db =
     res_bind (resolve_chat_provider_id provider_id db) (\<lambda>i. create_chat_client env i (streams kind) db)"

definition fresh_embeddings :: "LlmEnv \<Rightarrow> int option \<Rightarrow> LlmDb \<Rightarrow> EmbeddingsClient result" where
  "fresh_embeddings env provider_id db = res_bind (resolve_embedding_provider_id provider_id db) (\<lambda>i. build_embeddings env i db)"

definition cache_coherent :: "LlmEnv \<Rightarrow> LlmWorld \<Rightarrow> bool" where
  "cache_coherent env w \<longleftrightarrow>
     (\<forall>i kind c. dict_get (lw_clients w) (cache_key i kind) = Some c \<longrightarrow> create_chat_client env i (streams kind) (lw_db w) = Inr c)
     \<and> (\<forall>i c. dict_get (lw_embeddings w) i = Some c \<longrightarrow> build_embeddings env i (lw_db w) = Inr c)"

lemma int_str_inj: "int_str i = int_str j \<Longrightarrow> i = j"
  by (metis py_int_str Inr_inject)

lemma int_str_no_colon: "58 \<notin> set (int_str i)"
  using nat_digits_range [of "nat i"] nat_digits_range [of "nat (- i)"] by (auto simp: int_str_def)

lemma cache_key_inj: "cache_key i k = cache_key j l \<longleftrightarrow> i = j \<and> k = l"
proof
  assume eq: "cache_key i k = cache_key j l"
  then have "split_colon (cache_key i k) = split_colon (cache_key j l)" by simp
  then have "int_str i = int_str j \<and> kind_suffix k = kind_suffix l"
    by (simp add: cache_key_def split_colon_at int_str_no_colon)
  then show "i = j \<and> k = l" using int_str_inj by (cases k; cases l) auto
qed simp

lemma cache_reloaded: "cache_coherent env (w\<lparr>lw_clients := [], lw_embeddings := []\<rparr>)"
  by (simp add: cache_coherent_def)

lemma get_client_fresh:
  assumes "cache_coherent env w"
  shows "fst (get_client env kind provider_id w) = fresh_client env kind provider_id (lw_db w)
    \<and> lw_db (snd (get_client env kind provider_id w)) = lw_db w
    \<and> cache_coherent env (snd (get_client env kind provider_id w))"
proof (cases "resolve_chat_provider_id provider_id (lw_db w)")
  case (Inl e)
  with assms show ?thesis by (simp add: get_client_def op_simps llm_read_def fresh_client_def)
next
  case (Inr i)
  show ?thesis
  proof (cases "dict_get (lw_clients w) (cache_key i kind)")
    case (Some c)
    with assms Inr show ?thesis
      by (simp add: get_client_def op_simps llm_read_def fresh_client_def Let_def cache_coherent_def)
  next
    case None
    with assms Inr show ?thesis
      by (cases "create_chat_client env i (streams kind) (lw_db w)")
        (auto simp: get_client_def op_simps llm_read_def fresh_client_def Let_def cache_coherent_def cache_key_inj)
  qed
qed

lemma get_embeddings_fresh:
  assumes "cache_coherent env w"
  shows "fst (get_embeddings env provider_id w) = fresh_embeddings env provider_id (lw_db w)
    \<and> lw_db (snd (get_embeddings env provider_id w)) = lw_db w
    \<and> cache_coherent env (snd (get_embeddings env provider_id w))"
proof (cases "resolve_embedding_provider_id provider_id (lw_db w)")
  case (Inl e)
  with assms show ?thesis by (simp add: get_embeddings_def op_simps llm_read_def fresh_embeddings_def)
next
  case (Inr i)
  show ?thesis
  proof (cases "dict_get (lw_embeddings w) i")
    case (Some c)
    with assms Inr show ?thesis
      by (simp add: get_embeddings_def op_simps llm_read_def fresh_embeddings_def cache_coherent_def)
  next
    case None
    with assms Inr show ?thesis
      by (cases "build_embeddings env i (lw_db w)")
        (auto simp: get_embeddings_def op_simps llm_read_def fresh_embeddings_def cache_coherent_def)
  qed
qed

end
