(* ===== verification/Llm_Providers.thy ===== *)
theory Llm_Providers
  imports Llm_Registry Triples
begin

text \<open>
  \<open>application/llm_provider/service.py\<close>: the seeds of an installation, the management of model
  providers, of the two defaults and of the voice configuration, and the tests of connections.
  Calling a model and the WebSocket handshake are parameters. A request works in one session; an
  exception before its commit rolls the session back.
\<close>

section \<open>Masking and sessions\<close>

definition mask_api_key :: "pystr \<Rightarrow> pystr" where
  "mask_api_key key = (if key = [] then [] else if length key \<le> 6 then ascii ''***''
     else take 3 key @ ascii ''***'' @ drop (length key - 3) key)"

type_synonym 'a ldb_op = "(LlmDb, 'a) op"

definition llm_session :: "'a ldb_op \<Rightarrow> 'a llm_op" where
  "llm_session m = (\<lambda>w. case m (lw_db w) of (Inl e, db) \<Rightarrow> (Inl e, w) | (Inr x, db) \<Rightarrow> (Inr x, w\<lparr>lw_db := db\<rparr>))"

section \<open>Seeds\<close>

definition default_provider_row :: "pystr \<Rightarrow> int \<Rightarrow> LlmProvider" where
  "default_provider_row cipher i = \<lparr>lp_id = i, lp_provider_name = ascii ''dashscope'',
     lp_base_url = ascii ''https://dashscope.aliyuncs.com/compatible-mode/v1'', lp_api_key = cipher,
     lp_model = ascii ''qwen3.5-flash'', lp_embedding_model = Some (ascii ''text-embedding-v3''),
     lp_embedding_dimensions = 1024, lp_supports_embedding = True, lp_is_default = True, lp_temperature = None\<rparr>"

definition seed_default_provider :: "KeyEnv \<Rightarrow> bytes \<Rightarrow> pystr \<Rightarrow> unit ldb_op" where
  "seed_default_provider env nonce raw_api_key = op_bind (op_get ldb_providers) (\<lambda>ps.
     op_when (ps = []) (case (if raw_api_key = [] then Inr [] else encrypt env nonce raw_api_key) of
       Inr cipher \<Rightarrow> op_modify (save_provider (default_provider_row cipher))
     | Inl (BusinessException c m) \<Rightarrow> op_return ()
     | Inl e \<Rightarrow> op_raise e))"

text \<open>The queries with \<open>LIMIT 1\<close> name no order; the model takes the first row stored.\<close>

definition seed_global_setting :: "unit ldb_op" where
  "seed_global_setting = op_bind (op_get ldb_setting) (\<lambda>g. op_when (g = None) (
     op_bind (op_get (\<lambda>db. find lp_is_default (ldb_providers db))) (\<lambda>chat. case chat of
       None \<Rightarrow> op_return ()
     | Some chat \<Rightarrow> op_bind (op_get (\<lambda>db. find (\<lambda>p. lp_is_default p \<and> lp_supports_embedding p) (ldb_providers db))) (\<lambda>emb.
         op_modify (\<lambda>db. db\<lparr>ldb_setting := Some \<lparr>lg_default_chat_provider_id = lp_id chat,
           lg_default_embedding_provider_id = map_option lp_id emb\<rparr>\<rparr>)))))"

definition default_voice_config :: VoiceConfig where
  "default_voice_config = \<lparr>vc_asr_url = ascii ''wss://dashscope.aliyuncs.com/api-ws/v1/realtime'',
     vc_asr_model = ascii ''qwen3-asr-flash-realtime'', vc_asr_api_key = [], vc_asr_language = ascii ''zh'',
     vc_asr_format = ascii ''pcm'', vc_asr_sample_rate = 16000, vc_asr_enable_turn_detection = True,
     vc_asr_turn_detection_type = ascii ''server_vad'', vc_asr_turn_detection_threshold = 0,
     vc_asr_turn_detection_silence_duration_ms = 2000, vc_tts_model = ascii ''qwen3-tts-flash-realtime'',
     vc_tts_api_key = [], vc_tts_voice = ascii ''Cherry'', vc_tts_format = ascii ''pcm'', vc_tts_sample_rate = 24000,
     vc_tts_mode = ascii ''commit'', vc_tts_language_type = ascii ''Chinese'', vc_tts_speech_rate = 1, vc_tts_volume = 60\<rparr>"

definition seed_voice_config :: "unit ldb_op" where
  "seed_voice_config = op_bind (op_get ldb_voice) (\<lambda>v. op_when (v = None)
     (op_modify (\<lambda>db. db\<lparr>ldb_voice := Some default_voice_config\<rparr>)))"

section \<open>Providers\<close>

record ProviderDTO =
  pd_id :: pystr
  pd_base_url :: pystr
  pd_masked_api_key :: pystr
  pd_model :: pystr
  pd_embedding_model :: "pystr option"
  pd_embedding_dimensions :: int
  pd_supports_embedding :: bool
  pd_temperature :: "rat option"
  pd_default_chat_provider :: bool
  pd_default_embedding_provider :: bool

definition to_provider_dto :: "KeyEnv \<Rightarrow> int option \<Rightarrow> int option \<Rightarrow> LlmProvider \<Rightarrow> ProviderDTO result" where
  "to_provider_dto env chat_id emb_id p = res_map (\<lambda>key.
     \<lparr>pd_id = lp_provider_name p, pd_base_url = lp_base_url p, pd_masked_api_key = mask_api_key key, pd_model = lp_model p,
      pd_embedding_model = lp_embedding_model p, pd_embedding_dimensions = lp_embedding_dimensions p,
      pd_supports_embedding = lp_supports_embedding p, pd_temperature = lp_temperature p,
      pd_default_chat_provider = (Some (lp_id p) = chat_id), pd_default_embedding_provider = (Some (lp_id p) = emb_id)\<rparr>)
     (decrypt env (lp_api_key p))"

text \<open>The ids of the defaults, \<open>None\<close> without a setting.\<close>

definition default_ids :: "LlmDb \<Rightarrow> int option \<times> int option" where
  "default_ids db = (case ldb_setting db of None \<Rightarrow> (None, None)
     | Some g \<Rightarrow> (Some (lg_default_chat_provider_id g), lg_default_embedding_provider_id g))"

text \<open>\<open>items[offset : offset + limit]\<close>; the bounds may be negative.\<close>

definition clamp_index :: "nat \<Rightarrow> int \<Rightarrow> nat" where
  "clamp_index n i = (if i < 0 then n - nat (- i) else min n (nat i))"

definition page :: "int \<Rightarrow> int \<Rightarrow> 'a list \<Rightarrow> 'a list" where
  "page limit offset items = (let n = length items; a = clamp_index n offset in take (clamp_index n (offset + limit) - a) (drop a items))"

definition list_providers :: "KeyEnv \<Rightarrow> int \<Rightarrow> int \<Rightarrow> ProviderDTO list ldb_op" where
  "list_providers env limit offset = op_bind (op_get list_all_providers) (\<lambda>ps. op_bind (op_get default_ids) (\<lambda>(chat_id, emb_id).
     op_lift (res_map (page limit offset) (res_traverse (to_provider_dto env chat_id emb_id) ps))))"

definition provider_missing :: "pystr \<Rightarrow> exn" where
  "provider_missing name = BusinessException PROVIDER_NOT_FOUND ([76, 76, 77, 32, 80, 114, 111, 118, 105, 100, 101, 114, 32, 19981, 23384, 22312, 58, 32] @ name)"

definition require_provider :: "pystr \<Rightarrow> LlmProvider ldb_op" where
  "require_provider name = op_bind (op_get (provider_by_name name)) (\<lambda>p. case p of
     None \<Rightarrow> op_raise (provider_missing name) | Some p \<Rightarrow> op_return p)"

definition get_provider :: "KeyEnv \<Rightarrow> pystr \<Rightarrow> ProviderDTO ldb_op" where
  "get_provider env name = op_bind (require_provider name) (\<lambda>p. op_bind (op_get default_ids) (\<lambda>(chat_id, emb_id).
     op_lift (to_provider_dto env chat_id emb_id p)))"

record CreateProviderRequest =
  cp_id :: pystr
  cp_base_url :: pystr
  cp_api_key :: pystr
  cp_model :: pystr
  cp_embedding_model :: "pystr option"
  cp_embedding_dimensions :: "int option"
  cp_supports_embedding :: "bool option"
  cp_temperature :: "rat option"

definition given_or :: "'a option \<Rightarrow> 'a \<Rightarrow> 'a" where
  "given_or v d = (case v of None \<Rightarrow> d | Some x \<Rightarrow> x)"

definition new_provider :: "CreateProviderRequest \<Rightarrow> pystr \<Rightarrow> int \<Rightarrow> LlmProvider" where
  "new_provider req cipher i = \<lparr>lp_id = i, lp_provider_name = cp_id req, lp_base_url = cp_base_url req, lp_api_key = cipher,
     lp_model = cp_model req, lp_embedding_model = cp_embedding_model req,
     lp_embedding_dimensions = given_or (cp_embedding_dimensions req) 1024,
     lp_supports_embedding = given_or (cp_supports_embedding req) False, lp_is_default = False, lp_temperature = cp_temperature req\<rparr>"

definition create_provider :: "KeyEnv \<Rightarrow> bytes \<Rightarrow> CreateProviderRequest \<Rightarrow> unit llm_op" where
  "create_provider env nonce req = op_then (llm_session (
     op_bind (op_get (provider_exists (cp_id req))) (\<lambda>present.
     if present then op_raise (BusinessException PROVIDER_ALREADY_EXISTS ([80, 114, 111, 118, 105, 100, 101, 114, 32, 39] @ cp_id req @ [39, 32, 24050, 23384, 22312])) else
     op_bind (op_lift (encrypt env nonce (cp_api_key req))) (\<lambda>cipher.
     op_modify (save_provider (new_provider req cipher)))))) reload"

record UpdateProviderRequest =
  up_base_url :: "pystr option"
  up_api_key :: "pystr option"
  up_model :: "pystr option"
  up_embedding_model :: "pystr option"
  up_embedding_dimensions :: "int option"
  up_supports_embedding :: "bool option"
  up_temperature :: "rat option"

definition EMPTY_KEY :: exn where "EMPTY_KEY = BusinessException BAD_REQUEST [97, 112, 105, 75, 101, 121, 32, 19981, 33021, 20026, 31354, 23383, 31526, 20018]"

text \<open>The new cipher text of a key, where the request gives one.\<close>

definition update_key :: "KeyEnv \<Rightarrow> bytes \<Rightarrow> pystr option \<Rightarrow> pystr \<Rightarrow> pystr result" where
  "update_key env nonce api_key old = (case api_key of None \<Rightarrow> Inr old
     | Some key \<Rightarrow> if py_strip key = [] then Inl EMPTY_KEY else encrypt env nonce key)"

definition edit_provider :: "KeyEnv \<Rightarrow> bytes \<Rightarrow> UpdateProviderRequest \<Rightarrow> LlmProvider \<Rightarrow> LlmProvider result" where
  "edit_provider env nonce req p = res_map (\<lambda>cipher. p\<lparr>lp_base_url := given_or (up_base_url req) (lp_base_url p),
       lp_model := given_or (up_model req) (lp_model p),
       lp_embedding_model := (case up_embedding_model req of None \<Rightarrow> lp_embedding_model p | Some m \<Rightarrow> Some m),
       lp_embedding_dimensions := given_or (up_embedding_dimensions req) (lp_embedding_dimensions p),
       lp_supports_embedding := given_or (up_supports_embedding req) (lp_supports_embedding p),
       lp_temperature := (case up_temperature req of None \<Rightarrow> lp_temperature p | Some t \<Rightarrow> Some t), lp_api_key := cipher\<rparr>)
     (update_key env nonce (up_api_key req) (lp_api_key p))"

definition update_provider :: "KeyEnv \<Rightarrow> bytes \<Rightarrow> pystr \<Rightarrow> UpdateProviderRequest \<Rightarrow> unit llm_op" where
  "update_provider env nonce name req = op_then (llm_session (op_bind (require_provider name) (\<lambda>p.
     op_bind (op_lift (edit_provider env nonce req p)) (\<lambda>p'. op_modify (update_provider_row p'))))) reload"

definition delete_provider :: "pystr \<Rightarrow> unit llm_op" where
  "delete_provider name = op_then (llm_session (op_bind (require_provider name) (\<lambda>p.
     op_bind (op_get default_ids) (\<lambda>(chat_id, emb_id).
     if Some (lp_id p) = chat_id \<or> Some (lp_id p) = emb_id then
       op_raise (BusinessException PROVIDER_DEFAULT_CANNOT_DELETE ([40664, 35748, 32, 80, 114, 111, 118, 105, 100, 101, 114, 32, 39] @ name @ [39, 32, 19981, 21487, 21024, 38500, 65292, 35831, 20808, 20999, 25442, 40664, 35748, 32, 80, 114, 111, 118, 105, 100, 101, 114]))
     else op_modify (delete_provider_row p))))) reload"

definition reload_providers :: "unit llm_op" where "reload_providers = reload"

section \<open>Defaults\<close>

record DefaultProviderDTO =
  dp_default_provider :: "pystr option"
  dp_default_embedding_provider :: "pystr option"

definition resolve_name :: "int option \<Rightarrow> LlmDb \<Rightarrow> pystr option" where
  "resolve_name provider_id db = (case provider_id of None \<Rightarrow> None
     | Some i \<Rightarrow> map_option lp_provider_name (provider_by_id i db))"

definition get_default_provider :: "LlmDb \<Rightarrow> DefaultProviderDTO" where
  "get_default_provider db = (case ldb_setting db of
     None \<Rightarrow> \<lparr>dp_default_provider = None, dp_default_embedding_provider = None\<rparr>
   | Some g \<Rightarrow> \<lparr>dp_default_provider = resolve_name (Some (lg_default_chat_provider_id g)) db,
       dp_default_embedding_provider = resolve_name (lg_default_embedding_provider_id g) db\<rparr>)"

definition update_default_provider :: "DefaultProviderDTO \<Rightarrow> unit llm_op" where
  "update_default_provider req = (case dp_default_provider req of
     None \<Rightarrow> op_raise (BusinessException BAD_REQUEST [100, 101, 102, 97, 117, 108, 116, 80, 114, 111, 118, 105, 100, 101, 114, 32, 19981, 33021, 20026, 31354])
   | Some name \<Rightarrow> op_then (llm_session (op_bind (require_provider name) (\<lambda>p.
       op_modify (\<lambda>db. db\<lparr>ldb_setting := Some (case ldb_setting db of
         None \<Rightarrow> \<lparr>lg_default_chat_provider_id = lp_id p, lg_default_embedding_provider_id = None\<rparr>
       | Some g \<Rightarrow> g\<lparr>lg_default_chat_provider_id := lp_id p\<rparr>)\<rparr>)))) reload)"

definition update_default_embedding_provider :: "DefaultProviderDTO \<Rightarrow> unit llm_op" where
  "update_default_embedding_provider req = (case dp_default_embedding_provider req of
     None \<Rightarrow> op_raise (BusinessException BAD_REQUEST [100, 101, 102, 97, 117, 108, 116, 69, 109, 98, 101, 100, 100, 105, 110, 103, 80, 114, 111, 118, 105, 100, 101, 114, 32, 19981, 33021, 20026, 31354])
   | Some name \<Rightarrow> op_then (llm_session (op_bind (require_provider name) (\<lambda>p.
       if \<not> lp_supports_embedding p \<or> \<not> truthy_str (lp_embedding_model p) then
         op_raise (BusinessException BAD_REQUEST ([80, 114, 111, 118, 105, 100, 101, 114, 32, 39] @ name @ [39, 32, 19981, 25903, 25345, 32, 69, 109, 98, 101, 100, 100, 105, 110, 103, 65292, 19981, 33021, 35774, 20026, 40664, 35748, 21521, 37327, 26381, 21153]))
       else op_bind (op_get ldb_setting) (\<lambda>g. case g of
         None \<Rightarrow> op_raise (BusinessException PROVIDER_CONFIG_READ_FAILED [20840, 23616, 35774, 32622, 26410, 21021, 22987, 21270, 65292, 35831, 20808, 37197, 32622, 40664, 35748, 32, 67, 104, 97, 116, 32, 80, 114, 111, 118, 105, 100, 101, 114])
       | Some g \<Rightarrow> op_modify (\<lambda>db. db\<lparr>ldb_setting := Some (g\<lparr>lg_default_embedding_provider_id := Some (lp_id p)\<rparr>)\<rparr>))))) reload)"

section \<open>The voice configuration\<close>

definition require_voice_config :: "VoiceConfig ldb_op" where
  "require_voice_config = op_bind (op_get ldb_voice) (\<lambda>v. case v of
     None \<Rightarrow> op_raise (BusinessException VOICE_CONFIG_READ_FAILED [35821, 38899, 26381, 21153, 37197, 32622, 26410, 21021, 22987, 21270]) | Some c \<Rightarrow> op_return c)"

record AsrConfigDTO =
  ad_url :: pystr
  ad_model :: pystr
  ad_masked_api_key :: pystr
  ad_language :: pystr
  ad_format :: pystr
  ad_sample_rate :: int
  ad_enable_turn_detection :: bool
  ad_turn_detection_type :: pystr
  ad_turn_detection_threshold :: rat
  ad_turn_detection_silence_duration_ms :: int

definition get_asr_config :: "KeyEnv \<Rightarrow> AsrConfigDTO ldb_op" where
  "get_asr_config env = op_bind require_voice_config (\<lambda>c. op_lift (res_map (\<lambda>key.
     \<lparr>ad_url = vc_asr_url c, ad_model = vc_asr_model c, ad_masked_api_key = mask_api_key key, ad_language = vc_asr_language c,
      ad_format = vc_asr_format c, ad_sample_rate = vc_asr_sample_rate c, ad_enable_turn_detection = vc_asr_enable_turn_detection c,
      ad_turn_detection_type = vc_asr_turn_detection_type c, ad_turn_detection_threshold = vc_asr_turn_detection_threshold c,
      ad_turn_detection_silence_duration_ms = vc_asr_turn_detection_silence_duration_ms c\<rparr>) (decrypt env (vc_asr_api_key c))))"

record AsrConfigRequest =
  aq_url :: "pystr option"
  aq_model :: "pystr option"
  aq_api_key :: "pystr option"
  aq_language :: "pystr option"
  aq_format :: "pystr option"
  aq_sample_rate :: "int option"
  aq_enable_turn_detection :: "bool option"
  aq_turn_detection_type :: "pystr option"
  aq_turn_detection_threshold :: "rat option"
  aq_turn_detection_silence_duration_ms :: "int option"

definition edit_asr_config :: "KeyEnv \<Rightarrow> bytes \<Rightarrow> AsrConfigRequest \<Rightarrow> VoiceConfig \<Rightarrow> VoiceConfig result" where
  "edit_asr_config env nonce q c = res_map (\<lambda>cipher. c\<lparr>vc_asr_url := given_or (aq_url q) (vc_asr_url c),
       vc_asr_model := given_or (aq_model q) (vc_asr_model c), vc_asr_language := given_or (aq_language q) (vc_asr_language c),
       vc_asr_format := given_or (aq_format q) (vc_asr_format c), vc_asr_sample_rate := given_or (aq_sample_rate q) (vc_asr_sample_rate c),
       vc_asr_enable_turn_detection := given_or (aq_enable_turn_detection q) (vc_asr_enable_turn_detection c),
       vc_asr_turn_detection_type := given_or (aq_turn_detection_type q) (vc_asr_turn_detection_type c),
       vc_asr_turn_detection_threshold := given_or (aq_turn_detection_threshold q) (vc_asr_turn_detection_threshold c),
       vc_asr_turn_detection_silence_duration_ms :=
         given_or (aq_turn_detection_silence_duration_ms q) (vc_asr_turn_detection_silence_duration_ms c),
       vc_asr_api_key := cipher\<rparr>)
     (update_key env nonce (aq_api_key q) (vc_asr_api_key c))"

definition store_voice_config :: "(VoiceConfig \<Rightarrow> VoiceConfig result) \<Rightarrow> unit llm_op" where
  "store_voice_config edit = llm_session (op_bind require_voice_config (\<lambda>c. op_bind (op_lift (edit c)) (\<lambda>c'.
     op_modify (\<lambda>db. db\<lparr>ldb_voice := Some c'\<rparr>))))"

definition update_asr_config :: "KeyEnv \<Rightarrow> bytes \<Rightarrow> AsrConfigRequest \<Rightarrow> unit llm_op" where
  "update_asr_config env nonce q = store_voice_config (edit_asr_config env nonce q)"

record TtsConfigDTO =
  td_model :: pystr
  td_masked_api_key :: pystr
  td_voice :: pystr
  td_format :: pystr
  td_sample_rate :: int
  td_mode :: pystr
  td_language_type :: pystr
  td_speech_rate :: rat
  td_volume :: int

definition get_tts_config :: "KeyEnv \<Rightarrow> TtsConfigDTO ldb_op" where
  "get_tts_config env = op_bind require_voice_config (\<lambda>c. op_lift (res_map (\<lambda>key.
     \<lparr>td_model = vc_tts_model c, td_masked_api_key = mask_api_key key, td_voice = vc_tts_voice c, td_format = vc_tts_format c,
      td_sample_rate = vc_tts_sample_rate c, td_mode = vc_tts_mode c, td_language_type = vc_tts_language_type c,
      td_speech_rate = vc_tts_speech_rate c, td_volume = vc_tts_volume c\<rparr>) (decrypt env (vc_tts_api_key c))))"

record TtsConfigRequest =
  tq_model :: "pystr option"
  tq_api_key :: "pystr option"
  tq_voice :: "pystr option"
  tq_format :: "pystr option"
  tq_sample_rate :: "int option"
  tq_mode :: "pystr option"
  tq_language_type :: "pystr option"
  tq_speech_rate :: "rat option"
  tq_volume :: "int option"

definition edit_tts_config :: "KeyEnv \<Rightarrow> bytes \<Rightarrow> TtsConfigRequest \<Rightarrow> VoiceConfig \<Rightarrow> VoiceConfig result" where
  "edit_tts_config env nonce q c = res_map (\<lambda>cipher. c\<lparr>vc_tts_model := given_or (tq_model q) (vc_tts_model c),
       vc_tts_voice := given_or (tq_voice q) (vc_tts_voice c), vc_tts_format := given_or (tq_format q) (vc_tts_format c),
       vc_tts_sample_rate := given_or (tq_sample_rate q) (vc_tts_sample_rate c), vc_tts_mode := given_or (tq_mode q) (vc_tts_mode c),
       vc_tts_language_type := given_or (tq_language_type q) (vc_tts_language_type c),
       vc_tts_speech_rate := given_or (tq_speech_rate q) (vc_tts_speech_rate c),
       vc_tts_volume := given_or (tq_volume q) (vc_tts_volume c), vc_tts_api_key := cipher\<rparr>)
     (update_key env nonce (tq_api_key q) (vc_tts_api_key c))"

definition update_tts_config :: "KeyEnv \<Rightarrow> bytes \<Rightarrow> TtsConfigRequest \<Rightarrow> unit llm_op" where
  "update_tts_config env nonce q = store_voice_config (edit_tts_config env nonce q)"

section \<open>Tests of connections\<close>

datatype Handshake = HS_Connected | HS_Invalid_Status int | HS_Failed pystr pystr

text \<open>
  \<open>ce_say_ok\<close> asks the model, giving the text of its exception if it fails; \<open>HS_Failed\<close> carries
  the text of the exception and the name of its class.
\<close>

record ConnectEnv =
  ce_say_ok :: "ChatClient \<Rightarrow> pystr option"
  ce_connect :: "pystr \<Rightarrow> pystr \<Rightarrow> Handshake"

record ProviderTestResult =
  pt_success :: bool
  pt_message :: pystr
  pt_model :: pystr

definition test_client :: "LlmProvider \<Rightarrow> pystr \<Rightarrow> ChatClient" where
  "test_client p api_key = \<lparr>cc_model = lp_model p, cc_api_key = secret_str api_key, cc_base_url = lp_base_url p, cc_temperature = 0,
     cc_timeout = (5, 10), cc_max_retries = 0, cc_streaming = False\<rparr>"

definition test_provider :: "KeyEnv \<Rightarrow> ConnectEnv \<Rightarrow> pystr \<Rightarrow> ProviderTestResult ldb_op" where
  "test_provider env cenv name = op_bind (require_provider name) (\<lambda>p. op_bind (op_lift (decrypt env (lp_api_key p))) (\<lambda>api_key.
     op_return (case ce_say_ok cenv (test_client p api_key) of
       None \<Rightarrow> \<lparr>pt_success = True, pt_message = [36830, 25509, 25104, 21151], pt_model = lp_model p\<rparr>
     | Some e \<Rightarrow> \<lparr>pt_success = False, pt_message = [36830, 25509, 22833, 36133, 58, 32] @ e, pt_model = lp_model p\<rparr>)))"

definition build_realtime_uri :: "pystr \<Rightarrow> pystr \<Rightarrow> pystr" where
  "build_realtime_uri url model = url @ (if py_contains [63] url then [38] else [63]) @ ascii ''model='' @ model"

definition handshake_result :: "pystr \<Rightarrow> pystr \<Rightarrow> Handshake \<Rightarrow> ProviderTestResult" where
  "handshake_result label model h = (case h of
     HS_Invalid_Status status \<Rightarrow>
       if status \<in> {401, 403} then \<lparr>pt_success = False, pt_message = label @ [32, 37492, 26435, 22833, 36133, 65288, 72, 84, 84, 80, 32] @ int_str status @ [65289, 65292, 35831, 26816, 26597, 32, 97, 112, 105, 95, 107, 101, 121], pt_model = model\<rparr>
       else \<lparr>pt_success = False, pt_message = label @ [32, 36830, 25509, 22833, 36133, 58, 32, 26381, 21153, 31471, 25298, 32477, 25569, 25163, 65288, 72, 84, 84, 80, 32] @ int_str status @ [65289], pt_model = model\<rparr>
   | HS_Failed e cls \<Rightarrow> \<lparr>pt_success = False, pt_message = label @ [32, 36830, 25509, 22833, 36133, 58, 32] @ (if e = [] then cls else e), pt_model = model\<rparr>
   | HS_Connected \<Rightarrow> \<lparr>pt_success = True, pt_message = label @ [32, 87, 101, 98, 83, 111, 99, 107, 101, 116, 32, 25569, 25163, 25104, 21151, 58, 32] @ model, pt_model = model\<rparr>)"

definition test_realtime_handshake :: "KeyEnv \<Rightarrow> ConnectEnv \<Rightarrow> pystr \<Rightarrow> pystr \<Rightarrow> pystr \<Rightarrow> pystr \<Rightarrow> ProviderTestResult result" where
  "test_realtime_handshake env cenv label url model cipher = res_map (\<lambda>api_key.
     if api_key = [] then \<lparr>pt_success = False, pt_message = label @ [32, 97, 112, 105, 95, 107, 101, 121, 32, 26410, 37197, 32622, 65292, 35831, 20808, 22312, 35821, 38899, 37197, 32622, 20013, 22635, 20889], pt_model = model\<rparr>
     else handshake_result label model (ce_connect cenv (build_realtime_uri url model) (ascii ''Bearer '' @ api_key)))
     (decrypt env cipher)"

definition test_asr_config :: "KeyEnv \<Rightarrow> ConnectEnv \<Rightarrow> ProviderTestResult ldb_op" where
  "test_asr_config env cenv = op_bind require_voice_config (\<lambda>c.
     op_lift (test_realtime_handshake env cenv (ascii ''ASR'') (vc_asr_url c) (vc_asr_model c) (vc_asr_api_key c)))"

definition test_tts_config :: "KeyEnv \<Rightarrow> ConnectEnv \<Rightarrow> ProviderTestResult ldb_op" where
  "test_tts_config env cenv = op_bind require_voice_config (\<lambda>c.
     op_lift (test_realtime_handshake env cenv (ascii ''TTS'') (vc_asr_url c) (vc_tts_model c) (vc_tts_api_key c)))"

end
