(* ===== verification/Llm_System.thy ===== *)
theory Llm_System
  imports Llm_Providers
begin

text \<open>
  Requests to the provider management and uses of the registry in any order, across restarts of the
  process: the defaults always exist, clients always follow the stored configuration, and an API key
  comes back as it was given.
\<close>

section \<open>Requests\<close>

text \<open>The requests that only read are operations on the database that leave it as it is.\<close>

datatype LlmRequest = L_Start bytes pystr | L_Create bytes CreateProviderRequest | L_Update bytes pystr UpdateProviderRequest
  | L_Delete pystr | L_Reload | L_Set_Default DefaultProviderDTO | L_Set_Embedding DefaultProviderDTO
  | L_Asr bytes AsrConfigRequest | L_Tts bytes TtsConfigRequest | L_Client ClientKind "int option" | L_Embeddings "int option"

text \<open>A start of the process seeds the tables and has no clients yet.\<close>

definition start_process :: "KeyEnv \<Rightarrow> bytes \<Rightarrow> pystr \<Rightarrow> unit llm_op" where
  "start_process env nonce raw_api_key = op_then reload (op_try (op_then (llm_session (seed_default_provider env nonce raw_api_key))
     (op_then (llm_session seed_global_setting) (llm_session seed_voice_config))) (\<lambda>e. op_return ()))"

fun llm_handle :: "LlmEnv \<Rightarrow> LlmRequest \<Rightarrow> LlmWorld \<Rightarrow> LlmWorld" where
  "llm_handle env (L_Start nonce key) w = snd (start_process (le_key env) nonce key w)"
| "llm_handle env (L_Create nonce req) w = snd (create_provider (le_key env) nonce req w)"
| "llm_handle env (L_Update nonce name req) w = snd (update_provider (le_key env) nonce name req w)"
| "llm_handle env (L_Delete name) w = snd (delete_provider name w)"
| "llm_handle env L_Reload w = snd (reload_providers w)"
| "llm_handle env (L_Set_Default req) w = snd (update_default_provider req w)"
| "llm_handle env (L_Set_Embedding req) w = snd (update_default_embedding_provider req w)"
| "llm_handle env (L_Asr nonce q) w = snd (update_asr_config (le_key env) nonce q w)"
| "llm_handle env (L_Tts nonce q) w = snd (update_tts_config (le_key env) nonce q w)"
| "llm_handle env (L_Client kind i) w = snd (get_client env kind i w)"
| "llm_handle env (L_Embeddings i) w = snd (get_embeddings env i w)"

definition llm_run :: "LlmEnv \<Rightarrow> LlmRequest list \<Rightarrow> LlmWorld \<Rightarrow> LlmWorld" where
  "llm_run env reqs w = fold (llm_handle env) reqs w"

definition empty_llm_world :: LlmWorld where
  "empty_llm_world = \<lparr>lw_db = \<lparr>ldb_providers = [], ldb_setting = None, ldb_voice = None, ldb_fresh = 1\<rparr>, lw_clients = [], lw_embeddings = []\<rparr>"

section \<open>The tables\<close>

definition provider_ids :: "LlmDb \<Rightarrow> int set" where "provider_ids db = lp_id ` set (ldb_providers db)"

definition llm_db_ok :: "LlmDb \<Rightarrow> bool" where
  "llm_db_ok db \<longleftrightarrow> distinct (map lp_id (ldb_providers db)) \<and> distinct (map lp_provider_name (ldb_providers db))
     \<and> (\<forall>p \<in> set (ldb_providers db). lp_id p < ldb_fresh db) \<and> length (filter lp_is_default (ldb_providers db)) \<le> 1
     \<and> (\<forall>g. ldb_setting db = Some g \<longrightarrow> lg_default_chat_provider_id g \<in> provider_ids db
          \<and> (\<forall>i. lg_default_embedding_provider_id g = Some i \<longrightarrow> i \<in> provider_ids db))"

lemma provider_by_nameD: "provider_by_name name db = Some p \<Longrightarrow> p \<in> set (ldb_providers db) \<and> lp_provider_name p = name"
  by (auto simp: provider_by_name_def find_Some_iff)

lemma provider_by_idD: "provider_by_id i db = Some p \<Longrightarrow> p \<in> set (ldb_providers db) \<and> lp_id p = i"
  by (auto simp: provider_by_id_def find_Some_iff)

lemma ok_save:
  assumes "llm_db_ok db" "\<And>i. lp_id (row i) = i" "\<And>i. lp_provider_name (row i) \<notin> lp_provider_name ` set (ldb_providers db)"
    "ldb_providers db = [] \<or> (\<forall>i. \<not> lp_is_default (row i))"
  shows "llm_db_ok (save_provider row db)"
  using assms by (fastforce simp: llm_db_ok_def save_provider_def provider_ids_def)

lemma map_replaced:
  assumes "p \<in> set xs" "distinct (map lp_id xs)" "lp_id p' = lp_id p" "f p' = f p"
  shows "map f (map (\<lambda>x. if lp_id x = lp_id p' then p' else x) xs) = map f xs"
  using assms by (auto simp: distinct_map inj_on_def)

lemma ok_update:
  assumes ok: "llm_db_ok db" and p: "p \<in> set (ldb_providers db)" and same: "lp_id p' = lp_id p" "lp_provider_name p' = lp_provider_name p" "lp_is_default p' = lp_is_default p"
  shows "llm_db_ok (update_provider_row p' db)"
proof -
  have d: "distinct (map lp_id (ldb_providers db))" using ok by (simp add: llm_db_ok_def)
  let ?ps = "map (\<lambda>x. if lp_id x = lp_id p' then p' else x) (ldb_providers db)"
  have ids: "map lp_id ?ps = map lp_id (ldb_providers db)" and names: "map lp_provider_name ?ps = map lp_provider_name (ldb_providers db)"
    and defs: "map lp_is_default ?ps = map lp_is_default (ldb_providers db)"
    using map_replaced [OF p d same(1)] same by blast+
  have "length (filter lp_is_default ?ps) = length (filter lp_is_default (ldb_providers db))"
    using arg_cong [OF defs, of "\<lambda>bs. length (filter id bs)"] by (simp add: filter_map o_def del: map_map)
  moreover have "lp_id ` set ?ps = lp_id ` set (ldb_providers db)" using ids by (metis list.set_map)
  ultimately show ?thesis
    using ok ids names unfolding llm_db_ok_def update_provider_row_def provider_ids_def
    by (simp del: map_map) (metis (no_types, lifting) imageE imageI)
qed

lemma ok_delete:
  assumes "llm_db_ok db" "\<And>g. ldb_setting db = Some g \<Longrightarrow> lg_default_chat_provider_id g \<noteq> lp_id p \<and> lg_default_embedding_provider_id g \<noteq> Some (lp_id p)"
  shows "llm_db_ok (delete_provider_row p db)"
proof -
  have "length (filter lp_is_default (filter q xs)) \<le> length (filter lp_is_default xs)" for q xs
    by (induction xs) auto
  then have "length (filter lp_is_default (filter q (ldb_providers db))) \<le> 1" for q
    using assms(1) unfolding llm_db_ok_def by (meson order_trans)
  then show ?thesis
    using assms by (fastforce simp: llm_db_ok_def delete_provider_row_def provider_ids_def distinct_map_filter)
qed

lemma ok_setting:
  "llm_db_ok db \<Longrightarrow> lg_default_chat_provider_id g \<in> provider_ids db
    \<Longrightarrow> (\<And>i. lg_default_embedding_provider_id g = Some i \<Longrightarrow> i \<in> provider_ids db) \<Longrightarrow> llm_db_ok (db\<lparr>ldb_setting := Some g\<rparr>)"
  by (simp add: llm_db_ok_def provider_ids_def)

abbreviation stored_ok :: "LlmWorld \<Rightarrow> bool" where "stored_ok w \<equiv> llm_db_ok (lw_db w)"

lemma llm_session_inv: "op_inv P m \<Longrightarrow> op_inv (\<lambda>w. P (lw_db w)) (llm_session m)"
  by (auto simp: op_inv_def llm_session_def split: prod.splits sum.splits)

lemma reload_inv [op_rules]: "op_inv stored_ok reload"
  by (simp add: op_inv_def reload_def op_simps)

lemma provider_op_inv:
  assumes "\<And>db p. llm_db_ok db \<Longrightarrow> provider_by_name name db = Some p \<Longrightarrow> llm_db_ok (snd (f p db))"
  shows "op_inv llm_db_ok (op_bind (require_provider name) f)"
  using assms by (auto simp: op_inv_def require_provider_def op_simps split: option.split)

lemma create_ok [op_rules]: "op_inv stored_ok (create_provider env nonce req)"
  unfolding create_provider_def
  by (intro op_rules llm_session_inv op_invI)
    (auto simp: op_simps provider_exists_def new_provider_def filter_empty_conv intro!: ok_save split: sum.split)

lemma edit_keeps:
  "edit_provider env nonce req p = Inr p' \<Longrightarrow> lp_id p' = lp_id p \<and> lp_provider_name p' = lp_provider_name p \<and> lp_is_default p' = lp_is_default p"
  by (auto simp: edit_provider_def res_map_Inr_iff)

lemma update_ok [op_rules]: "op_inv stored_ok (update_provider env nonce name req)"
  unfolding update_provider_def
  by (intro op_rules llm_session_inv provider_op_inv)
    (auto simp: op_simps split: sum.split dest!: provider_by_nameD edit_keeps intro: ok_update)

lemma delete_ok [op_rules]: "op_inv stored_ok (delete_provider name)"
  unfolding delete_provider_def
  by (intro op_rules llm_session_inv provider_op_inv)
    (auto simp: op_simps default_ids_def intro!: ok_delete split: option.splits)

lemma provider_id_in: "p \<in> set (ldb_providers db) \<Longrightarrow> lp_id p \<in> provider_ids db"
  by (simp add: provider_ids_def)

lemma setting_ids:
  "llm_db_ok db \<Longrightarrow> ldb_setting db = Some g \<Longrightarrow> lg_default_chat_provider_id g \<in> provider_ids db"
  "llm_db_ok db \<Longrightarrow> ldb_setting db = Some g \<Longrightarrow> lg_default_embedding_provider_id g = Some i \<Longrightarrow> i \<in> provider_ids db"
  by (simp_all add: llm_db_ok_def)

lemma set_default_ok [op_rules]: "op_inv stored_ok (update_default_provider req)"
  unfolding update_default_provider_def
  by (intro op_rules llm_session_inv provider_op_inv)
    (auto simp: op_simps setting_ids provider_id_in intro!: ok_setting split: option.split dest!: provider_by_nameD)

lemma set_embedding_ok [op_rules]: "op_inv stored_ok (update_default_embedding_provider req)"
  unfolding update_default_embedding_provider_def
  by (intro op_rules llm_session_inv provider_op_inv)
    (auto simp: op_simps setting_ids provider_id_in intro!: ok_setting split: option.split dest!: provider_by_nameD)

lemma voice_ok [op_rules]: "op_inv stored_ok (store_voice_config edit)"
  unfolding store_voice_config_def require_voice_config_def
  by (rule llm_session_inv) (auto simp: op_inv_def op_simps llm_db_ok_def provider_ids_def split: option.split sum.split)

lemma seed_provider_ok: "op_inv llm_db_ok (seed_default_provider env nonce key)"
  by (auto simp: op_inv_def op_simps seed_default_provider_def default_provider_row_def intro!: ok_save split: sum.split exn.split)

lemma seed_setting_ok: "op_inv llm_db_ok seed_global_setting"
  by (auto simp: op_inv_def op_simps seed_global_setting_def provider_ids_def find_Some_iff intro!: ok_setting split: option.split)

lemma seed_voice_ok: "op_inv llm_db_ok seed_voice_config"
  by (auto simp: op_inv_def op_simps seed_voice_config_def llm_db_ok_def provider_ids_def)

lemma start_ok [op_rules]: "op_inv stored_ok (start_process env nonce key)"
  unfolding start_process_def by (intro op_rules llm_session_inv seed_provider_ok seed_setting_ok seed_voice_ok)

lemma get_client_ok [op_rules]: "op_inv stored_ok (get_client env kind i)" "op_inv stored_ok (get_embeddings env i)"
  by (auto simp: op_inv_def get_client_def get_embeddings_def op_simps llm_read_def Let_def split: sum.split option.split)

lemma handle_ok: "stored_ok w \<Longrightarrow> stored_ok (llm_handle env r w)"
  by (cases r) (auto simp: reload_providers_def update_asr_config_def update_tts_config_def intro!: op_invD [of stored_ok] op_rules)

section \<open>The caches\<close>

lemma session_reload_coherent: "op_inv (cache_coherent env) (op_then (llm_session m) reload)"
  by (auto simp: op_inv_def op_simps llm_session_def reload_def cache_coherent_def split: prod.splits sum.splits)

lemma coherent_same_providers:
  "cache_coherent env w \<Longrightarrow> ldb_providers db = ldb_providers (lw_db w) \<Longrightarrow> cache_coherent env (w\<lparr>lw_db := db\<rparr>)"
  by (simp add: cache_coherent_def create_chat_client_def build_embeddings_def load_provider_def provider_by_id_def)

lemma voice_coherent: "op_inv (cache_coherent env) (store_voice_config edit)"
  by (auto simp: op_inv_def store_voice_config_def require_voice_config_def llm_session_def op_simps
      intro!: coherent_same_providers split: option.split sum.split)

lemma session_caches: "lw_clients (snd (llm_session m w)) = lw_clients w \<and> lw_embeddings (snd (llm_session m w)) = lw_embeddings w"
  by (simp add: llm_session_def split: prod.split sum.split)

lemma start_coherent: "cache_coherent env (snd (start_process k nonce key w))"
  by (auto simp: start_process_def reload_def op_simps llm_session_def cache_coherent_def split: prod.split sum.split)

lemma raise_coherent: "op_inv (cache_coherent env) (op_raise e)" by (rule op_rules)

lemma requests_coherent:
  "op_inv (cache_coherent env) (create_provider k nonce req)" "op_inv (cache_coherent env) (update_provider k nonce name u)"
  "op_inv (cache_coherent env) (delete_provider name)" "op_inv (cache_coherent env) (update_default_provider d)"
  "op_inv (cache_coherent env) (update_default_embedding_provider d)" "op_inv (cache_coherent env) reload_providers"
  "op_inv (cache_coherent env) (get_client env kind i)" "op_inv (cache_coherent env) (get_embeddings env i)"
  unfolding create_provider_def update_provider_def delete_provider_def update_default_provider_def
    update_default_embedding_provider_def reload_providers_def
  by (auto simp: session_reload_coherent raise_coherent split: option.split)
    (simp_all add: op_inv_def reload_def op_simps cache_reloaded get_client_fresh get_embeddings_fresh)

lemma handle_coherent: "cache_coherent env w \<Longrightarrow> cache_coherent env (llm_handle env r w)"
  by (cases r) (simp_all add: start_coherent update_asr_config_def update_tts_config_def
      op_invD [OF requests_coherent(1)] op_invD [OF requests_coherent(2)] op_invD [OF requests_coherent(3)] op_invD [OF requests_coherent(4)]
      op_invD [OF requests_coherent(5)] op_invD [OF requests_coherent(6)] op_invD [OF requests_coherent(7)] op_invD [OF requests_coherent(8)]
      op_invD [OF voice_coherent])

lemma llm_run_ok: "stored_ok (llm_run env reqs empty_llm_world) \<and> cache_coherent env (llm_run env reqs empty_llm_world)"
proof -
  have "stored_ok w \<and> cache_coherent env w \<Longrightarrow> stored_ok (fold (llm_handle env) rs w) \<and> cache_coherent env (fold (llm_handle env) rs w)" for rs w
    by (induction rs arbitrary: w) (simp_all add: handle_ok handle_coherent)
  moreover have "stored_ok empty_llm_world \<and> cache_coherent env empty_llm_world"
    by (simp add: empty_llm_world_def llm_db_ok_def cache_coherent_def)
  ultimately show ?thesis by (simp add: llm_run_def)
qed

text \<open>
  C12. Whatever requests, restarts and uses came before, the registry hands out exactly the chat
  client and the embeddings it would build from the configuration stored now: no edit, deletion or
  change of a default leaves a client of the old configuration behind, and errors are those of
  building it.
\<close>

theorem registry_serves_current_configuration:
  "fst (get_client env kind provider_id (llm_run env reqs empty_llm_world))
       = fresh_client env kind provider_id (lw_db (llm_run env reqs empty_llm_world))
   \<and> fst (get_embeddings env provider_id (llm_run env reqs empty_llm_world))
       = fresh_embeddings env provider_id (lw_db (llm_run env reqs empty_llm_world))"
  using llm_run_ok [of env reqs] get_client_fresh get_embeddings_fresh by blast

section \<open>The defaults\<close>

lemma find_unique: "x \<in> set xs \<Longrightarrow> distinct (map f xs) \<Longrightarrow> find (\<lambda>y. f y = f x) xs = Some x"
  by (induction xs) auto

lemma filter_unique: "x \<in> set xs \<Longrightarrow> distinct (map f xs) \<Longrightarrow> filter (\<lambda>y. f y = f x) xs = [x]"
  by (induction xs) (auto simp: filter_empty_conv image_iff)

lemma traverse_filter:
  assumes "res_traverse f xs = Inr ys" "\<And>x y. x \<in> set xs \<Longrightarrow> f x = Inr y \<Longrightarrow> P y = Q x" "\<And>x y. x \<in> set xs \<Longrightarrow> f x = Inr y \<Longrightarrow> g y = h x"
  shows "map g (filter P ys) = map h (filter Q xs)"
  using assms
proof (induction xs arbitrary: ys)
  case (Cons x xs)
  from Cons.prems(1) obtain y zs where y: "f x = Inr y" "res_traverse f xs = Inr zs" "ys = y # zs"
    by (auto simp: res_bind_Inr_iff res_map_Inr_iff)
  have "map g (filter P zs) = map h (filter Q xs)"
    by (rule Cons.IH [OF y(2)]) (use Cons.prems(2,3) in auto)
  moreover have "P y = Q x" "g y = h x" using Cons.prems(2,3) [OF _ y(1)] by auto
  ultimately show ?case by (simp add: y(3))
qed simp

lemma length_traverse: "res_traverse f xs = Inr ys \<Longrightarrow> length ys = length xs"
  by (induction xs arbitrary: ys) (auto simp: res_bind_Inr_iff res_map_Inr_iff)

lemma page_all: "int (length items) \<le> limit \<Longrightarrow> page limit 0 items = items"
  by (simp add: page_def clamp_index_def)

lemma length_list_all [simp]: "length (list_all_providers db) = length (ldb_providers db)"
  by (simp add: list_all_providers_def)

lemma listed_default:
  assumes ok: "llm_db_ok db" and p: "p \<in> set (ldb_providers db)" "default_ids db = (Some (lp_id p), emb)"
    and l: "fst (list_providers k limit 0 db) = Inr items" "int (length (ldb_providers db)) \<le> limit"
  shows "map pd_id (filter pd_default_chat_provider items) = [lp_provider_name p]"
proof -
  obtain dtos where t: "res_traverse (to_provider_dto k (Some (lp_id p)) emb) (list_all_providers db) = Inr dtos" and i: "items = page limit 0 dtos"
    using l(1) p(2) by (auto simp: list_providers_def op_simps res_map_Inr_iff)
  have "items = dtos" unfolding i using l(2) length_traverse [OF t] by (simp add: page_all)
  moreover have "map pd_id (filter pd_default_chat_provider dtos) = map lp_provider_name (filter (\<lambda>x. lp_id x = lp_id p) (list_all_providers db))"
    by (rule traverse_filter [OF t]) (auto simp: to_provider_dto_def res_map_Inr_iff)
  moreover have "filter (\<lambda>x. lp_id x = lp_id p) (list_all_providers db) = [p]"
    using filter_unique [OF p(1), of lp_id] ok by (simp add: list_all_providers_def sort_key_stable llm_db_ok_def)
  ultimately show ?thesis by simp
qed

text \<open>
  C18. Once a default is configured it stays valid: after any requests the default chat provider is a
  stored one, the list of all providers marks it and no other, and its deletion is refused and changes
  nothing.
\<close>

theorem default_provider_protected:
  assumes "ldb_setting (lw_db (llm_run env reqs empty_llm_world)) = Some g"
  shows "\<exists>p name. provider_by_id (lg_default_chat_provider_id g) (lw_db (llm_run env reqs empty_llm_world)) = Some p
     \<and> name = lp_provider_name p
     \<and> dp_default_provider (get_default_provider (lw_db (llm_run env reqs empty_llm_world))) = Some name
     \<and> (\<exists>m. delete_provider name (llm_run env reqs empty_llm_world)
           = (Inl (BusinessException PROVIDER_DEFAULT_CANNOT_DELETE m), llm_run env reqs empty_llm_world))
     \<and> (\<forall>k limit items. int (length (ldb_providers (lw_db (llm_run env reqs empty_llm_world)))) \<le> limit
           \<longrightarrow> fst (list_providers k limit 0 (lw_db (llm_run env reqs empty_llm_world))) = Inr items
           \<longrightarrow> map pd_id (filter pd_default_chat_provider items) = [name])"
proof -
  define w where "w = llm_run env reqs empty_llm_world"
  have ok: "llm_db_ok (lw_db w)" using llm_run_ok unfolding w_def by blast
  have g: "ldb_setting (lw_db w) = Some g" using assms unfolding w_def .
  obtain p where p: "p \<in> set (ldb_providers (lw_db w))" "lp_id p = lg_default_chat_provider_id g"
    using setting_ids(1) [OF ok g] by (auto simp: provider_ids_def)
  have by_id: "provider_by_id (lg_default_chat_provider_id g) (lw_db w) = Some p"
    using find_unique [OF p(1), of lp_id] ok by (simp add: provider_by_id_def p(2) [symmetric] llm_db_ok_def)
  have by_name: "provider_by_name (lp_provider_name p) (lw_db w) = Some p"
    using find_unique [OF p(1), of lp_provider_name] ok by (simp add: provider_by_name_def llm_db_ok_def)
  have ids: "default_ids (lw_db w) = (Some (lp_id p), lg_default_embedding_provider_id g)"
    by (simp add: default_ids_def g p(2))
  have "\<exists>m. delete_provider (lp_provider_name p) w = (Inl (BusinessException PROVIDER_DEFAULT_CANNOT_DELETE m), w)"
    by (simp add: delete_provider_def op_simps llm_session_def require_provider_def by_name ids)
  then show ?thesis
    using listed_default [OF ok p(1) ids] by_id unfolding w_def [symmetric]
    by (intro exI [of _ p] exI [of _ "lp_provider_name p"]) (auto simp: get_default_provider_def g resolve_name_def by_id)
qed

definition plain_llm_env :: LlmEnv where
  "plain_llm_env = \<lparr>le_key = \<lparr>ke_raw_key = b64encode (replicate 32 7), ke_seal = (\<lambda>key nonce data. Inr (nonce @ data)),
     ke_open = (\<lambda>key nonce ct. Inr (drop (length nonce) ct))\<rparr>, le_lower = (\<lambda>s. s)\<rparr>"

lemma seeded_setting:
  "ldb_setting (lw_db (llm_run plain_llm_env [L_Start [] []] empty_llm_world))
     = Some \<lparr>lg_default_chat_provider_id = 1, lg_default_embedding_provider_id = Some 1\<rparr>"
  by (simp add: llm_run_def start_process_def op_simps reload_def llm_session_def seed_default_provider_def seed_global_setting_def
      seed_voice_config_def save_provider_def default_provider_row_def empty_llm_world_def)

theorem default_provider_protected_witness:
  "\<exists>p name. provider_by_id 1 (lw_db (llm_run plain_llm_env [L_Start [] []] empty_llm_world)) = Some p
     \<and> name = lp_provider_name p
     \<and> dp_default_provider (get_default_provider (lw_db (llm_run plain_llm_env [L_Start [] []] empty_llm_world))) = Some name
     \<and> (\<exists>m. delete_provider name (llm_run plain_llm_env [L_Start [] []] empty_llm_world)
           = (Inl (BusinessException PROVIDER_DEFAULT_CANNOT_DELETE m), llm_run plain_llm_env [L_Start [] []] empty_llm_world))"
  using default_provider_protected [OF seeded_setting] by auto

section \<open>API keys\<close>

lemma created:
  assumes "create_provider k nonce req w = (Inr (), w')"
  shows "\<exists>cipher. \<not> provider_exists (cp_id req) (lw_db w) \<and> encrypt k nonce (cp_api_key req) = Inr cipher
    \<and> w' = \<lparr>lw_db = save_provider (new_provider req cipher) (lw_db w), lw_clients = [], lw_embeddings = []\<rparr>"
  using assms by (cases "provider_exists (cp_id req) (lw_db w)"; cases "encrypt k nonce (cp_api_key req)"; cases w)
    (simp_all add: create_provider_def op_simps llm_session_def reload_def)

text \<open>
  C19. The API key of a provider comes back as it was given: after a provider is created, its name
  resolves to a provider whose clients of every kind use exactly the key, model, address and temperature
  of the request, however the key was encrypted, while reading the provider shows the masked key.
\<close>

theorem created_provider_is_used:
  assumes "aead_ok (le_key env)" "w = llm_run env reqs empty_llm_world" "cp_id req \<noteq> []"
    and "create_provider (le_key env) nonce req w = (Inr (), w')"
  shows "\<exists>i. fst (resolve_provider_id_by_name (Some (cp_id req)) w') = Inr (Some i)
     \<and> (\<forall>kind. fst (get_client env kind (Some i) w') = Inr \<lparr>cc_model = cp_model req, cc_api_key = secret_str (cp_api_key req),
          cc_base_url = cp_base_url req, cc_temperature = (case cp_temperature req of None \<Rightarrow> 1 / 5 | Some t \<Rightarrow> t),
          cc_timeout = (10, 300), cc_max_retries = 2, cc_streaming = streams kind\<rparr>)
     \<and> (\<exists>dto. fst (get_provider (le_key env) (cp_id req) (lw_db w')) = Inr dto \<and> pd_masked_api_key dto = mask_api_key (cp_api_key req))"
proof -
  have ok: "llm_db_ok (lw_db w)" using llm_run_ok unfolding assms(2) by blast
  obtain cipher where new: "\<not> provider_exists (cp_id req) (lw_db w)" and c: "encrypt (le_key env) nonce (cp_api_key req) = Inr cipher"
    and w': "w' = \<lparr>lw_db = save_provider (new_provider req cipher) (lw_db w), lw_clients = [], lw_embeddings = []\<rparr>"
    using created [OF assms(4)] by (elim exE conjE) (rule that)
  let ?p = "new_provider req cipher (ldb_fresh (lw_db w))"
  have "find (\<lambda>p. lp_provider_name p = cp_id req) (ldb_providers (lw_db w)) = None"
    using new by (auto simp: find_None_iff provider_exists_def filter_empty_conv)
  then have by_name: "provider_by_name (cp_id req) (lw_db w') = Some ?p"
    by (simp add: provider_by_name_def w' save_provider_def find_append new_provider_def)
  have "find (\<lambda>p. lp_id p = ldb_fresh (lw_db w)) (ldb_providers (lw_db w)) = None"
    using ok by (auto simp: find_None_iff llm_db_ok_def)
  then have by_id: "provider_by_id (ldb_fresh (lw_db w)) (lw_db w') = Some ?p"
    by (simp add: provider_by_id_def w' save_provider_def find_append new_provider_def)
  have key: "decrypt (le_key env) (lp_api_key ?p) = Inr (cp_api_key req)"
    using decrypt_encrypt [OF assms(1) c] by (simp add: new_provider_def)
  have "fst (resolve_provider_id_by_name (Some (cp_id req)) w') = Inr (Some (ldb_fresh (lw_db w)))"
    using assms(3) by (simp add: resolve_provider_id_by_name_def op_simps llm_read_def by_name) (simp add: new_provider_def)
  moreover have "fst (get_client env kind (Some (ldb_fresh (lw_db w))) w') = Inr \<lparr>cc_model = cp_model req, cc_api_key = secret_str (cp_api_key req),
          cc_base_url = cp_base_url req, cc_temperature = (case cp_temperature req of None \<Rightarrow> 1 / 5 | Some t \<Rightarrow> t),
          cc_timeout = (10, 300), cc_max_retries = 2, cc_streaming = streams kind\<rparr>" for kind
  proof -
    have "cache_coherent env w'" by (simp add: w' cache_coherent_def)
    then have "fst (get_client env kind (Some (ldb_fresh (lw_db w))) w') = create_chat_client env (ldb_fresh (lw_db w)) (streams kind) (lw_db w')"
      by (simp add: get_client_fresh fresh_client_def resolve_chat_provider_id_def)
    then show ?thesis
      by (simp add: create_chat_client_def load_provider_def by_id key) (simp add: new_provider_def DEFAULT_TEMPERATURE_def
        CONNECT_TIMEOUT_def READ_TIMEOUT_def LLM_MAX_RETRIES_def split: option.split)
  qed
  moreover have "\<exists>dto. fst (get_provider (le_key env) (cp_id req) (lw_db w')) = Inr dto \<and> pd_masked_api_key dto = mask_api_key (cp_api_key req)"
    by (simp add: get_provider_def op_simps require_provider_def by_name to_provider_dto_def key split: prod.split)
  ultimately show ?thesis by blast
qed

lemma b64_graphic: "c \<in> set (b64encode bs) \<Longrightarrow> \<not> is_space c"
proof -
  have "\<not> is_space (b64_char n)" if "n < 64" for n
    using b64_char_range [OF that] by (auto simp: is_space_def)
  moreover have "\<not> is_space 61" by (simp add: is_space_def)
  ultimately show "c \<in> set (b64encode bs) \<Longrightarrow> \<not> is_space c"
    by (induction bs rule: b64encode.induct) auto
qed

lemma strip_b64: "py_strip (b64encode bs) = b64encode bs"
  by (rule py_strip_id) (metis b64_graphic hd_in_set last_in_set)

lemma plain_key: "resolve_key (le_key plain_llm_env) = Inr (replicate 32 7)"
proof -
  have "b64encode (replicate 32 7) \<noteq> []" using b64decode_encode [of "replicate 32 7"] by (auto simp: b64decode_def)
  then show ?thesis by (simp add: resolve_key_def plain_llm_env_def strip_b64)
qed

lemma plain_aead: "aead_ok (le_key plain_llm_env)"
  by (auto simp: aead_ok_def plain_llm_env_def)

definition sample_provider :: CreateProviderRequest where
  "sample_provider = \<lparr>cp_id = [80], cp_base_url = [85], cp_api_key = ascii ''sk-secret-key'', cp_model = [77], cp_embedding_model = None,
     cp_embedding_dimensions = None, cp_supports_embedding = None, cp_temperature = None\<rparr>"

lemma sample_created:
  "\<exists>w'. create_provider (le_key plain_llm_env) [1] sample_provider (llm_run plain_llm_env [] empty_llm_world) = (Inr (), w')"
proof -
  have "\<exists>c. encrypt (le_key plain_llm_env) [1] (ascii ''sk-secret-key'') = Inr c"
    unfolding encrypt_def plain_key by (simp add: utf8_encode_def scalar_def ascii_def plain_llm_env_def)
  then show ?thesis
    by (auto simp: create_provider_def op_simps llm_session_def provider_exists_def llm_run_def empty_llm_world_def sample_provider_def reload_def)
qed

theorem created_provider_is_used_witness:
  "\<exists>w' i. create_provider (le_key plain_llm_env) [1] sample_provider (llm_run plain_llm_env [] empty_llm_world) = (Inr (), w')
     \<and> fst (resolve_provider_id_by_name (Some [80]) w') = Inr (Some i)
     \<and> (\<forall>kind. fst (get_client plain_llm_env kind (Some i) w') = Inr \<lparr>cc_model = [77], cc_api_key = Some (ascii ''sk-secret-key''),
          cc_base_url = [85], cc_temperature = 1 / 5, cc_timeout = (10, 300), cc_max_retries = 2, cc_streaming = streams kind\<rparr>)
     \<and> (\<exists>dto. fst (get_provider (le_key plain_llm_env) [80] (lw_db w')) = Inr dto \<and> pd_masked_api_key dto = ascii ''sk-***key'')"
proof -
  obtain w' where w': "create_provider (le_key plain_llm_env) [1] sample_provider (llm_run plain_llm_env [] empty_llm_world) = (Inr (), w')"
    using sample_created by (elim exE)
  have name: "cp_id sample_provider \<noteq> []" by (simp add: sample_provider_def)
  have mask: "mask_api_key (ascii ''sk-secret-key'') = ascii ''sk-***key''" by (simp add: mask_api_key_def ascii_def)
  from created_provider_is_used [OF plain_aead refl name w'] w' show ?thesis
    by (simp add: sample_provider_def secret_str_def mask [simplified])
qed

text \<open>
  Nothing keeps the default embedding provider usable: an update may switch its support off, and from
  then on no default embeddings can be built.
\<close>

lemma default_embedding_can_lose_support:
  "let off = \<lparr>up_base_url = None, up_api_key = None, up_model = None, up_embedding_model = None, up_embedding_dimensions = None,
       up_supports_embedding = Some False, up_temperature = None\<rparr>;
     w = llm_run plain_llm_env [L_Start [] [], L_Update [] (ascii ''dashscope'') off] empty_llm_world
   in ldb_setting (lw_db w) = Some \<lparr>lg_default_chat_provider_id = 1, lg_default_embedding_provider_id = Some 1\<rparr>
     \<and> (\<exists>m. fst (get_default_embeddings plain_llm_env w) = Inl (BusinessException PROVIDER_CONFIG_READ_FAILED m))"
  by (simp add: llm_run_def start_process_def op_simps reload_def llm_session_def seed_default_provider_def seed_global_setting_def
      seed_voice_config_def save_provider_def default_provider_row_def empty_llm_world_def update_provider_def require_provider_def
      provider_by_name_def edit_provider_def update_key_def update_provider_row_def given_or_def get_default_embeddings_def get_embeddings_def
      llm_read_def resolve_embedding_provider_id_def find_default_embedding_provider_id_def get_global_setting_def build_embeddings_def
      load_provider_def provider_by_id_def decrypt_def create_embeddings_def)

end
