(* ===== verification/Text_Cleaner.thy ===== *)
theory Text_Cleaner
  imports Py_Regex
begin

text \<open>
  \<open>infrastructure/parsing/text_cleaner.py\<close>: the text of an uploaded document made regular, with the
  patterns of the code and what a cleaned text looks like.
\<close>

section \<open>Patterns\<close>

definition IMAGE_SUFFIX :: "(pystr \<Rightarrow> rx) \<Rightarrow> rx" where
  "IMAGE_SUFFIX lit = Grp 1 (Alts [lit (ascii ''png''), Cats [lit (ascii ''jp''), Maybe (lit (ascii ''e'')), lit (ascii ''g'')],
     lit (ascii ''gif''), lit (ascii ''bmp''), lit (ascii ''webp'')])"

definition IMAGE_FILENAME_LINE :: rx where
  "IMAGE_FILENAME_LINE = Cats [Bol, Lit (ascii ''image''), Plus is_decimal, Lit (ascii ''.''), IMAGE_SUFFIX Lit, Star is_space, Eol]"

definition IMAGE_URL :: rx where
  "IMAGE_URL = Cats [Lit_ci (ascii ''http''), Maybe (Lit_ci (ascii ''s'')), Lit (ascii ''://''),
     Many False (\<lambda>c. \<not> is_space c) 1 None, Lit (ascii ''.''), IMAGE_SUFFIX Lit_ci,
     Maybe (Grp 2 (Cat (Lit (ascii ''?'')) (Star (\<lambda>c. \<not> is_space c))))]"

definition FILE_URL :: rx where
  "FILE_URL = Cats [Lit_ci (ascii ''file''), Lit (ascii '':''), Maybe (Grp 1 (Lit (ascii ''//''))), Plus (\<lambda>c. \<not> is_space c)]"

definition SEPARATOR_LINE :: rx where
  "SEPARATOR_LINE = Cats [Bol, Star is_space, Many True (\<lambda>c. c \<in> {45, 95, 42, 61}) 3 None, Star is_space, Eol]"

definition is_control :: "nat \<Rightarrow> bool" where
  "is_control c \<longleftrightarrow> c \<le> 8 \<or> c = 11 \<or> c = 12 \<or> (14 \<le> c \<and> c \<le> 31)"

definition CONTROL_CHARS :: rx where "CONTROL_CHARS = Chr is_control"

definition HTML_TAGS :: rx where "HTML_TAGS = Cats [Lit (ascii ''<''), Plus (\<lambda>c. c \<noteq> 62), Lit (ascii ''>'')]"

definition is_blank_char :: "nat \<Rightarrow> bool" where "is_blank_char c \<longleftrightarrow> c = 32 \<or> c = 9"

definition TRAILING_SPACES :: rx where "TRAILING_SPACES = Cat (Plus is_blank_char) Eol"

definition MULTI_NEWLINES :: rx where "MULTI_NEWLINES = Many True (\<lambda>c. c = 10) 3 None"

definition HTML_ENTITIES :: "(pystr, pystr) dict" where
  "HTML_ENTITIES = [(ascii ''&nbsp;'', [32]), (ascii ''&amp;'', [38]), (ascii ''&lt;'', [60]), (ascii ''&gt;'', [62]),
     (ascii ''&quot;'', [34]), (ascii ''&apos;'', [39])]"

section \<open>The cleaner\<close>

text \<open>\<open>text.replace(old, new)\<close> for an \<open>old\<close> that is not empty.\<close>

definition py_replace :: "pystr \<Rightarrow> pystr \<Rightarrow> pystr \<Rightarrow> pystr" where
  "py_replace old new s = rx_sub (Lit old) new s"

definition strip_noise :: "pystr \<Rightarrow> pystr" where
  "strip_noise s = rx_sub SEPARATOR_LINE [] (rx_sub FILE_URL [] (rx_sub IMAGE_URL [] (rx_sub IMAGE_FILENAME_LINE [] (rx_sub CONTROL_CHARS [] s))))"

definition unix_newlines :: "pystr \<Rightarrow> pystr" where
  "unix_newlines s = py_replace [13] [10] (py_replace [13, 10] [10] s)"

definition clean_text :: "pystr option \<Rightarrow> pystr" where
  "clean_text v = (case v of None \<Rightarrow> [] | Some s \<Rightarrow> if blank s then [] else
     py_strip (rx_sub MULTI_NEWLINES [10, 10] (rx_sub TRAILING_SPACES [] (unix_newlines (strip_noise s)))))"

definition clean_text_with_limit :: "pystr option \<Rightarrow> int \<Rightarrow> pystr" where
  "clean_text_with_limit v max_length = (let cleaned = clean_text v in
     if int (length cleaned) > max_length then py_slice_to max_length cleaned else cleaned)"

definition WHITE_SPACE :: rx where "WHITE_SPACE = Plus is_space"

definition clean_to_single_line :: "pystr option \<Rightarrow> pystr" where
  "clean_to_single_line v = (case v of None \<Rightarrow> [] | Some s \<Rightarrow> if blank s then [] else
     py_strip (rx_sub WHITE_SPACE [32] (rx_sub (Plus (\<lambda>c. c = 13 \<or> c = 10)) [32] s)))"

definition strip_html :: "pystr option \<Rightarrow> pystr" where
  "strip_html v = (case v of None \<Rightarrow> [] | Some s \<Rightarrow> if blank s then [] else
     py_strip (rx_sub WHITE_SPACE [32] (fold (\<lambda>(entity, replacement). py_replace entity replacement) HTML_ENTITIES (rx_sub HTML_TAGS [32] s))))"

section \<open>What substitutions do to characters\<close>

lemma match_Chr: "match_at (Chr P) prev (x # xs) = (if P x then Some ([x], []) else None)"
  by (simp add: match_at_def)

lemma match_Lit1: "match_at (Lit [c]) prev (x # xs) = (if x = c then Some ([x], []) else None)"
  by (simp add: match_at_def Lit_def)

lemma sub_Chr: "sub_from (Chr P) repl prev s = concat (map (\<lambda>x. if P x then repl else [x]) s)"
  by (induction s arbitrary: prev) (simp_all add: sub_from.simps(2) match_Chr)

lemma sub_Lit1: "sub_from (Lit [c]) repl prev s = concat (map (\<lambda>x. if x = c then repl else [x]) s)"
  by (induction s arbitrary: prev) (simp_all add: sub_from.simps(2) match_Lit1)

lemma sub_nil_chars: "c \<in> set (rx_sub r [] s) \<Longrightarrow> c \<in> set s"
  using set_sub [of r "[]" None s] by (auto simp: rx_sub_def)

lemma strip_noise_chars: "c \<in> set (strip_noise s) \<Longrightarrow> \<not> is_control c"
proof -
  assume "c \<in> set (strip_noise s)"
  then have "c \<in> set (rx_sub CONTROL_CHARS [] s)"
    unfolding strip_noise_def by (blast dest: sub_nil_chars)
  then show "\<not> is_control c" by (auto simp: rx_sub_def CONTROL_CHARS_def sub_Chr split: if_splits)
qed

lemma unix_newlines_chars: "c \<in> set (unix_newlines s) \<Longrightarrow> c \<noteq> 13 \<and> (c \<in> set s \<or> c = 10)"
proof -
  assume c: "c \<in> set (unix_newlines s)"
  have "set (py_replace [13, 10] [10] s) \<subseteq> set s \<union> {10}" unfolding py_replace_def rx_sub_def using set_sub [where repl = "[10]"] by auto
  with c show ?thesis by (auto simp: unix_newlines_def py_replace_def rx_sub_def sub_Lit1 split: if_splits)
qed

section \<open>Lines of a cleaned text\<close>

text \<open>No blank before a line end, and never more than one empty line.\<close>

definition trailing :: "pystr \<Rightarrow> bool" where
  "trailing s \<longleftrightarrow> (\<exists>a c b. s = a @ c # b \<and> is_blank_char c \<and> (b = [] \<or> hd b = 10))"

definition blank_before_newline :: "pystr \<Rightarrow> bool" where
  "blank_before_newline s \<longleftrightarrow> (\<exists>a c b. s = a @ [c, 10] @ b \<and> is_blank_char c)"

definition newlines :: "pystr \<Rightarrow> nat" where "newlines s = length (takeWhile (\<lambda>c. c = 10) s)"

definition triple_newline :: "pystr \<Rightarrow> bool" where
  "triple_newline s \<longleftrightarrow> (\<exists>a b. s = a @ [10, 10, 10] @ b)"

lemma trailing_Cons: "trailing (x # xs) \<longleftrightarrow> (is_blank_char x \<and> (xs = [] \<or> hd xs = 10)) \<or> trailing xs"
proof
  assume "trailing (x # xs)"
  then obtain a c b where "x # xs = a @ c # b" "is_blank_char c" "b = [] \<or> hd b = 10" unfolding trailing_def by blast
  then show "(is_blank_char x \<and> (xs = [] \<or> hd xs = 10)) \<or> trailing xs" unfolding trailing_def by (cases a) auto
next
  assume "(is_blank_char x \<and> (xs = [] \<or> hd xs = 10)) \<or> trailing xs"
  then show "trailing (x # xs)" unfolding trailing_def by (metis append_Cons append_Nil)
qed

lemma newlines_simps [simp]: "newlines [] = 0" "newlines (x # xs) = (if x = 10 then Suc (newlines xs) else 0)"
  by (simp_all add: newlines_def)

lemma newlines_pos: "newlines s > 0 \<longleftrightarrow> s \<noteq> [] \<and> hd s = 10"
  by (cases s) simp_all

lemma triple_Cons: "triple_newline (x # xs) \<longleftrightarrow> newlines (x # xs) \<ge> 3 \<or> triple_newline xs"
proof
  assume "triple_newline (x # xs)"
  then obtain a b where "x # xs = a @ [10, 10, 10] @ b" unfolding triple_newline_def by blast
  then show "newlines (x # xs) \<ge> 3 \<or> triple_newline xs" unfolding triple_newline_def by (cases a) auto
next
  assume "newlines (x # xs) \<ge> 3 \<or> triple_newline xs"
  moreover have "triple_newline (x # xs)" if "newlines (x # xs) \<ge> 3"
  proof -
    from that obtain y z ys where "x = 10" "xs = y # z # ys" "y = 10" "z = 10"
      by (cases xs; cases "tl xs") (auto split: if_splits)
    then show ?thesis unfolding triple_newline_def by (metis append_Cons append_Nil)
  qed
  moreover have "triple_newline (x # xs)" if "triple_newline xs" using that unfolding triple_newline_def by (metis append_Cons)
  ultimately show "triple_newline (x # xs)" by blast
qed

lemma triple_Nil [simp]: "\<not> triple_newline []" by (simp add: triple_newline_def)

lemma trailing_Nil [simp]: "\<not> trailing []" by (simp add: trailing_def)

lemma in_trailing: "(\<exists>u v. s = u @ v \<and> rx_in TRAILING_SPACES prev u v) \<longleftrightarrow> (\<exists>u v. s = u @ v \<and> u \<noteq> [] \<and> (\<forall>c \<in> set u. is_blank_char c) \<and> (v = [] \<or> hd v = 10))"
proof -
  have "rx_in TRAILING_SPACES prev u v \<longleftrightarrow> u \<noteq> [] \<and> (\<forall>c \<in> set u. is_blank_char c) \<and> (v = [] \<or> hd v = 10)" for u v
    by (cases u) (auto simp: TRAILING_SPACES_def)
  then show ?thesis by blast
qed

lemma sub_trailing: "\<not> trailing (sub_from TRAILING_SPACES [] prev s)"
proof (induction "length s" arbitrary: s prev rule: less_induct)
  case less
  let ?sub = "sub_from TRAILING_SPACES []"
  show ?case
  proof (cases s)
    case (Cons x xs)
    show ?thesis
    proof (cases rule: hit_cases [of TRAILING_SPACES prev s])
      case (3 u c)
      then have "\<not> trailing (?sub (last_char prev u) (drop (length u) s))" using Cons by (intro less.hyps) simp
      then show ?thesis using sub_hit 3 unfolding Cons by (metis append_Nil)
    next
      case 1
      then have no: "\<not> (\<exists>u v. s = u @ v \<and> u \<noteq> [] \<and> (\<forall>c \<in> set u. is_blank_char c) \<and> (v = [] \<or> hd v = 10))"
        using match_at_iff [of TRAILING_SPACES prev s] in_trailing [of s prev] by blast
      have eq: "?sub prev s = x # ?sub (Some x) xs" using sub_skip 1 unfolding Cons by fast
      have "?sub (Some x) xs \<noteq> [] \<and> hd (?sub (Some x) xs) \<noteq> 10" if b: "is_blank_char x"
      proof (cases rule: hit_cases [of TRAILING_SPACES "Some x" xs])
        case (3 u c)
        then obtain v where "xs = u @ v" "rx_in TRAILING_SPACES (Some x) u v" using match_at_word by blast
        then have "\<exists>u v. xs = u @ v \<and> u \<noteq> [] \<and> (\<forall>c \<in> set u. is_blank_char c) \<and> (v = [] \<or> hd v = 10)" using in_trailing [of xs "Some x"] by blast
        then obtain u v where "s = (x # u) @ v" "\<forall>c \<in> set (x # u). is_blank_char c" "v = [] \<or> hd v = 10" using Cons b by auto
        with no show ?thesis by (metis list.distinct(1))
      next
        case skip: 1
        have "xs \<noteq> [] \<and> hd xs \<noteq> 10" using no b Cons by (metis append_Cons append_Nil empty_iff empty_set list.distinct(1) set_ConsD)
        then show ?thesis using sub_skip skip by (cases xs) fastforce+
      next
        case skip: (2 c)
        have "xs \<noteq> [] \<and> hd xs \<noteq> 10" using no b Cons by (metis append_Cons append_Nil empty_iff empty_set list.distinct(1) set_ConsD)
        then show ?thesis using sub_skip skip by (cases xs) fastforce+
      qed
      moreover have "\<not> trailing (?sub (Some x) xs)" using Cons by (intro less.hyps) simp
      ultimately show ?thesis unfolding eq trailing_Cons by blast
    next
      case (2 c)
      then have "\<exists>v. s = [] @ v \<and> rx_in TRAILING_SPACES prev [] v" using match_at_word by blast
      then show ?thesis by (auto simp: TRAILING_SPACES_def)
    qed
  qed simp
qed

lemma match_multi:
  "match_at MULTI_NEWLINES prev s = (if newlines s \<ge> 3 then Some (take (newlines s) s, []) else None)"
proof (cases "newlines s \<ge> 3")
  case True
  then have "rev [3..<Suc (newlines s)] = newlines s # rev [3..<newlines s]" by simp
  moreover have "newlines s \<le> length s" unfolding newlines_def by (rule length_takeWhile_le)
  ultimately show ?thesis using True
    by (simp add: match_at_def MULTI_NEWLINES_def run_lengths_def advance_def newlines_def [symmetric] Let_def)
next
  case False
  then show ?thesis by (simp add: match_at_def MULTI_NEWLINES_def run_lengths_def newlines_def [symmetric] Let_def)
qed

lemma newlines_drop: "newlines (drop (newlines s) s) = 0"
  by (induction s) simp_all

lemma trailing_suffix: "\<not> trailing (a @ b) \<Longrightarrow> \<not> trailing b"
  by (induction a) (simp_all add: trailing_Cons)

lemma sub_multi:
  "\<not> triple_newline (sub_from MULTI_NEWLINES [10, 10] prev s) \<and> newlines (sub_from MULTI_NEWLINES [10, 10] prev s) = min 2 (newlines s)
   \<and> (sub_from MULTI_NEWLINES [10, 10] prev s = [] \<longleftrightarrow> s = []) \<and> (\<not> trailing s \<longrightarrow> \<not> trailing (sub_from MULTI_NEWLINES [10, 10] prev s))"
proof (induction "length s" arbitrary: s prev rule: less_induct)
  case less
  let ?sub = "sub_from MULTI_NEWLINES [10, 10]"
  show ?case
  proof (cases s)
    case (Cons x xs)
    show ?thesis
    proof (cases "newlines s \<ge> 3")
      case True
      let ?u = "take (newlines s) s" and ?v = "drop (newlines s) s"
      have len: "newlines s \<le> length s" unfolding newlines_def by (rule length_takeWhile_le)
      have u: "?u \<noteq> []" "length ?u = newlines s" using True len Cons by auto
      have "match_at MULTI_NEWLINES prev s = Some (?u, [])" using True by (simp add: match_multi)
      then have eq: "?sub prev s = [10, 10] @ ?sub (last_char prev ?u) ?v"
        using sub_hit [of MULTI_NEWLINES prev x xs ?u "[]" "[10, 10]"] u unfolding Cons by simp
      note ih = less.hyps [of ?v "last_char prev ?u"]
      have v: "length ?v < length s" using True Cons by simp
      have "newlines ?v = 0" by (rule newlines_drop)
      moreover have "\<not> trailing s \<Longrightarrow> \<not> trailing ?v" using trailing_suffix [of ?u ?v] by simp
      ultimately show ?thesis using ih [OF v] True Cons unfolding eq by (simp add: triple_Cons trailing_Cons is_blank_char_def)
    next
      case False
      then have eq: "?sub prev s = x # ?sub (Some x) xs" using sub_skip [of MULTI_NEWLINES prev x xs] Cons by (simp add: match_multi)
      note ih = less.hyps [of xs "Some x"]
      have "hd (?sub (Some x) xs) = 10 \<longleftrightarrow> hd xs = 10" if "xs \<noteq> []"
        using ih Cons that newlines_pos [of xs] newlines_pos [of "?sub (Some x) xs"] by auto
      then show ?thesis using ih Cons False unfolding eq by (auto simp: triple_Cons trailing_Cons)
    qed
  qed simp
qed

lemma strip_part: "\<exists>a b. s = a @ py_strip s @ b"
proof -
  have "s = takeWhile is_space s @ dropWhile is_space s" by simp
  moreover have "dropWhile is_space s = py_strip s @ rev (takeWhile is_space (rev (dropWhile is_space s)))"
    unfolding py_strip_def by (metis rev_append rev_rev_ident takeWhile_dropWhile_id)
  ultimately show ?thesis by metis
qed

text \<open>
  C26. The text of a document is regular once cleaned: no control characters and no carriage returns,
  no blanks before the end of a line or of the text, never two empty lines in a row, and no white
  space at either end.
\<close>

theorem cleaned_text_is_regular:
  "list_all (\<lambda>c. \<not> is_control c \<and> c \<noteq> 13) (clean_text v) \<and> \<not> trailing (clean_text v) \<and> \<not> triple_newline (clean_text v)
   \<and> py_strip (clean_text v) = clean_text v"
proof (cases "v = None \<or> blank (the v)")
  case True
  then have "clean_text v = []" by (cases v) (simp_all add: clean_text_def)
  then show ?thesis by simp
next
  case False
  then obtain s where s: "v = Some s" "\<not> blank s" by auto
  define t where "t = rx_sub MULTI_NEWLINES [10, 10] (rx_sub TRAILING_SPACES [] (unix_newlines (strip_noise s)))"
  have eq: "clean_text v = py_strip t" using s by (simp add: clean_text_def t_def)
  have chars: "\<not> is_control c \<and> c \<noteq> 13" if "c \<in> set t" for c
  proof -
    have "c \<in> set (rx_sub TRAILING_SPACES [] (unix_newlines (strip_noise s))) \<or> c = 10"
      using that set_sub [of MULTI_NEWLINES "[10, 10]" None] unfolding t_def rx_sub_def by fastforce
    then have "c \<in> set (unix_newlines (strip_noise s)) \<or> c = 10" using sub_nil_chars by blast
    then show ?thesis using unix_newlines_chars strip_noise_chars by (fastforce simp: is_control_def)
  qed
  have t: "\<not> triple_newline t" "\<not> trailing t"
    using sub_multi sub_trailing by (auto simp: t_def rx_sub_def)
  obtain a b where ab: "t = a @ py_strip t @ b" using strip_part by blast
  have "\<not> triple_newline (py_strip t)" using t(1) ab unfolding triple_newline_def by (metis append.assoc)
  moreover have "\<not> trailing (py_strip t)"
  proof
    assume "trailing (py_strip t)"
    then obtain x c y where x: "py_strip t = x @ c # y" "is_blank_char c" "y = [] \<or> hd y = 10" unfolding trailing_def by blast
    show False
    proof (cases "y = []")
      case True
      then show False using last_py_strip [of t] x by (auto simp: is_blank_char_def is_space_def)
    next
      case False
      then have "t = (a @ x) @ c # (y @ b)" "hd (y @ b) = 10" using ab x by auto
      then show False using t(2) x(2) unfolding trailing_def by blast
    qed
  qed
  moreover have "\<forall>c \<in> set (py_strip t). \<not> is_control c \<and> c \<noteq> 13" using chars set_py_strip [of t] by blast
  ultimately show ?thesis unfolding eq by (simp add: list_all_iff)
qed

end
