(* ===== verification/Document_Parser.thy ===== *)
theory Document_Parser
  imports Text_Cleaner Bytes
begin

text \<open>
  \<open>infrastructure/parsing/content_type.py\<close> and \<open>parser.py\<close>: the type of an uploaded file and its text.
  Guessing a type from the bytes, the extractors for PDF and Word and \<open>str.lower\<close> are parameters.
\<close>

record ParserEnv =
  pe_guess :: "bytes \<Rightarrow> pystr option"
  pe_lower :: "pystr \<Rightarrow> pystr"
  pe_extract_text :: "bytes \<Rightarrow> pystr result"
  pe_partition_docx :: "bytes \<Rightarrow> pystr list result"
  pe_exc_str :: "exn \<Rightarrow> pystr"

section \<open>Types\<close>

definition EXT_MAP :: "(pystr, pystr) dict" where
  "EXT_MAP = map (\<lambda>(a, b). (ascii a, ascii b)) [(''pdf'', ''application/pdf''), (''doc'', ''application/msword''),
     (''docx'', ''application/vnd.openxmlformats-officedocument.wordprocessingml.document''), (''txt'', ''text/plain''),
     (''md'', ''text/markdown''), (''markdown'', ''text/markdown'')]"

definition OCTET_STREAM :: pystr where "OCTET_STREAM = ascii ''application/octet-stream''"

text \<open>\<open>name.rsplit('.', 1)[-1]\<close>, the empty text without a dot.\<close>

definition extension :: "pystr \<Rightarrow> pystr" where
  "extension name = (if 46 \<in> set name then rev (takeWhile (\<lambda>c. c \<noteq> 46) (rev name)) else [])"

definition detect_type :: "ParserEnv \<Rightarrow> bytes \<Rightarrow> pystr option \<Rightarrow> pystr" where
  "detect_type env data filename = (case (if data = [] then None else pe_guess env data) of
     Some mime \<Rightarrow> mime
   | None \<Rightarrow> (case filename of
       None \<Rightarrow> OCTET_STREAM
     | Some name \<Rightarrow> if name = [] then OCTET_STREAM else
         let ext = (if 46 \<in> set name then extension (pe_lower env name) else [])
         in dict_get_default EXT_MAP ext OCTET_STREAM))"

definition is_pdf :: "ParserEnv \<Rightarrow> pystr option \<Rightarrow> bool" where
  "is_pdf env t = (case t of None \<Rightarrow> False | Some t \<Rightarrow> py_contains (ascii ''pdf'') (pe_lower env t))"

definition is_word_document :: "ParserEnv \<Rightarrow> pystr option \<Rightarrow> bool" where
  "is_word_document env t = (case t of None \<Rightarrow> False | Some t \<Rightarrow>
     py_contains (ascii ''msword'') (pe_lower env t) \<or> py_contains (ascii ''wordprocessingml'') (pe_lower env t))"

definition is_plain_text :: "ParserEnv \<Rightarrow> pystr option \<Rightarrow> bool" where
  "is_plain_text env t = (case t of None \<Rightarrow> False | Some t \<Rightarrow> is_prefix_of (ascii ''text/'') (pe_lower env t))"

definition ends_with :: "pystr \<Rightarrow> pystr \<Rightarrow> bool" where
  "ends_with p s \<longleftrightarrow> is_prefix_of (rev p) (rev s)"

definition is_markdown :: "ParserEnv \<Rightarrow> pystr option \<Rightarrow> pystr option \<Rightarrow> bool" where
  "is_markdown env t filename \<longleftrightarrow>
     (case t of None \<Rightarrow> False | Some t \<Rightarrow> py_contains (ascii ''markdown'') (pe_lower env t) \<or> py_contains (ascii ''x-markdown'') (pe_lower env t))
     \<or> (case filename of None \<Rightarrow> False | Some n \<Rightarrow> ends_with (ascii ''.md'') (pe_lower env n) \<or> ends_with (ascii ''.markdown'') (pe_lower env n))"

definition is_allowed :: "ParserEnv \<Rightarrow> pystr option \<Rightarrow> bool" where
  "is_allowed env t \<longleftrightarrow> is_pdf env t \<or> is_word_document env t \<or> is_plain_text env t \<or> is_markdown env t None"

section \<open>Decoding\<close>

text \<open>
  \<open>data.decode('utf-8', errors='replace')\<close>: the longest beginning of a character that is not completed
  becomes one replacement character.
\<close>

definition second_ok :: "nat \<Rightarrow> nat \<Rightarrow> bool" where
  "second_ok a b \<longleftrightarrow> (if a = 224 then 160 \<le> b \<and> b < 192 else if a = 237 then 128 \<le> b \<and> b < 160
     else if a = 240 then 144 \<le> b \<and> b < 192 else if a = 244 then 128 \<le> b \<and> b < 144 else cont b)"

definition sequence_length :: "nat \<Rightarrow> nat" where
  "sequence_length a = (if a < 128 then 1 else if 194 \<le> a \<and> a < 224 then 2 else if 224 \<le> a \<and> a < 240 then 3
     else if 240 \<le> a \<and> a < 245 then 4 else 0)"

definition valid_prefix :: "nat \<Rightarrow> nat list \<Rightarrow> nat list" where
  "valid_prefix a xs = (case xs of [] \<Rightarrow> [] | b # ys \<Rightarrow> if second_ok a b then b # takeWhile cont (take (sequence_length a - 2) ys) else [])"

definition joined :: "nat \<Rightarrow> nat list \<Rightarrow> nat" where
  "joined lead tail = foldl (\<lambda>n b. n * 64 + (b - 128)) lead tail"

text \<open>The character at the head, or none, and the number of bytes read.\<close>

definition utf8_step :: "nat \<Rightarrow> nat list \<Rightarrow> nat option \<times> nat" where
  "utf8_step a xs = (let n = sequence_length a in
     if n = 0 then (None, 1) else if n = 1 then (Some a, 1)
     else let tail = valid_prefix a xs in
       if length tail = n - 1 then (Some (joined (a - (if n = 2 then 192 else if n = 3 then 224 else 240)) tail), n)
       else (None, 1 + length tail))"

function utf8_replace_run :: "nat list \<Rightarrow> pystr" where
  "utf8_replace_run [] = []"
| "utf8_replace_run (a # xs) = (case utf8_step a xs of (c, n) \<Rightarrow>
     (case c of None \<Rightarrow> 65533 | Some c \<Rightarrow> c) # utf8_replace_run (drop (n - 1) xs))"
  by pat_completeness auto
termination by (relation "measure length") auto

declare utf8_replace_run.simps(2) [simp del]

definition utf8_replace :: "bytes \<Rightarrow> pystr" where
  "utf8_replace bs = utf8_replace_run (map unat bs)"

section \<open>The parser\<close>

definition MAX_TEXT_LENGTH :: nat where "MAX_TEXT_LENGTH = 5 * 1024 * 1024"

definition partition_pdf :: "ParserEnv \<Rightarrow> bytes \<Rightarrow> pystr list result" where
  "partition_pdf env data = res_map (\<lambda>t. if blank t then [] else [t]) (pe_extract_text env data)"

definition raw_text :: "ParserEnv \<Rightarrow> bytes \<Rightarrow> pystr \<Rightarrow> pystr result" where
  "raw_text env data filename = (let t = Some (detect_type env data (Some filename)) in
     if is_plain_text env t \<or> is_markdown env t (Some filename) then Inr (utf8_replace data)
     else if is_pdf env t then res_map (py_join [10, 10]) (partition_pdf env data)
     else if is_word_document env t then res_map (py_join [10, 10]) (pe_partition_docx env data)
     else Inr (utf8_replace data))"

definition parse_content :: "ParserEnv \<Rightarrow> bytes \<Rightarrow> pystr \<Rightarrow> pystr result" where
  "parse_content env data filename = (if data = [] then Inr [] else
     (case raw_text env data filename of
       Inr raw \<Rightarrow> let cleaned = clean_text (Some raw) in Inr (if length cleaned > MAX_TEXT_LENGTH then take MAX_TEXT_LENGTH cleaned else cleaned)
     | Inl (BusinessException c m) \<Rightarrow> Inl (BusinessException c m)
     | Inl e \<Rightarrow> Inl (BusinessException INTERNAL_ERROR ([25991, 20214, 35299, 26512, 22833, 36133, 58, 32] @ pe_exc_str env e))))"

section \<open>Text that is encoded is read back\<close>

lemma below_surrogates: "c div 4096 = 13 \<Longrightarrow> c < 55296 \<Longrightarrow> c div 64 mod 64 < (32 :: nat)"
proof -
  assume a: "c div 4096 = 13" "c < 55296"
  have "c div 64 div 64 = 13" using a(1) by (simp add: div_mult2_eq [symmetric])
  moreover have "c div 64 < 864" using a(2) by linarith
  ultimately show ?thesis using div_mult_mod_eq [of "c div 64" 64] by linarith
qed

lemma last_plane: "c div 262144 = 4 \<Longrightarrow> c < 1114112 \<Longrightarrow> c div 4096 mod 64 < (16 :: nat)"
proof -
  assume a: "c div 262144 = 4" "c < 1114112"
  have "c div 4096 div 64 = 4" using a(1) by (simp add: div_mult2_eq [symmetric])
  moreover have "c div 4096 < 272" using a(2) by linarith
  ultimately show ?thesis using div_mult_mod_eq [of "c div 4096" 64] by linarith
qed

lemma utf8_step_char:
  assumes "scalar c"
  shows "\<exists>a xs. utf8_char c = a # xs \<and> utf8_step a (xs @ bs) = (Some c, Suc (length xs))"
proof -
  have "c < 1114112" using assms by (auto simp: scalar_def)
  consider "c < 128" | "128 \<le> c" "c < 2048" | "2048 \<le> c" "c < 65536" | "65536 \<le> c" by linarith
  then show ?thesis
  proof cases
    case 1
    then show ?thesis by (simp add: utf8_char_def utf8_step_def sequence_length_def)
  next
    case 2
    then have "2 \<le> c div 64" "c div 64 < 32" by linarith+
    with 2 show ?thesis
      by (simp add: utf8_char_def utf8_step_def sequence_length_def valid_prefix_def second_ok_def cont_def joined_def Let_def)
  next
    case 3
    then have d: "c div 4096 < 16" by linarith
    have s: "second_ok (224 + c div 4096) (128 + c div 64 mod 64)"
      using assms 3 below_surrogates by (auto simp: second_ok_def cont_def scalar_def)
    have "joined (c div 4096) [128 + c div 64 mod 64, 128 + c mod 64] = c" using digits3 [of c] by (simp add: joined_def)
    with 3 d s show ?thesis
      by (simp add: utf8_char_def utf8_step_def sequence_length_def valid_prefix_def cont_def Let_def)
  next
    case 4
    then have d: "c div 262144 < 5" using \<open>c < 1114112\<close> by linarith
    have s: "second_ok (240 + c div 262144) (128 + c div 4096 mod 64)"
      using \<open>c < 1114112\<close> 4 last_plane by (auto simp: second_ok_def cont_def)
    have "joined (c div 262144) [128 + c div 4096 mod 64, 128 + c div 64 mod 64, 128 + c mod 64] = c"
      using digits4 [of c] by (simp add: joined_def)
    with 4 d s show ?thesis
      by (simp add: utf8_char_def utf8_step_def sequence_length_def valid_prefix_def cont_def Let_def)
  qed
qed

lemma utf8_replace_chars: "list_all scalar s \<Longrightarrow> utf8_replace_run (concat (map utf8_char s)) = s"
proof (induction s)
  case (Cons c s)
  then obtain a xs where "utf8_char c = a # xs" "utf8_step a (xs @ concat (map utf8_char s)) = (Some c, Suc (length xs))"
    using utf8_step_char [of c "concat (map utf8_char s)"] by auto
  with Cons show ?case by (simp add: utf8_replace_run.simps(2))
qed simp

lemma utf8_replace_encode:
  assumes "utf8_encode s = Inr bs"
  shows "utf8_replace bs = s"
proof -
  have "list_all scalar s" using assms by (auto simp: utf8_encode_def split: if_splits)
  moreover have "map unat bs = concat (map utf8_char s)" using assms utf8_bytes by blast
  ultimately show ?thesis by (simp add: utf8_replace_def utf8_replace_chars)
qed

end
