(* ===== verification/Schedule_Parser.thy ===== *)
theory Schedule_Parser
  imports Py_Regex Errors
begin

text \<open>
  \<open>domain/services/schedule_parser.py\<close> with the entity \<open>ParsedSchedule\<close>: reading an interview invitation
  by rules for three platforms. Dates are computed as \<open>datetime\<close> computes them; \<open>strptime\<close> is the
  pattern Python builds for the format. \<open>datetime.fromisoformat\<close> and \<open>str.lower\<close> are parameters.
\<close>

section \<open>Date and time\<close>

text \<open>
  A \<open>datetime\<close>: the microseconds its wall clock is past the beginning of year 0 of \<open>toordinal\<close>, and the
  offset from UTC, if it has one.
\<close>

record PyDateTime =
  dt_wall :: int
  dt_offset :: "int option"

definition is_leap :: "int \<Rightarrow> bool" where
  "is_leap y \<longleftrightarrow> y mod 4 = 0 \<and> (y mod 100 \<noteq> 0 \<or> y mod 400 = 0)"

definition days_in_month :: "int \<Rightarrow> int \<Rightarrow> int" where
  "days_in_month y m = (if m = 2 then (if is_leap y then 29 else 28) else if m \<in> {4, 6, 9, 11} then 30 else 31)"

definition days_before_year :: "int \<Rightarrow> int" where
  "days_before_year y = (let p = y - 1 in p * 365 + p div 4 - p div 100 + p div 400)"

definition days_before_month :: "int \<Rightarrow> int \<Rightarrow> int" where
  "days_before_month y m = sum_list (map (days_in_month y) [1..m - 1])"

definition make_datetime :: "int \<Rightarrow> int \<Rightarrow> int \<Rightarrow> int \<Rightarrow> int \<Rightarrow> int \<Rightarrow> PyDateTime result" where
  "make_datetime y mo d h mi s =
     (if 1 \<le> y \<and> y \<le> 9999 \<and> 1 \<le> mo \<and> mo \<le> 12 \<and> 1 \<le> d \<and> d \<le> days_in_month y mo \<and> 0 \<le> h \<and> h \<le> 23 \<and> 0 \<le> mi \<and> mi \<le> 59 \<and> 0 \<le> s \<and> s \<le> 59
      then Inr \<lparr>dt_wall = (((days_before_year y + days_before_month y mo + d) * 24 + h) * 60 + mi) * 60000000 + s * 1000000, dt_offset = None\<rparr>
      else Inl (ValueError (ascii ''out of range'')))"

text \<open>\<open>int\<close> of a group of digits; a blank before them is skipped.\<close>

definition int_of_digits :: "pystr \<Rightarrow> int" where
  "int_of_digits s = foldl (\<lambda>n c. n * 10 + int c) 0 (List.map_filter decimal_value s)"

definition one_of :: "nat \<Rightarrow> nat \<Rightarrow> rx" where "one_of lo hi = Chr (\<lambda>c. lo \<le> c \<and> c \<le> hi)"
definition digit_rx :: rx where "digit_rx = Chr is_decimal"

text \<open>The directives of \<open>strptime\<close>.\<close>

definition P_Y :: rx where "P_Y = Cats [digit_rx, digit_rx, digit_rx, digit_rx]"
definition P_m :: rx where "P_m = Alts [Cats [Lit [49], one_of 48 50], Cats [Lit [48], one_of 49 57], one_of 49 57]"
definition P_d :: rx where
  "P_d = Alts [Cats [Lit [51], one_of 48 49], Cats [one_of 49 50, digit_rx], Cats [Lit [48], one_of 49 57], one_of 49 57, Cats [Lit [32], one_of 49 57]]"
definition P_H :: rx where "P_H = Alts [Cats [Lit [50], one_of 48 51], Cats [one_of 48 49, digit_rx], digit_rx]"
definition P_M :: rx where "P_M = Alts [Cats [one_of 48 53, digit_rx], digit_rx]"
definition P_S :: rx where "P_S = Alts [Cats [Lit [54], one_of 48 49], Cats [one_of 48 53, digit_rx], digit_rx]"

definition DATE_MINUTES :: rx where
  "DATE_MINUTES = Cats [Grp 1 P_Y, Lit [45], Grp 2 P_m, Lit [45], Grp 3 P_d, Plus is_space, Grp 4 P_H, Lit [58], Grp 5 P_M]"

definition DATE_SECONDS :: rx where
  "DATE_SECONDS = Cats [Grp 1 P_Y, Lit [45], Grp 2 P_m, Lit [45], Grp 3 P_d, Plus is_space, Grp 4 P_H, Lit [58], Grp 5 P_M, Lit [58], Grp 6 P_S]"

definition strptime :: "rx \<Rightarrow> pystr \<Rightarrow> PyDateTime result" where
  "strptime format s = (case match_at format None s of
     None \<Rightarrow> Inl (ValueError (ascii ''does not match format''))
   | Some m \<Rightarrow> if length (fst m) \<noteq> length s then Inl (ValueError (ascii ''unconverted data remains''))
       else let g = (\<lambda>n. int_of_digits (group n m)) in make_datetime (g 1) (g 2) (g 3) (g 4) (g 5) (g 6))"

section \<open>Patterns\<close>

definition colon :: rx where "colon = Chr (\<lambda>c. c = 65306 \<or> c = 58)"
definition date_rx :: rx where
  "date_rx = Cats [Times is_decimal 4, Chr (\<lambda>c. c = 45 \<or> c = 47), Times is_decimal 2, Chr (\<lambda>c. c = 45 \<or> c = 47), Times is_decimal 2]"
definition clock_rx :: rx where "clock_rx = Cats [Times is_decimal 2, Lit [58], Times is_decimal 2]"
definition value_rx :: rx where "value_rx = Many True (\<lambda>c. \<not> (is_space c \<or> c = 10)) 1 (Some 50)"

definition TIME_PATTERN_FEISHU :: rx where
  "TIME_PATTERN_FEISHU = Cats [Or (Lit [26102, 38388]) (Lit [26102, 27573]), colon, Star is_space, Grp 1 (Cats [date_rx, Plus is_space, clock_rx])]"
definition LINK_PATTERN_FEISHU :: rx where
  "LINK_PATTERN_FEISHU = Cat (Lit (ascii ''https://meeting.feishu.cn/'')) (Plus (\<lambda>c. \<not> (is_space c \<or> c = 10)))"
definition COMPANY_PATTERN :: rx where
  "COMPANY_PATTERN = Cats [Alts [Lit [20844, 21496], Lit [21333, 20301], Lit [32452, 32455]], colon, Star is_space, Grp 1 value_rx]"
definition POSITION_PATTERN :: rx where
  "POSITION_PATTERN = Cats [Alts [Lit [23703, 20301], Lit [32844, 20301], Lit [32844, 21153]], colon, Star is_space, Grp 1 value_rx]"

definition CHINESE_NUMBERS :: "(nat, int) dict" where
  "CHINESE_NUMBERS = [(19968, 1), (20108, 2), (19977, 3), (22235, 4), (20116, 5), (20845, 6), (19971, 7), (20843, 8), (20061, 9), (21313, 10)]"

definition ROUND_PATTERN_FEISHU :: rx where
  "ROUND_PATTERN_FEISHU = Cats [Lit [31532], Star is_space, Grp 1 (Plus (\<lambda>c. c \<in> set (dict_keys CHINESE_NUMBERS) \<or> is_decimal c)), Star is_space,
     Chr (\<lambda>c. c = 36718 \<or> c = 22330)]"
definition TIME_PATTERN_TENCENT :: rx where
  "TIME_PATTERN_TENCENT = Cats [Grp 1 date_rx, Plus is_space, Grp 2 clock_rx]"
definition MEETING_ID_PATTERN_TENCENT :: rx where
  "MEETING_ID_PATTERN_TENCENT = Cats [Or (Lit [20250, 35758, 21495]) (Lit (ascii ''ID'')), Maybe colon, Star is_space, Grp 1 (Many True is_decimal 9 None)]"
definition PASSWORD_PATTERN_TENCENT :: rx where
  "PASSWORD_PATTERN_TENCENT = Cats [Lit [23494, 30721], Maybe colon, Star is_space, Grp 1 (Many True is_decimal 4 None)]"
definition LINK_PATTERN_ZOOM :: rx where
  "LINK_PATTERN_ZOOM = Cat (Lit (ascii ''https://zoom.us/j/'')) (Plus (\<lambda>c. \<not> (is_space c \<or> c = 10)))"
definition DATE_PATTERN_ZOOM :: rx where "DATE_PATTERN_ZOOM = Grp 1 date_rx"
definition HOUR_PATTERN_ZOOM :: rx where
  "HOUR_PATTERN_ZOOM = Grp 1 (Cats [Many True is_decimal 1 (Some 2), Lit [58], Times is_decimal 2])"

section \<open>Parsers\<close>

record ScheduleEnv =
  se_lower :: "pystr \<Rightarrow> pystr"
  se_fromisoformat :: "pystr \<Rightarrow> PyDateTime result"

record ParsedSchedule =
  psd_company_name :: "pystr option"
  psd_position :: "pystr option"
  psd_interview_time :: "PyDateTime option"
  psd_interview_type :: "pystr option"
  psd_meeting_link :: "pystr option"
  psd_round_number :: int
  psd_interviewer :: "pystr option"
  psd_notes :: "pystr option"

definition is_valid_parse :: "ParsedSchedule option \<Rightarrow> bool" where
  "is_valid_parse r = (case r of None \<Rightarrow> False
     | Some p \<Rightarrow> psd_company_name p \<noteq> None \<and> psd_position p \<noteq> None \<and> psd_interview_time p \<noteq> None)"

definition parse_datetime :: "ScheduleEnv \<Rightarrow> pystr \<Rightarrow> PyDateTime result" where
  "parse_datetime env time_str = (let normalized = map (\<lambda>c. if c = 47 then 45 else c) time_str in
     if length normalized = 16 then strptime DATE_MINUTES normalized
     else if length normalized = 19 then strptime DATE_SECONDS normalized
     else se_fromisoformat env normalized)"

text \<open>
  \<open>str.isdigit\<close> also holds of digits that are no decimals, such as superscripts, which \<open>int\<close> refuses.
\<close>

definition OTHER_DIGITS :: "(nat \<times> nat) list" where
  "OTHER_DIGITS = [(178, 179), (185, 185), (4969, 4977), (6618, 6618), (8304, 8304), (8308, 8313), (8320, 8329), (9312, 9320),
     (9332, 9340), (9352, 9360), (9450, 9450), (9461, 9469), (9471, 9471), (10102, 10110), (10112, 10120), (10122, 10130),
     (68160, 68163), (69216, 69224), (69714, 69722), (127232, 127242)]"

definition is_digit_char :: "nat \<Rightarrow> bool" where
  "is_digit_char c \<longleftrightarrow> is_decimal c \<or> (\<exists>(a, b) \<in> set OTHER_DIGITS. a \<le> c \<and> c \<le> b)"

definition int_of_text :: "pystr \<Rightarrow> int result" where
  "int_of_text s = (if s \<noteq> [] \<and> list_all is_decimal s then Inr (int_of_digits s) else Inl (ValueError (ascii ''invalid literal'')))"

fun first_round :: "pystr \<Rightarrow> int result" where
  "first_round [] = Inr 1"
| "first_round (c # cs) = (case dict_get CHINESE_NUMBERS c of Some n \<Rightarrow> Inr n
     | None \<Rightarrow> if is_digit_char c then int_of_text [c] else first_round cs)"

definition parse_round_number :: "pystr \<Rightarrow> int result" where
  "parse_round_number s = (let t = py_strip s in if t \<noteq> [] \<and> list_all is_digit_char t then int_of_text t else first_round t)"

definition found_value :: "rx \<Rightarrow> pystr \<Rightarrow> pystr option" where
  "found_value r s = map_option (\<lambda>m. py_strip (group 1 m)) (rx_search r s)"

definition res_opt :: "('a \<Rightarrow> 'b result) \<Rightarrow> 'a option \<Rightarrow> 'b option result" where
  "res_opt f v = (case v of None \<Rightarrow> Inr None | Some x \<Rightarrow> res_map Some (f x))"

definition VIDEO :: pystr where "VIDEO = ascii ''VIDEO''"

definition parse_feishu :: "ScheduleEnv \<Rightarrow> pystr \<Rightarrow> ParsedSchedule result" where
  "parse_feishu env raw =
     res_bind (res_opt (\<lambda>m. parse_datetime env (group 1 m)) (rx_search TIME_PATTERN_FEISHU raw)) (\<lambda>time.
     res_bind (case rx_search ROUND_PATTERN_FEISHU raw of None \<Rightarrow> Inr 1 | Some m \<Rightarrow> parse_round_number (group 1 m)) (\<lambda>round.
     Inr \<lparr>psd_company_name = found_value COMPANY_PATTERN raw, psd_position = found_value POSITION_PATTERN raw, psd_interview_time = time,
       psd_interview_type = Some VIDEO, psd_meeting_link = map_option fst (rx_search LINK_PATTERN_FEISHU raw), psd_round_number = round,
       psd_interviewer = None, psd_notes = None\<rparr>))"

definition tencent_link :: "pystr \<Rightarrow> pystr option" where
  "tencent_link raw = (let parts = (case rx_search MEETING_ID_PATTERN_TENCENT raw of None \<Rightarrow> [] | Some m \<Rightarrow> [[20250, 35758, 21495, 58, 32] @ group 1 m])
       @ (case rx_search PASSWORD_PATTERN_TENCENT raw of None \<Rightarrow> [] | Some m \<Rightarrow> [[23494, 30721, 58, 32] @ group 1 m])
     in if parts = [] then None else Some (py_join [32] parts))"

definition video_schedule :: "pystr \<Rightarrow> PyDateTime option \<Rightarrow> pystr option \<Rightarrow> ParsedSchedule" where
  "video_schedule raw time link = \<lparr>psd_company_name = found_value COMPANY_PATTERN raw, psd_position = found_value POSITION_PATTERN raw,
     psd_interview_time = time, psd_interview_type = Some VIDEO, psd_meeting_link = link, psd_round_number = 1, psd_interviewer = None,
     psd_notes = None\<rparr>"

definition parse_tencent :: "ScheduleEnv \<Rightarrow> pystr \<Rightarrow> ParsedSchedule result" where
  "parse_tencent env raw =
     res_bind (res_opt (\<lambda>m. parse_datetime env (group 1 m @ [32] @ group 2 m)) (rx_search TIME_PATTERN_TENCENT raw)) (\<lambda>time.
     Inr (video_schedule raw time (tencent_link raw)))"

definition parse_zoom :: "ScheduleEnv \<Rightarrow> pystr \<Rightarrow> ParsedSchedule result" where
  "parse_zoom env raw =
     res_bind (case (rx_search DATE_PATTERN_ZOOM raw, rx_search HOUR_PATTERN_ZOOM raw) of
         (Some d, Some h) \<Rightarrow> res_map Some (parse_datetime env (group 1 d @ [32] @ group 1 h)) | _ \<Rightarrow> Inr None) (\<lambda>time.
     Inr (video_schedule raw time (map_option fst (rx_search LINK_PATTERN_ZOOM raw))))"

section \<open>Choosing a parser\<close>

text \<open>Try parsers in turn and take the first valid result; an exception ends the search.\<close>

fun first_valid :: "(bool \<times> (pystr \<Rightarrow> ParsedSchedule result)) list \<Rightarrow> pystr \<Rightarrow> ParsedSchedule option result" where
  "first_valid [] raw = Inr None"
| "first_valid ((applies, parser) # ps) raw = (if \<not> applies then first_valid ps raw else
     res_bind (parser raw) (\<lambda>r. if is_valid_parse (Some r) then Inr (Some r) else first_valid ps raw))"

definition parse_by_rules :: "ScheduleEnv \<Rightarrow> pystr \<Rightarrow> pystr option \<Rightarrow> ParsedSchedule option result" where
  "parse_by_rules env raw source =
     (let by_source = (case source of None \<Rightarrow> None
          | Some s \<Rightarrow> let l = se_lower env s in
              if l = ascii ''feishu'' then Some (parse_feishu env) else if l = ascii ''tencent'' then Some (parse_tencent env)
              else if l = ascii ''zoom'' then Some (parse_zoom env) else None);
        has = (\<lambda>w. py_contains w raw)
      in case by_source of
        Some parser \<Rightarrow> res_map Some (parser raw)
      | None \<Rightarrow> first_valid
          [(has [39134, 20070] \<or> has (ascii ''Feishu'') \<or> has (ascii ''meeting.feishu.cn''), parse_feishu env),
           (has [33150, 35759, 20250, 35758] \<or> has (ascii ''Tencent Meeting'') \<or> has [20250, 35758, 21495], parse_tencent env),
           (has (ascii ''Zoom'') \<or> has (ascii ''zoom.us''), parse_zoom env),
           (True, parse_feishu env), (True, parse_tencent env), (True, parse_zoom env)] raw)"

text \<open>What the automatic choice returns has all three required fields.\<close>

lemma first_valid_valid: "first_valid ps raw = Inr (Some r) \<Longrightarrow> is_valid_parse (Some r)"
  by (induction ps raw rule: first_valid.induct) (auto simp: res_bind_Inr_iff split: if_splits)

end
