(* ===== verification/Schedule_Service.thy ===== *)
theory Schedule_Service
  imports Schedule_Parser Llm_Providers Prompt_Sanitizer Entities
begin

text \<open>
  \<open>application/interview_schedule/service.py\<close> with the rows of \<open>models/interview_schedule.py\<close>, the
  repository \<open>interview_schedule_repository.py\<close> and the hourly job \<open>cancel_expired_schedules\<close>. The column
  \<open>interview_time\<close> holds an instant and comes back in UTC; a row just written keeps the value it was
  given. Prompt files, the clients of the registry and the call of the model are parameters.
\<close>

section \<open>Rows and times\<close>

definition status_text :: "InterviewStatus \<Rightarrow> pystr" where
  "status_text s = (case s of I_PENDING \<Rightarrow> ascii ''PENDING'' | I_COMPLETED \<Rightarrow> ascii ''COMPLETED''
     | I_CANCELLED \<Rightarrow> ascii ''CANCELLED'' | I_RESCHEDULED \<Rightarrow> ascii ''RESCHEDULED'')"

record InterviewSchedule =
  sch_id :: int
  sch_company_name :: pystr
  sch_position :: pystr
  sch_interview_time :: PyDateTime
  sch_interview_type :: "pystr option"
  sch_meeting_link :: "pystr option"
  sch_round_number :: int
  sch_interviewer :: "pystr option"
  sch_notes :: "pystr option"
  sch_status :: pystr
  sch_created_at :: int
  sch_updated_at :: int

record CreateScheduleRequest =
  cs_company_name :: pystr
  cs_position :: pystr
  cs_interview_time :: PyDateTime
  cs_interview_type :: "pystr option"
  cs_meeting_link :: "pystr option"
  cs_round_number :: int
  cs_interviewer :: "pystr option"
  cs_notes :: "pystr option"

definition instant :: "PyDateTime \<Rightarrow> int" where
  "instant t = dt_wall t - (case dt_offset t of None \<Rightarrow> 0 | Some offset \<Rightarrow> offset)"

definition ensure_utc :: "PyDateTime \<Rightarrow> PyDateTime" where
  "ensure_utc t = (if dt_offset t \<noteq> None then t else t\<lparr>dt_offset := Some 0\<rparr>)"

text \<open>What the database returns for a time it was given.\<close>

definition as_stored :: "PyDateTime \<Rightarrow> PyDateTime" where
  "as_stored t = \<lparr>dt_wall = instant t, dt_offset = Some 0\<rparr>"

record ScheduleDb =
  sdb_rows :: "InterviewSchedule list"
  sdb_fresh :: int
  sdb_now :: int

type_synonym 'a sch_op = "(ScheduleDb, 'a) op"

section \<open>Repository\<close>

definition save_schedule :: "InterviewSchedule \<Rightarrow> InterviewSchedule sch_op" where
  "save_schedule row = (\<lambda>db. let row' = row\<lparr>sch_id := sdb_fresh db, sch_created_at := sdb_now db, sch_updated_at := sdb_now db\<rparr>
     in (Inr row', db\<lparr>sdb_rows := sdb_rows db @ [row'\<lparr>sch_interview_time := as_stored (sch_interview_time row')\<rparr>],
          sdb_fresh := sdb_fresh db + 1\<rparr>))"

definition schedule_by_id :: "int \<Rightarrow> ScheduleDb \<Rightarrow> InterviewSchedule option" where
  "schedule_by_id i db = find (\<lambda>r. sch_id r = i) (sdb_rows db)"

definition by_time :: "InterviewSchedule list \<Rightarrow> InterviewSchedule list" where
  "by_time rows = sort_key (\<lambda>r. instant (sch_interview_time r)) rows"

definition list_all_schedules :: "ScheduleDb \<Rightarrow> InterviewSchedule list" where
  "list_all_schedules db = by_time (sdb_rows db)"

definition list_by_status :: "pystr \<Rightarrow> ScheduleDb \<Rightarrow> InterviewSchedule list" where
  "list_by_status status db = by_time (filter (\<lambda>r. sch_status r = status) (sdb_rows db))"

definition list_by_time_range :: "PyDateTime \<Rightarrow> PyDateTime \<Rightarrow> ScheduleDb \<Rightarrow> InterviewSchedule list" where
  "list_by_time_range start stop db = by_time (filter (\<lambda>r. instant start \<le> instant (sch_interview_time r)
     \<and> instant (sch_interview_time r) \<le> instant stop) (sdb_rows db))"

definition delete_schedule_row :: "int \<Rightarrow> ScheduleDb \<Rightarrow> ScheduleDb" where
  "delete_schedule_row i db = db\<lparr>sdb_rows := filter (\<lambda>r. sch_id r \<noteq> i) (sdb_rows db)\<rparr>"

text \<open>The bulk update sets \<open>updated_at\<close> as well.\<close>

definition is_expired :: "int \<Rightarrow> InterviewSchedule \<Rightarrow> bool" where
  "is_expired now r \<longleftrightarrow> sch_status r = status_text I_PENDING \<and> instant (sch_interview_time r) < now"

definition cancel_expired :: "int \<Rightarrow> int sch_op" where
  "cancel_expired now = (\<lambda>db. (Inr (int (length (filter (is_expired now) (sdb_rows db)))),
     db\<lparr>sdb_rows := map (\<lambda>r. if is_expired now r then r\<lparr>sch_status := status_text I_CANCELLED, sch_updated_at := sdb_now db\<rparr> else r) (sdb_rows db)\<rparr>))"

text \<open>The job, run every hour.\<close>

definition cancel_expired_schedules :: "unit sch_op" where
  "cancel_expired_schedules = op_bind (op_get sdb_now) (\<lambda>now. op_bind (cancel_expired now) (\<lambda>_. op_return ()))"

section \<open>Service\<close>

definition schedule_missing :: "int \<Rightarrow> exn" where
  "schedule_missing i = BusinessException INTERVIEW_SCHEDULE_NOT_FOUND ([38754, 35797, 26085, 31243, 19981, 23384, 22312, 58, 32] @ int_str i)"

definition require_schedule :: "int \<Rightarrow> InterviewSchedule sch_op" where
  "require_schedule i = op_bind (op_get (schedule_by_id i)) (\<lambda>r. case r of
     None \<Rightarrow> op_raise (schedule_missing i) | Some r \<Rightarrow> op_return r)"

definition new_schedule :: "CreateScheduleRequest \<Rightarrow> InterviewSchedule" where
  "new_schedule q = \<lparr>sch_id = 0, sch_company_name = cs_company_name q, sch_position = cs_position q,
     sch_interview_time = ensure_utc (cs_interview_time q), sch_interview_type = cs_interview_type q,
     sch_meeting_link = cs_meeting_link q, sch_round_number = cs_round_number q, sch_interviewer = cs_interviewer q,
     sch_notes = cs_notes q, sch_status = status_text I_PENDING, sch_created_at = 0, sch_updated_at = 0\<rparr>"

definition create_schedule :: "CreateScheduleRequest \<Rightarrow> InterviewSchedule sch_op" where
  "create_schedule q = save_schedule (new_schedule q)"

definition get_schedule :: "int \<Rightarrow> InterviewSchedule sch_op" where
  "get_schedule i = require_schedule i"

definition list_schedules :: "pystr option \<Rightarrow> PyDateTime option \<Rightarrow> PyDateTime option \<Rightarrow> int \<Rightarrow> int \<Rightarrow> InterviewSchedule list sch_op" where
  "list_schedules status start stop limit offset = op_bind (op_get (\<lambda>db. case (start, stop) of
       (Some a, Some b) \<Rightarrow> list_by_time_range (ensure_utc a) (ensure_utc b) db
     | _ \<Rightarrow> (case status of Some s \<Rightarrow> list_by_status s db | None \<Rightarrow> list_all_schedules db)))
     (\<lambda>rows. op_return (page limit offset rows))"

text \<open>
  Committing a changed row: nothing is written, and \<open>onupdate\<close> does not fire, when the row is as before.
  The caller sees the values it assigned and the new \<open>updated_at\<close>.
\<close>

definition commit_schedule :: "InterviewSchedule \<Rightarrow> InterviewSchedule \<Rightarrow> InterviewSchedule sch_op" where
  "commit_schedule old new = (\<lambda>db. let stored = new\<lparr>sch_interview_time := as_stored (sch_interview_time new)\<rparr>;
       stamp = (if stored = old then sch_updated_at old else sdb_now db)
     in (Inr (new\<lparr>sch_updated_at := stamp\<rparr>),
         db\<lparr>sdb_rows := map (\<lambda>r. if sch_id r = sch_id old then stored\<lparr>sch_updated_at := stamp\<rparr> else r) (sdb_rows db)\<rparr>))"

definition edited_schedule :: "CreateScheduleRequest \<Rightarrow> InterviewSchedule \<Rightarrow> InterviewSchedule" where
  "edited_schedule q r = r\<lparr>sch_company_name := cs_company_name q, sch_position := cs_position q,
     sch_interview_time := ensure_utc (cs_interview_time q), sch_interview_type := cs_interview_type q,
     sch_meeting_link := cs_meeting_link q, sch_round_number := cs_round_number q, sch_interviewer := cs_interviewer q,
     sch_notes := cs_notes q\<rparr>"

definition update_schedule :: "int \<Rightarrow> CreateScheduleRequest \<Rightarrow> InterviewSchedule sch_op" where
  "update_schedule i q = op_bind (require_schedule i) (\<lambda>r. commit_schedule r (edited_schedule q r))"

definition delete_schedule :: "int \<Rightarrow> unit sch_op" where
  "delete_schedule i = op_bind (require_schedule i) (\<lambda>r. op_modify (delete_schedule_row (sch_id r)))"

definition update_schedule_status :: "int \<Rightarrow> InterviewStatus \<Rightarrow> InterviewSchedule sch_op" where
  "update_schedule_status i s = op_bind (require_schedule i) (\<lambda>r. commit_schedule r (r\<lparr>sch_status := status_text s\<rparr>))"

section \<open>Reading an invitation\<close>

record ParsedScheduleData =
  pda_company_name :: pystr
  pda_position :: pystr
  pda_interview_time :: pystr
  pda_interview_type :: "pystr option"
  pda_meeting_link :: "pystr option"
  pda_round_number :: int
  pda_interviewer :: "pystr option"
  pda_notes :: "pystr option"

record ParseResponse =
  pr_success :: bool
  pr_data :: "CreateScheduleRequest option"
  pr_confidence :: rat
  pr_parse_method :: pystr
  pr_log :: pystr

record ParseEnv =
  pen_rules :: ScheduleEnv
  pen_prompt :: "pystr result"
  pen_short_id :: pystr
  pen_client :: "unit result"
  pen_invoke :: "pystr \<Rightarrow> pystr \<Rightarrow> ParsedScheduleData result"

definition INVITATION_LABEL :: pystr where "INVITATION_LABEL = [36992, 32422, 25991, 26412]"

definition to_request :: "ParsedSchedule \<Rightarrow> CreateScheduleRequest result" where
  "to_request p = (case psd_interview_time p of None \<Rightarrow> Inl (RuntimeError (ascii ''AssertionError''))
     | Some time \<Rightarrow> Inr \<lparr>cs_company_name = (case psd_company_name p of None \<Rightarrow> [] | Some c \<Rightarrow> c), cs_position = (case psd_position p of None \<Rightarrow> [] | Some c \<Rightarrow> c),
         cs_interview_time = time, cs_interview_type = psd_interview_type p, cs_meeting_link = psd_meeting_link p,
         cs_round_number = psd_round_number p, cs_interviewer = psd_interviewer p, cs_notes = psd_notes p\<rparr>)"

definition parsed_data_to_request :: "ScheduleEnv \<Rightarrow> ParsedScheduleData \<Rightarrow> CreateScheduleRequest option result" where
  "parsed_data_to_request env p = (let t = py_strip (pda_interview_time p); t' = (if length t = 16 then t @ ascii '':00'' else t)
     in case se_fromisoformat env t' of
       Inl (ValueError _) \<Rightarrow> Inr None
     | Inl e \<Rightarrow> Inl e
     | Inr time \<Rightarrow> Inr (Some \<lparr>cs_company_name = pda_company_name p, cs_position = pda_position p, cs_interview_time = time,
         cs_interview_type = pda_interview_type p, cs_meeting_link = pda_meeting_link p, cs_round_number = pda_round_number p,
         cs_interviewer = pda_interviewer p, cs_notes = pda_notes p\<rparr>))"

definition parse_with_ai :: "ParseEnv \<Rightarrow> pystr \<Rightarrow> CreateScheduleRequest option result" where
  "parse_with_ai env raw =
     (case res_bind (pen_prompt env) (\<lambda>system.
           let wrapped = wrap_with_delimiters (pen_short_id env) INVITATION_LABEL (sanitized raw) in
           res_bind (pen_client env) (\<lambda>_. res_bind (pen_invoke env system wrapped) (parsed_data_to_request (pen_rules env)))) of
        Inl (BusinessException c m) \<Rightarrow> Inr None
      | r \<Rightarrow> r)"

definition parsed_by :: "pystr \<Rightarrow> rat \<Rightarrow> CreateScheduleRequest \<Rightarrow> pystr \<Rightarrow> ParseResponse" where
  "parsed_by method confidence data note = \<lparr>pr_success = True, pr_data = Some data, pr_confidence = confidence, pr_parse_method = method, pr_log = note\<rparr>"

definition not_parsed :: "pystr \<Rightarrow> ParseResponse" where
  "not_parsed note = \<lparr>pr_success = False, pr_data = None, pr_confidence = 0, pr_parse_method = ascii ''none'', pr_log = note\<rparr>"

definition parse_invitation :: "ParseEnv \<Rightarrow> pystr \<Rightarrow> pystr option \<Rightarrow> ParseResponse result" where
  "parse_invitation env raw source = (if blank raw then Inr (not_parsed [36755, 20837, 25991, 26412, 20026, 31354]) else
     res_bind (parse_by_rules (pen_rules env) raw source) (\<lambda>rule_result.
       if is_valid_parse rule_result
       then res_map (\<lambda>data. parsed_by (ascii ''rule'') (95 / 100) data [35268, 21017, 35299, 26512, 25104, 21151]) (to_request (the rule_result))
       else res_map (\<lambda>ai_result. case ai_result of
           Some data \<Rightarrow> parsed_by (ascii ''ai'') (8 / 10) data [65, 73, 32, 35299, 26512, 25104, 21151]
         | None \<Rightarrow> not_parsed [35299, 26512, 22833, 36133]) (parse_with_ai env raw)))"

section \<open>Rules that raise\<close>

text \<open>
  An hour of one digit is a match of the Zoom pattern, but the time it gives is no ISO time. The
  exception of \<open>fromisoformat\<close> leaves the parsing by rules, so such an invitation is not parsed by the
  model either.
\<close>

definition ONE_DIGIT_HOUR :: pystr where "ONE_DIGIT_HOUR = ascii ''2026-01-15 9:30''"

lemma is_decimal_ascii: "c < 128 \<Longrightarrow> is_decimal c \<longleftrightarrow> 48 \<le> c \<and> c \<le> 57"
  by (auto simp: is_decimal_def decimal_value_def DECIMAL_ZEROS_def)

lemma one_digit_hour_is_not_parsed:
  assumes "se_fromisoformat (pen_rules env) ONE_DIGIT_HOUR = Inl (ValueError m)"
  shows "parse_invitation env ONE_DIGIT_HOUR None = Inl (ValueError m)"
proof -
  note ev = rx_search_def match_at_def run_lengths_def advance_def last_char_def Let_def upt_rec is_decimal_ascii is_space_def group_def
    dict_get_default_def date_rx_def clock_rx_def colon_def Lit_def ONE_DIGIT_HOUR_def ascii_def
  have none: "rx_search TIME_PATTERN_FEISHU ONE_DIGIT_HOUR = None" "rx_search COMPANY_PATTERN ONE_DIGIT_HOUR = None"
    "rx_search ROUND_PATTERN_FEISHU ONE_DIGIT_HOUR = None" "rx_search TIME_PATTERN_TENCENT ONE_DIGIT_HOUR = None"
    by (simp_all add: ev TIME_PATTERN_FEISHU_def COMPANY_PATTERN_def ROUND_PATTERN_FEISHU_def TIME_PATTERN_TENCENT_def)
  have hits: "map_option (group 1) (rx_search DATE_PATTERN_ZOOM ONE_DIGIT_HOUR) = Some (ascii ''2026-01-15'')"
    "map_option (group 1) (rx_search HOUR_PATTERN_ZOOM ONE_DIGIT_HOUR) = Some (ascii ''9:30'')"
    by (simp_all add: ev DATE_PATTERN_ZOOM_def HOUR_PATTERN_ZOOM_def)
  then obtain d h where dh: "rx_search DATE_PATTERN_ZOOM ONE_DIGIT_HOUR = Some d" "group 1 d = ascii ''2026-01-15''"
    "rx_search HOUR_PATTERN_ZOOM ONE_DIGIT_HOUR = Some h" "group 1 h = ascii ''9:30''" by auto
  have time: "parse_datetime (pen_rules env) (group 1 d @ [32] @ group 1 h) = Inl (ValueError m)"
    unfolding dh using assms by (simp add: parse_datetime_def ONE_DIGIT_HOUR_def ascii_def Let_def)
  have zoom: "parse_zoom (pen_rules env) ONE_DIGIT_HOUR = Inl (ValueError m)"
    using time by (simp add: parse_zoom_def dh(1,3))
  have feishu: "\<exists>r. parse_feishu (pen_rules env) ONE_DIGIT_HOUR = Inr r \<and> \<not> is_valid_parse (Some r)"
    by (simp add: parse_feishu_def none res_opt_def found_value_def is_valid_parse_def)
  have tencent: "\<exists>r. parse_tencent (pen_rules env) ONE_DIGIT_HOUR = Inr r \<and> \<not> is_valid_parse (Some r)"
    by (simp add: parse_tencent_def none res_opt_def found_value_def is_valid_parse_def video_schedule_def)
  have "parse_by_rules (pen_rules env) ONE_DIGIT_HOUR None = Inl (ValueError m)"
    using feishu tencent by (auto simp: parse_by_rules_def Let_def zoom)
  moreover have "\<not> blank ONE_DIGIT_HOUR" by (simp add: blank_def py_strip_def ONE_DIGIT_HOUR_def ascii_def is_space_def)
  ultimately show ?thesis by (simp add: parse_invitation_def)
qed

section \<open>The life of an entry\<close>

datatype ScheduleCommand =
    Create_Entry CreateScheduleRequest
  | Update_Entry int CreateScheduleRequest
  | Delete_Entry int
  | Set_Status int InterviewStatus
  | Cancel_Job

definition run_command :: "int \<times> ScheduleCommand \<Rightarrow> ScheduleDb \<Rightarrow> ScheduleDb" where
  "run_command c db = (let db' = db\<lparr>sdb_now := fst c\<rparr> in case snd c of
     Create_Entry q \<Rightarrow> snd (create_schedule q db')
   | Update_Entry i q \<Rightarrow> snd (update_schedule i q db')
   | Delete_Entry i \<Rightarrow> snd (delete_schedule i db')
   | Set_Status i s \<Rightarrow> snd (update_schedule_status i s db')
   | Cancel_Job \<Rightarrow> snd (cancel_expired_schedules db'))"

definition run_commands :: "(int \<times> ScheduleCommand) list \<Rightarrow> ScheduleDb \<Rightarrow> ScheduleDb" where
  "run_commands cs db = fold run_command cs db"

definition empty_schedule_db :: ScheduleDb where
  "empty_schedule_db = \<lparr>sdb_rows = [], sdb_fresh = 1, sdb_now = 0\<rparr>"

primrec target :: "ScheduleCommand \<Rightarrow> int option" where
  "target (Create_Entry q) = None"
| "target (Update_Entry i q) = Some i"
| "target (Delete_Entry i) = Some i"
| "target (Set_Status i s) = Some i"
| "target Cancel_Job = None"

text \<open>When the job first finds a pending entry with the given time in the past.\<close>

definition cancelled_at :: "int \<Rightarrow> (int \<times> ScheduleCommand) list \<Rightarrow> int option" where
  "cancelled_at time cs = map_option fst (find (\<lambda>(now, c). c = Cancel_Job \<and> time < now) cs)"

lemma instant_as_stored [simp]: "instant (as_stored t) = instant t"
  by (simp add: instant_def as_stored_def)

lemmas schedule_ops = create_schedule_def save_schedule_def get_schedule_def update_schedule_def delete_schedule_def
  update_schedule_status_def require_schedule_def commit_schedule_def cancel_expired_schedules_def cancel_expired_def
  delete_schedule_row_def op_simps Let_def

definition ids_used :: "ScheduleDb \<Rightarrow> bool" where
  "ids_used db \<longleftrightarrow> (\<forall>r \<in> set (sdb_rows db). sch_id r < sdb_fresh db)"

lemma schedule_by_id_id: "schedule_by_id i db = Some r \<Longrightarrow> sch_id r = i \<and> r \<in> set (sdb_rows db)"
  by (auto simp: schedule_by_id_def find_Some_iff)

lemma run_command_ids: "ids_used db \<Longrightarrow> ids_used (run_command c db)"
  by (cases "snd c")
    (auto simp: ids_used_def run_command_def schedule_ops new_schedule_def edited_schedule_def dest: schedule_by_id_id
      split: option.splits)

lemma run_commands_ids: "ids_used (run_commands cs empty_schedule_db)"
proof -
  have "ids_used db \<Longrightarrow> ids_used (fold run_command cs db)" for db
    by (induction cs arbitrary: db) (simp_all add: run_command_ids)
  then show ?thesis by (simp add: run_commands_def empty_schedule_db_def ids_used_def)
qed

lemma run_command_fresh: "sdb_fresh db \<le> sdb_fresh (run_command c db)"
  by (cases "snd c") (auto simp: run_command_def schedule_ops split: option.splits)

lemma find_map: "find P (map f xs) = map_option f (find (\<lambda>x. P (f x)) xs)"
  by (induction xs) simp_all

lemma find_filter_other: "(\<And>x. P x \<Longrightarrow> Q x) \<Longrightarrow> find P (filter Q xs) = find P xs"
  by (induction xs) auto

lemma find_other_row:
  "sch_id x \<noteq> i \<Longrightarrow> find (\<lambda>r. sch_id r = i) (map (\<lambda>r. if sch_id r = sch_id x then y else r) rows) = find (\<lambda>r. sch_id r = i) rows"
  if "sch_id y = sch_id x"
  using that by (induction rows) auto

text \<open>What a command that is not meant for an entry does to it.\<close>

lemma run_command_other:
  assumes "schedule_by_id i db = Some r" "i < sdb_fresh db" "target (snd c) \<noteq> Some i"
  shows "schedule_by_id i (run_command c db) = Some (if snd c = Cancel_Job \<and> is_expired (fst c) r
    then r\<lparr>sch_status := status_text I_CANCELLED, sch_updated_at := fst c\<rparr> else r)"
proof (cases "snd c")
  case (Create_Entry q)
  then show ?thesis using assms by (auto simp: run_command_def schedule_ops schedule_by_id_def find_append)
next
  case (Delete_Entry j)
  then have "j \<noteq> i" using assms by simp
  then have "find (\<lambda>r. sch_id r = i) (filter (\<lambda>r. sch_id r \<noteq> j) (sdb_rows db)) = find (\<lambda>r. sch_id r = i) (sdb_rows db)"
    by (intro find_filter_other) simp
  then show ?thesis using Delete_Entry assms
    by (cases "schedule_by_id j (db\<lparr>sdb_now := fst c\<rparr>)")
      (auto simp: run_command_def schedule_ops schedule_by_id_def dest: schedule_by_id_id [unfolded schedule_by_id_def])
next
  case Cancel_Job
  have "find (\<lambda>r. sch_id r = i) (sdb_rows db) = Some r" using assms by (simp add: schedule_by_id_def)
  then show ?thesis using Cancel_Job by (simp add: run_command_def schedule_ops schedule_by_id_def find_map if_distrib cong: if_cong)
next
  case (Update_Entry j q)
  with assms show ?thesis
    by (cases "schedule_by_id j (db\<lparr>sdb_now := fst c\<rparr>)")
      (auto simp: run_command_def schedule_ops schedule_by_id_def find_other_row edited_schedule_def dest: schedule_by_id_id [unfolded schedule_by_id_def])
next
  case (Set_Status j s)
  with assms show ?thesis
    by (cases "schedule_by_id j (db\<lparr>sdb_now := fst c\<rparr>)")
      (auto simp: run_command_def schedule_ops schedule_by_id_def find_other_row dest: schedule_by_id_id [unfolded schedule_by_id_def])
qed

definition after_job :: "InterviewSchedule \<Rightarrow> int option \<Rightarrow> InterviewSchedule" where
  "after_job r v = (case v of None \<Rightarrow> r | Some now \<Rightarrow> r\<lparr>sch_status := status_text I_CANCELLED, sch_updated_at := now\<rparr>)"

lemma run_commands_other:
  assumes "schedule_by_id i db = Some r" "i < sdb_fresh db" "\<forall>c \<in> set cs. target (snd c) \<noteq> Some i"
  shows "schedule_by_id i (run_commands cs db) = Some (if sch_status r = status_text I_PENDING
    then after_job r (cancelled_at (instant (sch_interview_time r)) cs) else r)"
  using assms
proof (induction cs arbitrary: db r)
  case Nil
  then show ?case by (simp add: run_commands_def cancelled_at_def after_job_def)
next
  case (Cons c cs)
  define r' where "r' = (if snd c = Cancel_Job \<and> is_expired (fst c) r
    then r\<lparr>sch_status := status_text I_CANCELLED, sch_updated_at := fst c\<rparr> else r)"
  have "schedule_by_id i (run_command c db) = Some r'" using run_command_other [OF Cons.prems(1,2)] Cons.prems(3) by (simp add: r'_def)
  moreover have "i < sdb_fresh (run_command c db)" using Cons.prems(2) run_command_fresh [of db c] by linarith
  ultimately have "schedule_by_id i (run_commands cs (run_command c db)) = Some (if sch_status r' = status_text I_PENDING
    then after_job r' (cancelled_at (instant (sch_interview_time r')) cs) else r')" using Cons.prems(3) by (intro Cons.IH) auto
  moreover have "status_text I_CANCELLED \<noteq> status_text I_PENDING" by (simp add: status_text_def ascii_def)
  ultimately show ?case
    by (cases c) (auto simp: run_commands_def r'_def cancelled_at_def after_job_def is_expired_def)
qed

text \<open>
  C25. A created entry keeps its data, with the time in UTC, through every later request for other
  entries and every run of the job; the job cancels it when it first runs after the time of the
  interview, and not before.
\<close>

theorem created_entry_persists:
  assumes "db = run_commands before empty_schedule_db"
    and "create_schedule q (db\<lparr>sdb_now := now\<rparr>) = (Inr entry, db')"
    and "\<forall>c \<in> set later. target (snd c) \<noteq> Some (sch_id entry)"
  shows "fst (get_schedule (sch_id entry) (run_commands later db'))
    = Inr (after_job (entry\<lparr>sch_interview_time := as_stored (ensure_utc (cs_interview_time q))\<rparr>)
        (cancelled_at (instant (ensure_utc (cs_interview_time q))) later))"
proof -
  let ?stored = "entry\<lparr>sch_interview_time := as_stored (ensure_utc (cs_interview_time q))\<rparr>"
  have ids: "ids_used db" unfolding assms(1) by (rule run_commands_ids)
  have entry: "entry = (new_schedule q)\<lparr>sch_id := sdb_fresh db, sch_created_at := now, sch_updated_at := now\<rparr>"
    and db': "db' = db\<lparr>sdb_now := now, sdb_rows := sdb_rows db @ [?stored], sdb_fresh := sdb_fresh db + 1\<rparr>"
    using assms(2) by (auto simp: create_schedule_def save_schedule_def new_schedule_def)
  have "find (\<lambda>r. sch_id r = sch_id entry) (sdb_rows db) = None" using ids by (auto simp: find_None_iff ids_used_def entry)
  then have "schedule_by_id (sch_id entry) db' = Some ?stored" by (simp add: schedule_by_id_def db' find_append)
  moreover have "sch_id entry < sdb_fresh db'" by (simp add: entry db')
  moreover have "sch_status ?stored = status_text I_PENDING" by (simp add: entry new_schedule_def)
  ultimately show ?thesis using run_commands_other assms(3)
    by (simp add: get_schedule_def require_schedule_def op_simps)
qed

definition example_request :: CreateScheduleRequest where
  "example_request = \<lparr>cs_company_name = ascii ''ACME'', cs_position = ascii ''dev'', cs_interview_time = \<lparr>dt_wall = 100, dt_offset = Some 10\<rparr>,
     cs_interview_type = None, cs_meeting_link = None, cs_round_number = 1, cs_interviewer = None, cs_notes = None\<rparr>"

definition example_run :: "InterviewSchedule result" where
  "example_run = fst (get_schedule 2 (run_commands [(80, Cancel_Job), (95, Cancel_Job)]
     (snd (create_schedule example_request (run_commands [(1, Create_Entry example_request)] empty_schedule_db\<lparr>sdb_now := 5\<rparr>)))))"

theorem created_entry_persists_witness:
  "case example_run of Inr r \<Rightarrow> sch_status r = status_text I_CANCELLED \<and> sch_updated_at r = 95 \<and> dt_wall (sch_interview_time r) = 90 | _ \<Rightarrow> False"
proof -
  let ?db = "run_commands [(1, Create_Entry example_request)] empty_schedule_db"
  let ?entry = "(new_schedule example_request)\<lparr>sch_id := 2, sch_created_at := 5, sch_updated_at := 5\<rparr>"
  have c: "create_schedule example_request (?db\<lparr>sdb_now := 5\<rparr>) = (Inr ?entry, snd (create_schedule example_request (?db\<lparr>sdb_now := 5\<rparr>)))"
    by (simp add: create_schedule_def save_schedule_def run_commands_def run_command_def empty_schedule_db_def Let_def)
  show ?thesis
    using created_entry_persists [OF refl c, of "[(80, Cancel_Job), (95, Cancel_Job)]"]
    by (simp add: example_run_def after_job_def cancelled_at_def instant_def ensure_utc_def as_stored_def example_request_def)
qed

section \<open>Lists\<close>

lemma list_schedules_sorted:
  assumes "fst (list_schedules status start stop limit offset db) = Inr rows"
  shows "sorted (map (\<lambda>r. instant (sch_interview_time r)) rows)"
proof -
  have "sorted (map f (page a b (sort_key f xs)))" for a b and f :: "InterviewSchedule \<Rightarrow> int" and xs
    by (simp add: page_def Let_def take_map [symmetric] drop_map [symmetric] sorted_wrt_take sorted_wrt_drop)
  then show ?thesis using assms
    by (auto simp: list_schedules_def op_simps list_by_time_range_def list_by_status_def list_all_schedules_def by_time_def
        split: option.splits)
qed

end
