(* ===== verification/Evaluation_Read.thy ===== *)
theory Evaluation_Read
  imports Interview_Lifecycle Kb_Questions
begin

text \<open>
  \<open>application/interview/evaluation_service.py\<close>: the evaluation and the details of an interview, built
  again from the rows the evaluation task left. The items of the responses are the domain records
  they copy. Rendering the PDF of \<open>export_report\<close> is not modelled; the report it renders is
  \<open>reconstruct_report\<close>. \<open>show\<close> is Python's \<open>str\<close> of a parsed value that is no string.
\<close>

section \<open>Responses\<close>

record EvaluationResultDTO =
  ev_session_id :: pystr
  ev_total_questions :: int
  ev_overall_score :: int
  ev_overall_feedback :: pystr
  ev_category_scores :: "CategoryScore list"
  ev_question_details :: "QuestionEvaluation list"
  ev_strengths :: "pystr list"
  ev_improvements :: "pystr list"
  ev_reference_answers :: "ReferenceAnswer list"
  ev_evaluate_status :: pystr

record AnswerItemDTO =
  ai_question_index :: int
  ai_question :: pystr
  ai_category :: pystr
  ai_user_answer :: pystr
  ai_score :: int
  ai_feedback :: pystr
  ai_reference_answer :: "pystr option"
  ai_key_points :: "pystr list"
  ai_answered_at :: int

record InterviewDetailDTO =
  dt_id :: int
  dt_session_id :: pystr
  dt_total_questions :: int
  dt_status :: pystr
  dt_evaluate_status :: "pystr option"
  dt_evaluate_error :: "pystr option"
  dt_overall_score :: "int option"
  dt_source_type :: pystr
  dt_knowledge_base_id :: "int option"
  dt_overall_feedback :: "pystr option"
  dt_created_at :: int
  dt_completed_at :: "int option"
  dt_strengths :: "pystr list"
  dt_improvements :: "pystr list"
  dt_reference_answers :: "ReferenceAnswer list"
  dt_answers :: "AnswerItemDTO list"

section \<open>Reading the columns\<close>

definition UNANSWERED_FEEDBACK :: pystr where "UNANSWERED_FEEDBACK = [35813, 39064, 26410, 20316, 31572, 12290]"

definition index_by :: "('a \<Rightarrow> int) \<Rightarrow> 'a list \<Rightarrow> (int, 'a) dict" where
  "index_by key xs = fold (\<lambda>x d. dict_set (key x) x d) xs []"

definition parse_questions_safely :: "pystr option \<Rightarrow> InterviewQuestion list result" where
  "parse_questions_safely v = (let text = or_str v [] in if text = [] then Inr [] else
     (case read_questions text of
        Inl e \<Rightarrow> if e = JSONDecodeError \<or> e = TypeError \<or> (\<exists>k \<in> set REQUIRED_KEYS. e = KeyError k) then Inr [] else Inl e
      | Inr qs \<Rightarrow> Inr qs))"

definition from_answer :: "AnswerRow \<Rightarrow> QuestionEvaluation" where
  "from_answer a = \<lparr>qe_question_index = ia_question_index a, qe_question = or_str (ia_question a) [],
     qe_category = or_str (ia_category a) [], qe_user_answer = ia_user_answer a,
     qe_score = (case ia_score a of None \<Rightarrow> 0 | Some s \<Rightarrow> s), qe_feedback = or_str (ia_feedback a) []\<rparr>"

definition build_question_evaluation :: "InterviewQuestion \<Rightarrow> AnswerRow option \<Rightarrow> QuestionEvaluation" where
  "build_question_evaluation q v = (case v of
     Some a \<Rightarrow> from_answer a
   | None \<Rightarrow> \<lparr>qe_question_index = q_question_index q, qe_question = q_question q, qe_category = q_category q,
       qe_user_answer = None, qe_score = 0, qe_feedback = UNANSWERED_FEEDBACK\<rparr>)"

text \<open>\<open>int\<close> and \<open>list\<close> of a parsed value.\<close>

fun json_int :: "json \<Rightarrow> int result" where
  "json_int (JInt i) = Inr i"
| "json_int (JBool b) = Inr (if b then 1 else 0)"
| "json_int (JStr s) = py_int s"
| "json_int _ = Inl TypeError"

text \<open>The key points become strings of a response, where pydantic raises for anything else.\<close>

definition parse_reference :: "(json \<Rightarrow> pystr) \<Rightarrow> (pystr, json) dict \<Rightarrow> ReferenceAnswer result" where
  "parse_reference show item =
     res_bind (json_int (dict_get_default item (ascii ''questionIndex'') (JInt 0))) (\<lambda>i.
     res_bind (json_iter (dict_get_default item (ascii ''keyPoints'') (JArr []))) (\<lambda>kps.
     res_map (\<lambda>key_points. \<lparr>ra_question_index = i, ra_question = py_str_of show (dict_get_default item (ascii ''question'') (JStr [])),
       ra_reference_answer = py_str_of show (dict_get_default item (ascii ''referenceAnswer'') (JStr [])), ra_key_points = key_points\<rparr>)
       (validated (res_traverse as_str kps))))"

definition parse_stored_references :: "(json \<Rightarrow> pystr) \<Rightarrow> pystr option \<Rightarrow> ReferenceAnswer list result" where
  "parse_stored_references show raw = res_traverse (parse_reference show) (json_loads_dict_list raw)"

section \<open>The service\<close>

definition reconstruct_report :: "(json \<Rightarrow> pystr) \<Rightarrow> SessionRow \<Rightarrow> AnswerRow list \<Rightarrow> EvaluationReport result" where
  "reconstruct_report show orm answers =
     res_bind (parse_questions_safely (is_questions_json orm)) (\<lambda>questions.
     let details = (if questions \<noteq> []
         then map (\<lambda>q. build_question_evaluation q (dict_get (index_by ia_question_index answers) (q_question_index q))) questions
         else map from_answer answers)
     in res_map (\<lambda>refs. \<lparr>er_session_id = is_session_id orm, er_total_questions = is_total_questions orm,
          er_overall_score = (case is_overall_score orm of None \<Rightarrow> 0 | Some s \<Rightarrow> s),
          er_category_scores = compute_category_scores details, er_question_details = details,
          er_overall_feedback = or_str (is_overall_feedback orm) [],
          er_strengths = read_string_list show (is_strengths_json orm),
          er_improvements = read_string_list show (is_improvements_json orm),
          er_reference_answers = refs, er_degraded_reasons = []\<rparr>)
        (parse_stored_references show (is_reference_answers_json orm)))"

definition to_evaluation_dto :: "EvaluationReport \<Rightarrow> pystr \<Rightarrow> EvaluationResultDTO" where
  "to_evaluation_dto report status = \<lparr>ev_session_id = er_session_id report, ev_total_questions = er_total_questions report,
     ev_overall_score = er_overall_score report, ev_overall_feedback = er_overall_feedback report,
     ev_category_scores = er_category_scores report, ev_question_details = er_question_details report,
     ev_strengths = er_strengths report, ev_improvements = er_improvements report,
     ev_reference_answers = er_reference_answers report, ev_evaluate_status = status\<rparr>"

definition answer_item :: "SessionRow \<Rightarrow> (int, AnswerRow) dict \<Rightarrow> (int, ReferenceAnswer) dict \<Rightarrow> QuestionEvaluation \<Rightarrow> AnswerItemDTO" where
  "answer_item orm answers refs d = (let ans = dict_get answers (qe_question_index d); ref = dict_get refs (qe_question_index d) in
     \<lparr>ai_question_index = qe_question_index d, ai_question = qe_question d, ai_category = qe_category d,
      ai_user_answer = or_str (qe_user_answer d) [], ai_score = qe_score d, ai_feedback = qe_feedback d,
      ai_reference_answer = map_option ra_reference_answer ref,
      ai_key_points = (case ref of None \<Rightarrow> [] | Some r \<Rightarrow> ra_key_points r),
      ai_answered_at = (case ans of Some a \<Rightarrow> ia_answered_at a | None \<Rightarrow>
        (case is_completed_at orm of Some t \<Rightarrow> t | None \<Rightarrow> is_created_at orm))\<rparr>)"

definition to_detail_dto :: "SessionRow \<Rightarrow> EvaluationReport \<Rightarrow> AnswerRow list \<Rightarrow> InterviewDetailDTO" where
  "to_detail_dto orm report answers = \<lparr>dt_id = is_id orm, dt_session_id = is_session_id orm,
     dt_total_questions = is_total_questions orm, dt_status = is_status orm, dt_evaluate_status = is_evaluate_status orm,
     dt_evaluate_error = is_evaluate_error orm, dt_overall_score = is_overall_score orm,
     dt_source_type = or_str (Some (is_source_type orm)) (ascii ''NORMAL''), dt_knowledge_base_id = is_knowledge_base_id orm,
     dt_overall_feedback = is_overall_feedback orm, dt_created_at = is_created_at orm, dt_completed_at = is_completed_at orm,
     dt_strengths = er_strengths report, dt_improvements = er_improvements report,
     dt_reference_answers = er_reference_answers report,
     dt_answers = map (answer_item orm (index_by ia_question_index answers)
       (index_by ra_question_index (er_reference_answers report))) (er_question_details report)\<rparr>"

definition load_evaluated :: "pystr \<Rightarrow> (SessionRow \<times> AnswerRow list) world_op" where
  "load_evaluated sid = op_bind (find_by_session_id_optional sid) (\<lambda>v. case v of
     None \<Rightarrow> op_raise (business_exception INTERVIEW_SESSION_NOT_FOUND None)
   | Some orm \<Rightarrow> if is_status orm \<noteq> session_status_value S_EVALUATED
       then op_raise (business_exception INTERVIEW_EVALUATION_NOT_FOUND None)
       else op_bind (repo_find_answers_by_session_id (is_id orm)) (\<lambda>answers. op_return (orm, answers)))"

definition get_interview_evaluation :: "(json \<Rightarrow> pystr) \<Rightarrow> pystr \<Rightarrow> EvaluationResultDTO world_op" where
  "get_interview_evaluation show sid = op_bind (load_evaluated sid) (\<lambda>(orm, answers).
     op_bind (op_lift (reconstruct_report show orm answers)) (\<lambda>report.
     op_return (to_evaluation_dto report (or_str (is_evaluate_status orm) []))))"

definition get_interview_detail :: "(json \<Rightarrow> pystr) \<Rightarrow> pystr \<Rightarrow> InterviewDetailDTO world_op" where
  "get_interview_detail show sid = op_bind (find_by_session_id_optional sid) (\<lambda>v. case v of
     None \<Rightarrow> op_raise (business_exception INTERVIEW_SESSION_NOT_FOUND None)
   | Some orm \<Rightarrow> op_bind (repo_find_answers_by_session_id (is_id orm)) (\<lambda>answers.
       op_bind (op_lift (reconstruct_report show orm answers)) (\<lambda>report. op_return (to_detail_dto orm report answers))))"

section \<open>What the evaluation task stores\<close>

lemma get_fold_set:
  assumes "distinct (map key xs)"
  shows "dict_get (fold (\<lambda>x d. dict_set (key x) (v x) d) xs []) k = map_option v (find (\<lambda>x. key x = k) xs)"
proof -
  have "dict_get (fold (\<lambda>x d. dict_set (key x) (v x) d) xs d) k
      = (case find (\<lambda>x. key x = k) xs of Some x \<Rightarrow> Some (v x) | None \<Rightarrow> dict_get d k)" for d
    using assms
  proof (induction xs arbitrary: d)
    case (Cons x xs)
    then have "key x \<notin> key ` set xs" by simp
    then have "key x = k \<Longrightarrow> find (\<lambda>x. key x = k) xs = None" by (auto simp: find_None_iff image_iff)
    with Cons show ?case by (auto simp: dict_get_set split: option.split)
  qed simp
  from this [of "[]"] show ?thesis by (simp split: option.split)
qed

lemma get_index_by: "distinct (map key xs) \<Longrightarrow> dict_get (index_by key xs) k = find (\<lambda>x. key x = k) xs"
  by (simp add: index_by_def get_fold_set [where v = "\<lambda>x. x"] option.map_ident)

lemma dict_wf_fold_set: "dict_wf d \<Longrightarrow> dict_wf (fold (\<lambda>x d. dict_set (key x) (v x) d) xs d)"
  by (induction xs arbitrary: d) simp_all

definition evaluated_answer :: "EvaluationReport \<Rightarrow> AnswerRow \<Rightarrow> AnswerRow" where
  "evaluated_answer report a = (case dict_get (detail_map report) (ia_question_index a) of
     None \<Rightarrow> a
   | Some detail \<Rightarrow> let ref = dict_get (ref_map report) (ia_question_index a) in
       a\<lparr>ia_score := Some (qe_score detail), ia_feedback := Some (qe_feedback detail),
         ia_reference_answer := Some (case ref of Some r \<Rightarrow> ra_reference_answer r | None \<Rightarrow> []),
         ia_key_points_json := Some (str_list_json (case ref of Some r \<Rightarrow> ra_key_points r | None \<Rightarrow> []))\<rparr>)"

definition edit_answers :: "(AnswerRow \<Rightarrow> AnswerRow) \<Rightarrow> AnswerRow set \<Rightarrow> Db \<Rightarrow> Db" where
  "edit_answers f S db = db\<lparr>db_answers := map (\<lambda>a. if a \<in> S then f a else a) (db_answers db)\<rparr>"

lemma evaluated_answer_keys [simp]:
  "ia_id (evaluated_answer report a) = ia_id a" "ia_session_id (evaluated_answer report a) = ia_session_id a"
  "ia_question_index (evaluated_answer report a) = ia_question_index a"
  by (simp_all add: evaluated_answer_def Let_def split: option.split)

lemma persist_answer_run:
  assumes "distinct (map ia_id (db_answers (w_db w)))" "a \<in> set (db_answers (w_db w))"
  shows "persist_answer report a w = (Inr (), w\<lparr>w_db := edit_answers (evaluated_answer report) {a} (w_db w)\<rparr>)"
proof -
  have same: "x = a" if "x \<in> set (db_answers (w_db w))" "ia_id x = ia_id a" for x
    using that assms by (meson distinct_map inj_onD)
  show ?thesis
  proof (cases "dict_get (detail_map report) (ia_question_index a)")
    case None
    then have "evaluated_answer report a = a" by (simp add: evaluated_answer_def)
    then have "edit_answers (evaluated_answer report) {a} (w_db w) = w_db w"
      by (simp add: edit_answers_def map_idI)
    with None show ?thesis by (simp add: persist_answer_def op_simps)
  next
    case (Some detail)
    then show ?thesis using same
      by (auto simp: persist_answer_def op_simps repo_update_answer_evaluation_def modify_db_def edit_answers_def evaluated_answer_def Let_def)
  qed
qed

lemma persist_answers_run:
  assumes "distinct (map ia_id (db_answers (w_db w)))" "set as \<subseteq> set (db_answers (w_db w))" "distinct as"
  shows "op_for as (persist_answer report) w = (Inr (), w\<lparr>w_db := edit_answers (evaluated_answer report) (set as) (w_db w)\<rparr>)"
  using assms
proof (induction as arbitrary: w)
  case Nil
  then show ?case by (simp add: op_simps edit_answers_def)
next
  case (Cons a as)
  let ?w = "w\<lparr>w_db := edit_answers (evaluated_answer report) {a} (w_db w)\<rparr>"
  have other: "ia_id x \<noteq> ia_id a" if "x \<in> set as" for x
  proof
    assume "ia_id x = ia_id a"
    moreover have "x \<in> set (db_answers (w_db w))" "a \<in> set (db_answers (w_db w))" using that Cons.prems by auto
    ultimately have "x = a" using Cons.prems(1) by (meson distinct_map inj_onD)
    with that Cons.prems(3) show False by simp
  qed
  have "map ia_id (db_answers (w_db ?w)) = map ia_id (db_answers (w_db w))" by (simp add: edit_answers_def)
  moreover have "set as \<subseteq> set (db_answers (w_db ?w))"
  proof
    fix x assume "x \<in> set as"
    then have "x \<in> set (db_answers (w_db w))" "x \<noteq> a" using Cons.prems by auto
    then show "x \<in> set (db_answers (w_db ?w))" by (force simp: edit_answers_def)
  qed
  ultimately have "op_for as (persist_answer report) ?w
      = (Inr (), ?w\<lparr>w_db := edit_answers (evaluated_answer report) (set as) (w_db ?w)\<rparr>)"
    using Cons.prems by (intro Cons.IH) auto
  moreover have "edit_answers (evaluated_answer report) (set as) (edit_answers (evaluated_answer report) {a} (w_db w))
      = edit_answers (evaluated_answer report) (set (a # as)) (w_db w)"
  proof -
    have "evaluated_answer report a \<notin> set as" using other [of "evaluated_answer report a"] by auto
    then show ?thesis by (simp add: edit_answers_def)
  qed
  moreover have "persist_answer report a w = (Inr (), ?w)" using Cons.prems by (intro persist_answer_run) auto
  ultimately show ?case by (simp add: op_simps)
qed

lemma sort_key_map: "(\<And>x. key (f x) = key x) \<Longrightarrow> sort_key key (map f xs) = map f (sort_key key xs)"
proof -
  assume k: "\<And>x. key (f x) = key x"
  have "insort_key key (f x) (map f ys) = map f (insort_key key x ys)" for x ys by (induction ys) (simp_all add: k)
  then show ?thesis by (induction xs) simp_all
qed

lemma answers_of_edit:
  assumes "\<And>a. ia_session_id (f a) = ia_session_id a" "\<And>a. ia_question_index (f a) = ia_question_index a"
  shows "answers_of pk (edit_answers f (set (answers_of pk db)) db) = map f (answers_of pk db)"
proof -
  let ?S = "set (answers_of pk db)" and ?P = "\<lambda>a. ia_session_id a = pk"
  let ?g = "\<lambda>a. if a \<in> ?S then f a else a"
  have "filter ?P (map ?g (db_answers db)) = map ?g (filter ?P (db_answers db))"
    by (simp add: filter_map comp_def assms if_distrib cong: if_cong)
  also have "\<dots> = map f (filter ?P (db_answers db))" by (intro map_cong) (auto simp: answers_of_def)
  finally show ?thesis by (simp add: answers_of_def edit_answers_def sort_key_map assms)
qed

text \<open>The rows a session's answers leave: of its questions, with their texts, answered.\<close>

definition answers_match :: "InterviewQuestion list \<Rightarrow> AnswerRow list \<Rightarrow> bool" where
  "answers_match qs answers \<longleftrightarrow> list_all (\<lambda>a. 0 \<le> ia_question_index a \<and> ia_question_index a < int (length qs)
     \<and> ia_question a = Some (q_question (qs ! nat (ia_question_index a)))
     \<and> ia_category a = Some (q_category (qs ! nat (ia_question_index a))) \<and> ia_user_answer a \<noteq> None) answers"

definition session_records :: "InterviewQuestion list \<Rightarrow> AnswerRow list \<Rightarrow> QaRecord list" where
  "session_records qs answers = build_qa_records (overlay_answers qs
     (fold (\<lambda>a d. dict_set (ia_question_index a) (or_str (ia_user_answer a) []) d) answers []))"

text \<open>A report as it is read back: questions without an answer show the fixed feedback.\<close>

definition as_read :: "AnswerRow list \<Rightarrow> EvaluationReport \<Rightarrow> EvaluationReport" where
  "as_read answers report = report\<lparr>er_question_details := map (\<lambda>d.
     if find (\<lambda>a. ia_question_index a = qe_question_index d) answers = None then d\<lparr>qe_feedback := UNANSWERED_FEEDBACK\<rparr> else d)
     (er_question_details report)\<rparr>"

lemma category_scores_as_read: "compute_category_scores (er_question_details (as_read answers report)) = compute_category_scores (er_question_details report)"
proof -
  have "scores_by_category (map (\<lambda>d. if P d then d\<lparr>qe_feedback := t\<rparr> else d) ds) e = scores_by_category ds e" for P t ds e
    by (induction ds arbitrary: e) simp_all
  then show ?thesis by (simp add: compute_category_scores_def as_read_def)
qed

lemma session_record:
  assumes "distinct (map ia_question_index answers)" "i < length qs"
  shows "length (session_records qs answers) = length qs"
    "session_records qs answers ! i = \<lparr>qa_question_index = q_question_index (qs ! i), qa_question = q_question (qs ! i),
       qa_category = q_category (qs ! i), qa_user_answer = (case find (\<lambda>a. ia_question_index a = int i) answers of
          Some a \<Rightarrow> Some (or_str (ia_user_answer a) []) | None \<Rightarrow> q_user_answer (qs ! i))\<rparr>"
proof -
  have wf: "dict_wf (fold (\<lambda>a d. dict_set (ia_question_index a) (or_str (ia_user_answer a) []) d) answers [])"
    by (rule dict_wf_fold_set) simp
  show len: "length (session_records qs answers) = length qs" by (simp add: session_records_def build_qa_records_def overlay_length)
  show "session_records qs answers ! i = \<lparr>qa_question_index = q_question_index (qs ! i), qa_question = q_question (qs ! i),
       qa_category = q_category (qs ! i), qa_user_answer = (case find (\<lambda>a. ia_question_index a = int i) answers of
          Some a \<Rightarrow> Some (or_str (ia_user_answer a) []) | None \<Rightarrow> q_user_answer (qs ! i))\<rparr>"
    using assms by (auto simp: session_records_def build_qa_records_def overlay_length overlay_nth [OF wf] get_fold_set
        with_answer_def split: option.split)
qed

lemma details_read_back:
  fixes answers :: "AnswerRow list" and qs :: "InterviewQuestion list"
  defines "qa \<equiv> session_records qs answers"
  assumes numbered: "map q_question_index qs = map int [0..<length qs]" and new: "list_all (\<lambda>q. q_user_answer q = None) qs"
    and answers: "distinct (map ia_question_index answers)" "answers_match qs answers"
    and report: "er_question_details report = map (\<lambda>(i, q). question_detail q (eval_at evaluations i)) (py_enumerate qa)"
  shows "map (\<lambda>q. build_question_evaluation q (dict_get (index_by ia_question_index (map (evaluated_answer report) answers)) (q_question_index q))) qs
    = er_question_details (as_read answers report)"
proof (rule nth_equalityI)
  show "length (map (\<lambda>q. build_question_evaluation q (dict_get (index_by ia_question_index (map (evaluated_answer report) answers)) (q_question_index q))) qs)
      = length (er_question_details (as_read answers report))"
    by (cases qs) (simp_all add: as_read_def report qa_def session_records_def build_qa_records_def overlay_length)
next
  fix i assume "i < length (map (\<lambda>q. build_question_evaluation q (dict_get (index_by ia_question_index (map (evaluated_answer report) answers)) (q_question_index q))) qs)"
  then have i: "i < length qs" by simp
  have index: "q_question_index (qs ! k) = int k" if "k < length qs" for k
    using numbered that by (metis (no_types, lifting) add_0 diff_zero length_upt nth_map nth_upt)
  have rec: "qa ! k = \<lparr>qa_question_index = int k, qa_question = q_question (qs ! k), qa_category = q_category (qs ! k),
      qa_user_answer = (case find (\<lambda>a. ia_question_index a = int k) answers of
          Some a \<Rightarrow> Some (or_str (ia_user_answer a) []) | None \<Rightarrow> None)\<rparr>" if "k < length qs" for k
    using session_record [OF answers(1) that] new that by (auto simp: qa_def index list_all_length split: option.split)
  have len: "length qa = length qs" using session_record(1) [OF answers(1) i] by (simp add: qa_def)
  let ?D = "er_question_details report"
  have D: "length ?D = length qs" "\<And>k. k < length qs \<Longrightarrow> ?D ! k = question_detail (qa ! k) (eval_at evaluations k)"
    by (simp_all add: report len)
  have keys: "map qe_question_index ?D = map int [0..<length qs]"
    by (rule nth_equalityI) (simp_all add: D rec question_detail_def)
  then have dist: "distinct (map qe_question_index ?D)" by (simp add: distinct_map)
  have found: "dict_get (detail_map report) (int i) = Some (?D ! i)"
  proof -
    have "qe_question_index (?D ! i) = int i" by (simp add: D i rec question_detail_def)
    then show ?thesis using find_at [OF dist, of i] get_index_by [OF dist, of "int i"] i
      by (simp add: detail_map_def index_by_def D)
  qed
  have d': "distinct (map ia_question_index (map (evaluated_answer report) answers))" using answers(1) by (simp add: comp_def)
  have get: "dict_get (index_by ia_question_index (map (evaluated_answer report) answers)) (int i)
      = map_option (evaluated_answer report) (find (\<lambda>a. ia_question_index a = int i) answers)"
    unfolding get_index_by [OF d'] by (induction answers) simp_all
  show "map (\<lambda>q. build_question_evaluation q (dict_get (index_by ia_question_index (map (evaluated_answer report) answers)) (q_question_index q))) qs ! i
      = er_question_details (as_read answers report) ! i"
  proof (cases "find (\<lambda>a. ia_question_index a = int i) answers")
    case None
    have "?D ! i = question_detail (qa ! i) (eval_at evaluations i)" using D i by blast
    then show ?thesis using None i
      by (simp add: get build_question_evaluation_def as_read_def D rec question_detail_def index truthy_str_def split: option.split)
  next
    case (Some a)
    then have a: "a \<in> set answers" "ia_question_index a = int i" by (auto simp: find_Some_iff)
    then obtain u where u: "ia_question a = Some (q_question (qs ! i))" "ia_category a = Some (q_category (qs ! i))" "ia_user_answer a = Some u"
      using answers(2) unfolding answers_match_def list_all_iff by force
    have "ia_question (evaluated_answer report a) = ia_question a" "ia_category (evaluated_answer report a) = ia_category a"
      "ia_user_answer (evaluated_answer report a) = ia_user_answer a" "ia_score (evaluated_answer report a) = Some (qe_score (?D ! i))"
      "ia_feedback (evaluated_answer report a) = Some (qe_feedback (?D ! i))"
      by (simp_all add: evaluated_answer_def a found Let_def)
    then have "from_answer (evaluated_answer report a) = ?D ! i"
      by (simp add: from_answer_def a u D i rec Some question_detail_def or_str_def)
    then show ?thesis using Some i
      by (simp add: get index build_question_evaluation_def as_read_def D rec question_detail_def)
  qed
qed

lemma references_read_back: "parse_stored_references show (Some (reference_answers_json refs)) = Inr refs"
proof -
  let ?f = "\<lambda>r. [(ascii ''questionIndex'', JInt (ra_question_index r)), (ascii ''question'', JStr (ra_question r)),
      (ascii ''referenceAnswer'', JStr (ra_reference_answer r)), (ascii ''keyPoints'', JArr (map JStr (ra_key_points r)))]"
  have "json_wf (JArr (map (\<lambda>r. JObj (?f r)) refs))" by (simp add: list_all_iff)
  then have "json_loads_dict_list (Some (reference_answers_json refs)) = map ?f refs"
    unfolding reference_answers_json_def by (rule json_loads_dict_list_dumps)
  moreover have "parse_reference show (?f r) = Inr r" for r
    by (simp add: parse_reference_def dict_get_default_def)
  ultimately show ?thesis using res_traverse_const [of refs "parse_reference show" ?f "\<lambda>r. r"] by (simp add: parse_stored_references_def)
qed

section \<open>From the task to the reader\<close>

definition stored_result :: "EvaluationReport \<Rightarrow> SessionRow \<Rightarrow> SessionRow" where
  "stored_result report r = r\<lparr>is_overall_score := Some (er_overall_score report),
     is_overall_feedback := Some (er_overall_feedback report),
     is_strengths_json := Some (str_list_json (er_strengths report)),
     is_improvements_json := Some (str_list_json (er_improvements report)),
     is_reference_answers_json := Some (reference_answers_json (er_reference_answers report)),
     is_status := session_status_value S_EVALUATED\<rparr>"

definition evaluated_db :: "SessionRow \<Rightarrow> EvaluationReport \<Rightarrow> Db \<Rightarrow> Db" where
  "evaluated_db r report db = update_row (is_session_id r) (stored_result report)
     (edit_answers (evaluated_answer report) (set (answers_of (is_id r) db)) db)"

lemma serialized_ne: "or_str (Some (serialize_questions qs)) d = serialize_questions qs"
  by (simp add: or_str_def serialize_questions_def)

lemma persist_result_run:
  assumes "is_questions_json r = Some (serialize_questions qs)" "distinct (map ia_id (db_answers (w_db w)))"
  shows "persist_result r report w = (Inr (), w\<lparr>w_db := evaluated_db r (apply_question_references report qs) (w_db w)\<rparr>)"
proof -
  let ?as = "answers_of (is_id r) (w_db w)"
  have sub: "set ?as \<subseteq> set (db_answers (w_db w))" by (auto simp: answers_of_def)
  have "distinct (db_answers (w_db w))" using assms(2) by (simp add: distinct_map)
  then have dist: "distinct ?as" by (simp add: answers_of_def)
  show ?thesis
    by (simp add: persist_result_def assms(1) serialized_ne op_simps repo_find_answers_by_session_id_def
        persist_answers_run [OF assms(2) sub dist] repo_save_evaluation_result_def modify_db_def evaluated_db_def
        stored_result_def [abs_def] Let_def)
qed

lemma process_business_run:
  assumes "find_row sid (w_committed w) = Some r" "\<not> evaluate_done r" "is_questions_json r = Some (serialize_questions qs)"
    and "distinct (map ia_id (db_answers (w_committed w)))" "chat_client (is_llm_provider r) = Inr ()"
    and graph: "\<And>kb qa rt rc. \<exists>report. graph kb sid qa rt rc = Inr report"
  shows "\<exists>report rt rc. graph (is_kb_session r) sid (session_records qs (answers_of (is_id r) (w_committed w))) rt rc = Inr report
     \<and> (\<exists>w'. process_business chat_client graph sid w = (Inr (), w')
        \<and> w_committed w' = evaluated_db r (apply_question_references report qs) (w_committed w))"
proof -
  let ?w = "w\<lparr>w_db := w_committed w\<rparr>"
  let ?qa = "session_records qs (answers_of (is_id r) (w_committed w))"
  have q: "build_session_qa_records r ?w = (Inr ?qa, ?w)"
    by (simp add: build_session_qa_records_def assms(3) serialized_ne op_simps repo_find_answers_by_session_id_def session_records_def Let_def)
  obtain t where t: "consumer_resume_text (is_resume_id r) ?w = (Inr t, ?w)" using pure_steps(2) by blast
  obtain c where c: "build_reference_context r ?w = (Inr c, ?w)"
    by (simp add: build_reference_context_def assms(3) serialized_ne op_simps Let_def)
  obtain report where g: "graph (is_kb_session r) sid ?qa t c = Inr report" using graph by blast
  have p: "persist_result r report ?w = (Inr (), ?w\<lparr>w_db := evaluated_db r (apply_question_references report qs) (w_committed w)\<rparr>)"
    using persist_result_run [OF assms(3), of ?w report] assms(4) by simp
  have "\<exists>w'. process_business chat_client graph sid w = (Inr (), w')
        \<and> w_committed w' = evaluated_db r (apply_question_references report qs) (w_committed w)"
    using assms(1,2) by (simp add: process_business_def in_new_session_def find_by_session_id_optional_def op_simps q t c g p assms(5)
        commit_def remember_degraded_def)
  with g show ?thesis by blast
qed

text \<open>Reading such a row.\<close>

lemma get_evaluated:
  assumes row: "find_row sid db = Some r" and read: "find_row sid (w_committed w) = Some r'"
    and r': "r' = (stored_result report r)\<lparr>is_evaluate_status := Some status, is_evaluate_error := err\<rparr>"
    and answers: "answers_of (is_id r) (w_committed w) = map (evaluated_answer report) (answers_of (is_id r) db)"
    and qs: "is_questions_json r = Some (serialize_questions qs)" "qs \<noteq> []" "is_total_questions r = int (length qs)"
      "map q_question_index qs = map int [0..<length qs]" "list_all (\<lambda>q. q_user_answer q = None) qs"
    and ans: "distinct (map ia_question_index (answers_of (is_id r) db))" "answers_match qs (answers_of (is_id r) db)"
    and report: "er_session_id report = sid" "er_total_questions report = int (length qs)"
      "er_category_scores report = compute_category_scores (er_question_details report)"
      "er_question_details report = map (\<lambda>(i, q). question_detail q (eval_at evaluations i))
         (py_enumerate (session_records qs (answers_of (is_id r) db)))"
    and "status \<noteq> []"
  shows "fst (run_request (get_interview_evaluation show sid) w)
    = Inr (to_evaluation_dto (as_read (answers_of (is_id r) db) report) status)"
proof -
  have r: "is_session_id r = sid" using find_row_Some [OF row] by simp
  note details = details_read_back [OF qs(4,5) ans report(4)]
  have rep: "reconstruct_report show r' (map (evaluated_answer report) (answers_of (is_id r) db))
    = Inr ((as_read (answers_of (is_id r) db) report)\<lparr>er_degraded_reasons := []\<rparr>)"
    using category_scores_as_read [of "answers_of (is_id r) db" report]
    by (simp add: reconstruct_report_def r' stored_result_def parse_questions_safely_def qs serialized_ne Let_def details
        references_read_back read_string_list_dumps [folded str_list_json_def] report r)
      (simp add: serialize_questions_def as_read_def report or_str_def)
  have f: "is_id r' = is_id r" "is_status r' = session_status_value S_EVALUATED" "is_evaluate_status r' = Some status"
    by (simp_all add: r' stored_result_def)
  show ?thesis
    using read assms(16) by (simp add: run_request_def get_interview_evaluation_def load_evaluated_def op_simps find_by_session_id_optional_def
        repo_find_answers_by_session_id_def f answers rep to_evaluation_dto_def or_str_def)
qed

lemma find_evaluated:
  assumes "find_row sid db = Some r"
  shows "find_row sid (evaluated_db r report db) = Some (stored_result report r)"
    "answers_of (is_id r) (evaluated_db r report db) = map (evaluated_answer report) (answers_of (is_id r) db)"
proof -
  have r: "is_session_id r = sid" using find_row_Some [OF assms] by simp
  have "keeps_keys (stored_result report)" by (simp add: keeps_keys_def stored_result_def)
  then show "find_row sid (evaluated_db r report db) = Some (stored_result report r)"
    using assms by (simp add: evaluated_db_def find_row_update r) (simp add: find_row_def edit_answers_def)
  show "answers_of (is_id r) (evaluated_db r report db) = map (evaluated_answer report) (answers_of (is_id r) db)"
    using answers_of_edit [of "evaluated_answer report" "is_id r" db] by (simp add: evaluated_db_def update_row_def answers_of_def)
qed

lemma set_eval_answers [simp]: "answers_of pk (set_eval sid st err db) = answers_of pk db" "db_answers (set_eval sid st err db) = db_answers db"
  by (simp_all add: set_eval_def update_row_def answers_of_def)

lemma applied_references: "\<exists>refs. apply_question_references report qs = report\<lparr>er_reference_answers := refs\<rparr>"
  using apply_question_references_spec by blast

text \<open>What the evaluation graph reports for a session, in the form of \<open>details_read_back\<close>.\<close>

lemma graph_report:
  assumes "evaluate collect llm_batch llm_summary exc_str n sid qa rt rc = Inr report"
  shows "er_session_id report = sid" "er_total_questions report = int (length qa)"
    "er_category_scores report = compute_category_scores (er_question_details report)"
    "\<exists>evaluations. er_question_details report = map (\<lambda>(i, q). question_detail q (eval_at evaluations i)) (py_enumerate qa)"
proof -
  obtain summary where "evaluate collect llm_batch llm_summary exc_str n sid qa rt rc =
     Inr (build_report sid qa (merge_question_evaluations (map fst (batch_outcomes collect llm_batch exc_str n qa rt rc)))
       summary (concat (map snd (batch_outcomes collect llm_batch exc_str n qa rt rc))))"
    using evaluate_unfold by blast
  with assms show "er_session_id report = sid" "er_total_questions report = int (length qa)"
    "er_category_scores report = compute_category_scores (er_question_details report)"
    "\<exists>evaluations. er_question_details report = map (\<lambda>(i, q). question_detail q (eval_at evaluations i)) (py_enumerate qa)"
    by (auto simp: build_report_def Let_def)
qed

definition session_ready :: "SessionRow \<Rightarrow> InterviewQuestion list \<Rightarrow> AnswerRow list \<Rightarrow> bool" where
  "session_ready r qs answers \<longleftrightarrow> is_questions_json r = Some (serialize_questions qs) \<and> qs \<noteq> []
     \<and> is_total_questions r = int (length qs) \<and> map q_question_index qs = map int [0..<length qs]
     \<and> list_all (\<lambda>q. q_user_answer q = None) qs \<and> answers_match qs answers"


definition read_env :: Env where
  "read_env = sample_env\<lparr>en_chat_client := (\<lambda>p. Inr ()), en_graph := (\<lambda>kb. evaluate (\<lambda>xs. xs)
     (\<lambda>n p. Inr \<lparr>bo_overall_score = 0, bo_overall_feedback = [], bo_strengths = [], bo_improvements = [],
        bo_question_evaluations = [\<lparr>qo_question_index = 0, qo_score = 7, qo_feedback = [5], qo_reference_answer = [], qo_key_points = []\<rparr>]\<rparr>)
     (\<lambda>p. Inl TypeError) (\<lambda>e. []) 1)\<rparr>"

definition answered_world :: World where
  "answered_world = snd (run_request (handle read_env (R_Save [1] \<lparr>sa_question_index = 0, sa_answer = [9]\<rparr>)) created_world)"

definition answered_row :: AnswerRow where
  "answered_row = \<lparr>ia_id = 2, ia_session_id = 1, ia_question_index = 0, ia_question = Some [2], ia_category = Some [],
     ia_user_answer = Some [9], ia_score = None, ia_feedback = None, ia_reference_answer = None, ia_key_points_json = None,
     ia_answered_at = 0\<rparr>"

lemma answered_reachable: "reachable read_env [] answered_world"
proof -
  have "reachable read_env [] created_world"
    using reachable.step [OF reachable.start system_step.request, of read_env "[]" "R_Create_From_Questions [1] [mk_question 0 [2] [] []] None [] [] None None"]
    by (simp add: created_world_def)
  then show ?thesis unfolding answered_world_def by (rule reachable.step [OF _ system_step.request])
qed

lemma answered_facts:
  "find_row [1] (w_committed answered_world) = Some (created_row\<lparr>is_status := ascii ''IN_PROGRESS''\<rparr>)"
  "db_answers (w_committed answered_world) = [answered_row]"
  by (simp_all add: answered_world_def created_world_eq Let_def run_request_def initial_world_def save_answer_def op_simps created_evals
      answer_checks_def save_answer_row_def find_answer_by_session_and_index_def repo_save_answer_def answered_row_def mk_question_def
      cache_update_questions_def load_questions_def serialized_ne
      is_unfinished_def COMPLETED_STATUSES_def ascii_def del: One_nat_def)


end
