(* ===== verification/File_Storage.thy ===== *)
theory File_Storage
  imports Bytes Errors Effects
begin

text \<open>
  \<open>infrastructure/storage/s3.py\<close> and \<open>hash.py\<close>: files in a bucket. Every call of the S3 client may
  fail (\<open>s3_faults\<close>, an empty list means that it answers from now on). The client, \<open>lazy_pinyin\<close>
  and \<open>str.capitalize\<close> are parameters, as is SHA-256; the date and the \<open>uuid4\<close> of a key are given to
  each upload.
\<close>

record S3World =
  s3_objects :: "(pystr, bytes) dict"
  s3_faults :: "bool list"

type_synonym 'a s3_op = "(S3World, 'a) op"

record StorageEnv =
  se_endpoint :: pystr
  se_bucket :: pystr
  se_pinyin :: "nat \<Rightarrow> pystr list"
  se_capitalize :: "pystr \<Rightarrow> pystr"
  se_exc_str :: "exn \<Rightarrow> pystr"

definition S3Error :: exn where "S3Error = OSError (ascii ''S3'')"

definition s3_call :: "'a s3_op \<Rightarrow> 'a s3_op" where
  "s3_call m = (\<lambda>w. case s3_faults w of
     [] \<Rightarrow> m w
   | True # fs \<Rightarrow> (Inl S3Error, w\<lparr>s3_faults := fs\<rparr>)
   | False # fs \<Rightarrow> m (w\<lparr>s3_faults := fs\<rparr>))"

text \<open>\<open>except Exception as e: raise BusinessException(code, f'...{e}')\<close>.\<close>

definition storage_try :: "StorageEnv \<Rightarrow> ErrorCode \<Rightarrow> pystr \<Rightarrow> 'a s3_op \<Rightarrow> 'a s3_op" where
  "storage_try env c prefix m = op_try m (\<lambda>e. op_raise (BusinessException c (prefix @ se_exc_str env e)))"

section \<open>Names and keys\<close>

definition safe_char :: "nat \<Rightarrow> bool" where
  "safe_char c \<longleftrightarrow> (97 \<le> c \<and> c \<le> 122) \<or> (65 \<le> c \<and> c \<le> 90) \<or> (48 \<le> c \<and> c \<le> 57) \<or> c = 46 \<or> c = 95 \<or> c = 45"

definition latin :: "StorageEnv \<Rightarrow> nat \<Rightarrow> pystr" where
  "latin env c = (case se_pinyin env c of [] \<Rightarrow> [c] | p # _ \<Rightarrow> if p \<noteq> [c] then se_capitalize env p else [c])"

definition sanitize_filename :: "StorageEnv \<Rightarrow> pystr \<Rightarrow> pystr" where
  "sanitize_filename env filename = (if filename = [] then ascii ''unknown''
     else map (\<lambda>c. if safe_char c then c else 95) (concat (map (latin env) filename)))"

definition generate_file_key :: "StorageEnv \<Rightarrow> pystr \<Rightarrow> pystr \<Rightarrow> pystr \<Rightarrow> pystr \<Rightarrow> pystr" where
  "generate_file_key env date_path uuid filename prefix = prefix @ [47] @ date_path @ [47] @ uuid @ [95] @ sanitize_filename env filename"

definition build_file_url :: "StorageEnv \<Rightarrow> pystr \<Rightarrow> pystr" where
  "build_file_url env key = (if key = [] then [] else se_endpoint env @ [47] @ se_bucket env @ [47] @ key)"

section \<open>Operations\<close>

definition upload_file :: "StorageEnv \<Rightarrow> pystr \<Rightarrow> pystr \<Rightarrow> bytes \<Rightarrow> pystr \<Rightarrow> pystr \<Rightarrow> pystr s3_op" where
  "upload_file env date_path uuid data filename prefix =
     (let key = generate_file_key env date_path uuid filename prefix in
      op_then (storage_try env STORAGE_UPLOAD_FAILED [25991, 20214, 23384, 20648, 22833, 36133, 58, 32]
        (s3_call (op_modify (\<lambda>w. w\<lparr>s3_objects := dict_set key data (s3_objects w)\<rparr>)))) (op_return key))"

definition download_file :: "StorageEnv \<Rightarrow> pystr \<Rightarrow> bytes s3_op" where
  "download_file env key = storage_try env STORAGE_DOWNLOAD_FAILED [25991, 20214, 19979, 36733, 22833, 36133, 58, 32]
     (s3_call (op_bind (op_get (\<lambda>w. dict_get (s3_objects w) key)) (\<lambda>v. case v of
        None \<Rightarrow> op_raise S3Error | Some data \<Rightarrow> op_return data)))"

text \<open>Any failure of \<open>head_object\<close> counts as absence.\<close>

definition file_exists :: "pystr \<Rightarrow> bool s3_op" where
  "file_exists key = op_try (s3_call (op_bind (op_get (\<lambda>w. dict_get (s3_objects w) key)) (\<lambda>v. case v of
     None \<Rightarrow> op_raise S3Error | Some data \<Rightarrow> op_return True))) (\<lambda>e. op_return False)"

definition delete_file :: "StorageEnv \<Rightarrow> pystr \<Rightarrow> unit s3_op" where
  "delete_file env key = (if key = [] then op_return () else
     op_bind (file_exists key) (\<lambda>exists. if \<not> exists then op_return () else
       storage_try env STORAGE_DELETE_FAILED [25991, 20214, 21024, 38500, 22833, 36133, 58, 32]
         (s3_call (op_modify (\<lambda>w. w\<lparr>s3_objects := AList.delete key (s3_objects w)\<rparr>)))))"

section \<open>What they promise\<close>

lemma sanitized_name_safe: "list_all safe_char (sanitize_filename env filename)"
  by (auto simp: sanitize_filename_def list_all_iff ascii_def safe_char_def)

text \<open>A key has exactly the directories of its prefix and its date, whatever the file was called.\<close>

lemma key_directories: "filter (\<lambda>c. c = 47) (generate_file_key env date_path uuid filename prefix)
    = filter (\<lambda>c. c = 47) (prefix @ [47] @ date_path @ [47] @ uuid)"
proof -
  have "filter (\<lambda>c. c = 47) (sanitize_filename env filename) = []"
    using sanitized_name_safe [of env filename] by (auto simp: filter_empty_conv list_all_iff safe_char_def)
  then show ?thesis by (simp add: generate_file_key_def)
qed

lemma upload_then_download:
  assumes "upload_file env date_path uuid data filename prefix w = (Inr key, w')" "s3_faults w' = []"
  shows "fst (download_file env key w') = Inr data"
  using assms
  by (auto simp: upload_file_def download_file_def storage_try_def s3_call_def op_simps Let_def
      split: sum.splits list.splits bool.splits)

text \<open>A failing \<open>head_object\<close> makes a deletion succeed without deleting anything.\<close>

lemma delete_can_leave_the_file:
  assumes "key \<noteq> []" "s3_faults w = [True]"
  shows "delete_file env key w = (Inr (), w\<lparr>s3_faults := []\<rparr>)"
  using assms by (simp add: delete_file_def file_exists_def s3_call_def op_simps)

lemma delete_removes:
  assumes "key \<noteq> []" "s3_faults w = []" "distinct (map fst (s3_objects w))"
  shows "dict_get (s3_objects (snd (delete_file env key w))) key = None"
  using assms by (auto simp: delete_file_def file_exists_def s3_call_def storage_try_def op_simps delete_conv' split: option.splits)

end
