(* ===== verification/Resume_Service.thy ===== *)
theory Resume_Service
  imports Document_Parser File_Storage Prompt_Sanitizer Interview_Store Stream_Consumer Llm_Providers Kb_Questions
begin

text \<open>
  Resumes: the rows of \<open>models/resume.py\<close>, \<open>resume_repository.py\<close>, \<open>application/resume/service.py\<close> and
  \<open>analysis.py\<close>, the producer and the consumer of the analysis task. Requests and messages run one after
  the other; a database session that raises leaves nothing behind. Redis and the bucket may fail.
  Parsing of files, SHA-256, prompts, the model and the PDF renderer are parameters.
\<close>

section \<open>Rows\<close>

record ResumeRow =
  rs_id :: int
  rs_file_hash :: pystr
  rs_original_filename :: pystr
  rs_file_size :: "int option"
  rs_content_type :: "pystr option"
  rs_storage_key :: "pystr option"
  rs_storage_url :: "pystr option"
  rs_resume_text :: "pystr option"
  rs_uploaded_at :: int
  rs_last_accessed_at :: "int option"
  rs_access_count :: int
  rs_analyze_status :: pystr
  rs_analyze_error :: "pystr option"

record ResumeAnalysisRow =
  an_id :: int
  an_resume_id :: int
  an_overall_score :: "int option"
  an_content_score :: "int option"
  an_structure_score :: "int option"
  an_skill_match_score :: "int option"
  an_expression_score :: "int option"
  an_project_score :: "int option"
  an_summary :: "pystr option"
  an_strengths_json :: "pystr option"
  an_suggestions_json :: "pystr option"
  an_analyzed_at :: int

text \<open>The interview rows are only read here.\<close>

record ResumeDb =
  rdb_resumes :: "ResumeRow list"
  rdb_analyses :: "ResumeAnalysisRow list"
  rdb_interviews :: "SessionRow list"
  rdb_fresh :: int
  rdb_now :: int

record ResumeWorld =
  rz_db :: ResumeDb
  rz_s3 :: S3World
  rz_stream :: "stream_message list"
  rz_redis_faults :: "bool list"

type_synonym 'a rdb_op = "(ResumeDb, 'a) op"
type_synonym 'a resume_op = "(ResumeWorld, 'a) op"

definition resume_session :: "'a rdb_op \<Rightarrow> 'a resume_op" where
  "resume_session m = (\<lambda>w. case m (rz_db w) of (Inl e, db) \<Rightarrow> (Inl e, w) | (Inr x, db) \<Rightarrow> (Inr x, w\<lparr>rz_db := db\<rparr>))"

definition with_storage :: "'a s3_op \<Rightarrow> 'a resume_op" where
  "with_storage m = (\<lambda>w. case m (rz_s3 w) of (r, s3) \<Rightarrow> (r, w\<lparr>rz_s3 := s3\<rparr>))"

section \<open>Repository\<close>

definition find_by_hash :: "pystr \<Rightarrow> ResumeDb \<Rightarrow> ResumeRow option" where
  "find_by_hash h db = find (\<lambda>r. rs_file_hash r = h) (rdb_resumes db)"

definition resume_by_id :: "int \<Rightarrow> ResumeDb \<Rightarrow> ResumeRow option" where
  "resume_by_id i db = find (\<lambda>r. rs_id r = i) (rdb_resumes db)"

definition save_resume :: "ResumeRow \<Rightarrow> ResumeRow rdb_op" where
  "save_resume row = (\<lambda>db. if find_by_hash (rs_file_hash row) db \<noteq> None then (Inl (RuntimeError (ascii ''IntegrityError'')), db)
     else let row' = row\<lparr>rs_id := rdb_fresh db, rs_uploaded_at := rdb_now db\<rparr>
       in (Inr row', db\<lparr>rdb_resumes := rdb_resumes db @ [row'], rdb_fresh := rdb_fresh db + 1\<rparr>))"

definition list_all_resumes :: "ResumeDb \<Rightarrow> ResumeRow list" where
  "list_all_resumes db = sort_key (\<lambda>r. - rs_uploaded_at r) (rdb_resumes db)"

definition count_resumes :: "ResumeDb \<Rightarrow> int" where "count_resumes db = int (length (rdb_resumes db))"
definition sum_access_count :: "ResumeDb \<Rightarrow> int" where "sum_access_count db = sum_list (map rs_access_count (rdb_resumes db))"

definition update_resume :: "int \<Rightarrow> (ResumeRow \<Rightarrow> ResumeRow) \<Rightarrow> ResumeDb \<Rightarrow> ResumeDb" where
  "update_resume i f db = db\<lparr>rdb_resumes := map (\<lambda>r. if rs_id r = i then f r else r) (rdb_resumes db)\<rparr>"

text \<open>Deleting a resume deletes its analyses (\<open>ON DELETE CASCADE\<close>).\<close>

definition delete_resume_row :: "int \<Rightarrow> ResumeDb \<Rightarrow> ResumeDb" where
  "delete_resume_row i db = db\<lparr>rdb_resumes := filter (\<lambda>r. rs_id r \<noteq> i) (rdb_resumes db),
     rdb_analyses := filter (\<lambda>a. an_resume_id a \<noteq> i) (rdb_analyses db)\<rparr>"

definition update_analyze_status :: "int \<Rightarrow> AsyncTaskStatus \<Rightarrow> pystr option \<Rightarrow> ResumeDb \<Rightarrow> ResumeDb" where
  "update_analyze_status i status err = update_resume i (\<lambda>r. r\<lparr>rs_analyze_status := task_status_value status, rs_analyze_error := err\<rparr>)"

definition increment_access_count :: "int \<Rightarrow> ResumeDb \<Rightarrow> ResumeDb" where
  "increment_access_count i db = update_resume i (\<lambda>r. r\<lparr>rs_access_count := rs_access_count r + 1, rs_last_accessed_at := Some (rdb_now db)\<rparr>) db"

definition save_analysis :: "ResumeAnalysisRow \<Rightarrow> ResumeDb \<Rightarrow> ResumeDb" where
  "save_analysis a db = db\<lparr>rdb_analyses := rdb_analyses db @ [a\<lparr>an_id := rdb_fresh db, an_analyzed_at := rdb_now db\<rparr>],
     rdb_fresh := rdb_fresh db + 1\<rparr>"

definition find_analyses :: "int \<Rightarrow> ResumeDb \<Rightarrow> ResumeAnalysisRow list" where
  "find_analyses i db = sort_key (\<lambda>a. - an_analyzed_at a) (filter (\<lambda>a. an_resume_id a = i) (rdb_analyses db))"

definition find_latest_analysis :: "int \<Rightarrow> ResumeDb \<Rightarrow> ResumeAnalysisRow option" where
  "find_latest_analysis i db = (case find_analyses i db of [] \<Rightarrow> None | a # _ \<Rightarrow> Some a)"

definition delete_analyses :: "int \<Rightarrow> ResumeDb \<Rightarrow> ResumeDb" where
  "delete_analyses i db = db\<lparr>rdb_analyses := filter (\<lambda>a. an_resume_id a \<noteq> i) (rdb_analyses db)\<rparr>"

text \<open>From \<open>interview_repository.py\<close>.\<close>

definition count_interviews_of :: "int \<Rightarrow> ResumeDb \<Rightarrow> int" where
  "count_interviews_of i db = int (length (filter (\<lambda>s. is_resume_id s = Some i) (rdb_interviews db)))"

definition interviews_by_resume_id :: "int \<Rightarrow> ResumeDb \<Rightarrow> SessionRow list" where
  "interviews_by_resume_id i db = Interview_Store.newest_first (filter (\<lambda>s. is_resume_id s = Some i) (rdb_interviews db))"

section \<open>The task\<close>

definition RESUME_ID_FIELD :: pystr where "RESUME_ID_FIELD = ascii ''resumeId''"

definition analyze_message :: "int \<Rightarrow> int \<Rightarrow> stream_message" where
  "analyze_message i retry_count = [(RESUME_ID_FIELD, int_str i), (FIELD_RETRY_COUNT, int_str retry_count)]"

definition resume_redis :: "'a resume_op \<Rightarrow> 'a resume_op" where
  "resume_redis m = (\<lambda>w. case rz_redis_faults w of
     [] \<Rightarrow> m w
   | True # fs \<Rightarrow> (Inl RedisError, w\<lparr>rz_redis_faults := fs\<rparr>)
   | False # fs \<Rightarrow> m (w\<lparr>rz_redis_faults := fs\<rparr>))"

definition analyze_xadd :: "stream_message \<Rightarrow> unit resume_op" where
  "analyze_xadd m = resume_redis (op_modify (\<lambda>w. w\<lparr>rz_stream := rz_stream w @ [m]\<rparr>))"

definition analyze_send_failed :: "int \<Rightarrow> pystr \<Rightarrow> unit resume_op" where
  "analyze_send_failed i err = op_try (resume_session (op_bind (op_get (resume_by_id i)) (\<lambda>r.
     op_when (r \<noteq> None) (op_modify (update_analyze_status i T_FAILED (Some (truncate_error err))))))) (\<lambda>e. op_return ())"

definition enqueue_analyze :: "(exn \<Rightarrow> pystr) \<Rightarrow> int \<Rightarrow> unit resume_op" where
  "enqueue_analyze exc_str i = op_try (analyze_xadd (analyze_message i 0))
     (\<lambda>e. analyze_send_failed i ([20219, 21153, 20837, 38431, 22833, 36133, 58, 32] @ truncate_error (exc_str e)))"

section \<open>The service\<close>

record ResumeEnv =
  rv_parser :: ParserEnv
  rv_storage :: StorageEnv
  rv_sha256 :: "bytes \<Rightarrow> pystr"
  rv_allowed_types :: "pystr list"
  rv_max_file_size :: int
  rv_exc_str :: "exn \<Rightarrow> pystr"
  rv_export_pdf :: "ResumeRow \<Rightarrow> ResumeAnalysisRow \<Rightarrow> bytes result"

record UploadRequest =
  up_filename :: pystr
  up_content_type :: pystr
  up_data :: bytes
  up_date_path :: pystr
  up_uuid :: pystr

record ResumeUploadResponse =
  ur_id :: int
  ur_filename :: pystr
  ur_analyze_status :: pystr
  ur_file_key :: pystr
  ur_file_url :: pystr
  ur_duplicate :: bool

definition RESUME_STORAGE_PREFIX :: pystr where "RESUME_STORAGE_PREFIX = ascii ''resumes''"

definition upload_response :: "bool \<Rightarrow> ResumeRow \<Rightarrow> ResumeUploadResponse" where
  "upload_response duplicate r = \<lparr>ur_id = rs_id r, ur_filename = rs_original_filename r, ur_analyze_status = rs_analyze_status r,
     ur_file_key = or_str (rs_storage_key r) [], ur_file_url = or_str (rs_storage_url r) [], ur_duplicate = duplicate\<rparr>"

definition validate_resume_size :: "ResumeEnv \<Rightarrow> bytes \<Rightarrow> unit resume_op" where
  "validate_resume_size env data = (if int (length data) > rv_max_file_size env
     then op_raise (BusinessException RESUME_UPLOAD_FAILED ([25991, 20214, 22823, 23567, 36229, 36807, 38480, 21046, 58, 32] @ int_str (int (length data)) @ [32, 62, 32] @ int_str (rv_max_file_size env)))
     else op_return ())"

definition new_resume :: "ResumeEnv \<Rightarrow> UploadRequest \<Rightarrow> pystr \<Rightarrow> pystr \<Rightarrow> pystr \<Rightarrow> ResumeRow" where
  "new_resume env q detected key t = \<lparr>rs_id = 0, rs_file_hash = rv_sha256 env (up_data q), rs_original_filename = up_filename q,
     rs_file_size = Some (int (length (up_data q))), rs_content_type = Some (if up_content_type q = [] then detected else up_content_type q),
     rs_storage_key = Some key, rs_storage_url = Some (build_file_url (rv_storage env) key), rs_resume_text = Some t, rs_uploaded_at = 0,
     rs_last_accessed_at = None, rs_access_count = 1, rs_analyze_status = task_status_value T_PENDING, rs_analyze_error = None\<rparr>"

definition SCANNED_PDF :: pystr where "SCANNED_PDF = [26080, 27861, 20174, 25991, 20214, 20013, 25552, 21462, 25991, 26412, 20869, 23481, 65292, 35831, 30830, 20445, 25991, 20214, 19981, 26159, 25195, 25551, 29256, 80, 68, 70]"

definition store_resume :: "ResumeEnv \<Rightarrow> UploadRequest \<Rightarrow> pystr \<Rightarrow> ResumeUploadResponse resume_op" where
  "store_resume env q detected =
     op_bind (op_lift (parse_content (rv_parser env) (up_data q) (up_filename q))) (\<lambda>t.
     if blank t then op_raise (BusinessException RESUME_PARSE_FAILED SCANNED_PDF)
     else op_bind (with_storage (upload_file (rv_storage env) (up_date_path q) (up_uuid q) (up_data q) (up_filename q) RESUME_STORAGE_PREFIX)) (\<lambda>key.
     op_bind (resume_session (save_resume (new_resume env q detected key t))) (\<lambda>r.
     op_then (enqueue_analyze (rv_exc_str env) (rs_id r)) (op_return (upload_response False r)))))"

definition upload_resume :: "ResumeEnv \<Rightarrow> UploadRequest \<Rightarrow> ResumeUploadResponse resume_op" where
  "upload_resume env q = op_then (validate_resume_size env (up_data q))
     (let detected = detect_type (rv_parser env) (up_data q) (Some (up_filename q)) in
      if detected \<notin> set (rv_allowed_types env)
      then op_raise (BusinessException RESUME_FILE_TYPE_NOT_SUPPORTED ([19981, 25903, 25345, 30340, 25991, 20214, 31867, 22411, 58, 32] @ detected))
      else op_bind (op_get (\<lambda>w. find_by_hash (rv_sha256 env (up_data q)) (rz_db w))) (\<lambda>existing. case existing of
        Some r \<Rightarrow> op_then (resume_session (op_modify (increment_access_count (rs_id r)))) (op_return (upload_response True r))
      | None \<Rightarrow> store_resume env q detected))"

text \<open>\<open>business_exception\<close> with the message of the code.\<close>

definition require_resume :: "int \<Rightarrow> ResumeRow resume_op" where
  "require_resume i = op_bind (op_get (\<lambda>w. resume_by_id i (rz_db w))) (\<lambda>r. case r of
     None \<Rightarrow> op_raise (business_exception RESUME_NOT_FOUND None) | Some r \<Rightarrow> op_return r)"

record ResumeListItem =
  li_id :: int
  li_filename :: pystr
  li_file_size :: "int option"
  li_uploaded_at :: int
  li_access_count :: int
  li_latest_score :: "int option"
  li_last_analyzed_at :: "int option"
  li_interview_count :: int
  li_analyze_status :: pystr
  li_analyze_error :: "pystr option"

definition resume_list_item :: "ResumeDb \<Rightarrow> ResumeRow \<Rightarrow> ResumeListItem" where
  "resume_list_item db r = (let latest = find_latest_analysis (rs_id r) db in
     \<lparr>li_id = rs_id r, li_filename = rs_original_filename r, li_file_size = rs_file_size r, li_uploaded_at = rs_uploaded_at r,
      li_access_count = rs_access_count r, li_latest_score = (case latest of None \<Rightarrow> None | Some a \<Rightarrow> an_overall_score a),
      li_last_analyzed_at = map_option an_analyzed_at latest, li_interview_count = count_interviews_of (rs_id r) db,
      li_analyze_status = rs_analyze_status r, li_analyze_error = rs_analyze_error r\<rparr>)"

definition list_resumes :: "int \<Rightarrow> int \<Rightarrow> ResumeListItem list resume_op" where
  "list_resumes limit offset = op_get (\<lambda>w. page limit offset (map (resume_list_item (rz_db w)) (list_all_resumes (rz_db w))))"

record ResumeStats =
  st_total_count :: int
  st_total_interview_count :: int
  st_total_access_count :: int

definition get_statistics :: "ResumeStats resume_op" where
  "get_statistics = op_get (\<lambda>w. \<lparr>st_total_count = count_resumes (rz_db w),
     st_total_interview_count = int (length (rdb_interviews (rz_db w))), st_total_access_count = sum_access_count (rz_db w)\<rparr>)"

record AnalysisHistoryDTO =
  ah_row :: ResumeAnalysisRow
  ah_strengths :: "pystr list"
  ah_suggestions :: "(pystr, json) dict list"

text \<open>A column that is no list of texts, or of objects, fails in the response.\<close>

definition as_dict :: "json \<Rightarrow> (pystr, json) dict result" where
  "as_dict j = (case j of JObj d \<Rightarrow> Inr d | _ \<Rightarrow> Inl TypeError)"

definition read_column :: "(json \<Rightarrow> 'a result) \<Rightarrow> pystr option \<Rightarrow> 'a list result" where
  "read_column item raw = (let s = or_str raw [] in if s = [] then Inr [] else
     res_bind (loads s) (\<lambda>j. validated (case j of JArr js \<Rightarrow> res_traverse item js | _ \<Rightarrow> Inl TypeError)))"

definition to_analysis_dto :: "ResumeAnalysisRow \<Rightarrow> AnalysisHistoryDTO result" where
  "to_analysis_dto a = res_bind (read_column as_str (an_strengths_json a)) (\<lambda>strengths.
     res_map (\<lambda>suggestions. \<lparr>ah_row = a, ah_strengths = strengths, ah_suggestions = suggestions\<rparr>)
       (read_column as_dict (an_suggestions_json a)))"

record InterviewHistoryItem =
  hi_id :: int
  hi_session_id :: pystr
  hi_total_questions :: int
  hi_status :: pystr
  hi_evaluate_status :: "pystr option"
  hi_evaluate_error :: "pystr option"
  hi_overall_score :: "int option"
  hi_created_at :: int
  hi_completed_at :: "int option"

definition to_interview_history_item :: "SessionRow \<Rightarrow> InterviewHistoryItem" where
  "to_interview_history_item s = \<lparr>hi_id = is_id s, hi_session_id = is_session_id s, hi_total_questions = is_total_questions s,
     hi_status = is_status s, hi_evaluate_status = is_evaluate_status s, hi_evaluate_error = is_evaluate_error s,
     hi_overall_score = is_overall_score s, hi_created_at = is_created_at s, hi_completed_at = is_completed_at s\<rparr>"

record ResumeDetail =
  rd_resume :: ResumeRow
  rd_analyses :: "AnalysisHistoryDTO list"
  rd_interviews :: "InterviewHistoryItem list"

definition get_resume_detail :: "int \<Rightarrow> ResumeDetail resume_op" where
  "get_resume_detail i = op_bind (require_resume i) (\<lambda>r.
     op_bind (op_bind (op_get (\<lambda>w. find_analyses i (rz_db w))) (\<lambda>rows. op_lift (res_traverse to_analysis_dto rows))) (\<lambda>analyses.
     op_bind (op_get (\<lambda>w. map to_interview_history_item (interviews_by_resume_id i (rz_db w)))) (\<lambda>interviews.
     op_return \<lparr>rd_resume = r, rd_analyses = analyses, rd_interviews = interviews\<rparr>)))"

definition delete_resume :: "ResumeEnv \<Rightarrow> int \<Rightarrow> unit resume_op" where
  "delete_resume env i = op_bind (require_resume i) (\<lambda>r.
     op_then (if or_str (rs_storage_key r) [] = [] then op_return ()
       else op_try (with_storage (delete_file (rv_storage env) (or_str (rs_storage_key r) []))) (\<lambda>e. op_return ()))
     (resume_session (op_then (op_modify (delete_analyses i)) (op_modify (delete_resume_row i)))))"

definition reanalyze :: "ResumeEnv \<Rightarrow> int \<Rightarrow> unit resume_op" where
  "reanalyze env i = op_bind (require_resume i) (\<lambda>r.
     op_then (resume_session (op_modify (update_analyze_status i T_PENDING None))) (enqueue_analyze (rv_exc_str env) i))"

definition export_pdf :: "ResumeEnv \<Rightarrow> int \<Rightarrow> bytes resume_op" where
  "export_pdf env i = op_bind (require_resume i) (\<lambda>r.
     op_bind (op_get (\<lambda>w. find_latest_analysis i (rz_db w))) (\<lambda>a. case a of
       None \<Rightarrow> op_raise (business_exception RESUME_ANALYSIS_NOT_FOUND None)
     | Some a \<Rightarrow> op_lift (rv_export_pdf env r a)))"

section \<open>The analysis\<close>

record Suggestion =
  sg_category :: pystr
  sg_priority :: pystr
  sg_issue :: pystr
  sg_recommendation :: pystr

record ScoreDetail =
  sc_project :: int
  sc_skill_match :: int
  sc_content :: int
  sc_structure :: int
  sc_expression :: int

record ResumeAnalysisResult =
  rr_overall_score :: int
  rr_score_detail :: ScoreDetail
  rr_summary :: pystr
  rr_strengths :: "pystr list"
  rr_suggestions :: "Suggestion list"

record AnalysisEnv =
  ae_system_prompt :: "pystr result"
  ae_user_prompt :: "pystr \<Rightarrow> pystr result"
  ae_short_id :: pystr
  ae_client :: "unit result"
  ae_invoke :: "pystr \<Rightarrow> pystr \<Rightarrow> ResumeAnalysisResult result"
  ae_exc_str :: "exn \<Rightarrow> pystr"

definition RESUME_LABEL :: pystr where "RESUME_LABEL = [31616, 21382, 20869, 23481]"

definition degraded_result :: ResumeAnalysisResult where
  "degraded_result = \<lparr>rr_overall_score = 0, rr_score_detail = \<lparr>sc_project = 0, sc_skill_match = 0, sc_content = 0, sc_structure = 0, sc_expression = 0\<rparr>,
     rr_summary = [20998, 26512, 36807, 31243, 20013, 20986, 29616, 38169, 35823, 65292, 35831, 31245, 21518, 37325, 35797], rr_strengths = [],
     rr_suggestions = [\<lparr>sg_category = [31995, 32479], sg_priority = [39640], sg_issue = [65, 73, 20998, 26512, 26381, 21153, 26242, 26102, 19981, 21487, 29992],
       sg_recommendation = [35831, 31245, 21518, 37325, 35797, 65292, 25110, 26816, 26597, 65, 73, 26381, 21153, 26159, 21542, 27491, 24120, 36816, 34892]\<rparr>]\<rparr>"

definition analyze_resume :: "AnalysisEnv \<Rightarrow> pystr \<Rightarrow> ResumeAnalysisResult result" where
  "analyze_resume env t =
     (case res_bind (ae_system_prompt env) (\<lambda>system.
           res_bind (ae_user_prompt env (wrap_with_delimiters (ae_short_id env) RESUME_LABEL (sanitized t))) (\<lambda>user.
           res_bind (ae_client env) (\<lambda>_. ae_invoke env system user))) of
        Inl (BusinessException c m) \<Rightarrow> Inr degraded_result
      | r \<Rightarrow> r)"

definition suggestion_json :: "Suggestion \<Rightarrow> (pystr, json) dict" where
  "suggestion_json s = [(ascii ''category'', JStr (sg_category s)), (ascii ''priority'', JStr (sg_priority s)),
     (ascii ''issue'', JStr (sg_issue s)), (ascii ''recommendation'', JStr (sg_recommendation s))]"

definition to_analysis_entity :: "int \<Rightarrow> ResumeAnalysisResult \<Rightarrow> ResumeAnalysisRow" where
  "to_analysis_entity i r = \<lparr>an_id = 0, an_resume_id = i, an_overall_score = Some (rr_overall_score r),
     an_content_score = Some (sc_content (rr_score_detail r)), an_structure_score = Some (sc_structure (rr_score_detail r)),
     an_skill_match_score = Some (sc_skill_match (rr_score_detail r)), an_expression_score = Some (sc_expression (rr_score_detail r)),
     an_project_score = Some (sc_project (rr_score_detail r)), an_summary = Some (rr_summary r),
     an_strengths_json = Some (str_list_json (rr_strengths r)),
     an_suggestions_json = Some (dumps (JArr (map (\<lambda>s. JObj (suggestion_json s)) (rr_suggestions r)))), an_analyzed_at = 0\<rparr>"

section \<open>The consumer\<close>

definition parse_analyze_payload :: "stream_message \<Rightarrow> int option result" where
  "parse_analyze_payload data = (case dict_get data RESUME_ID_FIELD of
     None \<Rightarrow> Inr None
   | Some raw \<Rightarrow> (case py_int raw of Inr i \<Rightarrow> Inr (Some i) | Inl e \<Rightarrow> Inr None))"

definition analyze_done :: "ResumeRow \<Rightarrow> bool" where
  "analyze_done r \<longleftrightarrow> rs_analyze_status r = task_status_value T_COMPLETED"

definition analyze_mark_processing :: "int \<Rightarrow> unit resume_op" where
  "analyze_mark_processing i = resume_session (op_bind (op_get (resume_by_id i)) (\<lambda>v. case v of
     None \<Rightarrow> op_return ()
   | Some r \<Rightarrow> if analyze_done r then op_return () else op_modify (update_analyze_status i T_PROCESSING None)))"

definition analyze_process :: "AnalysisEnv \<Rightarrow> int \<Rightarrow> unit resume_op" where
  "analyze_process env i = resume_session (op_bind (op_get (resume_by_id i)) (\<lambda>v. case v of
     None \<Rightarrow> op_return ()
   | Some r \<Rightarrow> if analyze_done r then op_return () else
       op_bind (op_lift (analyze_resume env (or_str (rs_resume_text r) []))) (\<lambda>result.
       op_then (op_modify (delete_analyses i)) (op_modify (save_analysis (to_analysis_entity i result))))))"

definition analyze_set_status :: "AsyncTaskStatus \<Rightarrow> int \<Rightarrow> pystr option \<Rightarrow> unit resume_op" where
  "analyze_set_status status i err = resume_session (op_bind (op_get (resume_by_id i)) (\<lambda>r.
     op_when (r \<noteq> None) (op_modify (update_analyze_status i status err))))"

definition analyze_mark_completed :: "int \<Rightarrow> unit resume_op" where
  "analyze_mark_completed i = analyze_set_status T_COMPLETED i None"

definition analyze_mark_failed :: "int \<Rightarrow> pystr \<Rightarrow> unit resume_op" where
  "analyze_mark_failed i err = analyze_set_status T_FAILED i (Some err)"

definition analyze_retry_message :: "int \<Rightarrow> int \<Rightarrow> unit resume_op" where
  "analyze_retry_message i retry_count = analyze_xadd (analyze_message i retry_count)"

definition analyze_handlers :: "AnalysisEnv \<Rightarrow> (ResumeWorld, int) StreamHandlers" where
  "analyze_handlers env = \<lparr>h_parse_payload = parse_analyze_payload, h_should_skip = (\<lambda>p. False),
     h_try_mark_processing = (\<lambda>p. op_then (analyze_mark_processing p) (op_return True)),
     h_process_business = analyze_process env, h_mark_completed = analyze_mark_completed,
     h_mark_failed = analyze_mark_failed, h_retry_message = analyze_retry_message, h_xack = resume_redis (op_return ())\<rparr>"

definition analyze_retry_count :: "stream_message \<Rightarrow> int" where
  "analyze_retry_count data = (case py_int (dict_get_default data FIELD_RETRY_COUNT (ascii ''0'')) of Inl e \<Rightarrow> 0 | Inr n \<Rightarrow> n)"

definition consume_analyze :: "AnalysisEnv \<Rightarrow> stream_message \<Rightarrow> unit resume_op" where
  "consume_analyze env data = process_message (analyze_handlers env) (\<lambda>e. truncate_error (ae_exc_str env e)) analyze_retry_count data"

end
