(* ===== verification/Resume_System.thy ===== *)
theory Resume_System
  imports Resume_Service
begin

text \<open>
  The resume library over any run of requests, delivered messages and failures: what its rows always
  satisfy, and that an uploaded resume is analysed.
\<close>

section \<open>Runs\<close>

datatype ResumeCommand =
    RC_Upload UploadRequest
  | RC_Reanalyze int
  | RC_Delete int
  | RC_Deliver AnalysisEnv stream_message
  | RC_Trouble "bool list" "bool list"
  | RC_Interviews "SessionRow list"
  | RC_Tick

definition as_done :: "'a resume_op \<Rightarrow> unit resume_op" where
  "as_done m = op_bind m (\<lambda>_. op_return ())"

primrec resume_exec :: "ResumeEnv \<Rightarrow> ResumeCommand \<Rightarrow> unit resume_op" where
  "resume_exec env (RC_Upload q) = as_done (upload_resume env q)"
| "resume_exec env (RC_Reanalyze i) = reanalyze env i"
| "resume_exec env (RC_Delete i) = delete_resume env i"
| "resume_exec env (RC_Deliver aenv m) = consume_analyze aenv m"
| "resume_exec env (RC_Trouble fs gs) = op_modify (\<lambda>w. w\<lparr>rz_redis_faults := fs, rz_s3 := (rz_s3 w)\<lparr>s3_faults := gs\<rparr>\<rparr>)"
| "resume_exec env (RC_Interviews rows) = op_modify (\<lambda>w. w\<lparr>rz_db := (rz_db w)\<lparr>rdb_interviews := rows\<rparr>\<rparr>)"
| "resume_exec env RC_Tick = op_modify (\<lambda>w. w\<lparr>rz_db := (rz_db w)\<lparr>rdb_now := rdb_now (rz_db w) + 1\<rparr>\<rparr>)"

definition resume_run :: "ResumeEnv \<Rightarrow> ResumeCommand list \<Rightarrow> ResumeWorld \<Rightarrow> ResumeWorld" where
  "resume_run env cmds w = fold (\<lambda>c w. snd (resume_exec env c w)) cmds w"

definition empty_resume_world :: ResumeWorld where
  "empty_resume_world = \<lparr>rz_db = \<lparr>rdb_resumes = [], rdb_analyses = [], rdb_interviews = [], rdb_fresh = 1, rdb_now = 0\<rparr>,
     rz_s3 = \<lparr>s3_objects = [], s3_faults = []\<rparr>, rz_stream = [], rz_redis_faults = []\<rparr>"

section \<open>The invariant\<close>

definition resume_row_ok :: "ResumeRow \<Rightarrow> bool" where
  "resume_row_ok r \<longleftrightarrow> \<not> blank (or_str (rs_resume_text r) []) \<and> 1 \<le> rs_access_count r"

definition readable :: "ResumeAnalysisRow \<Rightarrow> bool" where
  "readable a \<longleftrightarrow> (\<exists>dto. to_analysis_dto a = Inr dto)"

definition resumes_ok :: "ResumeDb \<Rightarrow> bool" where
  "resumes_ok db \<longleftrightarrow> distinct (map rs_file_hash (rdb_resumes db)) \<and> distinct (map rs_id (rdb_resumes db))
     \<and> (\<forall>r \<in> set (rdb_resumes db). rs_id r < rdb_fresh db \<and> resume_row_ok r)
     \<and> distinct (map an_resume_id (rdb_analyses db))
     \<and> (\<forall>a \<in> set (rdb_analyses db). an_resume_id a \<in> rs_id ` set (rdb_resumes db) \<and> readable a)
     \<and> (\<forall>r \<in> set (rdb_resumes db). analyze_done r \<longrightarrow> rs_id r \<in> an_resume_id ` set (rdb_analyses db))"

abbreviation world_resumes_ok :: "ResumeWorld \<Rightarrow> bool" where
  "world_resumes_ok w \<equiv> resumes_ok (rz_db w)"

lemma session_inv: "op_inv resumes_ok m \<Longrightarrow> op_inv world_resumes_ok (resume_session m)"
  by (fastforce simp: op_inv_def resume_session_def split: prod.split sum.split)

lemma resume_storage_inv [op_rules]: "op_inv world_resumes_ok (with_storage m)"
  by (auto simp: op_inv_def with_storage_def split: prod.split)

lemma redis_resume_inv [op_rules]:
  assumes "op_inv world_resumes_ok m" shows "op_inv world_resumes_ok (resume_redis m)"
proof (rule op_invI)
  fix w assume "world_resumes_ok w"
  then show "world_resumes_ok (snd (resume_redis m w))"
    using op_invD [OF assms] by (auto simp: resume_redis_def split: list.split bool.split)
qed

lemma xadd_inv [op_rules]: "op_inv world_resumes_ok (analyze_xadd m)"
  unfolding analyze_xadd_def by (intro op_rules op_inv_modify) simp

lemma update_resume_same:
  assumes "\<And>r. rs_id (f r) = rs_id r" "\<And>r. rs_file_hash (f r) = rs_file_hash r"
  shows "map rs_id (rdb_resumes (update_resume i f db)) = map rs_id (rdb_resumes db)"
    "map rs_file_hash (rdb_resumes (update_resume i f db)) = map rs_file_hash (rdb_resumes db)"
    "rdb_analyses (update_resume i f db) = rdb_analyses db" "rdb_fresh (update_resume i f db) = rdb_fresh db"
    "rs_id ` set (rdb_resumes (update_resume i f db)) = rs_id ` set (rdb_resumes db)"
proof -
  show ids: "map rs_id (rdb_resumes (update_resume i f db)) = map rs_id (rdb_resumes db)"
    "map rs_file_hash (rdb_resumes (update_resume i f db)) = map rs_file_hash (rdb_resumes db)"
    "rdb_analyses (update_resume i f db) = rdb_analyses db" "rdb_fresh (update_resume i f db) = rdb_fresh db"
    using assms by (auto simp: update_resume_def)
  show "rs_id ` set (rdb_resumes (update_resume i f db)) = rs_id ` set (rdb_resumes db)"
    using ids(1) by (metis set_map)
qed

lemma update_resume_ok:
  assumes "resumes_ok db" "\<And>r. rs_id (f r) = rs_id r" "\<And>r. rs_file_hash (f r) = rs_file_hash r" "\<And>r. resume_row_ok r \<Longrightarrow> resume_row_ok (f r)"
    and "\<And>r. analyze_done (f r) \<Longrightarrow> rs_id r = i \<Longrightarrow> analyze_done r \<or> i \<in> an_resume_id ` set (rdb_analyses db)"
  shows "resumes_ok (update_resume i f db)"
proof -
  have "rs_id r < rdb_fresh db \<and> resume_row_ok r \<and> (analyze_done r \<longrightarrow> rs_id r \<in> an_resume_id ` set (rdb_analyses db))"
    if r: "r \<in> set (rdb_resumes (update_resume i f db))" for r
  proof -
    from r obtain r0 where "r0 \<in> set (rdb_resumes db)" "r = (if rs_id r0 = i then f r0 else r0)" by (auto simp: update_resume_def)
    then show ?thesis using assms(1,2,4) assms(5) [of r0] unfolding resumes_ok_def by (cases "rs_id r0 = i") auto
  qed
  with assms(1) show ?thesis unfolding resumes_ok_def update_resume_same [OF assms(2,3)] by blast
qed

lemma status_ok:
  assumes "resumes_ok db" "status = T_COMPLETED \<Longrightarrow> i \<in> an_resume_id ` set (rdb_analyses db) \<or> i \<notin> rs_id ` set (rdb_resumes db)"
  shows "resumes_ok (update_analyze_status i status err db)"
proof (cases "i \<in> rs_id ` set (rdb_resumes db)")
  case False
  then have "map (\<lambda>r. if rs_id r = i then r\<lparr>rs_analyze_status := task_status_value status, rs_analyze_error := err\<rparr> else r)
      (rdb_resumes db) = rdb_resumes db" by (intro map_idI) auto
  then have "update_analyze_status i status err db = db" by (simp add: update_analyze_status_def update_resume_def)
  with assms show ?thesis by simp
next
  case True
  have "status = T_COMPLETED" if "task_status_value status = task_status_value T_COMPLETED"
    using that by (cases status) (simp_all add: ascii_def)
  with assms True show ?thesis
    unfolding update_analyze_status_def by (intro update_resume_ok) (auto simp: resume_row_ok_def analyze_done_def)
qed

lemma access_ok: "resumes_ok db \<Longrightarrow> resumes_ok (increment_access_count i db)"
  unfolding increment_access_count_def by (rule update_resume_ok) (auto simp: resume_row_ok_def analyze_done_def)

lemma resume_delete_ok:
  assumes "resumes_ok db" shows "resumes_ok (delete_resume_row i (delete_analyses i db))"
  using assms by (auto simp: resumes_ok_def delete_resume_row_def delete_analyses_def distinct_map_filter image_iff)

lemma read_written_suggestions:
  "read_column as_dict (Some (dumps (JArr (map (\<lambda>s. JObj (suggestion_json s)) ss)))) = Inr (map suggestion_json ss)"
proof -
  have "json_wf (JArr (map (\<lambda>s. JObj (suggestion_json s)) ss))" by (simp add: list_all_iff suggestion_json_def)
  then have l: "loads (dumps (JArr (map (\<lambda>s. JObj (suggestion_json s)) ss))) = Inr (JArr (map (\<lambda>s. JObj (suggestion_json s)) ss))"
    by (rule loads_dumps)
  then have "dumps (JArr (map (\<lambda>s. JObj (suggestion_json s)) ss)) \<noteq> []" by (auto simp: loads_def)
  with l show ?thesis
    using res_traverse_const [of ss as_dict "\<lambda>s. JObj (suggestion_json s)" suggestion_json]
    by (simp add: read_column_def or_str_def as_dict_def del: dumps.simps)
qed

lemma read_written_strengths: "read_column as_str (Some (str_list_json ss)) = Inr ss"
proof -
  have "json_wf (JArr (map JStr ss))" by (simp add: list_all_iff)
  then have l: "loads (dumps (JArr (map JStr ss))) = Inr (JArr (map JStr ss))" by (rule loads_dumps)
  then have "dumps (JArr (map JStr ss)) \<noteq> []" by (auto simp: loads_def)
  with l show ?thesis by (simp add: read_column_def or_str_def str_list_json_def del: dumps.simps)
qed

lemma entity_dto:
  "to_analysis_dto (to_analysis_entity i result\<lparr>an_id := k, an_analyzed_at := t\<rparr>)
    = Inr \<lparr>ah_row = to_analysis_entity i result\<lparr>an_id := k, an_analyzed_at := t\<rparr>, ah_strengths = rr_strengths result,
        ah_suggestions = map suggestion_json (rr_suggestions result)\<rparr>"
  by (simp add: to_analysis_dto_def to_analysis_entity_def read_written_suggestions read_written_strengths del: dumps.simps)

lemma save_analysis_ok:
  assumes "resumes_ok db" "i \<in> rs_id ` set (rdb_resumes db)"
  shows "resumes_ok (save_analysis (to_analysis_entity i result) (delete_analyses i db))"
proof -
  have "an_resume_id (to_analysis_entity i result) = i" by (simp add: to_analysis_entity_def)
  moreover have "readable (to_analysis_entity i result\<lparr>an_id := k, an_analyzed_at := t\<rparr>)" for k t
    unfolding readable_def entity_dto by blast
  ultimately show ?thesis using assms
    by (auto simp: resumes_ok_def save_analysis_def delete_analyses_def distinct_map_filter less_Suc_eq intro: less_trans)
      force+
qed

lemma save_resume_inv:
  assumes "resume_row_ok row" "\<not> analyze_done row"
  shows "op_inv resumes_ok (save_resume row)"
proof (rule op_invI)
  fix db assume "resumes_ok db"
  then show "resumes_ok (snd (save_resume row db))"
    using assms by (auto simp: save_resume_def Let_def resumes_ok_def resume_row_ok_def analyze_done_def find_by_hash_def find_None_iff)
qed

section \<open>Every command keeps it\<close>

lemma inv_get_case: "(\<And>v. op_inv P (f v)) \<Longrightarrow> op_inv P (op_bind (op_get g) f)"
  by (intro op_rules)

lemma set_status_inv:
  assumes "status \<noteq> T_COMPLETED"
  shows "op_inv resumes_ok (op_modify (update_analyze_status i status err))"
  by (intro op_inv_modify status_ok) (simp_all add: assms)

lemma resume_send_failed_inv [op_rules]: "op_inv world_resumes_ok (analyze_send_failed i err)"
  unfolding analyze_send_failed_def by (intro op_rules session_inv set_status_inv) simp

lemma resume_enqueue_inv [op_rules]: "op_inv world_resumes_ok (enqueue_analyze exc_str i)"
  unfolding enqueue_analyze_def by (intro op_rules)

lemma new_resume_ok: "\<not> blank t \<Longrightarrow> resume_row_ok (new_resume env q d key t) \<and> \<not> analyze_done (new_resume env q d key t)"
  by (auto simp: resume_row_ok_def new_resume_def analyze_done_def or_str_def ascii_def)

lemma store_inv [op_rules]: "op_inv world_resumes_ok (store_resume env q d)"
proof -
  have "op_inv world_resumes_ok (if blank t then op_raise e else
      op_bind (with_storage m) (\<lambda>key. op_bind (resume_session (save_resume (new_resume env q d key t))) (\<lambda>r.
        op_then (enqueue_analyze x (rs_id r)) (op_return (upload_response False r)))))" for t e m x
  proof (cases "blank t")
    case False
    then show ?thesis
      by (simp only: if_False) (intro op_rules session_inv save_resume_inv, simp_all add: new_resume_ok)
  qed (simp add: op_rules)
  then show ?thesis unfolding store_resume_def by (rule op_inv_bind [OF op_inv_pure(4)])
qed

lemma upload_inv [op_rules]: "op_inv world_resumes_ok (upload_resume env q)"
  unfolding upload_resume_def validate_resume_size_def Let_def by (intro op_rules session_inv op_inv_modify access_ok)

lemma require_inv [op_rules]: "op_inv world_resumes_ok (require_resume i)"
  unfolding require_resume_def by (intro op_rules)

lemma reanalyze_inv [op_rules]: "op_inv world_resumes_ok (reanalyze env i)"
  unfolding reanalyze_def by (intro op_rules session_inv set_status_inv) simp

lemma delete_inv [op_rules]: "op_inv world_resumes_ok (delete_resume env i)"
proof -
  have "op_inv resumes_ok (op_then (op_modify (delete_analyses i)) (op_modify (delete_resume_row i)))"
    by (rule op_invI) (simp add: op_simps resume_delete_ok)
  note inv = session_inv [OF this]
  show ?thesis unfolding delete_resume_def by (intro inv op_rules)
qed

lemma resume_by_idD: "resume_by_id i db = Some r \<Longrightarrow> r \<in> set (rdb_resumes db) \<and> rs_id r = i"
  by (auto simp: resume_by_id_def find_Some_iff)

lemma resume_by_id_None: "resume_by_id i db = None \<longleftrightarrow> i \<notin> rs_id ` set (rdb_resumes db)"
  by (auto simp: resume_by_id_def find_None_iff)

lemma mark_processing_resume_inv [op_rules]: "op_inv world_resumes_ok (analyze_mark_processing i)"
  unfolding analyze_mark_processing_def by (intro op_rules session_inv set_status_inv) simp

lemma process_inv: "op_inv world_resumes_ok (analyze_process env i)"
  unfolding analyze_process_def
proof (rule session_inv, rule op_invI)
  fix db assume ok: "resumes_ok db"
  show "resumes_ok (snd (op_bind (op_get (resume_by_id i)) (\<lambda>v. case v of None \<Rightarrow> op_return ()
   | Some r \<Rightarrow> if analyze_done r then op_return () else op_bind (op_lift (analyze_resume env (or_str (rs_resume_text r) []))) (\<lambda>result.
       op_then (op_modify (delete_analyses i)) (op_modify (save_analysis (to_analysis_entity i result))))) db))"
  proof (cases "resume_by_id i db")
    case (Some r)
    then have "i \<in> rs_id ` set (rdb_resumes db)" using resume_by_idD by blast
    with ok Some show ?thesis
      by (cases "analyze_resume env (or_str (rs_resume_text r) [])") (simp_all add: op_simps save_analysis_ok)
  qed (simp add: op_simps ok)
qed

text \<open>After the business step the resume is gone or has its analysis, so marking it completed is justified.\<close>

lemma processed_has_analysis:
  assumes "world_resumes_ok w" "analyze_process env i w = (Inr (), w')"
  shows "i \<in> an_resume_id ` set (rdb_analyses (rz_db w')) \<or> i \<notin> rs_id ` set (rdb_resumes (rz_db w'))"
proof (cases "resume_by_id i (rz_db w)")
  case None
  then have "w' = w" using assms(2) by (auto simp: analyze_process_def resume_session_def op_simps)
  then show ?thesis using None by (simp add: resume_by_id_None)
next
  case (Some r)
  show ?thesis
  proof (cases "analyze_done r")
    case True
    then have "w' = w" using assms(2) Some by (auto simp: analyze_process_def resume_session_def op_simps)
    then show ?thesis using True assms(1) resume_by_idD [OF Some] by (auto simp: resumes_ok_def)
  next
    case False
    then obtain result where "w' = w\<lparr>rz_db := save_analysis (to_analysis_entity i result) (delete_analyses i (rz_db w))\<rparr>"
      using assms(2) Some by (auto simp: analyze_process_def resume_session_def op_simps split: sum.splits)
    then show ?thesis by (simp add: save_analysis_def to_analysis_entity_def)
  qed
qed

lemma mark_completed_at:
  assumes "world_resumes_ok w" "i \<in> an_resume_id ` set (rdb_analyses (rz_db w)) \<or> i \<notin> rs_id ` set (rdb_resumes (rz_db w))"
  shows "world_resumes_ok (snd (analyze_mark_completed i w))"
  using status_ok [OF assms(1), of T_COMPLETED i] assms
  by (auto simp: analyze_mark_completed_def analyze_set_status_def resume_session_def op_simps)

lemma ack_resume_inv: "op_inv world_resumes_ok (ack (analyze_handlers env))"
  unfolding ack_def analyze_handlers_def by (simp, intro op_rules)

lemma settle_inv:
  "op_inv world_resumes_ok (op_then (analyze_process env i) (op_then (analyze_mark_completed i) (ack (analyze_handlers env'))))"
proof (rule op_invI)
  fix w assume w: "world_resumes_ok w"
  obtain res w' where p: "analyze_process env i w = (res, w')" by fastforce
  then have w': "world_resumes_ok w'" using op_invD [OF process_inv w, of env i] by simp
  show "world_resumes_ok (snd (op_then (analyze_process env i) (op_then (analyze_mark_completed i) (ack (analyze_handlers env'))) w))"
  proof (cases res)
    case (Inr u)
    then have "world_resumes_ok (snd (analyze_mark_completed i w'))"
      using mark_completed_at [OF w'] processed_has_analysis [OF w] p by simp
    then have "world_resumes_ok (snd (op_then (analyze_mark_completed i) (ack (analyze_handlers env')) w'))"
      by (rule op_then_at) (rule ack_resume_inv)
    then show ?thesis by (simp add: op_simps p Inr)
  qed (simp add: op_simps p w')
qed

lemma consume_analyze_inv [op_rules]: "op_inv world_resumes_ok (consume_analyze env m)"
proof -
  have f: "op_inv world_resumes_ok (analyze_mark_failed i err)" for i err
    unfolding analyze_mark_failed_def analyze_set_status_def by (intro op_rules session_inv set_status_inv) simp
  have "op_inv world_resumes_ok (handle_payload (analyze_handlers env) x n i)" for x n i
  proof -
    have fields: "h_should_skip (analyze_handlers env) = (\<lambda>p. False)" "h_process_business (analyze_handlers env) = analyze_process env"
      "h_try_mark_processing (analyze_handlers env) = (\<lambda>p. op_then (analyze_mark_processing p) (op_return True))"
      "h_mark_completed (analyze_handlers env) = analyze_mark_completed" "h_mark_failed (analyze_handlers env) = analyze_mark_failed"
      "h_retry_message (analyze_handlers env) = analyze_retry_message" by (simp_all add: analyze_handlers_def)
    show ?thesis unfolding handle_payload_def fields if_False analyze_retry_message_def
      by (intro op_rules ack_resume_inv settle_inv f)
  qed
  then show ?thesis unfolding consume_analyze_def process_message_def
    by (auto simp: ack_resume_inv split: sum.split option.split)
qed

lemma exec_ok: "op_inv world_resumes_ok (resume_exec env c)"
proof (cases c)
  case (RC_Upload q)
  then show ?thesis by (simp add: as_done_def op_rules)
next
  case (RC_Interviews rows)
  then show ?thesis by (auto simp: resumes_ok_def intro!: op_inv_modify)
next
  case RC_Tick
  then show ?thesis by (auto simp: resumes_ok_def intro!: op_inv_modify)
qed (simp_all add: op_rules op_inv_modify)

lemma resume_run_ok: "world_resumes_ok (resume_run env cmds empty_resume_world)"
proof -
  have run: "world_resumes_ok (fold (\<lambda>c w. snd (resume_exec env c w)) cmds w)" if "world_resumes_ok w" for w
    using that
  proof (induction cmds arbitrary: w)
    case (Cons c cmds)
    have "world_resumes_ok (snd (resume_exec env c w))" using exec_ok Cons.prems by (rule op_invD)
    from Cons.IH [OF this] show ?case by simp
  qed simp
  have "world_resumes_ok empty_resume_world" by (simp add: empty_resume_world_def resumes_ok_def)
  from run [OF this] show ?thesis unfolding resume_run_def .
qed

lemma length_filter_key: "distinct (map key xs) \<Longrightarrow> length (filter (\<lambda>x. key x = k) xs) = (if k \<in> key ` set xs then 1 else 0)"
  by (induction xs) (auto simp: filter_empty_conv image_iff)

lemma res_traverse_total: "(\<And>x. x \<in> set xs \<Longrightarrow> \<exists>y. f x = Inr y) \<Longrightarrow> \<exists>ys. res_traverse f xs = Inr ys"
proof (induction xs)
  case (Cons x xs)
  then obtain y ys where "f x = Inr y" "res_traverse f xs = Inr ys" by fastforce
  then show ?case by simp
qed simp

text \<open>
  C11. Whatever requests, messages and failures come, no two resumes hold the same file, every resume has
  text, a resume has at most one analysis and exactly one when its task is COMPLETED, and the details of
  a stored resume can always be read.
\<close>

theorem resume_library_consistent:
  assumes "w = resume_run env cmds empty_resume_world" "r \<in> set (rdb_resumes (rz_db w))"
  shows "distinct (map rs_file_hash (rdb_resumes (rz_db w))) \<and> \<not> blank (or_str (rs_resume_text r) [])
     \<and> (\<exists>d. fst (get_resume_detail (rs_id r) w) = Inr d \<and> rd_resume d = r \<and> length (rd_analyses d) \<le> 1
         \<and> (analyze_done r \<longrightarrow> length (rd_analyses d) = 1))"
proof -
  let ?db = "rz_db w" and ?rows = "find_analyses (rs_id r) (rz_db w)"
  have ok: "resumes_ok ?db" unfolding assms(1) by (rule resume_run_ok)
  have found: "resume_by_id (rs_id r) ?db = Some r"
  proof -
    obtain k where "k < length (rdb_resumes ?db)" "r = rdb_resumes ?db ! k" using assms(2) by (metis in_set_conv_nth)
    then show ?thesis using ok find_at [of rs_id "rdb_resumes ?db" k] by (simp add: resume_by_id_def resumes_ok_def)
  qed
  have rows: "set ?rows \<subseteq> set (rdb_analyses ?db)"
    "length ?rows = (if rs_id r \<in> an_resume_id ` set (rdb_analyses ?db) then 1 else 0)"
    using ok length_filter_key [of an_resume_id "rdb_analyses ?db" "rs_id r"] by (auto simp: find_analyses_def resumes_ok_def)
  have "\<exists>dto. to_analysis_dto a = Inr dto" if "a \<in> set ?rows" for a
    using that rows(1) ok by (auto simp: resumes_ok_def readable_def)
  then obtain dtos where dtos: "res_traverse to_analysis_dto ?rows = Inr dtos" using res_traverse_total by blast
  then have len: "length dtos = length ?rows" by (rule res_traverse_length)
  have "fst (get_resume_detail (rs_id r) w) = Inr \<lparr>rd_resume = r, rd_analyses = dtos,
      rd_interviews = map to_interview_history_item (interviews_by_resume_id (rs_id r) ?db)\<rparr>"
    by (simp add: get_resume_detail_def require_resume_def op_simps found dtos)
  moreover have "analyze_done r \<longrightarrow> length dtos = 1" using ok assms(2) rows(2) len by (auto simp: resumes_ok_def)
  moreover have "length dtos \<le> 1" using rows(2) len by simp
  moreover have "distinct (map rs_file_hash (rdb_resumes ?db))" "\<not> blank (or_str (rs_resume_text r) [])"
    using ok assms(2) by (auto simp: resumes_ok_def resume_row_ok_def)
  ultimately show ?thesis by simp
qed

definition plain_parser :: ParserEnv where
  "plain_parser = \<lparr>pe_guess = (\<lambda>data. None), pe_lower = (\<lambda>s. s), pe_extract_text = (\<lambda>data. Inl TypeError),
     pe_partition_docx = (\<lambda>data. Inl TypeError), pe_exc_str = (\<lambda>e. [])\<rparr>"

definition sample_resume_env :: ResumeEnv where
  "sample_resume_env = \<lparr>rv_parser = plain_parser, rv_storage = \<lparr>se_endpoint = [], se_bucket = [], se_pinyin = (\<lambda>c. []), se_capitalize = (\<lambda>s. s),
     se_exc_str = (\<lambda>e. [])\<rparr>, rv_sha256 = map unat, rv_allowed_types = [ascii ''text/plain''], rv_max_file_size = 10, rv_exc_str = (\<lambda>e. []),
     rv_export_pdf = (\<lambda>r a. Inl TypeError)\<rparr>"

definition sample_upload :: UploadRequest where
  "sample_upload = \<lparr>up_filename = ascii ''a.txt'', up_content_type = [], up_data = [120], up_date_path = [49], up_uuid = [50]\<rparr>"

lemma clean_letter: "clean_text (Some [120]) = [120]"
  by (simp add: clean_text_def blank_def py_strip_def is_space_def strip_noise_def unix_newlines_def py_replace_def rx_sub_def sub_from.simps
      match_at_def CONTROL_CHARS_def is_control_def IMAGE_FILENAME_LINE_def IMAGE_URL_def FILE_URL_def SEPARATOR_LINE_def Lit_def Lit_ci_def
      ascii_def same_letter_def run_lengths_def TRAILING_SPACES_def is_blank_char_def MULTI_NEWLINES_def Let_def
      advance_def last_char_def upt_rec)

lemma sample_text:
  "detect_type plain_parser [120] (Some (ascii ''a.txt'')) = ascii ''text/plain''"
  "parse_content plain_parser [120] (ascii ''a.txt'') = Inr [120]"
proof -
  show t: "detect_type plain_parser [120] (Some (ascii ''a.txt'')) = ascii ''text/plain''"
    by (simp add: detect_type_def plain_parser_def extension_def EXT_MAP_def dict_get_default_def ascii_def)
  have "utf8_replace [120] = [120]"
    by (simp add: utf8_replace_def utf8_replace_run.simps utf8_step_def sequence_length_def)
  then have "raw_text plain_parser [120] (ascii ''a.txt'') = Inr [120]"
    by (simp add: raw_text_def t is_plain_text_def) (simp add: plain_parser_def ascii_def)
  then show "parse_content plain_parser [120] (ascii ''a.txt'') = Inr [120]"
    by (simp add: parse_content_def clean_letter MAX_TEXT_LENGTH_def)
qed

theorem resume_library_consistent_witness:
  "\<exists>w r d. w = resume_run sample_resume_env [RC_Upload sample_upload] empty_resume_world \<and> rdb_resumes (rz_db w) = [r]
     \<and> fst (get_resume_detail (rs_id r) w) = Inr d \<and> rd_resume d = r \<and> rs_resume_text r = Some [120]"
proof -
  let ?w = "resume_run sample_resume_env [RC_Upload sample_upload] empty_resume_world"
  have t: "\<not> blank [120]" by (simp add: blank_def py_strip_def is_space_def)
  have "\<exists>r. rdb_resumes (rz_db ?w) = [r] \<and> rs_resume_text r = Some [120]"
    by (simp add: resume_run_def as_done_def upload_resume_def validate_resume_size_def sample_resume_env_def sample_upload_def sample_text Let_def
        empty_resume_world_def find_by_hash_def store_resume_def op_simps t with_storage_def upload_file_def storage_try_def s3_call_def
        resume_session_def save_resume_def new_resume_def enqueue_analyze_def analyze_xadd_def resume_redis_def)
  then obtain r where r: "rdb_resumes (rz_db ?w) = [r]" "rs_resume_text r = Some [120]" by blast
  then have "r \<in> set (rdb_resumes (rz_db ?w))" by simp
  from resume_library_consistent [OF refl this] r show ?thesis by blast
qed

end
