(* ===== verification/Spec2Isabelle.thy ===== *)
theory Spec2Isabelle
  imports Lifecycles Skill_Allocation Question_Gen Json Retrieval Voice_Dialogue Adaptive_Strategy Interview_Lifecycle Kb_Questions Voice_Transcript Rag_Chat Agent_Service Llm_System Audio_Utils Py_Regex Prompt_Sanitizer Text_Cleaner Document_Parser Schedule_Parser Schedule_Service Evaluation_Read File_Storage Resume_Service Resume_System
begin

text \<open>
  Interview agent backend: verification development.
\<close>

end
